(* ===== verification/Prelude.thy ===== *)
theory Prelude
  imports Main "HOL-Library.List_Lexorder" "HOL-Library.Char_ord" "HOL-Library.Word"
begin

text \<open>The part of the Go language and standard library the operator's code rests on: strings
  as byte lists with the operations of package \<open>strings\<close>, the verbs of \<open>fmt.Sprintf\<close> that the
  sources use (\<open>%d\<close>, \<open>%q\<close>, \<open>%s\<close> of a \<open>time.Duration\<close>), Go maps with string keys as association
  lists, 64-bit durations with their wrap-around, and Go errors as values with their wrapping
  chain. The lemmas here are the ones the component theories share; the collections
  \<open>go_string\<close> and \<open>go_error\<close> gather the facts their proofs rewrite with.\<close>

named_theorems go_string "facts on the Go string operations"
named_theorems go_error "facts on Go error chains"

section \<open>Strings\<close>

definition HasPrefix :: "string \<Rightarrow> string \<Rightarrow> bool" where
  "HasPrefix s p = (take (length p) s = p)"

definition HasSuffix :: "string \<Rightarrow> string \<Rightarrow> bool" where
  "HasSuffix s p = HasPrefix (rev s) (rev p)"

fun Contains :: "string \<Rightarrow> string \<Rightarrow> bool" where
  "Contains [] p = (p = [])"
| "Contains (c # s) p = (HasPrefix (c # s) p \<or> Contains s p)"

fun Join :: "string list \<Rightarrow> string \<Rightarrow> string" where
  "Join [] sep = []"
| "Join [x] sep = x"
| "Join (x # y # xs) sep = x @ sep @ Join (y # xs) sep"

definition ContainsAny :: "string \<Rightarrow> string \<Rightarrow> bool" where
  "ContainsAny s chars = list_ex (\<lambda>c. c \<in> set chars) s"

text \<open>The UTF-8 encodings of the runes \<open>unicode.IsSpace\<close> accepts; \<open>strings.TrimSpace\<close> removes
  them from both ends.\<close>

definition space_runes :: "string list" where
  "space_runes = [[CHR 0x09], [CHR 0x0A], [CHR 0x0B], [CHR 0x0C], [CHR 0x0D], [CHR 0x20],
     [CHR 0xC2, CHR 0x85], [CHR 0xC2, CHR 0xA0], [CHR 0xE1, CHR 0x9A, CHR 0x80]]
   @ map (\<lambda>b. [CHR 0xE2, CHR 0x80, b])
      [CHR 0x80, CHR 0x81, CHR 0x82, CHR 0x83, CHR 0x84, CHR 0x85, CHR 0x86, CHR 0x87,
       CHR 0x88, CHR 0x89, CHR 0x8A, CHR 0xA8, CHR 0xA9, CHR 0xAF]
   @ [[CHR 0xE2, CHR 0x81, CHR 0x9F], [CHR 0xE3, CHR 0x80, CHR 0x80]]"

lemma drop_prefix_less: "\<lbrakk>HasPrefix s p; p \<noteq> []\<rbrakk> \<Longrightarrow> length s - length p < length s"
  by (cases s; cases p) (auto simp: HasPrefix_def)

text \<open>\<open>trim_prefixes\<close> strips leading members of a list of non-empty strings.\<close>

function trim_prefixes :: "string list \<Rightarrow> string \<Rightarrow> string" where
  "trim_prefixes ps s =
     (case find (\<lambda>p. p \<noteq> [] \<and> HasPrefix s p) ps of
        None \<Rightarrow> s
      | Some p \<Rightarrow> trim_prefixes ps (drop (length p) s))"
  by pat_completeness auto
termination
  by (relation "measure (\<lambda>(ps, s). length s)") (auto simp: find_Some_iff drop_prefix_less)

declare trim_prefixes.simps [simp del]

definition TrimSpace :: "string \<Rightarrow> string" where
  "TrimSpace s = rev (trim_prefixes (map rev space_runes) (rev (trim_prefixes space_runes s)))"

lemma trim_prefixes_Nil [simp]: "trim_prefixes ps [] = []"
proof -
  have "find (\<lambda>p. p \<noteq> [] \<and> HasPrefix [] p) ps = None" by (simp add: find_None_iff HasPrefix_def)
  then show ?thesis by (subst trim_prefixes.simps) simp
qed

lemma TrimSpace_Nil [simp]: "TrimSpace [] = []"
  by (simp add: TrimSpace_def)

section \<open>Formatting verbs\<close>

definition digit_char :: "nat \<Rightarrow> char" where
  "digit_char d = char_of (48 + d)"

fun nat_digits :: "nat \<Rightarrow> string" where
  "nat_digits n = (if n < 10 then [digit_char n] else nat_digits (n div 10) @ [digit_char (n mod 10)])"

declare nat_digits.simps [simp del]

text \<open>\<open>strconv.Itoa\<close>, and \<open>%d\<close> on any integer width.\<close>

definition Itoa :: "int \<Rightarrow> string" where
  "Itoa i = (if i < 0 then ''-'' @ nat_digits (nat (- i)) else nat_digits (nat i))"

definition hex_digit :: "nat \<Rightarrow> char" where
  "hex_digit d = (if d < 10 then char_of (48 + d) else char_of (87 + d))"

text \<open>\<open>%q\<close>: the double-quoted Go literal of a string. Bytes of 0x80 and above are kept, which is
  what \<open>strconv.Quote\<close> does with printable UTF-8.\<close>

definition quote_char :: "char \<Rightarrow> string" where
  "quote_char c =
    (if c = CHR 0x22 then [CHR 0x5C, CHR 0x22]
     else if c = CHR 0x5C then [CHR 0x5C, CHR 0x5C]
     else if c = CHR 0x07 then [CHR 0x5C, CHR ''a'']
     else if c = CHR 0x08 then [CHR 0x5C, CHR ''b'']
     else if c = CHR 0x0C then [CHR 0x5C, CHR ''f'']
     else if c = CHR 0x0A then [CHR 0x5C, CHR ''n'']
     else if c = CHR 0x0D then [CHR 0x5C, CHR ''r'']
     else if c = CHR 0x09 then [CHR 0x5C, CHR ''t'']
     else if c = CHR 0x0B then [CHR 0x5C, CHR ''v'']
     else if of_char c < (32 :: nat) \<or> c = CHR 0x7F
       then [CHR 0x5C, CHR ''x'', hex_digit (of_char c div 16), hex_digit (of_char c mod 16)]
     else [c])"

definition Quote :: "string \<Rightarrow> string" where
  "Quote s = [CHR 0x22] @ concat (map quote_char s) @ [CHR 0x22]"

section \<open>Maps with string keys\<close>

text \<open>A Go \<open>map[string]V\<close> is an association list: \<open>map_of\<close> reads a key, \<open>map_put\<close> assigns one.
  A nil map and an empty one are both \<open>[]\<close>.\<close>

type_synonym 'v gomap = "(string \<times> 'v) list"
type_synonym smap = "string gomap"

definition map_put :: "'k \<Rightarrow> 'v \<Rightarrow> ('k \<times> 'v) list \<Rightarrow> ('k \<times> 'v) list" where
  "map_put k v m = (k, v) # filter (\<lambda>(k', _). k' \<noteq> k) m"

text \<open>Reading a missing key of a \<open>map[string]string\<close> yields the empty string.\<close>

definition map_str :: "smap \<Rightarrow> string \<Rightarrow> string" where
  "map_str m k = (case map_of m k of None \<Rightarrow> [] | Some v \<Rightarrow> v)"

lemma map_of_filter_key:
  "map_of (filter (\<lambda>(k', _). k' \<noteq> k) m) x = (if x = k then None else map_of m x)"
  by (induction m) auto

lemma map_of_map_put [simp]:
  "map_of (map_put k v m) x = (if x = k then Some v else map_of m x)"
  by (simp add: map_put_def map_of_filter_key)

lemma map_put_not_Nil [simp]: "map_put k v m \<noteq> []"
  by (simp add: map_put_def)

lemma map_str_map_put [simp]:
  "map_str (map_put k v m) x = (if x = k then v else map_str m x)"
  by (simp add: map_str_def)

lemma dom_map_put [simp]: "fst ` set (map_put k v m) = insert k (fst ` set m)"
  by (auto simp: map_put_def image_iff)

section \<open>64-bit integers and durations\<close>

text \<open>\<open>time.Duration\<close> and \<open>time.Time\<close> are counts of nanoseconds; arithmetic on an \<open>int64\<close> wraps
  around, which \<open>wrap64\<close> makes explicit.\<close>

type_synonym duration = int
type_synonym gotime = int

definition wrap64 :: "int \<Rightarrow> int" where
  "wrap64 i = (i + 2 ^ 63) mod 2 ^ 64 - 2 ^ 63"

lemma wrap64_id: "\<lbrakk>- (2 ^ 63) \<le> i; i < 2 ^ 63\<rbrakk> \<Longrightarrow> wrap64 i = i"
  by (simp add: wrap64_def)

lemma wrap64_range: "- (2 ^ 63) \<le> wrap64 i \<and> wrap64 i < 2 ^ 63"
  by (simp add: wrap64_def)

lemma wrap64_word: "wrap64 i = sint (word_of_int i :: 64 word)"
  by (simp add: wrap64_def sint_sbintrunc' signed_take_bit_eq_take_bit_shift take_bit_eq_mod)

definition Second :: duration where "Second = 1000000000"
definition Minute :: duration where "Minute = 60 * Second"

text \<open>\<open>time.Duration.String\<close>, used by the \<open>%s\<close> verb: the fraction has its trailing zeros removed,
  a value below one second is shown in the largest of ms, microseconds and ns that fits, and
  otherwise hours and minutes appear when they are non-zero (a zero minute after an hour is kept).\<close>

definition strip_zeros :: "string \<Rightarrow> string" where
  "strip_zeros ds = rev (dropWhile (\<lambda>c. c = CHR ''0'') (rev ds))"

definition frac_digits :: "nat \<Rightarrow> nat \<Rightarrow> string" where
  "frac_digits k n =
     (let ds = nat_digits n;
          fs = strip_zeros (replicate (k - length ds) (CHR ''0'') @ ds)
      in if n = 0 then [] else ''.'' @ fs)"

definition with_unit :: "nat \<Rightarrow> nat \<Rightarrow> string \<Rightarrow> string" where
  "with_unit u k unit = nat_digits (u div 10 ^ k) @ frac_digits k (u mod 10 ^ k) @ unit"

definition duration_abs :: "nat \<Rightarrow> string" where
  "duration_abs u =
    (if u = 0 then ''0s''
     else if u < 10 ^ 3 then with_unit u 0 ''ns''
     else if u < 10 ^ 6 then with_unit u 3 [CHR 0xC2, CHR 0xB5, CHR ''s'']
     else if u < 10 ^ 9 then with_unit u 6 ''ms''
     else (let secs = u div 10 ^ 9; mins = secs div 60; hours = mins div 60;
               s = nat_digits (secs mod 60) @ frac_digits 9 (u mod 10 ^ 9) @ ''s''
           in (if hours > 0 then nat_digits hours @ ''h'' else [])
            @ (if mins > 0 then nat_digits (mins mod 60) @ ''m'' else []) @ s))"

definition duration_String :: "duration \<Rightarrow> string" where
  "duration_String d = (if d < 0 then ''-'' @ duration_abs (nat (- d)) else duration_abs (nat d))"

section \<open>Errors\<close>

text \<open>A Go error: an API server status error with its reason, a status error of the bot's REST
  API, a transport error (with what \<open>errors.Is (err, context.DeadlineExceeded)\<close> and its
  \<open>Timeout()\<close> method answer), the configuration builder's sentinel, a plain error, and \<open>%w\<close>
  wrapping, which prefixes the message and keeps the chain.\<close>

datatype apireason = NotFound | AlreadyExists | Conflict | Invalid | Forbidden | OtherReason

datatype goerr =
    ApiStatus apireason string
  | BotStatusError int
  | TransportError bool bool string
  | ErrMissingExchange
  | AlreadyOwnedError string
  | ErrString string
  | Wrap string goerr

fun err_Error :: "goerr \<Rightarrow> string" where
  "err_Error (ApiStatus r m) = m"
| "err_Error (BotStatusError c) = ''unexpected HTTP status '' @ Itoa c"
| "err_Error (TransportError d t m) = m"
| "err_Error ErrMissingExchange = ''tradeBotConfig.spec.exchange is required''"
| "err_Error (AlreadyOwnedError m) = m"
| "err_Error (ErrString m) = m"
| "err_Error (Wrap p e) = p @ err_Error e"

text \<open>\<open>errors.IsNotFound\<close> and \<open>errors.IsConflict\<close> look at the API status anywhere in the chain.\<close>

fun ReasonForError :: "goerr \<Rightarrow> apireason option" where
  "ReasonForError (ApiStatus r m) = Some r"
| "ReasonForError (Wrap p e) = ReasonForError e"
| "ReasonForError _ = None"

definition IsNotFound :: "goerr \<Rightarrow> bool" where
  "IsNotFound e = (ReasonForError e = Some NotFound)"

definition IsConflict :: "goerr \<Rightarrow> bool" where
  "IsConflict e = (ReasonForError e = Some Conflict)"

definition IsAlreadyExists :: "goerr \<Rightarrow> bool" where
  "IsAlreadyExists e = (ReasonForError e = Some AlreadyExists)"

lemma IsNotFound_Wrap [simp, go_error]: "IsNotFound (Wrap p e) = IsNotFound e"
  by (simp add: IsNotFound_def)

lemma IsConflict_Wrap [simp, go_error]: "IsConflict (Wrap p e) = IsConflict e"
  by (simp add: IsConflict_def)

lemma IsNotFound_not_Conflict [go_error]: "IsNotFound e \<Longrightarrow> \<not> IsConflict e"
  by (simp add: IsNotFound_def IsConflict_def)

section \<open>Shared string lemmas\<close>

lemma HasPrefix_append [simp, go_string]: "HasPrefix (p @ s) p"
  by (simp add: HasPrefix_def)

lemma HasPrefix_Nil [simp, go_string]: "HasPrefix s []"
  by (simp add: HasPrefix_def)

lemma HasPrefix_iff [go_string]: "HasPrefix s p \<longleftrightarrow> (\<exists>u. s = p @ u)"
  by (metis HasPrefix_append HasPrefix_def append_take_drop_id)

lemma Contains_iff [go_string]: "Contains s p \<longleftrightarrow> (\<exists>u v. s = u @ p @ v)"
proof (induction s)
  case (Cons c s)
  have "(\<exists>u v. c # s = u @ p @ v) \<longleftrightarrow> HasPrefix (c # s) p \<or> (\<exists>u v. s = u @ p @ v)"
    by (auto simp: HasPrefix_iff) (metis Cons_eq_append_conv append_Cons append_Nil)+
  then show ?case using Cons by simp
qed auto

lemma nat_digits_not_Nil [simp]: "nat_digits n \<noteq> []"
  by (subst nat_digits.simps) simp

text \<open>Every position of a sorted list without repetitions holds a strictly larger element than
  the positions before it: the shape of every list the controllers sort and deduplicate.\<close>

lemma sorted_distinct_sort: "distinct xs \<Longrightarrow> sorted_wrt (<) (sort (xs :: string list))"
  by (simp add: strict_sorted_iff)

end
