(* ===== verification/Effects.thy ===== *)
theory Effects
  imports Prelude "HOL-Library.State_Monad"
begin

text \<open>The effect model of the controllers. Everything outside the operator (the API server, the
  bots' REST API, the clock, the event recorder) is an environment of an arbitrary type; an
  external operation is a function from the environment to an answer and a new environment, so
  other writers and the passage of time need no separate treatment. Every call the operator makes
  is appended to a trace together with its answer. Programs are computations of
  \<open>HOL-Library.State_Monad\<close> over environment and trace.

  \<open>emits m Q\<close> says that every run of \<open>m\<close> only appends to the trace and that its result and the
  appended events satisfy \<open>Q\<close>, whatever the environment answers; \<open>only P m\<close> says that every
  appended event satisfies \<open>P\<close>. The introduction rules follow the structure of a program, so the
  component theories prove facts about whole handlers by applying them along the code.\<close>

named_theorems emits_intro "introduction rules of emits"
named_theorems only_intro "introduction rules of only"

record ('e, 'ev) world =
  env :: 'e
  trace :: "'ev list"

type_synonym ('e, 'ev, 'a) prog = "(('e, 'ev) world, 'a) state"

section \<open>Operations\<close>

text \<open>\<open>call\<close> performs an external operation and logs the event built from its answer, \<open>ask\<close> reads
  the environment without leaving an event (the clock), \<open>emit\<close> only logs.\<close>

definition call :: "('e \<Rightarrow> 'a \<times> 'e) \<Rightarrow> ('a \<Rightarrow> 'ev) \<Rightarrow> ('e, 'ev, 'a) prog" where
  "call f ev = State (\<lambda>w. let (a, e') = f (env w) in (a, w\<lparr>env := e', trace := trace w @ [ev a]\<rparr>))"

definition ask :: "('e \<Rightarrow> 'a \<times> 'e) \<Rightarrow> ('e, 'ev, 'a) prog" where
  "ask f = State (\<lambda>w. let (a, e') = f (env w) in (a, w\<lparr>env := e'\<rparr>))"

definition emit :: "'ev \<Rightarrow> ('e, 'ev, unit) prog" where
  "emit ev = State (\<lambda>w. ((), w\<lparr>trace := trace w @ [ev]\<rparr>))"

definition result :: "('e, 'ev, 'a) prog \<Rightarrow> ('e, 'ev) world \<Rightarrow> 'a" where
  "result m w = fst (run_state m w)"

definition final :: "('e, 'ev, 'a) prog \<Rightarrow> ('e, 'ev) world \<Rightarrow> ('e, 'ev) world" where
  "final m w = snd (run_state m w)"

text \<open>The events a program adds to the trace of the world it starts in.\<close>

definition events :: "('e, 'ev, 'a) prog \<Rightarrow> ('e, 'ev) world \<Rightarrow> 'ev list" where
  "events m w = drop (length (trace w)) (trace (final m w))"

lemmas run_defs = call_def ask_def emit_def result_def final_def events_def

section \<open>Trace logic\<close>

definition emits :: "('e, 'ev, 'a) prog \<Rightarrow> ('a \<Rightarrow> 'ev list \<Rightarrow> bool) \<Rightarrow> bool" where
  "emits m Q = (\<forall>w. \<exists>t. trace (final m w) = trace w @ t \<and> Q (result m w) t)"

definition only :: "('ev \<Rightarrow> bool) \<Rightarrow> ('e, 'ev, 'a) prog \<Rightarrow> bool" where
  "only P m = emits m (\<lambda>_ t. list_all P t)"

lemma emitsD: "emits m Q \<Longrightarrow> Q (result m w) (events m w)"
  by (auto simp: emits_def events_def dest!: spec [where x = w])

lemma emits_trace: "emits m Q \<Longrightarrow> trace (final m w) = trace w @ events m w"
  by (auto simp: emits_def events_def dest!: spec [where x = w])

lemma emits_return [emits_intro]: "Q x [] \<Longrightarrow> emits (State_Monad.return x) Q"
  by (simp add: emits_def result_def final_def State_Monad.return_def)

lemma emits_call [emits_intro]: "(\<And>x. Q x [ev x]) \<Longrightarrow> emits (call f ev) Q"
  by (simp add: emits_def result_def final_def call_def split_beta)

lemma emits_ask [emits_intro]: "(\<And>x. Q x []) \<Longrightarrow> emits (ask f) Q"
  by (simp add: emits_def result_def final_def ask_def split_beta)

lemma emits_emit [emits_intro]: "Q () [ev] \<Longrightarrow> emits (emit ev) Q"
  by (simp add: emits_def result_def final_def emit_def)

lemma emits_call_range: "(\<And>x. Q (fst (f x)) [ev (fst (f x))]) \<Longrightarrow> emits (call f ev) Q"
  by (simp add: emits_def run_defs split_beta)

lemma emits_ask_range: "(\<And>x. Q (fst (f x)) []) \<Longrightarrow> emits (ask f) Q"
  by (simp add: emits_def run_defs split_beta)

lemma emits_bind:
  assumes "emits m P" and "\<And>x t. P x t \<Longrightarrow> emits (f x) (\<lambda>y u. Q y (t @ u))"
  shows "emits (State_Monad.bind m f) Q"
  unfolding emits_def
proof
  fix w
  obtain x w1 where run_m: "run_state m w = (x, w1)" by force
  with assms(1) obtain t where t: "trace w1 = trace w @ t" "P x t"
    by (auto simp: emits_def result_def final_def dest!: spec [where x = w])
  obtain y w2 where run_f: "run_state (f x) w1 = (y, w2)" by force
  with assms(2) [OF t(2)] obtain u where "trace w2 = trace w1 @ u" "Q y (t @ u)"
    by (auto simp: emits_def result_def final_def dest!: spec [where x = w1])
  with t run_m run_f
  show "\<exists>t. trace (final (State_Monad.bind m f) w) = trace w @ t
          \<and> Q (result (State_Monad.bind m f) w) t"
    by (auto simp: final_def result_def State_Monad.bind_def)
qed

lemma emits_conseq: "\<lbrakk>emits m P; \<And>x t. P x t \<Longrightarrow> Q x t\<rbrakk> \<Longrightarrow> emits m Q"
  by (fastforce simp: emits_def)

lemma emits_conj: "\<lbrakk>emits m P; emits m Q\<rbrakk> \<Longrightarrow> emits m (\<lambda>x t. P x t \<and> Q x t)"
  unfolding emits_def by (metis append_eq_append_conv)

lemma onlyD: "only P m \<Longrightarrow> list_all P (events m w)"
  unfolding only_def by (rule emitsD)

lemma only_conseq: "\<lbrakk>only P m; \<And>e. P e \<Longrightarrow> R e\<rbrakk> \<Longrightarrow> only R m"
  unfolding only_def by (erule emits_conseq) (auto simp: list_all_iff)

lemma only_return [only_intro]: "only P (State_Monad.return x)"
  by (simp add: only_def emits_return)

lemma only_call [only_intro]: "(\<And>x. P (ev x)) \<Longrightarrow> only P (call f ev)"
  by (simp add: only_def emits_call)

lemma only_ask [only_intro]: "only P (ask f)"
  by (simp add: only_def emits_ask)

lemma only_emit [only_intro]: "P ev \<Longrightarrow> only P (emit ev)"
  by (simp add: only_def emits_emit)

lemma only_bind [only_intro]:
  "\<lbrakk>only P m; \<And>x. only P (f x)\<rbrakk> \<Longrightarrow> only P (State_Monad.bind m f)"
  unfolding only_def
  by (erule emits_bind) (auto intro: emits_conseq)

text \<open>\<open>yields m S\<close>: every result of \<open>m\<close> satisfies \<open>S\<close>, whatever happened on the way.\<close>

named_theorems yields_intro "introduction rules of yields"

definition yields :: "('e, 'ev, 'a) prog \<Rightarrow> ('a \<Rightarrow> bool) \<Rightarrow> bool" where
  "yields m S \<longleftrightarrow> (\<forall>w. S (result m w))"

lemma yieldsD: "yields m S \<Longrightarrow> S (result m w)"
  by (simp add: yields_def)

lemma yields_return [yields_intro]: "S x \<Longrightarrow> yields (State_Monad.return x) S"
  by (simp add: yields_def result_def State_Monad.return_def)

lemma yields_bind [yields_intro]: "(\<And>x. yields (f x) S) \<Longrightarrow> yields (State_Monad.bind m f) S"
  by (simp add: yields_def result_def State_Monad.bind_def split_beta)

lemma yields_bind_result:
  "\<lbrakk>yields m R; \<And>x. R x \<Longrightarrow> yields (f x) S\<rbrakk> \<Longrightarrow> yields (State_Monad.bind m f) S"
  by (simp add: yields_def result_def State_Monad.bind_def split_beta)

lemma yields_case_sum [yields_intro]:
  "\<lbrakk>\<And>e. x = Inl e \<Longrightarrow> yields (f e) S; \<And>y. x = Inr y \<Longrightarrow> yields (g y) S\<rbrakk>
    \<Longrightarrow> yields (case x of Inl e \<Rightarrow> f e | Inr y \<Rightarrow> g y) S"
  by (cases x) auto

lemma yields_case_option [yields_intro]:
  "\<lbrakk>x = None \<Longrightarrow> yields f S; \<And>y. x = Some y \<Longrightarrow> yields (g y) S\<rbrakk>
    \<Longrightarrow> yields (case x of None \<Rightarrow> f | Some y \<Rightarrow> g y) S"
  by (cases x) auto

lemma yields_case_prod [yields_intro]:
  "(\<And>a b. x = (a, b) \<Longrightarrow> yields (f a b) S) \<Longrightarrow> yields (case x of (a, b) \<Rightarrow> f a b) S"
  by (cases x) auto

lemma yields_if [yields_intro]:
  "\<lbrakk>b \<Longrightarrow> yields f S; \<not> b \<Longrightarrow> yields g S\<rbrakk> \<Longrightarrow> yields (if b then f else g) S"
  by simp

lemma yields_post: "\<lbrakk>yields m S; \<And>x. S x \<Longrightarrow> S' x\<rbrakk> \<Longrightarrow> yields m S'"
  by (simp add: yields_def)

lemma yields_call: "(\<And>e. S (fst (f e))) \<Longrightarrow> yields (call f ev) S"
  by (simp add: yields_def run_defs split_beta)

lemma yields_ask: "(\<And>e. S (fst (f e))) \<Longrightarrow> yields (ask f) S"
  by (simp add: yields_def run_defs split_beta)

lemma yields_emits: "emits m (\<lambda>x _. S x) \<Longrightarrow> yields m S"
  by (auto simp: yields_def dest: emitsD)

lemma emits_bind_only:
  "\<lbrakk>only P m; \<And>x. emits (f x) Q; \<And>x t u. \<lbrakk>list_all P t; Q x u\<rbrakk> \<Longrightarrow> Q x (t @ u)\<rbrakk>
    \<Longrightarrow> emits (State_Monad.bind m f) Q"
  unfolding only_def by (erule emits_bind) (blast intro: emits_conseq)

lemma emits_of_only: "\<lbrakk>only P m; \<And>x t. list_all P t \<Longrightarrow> Q x t\<rbrakk> \<Longrightarrow> emits m Q"
  unfolding only_def by (erule emits_conseq)

text \<open>A program whose result the events after it depend on.\<close>

lemma only_bind_result:
  assumes "only P m" "yields m S" "\<And>x. S x \<Longrightarrow> only P (g x)"
  shows "only P (State_Monad.bind m g)"
proof -
  have "emits m (\<lambda>x t. list_all P t \<and> S x)"
    using assms(1,2) unfolding only_def yields_def emits_def by fastforce
  then show ?thesis
    unfolding only_def by (rule emits_bind) (auto intro: emits_conseq [OF assms(3) [unfolded only_def]])
qed

section \<open>Running programs\<close>

text \<open>The run equations a witness evaluates a program with.\<close>

lemma result_return [simp]: "result (State_Monad.return x) w = x"
  and final_return [simp]: "final (State_Monad.return x) w = w"
  by (simp_all add: run_defs State_Monad.return_def)

lemma result_bind [simp]: "result (State_Monad.bind m f) w = result (f (result m w)) (final m w)"
  and final_bind [simp]: "final (State_Monad.bind m f) w = final (f (result m w)) (final m w)"
  by (simp_all add: run_defs State_Monad.bind_def split_beta)

lemma result_call [simp]: "result (call f ev) w = fst (f (env w))"
  and final_call [simp]:
    "final (call f ev) w
       = w\<lparr>env := snd (f (env w)), trace := trace w @ [ev (fst (f (env w)))]\<rparr>"
  by (simp_all add: run_defs split_beta)

lemma result_ask [simp]: "result (ask f) w = fst (f (env w))"
  and final_ask [simp]: "final (ask f) w = w\<lparr>env := snd (f (env w))\<rparr>"
  by (simp_all add: run_defs split_beta)

lemma final_emit [simp]: "final (emit ev) w = w\<lparr>trace := trace w @ [ev]\<rparr>"
  by (simp add: run_defs)

section \<open>Retry on conflict\<close>

text \<open>client-go's \<open>retry.RetryOnConflict\<close> runs its function, and runs it again while it returns a
  conflict, up to a number of steps its backoff fixes. The number of further attempts is a
  parameter of every definition that retries; the waiting between attempts is part of the
  environment's next answer.\<close>

fun RetryOnConflict :: "nat \<Rightarrow> ('e, 'ev, goerr + 'a) prog \<Rightarrow> ('e, 'ev, goerr + 'a) prog" where
  "RetryOnConflict 0 fn = fn"
| "RetryOnConflict (Suc n) fn =
     State_Monad.bind fn (\<lambda>r. case r of
         Inl e \<Rightarrow> if IsConflict e then RetryOnConflict n fn else State_Monad.return (Inl e)
       | Inr x \<Rightarrow> State_Monad.return (Inr x))"

lemma only_case_sum [only_intro]:
  "\<lbrakk>\<And>e. x = Inl e \<Longrightarrow> only P (f e); \<And>y. x = Inr y \<Longrightarrow> only P (g y)\<rbrakk>
    \<Longrightarrow> only P (case x of Inl e \<Rightarrow> f e | Inr y \<Rightarrow> g y)"
  by (cases x) auto

lemma only_case_option [only_intro]:
  "\<lbrakk>x = None \<Longrightarrow> only P f; \<And>y. x = Some y \<Longrightarrow> only P (g y)\<rbrakk>
    \<Longrightarrow> only P (case x of None \<Rightarrow> f | Some y \<Rightarrow> g y)"
  by (cases x) auto

lemma only_case_prod [only_intro]:
  "(\<And>a b. x = (a, b) \<Longrightarrow> only P (f a b)) \<Longrightarrow> only P (case x of (a, b) \<Rightarrow> f a b)"
  by (cases x) auto

lemma only_if [only_intro]:
  "\<lbrakk>b \<Longrightarrow> only P f; \<not> b \<Longrightarrow> only P g\<rbrakk> \<Longrightarrow> only P (if b then f else g)"
  by simp

lemma emits_case_sum [emits_intro]:
  "\<lbrakk>\<And>e. x = Inl e \<Longrightarrow> emits (f e) Q; \<And>y. x = Inr y \<Longrightarrow> emits (g y) Q\<rbrakk>
    \<Longrightarrow> emits (case x of Inl e \<Rightarrow> f e | Inr y \<Rightarrow> g y) Q"
  by (cases x) auto

lemma emits_case_option [emits_intro]:
  "\<lbrakk>x = None \<Longrightarrow> emits f Q; \<And>y. x = Some y \<Longrightarrow> emits (g y) Q\<rbrakk>
    \<Longrightarrow> emits (case x of None \<Rightarrow> f | Some y \<Rightarrow> g y) Q"
  by (cases x) auto

lemma emits_case_prod [emits_intro]:
  "(\<And>a b. x = (a, b) \<Longrightarrow> emits (f a b) Q) \<Longrightarrow> emits (case x of (a, b) \<Rightarrow> f a b) Q"
  by (cases x) auto

lemma emits_if [emits_intro]:
  "\<lbrakk>b \<Longrightarrow> emits f Q; \<not> b \<Longrightarrow> emits g Q\<rbrakk> \<Longrightarrow> emits (if b then f else g) Q"
  by simp

lemma only_RetryOnConflict [only_intro]: "only P fn \<Longrightarrow> only P (RetryOnConflict n fn)"
  by (induction n) (auto intro!: only_intro)

text \<open>The last attempt decides: a fact about the result and the events of one attempt holds of the
  retried program once conflicting attempts in front of it do not matter.\<close>

lemma emits_RetryOnConflict:
  assumes fn: "emits fn Q"
    and step: "\<And>e t y u. \<lbrakk>Q (Inl e) t; IsConflict e; Q y u\<rbrakk> \<Longrightarrow> Q y (t @ u)"
  shows "emits (RetryOnConflict n fn) Q"
proof (induction n)
  case (Suc n)
  show ?case
    unfolding RetryOnConflict.simps
  proof (rule emits_bind [OF fn])
    fix x t
    assume x: "Q x t"
    show "emits (case x of
           Inl e \<Rightarrow> if IsConflict e then RetryOnConflict n fn else State_Monad.return (Inl e)
         | Inr y \<Rightarrow> State_Monad.return (Inr y)) (\<lambda>y u. Q y (t @ u))"
      using x by (cases x) (auto intro: emits_return emits_conseq [OF Suc] step)
  qed
qed (simp add: fn)

section \<open>Events backed by earlier ones\<close>

text \<open>\<open>backed W J t\<close>: every event of \<open>t\<close> that satisfies \<open>W\<close> has an earlier event in \<open>t\<close> that \<open>J\<close>
  relates to it, such as the read a write is computed from. \<open>keeps W J m\<close> says so of every run of
  \<open>m\<close>. Both are closed under sequencing, so a handler keeps what its parts keep.\<close>

named_theorems keeps_intro "introduction rules of keeps"

definition backed :: "('ev \<Rightarrow> bool) \<Rightarrow> ('ev \<Rightarrow> 'ev \<Rightarrow> bool) \<Rightarrow> 'ev list \<Rightarrow> bool" where
  "backed W J t \<longleftrightarrow> (\<forall>i < length t. W (t ! i) \<longrightarrow> (\<exists>j < i. J (t ! j) (t ! i)))"

definition keeps :: "('ev \<Rightarrow> bool) \<Rightarrow> ('ev \<Rightarrow> 'ev \<Rightarrow> bool) \<Rightarrow> ('e, 'ev, 'a) prog \<Rightarrow> bool" where
  "keeps W J m = emits m (\<lambda>_ t. backed W J t)"

lemma backed_append:
  assumes t: "backed W J t" and u: "backed W J u"
  shows "backed W J (t @ u)"
  unfolding backed_def
proof (intro allI impI)
  fix i
  assume i: "i < length (t @ u)" "W ((t @ u) ! i)"
  show "\<exists>j < i. J ((t @ u) ! j) ((t @ u) ! i)"
  proof (cases "i < length t")
    case True
    with i have "W (t ! i)" by (simp add: nth_append)
    with t True obtain j where "j < i" "J (t ! j) (t ! i)" unfolding backed_def by blast
    with True show ?thesis by (auto simp: nth_append intro!: exI [of _ j])
  next
    case False
    with i have "W (u ! (i - length t))" "i - length t < length u" by (auto simp: nth_append)
    with u obtain j where "j < i - length t" "J (u ! j) (u ! (i - length t))"
      unfolding backed_def by blast
    with False show ?thesis by (auto simp: nth_append intro!: exI [of _ "length t + j"])
  qed
qed

lemma backed_none: "list_all (\<lambda>e. \<not> W e) t \<Longrightarrow> backed W J t"
  by (auto simp: backed_def list_all_length)

lemma backed_Nil [simp]: "backed W J []"
  by (simp add: backed_def)

lemma backed_snoc: "\<lbrakk>backed W J t; W e \<Longrightarrow> \<exists>d \<in> set t. J d e\<rbrakk> \<Longrightarrow> backed W J (t @ [e])"
  by (auto simp: backed_def nth_append less_Suc_eq in_set_conv_nth) (blast intro: less_trans)+

lemma backedD: "\<lbrakk>backed W J t; e \<in> set t; W e\<rbrakk> \<Longrightarrow> \<exists>d \<in> set t. J d e"
  unfolding backed_def by (metis in_set_conv_nth order.strict_trans)

lemma backed_mono:
  "\<lbrakk>backed W J t; \<And>e. W' e \<Longrightarrow> W e; \<And>d e. J d e \<Longrightarrow> J' d e\<rbrakk> \<Longrightarrow> backed W' J' t"
  unfolding backed_def by blast

lemma keepsD: "keeps W J m \<Longrightarrow> backed W J (events m w)"
  unfolding keeps_def by (rule emitsD)

lemma keeps_only: "only (\<lambda>e. \<not> W e) m \<Longrightarrow> keeps W J m"
  unfolding keeps_def only_def by (erule emits_conseq) (rule backed_none)

lemma keeps_return [keeps_intro]: "keeps W J (State_Monad.return x)"
  by (simp add: keeps_def emits_return)

lemma keeps_ask [keeps_intro]: "keeps W J (ask f)"
  by (simp add: keeps_def emits_ask)

lemma keeps_call [keeps_intro]: "(\<And>x. \<not> W (ev x)) \<Longrightarrow> keeps W J (call f ev)"
  by (intro keeps_only only_intro)

lemma keeps_emit [keeps_intro]: "\<not> W ev \<Longrightarrow> keeps W J (emit ev)"
  by (intro keeps_only only_intro)

lemma keeps_bind [keeps_intro]:
  "\<lbrakk>keeps W J m; \<And>x. keeps W J (f x)\<rbrakk> \<Longrightarrow> keeps W J (State_Monad.bind m f)"
  unfolding keeps_def
  by (erule emits_bind) (blast intro: emits_conseq backed_append)

lemma keeps_case_sum [keeps_intro]:
  "\<lbrakk>\<And>e. x = Inl e \<Longrightarrow> keeps W J (f e); \<And>y. x = Inr y \<Longrightarrow> keeps W J (g y)\<rbrakk>
    \<Longrightarrow> keeps W J (case x of Inl e \<Rightarrow> f e | Inr y \<Rightarrow> g y)"
  by (cases x) auto

lemma keeps_case_option [keeps_intro]:
  "\<lbrakk>x = None \<Longrightarrow> keeps W J f; \<And>y. x = Some y \<Longrightarrow> keeps W J (g y)\<rbrakk>
    \<Longrightarrow> keeps W J (case x of None \<Rightarrow> f | Some y \<Rightarrow> g y)"
  by (cases x) auto

lemma keeps_case_prod [keeps_intro]:
  "(\<And>a b. x = (a, b) \<Longrightarrow> keeps W J (f a b)) \<Longrightarrow> keeps W J (case x of (a, b) \<Rightarrow> f a b)"
  by (cases x) auto

lemma keeps_if [keeps_intro]:
  "\<lbrakk>b \<Longrightarrow> keeps W J f; \<not> b \<Longrightarrow> keeps W J g\<rbrakk> \<Longrightarrow> keeps W J (if b then f else g)"
  by simp

text \<open>The rule for a part whose result matters for what follows: the events so far stay available
  to the rest.\<close>

lemma keeps_bind_result:
  assumes "emits m (\<lambda>x t. backed W J t \<and> R x t)"
    and "\<And>x t. \<lbrakk>backed W J t; R x t\<rbrakk> \<Longrightarrow> emits (f x) (\<lambda>_ u. backed W J (t @ u))"
  shows "keeps W J (State_Monad.bind m f)"
  unfolding keeps_def using assms(1) by (rule emits_bind) (auto intro: assms(2))

section \<open>Events judged by what came before\<close>

text \<open>\<open>sofar P t\<close>: every event of \<open>t\<close> satisfies \<open>P\<close> together with the events in front of it.\<close>

definition sofar :: "('ev list \<Rightarrow> 'ev \<Rightarrow> bool) \<Rightarrow> 'ev list \<Rightarrow> bool" where
  "sofar P t \<longleftrightarrow> (\<forall>i < length t. P (take i t) (t ! i))"

lemma sofar_Nil [simp]: "sofar P []"
  by (simp add: sofar_def)

lemma sofar_append: "sofar P (t @ u) \<longleftrightarrow> sofar P t \<and> sofar (\<lambda>p e. P (t @ p) e) u"
proof -
  have "(\<forall>i < length (t @ u). P (take i (t @ u)) ((t @ u) ! i)) \<longleftrightarrow>
      (\<forall>i < length t. P (take i t) (t ! i)) \<and> (\<forall>i < length u. P (t @ take i u) (u ! i))" (is "?L \<longleftrightarrow> ?A \<and> ?B")
  proof
    assume L: ?L
    have ?A
    proof (intro allI impI)
      fix i assume "i < length t"
      then show "P (take i t) (t ! i)" using L [rule_format, of i] by (simp add: nth_append)
    qed
    moreover have ?B
    proof (intro allI impI)
      fix i assume "i < length u"
      then show "P (t @ take i u) (u ! i)" using L [rule_format, of "length t + i"] by simp
    qed
    ultimately show "?A \<and> ?B" ..
  next
    assume R: "?A \<and> ?B"
    show ?L
    proof (intro allI impI)
      fix i assume "i < length (t @ u)"
      then show "P (take i (t @ u)) ((t @ u) ! i)"
        using R by (cases "i < length t") (auto simp: nth_append)
    qed
  qed
  then show ?thesis by (simp add: sofar_def)
qed

lemma sofar_Cons: "sofar P (e # u) \<longleftrightarrow> P [] e \<and> sofar (\<lambda>p d. P (e # p) d) u"
  using sofar_append [of P "[e]" u] by (simp add: sofar_def [of _ "[e]"])

lemma sofar_mono: "\<lbrakk>sofar P t; \<And>p e. P p e \<Longrightarrow> Q p e\<rbrakk> \<Longrightarrow> sofar Q t"
  by (simp add: sofar_def)

lemma sofar_list_all: "list_all (\<lambda>e. \<forall>p. P p e) t \<Longrightarrow> sofar P t"
  by (simp add: sofar_def list_all_length)

lemma sofarD: "\<lbrakk>sofar P t; t = p @ e # u\<rbrakk> \<Longrightarrow> P p e"
  by (simp add: sofar_append sofar_Cons)

end
