(* ===== verification/K8sTypes.thy ===== *)
theory K8sTypes
  imports Prelude
begin

text \<open>The Kubernetes objects the operator reads and writes, as far as its code looks at them:
  object metadata, status conditions, pods with their containers, volumes, probes and security
  contexts, and the workloads built around them. A field of a third-party type that the operator
  only copies is a \<open>raw\<close> value, its serialised form. A pointer is an \<open>option\<close>, a slice is a list
  (with nil and empty identified unless the code tells them apart, where it is a list option), a
  map is an association list.\<close>

datatype raw = Raw string

datatype float64 = F64 "64 word"

section \<open>Metadata and conditions\<close>

record nname =
  nn_Namespace :: string
  nn_Name :: string

record ownerref =
  or_Kind :: string
  or_Name :: string
  or_UID :: string
  or_Controller :: bool

record objmeta =
  om_Name :: string
  om_Namespace :: string
  om_UID :: string
  om_Generation :: int
  om_ResourceVersion :: string
  om_DeletionTimestamp :: "gotime option"
  om_Finalizers :: "string list"
  om_Labels :: smap
  om_Annotations :: smap
  om_OwnerReferences :: "ownerref list"

text \<open>\<open>metav1.ObjectMeta{Name: n, Namespace: ns}\<close>, the zero value elsewhere.\<close>

definition mk_meta :: "string \<Rightarrow> string \<Rightarrow> objmeta" where
  "mk_meta n ns = \<lparr>om_Name = n, om_Namespace = ns, om_UID = [], om_Generation = 0,
     om_ResourceVersion = [], om_DeletionTimestamp = None, om_Finalizers = [], om_Labels = [],
     om_Annotations = [], om_OwnerReferences = []\<rparr>"

definition key_of_meta :: "objmeta \<Rightarrow> nname" where
  "key_of_meta m = \<lparr>nn_Namespace = om_Namespace m, nn_Name = om_Name m\<rparr>"

datatype condstatus = ConditionTrue | ConditionFalse | ConditionUnknown

record condition =
  cd_Type :: string
  cd_Status :: condstatus
  cd_Reason :: string
  cd_Message :: string
  cd_ObservedGeneration :: int
  cd_LastTransitionTime :: "gotime option"

text \<open>A condition literal that sets the type, status, reason and message only, and one that also
  sets the observed generation; the transition time is the zero value.\<close>

definition mk_cond :: "string \<Rightarrow> condstatus \<Rightarrow> string \<Rightarrow> string \<Rightarrow> condition" where
  "mk_cond ty st r m = \<lparr>cd_Type = ty, cd_Status = st, cd_Reason = r, cd_Message = m,
     cd_ObservedGeneration = 0, cd_LastTransitionTime = None\<rparr>"

definition mk_cond_gen :: "string \<Rightarrow> condstatus \<Rightarrow> string \<Rightarrow> string \<Rightarrow> int \<Rightarrow> condition" where
  "mk_cond_gen ty st r m g = (mk_cond ty st r m)\<lparr>cd_ObservedGeneration := g\<rparr>"

lemma mk_cond_simps [simp]:
  "cd_Type (mk_cond ty st r m) = ty" "cd_Status (mk_cond ty st r m) = st"
  "cd_Reason (mk_cond ty st r m) = r" "cd_Message (mk_cond ty st r m) = m"
  "cd_ObservedGeneration (mk_cond ty st r m) = 0"
  "cd_Type (mk_cond_gen ty st r m g) = ty" "cd_Status (mk_cond_gen ty st r m g) = st"
  "cd_Reason (mk_cond_gen ty st r m g) = r" "cd_Message (mk_cond_gen ty st r m g) = m"
  "cd_ObservedGeneration (mk_cond_gen ty st r m g) = g"
  by (simp_all add: mk_cond_def mk_cond_gen_def)

section \<open>Pods\<close>

text \<open>\<open>corev1.ResourceRequirements\<close>: \<open>reflect.DeepEqual\<close> with the zero value distinguishes a nil map
  from an empty one, so the two maps are options.\<close>

record resreq =
  rr_Requests :: "smap option"
  rr_Limits :: "smap option"
  rr_Claims :: "raw list"

definition resreq_zero :: resreq where
  "resreq_zero = \<lparr>rr_Requests = None, rr_Limits = None, rr_Claims = []\<rparr>"

record secctx =
  sc_AllowPrivilegeEscalation :: "bool option"
  sc_ReadOnlyRootFilesystem :: "bool option"
  sc_RunAsNonRoot :: "bool option"
  sc_RunAsUser :: "int option"
  sc_RunAsGroup :: "int option"
  sc_CapabilitiesDrop :: "string list"
  sc_SeccompProfileType :: "string option"

definition secctx_zero :: secctx where
  "secctx_zero = \<lparr>sc_AllowPrivilegeEscalation = None, sc_ReadOnlyRootFilesystem = None,
     sc_RunAsNonRoot = None, sc_RunAsUser = None, sc_RunAsGroup = None, sc_CapabilitiesDrop = [],
     sc_SeccompProfileType = None\<rparr>"

record podsecctx =
  psc_RunAsUser :: "int option"
  psc_RunAsGroup :: "int option"
  psc_FSGroup :: "int option"
  psc_rest :: "raw option"

text \<open>One source of a projected volume: a service account token (path, expiry in seconds), items of a
  ConfigMap (name, key-path pairs), or downward-API items (path, field).\<close>

datatype projection =
    TokenProjection string int
  | ConfigMapProjection string smap
  | DownwardProjection smap

datatype volsource =
    SecretVolume string
  | ConfigMapVolume string
  | PVCVolume string
  | EmptyDirVolume
  | ProjectedVolume "projection list"
  | OtherVolume raw

record volume =
  vol_Name :: string
  vol_Source :: volsource

record volmount =
  vm_Name :: string
  vm_MountPath :: string
  vm_SubPath :: string
  vm_ReadOnly :: bool

datatype probe =
    HTTPGetProbe (pr_Path: string) (pr_Port: int) (pr_Scheme: string) (pr_InitialDelay: int)
      (pr_Period: int) (pr_Timeout: int) (pr_FailureThreshold: int)
  | OtherProbe raw

record containerport =
  cp_ContainerPort :: int
  cp_Protocol :: string

text \<open>An environment variable: one taken from a field of the pod, or anything a user wrote.\<close>

datatype envvar =
    EnvFieldRef string string
  | OtherEnv raw

record container =
  ct_Name :: string
  ct_Image :: string
  ct_ImagePullPolicy :: string
  ct_Command :: "string list"
  ct_Args :: "string list"
  ct_Env :: "envvar list"
  ct_VolumeMounts :: "volmount list"
  ct_SecurityContext :: "secctx option"
  ct_Resources :: resreq
  ct_Ports :: "containerport list"
  ct_LivenessProbe :: "probe option"
  ct_ReadinessProbe :: "probe option"
  ct_RestartPolicy :: "string option"
  ct_TerminationMessagePath :: string
  ct_TerminationMessagePolicy :: string

definition container_zero :: container where
  "container_zero = \<lparr>ct_Name = [], ct_Image = [], ct_ImagePullPolicy = [], ct_Command = [],
     ct_Args = [], ct_Env = [], ct_VolumeMounts = [], ct_SecurityContext = None,
     ct_Resources = resreq_zero, ct_Ports = [], ct_LivenessProbe = None, ct_ReadinessProbe = None,
     ct_RestartPolicy = None, ct_TerminationMessagePath = [], ct_TerminationMessagePolicy = []\<rparr>"

record affinity =
  af_NodeAffinity :: "raw option"
  af_PodAffinity :: "raw option"
  af_PodAntiAffinity :: "raw option"

definition affinity_zero :: affinity where
  "affinity_zero = \<lparr>af_NodeAffinity = None, af_PodAffinity = None, af_PodAntiAffinity = None\<rparr>"

record podspec =
  ps_SecurityContext :: "podsecctx option"
  ps_InitContainers :: "container list"
  ps_Containers :: "container list"
  ps_Volumes :: "volume list"
  ps_ImagePullSecrets :: "string list"
  ps_Affinity :: "affinity option"
  ps_NodeSelector :: smap
  ps_Tolerations :: "raw list"
  ps_TopologySpreadConstraints :: "raw list"
  ps_RestartPolicy :: string
  ps_TerminationGracePeriodSeconds :: "int option"
  ps_DNSPolicy :: string
  ps_ServiceAccountName :: string
  ps_AutomountServiceAccountToken :: "bool option"

definition podspec_zero :: podspec where
  "podspec_zero = \<lparr>ps_SecurityContext = None, ps_InitContainers = [], ps_Containers = [], ps_Volumes = [],
     ps_ImagePullSecrets = [], ps_Affinity = None, ps_NodeSelector = [], ps_Tolerations = [],
     ps_TopologySpreadConstraints = [], ps_RestartPolicy = [], ps_TerminationGracePeriodSeconds = None,
     ps_DNSPolicy = [], ps_ServiceAccountName = [], ps_AutomountServiceAccountToken = None\<rparr>"

section \<open>Workloads and their companions\<close>

record podtemplate =
  pt_Labels :: smap
  pt_Annotations :: smap
  pt_Spec :: podspec

record statefulset =
  sts_meta :: objmeta
  sts_Replicas :: "int option"
  sts_Selector :: smap
  sts_ServiceName :: string
  sts_Template :: podtemplate
  sts_StatusReplicas :: int
  sts_StatusReadyReplicas :: int

record secret =
  sec_meta :: objmeta
  sec_Type :: string
  sec_Data :: smap
  sec_StringData :: smap

record configmap =
  cm_meta :: objmeta
  cm_Data :: smap

record pvcspec =
  pvcs_AccessModes :: "string list"
  pvcs_Requests :: smap
  pvcs_StorageClassName :: "string option"
  pvcs_VolumeName :: string

record pvc =
  pvc_meta :: objmeta
  pvc_Spec :: pvcspec

record svcport =
  sp_Name :: string
  sp_Port :: int
  sp_TargetPort :: int
  sp_Protocol :: string

record svcspec =
  svs_Selector :: smap
  svs_Type :: string
  svs_Ports :: "svcport list"
  svs_LoadBalancerSourceRanges :: "string list"
  svs_ExternalTrafficPolicy :: string
  svs_SessionAffinity :: string

record service =
  svc_meta :: objmeta
  svc_Spec :: svcspec

text \<open>A NetworkPolicy peer: the selectors the operator writes match labels only; a peer supplied by
  the user may carry anything else.\<close>

datatype netpeer =
    NamespacePeer smap
  | PodPeer smap
  | OtherPeer raw

record netport =
  np_Protocol :: string
  np_Port :: int

record netrule =
  nr_Ports :: "netport list"
  nr_From :: "netpeer list"

record networkpolicy =
  npol_meta :: objmeta
  npol_PodSelector :: smap
  npol_PolicyTypes :: "string list"
  npol_Ingress :: "netrule list"

section \<open>Exposure\<close>

record deployment =
  dep_meta :: objmeta
  dep_Replicas :: "int option"
  dep_Selector :: smap
  dep_Template :: podtemplate
  dep_StatusReplicas :: int
  dep_StatusAvailableReplicas :: int

text \<open>A backend the operator writes is a Service with a port number.\<close>

datatype ingressbackend =
    ServiceBackend string int
  | OtherBackend raw

record ingresspath =
  ip_Path :: string
  ip_PathType :: "string option"
  ip_Backend :: ingressbackend

record ingressrule =
  ir_Host :: string
  ir_Paths :: "ingresspath list"

record ingresstls =
  it_Hosts :: "string list"
  it_SecretName :: string

record ingressspec =
  igs_IngressClassName :: "string option"
  igs_Rules :: "ingressrule list"
  igs_TLS :: "ingresstls list"
  igs_DefaultBackend :: "ingressbackend option"

record ingress =
  ing_meta :: objmeta
  ing_Spec :: ingressspec

record httprouterule =
  hrr_PathType :: string
  hrr_PathValue :: string
  hrr_BackendName :: string
  hrr_BackendPort :: int

text \<open>An HTTPRoute; of its status, the conditions each parent gateway reports.\<close>

record httproute =
  hr_meta :: objmeta
  hr_ParentRefs :: "raw list"
  hr_Hostnames :: "string list"
  hr_Rules :: "httprouterule list"
  hr_StatusParents :: "condition list list"

section \<open>Jobs and access rights\<close>

record job =
  job_meta :: objmeta
  job_BackoffLimit :: "int option"
  job_TTLSecondsAfterFinished :: "int option"
  job_Template :: podtemplate
  job_Succeeded :: int
  job_Failed :: int
  job_Active :: int
  job_StartTime :: "gotime option"
  job_CompletionTime :: "gotime option"

record serviceaccount =
  sa_meta :: objmeta

record policyrule =
  plr_APIGroups :: "string list"
  plr_Resources :: "string list"
  plr_Verbs :: "string list"

record role =
  role_meta :: objmeta
  role_Rules :: "policyrule list"

record rolebinding =
  rb_meta :: objmeta
  rb_RoleAPIGroup :: string
  rb_RoleKind :: string
  rb_RoleName :: string
  rb_Subjects :: "(string \<times> string \<times> string) list"

text \<open>Of a running pod, the containers and whether each has terminated.\<close>

record pod =
  pod_meta :: objmeta
  pod_ContainerTerminated :: "(string \<times> bool) list"

text \<open>An object handed to server-side apply.\<close>

datatype manifest =
    MSecret (m_secret: secret)
  | MConfigMap (m_configmap: configmap)
  | MPVC (m_pvc: pvc)
  | MStatefulSet (m_sts: statefulset)
  | MService (m_service: service)
  | MNetworkPolicy (m_netpol: networkpolicy)
  | MDeployment (m_deployment: deployment)
  | MIngress (m_ingress: ingress)
  | MHTTPRoute (m_httproute: httproute)
  | MJob (m_job: job)
  | MServiceAccount (m_serviceaccount: serviceaccount)
  | MRole (m_role: role)
  | MRoleBinding (m_rolebinding: rolebinding)

fun manifest_meta :: "manifest \<Rightarrow> objmeta" where
  "manifest_meta (MSecret x) = sec_meta x"
| "manifest_meta (MConfigMap x) = cm_meta x"
| "manifest_meta (MPVC x) = pvc_meta x"
| "manifest_meta (MStatefulSet x) = sts_meta x"
| "manifest_meta (MService x) = svc_meta x"
| "manifest_meta (MNetworkPolicy x) = npol_meta x"
| "manifest_meta (MDeployment x) = dep_meta x"
| "manifest_meta (MIngress x) = ing_meta x"
| "manifest_meta (MHTTPRoute x) = hr_meta x"
| "manifest_meta (MJob x) = job_meta x"
| "manifest_meta (MServiceAccount x) = sa_meta x"
| "manifest_meta (MRole x) = role_meta x"
| "manifest_meta (MRoleBinding x) = rb_meta x"

end
