(* ===== verification/ConfigTypes.thy ===== *)
theory ConfigTypes
  imports K8sTypes
begin

text \<open>The v1alpha1 TradeBotConfig resource (\<open>api/v1alpha1/tradebotconfig_types.go\<close>), one record per
  Go struct with the fields in source order; a field keeps its Go name behind a prefix of its
  struct. Where the configuration builder tells a nil slice or map from an empty one
  (\<open>Pairs\<close>, \<open>BacktestBreakdown\<close>, \<open>MinimalROI\<close>, the raw CCXT documents) the field is an option.\<close>

record botconfig =
  bc_BotName :: string
  bc_TradingMode :: string
  bc_DryRun :: "bool option"
  bc_DryRunWallet :: "float64 option"
  bc_StakeCurrency :: string
  bc_StakeAmount :: string
  bc_MaxOpenTrades :: "int option"
  bc_FiatDisplayCurrency :: string
  bc_DBUrl :: string
  bc_Export :: string
  bc_DisableParamExport :: "bool option"
  bc_DisableDataframeChecks :: "bool option"

record svmparams =
  svm_Shuffle :: "bool option"
  svm_Nu :: "float64 option"

record featureparameters =
  fp_IncludeCorrPairlist :: "string list"
  fp_IncludeTimeframes :: "string list"
  fp_LabelPeriodCandles :: "int option"
  fp_IncludeShiftedCandles :: "int option"
  fp_DIThreshold :: "float64 option"
  fp_WeightFactor :: "float64 option"
  fp_PrincipalComponentAnalysis :: "bool option"
  fp_IndicatorPeriodsCandles :: "int list"
  fp_UseSVMToRemoveOutliers :: "bool option"
  fp_PlotFeatureImportances :: "int option"
  fp_SVMParams :: "svmparams option"
  fp_ShuffleAfterSplit :: "bool option"
  fp_BufferTrainDataCandles :: "int option"

record datasplitparameters =
  dsp_TestSize :: "float64 option"
  dsp_RandomState :: "int option"
  dsp_Shuffle :: "bool option"

record modelrewardparameters =
  mrp_RR :: "float64 option"
  mrp_ProfitAim :: "float64 option"

record rlconfig =
  rl_DropOHLCFromFeatures :: "bool option"
  rl_TrainCycles :: "int option"
  rl_MaxTradeDurationCandles :: "int option"
  rl_AddStateInfo :: "bool option"
  rl_MaxTrainingDrawdownPct :: "float64 option"
  rl_CPUCount :: "int option"
  rl_ModelType :: string
  rl_PolicyType :: string
  rl_NetArch :: "int list"
  rl_RandomizeStartingPosition :: "bool option"
  rl_ProgressBar :: "bool option"
  rl_ModelRewardParameters :: "modelrewardparameters option"

text \<open>\<open>ModelTrainingParameters\<close> has no fields.\<close>

datatype modeltrainingparameters = ModelTrainingParameters

record aiconfig =
  ai_Enabled :: "bool option"
  ai_Identifier :: string
  ai_WriteMetricsToDisk :: "bool option"
  ai_PurgeOldModels :: "int option"
  ai_ConvWidth :: "int option"
  ai_TrainPeriodDays :: "int option"
  ai_BacktestPeriodDays :: "int option"
  ai_LiveRetrainHours :: "int option"
  ai_ExpirationHours :: "int option"
  ai_SaveBacktestModels :: "bool option"
  ai_FitLivePredictionsCandles :: "int option"
  ai_DataKitchenThreadCount :: "int option"
  ai_ActivateTensorboard :: "bool option"
  ai_WaitForTrainingIterationOnReload :: "bool option"
  ai_ContinueLearning :: "bool option"
  ai_Keras :: "bool option"
  ai_FeatureParameters :: "featureparameters option"
  ai_DataSplitParameters :: "datasplitparameters option"
  ai_ModelTrainingParameters :: "modeltrainingparameters option"
  ai_RLConfig :: "rlconfig option"

record dataconfig =
  dc_DataformatOHLCV :: string
  dc_DataformatTrades :: string
  dc_PositionAdjustment :: string
  dc_NewPairsDaysAgo :: "int option"
  dc_DownloadTrades :: "bool option"
  dc_MaxEntryPositionAdjustment :: "float64 option"
  dc_AvailableCapital :: "float64 option"
  dc_AmendLastStakeAmount :: "bool option"
  dc_LastStakeAmountMinRatio :: "float64 option"
  dc_ProcessOnlyNewCandles :: "bool option"
  dc_AmountReservePercent :: "float64 option"
  dc_ReduceDfFootprint :: "bool option"
  dc_CustomPriceMaxDistanceRatio :: "float64 option"

record advancedconfig =
  adv_TradableBalanceRatio :: "float64 option"
  adv_CancelOpenOrdersOnExit :: "bool option"
  adv_MarginMode :: string
  adv_InitialState :: string
  adv_ForceEntryEnable :: "bool option"

record unfilledtimeoutconfig =
  uto_Entry :: "int option"
  uto_Exit :: "int option"
  uto_ExitTimeoutCount :: "int option"
  uto_Unit :: string

record internalsconfig =
  itn_ProcessThrottleSecs :: "int option"
  itn_Interval :: "int option"
  itn_SdNotify :: "bool option"

record pairlistspec =
  pl_Pairs :: "string list option"

record pairlistconfig =
  pc_Method :: string
  pc_NumberAssets :: "int option"
  pc_RefreshPeriod :: "int option"
  pc_AllowInactive :: bool
  pc_SortKey :: string
  pc_LookbackTimeframe :: string
  pc_LookbackPeriod :: "int option"
  pc_LookbackDays :: "int option"
  pc_MinChangeRate :: "float64 option"
  pc_ProducerName :: string
  pc_Mode :: string
  pc_ProcessingMode :: string
  pc_PairlistURL :: string
  pc_KeepPairlistOnFailure :: "bool option"
  pc_ReadTimeout :: "int option"
  pc_BearerToken :: string
  pc_SaveToFile :: string
  pc_MaxRank :: "int option"
  pc_Categories :: "string list"
  pc_MinDaysListed :: "int option"
  pc_MaxDaysListed :: "int option"
  pc_MinPrice :: "float64 option"
  pc_MaxPrice :: "float64 option"
  pc_MaxSpreadRatio :: "float64 option"
  pc_LookbackDaysRange :: "int option"
  pc_MinRateOfChange :: "float64 option"
  pc_MaxRateOfChange :: "float64 option"
  pc_LookbackDaysVolatility :: "int option"
  pc_MinVolatility :: "float64 option"
  pc_MaxVolatility :: "float64 option"
  pc_Offset :: "int option"
  pc_ShuffleFrequency :: string
  pc_Seed :: "int option"
  pc_Minutes :: "int option"
  pc_MinProfit :: "float64 option"

record pairlistmethodsspec =
  pms_Methods :: "pairlistconfig list"

record pricingcheckdepthofmarket =
  pcd_Enabled :: "bool option"
  pcd_BidsToAskDelta :: "float64 option"

record pricingspec =
  prc_PriceSide :: string
  prc_PriceLastBalance :: "float64 option"
  prc_UseOrderBook :: "bool option"
  prc_OrderBookTop :: "int option"
  prc_CheckDepthOfMarket :: "pricingcheckdepthofmarket option"

record exchangespec =
  ex_Name :: string
  ex_Key :: string
  ex_Secret :: string
  ex_Password :: string
  ex_UID :: string
  ex_AccountID :: string
  ex_WalletAddress :: string
  ex_PrivateKey :: string
  ex_SecretRef :: string
  ex_CcxtConfig :: "string option"
  ex_CcxtAsyncConfig :: "string option"
  ex_CcxtSyncConfig :: "string option"
  ex_Whitelist :: "pairlistspec option"
  ex_Blacklist :: "pairlistspec option"
  ex_LogResponses :: "bool option"
  ex_EnableWS :: "bool option"
  ex_UnkownFeeRate :: "bool option"
  ex_OutdatedOffset :: "int option"
  ex_MarketRefreshInterval :: "int option"

record types =
  ot_Entry :: string
  ot_Exit :: string
  ot_EmergencyExit :: string
  ot_ForceEntry :: string
  ot_ForceExit :: string
  ot_Stoploss :: string
  ot_StoplossOnExchange :: "bool option"
  ot_StoplossOnExchangeInterval :: "int option"
  ot_StoplossOnExchangeLimitRatio :: "float64 option"

record timeinforce =
  tif_Entry :: string
  tif_Exit :: string

record flow =
  fl_CacheSize :: "int option"
  fl_MaxCandles :: "int option"
  fl_Scale :: "float64 option"
  fl_StackedImbalanceRange :: "int option"
  fl_ImbalanceVolume :: "int option"
  fl_ImbalanceRatio :: "float64 option"

record orderspec =
  ord_Types :: "types option"
  ord_TimeInForce :: "timeinforce option"
  ord_Flow :: "flow option"

record riskmanagementspec =
  rm_MinimalROI :: "float64 option gomap option"
  rm_Stoploss :: "float64 option"
  rm_TrailingStop :: bool
  rm_TrailingStopPositive :: "float64 option"
  rm_TrailingStopPositiveOffset :: "float64 option"
  rm_TrailingOnlyOffsetIsReached :: bool
  rm_UseExitSignal :: bool
  rm_ExitProfitOnly :: bool
  rm_ExitProfitOffset :: "float64 option"
  rm_Fee :: "float64 option"
  rm_IgnoreRoiIfEntrySignal :: bool
  rm_IgnoreBuyingExpiredCandleAfter :: "int option"
  rm_MinimumTradeAmount :: "int option"
  rm_TargetedTradeAmount :: "int option"
  rm_LookaheadAnalysisExportFilename :: string
  rm_StartupCandle :: "int list option"
  rm_LiquidationBuffer :: "float64 option"
  rm_BacktestBreakdown :: "string list option"

record apiserverconfig =
  as_Enabled :: "bool option"
  as_ListenIP :: string
  as_ListenPort :: "int option"
  as_Verbosity :: string
  as_EnableOpenAPI :: "bool option"
  as_Username :: string
  as_Password :: string
  as_JWTSecretKey :: string
  as_SecretRef :: string
  as_CORSOrigins :: "string list"

record experimentalconfig =
  exp_BlockBadExchanges :: "bool option"

record loggingconfig =
  lg_Version :: "int option"

record notificationtelegramsettings =
  tgs_Status :: string
  tgs_Warning :: string
  tgs_Startup :: string
  tgs_Entry :: string
  tgs_EntryFill :: string
  tgs_EntryCancel :: string
  tgs_Exit :: string
  tgs_ExitFill :: string
  tgs_ExitCancel :: string
  tgs_ProtectionTrigger :: string
  tgs_ProtectionTriggerGlobal :: string

record notificationtelegram =
  tg_Enabled :: "bool option"
  tg_Token :: string
  tg_SecretRef :: string
  tg_BalanceDustLevel :: "float64 option"
  tg_Reload :: "bool option"
  tg_AllowCustomMessages :: "bool option"
  tg_ChatID :: string
  tg_TopicID :: string
  tg_AuthorizedUsers :: "string list"
  tg_Settings :: "notificationtelegramsettings option"

record notificationwebhook =
  wh_Enabled :: "bool option"
  wh_URL :: string
  wh_Entry :: string
  wh_EntryCancel :: string
  wh_EntryFill :: string
  wh_Exit :: string
  wh_ExitCancel :: string
  wh_ExitFill :: string
  wh_Status :: string
  wh_AllowCustomMessages :: "bool option"

record notificationdiscord =
  dis_Enabled :: "bool option"
  dis_WebhookURL :: string
  dis_ExitFill :: "smap list"
  dis_EntryFill :: "smap list"

record notificationspec =
  nt_Telegram :: "notificationtelegram option"
  nt_Webhook :: "notificationwebhook option"
  nt_Discord :: "notificationdiscord option"

record tradebotconfigspec =
  tcs_Bot :: "botconfig option"
  tcs_AI :: "aiconfig option"
  tcs_Data :: "dataconfig option"
  tcs_Advanced :: "advancedconfig option"
  tcs_Timeout :: "unfilledtimeoutconfig option"
  tcs_Internals :: "internalsconfig option"
  tcs_Exchange :: "exchangespec option"
  tcs_Pairlist :: "pairlistspec option"
  tcs_PairlistMethod :: "pairlistmethodsspec option"
  tcs_EntryPricing :: "pricingspec option"
  tcs_ExitPricing :: "pricingspec option"
  tcs_Order :: "orderspec option"
  tcs_RiskManagement :: "riskmanagementspec option"
  tcs_Notification :: "notificationspec option"
  tcs_APIServer :: "apiserverconfig option"
  tcs_Experimental :: "experimentalconfig option"
  tcs_Logging :: "loggingconfig option"

record tradebotconfigstatus =
  tcst_Phase :: string
  tcst_Message :: string
  tcst_Conditions :: "condition list"
  tcst_ObservedGeneration :: int

record tradebotconfig =
  tc_meta :: objmeta
  tc_Spec :: tradebotconfigspec
  tc_Status :: tradebotconfigstatus

end
