(* ===== verification/ApiTypes.thy ===== *)
theory ApiTypes
  imports ConfigTypes
begin

text \<open>The remaining custom resources the TradeBot controller works with: TradeBot in both API
  versions (\<open>api/v1alpha1/tradebot_types.go\<close>, \<open>api/v1beta1/tradebot_types.go\<close>), Strategy, and the
  v1beta1 FreqUI, plus the condition and reason vocabulary of \<open>api/v1alpha1/conditions.go\<close>. The
  sub-structures that both TradeBot versions declare field for field alike (app settings,
  introspection, bot status) are one record here; the two TradeBot specs differ and are two.\<close>

section \<open>Shared sub-structures\<close>

record tbpodspec =
  tp_Image :: string
  tp_Resources :: resreq
  tp_Env :: "envvar list"
  tp_VolumeMounts :: "volmount list"
  tp_Volumes :: "volume list"
  tp_SecurityContext :: "podsecctx option"
  tp_InitContainers :: "container list"
  tp_ServiceName :: string
  tp_ImagePullSecrets :: "string list"
  tp_LivenessProbe :: "probe option"
  tp_ReadinessProbe :: "probe option"
  tp_Affinity :: "affinity option"
  tp_AntiAffinity :: "raw option"
  tp_NodeSelector :: smap
  tp_Tolerations :: "raw list"
  tp_TopologySpreadConstraints :: "raw list"

record tbservicespec =
  ts_Type :: string
  ts_Ports :: "svcport list"
  ts_Selector :: smap
  ts_Annotations :: smap

record tbpvcspec =
  tv_AccessModes :: "string list"
  tv_StorageSize :: "string option"
  tv_StorageClassName :: string
  tv_VolumeName :: string
  tv_Annotations :: smap
  tv_Labels :: smap
  tv_FixVolumePermissions :: "bool option"

record tbnetworkpolicyspec =
  tn_ExtraPeers :: "netpeer list"

record tbappconfig =
  app_PodSpec :: "tbpodspec option"
  app_ServiceSpec :: "tbservicespec option"
  app_PVCSpec :: "tbpvcspec option"
  app_NetworkPolicySpec :: "tbnetworkpolicyspec option"

record introspectionspec =
  is_Enabled :: "bool option"
  is_Interval :: duration

record datacachespec =
  dcs_PVCName :: string
  dcs_DownloadArgs :: "string list"
  dcs_DownloadPolicy :: string

record botstatus =
  bs_State :: string
  bs_Version :: string
  bs_DryRun :: "bool option"
  bs_OpenTrades :: "int option"
  bs_MaxOpenTrades :: "int option"
  bs_TotalProfitAbs :: string
  bs_TotalProfitPct :: string
  bs_LastPollTime :: "gotime option"
  bs_LastPollError :: string

definition botstatus_zero :: botstatus where
  "botstatus_zero = \<lparr>bs_State = [], bs_Version = [], bs_DryRun = None, bs_OpenTrades = None,
     bs_MaxOpenTrades = None, bs_TotalProfitAbs = [], bs_TotalProfitPct = [],
     bs_LastPollTime = None, bs_LastPollError = []\<rparr>"

section \<open>TradeBot\<close>

record tradebotstatus =
  st_Phase :: string
  st_Message :: string
  st_Conditions :: "condition list"
  st_ObservedGeneration :: int
  st_AppliedConfigHash :: string
  st_ResolvedImage :: string
  st_Bot :: "botstatus option"

text \<open>v1alpha1.\<close>

record tradebotspec =
  tb_FreqtradeCommand :: string
  tb_FreqtradeArguments :: "string list"
  tb_Config :: string
  tb_Strategy :: string
  tb_App :: "tbappconfig option"
  tb_Data :: "datacachespec option"
  tb_UpdateStrategy :: string
  tb_Introspection :: "introspectionspec option"

record tradebot =
  tb_meta :: objmeta
  tb_Spec :: tradebotspec
  tb_Status :: tradebotstatus

text \<open>v1beta1, the storage version.\<close>

record betabotstatus =
  bbs_State :: string
  bbs_Version :: string
  bbs_DryRun :: "bool option"
  bbs_OpenTrades :: "int option"
  bbs_MaxOpenTrades :: "int option"
  bbs_TotalProfitAbs :: string
  bbs_TotalProfitPct :: string
  bbs_LastPollTime :: "gotime option"
  bbs_LastPollError :: string

record betatradebotstatus =
  bst_Phase :: string
  bst_Message :: string
  bst_Conditions :: "condition list"
  bst_ObservedGeneration :: int
  bst_AppliedConfigHash :: string
  bst_ResolvedImage :: string
  bst_Bot :: "betabotstatus option"

record betatradebotspec =
  btb_ConfigRef :: string
  btb_StrategyRef :: string
  btb_App :: "tbappconfig option"
  btb_UpdateStrategy :: string
  btb_Introspection :: "introspectionspec option"
  btb_State :: string

record betatradebot =
  btb_meta :: objmeta
  btb_Spec :: betatradebotspec
  btb_Status :: betatradebotstatus

definition TradeBotStateRunning :: string where "TradeBotStateRunning = ''Running''"
definition TradeBotStateStopped :: string where "TradeBotStateStopped = ''Stopped''"

section \<open>Strategy\<close>

record strategyspec =
  ss_Name :: string
  ss_Script :: string

record strategystatus =
  sst_Phase :: string
  sst_Message :: string
  sst_Conditions :: "condition list"
  sst_ObservedGeneration :: int

record strategy =
  sy_meta :: objmeta
  sy_Spec :: strategyspec
  sy_Status :: strategystatus

section \<open>FreqUI\<close>

text \<open>The v1beta1 FreqUI (\<open>api/v1beta1/frequi_types.go\<close>); a list of local references is the list of
  their names.\<close>

record fupodspec =
  fp_Image :: string
  fp_Resources :: resreq
  fp_Env :: "envvar list"
  fp_VolumeMounts :: "volmount list"
  fp_Volumes :: "volume list"
  fp_SecurityContext :: "podsecctx option"
  fp_InitContainers :: "container list"
  fp_ImagePullSecrets :: "string list"
  fp_LivenessProbe :: "probe option"
  fp_ReadinessProbe :: "probe option"
  fp_Affinity :: "affinity option"
  fp_AntiAffinity :: "raw option"
  fp_NodeSelector :: smap
  fp_Tolerations :: "raw list"
  fp_TopologySpreadConstraints :: "raw list"
  fp_Replicas :: "int option"

record fuservicespec =
  fs_Type :: string
  fs_Ports :: "svcport list"
  fs_Selector :: smap
  fs_Annotations :: smap
  fs_LoadBalancerSourceRanges :: "string list"
  fs_ExternalTrafficPolicy :: string
  fs_SessionAffinity :: string

record fuingressspec =
  fi_IngressClassName :: "string option"
  fi_Rules :: "ingressrule list"
  fi_TLS :: "ingresstls list"
  fi_DefaultBackend :: "ingressbackend option"
  fi_Annotations :: smap

record fuappconfig =
  fa_PodSpec :: "fupodspec option"
  fa_ServiceSpec :: "fuservicespec option"
  fa_IngressSpec :: "fuingressspec option"

record fugatewayspec =
  fg_ParentRefs :: "raw list"
  fg_Hostnames :: "string list"
  fg_Annotations :: smap
  fg_Labels :: smap

text \<open>\<open>FUExposureType\<close>; the empty string is the Ingress default.\<close>

abbreviation "FUExposureIngress \<equiv> ''Ingress''"
abbreviation "FUExposureGateway \<equiv> ''Gateway''"
abbreviation "FUExposureNone \<equiv> ''None''"

record frequispec =
  fu_Host :: string
  fu_TLS :: "ingresstls list"
  fu_IngressAnnotations :: smap
  fu_App :: "fuappconfig option"
  fu_TradeBotRefs :: "string list"
  fu_Exposure :: string
  fu_Gateway :: "fugatewayspec option"

record frequistatus =
  fst_Phase :: string
  fst_Message :: string
  fst_URL :: string
  fst_Conditions :: "condition list"
  fst_ObservedGeneration :: int

record frequi =
  fu_meta :: objmeta
  fu_Spec :: frequispec
  fu_Status :: frequistatus

section \<open>Backtest\<close>

text \<open>The v1beta1 Backtest (\<open>api/v1beta1/backtest_types.go\<close>). The inlined \<open>RunSpec\<close> is a record of its own
  that \<open>BacktestSpec\<close> extends. A resource quantity is its textual form.\<close>

record datasourcespec =
  ds_PVCName :: string
  ds_DownloadArgs :: "string list"
  ds_DownloadPolicy :: string

record resultsspec =
  rsp_Size :: string
  rsp_StorageClassName :: "string option"
  rsp_RetentionPolicy :: string

record runpodspec =
  rp_Image :: string
  rp_Resources :: resreq
  rp_Env :: "envvar list"
  rp_VolumeMounts :: "volmount list"
  rp_Volumes :: "volume list"
  rp_SecurityContext :: "podsecctx option"
  rp_InitContainers :: "container list"
  rp_ImagePullSecrets :: "string list"
  rp_Affinity :: "affinity option"
  rp_NodeSelector :: smap
  rp_Tolerations :: "raw list"
  rp_TopologySpreadConstraints :: "raw list"

record runspec =
  run_ConfigRef :: string
  run_StrategyRef :: string
  run_Timerange :: string
  run_Timeframe :: string
  run_Pairs :: "string list"
  run_Data :: "datasourcespec option"
  run_Results :: "resultsspec option"
  run_Pod :: "runpodspec option"
  run_TTLSecondsAfterFinished :: "int option"
  run_ExtraArgs :: "string list"

record backtestspec = runspec +
  bk_TimeframeDetail :: string
  bk_MaxOpenTrades :: "int option"
  bk_StakeAmount :: string
  bk_DryRunWallet :: "string option"
  bk_Fee :: "string option"
  bk_EnableProtections :: "bool option"
  bk_Breakdown :: "string list"
  bk_Cache :: string

record backtestresults =
  br_TotalTrades :: int
  br_ProfitAbs :: string
  br_ProfitPct :: string
  br_WinRatePct :: string
  br_MaxDrawdownPct :: string
  br_SharpeRatio :: string
  br_SortinoRatio :: string
  br_CAGRPct :: string
  br_BestPair :: string
  br_WorstPair :: string
  br_ResultFile :: string

record backteststatus =
  bkst_Phase :: string
  bkst_Message :: string
  bkst_Conditions :: "condition list"
  bkst_ObservedGeneration :: int
  bkst_JobName :: string
  bkst_ResultsPVCName :: string
  bkst_StartTime :: "gotime option"
  bkst_CompletionTime :: "gotime option"
  bkst_Results :: "backtestresults option"

record backtest =
  bk_meta :: objmeta
  bk_Spec :: backtestspec
  bk_Status :: backteststatus

section \<open>Condition types and reasons\<close>

abbreviation "ConditionReady \<equiv> ''Ready''"
abbreviation "ConditionConfigResolved \<equiv> ''ConfigResolved''"
abbreviation "ConditionWorkloadReady \<equiv> ''WorkloadReady''"
abbreviation "ConditionConfigDrift \<equiv> ''ConfigDrift''"
abbreviation "ConditionBotReachable \<equiv> ''BotReachable''"
abbreviation "ConditionStateReconciled \<equiv> ''StateReconciled''"

abbreviation "ConditionTradeBotRefsResolved \<equiv> ''TradeBotRefsResolved''"
abbreviation "ConditionExposureReady \<equiv> ''ExposureReady''"
abbreviation "ConditionResultsAvailable \<equiv> ''ResultsAvailable''"

abbreviation "ReasonReferenceNotFound \<equiv> ''ReferenceNotFound''"
abbreviation "ReasonConfigInvalid \<equiv> ''ConfigInvalid''"
abbreviation "ReasonSecretMissing \<equiv> ''SecretMissing''"
abbreviation "ReasonWorkloadProgressing \<equiv> ''WorkloadProgressing''"
abbreviation "ReasonReconcileError \<equiv> ''ReconcileError''"
abbreviation "ReasonJobModeRemoved \<equiv> ''JobModeRemoved''"
abbreviation "ReasonPendingRestart \<equiv> ''PendingRestart''"
abbreviation "ReasonConnectionRefused \<equiv> ''ConnectionRefused''"
abbreviation "ReasonAuthFailed \<equiv> ''AuthFailed''"
abbreviation "ReasonTimeout \<equiv> ''Timeout''"
abbreviation "ReasonIntrospectionDisabled \<equiv> ''IntrospectionDisabled''"
abbreviation "ReasonBotUnreachable \<equiv> ''BotUnreachable''"
abbreviation "ReasonStateChangePending \<equiv> ''StateChangePending''"
abbreviation "ReasonStateChangeFailed \<equiv> ''StateChangeFailed''"
abbreviation "ReasonAsExpected \<equiv> ''AsExpected''"
abbreviation "ReasonWorkloadHealthy \<equiv> ''WorkloadHealthy''"
abbreviation "ReasonWorkloadFailed \<equiv> ''WorkloadFailed''"
abbreviation "ReasonWorkloadSucceeded \<equiv> ''WorkloadSucceeded''"
abbreviation "ReasonUnresolvableTradeBotRefs \<equiv> ''UnresolvableTradeBotRefs''"
abbreviation "ReasonGatewayAPINotInstalled \<equiv> ''GatewayAPINotInstalled''"
abbreviation "ReasonRouteNameConflict \<equiv> ''RouteNameConflict''"
abbreviation "ReasonRoutePending \<equiv> ''RoutePending''"
abbreviation "ReasonRouteNotAccepted \<equiv> ''RouteNotAccepted''"
abbreviation "ReasonExposureNone \<equiv> ''ExposureNone''"
abbreviation "ReasonResultsUnavailable \<equiv> ''ResultsUnavailable''"

text \<open>\<open>SetObservedGeneration\<close> of the conditioned resources.\<close>

definition tradebot_SetObservedGeneration :: "int \<Rightarrow> betatradebot \<Rightarrow> betatradebot" where
  "tradebot_SetObservedGeneration g b = b\<lparr>btb_Status := (btb_Status b)\<lparr>bst_ObservedGeneration := g\<rparr>\<rparr>"

definition strategy_SetObservedGeneration :: "int \<Rightarrow> strategy \<Rightarrow> strategy" where
  "strategy_SetObservedGeneration g s = s\<lparr>sy_Status := (sy_Status s)\<lparr>sst_ObservedGeneration := g\<rparr>\<rparr>"

definition tradebotconfig_SetObservedGeneration :: "int \<Rightarrow> tradebotconfig \<Rightarrow> tradebotconfig" where
  "tradebotconfig_SetObservedGeneration g c =
     c\<lparr>tc_Status := (tc_Status c)\<lparr>tcst_ObservedGeneration := g\<rparr>\<rparr>"

definition frequi_SetObservedGeneration :: "int \<Rightarrow> frequi \<Rightarrow> frequi" where
  "frequi_SetObservedGeneration g f = f\<lparr>fu_Status := (fu_Status f)\<lparr>fst_ObservedGeneration := g\<rparr>\<rparr>"

definition backtest_SetObservedGeneration :: "int \<Rightarrow> backtest \<Rightarrow> backtest" where
  "backtest_SetObservedGeneration g b = b\<lparr>bk_Status := (bk_Status b)\<lparr>bkst_ObservedGeneration := g\<rparr>\<rparr>"

end
