(* ===== verification/Client.thy ===== *)
theory Client
  imports Effects ApiTypes "HOL-Library.Monad_Syntax"
begin

text \<open>The operator's outside world and the write helpers of \<open>controllers/shared/utils.go\<close>.

  \<open>api\<close> collects the external operations: the Kubernetes API server behind
  \<open>client.Client\<close> (typed reads, updates, status updates, server-side apply), the HTTP transport to
  the bots, the clock and the random source. \<open>klib\<close> collects the pure functions of the Kubernetes
  libraries (status conditions, finalizers, controller references, semantic equality) and \<open>golib\<close>
  the ones of Go's \<open>net/url\<close>, \<open>strconv\<close> and \<open>encoding/json\<close>. All three are parameters: a
  definition takes the ones it calls as arguments. What the code relies on of the condition and
  finalizer functions is stated as the locales \<open>meta_conditions\<close> and \<open>finalizer_ops\<close>, from their
  documentation.\<close>

section \<open>JSON trees\<close>

text \<open>A value of a Go \<open>map[string]interface{}\<close> tree: integers and floats are encoder-side values, a
  number read from text is its literal.\<close>

datatype json =
    JNull
  | JBool bool
  | JInt int
  | JFloat float64
  | JNum string
  | JStr string
  | JList "json list"
  | JObj "(string \<times> json) list"

type_synonym config = "json gomap"

section \<open>Decoding into structs\<close>

text \<open>\<open>encoding/json\<close> into a struct: the last member whose name matches the field, ignoring case,
  sets it, null leaves it alone, and a value of the wrong type is an error.\<close>

definition lower_char :: "char \<Rightarrow> char" where
  "lower_char c = (if 65 \<le> (of_char c :: nat) \<and> (of_char c :: nat) \<le> 90 then char_of ((of_char c :: nat) + 32) else c)"

definition field_of :: "string \<Rightarrow> json \<Rightarrow> json option" where
  "field_of name j = (case j of
       JObj ms \<Rightarrow> map_option snd
          (find (\<lambda>(k, v). map lower_char k = map lower_char name \<and> v \<noteq> JNull) (rev ms))
     | _ \<Rightarrow> None)"

definition is_struct :: "json \<Rightarrow> bool" where
  "is_struct j = (case j of JObj _ \<Rightarrow> True | JNull \<Rightarrow> True | _ \<Rightarrow> False)"

definition type_error :: goerr where
  "type_error = ErrString ''json: cannot unmarshal value into Go struct field''"

definition dec_string :: "string \<Rightarrow> json \<Rightarrow> goerr + string" where
  "dec_string f j = (case field_of f j of
       None \<Rightarrow> Inr [] | Some (JStr s) \<Rightarrow> Inr s | Some _ \<Rightarrow> Inl type_error)"

definition dec_bool :: "string \<Rightarrow> json \<Rightarrow> goerr + bool" where
  "dec_bool f j = (case field_of f j of
       None \<Rightarrow> Inr False | Some (JBool b) \<Rightarrow> Inr b | Some _ \<Rightarrow> Inl type_error)"

fun parse_digits :: "string \<Rightarrow> nat \<Rightarrow> nat option" where
  "parse_digits [] n = Some n"
| "parse_digits (c # cs) n =
     (if 48 \<le> (of_char c :: nat) \<and> (of_char c :: nat) \<le> 57
      then parse_digits cs (10 * n + (of_char c - 48)) else None)"

text \<open>An integer field accepts an integer literal within 64 bits.\<close>

definition parse_int :: "string \<Rightarrow> int option" where
  "parse_int s = (let (sign, ds) = (case s of CHR ''-'' # r \<Rightarrow> (-1, r) | _ \<Rightarrow> (1, s)) in
     if ds = [] then None
     else (case parse_digits ds 0 of
         None \<Rightarrow> None
       | Some n \<Rightarrow> let i = sign * int n in if - (2 ^ 63) \<le> i \<and> i < 2 ^ 63 then Some i else None))"

definition dec_int :: "string \<Rightarrow> json \<Rightarrow> goerr + int" where
  "dec_int f j = (case field_of f j of
       None \<Rightarrow> Inr 0
     | Some (JNum s) \<Rightarrow> (case parse_int s of None \<Rightarrow> Inl type_error | Some i \<Rightarrow> Inr i)
     | Some _ \<Rightarrow> Inl type_error)"

section \<open>Requests, events and external operations\<close>

record httpreq =
  rq_Method :: string
  rq_URL :: string
  rq_BasicAuth :: "(string \<times> string) option"
  rq_Headers :: smap
  rq_Body :: string

record httpresp =
  rs_StatusCode :: int
  rs_Body :: "goerr + string"

datatype eventtype = EventNormal | EventWarning

text \<open>The value of a gauge: a whole number, a float, or a percentage divided by 100.\<close>

datatype mvalue = MvInt int | MvFloat float64 | MvPercent float64

text \<open>An entry of a zip archive: its name, and what opening it and then reading it yields.\<close>

type_synonym zipentry = "string \<times> (goerr + goerr + string)"

text \<open>One entry of the trace: a call with its answer, a Kubernetes Event that was recorded, or a
  metric that was written.\<close>

datatype event =
    GetTradeBot nname "goerr + tradebot"
  | GetBetaTradeBot nname "goerr + betatradebot"
  | ListTradeBots "goerr + tradebot list"
  | UpdateBetaTradeBot betatradebot "goerr option"
  | StatusUpdateBetaTradeBot betatradebot "goerr option"
  | GetStrategy nname "goerr + strategy"
  | StatusUpdateStrategy strategy "goerr option"
  | GetTradeBotConfig nname "goerr + tradebotconfig"
  | StatusUpdateTradeBotConfig tradebotconfig "goerr option"
  | ListFreqUI string "goerr + frequi list"
  | GetSecret nname "goerr + secret"
  | GetStatefulSet nname "goerr + statefulset"
  | UpdateStatefulSet statefulset "goerr option"
  | GetPVC nname "goerr + pvc"
  | UpdatePVC pvc "goerr option"
  | ApplyPatch manifest "goerr option"
  | GetFreqUI nname "goerr + frequi"
  | StatusUpdateFreqUI frequi "goerr option"
  | GetDeployment nname "goerr + deployment"
  | GetIngress nname "goerr + ingress"
  | DeleteIngress ingress "goerr option"
  | ListHTTPRoutes string smap "goerr + httproute list"
  | PatchHTTPRoute httproute "goerr + httproute"
  | DeleteHTTPRoute httproute "goerr option"
  | GetBacktest nname "goerr + backtest"
  | UpdateBacktest backtest "goerr option"
  | StatusUpdateBacktest backtest "goerr option"
  | GetJob nname "goerr + job"
  | GetConfigMap nname "goerr + configmap"
  | UpdateConfigMap configmap "goerr option"
  | CreateConfigMap configmap "goerr option"
  | GetPod nname "goerr + pod"
  | ReadFile string "goerr + string"
  | WriteFile string string "goerr option"
  | OpenZip string "goerr + zipentry list"
  | HTTPDo httpreq "goerr + httpresp"
  | Recorded eventtype string string
  | MetricInc string "string list"
  | MetricObserve string
  | MetricSet string smap mvalue
  | MetricDelete string smap

record 'e api =
  api_GetTradeBot :: "nname \<Rightarrow> 'e \<Rightarrow> (goerr + tradebot) \<times> 'e"
  api_GetBetaTradeBot :: "nname \<Rightarrow> 'e \<Rightarrow> (goerr + betatradebot) \<times> 'e"
  api_ListTradeBots :: "'e \<Rightarrow> (goerr + tradebot list) \<times> 'e"
  api_UpdateBetaTradeBot :: "betatradebot \<Rightarrow> 'e \<Rightarrow> goerr option \<times> 'e"
  api_StatusUpdateBetaTradeBot :: "betatradebot \<Rightarrow> 'e \<Rightarrow> goerr option \<times> 'e"
  api_GetStrategy :: "nname \<Rightarrow> 'e \<Rightarrow> (goerr + strategy) \<times> 'e"
  api_StatusUpdateStrategy :: "strategy \<Rightarrow> 'e \<Rightarrow> goerr option \<times> 'e"
  api_GetTradeBotConfig :: "nname \<Rightarrow> 'e \<Rightarrow> (goerr + tradebotconfig) \<times> 'e"
  api_StatusUpdateTradeBotConfig :: "tradebotconfig \<Rightarrow> 'e \<Rightarrow> goerr option \<times> 'e"
  api_ListFreqUI :: "string \<Rightarrow> 'e \<Rightarrow> (goerr + frequi list) \<times> 'e"
  api_GetSecret :: "nname \<Rightarrow> 'e \<Rightarrow> (goerr + secret) \<times> 'e"
  api_GetStatefulSet :: "nname \<Rightarrow> 'e \<Rightarrow> (goerr + statefulset) \<times> 'e"
  api_UpdateStatefulSet :: "statefulset \<Rightarrow> 'e \<Rightarrow> goerr option \<times> 'e"
  api_GetPVC :: "nname \<Rightarrow> 'e \<Rightarrow> (goerr + pvc) \<times> 'e"
  api_UpdatePVC :: "pvc \<Rightarrow> 'e \<Rightarrow> goerr option \<times> 'e"
  api_Patch :: "manifest \<Rightarrow> 'e \<Rightarrow> goerr option \<times> 'e"
  api_GetFreqUI :: "nname \<Rightarrow> 'e \<Rightarrow> (goerr + frequi) \<times> 'e"
  api_StatusUpdateFreqUI :: "frequi \<Rightarrow> 'e \<Rightarrow> goerr option \<times> 'e"
  api_GetDeployment :: "nname \<Rightarrow> 'e \<Rightarrow> (goerr + deployment) \<times> 'e"
  api_GetIngress :: "nname \<Rightarrow> 'e \<Rightarrow> (goerr + ingress) \<times> 'e"
  api_DeleteIngress :: "ingress \<Rightarrow> 'e \<Rightarrow> goerr option \<times> 'e"
  api_ListHTTPRoutes :: "string \<Rightarrow> smap \<Rightarrow> 'e \<Rightarrow> (goerr + httproute list) \<times> 'e"
  api_PatchHTTPRoute :: "httproute \<Rightarrow> 'e \<Rightarrow> (goerr + httproute) \<times> 'e"
  api_DeleteHTTPRoute :: "httproute \<Rightarrow> 'e \<Rightarrow> goerr option \<times> 'e"
  api_GetBacktest :: "nname \<Rightarrow> 'e \<Rightarrow> (goerr + backtest) \<times> 'e"
  api_UpdateBacktest :: "backtest \<Rightarrow> 'e \<Rightarrow> goerr option \<times> 'e"
  api_StatusUpdateBacktest :: "backtest \<Rightarrow> 'e \<Rightarrow> goerr option \<times> 'e"
  api_GetJob :: "nname \<Rightarrow> 'e \<Rightarrow> (goerr + job) \<times> 'e"
  api_GetConfigMap :: "nname \<Rightarrow> 'e \<Rightarrow> (goerr + configmap) \<times> 'e"
  api_UpdateConfigMap :: "configmap \<Rightarrow> 'e \<Rightarrow> goerr option \<times> 'e"
  api_CreateConfigMap :: "configmap \<Rightarrow> 'e \<Rightarrow> goerr option \<times> 'e"
  api_GetPod :: "nname \<Rightarrow> 'e \<Rightarrow> (goerr + pod) \<times> 'e"
  api_ReadFile :: "string \<Rightarrow> 'e \<Rightarrow> (goerr + string) \<times> 'e"
  api_WriteFile :: "string \<Rightarrow> string \<Rightarrow> 'e \<Rightarrow> goerr option \<times> 'e"
  api_OpenZip :: "string \<Rightarrow> 'e \<Rightarrow> (goerr + zipentry list) \<times> 'e"
  api_WaitSignal :: "bool \<Rightarrow> duration \<Rightarrow> 'e \<Rightarrow> bool \<times> 'e"
  api_HTTPDo :: "httpreq \<Rightarrow> 'e \<Rightarrow> (goerr + httpresp) \<times> 'e"
  api_Now :: "'e \<Rightarrow> gotime \<times> 'e"
  api_RandRead :: "nat \<Rightarrow> 'e \<Rightarrow> (goerr + (nat \<Rightarrow> char)) \<times> 'e"
  api_RetrySteps :: nat

text \<open>Pure third-party functions. \<open>SetStatusCondition\<close> takes the clock value it stamps a transition
  with.\<close>

record klib =
  SetStatusCondition :: "gotime \<Rightarrow> condition \<Rightarrow> condition list \<Rightarrow> condition list"
  FindStatusCondition :: "condition list \<Rightarrow> string \<Rightarrow> condition option"
  IsStatusConditionTrue :: "condition list \<Rightarrow> string \<Rightarrow> bool"
  IsStatusConditionFalse :: "condition list \<Rightarrow> string \<Rightarrow> bool"
  ContainsFinalizer :: "string list \<Rightarrow> string \<Rightarrow> bool"
  AddFinalizer :: "string list \<Rightarrow> string \<Rightarrow> string list"
  RemoveFinalizer :: "string list \<Rightarrow> string \<Rightarrow> string list"
  SetControllerReference :: "objmeta \<Rightarrow> manifest \<Rightarrow> goerr + manifest"
  GetControllerOf :: "objmeta \<Rightarrow> ownerref option"
  GVKForObject :: "manifest \<Rightarrow> goerr + string"
  IsDNS1123Subdomain :: "string \<Rightarrow> bool"
  DeepEqualTradeBot :: "betatradebot \<Rightarrow> betatradebot \<Rightarrow> bool"
  DeepEqualStrategy :: "strategy \<Rightarrow> strategy \<Rightarrow> bool"
  DeepEqualTradeBotConfig :: "tradebotconfig \<Rightarrow> tradebotconfig \<Rightarrow> bool"
  DeepEqualFreqUI :: "frequi \<Rightarrow> frequi \<Rightarrow> bool"
  DeepEqualBacktest :: "backtest \<Rightarrow> backtest \<Rightarrow> bool"

record golib =
  url_Parse :: "string \<Rightarrow> (string \<times> string) option"
  ParseFloat :: "string \<Rightarrow> float64 option"
  FormatFloat :: "float64 \<Rightarrow> string"
  json_MarshalIndent :: "json \<Rightarrow> goerr + string"
  json_Unmarshal :: "string \<Rightarrow> goerr + json"
  http_NewRequest :: "string \<Rightarrow> string \<Rightarrow> goerr option"
  time_RFC3339 :: "gotime \<Rightarrow> string"
  quantity_IsZero :: "string \<Rightarrow> bool"
  quantity_AsDec :: "string \<Rightarrow> string"
  float_mul :: "float64 \<Rightarrow> float64 \<Rightarrow> float64"
  float_div :: "float64 \<Rightarrow> float64 \<Rightarrow> float64"
  math_Round :: "float64 \<Rightarrow> float64"
  json_Marshal :: "json \<Rightarrow> goerr + string"

type_synonym ('e, 'a) op = "('e, event, 'a) prog"

section \<open>The calls\<close>

definition do_GetTradeBot where
  "do_GetTradeBot A k = call (api_GetTradeBot A k) (GetTradeBot k)"
definition do_GetBetaTradeBot where
  "do_GetBetaTradeBot A k = call (api_GetBetaTradeBot A k) (GetBetaTradeBot k)"
definition do_ListTradeBots where
  "do_ListTradeBots A = call (api_ListTradeBots A) ListTradeBots"
definition do_UpdateBetaTradeBot where
  "do_UpdateBetaTradeBot A b = call (api_UpdateBetaTradeBot A b) (UpdateBetaTradeBot b)"
definition do_StatusUpdateBetaTradeBot where
  "do_StatusUpdateBetaTradeBot A b =
     call (api_StatusUpdateBetaTradeBot A b) (StatusUpdateBetaTradeBot b)"
definition do_GetStrategy where
  "do_GetStrategy A k = call (api_GetStrategy A k) (GetStrategy k)"
definition do_StatusUpdateStrategy where
  "do_StatusUpdateStrategy A s = call (api_StatusUpdateStrategy A s) (StatusUpdateStrategy s)"
definition do_GetTradeBotConfig where
  "do_GetTradeBotConfig A k = call (api_GetTradeBotConfig A k) (GetTradeBotConfig k)"
definition do_StatusUpdateTradeBotConfig where
  "do_StatusUpdateTradeBotConfig A c =
     call (api_StatusUpdateTradeBotConfig A c) (StatusUpdateTradeBotConfig c)"
definition do_ListFreqUI where
  "do_ListFreqUI A ns = call (api_ListFreqUI A ns) (ListFreqUI ns)"
definition do_GetSecret where
  "do_GetSecret A k = call (api_GetSecret A k) (GetSecret k)"
definition do_GetStatefulSet where
  "do_GetStatefulSet A k = call (api_GetStatefulSet A k) (GetStatefulSet k)"
definition do_UpdateStatefulSet where
  "do_UpdateStatefulSet A s = call (api_UpdateStatefulSet A s) (UpdateStatefulSet s)"
definition do_GetPVC where
  "do_GetPVC A k = call (api_GetPVC A k) (GetPVC k)"
definition do_UpdatePVC where
  "do_UpdatePVC A p = call (api_UpdatePVC A p) (UpdatePVC p)"
definition do_Patch where
  "do_Patch A m = call (api_Patch A m) (ApplyPatch m)"
definition do_GetFreqUI where
  "do_GetFreqUI A k = call (api_GetFreqUI A k) (GetFreqUI k)"
definition do_StatusUpdateFreqUI where
  "do_StatusUpdateFreqUI A f = call (api_StatusUpdateFreqUI A f) (StatusUpdateFreqUI f)"
definition do_GetDeployment where
  "do_GetDeployment A k = call (api_GetDeployment A k) (GetDeployment k)"
definition do_GetIngress where
  "do_GetIngress A k = call (api_GetIngress A k) (GetIngress k)"
definition do_DeleteIngress where
  "do_DeleteIngress A i = call (api_DeleteIngress A i) (DeleteIngress i)"
definition do_ListHTTPRoutes where
  "do_ListHTTPRoutes A ns l = call (api_ListHTTPRoutes A ns l) (ListHTTPRoutes ns l)"
definition do_PatchHTTPRoute where
  "do_PatchHTTPRoute A r = call (api_PatchHTTPRoute A r) (PatchHTTPRoute r)"
definition do_DeleteHTTPRoute where
  "do_DeleteHTTPRoute A r = call (api_DeleteHTTPRoute A r) (DeleteHTTPRoute r)"
definition do_GetBacktest where
  "do_GetBacktest A k = call (api_GetBacktest A k) (GetBacktest k)"
definition do_UpdateBacktest where
  "do_UpdateBacktest A b = call (api_UpdateBacktest A b) (UpdateBacktest b)"
definition do_StatusUpdateBacktest where
  "do_StatusUpdateBacktest A b = call (api_StatusUpdateBacktest A b) (StatusUpdateBacktest b)"
definition do_GetJob where
  "do_GetJob A k = call (api_GetJob A k) (GetJob k)"
definition do_GetConfigMap where
  "do_GetConfigMap A k = call (api_GetConfigMap A k) (GetConfigMap k)"
definition do_UpdateConfigMap where
  "do_UpdateConfigMap A c = call (api_UpdateConfigMap A c) (UpdateConfigMap c)"
definition do_CreateConfigMap where
  "do_CreateConfigMap A c = call (api_CreateConfigMap A c) (CreateConfigMap c)"
definition do_GetPod where
  "do_GetPod A k = call (api_GetPod A k) (GetPod k)"
definition do_ReadFile where
  "do_ReadFile A p = call (api_ReadFile A p) (ReadFile p)"
definition do_WriteFile where
  "do_WriteFile A p c = call (api_WriteFile A p c) (WriteFile p c)"
definition do_OpenZip where
  "do_OpenZip A p = call (api_OpenZip A p) (OpenZip p)"
definition do_HTTP where
  "do_HTTP A rq = call (api_HTTPDo A rq) (HTTPDo rq)"
definition do_Now where
  "do_Now A = ask (api_Now A)"
definition do_RandRead where
  "do_RandRead A n = ask (api_RandRead A n)"
definition do_WaitSignal where
  "do_WaitSignal A armed d = ask (api_WaitSignal A armed d)"

lemmas call_defs = do_GetTradeBot_def do_GetBetaTradeBot_def do_ListTradeBots_def
  do_UpdateBetaTradeBot_def do_StatusUpdateBetaTradeBot_def do_GetStrategy_def
  do_StatusUpdateStrategy_def do_GetTradeBotConfig_def do_StatusUpdateTradeBotConfig_def
  do_ListFreqUI_def do_GetSecret_def do_GetStatefulSet_def do_UpdateStatefulSet_def do_GetPVC_def
  do_UpdatePVC_def do_Patch_def do_HTTP_def do_Now_def do_RandRead_def do_WaitSignal_def
  do_GetFreqUI_def do_StatusUpdateFreqUI_def do_GetDeployment_def do_GetIngress_def
  do_DeleteIngress_def do_ListHTTPRoutes_def do_PatchHTTPRoute_def do_DeleteHTTPRoute_def
  do_GetBacktest_def do_UpdateBacktest_def do_StatusUpdateBacktest_def do_GetJob_def
  do_GetConfigMap_def do_UpdateConfigMap_def do_CreateConfigMap_def do_GetPod_def
  do_ReadFile_def do_WriteFile_def do_OpenZip_def

text \<open>A Recorder that is nil records nothing.\<close>

definition record_event :: "bool \<Rightarrow> eventtype \<Rightarrow> string \<Rightarrow> string \<Rightarrow> ('e, unit) op" where
  "record_event has_recorder ty reason msg =
     (if has_recorder then emit (Recorded ty reason msg) else State_Monad.return ())"

lemma only_record_event [only_intro]:
  "(b \<Longrightarrow> P (Recorded ty r m)) \<Longrightarrow> only P (record_event b ty r m)"
  by (auto simp: record_event_def intro: only_intro)

text \<open>The result of a reconcile: the requeue delay, and an error when there is one.\<close>

record reconcile_result =
  rr_RequeueAfter :: duration
  rr_Err :: "goerr option"

definition mk_result :: "duration \<Rightarrow> goerr option \<Rightarrow> reconcile_result" where
  "mk_result d e = \<lparr>rr_RequeueAfter = d, rr_Err = e\<rparr>"

lemma mk_result_simps [simp]: "rr_RequeueAfter (mk_result d e) = d" "rr_Err (mk_result d e) = e"
  by (simp_all add: mk_result_def)

text \<open>\<open>client.IgnoreNotFound\<close>.\<close>

definition IgnoreNotFound :: "goerr \<Rightarrow> goerr option" where
  "IgnoreNotFound e = (if IsNotFound e then None else Some e)"

section \<open>Laws of the Kubernetes library functions\<close>

text \<open>Documented behaviour of \<open>meta.SetStatusCondition\<close> and the two lookups: the set condition is
  found afterwards with the given status, reason, message and observed generation, other types
  are untouched, and a condition counts as true when it is found with status True.\<close>

locale meta_conditions =
  fixes set_cond :: "gotime \<Rightarrow> condition \<Rightarrow> condition list \<Rightarrow> condition list"
    and find_cond :: "condition list \<Rightarrow> string \<Rightarrow> condition option"
    and is_true :: "condition list \<Rightarrow> string \<Rightarrow> bool"
  assumes find_set_same:
      "\<exists>c'. find_cond (set_cond now c cs) (cd_Type c) = Some c' \<and> cd_Type c' = cd_Type c
         \<and> cd_Status c' = cd_Status c \<and> cd_Reason c' = cd_Reason c
         \<and> cd_Message c' = cd_Message c \<and> cd_ObservedGeneration c' = cd_ObservedGeneration c"
    and find_set_other: "ty \<noteq> cd_Type c \<Longrightarrow> find_cond (set_cond now c cs) ty = find_cond cs ty"
    and is_true_iff: "is_true cs ty \<longleftrightarrow> (\<exists>c. find_cond cs ty = Some c \<and> cd_Status c = ConditionTrue)"
begin

lemma is_true_set:
  "is_true (set_cond now c cs) ty \<longleftrightarrow>
     (if ty = cd_Type c then cd_Status c = ConditionTrue else is_true cs ty)"
  using find_set_same [of now c cs] find_set_other [of ty c now cs] by (auto simp: is_true_iff)

text \<open>What a reader of a condition can observe of it.\<close>

definition observed :: "condition list \<Rightarrow> string \<Rightarrow> (condstatus \<times> string \<times> string) option" where
  "observed cs ty = map_option (\<lambda>c. (cd_Status c, cd_Reason c, cd_Message c)) (find_cond cs ty)"

lemma observed_set:
  "observed (set_cond now c cs) ty =
     (if ty = cd_Type c then Some (cd_Status c, cd_Reason c, cd_Message c) else observed cs ty)"
  using find_set_same [of now c cs] find_set_other [of ty c now cs] by (auto simp: observed_def)

end

text \<open>The third lookup: a condition counts as false when it is found with status False.\<close>

locale tested_conditions = meta_conditions +
  fixes is_false :: "condition list \<Rightarrow> string \<Rightarrow> bool"
  assumes is_false_iff: "is_false cs ty \<longleftrightarrow> (\<exists>c. find_cond cs ty = Some c \<and> cd_Status c = ConditionFalse)"
begin

lemma is_false_set:
  "is_false (set_cond now c cs) ty \<longleftrightarrow>
     (if ty = cd_Type c then cd_Status c = ConditionFalse else is_false cs ty)"
  using find_set_same [of now c cs] find_set_other [of ty c now cs] by (auto simp: is_false_iff)

lemma not_both: "\<not> (is_true cs ty \<and> is_false cs ty)"
  by (auto simp: is_true_iff is_false_iff)

end

text \<open>Documented behaviour of controllerutil's finalizer helpers.\<close>

locale finalizer_ops =
  fixes contains :: "string list \<Rightarrow> string \<Rightarrow> bool"
    and add :: "string list \<Rightarrow> string \<Rightarrow> string list"
    and remove :: "string list \<Rightarrow> string \<Rightarrow> string list"
  assumes contains_add: "contains (add fs f) g \<longleftrightarrow> g = f \<or> contains fs g"
    and contains_remove: "contains (remove fs f) g \<longleftrightarrow> g \<noteq> f \<and> contains fs g"
begin

lemma remove_add: "contains (remove (add fs f) f) g \<longleftrightarrow> g \<noteq> f \<and> contains fs g"
  by (auto simp: contains_remove contains_add)

end

text \<open>Documented behaviour of \<open>controllerutil.SetControllerReference\<close>: it changes the owner
  references of the object and nothing else, or it fails; the failure \<open>AlreadyOwnedError\<close> means that
  the object passed in has a controller already.\<close>

fun is_already_owned :: "goerr \<Rightarrow> bool" where
  "is_already_owned (AlreadyOwnedError m) = True"
| "is_already_owned (Wrap p e) = is_already_owned e"
| "is_already_owned _ = False"

fun with_owners :: "ownerref list \<Rightarrow> manifest \<Rightarrow> manifest" where
  "with_owners rs (MSecret x) = MSecret (x\<lparr>sec_meta := (sec_meta x)\<lparr>om_OwnerReferences := rs\<rparr>\<rparr>)"
| "with_owners rs (MConfigMap x) = MConfigMap (x\<lparr>cm_meta := (cm_meta x)\<lparr>om_OwnerReferences := rs\<rparr>\<rparr>)"
| "with_owners rs (MPVC x) = MPVC (x\<lparr>pvc_meta := (pvc_meta x)\<lparr>om_OwnerReferences := rs\<rparr>\<rparr>)"
| "with_owners rs (MStatefulSet x) = MStatefulSet (x\<lparr>sts_meta := (sts_meta x)\<lparr>om_OwnerReferences := rs\<rparr>\<rparr>)"
| "with_owners rs (MService x) = MService (x\<lparr>svc_meta := (svc_meta x)\<lparr>om_OwnerReferences := rs\<rparr>\<rparr>)"
| "with_owners rs (MNetworkPolicy x) = MNetworkPolicy (x\<lparr>npol_meta := (npol_meta x)\<lparr>om_OwnerReferences := rs\<rparr>\<rparr>)"
| "with_owners rs (MDeployment x) = MDeployment (x\<lparr>dep_meta := (dep_meta x)\<lparr>om_OwnerReferences := rs\<rparr>\<rparr>)"
| "with_owners rs (MIngress x) = MIngress (x\<lparr>ing_meta := (ing_meta x)\<lparr>om_OwnerReferences := rs\<rparr>\<rparr>)"
| "with_owners rs (MHTTPRoute x) = MHTTPRoute (x\<lparr>hr_meta := (hr_meta x)\<lparr>om_OwnerReferences := rs\<rparr>\<rparr>)"
| "with_owners rs (MJob x) = MJob (x\<lparr>job_meta := (job_meta x)\<lparr>om_OwnerReferences := rs\<rparr>\<rparr>)"
| "with_owners rs (MServiceAccount x) = MServiceAccount (x\<lparr>sa_meta := (sa_meta x)\<lparr>om_OwnerReferences := rs\<rparr>\<rparr>)"
| "with_owners rs (MRole x) = MRole (x\<lparr>role_meta := (role_meta x)\<lparr>om_OwnerReferences := rs\<rparr>\<rparr>)"
| "with_owners rs (MRoleBinding x) = MRoleBinding (x\<lparr>rb_meta := (rb_meta x)\<lparr>om_OwnerReferences := rs\<rparr>\<rparr>)"

locale owner_refs =
  fixes set_ref :: "objmeta \<Rightarrow> manifest \<Rightarrow> goerr + manifest"
  assumes owners_only: "set_ref owner m = Inr m' \<Longrightarrow> \<exists>rs. m' = with_owners rs m"
    and owned_only: "\<lbrakk>set_ref owner m = Inl e; is_already_owned e\<rbrakk>
       \<Longrightarrow> \<exists>r \<in> set (om_OwnerReferences (manifest_meta m)). or_Controller r"
begin

lemma same_kind:
  assumes "set_ref owner m = Inr m'"
  shows "(\<exists>s. m' = MStatefulSet s) \<longleftrightarrow> (\<exists>s. m = MStatefulSet s)"
proof -
  from owners_only [OF assms] obtain rs where "m' = with_owners rs m" ..
  then show ?thesis by (cases m) auto
qed

lemma fresh_not_owned:
  "\<lbrakk>set_ref owner m = Inl e; om_OwnerReferences (manifest_meta m) = []\<rbrakk> \<Longrightarrow> \<not> is_already_owned e"
  using owned_only by fastforce

lemma statefulset_content:
  assumes "set_ref owner (MStatefulSet s) = Inr m'"
  obtains s' where "m' = MStatefulSet s'" "sts_Template s' = sts_Template s" "sts_Replicas s' = sts_Replicas s"
    "om_Name (sts_meta s') = om_Name (sts_meta s)" "om_Namespace (sts_meta s') = om_Namespace (sts_meta s)"
  using owners_only [OF assms] by auto

end

text \<open>Documented behaviour of \<open>metav1.GetControllerOf\<close>.\<close>

locale controller_of =
  fixes get :: "objmeta \<Rightarrow> ownerref option"
  assumes controller_ref: "get m = Some r \<Longrightarrow> r \<in> set (om_OwnerReferences m) \<and> or_Controller r"
    and no_controller: "get m = None \<Longrightarrow> r \<in> set (om_OwnerReferences m) \<Longrightarrow> \<not> or_Controller r"
begin

lemma unowned: "om_OwnerReferences m = [] \<Longrightarrow> get m = None"
  using controller_ref by (cases "get m") fastforce+

end

section \<open>A reference instance\<close>

text \<open>List-based functions with the documented behaviour; the witnesses run the model with them.\<close>

fun ref_SetStatusCondition :: "gotime \<Rightarrow> condition \<Rightarrow> condition list \<Rightarrow> condition list" where
  "ref_SetStatusCondition now c [] =
     [if cd_LastTransitionTime c = None then c\<lparr>cd_LastTransitionTime := Some now\<rparr> else c]"
| "ref_SetStatusCondition now c (x # xs) =
     (if cd_Type x = cd_Type c
      then c\<lparr>cd_LastTransitionTime :=
               (if cd_Status x = cd_Status c then cd_LastTransitionTime x
                else if cd_LastTransitionTime c = None then Some now else cd_LastTransitionTime c)\<rparr> # xs
      else x # ref_SetStatusCondition now c xs)"

definition ref_FindStatusCondition :: "condition list \<Rightarrow> string \<Rightarrow> condition option" where
  "ref_FindStatusCondition cs ty = find (\<lambda>c. cd_Type c = ty) cs"

definition ref_IsStatusConditionTrue :: "condition list \<Rightarrow> string \<Rightarrow> bool" where
  "ref_IsStatusConditionTrue cs ty =
     (case ref_FindStatusCondition cs ty of None \<Rightarrow> False | Some c \<Rightarrow> cd_Status c = ConditionTrue)"

lemma ref_find_set_some:
  "\<exists>t. ref_FindStatusCondition (ref_SetStatusCondition now c cs) (cd_Type c)
     = Some (c\<lparr>cd_LastTransitionTime := t\<rparr>)"
proof (induction cs)
  case Nil
  then show ?case by (cases c) (auto simp: ref_FindStatusCondition_def)
next
  case (Cons x xs)
  then show ?case by (cases c) (auto simp: ref_FindStatusCondition_def)
qed

definition ref_IsStatusConditionFalse :: "condition list \<Rightarrow> string \<Rightarrow> bool" where
  "ref_IsStatusConditionFalse cs ty =
     (case ref_FindStatusCondition cs ty of None \<Rightarrow> False | Some c \<Rightarrow> cd_Status c = ConditionFalse)"

interpretation ref_meta: tested_conditions ref_SetStatusCondition ref_FindStatusCondition
  ref_IsStatusConditionTrue ref_IsStatusConditionFalse
proof
  fix now and c :: condition and cs
  obtain t where "ref_FindStatusCondition (ref_SetStatusCondition now c cs) (cd_Type c)
      = Some (c\<lparr>cd_LastTransitionTime := t\<rparr>)"
    using ref_find_set_some by blast
  then show "\<exists>c'. ref_FindStatusCondition (ref_SetStatusCondition now c cs) (cd_Type c) = Some c'
       \<and> cd_Type c' = cd_Type c \<and> cd_Status c' = cd_Status c \<and> cd_Reason c' = cd_Reason c
       \<and> cd_Message c' = cd_Message c \<and> cd_ObservedGeneration c' = cd_ObservedGeneration c"
    by simp
next
  fix ty and c :: condition and now cs
  assume "ty \<noteq> cd_Type c"
  then show "ref_FindStatusCondition (ref_SetStatusCondition now c cs) ty
      = ref_FindStatusCondition cs ty"
    by (induction cs) (auto simp: ref_FindStatusCondition_def)
qed (auto simp: ref_IsStatusConditionTrue_def ref_IsStatusConditionFalse_def split: option.splits)

definition ref_AddFinalizer :: "string list \<Rightarrow> string \<Rightarrow> string list" where
  "ref_AddFinalizer fs f = (if f \<in> set fs then fs else fs @ [f])"

definition ref_RemoveFinalizer :: "string list \<Rightarrow> string \<Rightarrow> string list" where
  "ref_RemoveFinalizer fs f = filter (\<lambda>g. g \<noteq> f) fs"

interpretation ref_finalizers: finalizer_ops "\<lambda>fs f. f \<in> set fs" ref_AddFinalizer ref_RemoveFinalizer
  by unfold_locales (auto simp: ref_AddFinalizer_def ref_RemoveFinalizer_def)

definition ref_GetControllerOf :: "objmeta \<Rightarrow> ownerref option" where
  "ref_GetControllerOf m = find or_Controller (om_OwnerReferences m)"

interpretation ref_controller: controller_of ref_GetControllerOf
  by unfold_locales (auto simp: ref_GetControllerOf_def find_Some_iff find_None_iff)

text \<open>The kinds that a scheme knows the owners of the examples by.\<close>

definition ref_kind :: "objmeta \<Rightarrow> string" where
  "ref_kind owner = (if om_UID owner = ''u2'' then ''FreqUI'' else if om_UID owner = ''u3'' then ''Backtest'' else ''TradeBot'')"

definition ref_SetControllerReference :: "objmeta \<Rightarrow> manifest \<Rightarrow> goerr + manifest" where
  "ref_SetControllerReference owner m =
    (let refs = om_OwnerReferences (manifest_meta m) in
     if list_ex (\<lambda>r. or_Controller r \<and> or_UID r \<noteq> om_UID owner) refs
     then Inl (AlreadyOwnedError ''already owned by another controller'')
     else Inr (with_owners (filter (\<lambda>r. or_UID r \<noteq> om_UID owner) refs
       @ [\<lparr>or_Kind = ref_kind owner, or_Name = om_Name owner, or_UID = om_UID owner, or_Controller = True\<rparr>]) m))"

interpretation ref_owners: owner_refs ref_SetControllerReference
  by unfold_locales (auto simp: ref_SetControllerReference_def Let_def list_ex_iff split: if_splits)

definition ref_klib :: klib where
  "ref_klib = \<lparr>SetStatusCondition = ref_SetStatusCondition,
     FindStatusCondition = ref_FindStatusCondition,
     IsStatusConditionTrue = ref_IsStatusConditionTrue,
     IsStatusConditionFalse = ref_IsStatusConditionFalse,
     ContainsFinalizer = (\<lambda>fs f. f \<in> set fs), AddFinalizer = ref_AddFinalizer,
     RemoveFinalizer = ref_RemoveFinalizer, SetControllerReference = ref_SetControllerReference,
     GetControllerOf = ref_GetControllerOf, GVKForObject = (\<lambda>_. Inr []),
     IsDNS1123Subdomain = (\<lambda>s. s \<noteq> [] \<and> length s \<le> 253), DeepEqualTradeBot = (=), DeepEqualStrategy = (=),
     DeepEqualTradeBotConfig = (=), DeepEqualFreqUI = (=), DeepEqualBacktest = (=)\<rparr>"

text \<open>The laws of a \<open>klib\<close>, as one predicate for the theorems that need them.\<close>

definition klib_laws :: "klib \<Rightarrow> bool" where
  "klib_laws K \<longleftrightarrow>
     meta_conditions (SetStatusCondition K) (FindStatusCondition K) (IsStatusConditionTrue K)
     \<and> finalizer_ops (ContainsFinalizer K) (AddFinalizer K) (RemoveFinalizer K)
     \<and> owner_refs (SetControllerReference K)
     \<and> tested_conditions (SetStatusCondition K) (FindStatusCondition K) (IsStatusConditionTrue K)
         (IsStatusConditionFalse K)
     \<and> controller_of (GetControllerOf K)"

lemma ref_klib_laws: "klib_laws ref_klib"
  using ref_meta.meta_conditions_axioms ref_finalizers.finalizer_ops_axioms
    ref_owners.owner_refs_axioms ref_meta.tested_conditions_axioms ref_controller.controller_of_axioms
  by (simp add: klib_laws_def ref_klib_def)

end
