(* ===== verification/Shared.thy ===== *)
theory Shared
  imports Client
begin

text \<open>Package \<open>controllers/shared\<close>: the status writer \<open>PatchStatus\<close>, server-side apply with and
  without an owner, the watch mappings that enqueue TradeBots, the host/scheme inference and the
  pod security defaults.

  \<open>PatchStatus\<close> works on any conditioned resource. The Go interface \<open>ConditionedObject\<close>, together
  with the typed client calls it is used with, is a dictionary \<open>cobj\<close>; the locale
  \<open>conditioned_object\<close> states what a resource has to provide, its lemmas say when and what
  \<open>PatchStatus\<close> writes, and each resource interprets it.\<close>

section \<open>PatchStatus\<close>

record ('e, 'o) cobj =
  co_Get :: "nname \<Rightarrow> ('e, goerr + 'o) op"
  co_StatusUpdate :: "'o \<Rightarrow> ('e, goerr option) op"
  co_meta :: "'o \<Rightarrow> objmeta"
  co_SetObservedGeneration :: "int \<Rightarrow> 'o \<Rightarrow> 'o"
  co_DeepEqual :: "'o \<Rightarrow> 'o \<Rightarrow> bool"

text \<open>\<open>mutate\<close> receives the clock value its conditions are stamped with and the object just read; it
  returns the object to write and whatever the caller's closure captured.\<close>

definition PatchStatus ::
  "'e api \<Rightarrow> ('e, 'o) cobj \<Rightarrow> nname \<Rightarrow> (gotime \<Rightarrow> 'o \<Rightarrow> 'o \<times> 'x) \<Rightarrow> ('e, goerr + 'x) op" where
  "PatchStatus A D key mutate = RetryOnConflict (api_RetrySteps A) (do {
     r \<leftarrow> co_Get D key;
     case r of
       Inl e \<Rightarrow> State_Monad.return (Inl e)
     | Inr before \<Rightarrow> do {
         now \<leftarrow> do_Now A;
         let (obj, x) = mutate now before;
         let obj = co_SetObservedGeneration D (om_Generation (co_meta D obj)) obj;
         if co_DeepEqual D before obj then State_Monad.return (Inr x)
         else do {
           w \<leftarrow> co_StatusUpdate D obj;
           case w of None \<Rightarrow> State_Monad.return (Inr x) | Some e \<Rightarrow> State_Monad.return (Inl e)
         }
       }
   })"

lemma only_PatchStatus:
  assumes "only P (co_Get D key)" and "\<And>obj. only P (co_StatusUpdate D obj)"
  shows "only P (PatchStatus A D key mutate)"
  unfolding PatchStatus_def Let_def split_beta do_Now_def
  using assms by (auto intro!: only_intro)

text \<open>A successful \<open>PatchStatus\<close> returns what the closure captured when it was applied to the object
  the last read returned.\<close>

lemma PatchStatus_result:
  assumes get: "emits (co_Get D key) (\<lambda>r t. \<forall>b. r = Inr b \<longrightarrow> Rd b t)"
    and mono: "\<And>b t u. Rd b t \<Longrightarrow> Rd b (t @ u)" "\<And>b t u. Rd b u \<Longrightarrow> Rd b (t @ u)"
    and upd: "\<And>obj. emits (co_StatusUpdate D obj) (\<lambda>_ _. True)"
  shows "emits (PatchStatus A D key mutate)
     (\<lambda>r t. \<forall>x. r = Inr x \<longrightarrow> (\<exists>b now. Rd b t \<and> x = snd (mutate now b)))"
  unfolding PatchStatus_def
proof (rule emits_RetryOnConflict)
  show "emits (do {
     r \<leftarrow> co_Get D key;
     case r of
       Inl e \<Rightarrow> State_Monad.return (Inl e)
     | Inr before \<Rightarrow> do {
         now \<leftarrow> do_Now A;
         let (obj, x) = mutate now before;
         let obj = co_SetObservedGeneration D (om_Generation (co_meta D obj)) obj;
         if co_DeepEqual D before obj then State_Monad.return (Inr x)
         else do {
           w \<leftarrow> co_StatusUpdate D obj;
           case w of None \<Rightarrow> State_Monad.return (Inr x) | Some e \<Rightarrow> State_Monad.return (Inl e)
         }
       }
   }) (\<lambda>r t. \<forall>x. r = Inr x \<longrightarrow> (\<exists>b now. Rd b t \<and> x = snd (mutate now b)))"
    unfolding do_Now_def Let_def split_beta
    by (rule emits_bind [OF get], rule emits_case_sum,
        fastforce intro: emits_return,
        rule emits_bind [OF emits_ask [where Q = "\<lambda>_ _. True"]], simp,
        rule emits_if, fastforce intro: emits_return mono(1),
        rule emits_bind [OF upd], rule emits_case_option)
       (fastforce intro: emits_return mono(1))+
qed (use mono(2) in blast)

text \<open>What a conditioned resource provides. \<open>read\<close> and \<open>written\<close> recognise its read and status-write
  events in the trace.\<close>

locale conditioned_object =
  fixes D :: "('e, 'o) cobj"
    and read :: "event \<Rightarrow> 'o option"
    and written :: "event \<Rightarrow> 'o option"
  assumes get_emits:
      "emits (co_Get D key) (\<lambda>r t. \<exists>e. t = [e] \<and> written e = None
         \<and> (\<forall>o'. r = Inr o' \<longrightarrow> read e = Some o'))"
    and update_emits:
      "emits (co_StatusUpdate D obj) (\<lambda>r t. \<exists>e. t = [e] \<and> written e = Some obj)"
    and meta_SetObservedGeneration: "co_meta D (co_SetObservedGeneration D g obj) = co_meta D obj"
begin

text \<open>The object \<open>PatchStatus\<close> writes for an object it read.\<close>

definition patched :: "(gotime \<Rightarrow> 'o \<Rightarrow> 'o \<times> 'x) \<Rightarrow> gotime \<Rightarrow> 'o \<Rightarrow> 'o" where
  "patched mutate now before =
     (let obj = fst (mutate now before)
      in co_SetObservedGeneration D (om_Generation (co_meta D obj)) obj)"

text \<open>Every status write is the patched form of an object read before it in the same run, and it
  differs from that object.\<close>

definition justifies :: "(gotime \<Rightarrow> 'o \<Rightarrow> 'o \<times> 'x) \<Rightarrow> event \<Rightarrow> 'o \<Rightarrow> bool" where
  "justifies mutate e obj \<longleftrightarrow>
     (\<exists>before now. read e = Some before \<and> obj = patched mutate now before
        \<and> \<not> co_DeepEqual D before obj)"

definition justified :: "(gotime \<Rightarrow> 'o \<Rightarrow> 'o \<times> 'x) \<Rightarrow> event list \<Rightarrow> bool" where
  "justified mutate =
     backed (\<lambda>e. written e \<noteq> None) (\<lambda>d e. \<exists>obj. written e = Some obj \<and> justifies mutate d obj)"

lemma justified_append: "\<lbrakk>justified m t; justified m u\<rbrakk> \<Longrightarrow> justified m (t @ u)"
  unfolding justified_def by (rule backed_append)

lemma justified_read: "written e = None \<Longrightarrow> justified m [e]"
  by (simp add: justified_def backed_def)

lemma justified_write:
  assumes "read e = Some before" "written e = None"
    and "written e' = Some obj" "obj = patched m now before" "\<not> co_DeepEqual D before obj"
  shows "justified m [e, e']"
proof -
  have "justifies m e obj" using assms by (auto simp: justifies_def)
  with assms show ?thesis by (auto simp: justified_def backed_def less_Suc_eq)
qed

lemma attempt_justified:
  "emits (do {
     r \<leftarrow> co_Get D key;
     case r of
       Inl e \<Rightarrow> State_Monad.return (Inl e)
     | Inr before \<Rightarrow> do {
         now \<leftarrow> do_Now A;
         let (obj, x) = mutate now before;
         let obj = co_SetObservedGeneration D (om_Generation (co_meta D obj)) obj;
         if co_DeepEqual D before obj then State_Monad.return (Inr x)
         else do {
           w \<leftarrow> co_StatusUpdate D obj;
           case w of None \<Rightarrow> State_Monad.return (Inr x) | Some e \<Rightarrow> State_Monad.return (Inl e)
         }
       }
   }) (\<lambda>_ t. justified mutate t)"
proof (rule emits_bind [OF get_emits], elim exE conjE, rule emits_case_sum)
  fix r t e err
  assume "t = [e]" "written e = None"
  then show "emits (State_Monad.return (Inl err)) (\<lambda>y u. justified mutate (t @ u))"
    by (intro emits_return) (simp add: justified_read)
next
  fix r t e before
  assume e: "t = [e]" "written e = None" "\<forall>o'. r = Inr o' \<longrightarrow> read e = Some o'" "r = Inr before"
  show "emits (do {
         now \<leftarrow> do_Now A;
         let (obj, x) = mutate now before;
         let obj = co_SetObservedGeneration D (om_Generation (co_meta D obj)) obj;
         if co_DeepEqual D before obj then State_Monad.return (Inr x)
         else do {
           w \<leftarrow> co_StatusUpdate D obj;
           case w of None \<Rightarrow> State_Monad.return (Inr x) | Some e \<Rightarrow> State_Monad.return (Inl e)
         }
       }) (\<lambda>y u. justified mutate (t @ u))"
    unfolding do_Now_def Let_def split_beta
  proof (rule emits_bind [OF emits_ask [where Q = "\<lambda>_ t. t = []"]], rule refl, rule emits_if)
    fix now :: gotime and v :: "event list"
    let ?obj = "co_SetObservedGeneration D (om_Generation (co_meta D (fst (mutate now before))))
       (fst (mutate now before))"
    assume "v = []" "\<not> co_DeepEqual D before ?obj"
    with e have "written e' = Some ?obj \<Longrightarrow> justified mutate [e, e']" for e'
      by (intro justified_write) (auto simp: patched_def Let_def)
    with e show "emits (do {
        w \<leftarrow> co_StatusUpdate D ?obj;
        case w of None \<Rightarrow> State_Monad.return (Inr (snd (mutate now before)))
        | Some e \<Rightarrow> State_Monad.return (Inl e)
      }) (\<lambda>y u. justified mutate (t @ v @ u))"
      using \<open>v = []\<close>
      by (intro emits_bind [OF update_emits] emits_case_option) (auto intro!: emits_return)
  qed (use e in \<open>auto intro!: emits_return simp: justified_read\<close>)
qed

theorem PatchStatus_justified:
  "emits (PatchStatus A D key mutate) (\<lambda>_ t. justified mutate t)"
  unfolding PatchStatus_def
  by (rule emits_RetryOnConflict [OF attempt_justified]) (rule justified_append)

text \<open>Whatever holds of every patched object holds of every object that is written.\<close>

lemma PatchStatus_writes:
  assumes "\<And>now before. P (patched mutate now before)"
  shows "emits (PatchStatus A D key mutate) (\<lambda>_ t. list_all (\<lambda>e. \<forall>obj. written e = Some obj \<longrightarrow> P obj) t)"
proof (rule emits_conseq [OF PatchStatus_justified])
  fix t
  assume j: "justified mutate t"
  have "P obj" if "e \<in> set t" "written e = Some obj" for e obj
  proof -
    from backedD [OF j [unfolded justified_def] that(1)] that(2) obtain d where "justifies mutate d obj" by auto
    then show ?thesis using assms by (auto simp: justifies_def)
  qed
  then show "list_all (\<lambda>e. \<forall>obj. written e = Some obj \<longrightarrow> P obj) t" by (auto simp: list_all_iff)
qed

text \<open>When nothing changes, nothing is written.\<close>

lemma PatchStatus_unchanged:
  assumes "\<And>now before. co_DeepEqual D before (patched mutate now before)"
  shows "only (\<lambda>e. written e = None) (PatchStatus A D key mutate)"
  unfolding only_def
proof (rule emits_conseq [OF PatchStatus_justified])
  fix t
  assume "justified mutate t"
  moreover have "\<not> justifies mutate e obj" for e obj
    using assms by (auto simp: justifies_def)
  ultimately show "list_all (\<lambda>e. written e = None) t"
    unfolding justified_def list_all_iff by (blast dest: backedD)
qed

end
section \<open>The conditioned resources\<close>

definition tradebot_cobj :: "'e api \<Rightarrow> klib \<Rightarrow> ('e, betatradebot) cobj" where
  "tradebot_cobj A K = \<lparr>co_Get = do_GetBetaTradeBot A,
     co_StatusUpdate = do_StatusUpdateBetaTradeBot A, co_meta = btb_meta,
     co_SetObservedGeneration = tradebot_SetObservedGeneration,
     co_DeepEqual = DeepEqualTradeBot K\<rparr>"

definition strategy_cobj :: "'e api \<Rightarrow> klib \<Rightarrow> ('e, strategy) cobj" where
  "strategy_cobj A K = \<lparr>co_Get = do_GetStrategy A, co_StatusUpdate = do_StatusUpdateStrategy A,
     co_meta = sy_meta, co_SetObservedGeneration = strategy_SetObservedGeneration,
     co_DeepEqual = DeepEqualStrategy K\<rparr>"

definition tradebotconfig_cobj :: "'e api \<Rightarrow> klib \<Rightarrow> ('e, tradebotconfig) cobj" where
  "tradebotconfig_cobj A K = \<lparr>co_Get = do_GetTradeBotConfig A,
     co_StatusUpdate = do_StatusUpdateTradeBotConfig A, co_meta = tc_meta,
     co_SetObservedGeneration = tradebotconfig_SetObservedGeneration,
     co_DeepEqual = DeepEqualTradeBotConfig K\<rparr>"

definition frequi_cobj :: "'e api \<Rightarrow> klib \<Rightarrow> ('e, frequi) cobj" where
  "frequi_cobj A K = \<lparr>co_Get = do_GetFreqUI A, co_StatusUpdate = do_StatusUpdateFreqUI A, co_meta = fu_meta,
     co_SetObservedGeneration = frequi_SetObservedGeneration, co_DeepEqual = DeepEqualFreqUI K\<rparr>"

definition backtest_cobj :: "'e api \<Rightarrow> klib \<Rightarrow> ('e, backtest) cobj" where
  "backtest_cobj A K = \<lparr>co_Get = do_GetBacktest A, co_StatusUpdate = do_StatusUpdateBacktest A, co_meta = bk_meta,
     co_SetObservedGeneration = backtest_SetObservedGeneration, co_DeepEqual = DeepEqualBacktest K\<rparr>"

fun read_tradebot :: "event \<Rightarrow> betatradebot option" where
  "read_tradebot (GetBetaTradeBot k (Inr b)) = Some b"
| "read_tradebot _ = None"

fun written_tradebot :: "event \<Rightarrow> betatradebot option" where
  "written_tradebot (StatusUpdateBetaTradeBot b r) = Some b"
| "written_tradebot _ = None"

fun read_strategy :: "event \<Rightarrow> strategy option" where
  "read_strategy (GetStrategy k (Inr s)) = Some s"
| "read_strategy _ = None"

fun written_strategy :: "event \<Rightarrow> strategy option" where
  "written_strategy (StatusUpdateStrategy s r) = Some s"
| "written_strategy _ = None"

fun read_tradebotconfig :: "event \<Rightarrow> tradebotconfig option" where
  "read_tradebotconfig (GetTradeBotConfig k (Inr c)) = Some c"
| "read_tradebotconfig _ = None"

fun written_tradebotconfig :: "event \<Rightarrow> tradebotconfig option" where
  "written_tradebotconfig (StatusUpdateTradeBotConfig c r) = Some c"
| "written_tradebotconfig _ = None"

fun read_frequi :: "event \<Rightarrow> frequi option" where
  "read_frequi (GetFreqUI k (Inr f)) = Some f"
| "read_frequi _ = None"

fun written_frequi :: "event \<Rightarrow> frequi option" where
  "written_frequi (StatusUpdateFreqUI f r) = Some f"
| "written_frequi _ = None"

fun read_backtest :: "event \<Rightarrow> backtest option" where
  "read_backtest (GetBacktest k (Inr b)) = Some b"
| "read_backtest _ = None"

fun written_backtest :: "event \<Rightarrow> backtest option" where
  "written_backtest (StatusUpdateBacktest b r) = Some b"
| "written_backtest _ = None"

interpretation tbobj: conditioned_object "tradebot_cobj A K" read_tradebot written_tradebot
  for A K
  by unfold_locales
     (auto simp: tradebot_cobj_def call_defs tradebot_SetObservedGeneration_def intro!: emits_call)

interpretation syobj: conditioned_object "strategy_cobj A K" read_strategy written_strategy
  for A K
  by unfold_locales
     (auto simp: strategy_cobj_def call_defs strategy_SetObservedGeneration_def intro!: emits_call)

interpretation tcobj: conditioned_object "tradebotconfig_cobj A K" read_tradebotconfig
  written_tradebotconfig for A K
  by unfold_locales
     (auto simp: tradebotconfig_cobj_def call_defs tradebotconfig_SetObservedGeneration_def
       intro!: emits_call)

interpretation fuobj: conditioned_object "frequi_cobj A K" read_frequi written_frequi for A K
  by unfold_locales
     (auto simp: frequi_cobj_def call_defs frequi_SetObservedGeneration_def intro!: emits_call)

interpretation btobj: conditioned_object "backtest_cobj A K" read_backtest written_backtest for A K
  by unfold_locales
     (auto simp: backtest_cobj_def call_defs backtest_SetObservedGeneration_def intro!: emits_call)

section \<open>Server-side apply\<close>

definition applyServerSide :: "'e api \<Rightarrow> klib \<Rightarrow> manifest \<Rightarrow> ('e, goerr option) op" where
  "applyServerSide A K obj = (case GVKForObject K obj of
       Inl e \<Rightarrow> State_Monad.return (Some (Wrap ''failed to look up GroupVersionKind: '' e))
     | Inr gvk \<Rightarrow> do_Patch A obj)"

definition Apply :: "'e api \<Rightarrow> klib \<Rightarrow> objmeta \<Rightarrow> manifest \<Rightarrow> ('e, goerr option) op" where
  "Apply A K owner obj = (case SetControllerReference K owner obj of
       Inl e \<Rightarrow> State_Monad.return (Some (Wrap ''failed to set controller reference: '' e))
     | Inr obj' \<Rightarrow> applyServerSide A K obj')"

definition ApplyUnowned :: "'e api \<Rightarrow> klib \<Rightarrow> manifest \<Rightarrow> ('e, goerr option) op" where
  "ApplyUnowned A K obj = applyServerSide A K obj"

text \<open>\<open>Apply\<close> of an HTTPRoute: the patch decodes the server's answer, status included, into the object.\<close>

definition Apply_HTTPRoute :: "'e api \<Rightarrow> klib \<Rightarrow> objmeta \<Rightarrow> httproute \<Rightarrow> ('e, goerr + httproute) op" where
  "Apply_HTTPRoute A K owner route = (case SetControllerReference K owner (MHTTPRoute route) of
       Inl e \<Rightarrow> State_Monad.return (Inl (Wrap ''failed to set controller reference: '' e))
     | Inr obj \<Rightarrow> (case GVKForObject K obj of
           Inl e \<Rightarrow> State_Monad.return (Inl (Wrap ''failed to look up GroupVersionKind: '' e))
         | Inr gvk \<Rightarrow> do_PatchHTTPRoute A (m_httproute obj)))"

lemma only_Apply [only_intro]:
  "(\<And>obj' r. SetControllerReference K owner obj = Inr obj' \<Longrightarrow> P (ApplyPatch obj' r))
    \<Longrightarrow> only P (Apply A K owner obj)"
  by (auto simp: Apply_def applyServerSide_def call_defs intro!: only_intro)

section \<open>Host and scheme\<close>

definition InferHostScheme :: "golib \<Rightarrow> string \<Rightarrow> string \<Rightarrow> string \<times> string" where
  "InferHostScheme G host defaultScheme =
     (if HasPrefix host ''http://'' \<or> HasPrefix host ''https://'' then
        (case url_Parse G host of
           Some (scheme, h) \<Rightarrow> if h \<noteq> [] then (scheme, h) else (defaultScheme, host)
         | None \<Rightarrow> (defaultScheme, host))
      else if HasPrefix host ''localhost'' then (''http'', host)
      else (defaultScheme, host))"

section \<open>Pod security defaults\<close>

definition RestrictedSecurityContext :: secctx where
  "RestrictedSecurityContext = secctx_zero\<lparr>sc_AllowPrivilegeEscalation := Some False,
     sc_ReadOnlyRootFilesystem := Some True, sc_RunAsNonRoot := Some True,
     sc_CapabilitiesDrop := [''ALL''], sc_SeccompProfileType := Some ''RuntimeDefault''\<rparr>"

definition DefaultContainerResources :: resreq where
  "DefaultContainerResources = resreq_zero\<lparr>
     rr_Requests := Some [(''cpu'', ''100m''), (''memory'', ''256Mi'')],
     rr_Limits := Some [(''cpu'', ''1''), (''memory'', ''1Gi'')]\<rparr>"

definition DefaultFreqtradeImage :: string where
  "DefaultFreqtradeImage = ''freqtradeorg/freqtrade@sha256:'' @
     ''7031bca43ed7668ebf421725dd5016acade6ef88b0771db3e08c96e6d19a42db''"

end
