(* ===== verification/TradeBotResources.thy ===== *)
theory TradeBotResources
  imports Shared
begin

text \<open>Package \<open>controllers/tradebot/resources\<close>: the pure builders of the objects a TradeBot owns -
  the config Secret, the strategy ConfigMap, the user-data PVC, the pod and StatefulSet, the
  Service and the NetworkPolicy - with the merging of the user's overrides.\<close>

section \<open>Labels and names\<close>

abbreviation "appLabelKey \<equiv> ''app''"
abbreviation "nameLabelKey \<equiv> ''name''"
abbreviation "freqtradeAppName \<equiv> ''freqtrade''"
abbreviation "ContainsCredentialsLabel \<equiv> ''freqtrade.io/contains-credentials''"
abbreviation "ConfigHashAnnotation \<equiv> ''freqtrade.io/config-hash''"
abbreviation "userDataVolumeName \<equiv> ''user-data''"

definition FreqtradeAPIPort :: int where "FreqtradeAPIPort = 8080"

abbreviation tb_Name :: "tradebot \<Rightarrow> string" where "tb_Name tb \<equiv> om_Name (tb_meta tb)"
abbreviation tb_Namespace :: "tradebot \<Rightarrow> string" where "tb_Namespace tb \<equiv> om_Namespace (tb_meta tb)"

definition selector_labels :: "tradebot \<Rightarrow> smap" where
  "selector_labels tb = [(nameLabelKey, tb_Name tb), (appLabelKey, freqtradeAppName)]"

section \<open>Secret and ConfigMap\<close>

definition BuildSecret :: "tradebot \<Rightarrow> smap \<Rightarrow> secret" where
  "BuildSecret tb secretData = \<lparr>
     sec_meta = (mk_meta (tb_Name tb @ ''-config'') (tb_Namespace tb))\<lparr>om_Labels :=
       [(appLabelKey, freqtradeAppName), (nameLabelKey, tb_Name tb),
        (ContainsCredentialsLabel, ''true'')]\<rparr>,
     sec_Type = ''Opaque'', sec_Data = [], sec_StringData = secretData\<rparr>"

definition BuildStrategyConfigMap :: "tradebot \<Rightarrow> strategy \<Rightarrow> configmap" where
  "BuildStrategyConfigMap tb s = \<lparr>
     cm_meta = mk_meta (tb_Name tb @ ''-strategy'') (tb_Namespace tb),
     cm_Data = [(ss_Name (sy_Spec s) @ ''.py'', ss_Script (sy_Spec s))]\<rparr>"

section \<open>PVC\<close>

definition mergePVCSpecOverrides :: "pvcspec \<Rightarrow> tbpvcspec option \<Rightarrow> pvcspec" where
  "mergePVCSpecOverrides d override = (case override of
       None \<Rightarrow> d
     | Some ov \<Rightarrow>
        (let d = (if tv_AccessModes ov \<noteq> [] then d\<lparr>pvcs_AccessModes := tv_AccessModes ov\<rparr> else d);
             d = (case tv_StorageSize ov of None \<Rightarrow> d
                  | Some q \<Rightarrow> d\<lparr>pvcs_Requests := map_put ''storage'' q (pvcs_Requests d)\<rparr>);
             d = (if tv_StorageClassName ov \<noteq> []
                  then d\<lparr>pvcs_StorageClassName := Some (tv_StorageClassName ov)\<rparr> else d);
             d = (if tv_VolumeName ov \<noteq> [] then d\<lparr>pvcs_VolumeName := tv_VolumeName ov\<rparr> else d)
         in d))"

definition app_of :: "tradebot \<Rightarrow> (tbappconfig \<Rightarrow> 'a option) \<Rightarrow> 'a option" where
  "app_of tb f = Option.bind (tb_App (tb_Spec tb)) f"

definition BuildUserDataPVC :: "tradebot \<Rightarrow> pvc" where
  "BuildUserDataPVC tb =
    (let base = \<lparr>pvcs_AccessModes = [''ReadWriteOnce''], pvcs_Requests = [(''storage'', ''1Gi'')],
           pvcs_StorageClassName = Some ''standard'', pvcs_VolumeName = []\<rparr>;
         (final, annotations, labels) = (case app_of tb app_PVCSpec of
            None \<Rightarrow> (base, [], [])
          | Some p \<Rightarrow> (mergePVCSpecOverrides base (Some p), tv_Annotations p, tv_Labels p))
     in \<lparr>pvc_meta = (mk_meta (tb_Name tb @ ''-user-data'') (tb_Namespace tb))\<lparr>
            om_Annotations := annotations, om_Labels := labels\<rparr>,
         pvc_Spec = final\<rparr>)"

section \<open>Pod\<close>

definition ping_probe :: "int \<Rightarrow> int \<Rightarrow> probe" where
  "ping_probe initialDelay period = HTTPGetProbe ''/api/v1/ping'' 8080 ''HTTP'' initialDelay period 5 3"

definition over0 :: "(container \<Rightarrow> container) \<Rightarrow> podspec \<Rightarrow> podspec" where
  "over0 f p = p\<lparr>ps_Containers := (case ps_Containers p of [] \<Rightarrow> [] | c # cs \<Rightarrow> f c # cs)\<rparr>"

text \<open>\<open>assign_if b f d\<close> is the statement \<open>if b { d = f(d) }\<close>.\<close>

definition assign_if :: "bool \<Rightarrow> ('a \<Rightarrow> 'a) \<Rightarrow> 'a \<Rightarrow> 'a" where
  "assign_if b f d = (if b then f d else d)"

definition mergePodSpecOverrides :: "podspec \<Rightarrow> tbpodspec option \<Rightarrow> podspec" where
  "mergePodSpecOverrides d override = (case override of
       None \<Rightarrow> d
     | Some ov \<Rightarrow>
        (let d = assign_if (tp_Image ov \<noteq> []) (over0 (\<lambda>c. c\<lparr>ct_Image := tp_Image ov\<rparr>)) d;
             d = assign_if (tp_Resources ov \<noteq> resreq_zero)
                   (over0 (\<lambda>c. c\<lparr>ct_Resources := tp_Resources ov\<rparr>)) d;
             d = assign_if (tp_Env ov \<noteq> []) (over0 (\<lambda>c. c\<lparr>ct_Env := tp_Env ov\<rparr>)) d;
             d = assign_if (tp_VolumeMounts ov \<noteq> [])
                   (over0 (\<lambda>c. c\<lparr>ct_VolumeMounts := tp_VolumeMounts ov\<rparr>)) d;
             d = assign_if (tp_Volumes ov \<noteq> []) (\<lambda>d. d\<lparr>ps_Volumes := tp_Volumes ov\<rparr>) d;
             d = assign_if (tp_SecurityContext ov \<noteq> None)
                   (\<lambda>d. d\<lparr>ps_SecurityContext := tp_SecurityContext ov\<rparr>) d;
             d = assign_if (tp_InitContainers ov \<noteq> [])
                   (\<lambda>d. d\<lparr>ps_InitContainers := tp_InitContainers ov\<rparr>) d;
             d = assign_if (tp_ImagePullSecrets ov \<noteq> [])
                   (\<lambda>d. d\<lparr>ps_ImagePullSecrets := tp_ImagePullSecrets ov\<rparr>) d;
             d = assign_if (tp_LivenessProbe ov \<noteq> None)
                   (over0 (\<lambda>c. c\<lparr>ct_LivenessProbe := tp_LivenessProbe ov\<rparr>)) d;
             d = assign_if (tp_ReadinessProbe ov \<noteq> None)
                   (over0 (\<lambda>c. c\<lparr>ct_ReadinessProbe := tp_ReadinessProbe ov\<rparr>)) d;
             d = assign_if (tp_Affinity ov \<noteq> None) (\<lambda>d. d\<lparr>ps_Affinity := tp_Affinity ov\<rparr>) d;
             d = assign_if (tp_NodeSelector ov \<noteq> []) (\<lambda>d. d\<lparr>ps_NodeSelector := tp_NodeSelector ov\<rparr>) d;
             d = assign_if (tp_Tolerations ov \<noteq> []) (\<lambda>d. d\<lparr>ps_Tolerations := tp_Tolerations ov\<rparr>) d;
             d = assign_if (tp_TopologySpreadConstraints ov \<noteq> [])
                   (\<lambda>d. d\<lparr>ps_TopologySpreadConstraints := tp_TopologySpreadConstraints ov\<rparr>) d
         in d))"

text \<open>The command line the operator owns; the user's arguments follow it.\<close>

definition owned_args :: "string \<Rightarrow> string list" where
  "owned_args strategyName =
     [''trade'', ''--config'', ''/config/config.json'', ''--strategy-path'', ''/strategy'',
      ''--strategy'', strategyName,
      ''--db-url'', ''sqlite:////freqtrade/user_data/tradesv3.sqlite'',
      ''--logfile'', ''/freqtrade/user_data/logs/freqtrade.log'']"

definition init_user_data :: "bool \<Rightarrow> container" where
  "init_user_data fixVolumePermissions =
    (let base = container_zero\<lparr>ct_Name := ''init-user-data'', ct_Image := ''busybox:latest'',
           ct_ImagePullPolicy := ''IfNotPresent'', ct_Command := [''sh'', ''-c''],
           ct_VolumeMounts := [\<lparr>vm_Name = userDataVolumeName, vm_MountPath = ''/freqtrade/user_data'',
             vm_SubPath = [], vm_ReadOnly = False\<rparr>]\<rparr>
     in if fixVolumePermissions
        then base\<lparr>ct_SecurityContext := Some (secctx_zero\<lparr>sc_RunAsUser := Some 0, sc_RunAsGroup := Some 0\<rparr>),
               ct_Args := [''mkdir -p /freqtrade/user_data/logs /freqtrade/user_data/data && '' @
                 ''chmod -R 775 /freqtrade/user_data && chown -R 1000:1000 /freqtrade/user_data'']\<rparr>
        else base\<lparr>ct_SecurityContext := Some RestrictedSecurityContext,
               ct_Args := [''mkdir -p /freqtrade/user_data/logs /freqtrade/user_data/data'']\<rparr>)"

definition BuildPod ::
  "tradebot \<Rightarrow> string \<Rightarrow> string \<Rightarrow> string \<Rightarrow> string \<Rightarrow> string \<Rightarrow> string list \<Rightarrow> podspec" where
  "BuildPod tb img strategyName configSecretName strategyConfigMapName pvcName freqArgs =
    (let args = owned_args strategyName @ freqArgs;
         volumes = [\<lparr>vol_Name = ''config'', vol_Source = SecretVolume configSecretName\<rparr>,
           \<lparr>vol_Name = ''strategy'', vol_Source = ConfigMapVolume strategyConfigMapName\<rparr>,
           \<lparr>vol_Name = userDataVolumeName, vol_Source = PVCVolume pvcName\<rparr>];
         mainMounts = [
           \<lparr>vm_Name = ''config'', vm_MountPath = ''/config'', vm_SubPath = [], vm_ReadOnly = True\<rparr>,
           \<lparr>vm_Name = ''strategy'', vm_MountPath = ''/strategy'', vm_SubPath = [], vm_ReadOnly = True\<rparr>,
           \<lparr>vm_Name = userDataVolumeName, vm_MountPath = ''/freqtrade/user_data'', vm_SubPath = [],
             vm_ReadOnly = False\<rparr>];
         fixVolumePermissions =
           (case Option.bind (app_of tb app_PVCSpec) tv_FixVolumePermissions of
              None \<Rightarrow> False | Some b \<Rightarrow> b);
         main = container_zero\<lparr>ct_Name := freqtradeAppName, ct_Image := img,
           ct_ImagePullPolicy := ''IfNotPresent'', ct_Command := [freqtradeAppName], ct_Args := args,
           ct_VolumeMounts := mainMounts, ct_SecurityContext := Some RestrictedSecurityContext,
           ct_Resources := DefaultContainerResources,
           ct_Ports := [\<lparr>cp_ContainerPort = 8080, cp_Protocol = ''TCP''\<rparr>],
           ct_LivenessProbe := Some (ping_probe 60 60),
           ct_ReadinessProbe := Some (ping_probe 30 30)\<rparr>;
         pod = podspec_zero\<lparr>ps_SecurityContext := Some \<lparr>psc_RunAsUser = Some 1000, psc_RunAsGroup = Some 1000,
             psc_FSGroup = Some 1000, psc_rest = None\<rparr>,
           ps_InitContainers := [init_user_data fixVolumePermissions], ps_Containers := [main],
           ps_Volumes := volumes\<rparr>
     in mergePodSpecOverrides pod (app_of tb app_PodSpec))"

section \<open>StatefulSet\<close>

definition BuildStatefulSet ::
  "tradebot \<Rightarrow> string \<Rightarrow> string \<Rightarrow> string \<Rightarrow> string \<Rightarrow> string \<Rightarrow> string \<Rightarrow> statefulset" where
  "BuildStatefulSet tb img strategyName configSecretName strategyConfigMapName pvcName configHash =
    \<lparr>sts_meta = mk_meta (tb_Name tb) (tb_Namespace tb), sts_Replicas = Some 1,
     sts_Selector = selector_labels tb, sts_ServiceName = tb_Name tb,
     sts_Template = \<lparr>pt_Labels = selector_labels tb,
       pt_Annotations = (if configHash \<noteq> [] then [(ConfigHashAnnotation, configHash)] else []),
       pt_Spec = BuildPod tb img strategyName configSecretName strategyConfigMapName pvcName
         (tb_FreqtradeArguments (tb_Spec tb))\<rparr>,
     sts_StatusReplicas = 0, sts_StatusReadyReplicas = 0\<rparr>"

section \<open>Service\<close>

definition mergeServiceSpecOverrides :: "svcspec \<Rightarrow> tbservicespec option \<Rightarrow> svcspec" where
  "mergeServiceSpecOverrides d override = (case override of
       None \<Rightarrow> d
     | Some ov \<Rightarrow>
        (let d = (if ts_Type ov \<noteq> [] then d\<lparr>svs_Type := ts_Type ov\<rparr> else d);
             d = (if ts_Ports ov \<noteq> [] then d\<lparr>svs_Ports := ts_Ports ov\<rparr> else d);
             d = (if ts_Selector ov \<noteq> [] then d\<lparr>svs_Selector := ts_Selector ov\<rparr> else d)
         in d))"

definition BuildService :: "tradebot \<Rightarrow> service" where
  "BuildService tb =
    (let base = \<lparr>svs_Selector = selector_labels tb, svs_Type = ''ClusterIP'',
           svs_Ports = [\<lparr>sp_Name = ''http'', sp_Port = 8080, sp_TargetPort = 8080, sp_Protocol = ''TCP''\<rparr>],
           svs_LoadBalancerSourceRanges = [], svs_ExternalTrafficPolicy = [], svs_SessionAffinity = []\<rparr>;
         annotations = (case app_of tb app_ServiceSpec of None \<Rightarrow> [] | Some s \<Rightarrow> ts_Annotations s)
     in \<lparr>svc_meta = (mk_meta (tb_Name tb) (tb_Namespace tb))\<lparr>om_Annotations := annotations\<rparr>,
         svc_Spec = mergeServiceSpecOverrides base (app_of tb app_ServiceSpec)\<rparr>)"

section \<open>NetworkPolicy\<close>

definition BuildNetworkPolicy :: "tradebot \<Rightarrow> string list \<Rightarrow> string \<Rightarrow> networkpolicy" where
  "BuildNetworkPolicy tb freqUINames operatorNamespace =
    (let extraPeers = (case app_of tb app_NetworkPolicySpec of None \<Rightarrow> [] | Some n \<Rightarrow> tn_ExtraPeers n);
         peers = (if operatorNamespace \<noteq> []
                  then [NamespacePeer [(''kubernetes.io/metadata.name'', operatorNamespace)]] else [])
               @ map (\<lambda>name. PodPeer [(appLabelKey, name)]) freqUINames @ extraPeers;
         ingress = (if peers \<noteq> []
                    then [\<lparr>nr_Ports = [\<lparr>np_Protocol = ''TCP'', np_Port = FreqtradeAPIPort\<rparr>], nr_From = peers\<rparr>]
                    else [])
     in \<lparr>npol_meta = (mk_meta (tb_Name tb) (tb_Namespace tb))\<lparr>om_Labels := selector_labels tb\<rparr>,
         npol_PodSelector = selector_labels tb, npol_PolicyTypes = [''Ingress''], npol_Ingress = ingress\<rparr>)"

section \<open>Behaviour\<close>

lemma over0_simps [simp]:
  "ps_Containers (over0 f p) = (case ps_Containers p of [] \<Rightarrow> [] | c # cs \<Rightarrow> f c # cs)"
  "ps_SecurityContext (over0 f p) = ps_SecurityContext p" "ps_Volumes (over0 f p) = ps_Volumes p"
  "ps_InitContainers (over0 f p) = ps_InitContainers p"
  by (simp_all add: over0_def)

text \<open>The overrides never touch the main container's name, command, arguments, ports or security
  context: whatever the user sets, the bot runs the operator's command line.\<close>

definition main_like :: "container \<Rightarrow> string \<Rightarrow> podspec \<Rightarrow> bool" where
  "main_like c img p \<longleftrightarrow> (\<exists>c'. ps_Containers p = [c'] \<and> ct_Name c' = ct_Name c
      \<and> ct_Command c' = ct_Command c \<and> ct_Args c' = ct_Args c \<and> ct_Ports c' = ct_Ports c
      \<and> ct_SecurityContext c' = ct_SecurityContext c \<and> ct_Image c' = img)"

lemma assign_if_proj: "(\<And>x. f (g x) = f x) \<Longrightarrow> f (assign_if b g x) = f x"
  by (simp add: assign_if_def)

lemmas assign_if_container [simp] = assign_if_proj [where f = ct_Name]
  assign_if_proj [where f = ct_Command] assign_if_proj [where f = ct_Args]
  assign_if_proj [where f = ct_Ports] assign_if_proj [where f = ct_SecurityContext]
  assign_if_proj [where f = ct_Image]

lemmas assign_if_pod [simp] = assign_if_proj [where f = ps_Containers]

lemma assign_if_over0 [simp]:
  "ps_Containers p = [c] \<Longrightarrow> ps_Containers (assign_if b (over0 g) p) = [assign_if b g c]"
  by (simp add: assign_if_def)

lemma mergePodSpecOverrides_main:
  assumes "ps_Containers d = [c]"
  shows "main_like c (case ov of None \<Rightarrow> ct_Image c
           | Some o' \<Rightarrow> if tp_Image o' = [] then ct_Image c else tp_Image o')
         (mergePodSpecOverrides d ov)"
proof (cases ov)
  case (Some o')
  have "ct_Image (assign_if (tp_Image o' \<noteq> []) (\<lambda>c. c\<lparr>ct_Image := tp_Image o'\<rparr>) c)
      = (if tp_Image o' = [] then ct_Image c else tp_Image o')"
    by (simp add: assign_if_def)
  then show ?thesis
    using assms by (simp add: Some mergePodSpecOverrides_def Let_def main_like_def)
qed (use assms in \<open>simp add: mergePodSpecOverrides_def main_like_def\<close>)

lemma merged_main:
  assumes "ps_Containers d = [c]" "ct_Args c = a" "ct_Command c = m" "ct_SecurityContext c = sc"
    and "ct_Image c = img"
  shows "\<exists>c'. ps_Containers (mergePodSpecOverrides d ov) = [c'] \<and> ct_Args c' = a \<and> ct_Command c' = m
     \<and> ct_SecurityContext c' = sc \<and> ct_Image c' = (case ov of None \<Rightarrow> img
         | Some o' \<Rightarrow> if tp_Image o' = [] then img else tp_Image o')"
  using mergePodSpecOverrides_main [OF assms(1), of ov] assms(2-) by (auto simp: main_like_def)

text \<open>The pod of a TradeBot has one main container; it runs the operator's arguments followed by the
  user's, under the restricted security context.\<close>

lemma BuildPod_main:
  "\<exists>c. ps_Containers (BuildPod tb img s cs cm pv fa) = [c]
     \<and> ct_Args c = owned_args s @ fa \<and> ct_Command c = [freqtradeAppName]
     \<and> ct_SecurityContext c = Some RestrictedSecurityContext
     \<and> ct_Image c = (case app_of tb app_PodSpec of None \<Rightarrow> img
         | Some o' \<Rightarrow> if tp_Image o' = [] then img else tp_Image o')"
  unfolding BuildPod_def Let_def by (rule merged_main, simp) simp_all

section \<open>What the NetworkPolicy admits\<close>

text \<open>The Kubernetes reading of one NetworkPolicy. A pod of the policy's namespace whose labels match the pod selector is
  isolated for incoming traffic when the policy lists the type Ingress; it then receives only what some rule admits, by
  protocol, port and source. Every other pod is not concerned. A peer selects sources by the labels of their namespace, or by
  the labels of the pod within the policy's namespace; \<open>other\<close> says what a peer of another form selects.\<close>

record netpod =
  nd_Namespace :: string
  nd_NamespaceLabels :: smap
  nd_Labels :: smap

definition labels_match :: "smap \<Rightarrow> smap \<Rightarrow> bool" where
  "labels_match sel ls \<longleftrightarrow> (\<forall>(k, v) \<in> set sel. map_of ls k = Some v)"

fun peer_selects :: "(raw \<Rightarrow> netpod \<Rightarrow> bool) \<Rightarrow> string \<Rightarrow> netpeer \<Rightarrow> netpod \<Rightarrow> bool" where
  "peer_selects other ns (NamespacePeer sel) src = labels_match sel (nd_NamespaceLabels src)"
| "peer_selects other ns (PodPeer sel) src = (nd_Namespace src = ns \<and> labels_match sel (nd_Labels src))"
| "peer_selects other ns (OtherPeer r) src = other r src"

definition isolates :: "networkpolicy \<Rightarrow> netpod \<Rightarrow> bool" where
  "isolates pol pod \<longleftrightarrow> nd_Namespace pod = om_Namespace (npol_meta pol) \<and> labels_match (npol_PodSelector pol) (nd_Labels pod)
     \<and> ''Ingress'' \<in> set (npol_PolicyTypes pol)"

definition admits :: "(raw \<Rightarrow> netpod \<Rightarrow> bool) \<Rightarrow> networkpolicy \<Rightarrow> netpod \<Rightarrow> string \<Rightarrow> int \<Rightarrow> bool" where
  "admits other pol src proto port \<longleftrightarrow> (\<exists>rule \<in> set (npol_Ingress pol).
     (nr_Ports rule = [] \<or> \<lparr>np_Protocol = proto, np_Port = port\<rparr> \<in> set (nr_Ports rule))
     \<and> (nr_From rule = [] \<or> (\<exists>p \<in> set (nr_From rule). peer_selects other (om_Namespace (npol_meta pol)) p src)))"

definition reaches :: "(raw \<Rightarrow> netpod \<Rightarrow> bool) \<Rightarrow> networkpolicy \<Rightarrow> netpod \<Rightarrow> netpod \<Rightarrow> string \<Rightarrow> int \<Rightarrow> bool" where
  "reaches other pol src pod proto port \<longleftrightarrow> (isolates pol pod \<longrightarrow> admits other pol src proto port)"

text \<open>Who may call a bot: the operator's namespace, the pods of a FreqUI in the bot's namespace, and the owner's extra peers.\<close>

definition may_call :: "(raw \<Rightarrow> netpod \<Rightarrow> bool) \<Rightarrow> tradebot \<Rightarrow> string list \<Rightarrow> string \<Rightarrow> netpod \<Rightarrow> bool" where
  "may_call other tb freqUINames operatorNamespace src \<longleftrightarrow>
     operatorNamespace \<noteq> [] \<and> map_of (nd_NamespaceLabels src) ''kubernetes.io/metadata.name'' = Some operatorNamespace
   \<or> nd_Namespace src = tb_Namespace tb \<and> (\<exists>n \<in> set freqUINames. map_of (nd_Labels src) ''app'' = Some n)
   \<or> (case app_of tb app_NetworkPolicySpec of
        None \<Rightarrow> False | Some x \<Rightarrow> \<exists>p \<in> set (tn_ExtraPeers x). peer_selects other (tb_Namespace tb) p src)"

definition pod_of :: "tradebot \<Rightarrow> netpod \<Rightarrow> bool" where
  "pod_of tb pod \<longleftrightarrow> nd_Namespace pod = tb_Namespace tb
     \<and> (\<exists>img s cs cm pv h. nd_Labels pod = pt_Labels (sts_Template (BuildStatefulSet tb img s cs cm pv h)))"

lemma admits_single_rule:
  "npol_Ingress pol = (if ps \<noteq> [] then [\<lparr>nr_Ports = [\<lparr>np_Protocol = pr, np_Port = n\<rparr>], nr_From = ps\<rparr>] else [])
    \<Longrightarrow> admits other pol src proto port \<longleftrightarrow> proto = pr \<and> port = n \<and> (\<exists>p \<in> set ps. peer_selects other (om_Namespace (npol_meta pol)) p src)"
  by (auto simp: admits_def)

lemma BuildNetworkPolicy_admits:
  "admits other (BuildNetworkPolicy tb fs ons) src proto port \<longleftrightarrow> proto = ''TCP'' \<and> port = 8080 \<and> may_call other tb fs ons src"
proof -
  let ?peers = "(if ons \<noteq> [] then [NamespacePeer [(''kubernetes.io/metadata.name'', ons)]] else [])
     @ map (\<lambda>name. PodPeer [(appLabelKey, name)]) fs
     @ (case app_of tb app_NetworkPolicySpec of None \<Rightarrow> [] | Some n \<Rightarrow> tn_ExtraPeers n)"
  have ns: "om_Namespace (npol_meta (BuildNetworkPolicy tb fs ons)) = tb_Namespace tb"
    by (simp add: BuildNetworkPolicy_def Let_def mk_meta_def)
  have peers: "(\<exists>p \<in> set ?peers. peer_selects other (tb_Namespace tb) p src) \<longleftrightarrow> may_call other tb fs ons src"
    by (auto simp: may_call_def labels_match_def bex_Un split: option.split)
  have "npol_Ingress (BuildNetworkPolicy tb fs ons) = (if ?peers \<noteq> []
      then [\<lparr>nr_Ports = [\<lparr>np_Protocol = ''TCP'', np_Port = FreqtradeAPIPort\<rparr>], nr_From = ?peers\<rparr>] else [])"
    by (simp only: BuildNetworkPolicy_def Let_def networkpolicy.simps)
  from admits_single_rule [OF this, of other src proto port] show ?thesis by (simp only: ns peers FreqtradeAPIPort_def)
qed

lemma BuildNetworkPolicy_isolates:
  "pod_of tb' pod \<Longrightarrow> isolates (BuildNetworkPolicy tb fs ons) pod \<longleftrightarrow> tb_Namespace tb' = tb_Namespace tb \<and> tb_Name tb' = tb_Name tb"
  by (auto simp: pod_of_def isolates_def BuildNetworkPolicy_def Let_def mk_meta_def labels_match_def selector_labels_def
      BuildStatefulSet_def)

text \<open>The objects a TradeBot is built into carry no owner and are in its namespace.\<close>

lemma built_unowned [simp]:
  "om_OwnerReferences (npol_meta (BuildNetworkPolicy tb fs ns)) = []"
  "om_OwnerReferences (svc_meta (BuildService tb)) = []"
  "om_OwnerReferences (sts_meta (BuildStatefulSet tb i s c sc pv h)) = []"
  "om_OwnerReferences (pvc_meta (BuildUserDataPVC tb)) = []"
  "om_OwnerReferences (cm_meta (BuildStrategyConfigMap tb st)) = []"
  "om_OwnerReferences (sec_meta (BuildSecret tb cd)) = []"
  by (simp_all add: BuildNetworkPolicy_def BuildService_def BuildStatefulSet_def BuildUserDataPVC_def
      BuildStrategyConfigMap_def BuildSecret_def mk_meta_def Let_def split_beta)

lemma built_namespace:
  "om_Namespace (npol_meta (BuildNetworkPolicy tb fs ns)) = tb_Namespace tb"
  "om_Namespace (svc_meta (BuildService tb)) = tb_Namespace tb"
  "om_Namespace (sts_meta (BuildStatefulSet tb i s c sc pv h)) = tb_Namespace tb"
  "om_Namespace (pvc_meta (BuildUserDataPVC tb)) = tb_Namespace tb"
  "om_Namespace (cm_meta (BuildStrategyConfigMap tb st)) = tb_Namespace tb"
  "om_Namespace (sec_meta (BuildSecret tb cd)) = tb_Namespace tb"
  by (simp_all add: BuildNetworkPolicy_def BuildService_def BuildStatefulSet_def BuildUserDataPVC_def
      BuildStrategyConfigMap_def BuildSecret_def mk_meta_def Let_def split_beta)

end
