(* ===== verification/ConfigSections.thy ===== *)
theory ConfigSections
  imports Client
begin

text \<open>The pure section builders of package \<open>controllers/tradebotconfig/configbuilder\<close>
  (\<open>bot.go\<close>, \<open>exchange.go\<close>, \<open>order.go\<close>, \<open>pricing.go\<close>, \<open>riskmanagement.go\<close>, \<open>notification.go\<close>,
  \<open>pairlistmethods.go\<close>), each from its part of a TradeBotConfig to a section of freqtrade's
  \<open>config.json\<close>. A section is a Go \<open>map[string]interface{}\<close>; the \<open>put\<close> functions are the
  \<open>if field is set cfg[key] = value\<close> statements the builders consist of, and the lookup
  rules for them let the simplifier read any key of any section.\<close>

section \<open>Setting keys\<close>

definition put_str :: "string \<Rightarrow> string \<Rightarrow> config \<Rightarrow> config" where
  "put_str k s cfg = (if s \<noteq> [] then map_put k (JStr s) cfg else cfg)"

definition put_opt :: "string \<Rightarrow> json option \<Rightarrow> config \<Rightarrow> config" where
  "put_opt k v cfg = (case v of None \<Rightarrow> cfg | Some j \<Rightarrow> map_put k j cfg)"

definition put_bool :: "string \<Rightarrow> bool option \<Rightarrow> config \<Rightarrow> config" where
  "put_bool k v cfg = put_opt k (map_option JBool v) cfg"

definition put_int :: "string \<Rightarrow> int option \<Rightarrow> config \<Rightarrow> config" where
  "put_int k v cfg = put_opt k (map_option JInt v) cfg"

definition put_float :: "string \<Rightarrow> float64 option \<Rightarrow> config \<Rightarrow> config" where
  "put_float k v cfg = put_opt k (map_option JFloat v) cfg"

definition strs_json :: "string list \<Rightarrow> json" where "strs_json xs = JList (map JStr xs)"

definition put_strs :: "string \<Rightarrow> string list \<Rightarrow> config \<Rightarrow> config" where
  "put_strs k xs cfg = (if xs \<noteq> [] then map_put k (strs_json xs) cfg else cfg)"

definition put_ints :: "string \<Rightarrow> int list \<Rightarrow> config \<Rightarrow> config" where
  "put_ints k xs cfg = (if xs \<noteq> [] then map_put k (JList (map JInt xs)) cfg else cfg)"

definition put_flag :: "string \<Rightarrow> bool \<Rightarrow> config \<Rightarrow> config" where
  "put_flag k b cfg = (if b then map_put k (JBool True) cfg else cfg)"

definition smap_json :: "smap \<Rightarrow> json" where "smap_json m = JObj (map (\<lambda>(k, v). (k, JStr v)) m)"

named_theorems config_lookup "reading a key of a section"

lemma map_of_put_str [config_lookup]:
  "map_of (put_str k s cfg) x = (if x = k \<and> s \<noteq> [] then Some (JStr s) else map_of cfg x)"
  by (simp add: put_str_def)

lemma map_of_put_opt [config_lookup]:
  "map_of (put_opt k v cfg) x = (if x = k \<and> v \<noteq> None then v else map_of cfg x)"
  by (auto simp: put_opt_def split: option.split)

lemma map_of_put_bool [config_lookup]:
  "map_of (put_bool k v cfg) x = (if x = k \<and> v \<noteq> None then map_option JBool v else map_of cfg x)"
  by (simp add: put_bool_def map_of_put_opt)

lemma map_of_put_int [config_lookup]:
  "map_of (put_int k v cfg) x = (if x = k \<and> v \<noteq> None then map_option JInt v else map_of cfg x)"
  by (simp add: put_int_def map_of_put_opt)

lemma map_of_put_float [config_lookup]:
  "map_of (put_float k v cfg) x = (if x = k \<and> v \<noteq> None then map_option JFloat v else map_of cfg x)"
  by (simp add: put_float_def map_of_put_opt)

lemma map_of_put_strs [config_lookup]:
  "map_of (put_strs k xs cfg) x = (if x = k \<and> xs \<noteq> [] then Some (strs_json xs) else map_of cfg x)"
  by (simp add: put_strs_def)

lemma map_of_put_ints [config_lookup]:
  "map_of (put_ints k xs cfg) x = (if x = k \<and> xs \<noteq> [] then Some (JList (map JInt xs)) else map_of cfg x)"
  by (simp add: put_ints_def)

lemma map_of_put_flag [config_lookup]:
  "map_of (put_flag k b cfg) x = (if x = k \<and> b then Some (JBool True) else map_of cfg x)"
  by (simp add: put_flag_def)

text \<open>The rules for another key than the one that is set.\<close>

named_theorems config_other "reading a key a statement does not set"

lemma map_of_put_other [config_other]:
  assumes "x \<noteq> k"
  shows "map_of (put_str k s cfg) x = map_of cfg x" "map_of (put_opt k v cfg) x = map_of cfg x"
    "map_of (put_bool k b cfg) x = map_of cfg x" "map_of (put_int k i cfg) x = map_of cfg x"
    "map_of (put_float k f cfg) x = map_of cfg x" "map_of (put_strs k xs cfg) x = map_of cfg x"
    "map_of (put_ints k is cfg) x = map_of cfg x" "map_of (put_flag k fl cfg) x = map_of cfg x"
  using assms by (simp_all add: config_lookup)

text \<open>\<open>for k, v := range m { cfg[k] = v }\<close>.\<close>

definition map_merge :: "'v gomap \<Rightarrow> 'v gomap \<Rightarrow> 'v gomap" where
  "map_merge m cfg = m @ filter (\<lambda>(k, _). map_of m k = None) cfg"

lemma map_of_map_merge [config_lookup]:
  "map_of (map_merge m cfg) x = (case map_of m x of Some v \<Rightarrow> Some v | None \<Rightarrow> map_of cfg x)"
proof -
  have "map_of (filter (\<lambda>(k, _). map_of m k = None) cfg) x
      = (if map_of m x = None then map_of cfg x else None)"
    by (induction cfg) auto
  then show ?thesis by (simp add: map_merge_def map_add_def split: option.split)
qed

section \<open>bot.go\<close>

text \<open>\<open>renderStakeAmount\<close>: the keyword stays a string, a number becomes one, anything else is passed
  through for freqtrade to reject.\<close>

definition renderStakeAmount :: "golib \<Rightarrow> string \<Rightarrow> json" where
  "renderStakeAmount G s = (if s = ''unlimited'' then JStr s
     else (case ParseFloat G s of Some f \<Rightarrow> JFloat f | None \<Rightarrow> JStr s))"

definition buildBotConfigFields :: "golib \<Rightarrow> botconfig \<Rightarrow> string \<Rightarrow> config" where
  "buildBotConfigFields G b tradeBotName =
    (let cfg = [];
         cfg = map_put ''bot_name'' (JStr (if bc_BotName b = [] then tradeBotName else bc_BotName b)) cfg;
         cfg = put_str ''trading_mode'' (bc_TradingMode b) cfg;
         cfg = put_bool ''dry_run'' (bc_DryRun b) cfg;
         cfg = put_float ''dry_run_wallet'' (bc_DryRunWallet b) cfg;
         cfg = put_str ''stake_currency'' (bc_StakeCurrency b) cfg;
         cfg = put_opt ''stake_amount'' (if bc_StakeAmount b \<noteq> [] then Some (renderStakeAmount G (bc_StakeAmount b)) else None) cfg;
         cfg = put_int ''max_open_trades'' (bc_MaxOpenTrades b) cfg;
         cfg = put_str ''fiat_display_currency'' (bc_FiatDisplayCurrency b) cfg;
         cfg = put_str ''db_url'' (bc_DBUrl b) cfg;
         cfg = put_str ''export'' (bc_Export b) cfg;
         cfg = put_bool ''disableparamexport'' (bc_DisableParamExport b) cfg;
         cfg = put_bool ''disable_dataframe_checks'' (bc_DisableDataframeChecks b) cfg
     in cfg)"

definition buildSVMParamsConfig :: "svmparams \<Rightarrow> config" where
  "buildSVMParamsConfig svm =
    (let cfg = [];
         cfg = put_bool ''shuffle'' (svm_Shuffle svm) cfg;
         cfg = put_float ''nu'' (svm_Nu svm) cfg
     in cfg)"

definition buildFeatureParametersConfig :: "featureparameters \<Rightarrow> config" where
  "buildFeatureParametersConfig fp =
    (let cfg = [];
         cfg = put_strs ''include_corr_pairlist'' (fp_IncludeCorrPairlist fp) cfg;
         cfg = put_strs ''include_timeframes'' (fp_IncludeTimeframes fp) cfg;
         cfg = put_int ''label_period_candles'' (fp_LabelPeriodCandles fp) cfg;
         cfg = put_int ''include_shifted_candles'' (fp_IncludeShiftedCandles fp) cfg;
         cfg = put_float ''DI_threshold'' (fp_DIThreshold fp) cfg;
         cfg = put_float ''weight_factor'' (fp_WeightFactor fp) cfg;
         cfg = put_bool ''principal_component_analysis'' (fp_PrincipalComponentAnalysis fp) cfg;
         cfg = put_ints ''indicator_periods_candles'' (fp_IndicatorPeriodsCandles fp) cfg;
         cfg = put_bool ''use_SVM_to_remove_outliers'' (fp_UseSVMToRemoveOutliers fp) cfg;
         cfg = put_int ''plot_feature_importances'' (fp_PlotFeatureImportances fp) cfg;
         cfg = put_opt ''svm_params'' (map_option (JObj \<circ> buildSVMParamsConfig) (fp_SVMParams fp)) cfg;
         cfg = put_bool ''shuffle_after_split'' (fp_ShuffleAfterSplit fp) cfg;
         cfg = put_int ''buffer_train_data_candles'' (fp_BufferTrainDataCandles fp) cfg
     in cfg)"

definition buildDataSplitParametersConfig :: "datasplitparameters \<Rightarrow> config" where
  "buildDataSplitParametersConfig dsp =
    (let cfg = [];
         cfg = put_float ''test_size'' (dsp_TestSize dsp) cfg;
         cfg = put_int ''random_state'' (dsp_RandomState dsp) cfg;
         cfg = put_bool ''shuffle'' (dsp_Shuffle dsp) cfg
     in cfg)"

definition buildModelRewardParametersConfig :: "modelrewardparameters \<Rightarrow> config" where
  "buildModelRewardParametersConfig mrp =
    (let cfg = [];
         cfg = put_float ''rr'' (mrp_RR mrp) cfg;
         cfg = put_float ''profit_aim'' (mrp_ProfitAim mrp) cfg
     in cfg)"

definition buildRLConfigMap :: "rlconfig \<Rightarrow> config" where
  "buildRLConfigMap rl =
    (let cfg = [];
         cfg = put_bool ''drop_ohlc_from_features'' (rl_DropOHLCFromFeatures rl) cfg;
         cfg = put_int ''train_cycles'' (rl_TrainCycles rl) cfg;
         cfg = put_int ''max_trade_duration_candles'' (rl_MaxTradeDurationCandles rl) cfg;
         cfg = put_bool ''add_state_info'' (rl_AddStateInfo rl) cfg;
         cfg = put_float ''max_training_drawdown_pct'' (rl_MaxTrainingDrawdownPct rl) cfg;
         cfg = put_int ''cpu_count'' (rl_CPUCount rl) cfg;
         cfg = put_str ''model_type'' (rl_ModelType rl) cfg;
         cfg = put_str ''policy_type'' (rl_PolicyType rl) cfg;
         cfg = put_ints ''net_arch'' (rl_NetArch rl) cfg;
         cfg = put_bool ''randomize_starting_position'' (rl_RandomizeStartingPosition rl) cfg;
         cfg = put_bool ''progress_bar'' (rl_ProgressBar rl) cfg;
         cfg = put_opt ''model_reward_parameters''
           (map_option (JObj \<circ> buildModelRewardParametersConfig) (rl_ModelRewardParameters rl)) cfg
     in cfg)"

definition buildFreqAIConfig :: "aiconfig \<Rightarrow> config" where
  "buildFreqAIConfig ai =
    (let cfg = [];
         cfg = put_bool ''enabled'' (ai_Enabled ai) cfg;
         cfg = put_str ''identifier'' (ai_Identifier ai) cfg;
         cfg = put_bool ''write_metrics_to_disk'' (ai_WriteMetricsToDisk ai) cfg;
         cfg = put_int ''purge_old_models'' (ai_PurgeOldModels ai) cfg;
         cfg = put_int ''conv_width'' (ai_ConvWidth ai) cfg;
         cfg = put_int ''train_period_days'' (ai_TrainPeriodDays ai) cfg;
         cfg = put_int ''backtest_period_days'' (ai_BacktestPeriodDays ai) cfg;
         cfg = put_int ''live_retrain_hours'' (ai_LiveRetrainHours ai) cfg;
         cfg = put_int ''expiration_hours'' (ai_ExpirationHours ai) cfg;
         cfg = put_bool ''save_backtest_models'' (ai_SaveBacktestModels ai) cfg;
         cfg = put_int ''fit_live_predictions_candles'' (ai_FitLivePredictionsCandles ai) cfg;
         cfg = put_int ''data_kitchen_thread_count'' (ai_DataKitchenThreadCount ai) cfg;
         cfg = put_bool ''activate_tensorboard'' (ai_ActivateTensorboard ai) cfg;
         cfg = put_bool ''wait_for_training_iteration_on_reload'' (ai_WaitForTrainingIterationOnReload ai) cfg;
         cfg = put_bool ''continual_learning'' (ai_ContinueLearning ai) cfg;
         cfg = put_bool ''keras'' (ai_Keras ai) cfg;
         cfg = put_opt ''feature_parameters''
           (map_option (JObj \<circ> buildFeatureParametersConfig) (ai_FeatureParameters ai)) cfg;
         cfg = put_opt ''data_split_parameters''
           (map_option (JObj \<circ> buildDataSplitParametersConfig) (ai_DataSplitParameters ai)) cfg;
         cfg = put_opt ''model_training_parameters''
           (map_option (\<lambda>_. JObj []) (ai_ModelTrainingParameters ai)) cfg;
         cfg = put_opt ''rl_config'' (map_option (JObj \<circ> buildRLConfigMap) (ai_RLConfig ai)) cfg
     in cfg)"

definition buildDataConfigFields :: "dataconfig \<Rightarrow> config" where
  "buildDataConfigFields d =
    (let cfg = [];
         cfg = put_str ''dataformat_ohlcv'' (dc_DataformatOHLCV d) cfg;
         cfg = put_str ''dataformat_trades'' (dc_DataformatTrades d) cfg;
         cfg = put_str ''position_adjustment'' (dc_PositionAdjustment d) cfg;
         cfg = put_int ''new_pairs_days'' (dc_NewPairsDaysAgo d) cfg;
         cfg = put_bool ''download_trades'' (dc_DownloadTrades d) cfg;
         cfg = put_float ''max_entry_position_adjustment'' (dc_MaxEntryPositionAdjustment d) cfg;
         cfg = put_float ''available_capital'' (dc_AvailableCapital d) cfg;
         cfg = put_bool ''amend_last_stake_amount'' (dc_AmendLastStakeAmount d) cfg;
         cfg = put_float ''last_stake_amount_min_ratio'' (dc_LastStakeAmountMinRatio d) cfg;
         cfg = put_bool ''process_only_new_candles'' (dc_ProcessOnlyNewCandles d) cfg;
         cfg = put_float ''amount_reserve_percent'' (dc_AmountReservePercent d) cfg;
         cfg = put_bool ''reduce_df_footprint'' (dc_ReduceDfFootprint d) cfg;
         cfg = put_float ''custom_price_max_distance_ratio'' (dc_CustomPriceMaxDistanceRatio d) cfg
     in cfg)"

definition buildAdvancedConfigFields :: "advancedconfig \<Rightarrow> config" where
  "buildAdvancedConfigFields adv =
    (let cfg = [];
         cfg = put_float ''tradable_balance_ratio'' (adv_TradableBalanceRatio adv) cfg;
         cfg = put_flag ''cancel_open_orders_on_exit'' (adv_CancelOpenOrdersOnExit adv = Some True) cfg;
         cfg = put_str ''margin_mode'' (adv_MarginMode adv) cfg;
         cfg = put_str ''initial_state'' (adv_InitialState adv) cfg;
         cfg = put_bool ''force_entry_enable'' (adv_ForceEntryEnable adv) cfg
     in cfg)"

definition buildUnfilledTimeoutConfig :: "unfilledtimeoutconfig \<Rightarrow> config" where
  "buildUnfilledTimeoutConfig t =
    (let cfg = [];
         cfg = put_int ''entry'' (uto_Entry t) cfg;
         cfg = put_int ''exit'' (uto_Exit t) cfg;
         cfg = put_int ''exit_timeout_count'' (uto_ExitTimeoutCount t) cfg;
         cfg = put_str ''unit'' (uto_Unit t) cfg
     in cfg)"

definition buildInternalsConfigFields :: "internalsconfig \<Rightarrow> config" where
  "buildInternalsConfigFields i =
    (let cfg = [];
         cfg = put_int ''process_throttle_secs'' (itn_ProcessThrottleSecs i) cfg;
         cfg = put_int ''interval'' (itn_Interval i) cfg;
         cfg = put_bool ''sd_notify'' (itn_SdNotify i) cfg
     in cfg)"

text \<open>The CORS loop: the hosts that are not yet in the list are appended in order.\<close>

fun append_new :: "string list \<Rightarrow> string list \<Rightarrow> string list" where
  "append_new acc [] = acc"
| "append_new acc (h # hs) = append_new (if h \<in> set acc then acc else acc @ [h]) hs"

definition buildAPIServerConfig :: "apiserverconfig \<Rightarrow> smap \<Rightarrow> string \<Rightarrow> string list \<Rightarrow> config" where
  "buildAPIServerConfig a apiCredentials jwtSecretKey extraCorsHosts =
    (let cfg = [];
         cfg = put_bool ''enabled'' (as_Enabled a) cfg;
         cfg = put_str ''listen_ip_address'' (as_ListenIP a) cfg;
         cfg = put_int ''listen_port'' (as_ListenPort a) cfg;
         cfg = put_str ''verbosity'' (as_Verbosity a) cfg;
         cfg = put_bool ''enable_openapi'' (as_EnableOpenAPI a) cfg;
         cfg = put_str ''username'' (as_Username a) cfg;
         cfg = put_str ''password'' (as_Password a) cfg;
         cfg = put_opt ''username'' (map_option JStr (map_of apiCredentials ''user'')) cfg;
         cfg = put_opt ''password'' (map_option JStr (map_of apiCredentials ''password'')) cfg;
         cfg = put_str ''jwt_secret_key'' jwtSecretKey cfg;
         cfg = put_strs ''CORS_origins'' (append_new (as_CORSOrigins a) extraCorsHosts) cfg
     in cfg)"

definition merge_opt :: "config option \<Rightarrow> config \<Rightarrow> config" where
  "merge_opt m cfg = (case m of None \<Rightarrow> cfg | Some m \<Rightarrow> map_merge m cfg)"

lemma map_of_merge_opt [config_lookup]:
  "map_of (merge_opt m cfg) x = (case Option.bind m (\<lambda>m. map_of m x) of
     Some v \<Rightarrow> Some v | None \<Rightarrow> map_of cfg x)"
  by (cases m) (simp_all add: merge_opt_def map_of_map_merge)

definition nonempty_obj :: "config \<Rightarrow> json option" where
  "nonempty_obj m = (if m \<noteq> [] then Some (JObj m) else None)"

definition BuildTradeBotConfig :: "golib \<Rightarrow> string \<Rightarrow> tradebotconfigspec \<Rightarrow> smap \<Rightarrow> string \<Rightarrow> string list \<Rightarrow> config" where
  "BuildTradeBotConfig G tradeBotName s apiCredentials jwtSecretKey extraCorsHosts =
    (let cfg = [];
         cfg = merge_opt (map_option (\<lambda>b. buildBotConfigFields G b tradeBotName) (tcs_Bot s)) cfg;
         cfg = put_opt ''freqai'' (map_option (JObj \<circ> buildFreqAIConfig) (tcs_AI s)) cfg;
         cfg = merge_opt (map_option buildDataConfigFields (tcs_Data s)) cfg;
         cfg = merge_opt (map_option buildAdvancedConfigFields (tcs_Advanced s)) cfg;
         cfg = put_opt ''unfilledtimeout''
           (Option.bind (tcs_Timeout s) (nonempty_obj \<circ> buildUnfilledTimeoutConfig)) cfg;
         cfg = put_opt ''internals''
           (Option.bind (tcs_Internals s) (nonempty_obj \<circ> buildInternalsConfigFields)) cfg;
         cfg = put_opt ''api_server'' (map_option
           (\<lambda>a. JObj (buildAPIServerConfig a apiCredentials jwtSecretKey extraCorsHosts)) (tcs_APIServer s)) cfg;
         cfg = put_opt ''experimental'' (map_option (\<lambda>b. JObj [(''block_bad_exchanges'', JBool b)])
           (Option.bind (tcs_Experimental s) exp_BlockBadExchanges)) cfg;
         cfg = put_opt ''logging'' (map_option (\<lambda>v. JObj [(''version'', JInt v)])
           (Option.bind (tcs_Logging s) lg_Version)) cfg
     in cfg)"

section \<open>exchange.go\<close>

text \<open>The plaintext fields first, then the Secret's keys over them when a \<open>secretRef\<close> is set.\<close>

definition put_secret :: "smap \<Rightarrow> string \<Rightarrow> string \<Rightarrow> config \<Rightarrow> config" where
  "put_secret secretData sk k cfg = put_opt k (map_option JStr (map_of secretData sk)) cfg"

definition applyExchangeCredentials :: "config \<Rightarrow> exchangespec \<Rightarrow> smap \<Rightarrow> config" where
  "applyExchangeCredentials cfg x secretData =
    (let cfg = put_str ''key'' (ex_Key x) cfg;
         cfg = put_str ''secret'' (ex_Secret x) cfg;
         cfg = put_str ''password'' (ex_Password x) cfg;
         cfg = put_str ''uid'' (ex_UID x) cfg;
         cfg = put_str ''account_id'' (ex_AccountID x) cfg;
         cfg = put_str ''wallet_address'' (ex_WalletAddress x) cfg;
         cfg = put_str ''private_key'' (ex_PrivateKey x) cfg
     in if ex_SecretRef x = [] then cfg
        else (let cfg = put_secret secretData ''api-key'' ''key'' cfg;
                  cfg = put_secret secretData ''secret'' ''secret'' cfg;
                  cfg = put_secret secretData ''password'' ''password'' cfg;
                  cfg = put_secret secretData ''uid'' ''uid'' cfg;
                  cfg = put_secret secretData ''account_id'' ''account_id'' cfg;
                  cfg = put_secret secretData ''wallet_address'' ''wallet_address'' cfg;
                  cfg = put_secret secretData ''private_key'' ''private_key'' cfg
              in cfg))"

text \<open>A raw CCXT document that does not parse is rendered as null.\<close>

fun as_any :: "golib \<Rightarrow> json \<Rightarrow> json" where
  "as_any G (JNum s) = (case ParseFloat G s of Some f \<Rightarrow> JFloat f | None \<Rightarrow> JNull)"
| "as_any G (JList js) = JList (map (as_any G) js)"
| "as_any G (JObj ms) = JObj (map (\<lambda>(k, j). (k, as_any G j)) ms)"
| "as_any G j = j"

definition ccxt_json :: "golib \<Rightarrow> string \<Rightarrow> json" where
  "ccxt_json G s = (case json_Unmarshal G s of Inl e \<Rightarrow> JNull | Inr j \<Rightarrow> as_any G j)"

definition BuildExchangeConfig :: "golib \<Rightarrow> exchangespec \<Rightarrow> smap \<Rightarrow> config" where
  "BuildExchangeConfig G x secretData =
    (let cfg = [];
         cfg = put_str ''name'' (ex_Name x) cfg;
         cfg = applyExchangeCredentials cfg x secretData;
         cfg = put_bool ''log_responses'' (ex_LogResponses x) cfg;
         cfg = put_bool ''enable_ws'' (ex_EnableWS x) cfg;
         cfg = put_bool ''unknown_fee_rate'' (ex_UnkownFeeRate x) cfg;
         cfg = put_int ''outdated_offset'' (ex_OutdatedOffset x) cfg;
         cfg = put_int ''markets_refresh_interval'' (ex_MarketRefreshInterval x) cfg;
         cfg = put_opt ''ccxt_config'' (map_option (ccxt_json G) (ex_CcxtConfig x)) cfg;
         cfg = put_opt ''ccxt_async_config'' (map_option (ccxt_json G) (ex_CcxtAsyncConfig x)) cfg;
         cfg = put_opt ''ccxt_sync_config'' (map_option (ccxt_json G) (ex_CcxtSyncConfig x)) cfg;
         cfg = put_opt ''pair_whitelist''
           (map_option strs_json (Option.bind (ex_Whitelist x) pl_Pairs)) cfg;
         cfg = put_opt ''pair_blacklist''
           (map_option strs_json (Option.bind (ex_Blacklist x) pl_Pairs)) cfg
     in cfg)"

section \<open>order.go and pricing.go\<close>

definition BuildOrderTypesConfig :: "orderspec option \<Rightarrow> config option" where
  "BuildOrderTypesConfig order = map_option (\<lambda>ty.
    (let cfg = [];
         cfg = put_str ''entry'' (ot_Entry ty) cfg;
         cfg = put_str ''exit'' (ot_Exit ty) cfg;
         cfg = put_str ''emergency_exit'' (ot_EmergencyExit ty) cfg;
         cfg = put_str ''force_entry'' (ot_ForceEntry ty) cfg;
         cfg = put_str ''force_exit'' (ot_ForceExit ty) cfg;
         cfg = put_str ''stoploss'' (ot_Stoploss ty) cfg;
         cfg = put_bool ''stoploss_on_exchange'' (ot_StoplossOnExchange ty) cfg;
         cfg = put_int ''stoploss_on_exchange_interval'' (ot_StoplossOnExchangeInterval ty) cfg;
         cfg = put_float ''stoploss_on_exchange_limit_ratio'' (ot_StoplossOnExchangeLimitRatio ty) cfg
     in cfg)) (Option.bind order ord_Types)"

definition BuildOrderTimeInForceConfig :: "orderspec option \<Rightarrow> config option" where
  "BuildOrderTimeInForceConfig order = map_option (\<lambda>tif.
    (let cfg = [];
         cfg = put_str ''entry'' (tif_Entry tif) cfg;
         cfg = put_str ''exit'' (tif_Exit tif) cfg
     in cfg)) (Option.bind order ord_TimeInForce)"

definition BuildOrderflowConfig :: "orderspec option \<Rightarrow> config option" where
  "BuildOrderflowConfig order = map_option (\<lambda>fl.
    (let cfg = [];
         cfg = put_int ''cache_size'' (fl_CacheSize fl) cfg;
         cfg = put_int ''max_candles'' (fl_MaxCandles fl) cfg;
         cfg = put_float ''scale'' (fl_Scale fl) cfg;
         cfg = put_int ''stacked_imbalance_range'' (fl_StackedImbalanceRange fl) cfg;
         cfg = put_int ''imbalance_volume'' (fl_ImbalanceVolume fl) cfg;
         cfg = put_float ''imbalance_ratio'' (fl_ImbalanceRatio fl) cfg
     in cfg)) (Option.bind order ord_Flow)"

text \<open>Any non-nil \<open>UseOrderBook\<close> renders \<open>use_order_book\<close> as true, as the code has it.\<close>

definition depth_of_market :: "pricingcheckdepthofmarket \<Rightarrow> config" where
  "depth_of_market d =
    (let cfg = [];
         cfg = put_bool ''enabled'' (pcd_Enabled d) cfg;
         cfg = put_float ''bids_to_ask_delta'' (pcd_BidsToAskDelta d) cfg
     in cfg)"

definition BuildPricingConfig :: "pricingspec option \<Rightarrow> config option" where
  "BuildPricingConfig pricing = map_option (\<lambda>p.
    (let cfg = [];
         cfg = put_str ''price_side'' (prc_PriceSide p) cfg;
         cfg = put_flag ''use_order_book'' (prc_UseOrderBook p \<noteq> None) cfg;
         cfg = put_int ''order_book_top''
           (if prc_UseOrderBook p \<noteq> None then prc_OrderBookTop p else None) cfg;
         cfg = put_float ''price_last_balance'' (prc_PriceLastBalance p) cfg;
         cfg = put_opt ''check_depth_of_market''
           (map_option (JObj \<circ> depth_of_market) (prc_CheckDepthOfMarket p)) cfg
     in cfg)) pricing"

section \<open>riskmanagement.go\<close>

definition roi_json :: "float64 option gomap \<Rightarrow> json" where
  "roi_json m = JObj (map (\<lambda>(k, v). (k, case v of None \<Rightarrow> JNull | Some f \<Rightarrow> JFloat f)) m)"

definition BuildRiskManagementConfig :: "riskmanagementspec option \<Rightarrow> config option" where
  "BuildRiskManagementConfig riskManagement = map_option (\<lambda>rm.
    (let cfg = [];
         cfg = put_opt ''minimal_roi'' (map_option roi_json (rm_MinimalROI rm)) cfg;
         cfg = put_float ''stoploss'' (rm_Stoploss rm) cfg;
         cfg = put_flag ''trailing_stop'' (rm_TrailingStop rm) cfg;
         cfg = put_float ''trailing_stop_positive'' (rm_TrailingStopPositive rm) cfg;
         cfg = put_float ''trailing_stop_positive_offset'' (rm_TrailingStopPositiveOffset rm) cfg;
         cfg = put_flag ''trailing_only_offset_is_reached'' (rm_TrailingOnlyOffsetIsReached rm) cfg;
         cfg = put_flag ''use_exit_signal'' (rm_UseExitSignal rm) cfg;
         cfg = put_flag ''exit_profit_only'' (rm_ExitProfitOnly rm) cfg;
         cfg = put_float ''exit_profit_offset'' (rm_ExitProfitOffset rm) cfg;
         cfg = put_float ''fee'' (rm_Fee rm) cfg;
         cfg = put_flag ''ignore_roi_if_entry_signal'' (rm_IgnoreRoiIfEntrySignal rm) cfg;
         cfg = put_int ''ignore_buying_expired_candle_after'' (rm_IgnoreBuyingExpiredCandleAfter rm) cfg;
         cfg = put_int ''minimum_trade_amount'' (rm_MinimumTradeAmount rm) cfg;
         cfg = put_int ''targeted_trade_amount'' (rm_TargetedTradeAmount rm) cfg;
         cfg = put_str ''lookahead_analysis_exportfilename'' (rm_LookaheadAnalysisExportFilename rm) cfg;
         cfg = put_opt ''startup_candle'' (map_option (JList \<circ> map JInt) (rm_StartupCandle rm)) cfg;
         cfg = put_float ''liquidation_buffer'' (rm_LiquidationBuffer rm) cfg;
         cfg = put_opt ''backtest_breakdown'' (map_option strs_json (rm_BacktestBreakdown rm)) cfg
     in cfg)) riskManagement"

section \<open>notification.go\<close>

definition buildTelegramSettingsConfig :: "notificationtelegramsettings \<Rightarrow> config" where
  "buildTelegramSettingsConfig s =
    (let cfg = [];
         cfg = put_str ''status'' (tgs_Status s) cfg;
         cfg = put_str ''warning'' (tgs_Warning s) cfg;
         cfg = put_str ''startup'' (tgs_Startup s) cfg;
         cfg = put_str ''entry'' (tgs_Entry s) cfg;
         cfg = put_str ''entry_fill'' (tgs_EntryFill s) cfg;
         cfg = put_str ''entry_cancel'' (tgs_EntryCancel s) cfg;
         cfg = put_str ''exit'' (tgs_Exit s) cfg;
         cfg = put_str ''exit_fill'' (tgs_ExitFill s) cfg;
         cfg = put_str ''exit_cancel'' (tgs_ExitCancel s) cfg;
         cfg = put_str ''protection_trigger'' (tgs_ProtectionTrigger s) cfg;
         cfg = put_str ''protection_trigger_global'' (tgs_ProtectionTriggerGlobal s) cfg
     in cfg)"

definition buildTelegramConfig :: "notificationtelegram \<Rightarrow> smap \<Rightarrow> config" where
  "buildTelegramConfig tg secretData =
    (let cfg = [];
         cfg = put_bool ''enabled'' (tg_Enabled tg) cfg;
         cfg = (if tg_SecretRef tg \<noteq> []
                then put_opt ''chat_id'' (map_option JStr (map_of secretData ''chat-id''))
                       (put_opt ''token'' (map_option JStr (map_of secretData ''token'')) cfg)
                else put_str ''chat_id'' (tg_ChatID tg) (put_str ''token'' (tg_Token tg) cfg));
         cfg = put_float ''balance_dust_level'' (tg_BalanceDustLevel tg) cfg;
         cfg = put_bool ''reload'' (tg_Reload tg) cfg;
         cfg = put_bool ''allow_custom_messages'' (tg_AllowCustomMessages tg) cfg;
         cfg = put_str ''topic_id'' (tg_TopicID tg) cfg;
         cfg = put_strs ''authorized_users'' (tg_AuthorizedUsers tg) cfg;
         cfg = put_opt ''notification_settings''
           (map_option (JObj \<circ> buildTelegramSettingsConfig) (tg_Settings tg)) cfg
     in cfg)"

definition buildWebhookConfig :: "notificationwebhook \<Rightarrow> config" where
  "buildWebhookConfig wh =
    (let cfg = [(''enabled'', JBool True), (''url'', JStr (wh_URL wh))];
         cfg = put_str ''webhookentry'' (wh_Entry wh) cfg;
         cfg = put_str ''webhookentrycancel'' (wh_EntryCancel wh) cfg;
         cfg = put_str ''webhookentryfill'' (wh_EntryFill wh) cfg;
         cfg = put_str ''webhookexit'' (wh_Exit wh) cfg;
         cfg = put_str ''webhookexitcancel'' (wh_ExitCancel wh) cfg;
         cfg = put_str ''webhookexitfill'' (wh_ExitFill wh) cfg;
         cfg = put_str ''webhookstatus'' (wh_Status wh) cfg
     in cfg)"

definition buildDiscordConfig :: "notificationdiscord \<Rightarrow> config" where
  "buildDiscordConfig dis =
    (let cfg = [];
         cfg = put_bool ''enabled'' (dis_Enabled dis) cfg;
         cfg = put_str ''webhook_url'' (dis_WebhookURL dis) cfg;
         cfg = put_opt ''entry_fill''
           (if dis_EntryFill dis \<noteq> [] then Some (JList (map smap_json (dis_EntryFill dis))) else None) cfg;
         cfg = put_opt ''exit_fill''
           (if dis_ExitFill dis \<noteq> [] then Some (JList (map smap_json (dis_ExitFill dis))) else None) cfg
     in cfg)"

definition BuildNotificationConfig :: "notificationspec option \<Rightarrow> smap \<Rightarrow> config option" where
  "BuildNotificationConfig notification secretData = map_option (\<lambda>n.
    (let cfg = [];
         cfg = put_opt ''telegram''
           (map_option (\<lambda>tg. JObj (buildTelegramConfig tg secretData)) (nt_Telegram n)) cfg;
         cfg = put_opt ''webhook'' (case nt_Webhook n of None \<Rightarrow> None
           | Some wh \<Rightarrow> if wh_Enabled wh = Some True then Some (JObj (buildWebhookConfig wh)) else None) cfg;
         cfg = put_opt ''discord'' (map_option (JObj \<circ> buildDiscordConfig) (nt_Discord n)) cfg
     in cfg)) notification"

section \<open>pairlistmethods.go\<close>

definition applyPercentChangePairListConfig :: "config \<Rightarrow> pairlistconfig \<Rightarrow> config" where
  "applyPercentChangePairListConfig cfg m =
    (let cfg = put_str ''lookback_timeframe'' (pc_LookbackTimeframe m) cfg;
         cfg = put_int ''lookback_period'' (pc_LookbackPeriod m) cfg;
         cfg = put_int ''lookback_days'' (pc_LookbackDays m) cfg;
         cfg = put_float ''min_change_rate'' (pc_MinChangeRate m) cfg
     in cfg)"

definition applyRemotePairListConfig :: "config \<Rightarrow> pairlistconfig \<Rightarrow> config" where
  "applyRemotePairListConfig cfg m =
    (let cfg = put_str ''mode'' (pc_Mode m) cfg;
         cfg = put_str ''processing_mode'' (pc_ProcessingMode m) cfg;
         cfg = put_str ''pairlist_url'' (pc_PairlistURL m) cfg;
         cfg = put_bool ''keep_pairlist_on_failure'' (pc_KeepPairlistOnFailure m) cfg;
         cfg = put_int ''read_timeout'' (pc_ReadTimeout m) cfg;
         cfg = put_str ''bearer_token'' (pc_BearerToken m) cfg;
         cfg = put_str ''save_to_file'' (pc_SaveToFile m) cfg
     in cfg)"

definition applyRangeStabilityFilterConfig :: "config \<Rightarrow> pairlistconfig \<Rightarrow> config" where
  "applyRangeStabilityFilterConfig cfg m =
    (let cfg = put_int ''lookback_days'' (pc_LookbackDaysRange m) cfg;
         cfg = put_float ''min_rate_of_change'' (pc_MinRateOfChange m) cfg;
         cfg = put_float ''max_rate_of_change'' (pc_MaxRateOfChange m) cfg
     in cfg)"

definition applyVolatilityFilterConfig :: "config \<Rightarrow> pairlistconfig \<Rightarrow> config" where
  "applyVolatilityFilterConfig cfg m =
    (let cfg = put_int ''lookback_days'' (pc_LookbackDaysVolatility m) cfg;
         cfg = put_float ''min_volatility'' (pc_MinVolatility m) cfg;
         cfg = put_float ''max_volatility'' (pc_MaxVolatility m) cfg
     in cfg)"

definition applyPairlistMethodSpecificConfig :: "config \<Rightarrow> pairlistconfig \<Rightarrow> config" where
  "applyPairlistMethodSpecificConfig cfg m =
    (if pc_Method m = ''StaticPairList'' then map_put ''allow_inactive'' (JBool (pc_AllowInactive m)) cfg
     else if pc_Method m = ''VolumePairList'' then put_str ''sort_key'' (pc_SortKey m) cfg
     else if pc_Method m = ''PercentChangePairList'' then applyPercentChangePairListConfig cfg m
     else if pc_Method m = ''ProducerPairList'' then put_str ''producer_name'' (pc_ProducerName m) cfg
     else if pc_Method m = ''RemotePairList'' then applyRemotePairListConfig cfg m
     else if pc_Method m = ''MarketCapPairList'' then
       put_strs ''categories'' (pc_Categories m) (put_int ''max_rank'' (pc_MaxRank m) cfg)
     else if pc_Method m = ''AgeFilter'' then
       put_int ''max_days_listed'' (pc_MaxDaysListed m) (put_int ''min_days_listed'' (pc_MinDaysListed m) cfg)
     else if pc_Method m = ''PriceFilter'' then
       put_float ''max_price'' (pc_MaxPrice m) (put_float ''min_price'' (pc_MinPrice m) cfg)
     else if pc_Method m = ''SpreadFilter'' then put_float ''max_spread_ratio'' (pc_MaxSpreadRatio m) cfg
     else if pc_Method m = ''RangeStabilityFilter'' then applyRangeStabilityFilterConfig cfg m
     else if pc_Method m = ''VolatilityFilter'' then applyVolatilityFilterConfig cfg m
     else if pc_Method m = ''OffsetFilter'' then put_int ''offset'' (pc_Offset m) cfg
     else if pc_Method m = ''ShuffleFilter'' then
       put_int ''seed'' (pc_Seed m) (put_str ''shuffle_frequency'' (pc_ShuffleFrequency m) cfg)
     else if pc_Method m = ''PerformanceFilter'' then
       put_float ''min_profit'' (pc_MinProfit m) (put_int ''minutes'' (pc_Minutes m) cfg)
     else cfg)"

definition pairlist_method :: "pairlistconfig \<Rightarrow> config" where
  "pairlist_method m =
    (let cfg = map_put ''method'' (JStr (pc_Method m)) [];
         cfg = put_int ''number_assets'' (pc_NumberAssets m) cfg;
         cfg = put_int ''refresh_period'' (pc_RefreshPeriod m) cfg
     in applyPairlistMethodSpecificConfig cfg m)"

definition BuildPairlistMethodsConfig :: "pairlistmethodsspec option \<Rightarrow> config option" where
  "BuildPairlistMethodsConfig pairlistMethods = map_option (\<lambda>p.
     [(''pairlists'', JList (map (JObj \<circ> pairlist_method) (pms_Methods p)))]) pairlistMethods"

end
