(* ===== verification/ConfigBuilder.thy ===== *)
theory ConfigBuilder
  imports ConfigSections
begin

text \<open>\<open>controllers/tradebotconfig/configbuilder/build_config.go\<close>: reading the referenced Secrets,
  settling the API server's JWT key, assembling the sections into one tree and marshalling it.
  The lemmas say what reaches the rendered configuration: the trading mode the user asked for, the
  sections unharmed by one another, and the Secret's credentials in preference to plaintext ones.\<close>

section \<open>Secrets\<close>

definition GetSecretData :: "'e api \<Rightarrow> string \<Rightarrow> string \<Rightarrow> ('e, goerr + smap) op" where
  "GetSecretData A namespace name =
    (if name = [] then State_Monad.return (Inr [])
     else do {
       r \<leftarrow> do_GetSecret A \<lparr>nn_Namespace = namespace, nn_Name = name\<rparr>;
       State_Monad.return (case r of
           Inl e \<Rightarrow> Inl (Wrap (''failed to get secret '' @ namespace @ ''/'' @ name @ '': '') e)
         | Inr s \<Rightarrow> Inr (sec_Data s))
     })"

section \<open>The JWT key\<close>

definition minAPIServerJWTSecretKeyLength :: nat where "minAPIServerJWTSecretKeyLength = 32"

definition hex_encode :: "string \<Rightarrow> string" where
  "hex_encode bs = concat (map (\<lambda>c. [hex_digit (of_char c div 16), hex_digit (of_char c mod 16)]) bs)"

definition generateAPIServerJWTSecretKey :: "'e api \<Rightarrow> ('e, goerr + string) op" where
  "generateAPIServerJWTSecretKey A = do {
     r \<leftarrow> do_RandRead A 32;
     State_Monad.return (case r of
         Inl e \<Rightarrow> Inl (Wrap ''failed to generate a JWT secret key: '' e)
       | Inr b \<Rightarrow> Inr (hex_encode (map b [0..<32]))) }"

text \<open>\<open>json.Unmarshal\<close> into \<open>struct\<close> with the single path \<open>api_server.jwt_secret_key\<close>.\<close>

definition jwt_key_of :: "json \<Rightarrow> string option" where
  "jwt_key_of j = (if \<not> is_struct j then None
     else (case field_of ''api_server'' j of
         None \<Rightarrow> Some []
       | Some a \<Rightarrow> if \<not> is_struct a then None
           else (case dec_string ''jwt_secret_key'' a of Inl _ \<Rightarrow> None | Inr k \<Rightarrow> Some k)))"

definition existingAPIServerJWTSecretKey ::
  "'e api \<Rightarrow> golib \<Rightarrow> string \<Rightarrow> string \<Rightarrow> ('e, goerr + string) op" where
  "existingAPIServerJWTSecretKey A G name namespace = do {
     r \<leftarrow> do_GetSecret A \<lparr>nn_Namespace = namespace, nn_Name = name @ ''-config''\<rparr>;
     State_Monad.return (case r of
         Inl e \<Rightarrow> if IsNotFound e then Inr []
           else Inl (Wrap (''failed to get existing config secret '' @ namespace @ ''/'' @ name @ ''-config: '') e)
       | Inr s \<Rightarrow> (case json_Unmarshal G (map_str (sec_Data s) ''config.json'') of
           Inl e \<Rightarrow> Inr []
         | Inr j \<Rightarrow> (case jwt_key_of j of None \<Rightarrow> Inr [] | Some k \<Rightarrow> Inr k))) }"

definition resolveAPIServerJWTSecretKey ::
  "'e api \<Rightarrow> golib \<Rightarrow> string \<Rightarrow> string \<Rightarrow> tradebotconfigspec \<Rightarrow> smap \<Rightarrow> ('e, goerr + string) op" where
  "resolveAPIServerJWTSecretKey A G name namespace s apiCredentials = (case tcs_APIServer s of
       None \<Rightarrow> State_Monad.return (Inr [])
     | Some a \<Rightarrow>
        if as_Enabled a \<noteq> Some True then State_Monad.return (Inr [])
        else (let key = (if map_str apiCredentials ''jwt_secret_key'' \<noteq> []
                         then map_str apiCredentials ''jwt_secret_key'' else as_JWTSecretKey a) in
          if key \<noteq> [] then
            (if length key < minAPIServerJWTSecretKeyLength
             then State_Monad.return (Inl (ErrString (''api_server.jwt_secret_key is '' @ Itoa (int (length key)) @
               '' characters, shorter than the required minimum of '' @ Itoa (int minAPIServerJWTSecretKeyLength))))
             else State_Monad.return (Inr key))
          else do {
            r \<leftarrow> existingAPIServerJWTSecretKey A G name namespace;
            case r of
              Inl e \<Rightarrow> State_Monad.return (Inl e)
            | Inr existing \<Rightarrow>
                if existing \<noteq> [] then State_Monad.return (Inr existing)
                else generateAPIServerJWTSecretKey A
          }))"

section \<open>Assembly\<close>

definition obj_opt :: "config option \<Rightarrow> json option" where "obj_opt m = map_option JObj m"

definition assembleConfig ::
  "golib \<Rightarrow> string \<Rightarrow> tradebotconfigspec \<Rightarrow> exchangespec \<Rightarrow> smap \<Rightarrow> string \<Rightarrow> smap \<Rightarrow> smap \<Rightarrow> string list \<Rightarrow> config" where
  "assembleConfig G name s x apiCredentials jwtSecretKey exchangeSecret notificationSecret cors =
    (let cfg = [];
         cfg = map_merge (BuildTradeBotConfig G name s apiCredentials jwtSecretKey cors) cfg;
         cfg = map_put ''exchange'' (JObj (BuildExchangeConfig G x exchangeSecret)) cfg;
         cfg = merge_opt (BuildPairlistMethodsConfig (tcs_PairlistMethod s)) cfg;
         cfg = put_opt ''entry_pricing'' (obj_opt (BuildPricingConfig (tcs_EntryPricing s))) cfg;
         cfg = put_opt ''exit_pricing'' (obj_opt (BuildPricingConfig (tcs_ExitPricing s))) cfg;
         cfg = put_opt ''order_types'' (obj_opt (BuildOrderTypesConfig (tcs_Order s))) cfg;
         cfg = put_opt ''order_time_in_force'' (obj_opt (BuildOrderTimeInForceConfig (tcs_Order s))) cfg;
         cfg = put_opt ''orderflow'' (obj_opt (BuildOrderflowConfig (tcs_Order s))) cfg;
         cfg = merge_opt (BuildRiskManagementConfig (tcs_RiskManagement s)) cfg;
         cfg = merge_opt (BuildNotificationConfig (tcs_Notification s) notificationSecret) cfg
     in cfg)"

definition apiServerSecretRef :: "tradebotconfigspec \<Rightarrow> string" where
  "apiServerSecretRef s = (case tcs_APIServer s of None \<Rightarrow> [] | Some a \<Rightarrow> as_SecretRef a)"

definition notificationSecretData :: "'e api \<Rightarrow> string \<Rightarrow> tradebotconfigspec \<Rightarrow> ('e, goerr + smap) op" where
  "notificationSecretData A namespace s = (case Option.bind (tcs_Notification s) nt_Telegram of
       None \<Rightarrow> State_Monad.return (Inr [])
     | Some tg \<Rightarrow> GetSecretData A namespace (tg_SecretRef tg))"

definition BuildConfig ::
  "'e api \<Rightarrow> golib \<Rightarrow> string \<Rightarrow> string \<Rightarrow> tradebotconfigspec \<Rightarrow> string list \<Rightarrow> ('e, goerr + smap) op" where
  "BuildConfig A G name namespace s extraCorsHosts = (case tcs_Exchange s of
       None \<Rightarrow> State_Monad.return (Inl ErrMissingExchange)
     | Some x \<Rightarrow> do {
         r \<leftarrow> GetSecretData A namespace (apiServerSecretRef s);
         case r of
           Inl e \<Rightarrow> State_Monad.return (Inl (Wrap ''failed to get API credentials: '' e))
         | Inr apiCredentials \<Rightarrow> do {
             k \<leftarrow> resolveAPIServerJWTSecretKey A G name namespace s apiCredentials;
             case k of
               Inl e \<Rightarrow> State_Monad.return (Inl (Wrap ''failed to resolve API server JWT secret key: '' e))
             | Inr jwtSecretKey \<Rightarrow> do {
                 er \<leftarrow> GetSecretData A namespace (ex_SecretRef x);
                 case er of
                   Inl e \<Rightarrow> State_Monad.return (Inl (Wrap ''failed to get exchange secret data: '' e))
                 | Inr exchangeSecret \<Rightarrow> do {
                     nr \<leftarrow> notificationSecretData A namespace s;
                     case nr of
                       Inl e \<Rightarrow> State_Monad.return (Inl (Wrap ''failed to get notification secret data: '' e))
                     | Inr notificationSecret \<Rightarrow>
                         State_Monad.return (case json_MarshalIndent G (JObj (assembleConfig G name s x apiCredentials
                             jwtSecretKey exchangeSecret notificationSecret extraCorsHosts)) of
                             Inl e \<Rightarrow> Inl (Wrap ''failed to marshal config to JSON: '' e)
                           | Inr txt \<Rightarrow> Inr [(''config.json'', txt)])
                   }
               }
           }
       })"

section \<open>What the builder touches\<close>

fun secret_read :: "event \<Rightarrow> bool" where
  "secret_read (GetSecret k r) = True"
| "secret_read _ = False"

lemma only_GetSecretData [only_intro]:
  "(\<And>k r. P (GetSecret k r)) \<Longrightarrow> only P (GetSecretData A ns n)"
  by (auto simp: GetSecretData_def call_defs intro!: only_intro)

lemma only_resolve_jwt [only_intro]:
  "(\<And>k r. P (GetSecret k r)) \<Longrightarrow> only P (resolveAPIServerJWTSecretKey A G n ns s c)"
  by (auto simp: resolveAPIServerJWTSecretKey_def existingAPIServerJWTSecretKey_def
      generateAPIServerJWTSecretKey_def call_defs Let_def intro!: only_intro split: option.split)

lemma only_BuildConfig [only_intro]:
  "(\<And>k r. P (GetSecret k r)) \<Longrightarrow> only P (BuildConfig A G n ns s c)"
  by (auto simp: BuildConfig_def notificationSecretData_def intro!: only_intro)

section \<open>Keys of the assembled tree\<close>

lemmas section_defs = buildBotConfigFields_def buildDataConfigFields_def buildAdvancedConfigFields_def
  BuildTradeBotConfig_def BuildPairlistMethodsConfig_def BuildRiskManagementConfig_def
  BuildNotificationConfig_def

lemma bot_section_lookup:
  "k \<notin> {''bot_name'', ''trading_mode'', ''dry_run'', ''dry_run_wallet'', ''stake_currency'', ''stake_amount'',
     ''max_open_trades'', ''fiat_display_currency'', ''db_url'', ''export'', ''disableparamexport'',
     ''disable_dataframe_checks''} \<Longrightarrow> map_of (buildBotConfigFields G b n) k = None"
  by (simp add: buildBotConfigFields_def Let_def config_other)

lemma data_section_keys:
  "k \<in> {''dry_run'', ''trading_mode'', ''exchange'', ''api_server'', ''stake_amount'', ''max_open_trades''}
    \<Longrightarrow> map_of (buildDataConfigFields d) k = None"
  by (elim insertE emptyE) (simp_all add: buildDataConfigFields_def Let_def config_other)

lemma advanced_section_keys:
  "k \<in> {''dry_run'', ''trading_mode'', ''exchange'', ''api_server'', ''stake_amount'', ''max_open_trades''}
    \<Longrightarrow> map_of (buildAdvancedConfigFields d) k = None"
  by (elim insertE emptyE) (simp_all add: buildAdvancedConfigFields_def Let_def config_other)

lemma pairlist_section_keys:
  "k \<noteq> ''pairlists'' \<Longrightarrow> Option.bind (BuildPairlistMethodsConfig p) (\<lambda>m. map_of m k) = None"
  by (cases p) (simp_all add: BuildPairlistMethodsConfig_def)

lemma notification_section_keys:
  "k \<notin> {''telegram'', ''webhook'', ''discord''}
    \<Longrightarrow> Option.bind (BuildNotificationConfig n d) (\<lambda>m. map_of m k) = None"
  by (cases n) (simp_all add: BuildNotificationConfig_def Let_def config_other)

lemma risk_section_keys:
  "k \<in> {''dry_run'', ''trading_mode'', ''exchange'', ''api_server'', ''stake_amount'', ''max_open_trades''}
    \<Longrightarrow> Option.bind (BuildRiskManagementConfig r) (\<lambda>m. map_of m k) = None"
  by (cases r; elim insertE emptyE) (simp_all add: BuildRiskManagementConfig_def Let_def config_other)

lemmas section_keys = data_section_keys advanced_section_keys pairlist_section_keys
  notification_section_keys risk_section_keys

text \<open>The keys that decide whether a bot trades with real money reach the rendered configuration
  exactly as the TradeBotConfig has them: no other section writes them.\<close>

lemma optional_section_keys:
  assumes "k \<in> {''dry_run'', ''trading_mode'', ''exchange'', ''api_server'', ''stake_amount'', ''max_open_trades''}"
  shows "Option.bind (map_option buildDataConfigFields d) (\<lambda>m. map_of m k) = None"
    and "Option.bind (map_option buildAdvancedConfigFields a) (\<lambda>m. map_of m k) = None"
  using data_section_keys [OF assms] advanced_section_keys [OF assms] by (cases d; cases a; simp)+

lemma BuildTradeBotConfig_bot_key:
  assumes "k \<in> {''dry_run'', ''trading_mode'', ''stake_amount'', ''max_open_trades''}"
  shows "map_of (BuildTradeBotConfig G n s c j cors) k
       = Option.bind (tcs_Bot s) (\<lambda>b. map_of (buildBotConfigFields G b n) k)"
proof -
  from assms have other: "k \<noteq> ''freqai''" "k \<noteq> ''unfilledtimeout''" "k \<noteq> ''internals''"
    "k \<noteq> ''api_server''" "k \<noteq> ''experimental''" "k \<noteq> ''logging''" by auto
  from assms have k: "k \<in> {''dry_run'', ''trading_mode'', ''exchange'', ''api_server'', ''stake_amount'',
    ''max_open_trades''}" by auto
  show ?thesis
    unfolding BuildTradeBotConfig_def Let_def map_of_put_other(2) [OF other(1)]
      map_of_put_other(2) [OF other(2)] map_of_put_other(2) [OF other(3)] map_of_put_other(2) [OF other(4)]
      map_of_put_other(2) [OF other(5)] map_of_put_other(2) [OF other(6)] map_of_merge_opt
      optional_section_keys [OF k] option.case
    by (cases "tcs_Bot s") (simp_all split: option.split)
qed

text \<open>The sections after the bot's own do not write these keys.\<close>

lemma assembleConfig_base:
  assumes "k \<in> {''dry_run'', ''trading_mode'', ''exchange'', ''api_server'', ''stake_amount'', ''max_open_trades''}"
  shows "map_of (assembleConfig G n s x c j es ns cors) k
       = (if k = ''exchange'' then Some (JObj (BuildExchangeConfig G x es))
          else map_of (BuildTradeBotConfig G n s c j cors) k)"
proof -
  from assms have other: "k \<noteq> ''entry_pricing''" "k \<noteq> ''exit_pricing''" "k \<noteq> ''order_types''"
    "k \<noteq> ''order_time_in_force''" "k \<noteq> ''orderflow''" "k \<noteq> ''pairlists''"
    "k \<notin> {''telegram'', ''webhook'', ''discord''}" by auto
  show ?thesis
    unfolding assembleConfig_def Let_def map_of_merge_opt notification_section_keys [OF other(7)]
      risk_section_keys [OF assms] option.case map_of_put_other(2) [OF other(1)]
      map_of_put_other(2) [OF other(2)] map_of_put_other(2) [OF other(3)] map_of_put_other(2) [OF other(4)]
      map_of_put_other(2) [OF other(5)] pairlist_section_keys [OF other(6)] map_of_map_put map_of_map_merge
    by (simp split: option.split)
qed

lemma assembleConfig_bot_key:
  assumes "k \<in> {''dry_run'', ''trading_mode'', ''stake_amount'', ''max_open_trades''}"
  shows "map_of (assembleConfig G n s x c j es ns cors) k
       = Option.bind (tcs_Bot s) (\<lambda>b. map_of (buildBotConfigFields G b n) k)"
proof -
  from assms have "k \<noteq> ''exchange''"
    "k \<in> {''dry_run'', ''trading_mode'', ''exchange'', ''api_server'', ''stake_amount'', ''max_open_trades''}" by auto
  with assembleConfig_base BuildTradeBotConfig_bot_key [OF assms] show ?thesis by simp
qed

lemma assembleConfig_exchange:
  "map_of (assembleConfig G n s x c j es ns cors) ''exchange'' = Some (JObj (BuildExchangeConfig G x es))"
  by (simp add: assembleConfig_base)

lemma BuildTradeBotConfig_api_server:
  "map_of (BuildTradeBotConfig G n s c j cors) ''api_server''
     = map_option (\<lambda>a. JObj (buildAPIServerConfig a c j cors)) (tcs_APIServer s)"
proof -
  have "map_of (buildBotConfigFields G b n) ''api_server'' = None" for b
    by (rule bot_section_lookup) simp
  then have "Option.bind (map_option (\<lambda>b. buildBotConfigFields G b n) (tcs_Bot s))
      (\<lambda>m. map_of m ''api_server'') = None"
    by (cases "tcs_Bot s") simp_all
  then show ?thesis
    by (simp add: BuildTradeBotConfig_def Let_def config_other map_of_merge_opt map_of_put_opt
        optional_section_keys)
qed

lemma assembleConfig_api_server:
  "map_of (assembleConfig G n s x c j es ns cors) ''api_server''
     = map_option (\<lambda>a. JObj (buildAPIServerConfig a c j cors)) (tcs_APIServer s)"
  by (simp add: assembleConfig_base BuildTradeBotConfig_api_server)

section \<open>Secret over plaintext\<close>

text \<open>A credential with a plaintext field and a key in a Secret. The Secret's value is the one that is
  rendered whenever the Secret has the key.\<close>

locale secret_precedence =
  fixes rendered :: "string \<Rightarrow> smap \<Rightarrow> json option"
    and key :: string
  assumes secret_wins: "map_of sd key = Some v \<Longrightarrow> rendered plain sd = Some (JStr v)"
    and plain_fallback:
      "map_of sd key = None \<Longrightarrow> rendered plain sd = (if plain = [] then None else Some (JStr plain))"
begin

lemma rendered_eq:
  "rendered plain sd = (case map_of sd key of Some v \<Rightarrow> Some (JStr v)
     | None \<Rightarrow> if plain = [] then None else Some (JStr plain))"
  using secret_wins plain_fallback by (auto split: option.split)

lemma plaintext_irrelevant: "map_of sd key \<noteq> None \<Longrightarrow> rendered p sd = rendered q sd"
  by (auto simp: rendered_eq)

end

lemmas exchange_lookup = BuildExchangeConfig_def applyExchangeCredentials_def put_secret_def Let_def
  config_lookup

interpretation exchange_key: secret_precedence
  "\<lambda>p sd. map_of (BuildExchangeConfig G (x\<lparr>ex_Key := p, ex_SecretRef := r # rs\<rparr>) sd) ''key''"
  "''api-key''" for G x r rs
  by unfold_locales (auto simp: exchange_lookup)

interpretation exchange_secret: secret_precedence
  "\<lambda>p sd. map_of (BuildExchangeConfig G (x\<lparr>ex_Secret := p, ex_SecretRef := r # rs\<rparr>) sd) ''secret''"
  "''secret''" for G x r rs
  by unfold_locales (auto simp: exchange_lookup)

interpretation exchange_password: secret_precedence
  "\<lambda>p sd. map_of (BuildExchangeConfig G (x\<lparr>ex_Password := p, ex_SecretRef := r # rs\<rparr>) sd) ''password''"
  "''password''" for G x r rs
  by unfold_locales (auto simp: exchange_lookup)

interpretation exchange_private_key: secret_precedence
  "\<lambda>p sd. map_of (BuildExchangeConfig G (x\<lparr>ex_PrivateKey := p, ex_SecretRef := r # rs\<rparr>) sd) ''private_key''"
  "''private_key''" for G x r rs
  by unfold_locales (auto simp: exchange_lookup)

interpretation exchange_uid: secret_precedence
  "\<lambda>p sd. map_of (BuildExchangeConfig G (x\<lparr>ex_UID := p, ex_SecretRef := r # rs\<rparr>) sd) ''uid''"
  "''uid''" for G x r rs
  by unfold_locales (auto simp: exchange_lookup)

interpretation exchange_account: secret_precedence
  "\<lambda>p sd. map_of (BuildExchangeConfig G (x\<lparr>ex_AccountID := p, ex_SecretRef := r # rs\<rparr>) sd) ''account_id''"
  "''account_id''" for G x r rs
  by unfold_locales (auto simp: exchange_lookup)

interpretation exchange_wallet: secret_precedence
  "\<lambda>p sd. map_of (BuildExchangeConfig G (x\<lparr>ex_WalletAddress := p, ex_SecretRef := r # rs\<rparr>) sd) ''wallet_address''"
  "''wallet_address''" for G x r rs
  by unfold_locales (auto simp: exchange_lookup)

interpretation api_username: secret_precedence
  "\<lambda>p sd. map_of (buildAPIServerConfig (a\<lparr>as_Username := p\<rparr>) sd j cors) ''username''"
  "''user''" for a j cors
  by unfold_locales (auto simp: buildAPIServerConfig_def Let_def config_lookup)

interpretation api_password: secret_precedence
  "\<lambda>p sd. map_of (buildAPIServerConfig (a\<lparr>as_Password := p\<rparr>) sd j cors) ''password''"
  "''password''" for a j cors
  by unfold_locales (auto simp: buildAPIServerConfig_def Let_def config_lookup)

text \<open>The precedence for every credential of a section: the name it is rendered under, its key in the Secret, the field with
  the plaintext value. Without a reference there is no Secret.\<close>

definition from_secret :: "config \<Rightarrow> smap option \<Rightarrow> string \<times> string \<times> string \<Rightarrow> bool" where
  "from_secret cfg sd = (\<lambda>(name, key, plain). map_of cfg name = (case Option.bind sd (\<lambda>m. map_of m key) of
       Some v \<Rightarrow> Some (JStr v) | None \<Rightarrow> if plain = [] then None else Some (JStr plain)))"

definition exchange_credentials :: "exchangespec \<Rightarrow> (string \<times> string \<times> string) list" where
  "exchange_credentials x = [(''key'', ''api-key'', ex_Key x), (''secret'', ''secret'', ex_Secret x), (''password'', ''password'', ex_Password x),
     (''uid'', ''uid'', ex_UID x), (''account_id'', ''account_id'', ex_AccountID x), (''wallet_address'', ''wallet_address'', ex_WalletAddress x),
     (''private_key'', ''private_key'', ex_PrivateKey x)]"

definition api_credentials :: "apiserverconfig \<Rightarrow> (string \<times> string \<times> string) list" where
  "api_credentials a = [(''username'', ''user'', as_Username a), (''password'', ''password'', as_Password a)]"

lemma exchange_from_secret:
  "list_all (from_secret (BuildExchangeConfig G x sd) (if ex_SecretRef x = [] then None else Some sd)) (exchange_credentials x)"
proof (cases "ex_SecretRef x")
  case Nil
  then show ?thesis by (simp add: exchange_credentials_def from_secret_def exchange_lookup)
next
  case (Cons r rs)
  then have same: "x\<lparr>ex_SecretRef := r # rs\<rparr> = x" by simp
  note eq = exchange_key.rendered_eq [where G = G and x = x and plain = "ex_Key x" and r = r and rs = rs and sd = sd]
    exchange_secret.rendered_eq [where G = G and x = x and plain = "ex_Secret x" and r = r and rs = rs and sd = sd]
    exchange_password.rendered_eq [where G = G and x = x and plain = "ex_Password x" and r = r and rs = rs and sd = sd]
    exchange_uid.rendered_eq [where G = G and x = x and plain = "ex_UID x" and r = r and rs = rs and sd = sd]
    exchange_account.rendered_eq [where G = G and x = x and plain = "ex_AccountID x" and r = r and rs = rs and sd = sd]
    exchange_wallet.rendered_eq [where G = G and x = x and plain = "ex_WalletAddress x" and r = r and rs = rs and sd = sd]
    exchange_private_key.rendered_eq [where G = G and x = x and plain = "ex_PrivateKey x" and r = r and rs = rs and sd = sd]
  from eq Cons show ?thesis by (simp add: exchange_credentials_def from_secret_def same)
qed

lemma api_from_secret: "list_all (from_secret (buildAPIServerConfig a sd j cors) (Some sd)) (api_credentials a)"
  using api_username.rendered_eq [where a = a and plain = "as_Username a" and sd = sd and j = j and cors = cors]
    api_password.rendered_eq [where a = a and plain = "as_Password a" and sd = sd and j = j and cors = cors]
  by (simp add: api_credentials_def from_secret_def)

text \<open>For Telegram a reference excludes the plaintext fields altogether.\<close>

definition telegram_from :: "notificationtelegram \<Rightarrow> smap \<Rightarrow> bool" where
  "telegram_from tg sd \<longleftrightarrow> list_all (\<lambda>(name, key, plain). map_of (buildTelegramConfig tg sd) name =
       (if tg_SecretRef tg \<noteq> [] then map_option JStr (map_of sd key) else if plain = [] then None else Some (JStr plain)))
     [(''token'', ''token'', tg_Token tg), (''chat_id'', ''chat-id'', tg_ChatID tg)]"

lemma telegram_from_secret: "telegram_from tg sd"
  by (cases "tg_SecretRef tg") (simp_all add: telegram_from_def buildTelegramConfig_def Let_def config_lookup split: option.split)

section \<open>CORS origins\<close>

lemma set_append_new: "set (append_new acc hs) = set acc \<union> set hs"
  by (induction acc hs rule: append_new.induct) auto

lemma append_new_prefix: "\<exists>new. append_new acc hs = acc @ new \<and> set new \<inter> set acc = {}
    \<and> distinct new \<and> set new \<subseteq> set hs"
proof (induction acc hs rule: append_new.induct)
  case (2 acc h hs)
  then obtain new where new: "append_new (if h \<in> set acc then acc else acc @ [h]) hs
      = (if h \<in> set acc then acc else acc @ [h]) @ new"
      "set new \<inter> set (if h \<in> set acc then acc else acc @ [h]) = {}" "distinct new" "set new \<subseteq> set hs"
    by auto
  show ?case
  proof (cases "h \<in> set acc")
    case True
    with new show ?thesis by auto
  next
    case False
    with new show ?thesis by (intro exI [of _ "h # new"]) auto
  qed
qed auto

section \<open>The JWT key that is used\<close>

lemma hex_encode_length [simp]: "length (hex_encode bs) = 2 * length bs"
  by (induction bs) (simp_all add: hex_encode_def)

text \<open>The key that is settled on is empty only when the API server is off; otherwise it is the one
  already in the bot's config Secret or it has at least the minimum length.\<close>

definition config_secret_key :: "string \<Rightarrow> string \<Rightarrow> nname" where
  "config_secret_key name namespace = \<lparr>nn_Namespace = namespace, nn_Name = name @ ''-config''\<rparr>"

definition stored_jwt :: "golib \<Rightarrow> string \<Rightarrow> event \<Rightarrow> string \<Rightarrow> bool" where
  "stored_jwt G name e k = (case e of
       GetSecret key (Inr sec) \<Rightarrow>
         nn_Name key = name @ ''-config'' \<and>
         (case json_Unmarshal G (map_str (sec_Data sec) ''config.json'') of
            Inl _ \<Rightarrow> False | Inr j \<Rightarrow> jwt_key_of j = Some k)
     | _ \<Rightarrow> False)"

lemma existing_jwt_emits:
  "emits (existingAPIServerJWTSecretKey A G name ns)
     (\<lambda>r t. \<forall>k. r = Inr k \<longrightarrow> k = [] \<or> (\<exists>e \<in> set t. stored_jwt G name e k))"
  unfolding existingAPIServerJWTSecretKey_def do_GetSecret_def
  by (rule emits_bind [OF emits_call [where Q = "\<lambda>x t. t = [GetSecret (config_secret_key name ns) x]"]])
     (auto simp: config_secret_key_def stored_jwt_def intro!: emits_return
       split: sum.splits option.splits if_splits)

lemma generate_jwt_emits:
  "emits (generateAPIServerJWTSecretKey A) (\<lambda>r t. \<forall>k. r = Inr k \<longrightarrow> length k = 64)"
  unfolding generateAPIServerJWTSecretKey_def do_RandRead_def
  by (rule emits_bind [OF emits_ask [where Q = "\<lambda>_ _. True"]])
     (auto intro!: emits_return split: sum.splits)

lemma resolve_jwt_emits:
  "emits (resolveAPIServerJWTSecretKey A G name ns s c) (\<lambda>r t. \<forall>k. r = Inr k \<longrightarrow>
     (if map_option as_Enabled (tcs_APIServer s) \<noteq> Some (Some True) then k = []
      else minAPIServerJWTSecretKeyLength \<le> length k
        \<or> (k \<noteq> [] \<and> (\<exists>e \<in> set t. stored_jwt G name e k))))" (is "emits _ ?Q")
proof (cases "map_option as_Enabled (tcs_APIServer s) = Some (Some True)")
  case True
  then obtain a where a: "tcs_APIServer s = Some a" "as_Enabled a = Some True" by auto
  have "emits (do {
      r \<leftarrow> existingAPIServerJWTSecretKey A G name ns;
      case r of
        Inl e \<Rightarrow> State_Monad.return (Inl e)
      | Inr existing \<Rightarrow>
          if existing \<noteq> [] then State_Monad.return (Inr existing)
          else generateAPIServerJWTSecretKey A }) ?Q"
    using a
    by (intro emits_bind [OF existing_jwt_emits] emits_case_sum emits_if)
       (auto intro!: emits_return emits_conseq [OF generate_jwt_emits]
         simp: minAPIServerJWTSecretKeyLength_def)
  with a show ?thesis
    by (auto simp: resolveAPIServerJWTSecretKey_def Let_def minAPIServerJWTSecretKeyLength_def
        intro!: emits_if emits_return)
next
  case False
  then show ?thesis
    by (auto simp: resolveAPIServerJWTSecretKey_def split: option.split intro!: emits_return)
qed

end
