(* ===== verification/Admission.thy ===== *)
theory Admission
  imports TradeBotResources ConfigBuilder
begin

text \<open>The v1alpha1 admission webhooks (\<open>api/v1alpha1/strategy_webhook.go\<close>, \<open>tradebot_webhook.go\<close>,
  \<open>tradebotconfig_webhook.go\<close>). An admission answer is the error it rejects with, if any.\<close>

section \<open>Strategy\<close>

definition letter :: "char \<Rightarrow> bool" where
  "letter c \<longleftrightarrow> (CHR ''A'' \<le> c \<and> c \<le> CHR ''Z'') \<or> (CHR ''a'' \<le> c \<and> c \<le> CHR ''z'')"

definition digit :: "char \<Rightarrow> bool" where
  "digit c \<longleftrightarrow> CHR ''0'' \<le> c \<and> c \<le> CHR ''9''"

text \<open>Bytes outside ASCII are rejected like the runes they belong to.\<close>

definition IsValidPythonClassName :: "string \<Rightarrow> bool" where
  "IsValidPythonClassName name = (case name of
       [] \<Rightarrow> False
     | c # cs \<Rightarrow> (letter c \<or> c = CHR ''_'') \<and> list_all (\<lambda>d. letter d \<or> digit d \<or> d = CHR ''_'') cs)"

definition requiredMethods :: "string list" where
  "requiredMethods = [''populate_indicators'', ''populate_entry_trend'', ''populate_exit_trend'']"

definition requiredImports :: "string list" where
  "requiredImports = [''import freqtrade'', ''from freqtrade.strategy'']"

definition ValidateStrategyScript :: "string \<Rightarrow> string \<Rightarrow> goerr option" where
  "ValidateStrategyScript script strategyName =
    (if TrimSpace script = [] then Some (ErrString ''strategy script cannot be empty'')
     else if \<not> Contains script (''class '' @ strategyName)
     then Some (ErrString (''strategy script must contain class definition: '' @ ''class '' @ strategyName))
     else (case find (\<lambda>m. \<not> Contains script (''def '' @ m)) requiredMethods of
         Some m \<Rightarrow> Some (ErrString (''strategy script must contain method: '' @ m))
       | None \<Rightarrow>
           if \<not> list_ex (Contains script) requiredImports
           then Some (ErrString ''strategy script must contain freqtrade imports'')
           else None))"

definition validateStrategySpec :: "strategy \<Rightarrow> goerr option" where
  "validateStrategySpec s =
    (if ss_Name (sy_Spec s) = [] then Some (ErrString ''spec.name is required'')
     else if ss_Script (sy_Spec s) = [] then Some (ErrString ''spec.script is required'')
     else if \<not> IsValidPythonClassName (ss_Name (sy_Spec s))
     then Some (ErrString (''spec.name '' @ Quote (ss_Name (sy_Spec s)) @ '' is not a valid Python class name''))
     else ValidateStrategyScript (ss_Script (sy_Spec s)) (ss_Name (sy_Spec s)))"

text \<open>An accepted script has what the check asks for.\<close>

lemma ValidateStrategyScript_ok:
  "ValidateStrategyScript script n = None \<longleftrightarrow> TrimSpace script \<noteq> [] \<and> Contains script (''class '' @ n)
     \<and> (\<forall>m \<in> set requiredMethods. Contains script (''def '' @ m))
     \<and> (\<exists>i \<in> set requiredImports. Contains script i)"
proof -
  have "find (\<lambda>m. \<not> Contains script (''def '' @ m)) requiredMethods = None \<longleftrightarrow>
      (\<forall>m \<in> set requiredMethods. Contains script (''def '' @ m))"
    by (simp add: find_None_iff) blast
  then show ?thesis
    by (auto simp: ValidateStrategyScript_def list_ex_iff split: option.split)
qed

section \<open>TradeBot\<close>

definition minIntrospectionInterval :: duration where
  "minIntrospectionInterval = 10 * Second"

definition ownedFreqtradeFlags :: "string list" where
  "ownedFreqtradeFlags = [''--config'', ''--strategy'', ''--strategy-path'', ''--db-url'', ''--logfile'',
     ''--userdir'', ''--datadir'']"

definition shellMetacharacters :: "char list" where
  "shellMetacharacters = '';&|`$(){}<>'' @ [CHR 0x5C, CHR 0x0A]"

definition has_metacharacter :: "string \<Rightarrow> bool" where
  "has_metacharacter arg = list_ex (\<lambda>c. c \<in> set shellMetacharacters) arg"

fun check_arguments :: "string list \<Rightarrow> goerr option" where
  "check_arguments [] = None"
| "check_arguments (arg # args) =
    (if has_metacharacter arg
     then Some (ErrString (''spec.freqtrade_arguments: '' @ Quote arg
       @ '' contains a shell metacharacter, which is not allowed''))
     else if arg \<in> set ownedFreqtradeFlags
     then Some (ErrString (''spec.freqtrade_arguments: '' @ Quote arg
       @ '' is set by the operator and cannot be overridden''))
     else check_arguments args)"

definition check_interval :: "tradebot \<Rightarrow> goerr option" where
  "check_interval tb = (case tb_Introspection (tb_Spec tb) of
       None \<Rightarrow> None
     | Some i \<Rightarrow>
         if is_Interval i \<noteq> 0 \<and> is_Interval i < minIntrospectionInterval
         then Some (ErrString (''spec.introspection.interval: must be at least '' @ duration_String minIntrospectionInterval
           @ '', got '' @ duration_String (is_Interval i)))
         else None)"

definition validate_TradeBot :: "'e api \<Rightarrow> tradebot \<Rightarrow> ('e, goerr option) op" where
  "validate_TradeBot A tb = do {
     s \<leftarrow> do_GetStrategy A \<lparr>nn_Namespace = tb_Namespace tb, nn_Name = tb_Strategy (tb_Spec tb)\<rparr>;
     case s of
       Inl e \<Rightarrow> State_Monad.return (Some (if IsNotFound e
           then ErrString (''spec.strategy: Strategy '' @ Quote (tb_Strategy (tb_Spec tb))
             @ '' not found in namespace '' @ Quote (tb_Namespace tb))
           else Wrap (''spec.strategy: failed to look up Strategy '' @ Quote (tb_Strategy (tb_Spec tb)) @ '': '') e))
     | Inr _ \<Rightarrow> do {
         c \<leftarrow> do_GetTradeBotConfig A \<lparr>nn_Namespace = tb_Namespace tb, nn_Name = tb_Config (tb_Spec tb)\<rparr>;
         case c of
           Inl e \<Rightarrow> State_Monad.return (Some (if IsNotFound e
               then ErrString (''spec.config: TradeBotConfig '' @ Quote (tb_Config (tb_Spec tb))
                 @ '' not found in namespace '' @ Quote (tb_Namespace tb))
               else Wrap (''spec.config: failed to look up TradeBotConfig '' @ Quote (tb_Config (tb_Spec tb)) @ '': '') e))
         | Inr _ \<Rightarrow>
             (case check_arguments (tb_FreqtradeArguments (tb_Spec tb)) of
                Some e \<Rightarrow> State_Monad.return (Some e)
              | None \<Rightarrow>
                  (case check_interval tb of
                     Some e \<Rightarrow> State_Monad.return (Some e)
                   | None \<Rightarrow> do {
                       st \<leftarrow> do_GetBetaTradeBot A (key_of_meta (tb_meta tb));
                       State_Monad.return (case st of
                           Inl _ \<Rightarrow> None
                         | Inr stored \<Rightarrow>
                             if btb_State (btb_Spec stored) = TradeBotStateStopped
                             then Some (ErrString (''TradeBot '' @ tb_Namespace tb @ ''/'' @ tb_Name tb
                               @ '' has spec.state=Stopped (set via v1beta1) - writing it via v1alpha1 would silently ''
                               @ ''reset that back to Running, since v1alpha1 has no field for it at all; use v1beta1 for this ''
                               @ ''object from now on''))
                             else None) })) } }"

definition TradeBot_ValidateCreate :: "'e api \<Rightarrow> tradebot \<Rightarrow> ('e, goerr option) op" where
  "TradeBot_ValidateCreate A tb = validate_TradeBot A tb"

definition TradeBot_ValidateUpdate :: "'e api \<Rightarrow> tradebot \<Rightarrow> ('e, goerr option) op" where
  "TradeBot_ValidateUpdate A tb =
    (if om_DeletionTimestamp (tb_meta tb) \<noteq> None then State_Monad.return None else validate_TradeBot A tb)"

text \<open>What an admitted TradeBot satisfies, and what suffices: nothing in its arguments repeats a flag of the operator or
  carries a metacharacter, its interval is at least the floor, both references were found, and the
  stored object does not ask for Stopped.\<close>

lemma check_arguments_ok:
  "check_arguments args = None \<longleftrightarrow> (\<forall>a \<in> set args. \<not> has_metacharacter a \<and> a \<notin> set ownedFreqtradeFlags)"
  by (induction args) auto

definition allowed_argument :: "string \<Rightarrow> bool" where
  "allowed_argument a \<longleftrightarrow> set a \<inter> (set '';&|`$(){}<>'' \<union> {CHR 0x5C, CHR 0x0A}) = {}
     \<and> a \<notin> {''--config'', ''--strategy'', ''--strategy-path'', ''--db-url'', ''--logfile'', ''--userdir'', ''--datadir''}"

lemma allowed_argument_iff: "allowed_argument a \<longleftrightarrow> \<not> has_metacharacter a \<and> a \<notin> set ownedFreqtradeFlags"
proof -
  have "has_metacharacter a \<longleftrightarrow> set a \<inter> (set '';&|`$(){}<>'' \<union> {CHR 0x5C, CHR 0x0A}) \<noteq> {}"
    by (auto simp: has_metacharacter_def shellMetacharacters_def list_ex_iff)
  then show ?thesis by (simp add: allowed_argument_def ownedFreqtradeFlags_def)
qed

definition admitted_ok :: "tradebot \<Rightarrow> event list \<Rightarrow> bool" where
  "admitted_ok tb t \<longleftrightarrow>
     list_all allowed_argument (tb_FreqtradeArguments (tb_Spec tb))
     \<and> (\<forall>i. tb_Introspection (tb_Spec tb) = Some i \<longrightarrow> is_Interval i = 0 \<or> 10 * 1000000000 \<le> is_Interval i)
     \<and> (\<exists>s. GetStrategy \<lparr>nn_Namespace = tb_Namespace tb, nn_Name = tb_Strategy (tb_Spec tb)\<rparr> (Inr s) \<in> set t)
     \<and> (\<exists>c. GetTradeBotConfig \<lparr>nn_Namespace = tb_Namespace tb, nn_Name = tb_Config (tb_Spec tb)\<rparr> (Inr c) \<in> set t)
     \<and> (\<exists>r. GetBetaTradeBot (key_of_meta (tb_meta tb)) r \<in> set t
          \<and> (\<forall>b. r = Inr b \<longrightarrow> btb_State (btb_Spec b) \<noteq> ''Stopped''))"

lemma validate_TradeBot_emits:
  "emits (validate_TradeBot A tb) (\<lambda>r t. r = None \<longleftrightarrow> admitted_ok tb t)"
  unfolding validate_TradeBot_def call_defs
  by (rule emits_bind [OF emits_call [where Q = "\<lambda>x t. t = [GetStrategy \<lparr>nn_Namespace = tb_Namespace tb, nn_Name = tb_Strategy (tb_Spec tb)\<rparr> x]"]], rule refl,
      rule emits_case_sum, rule emits_return, simp add: admitted_ok_def,
      rule emits_bind [OF emits_call [where Q = "\<lambda>x t. t = [GetTradeBotConfig \<lparr>nn_Namespace = tb_Namespace tb, nn_Name = tb_Config (tb_Spec tb)\<rparr> x]"]], rule refl,
      rule emits_case_sum, rule emits_return, simp add: admitted_ok_def,
      rule emits_case_option, rule emits_case_option,
      rule emits_bind [OF emits_call [where Q = "\<lambda>x t. t = [GetBetaTradeBot (key_of_meta (tb_meta tb)) x]"]], rule refl,
      rule emits_return)
     (auto simp: admitted_ok_def check_arguments_ok allowed_argument_iff list_all_iff check_interval_def minIntrospectionInterval_def
       Second_def TradeBotStateStopped_def
       intro!: emits_return split: option.splits sum.splits if_splits)

section \<open>TradeBotConfig\<close>

definition if_set :: "string \<Rightarrow> string \<Rightarrow> string list" where
  "if_set v path = (if v \<noteq> [] then [path] else [])"

definition plaintextCredentialFields :: "tradebotconfigspec \<Rightarrow> string list" where
  "plaintextCredentialFields s =
     (case tcs_Exchange s of None \<Rightarrow> [] | Some e \<Rightarrow>
        if_set (ex_Key e) ''spec.exchange.key'' @ if_set (ex_Secret e) ''spec.exchange.secret''
        @ if_set (ex_Password e) ''spec.exchange.password'' @ if_set (ex_UID e) ''spec.exchange.uid''
        @ if_set (ex_WalletAddress e) ''spec.exchange.wallet_address''
        @ if_set (ex_PrivateKey e) ''spec.exchange.private_key'')
     @ (case tcs_APIServer s of None \<Rightarrow> [] | Some a \<Rightarrow>
        if_set (as_Password a) ''spec.apiServer.password'' @ if_set (as_JWTSecretKey a) ''spec.apiServer.jwtSecretKey'')
     @ (case Option.bind (tcs_Notification s) nt_Telegram of None \<Rightarrow> [] | Some t \<Rightarrow>
        if_set (tg_Token t) ''spec.notification.telegram.token'')"

abbreviation "allowPlaintextCredentialsAnnotation \<equiv> ''freqtrade.io/allow-plaintext-credentials''"

definition warnPlaintextCredentialsUsed :: "bool \<Rightarrow> string list \<Rightarrow> ('e, unit) op" where
  "warnPlaintextCredentialsUsed has_recorder paths = record_event has_recorder EventWarning ''PlaintextCredentialsUsed''
     (''Admitted via '' @ allowPlaintextCredentialsAnnotation @ '': deprecated plaintext credential field(s) [''
      @ Join paths '', '' @ ''] - migrate to secretRef'')"

definition validate_TradeBotConfig :: "bool \<Rightarrow> tradebotconfig \<Rightarrow> ('e, goerr option) op" where
  "validate_TradeBotConfig has_recorder cfg =
    (let paths = plaintextCredentialFields (tc_Spec cfg) in
     if paths = [] then State_Monad.return None
     else if map_str (om_Annotations (tc_meta cfg)) allowPlaintextCredentialsAnnotation \<noteq> ''true''
     then State_Monad.return (Some (ErrString (''spec sets deprecated plaintext credential field(s) ['' @ Join paths '', ''
       @ '']; use a secretRef instead. Setting the '' @ Quote allowPlaintextCredentialsAnnotation
       @ '' annotation only bypasses this specific check - v1beta1 (the storage version, B2) has no field ''
       @ ''for these at all, so the write is still rejected at conversion regardless of this annotation; ''
       @ ''there is no way to persist a plaintext credential'')))
     else do {
       _ \<leftarrow> warnPlaintextCredentialsUsed has_recorder paths;
       State_Monad.return None })"

definition TradeBotConfig_ValidateUpdate :: "bool \<Rightarrow> tradebotconfig \<Rightarrow> ('e, goerr option) op" where
  "TradeBotConfig_ValidateUpdate has_recorder cfg =
    (if om_DeletionTimestamp (tc_meta cfg) \<noteq> None then State_Monad.return None
     else validate_TradeBotConfig has_recorder cfg)"

text \<open>Without a listed field every credential that is rendered comes from the Secret.\<close>

lemma no_plaintext:
  assumes "plaintextCredentialFields s = []"
  shows "tcs_Exchange s = Some x \<Longrightarrow> ex_Key x = [] \<and> ex_Secret x = [] \<and> ex_Password x = [] \<and> ex_UID x = []
      \<and> ex_WalletAddress x = [] \<and> ex_PrivateKey x = []"
    and "tcs_APIServer s = Some a \<Longrightarrow> as_Password a = [] \<and> as_JWTSecretKey a = []"
    and "Option.bind (tcs_Notification s) nt_Telegram = Some tg \<Longrightarrow> tg_Token tg = []"
  using assms by (simp_all add: plaintextCredentialFields_def if_set_def split: if_splits)

text \<open>The configuration of a spec the webhook accepts without the annotation: every credential it names comes from a Secret.\<close>

definition only_from_secrets :: "golib \<Rightarrow> tradebotconfigspec \<Rightarrow> smap \<Rightarrow> smap \<Rightarrow> smap \<Rightarrow> string \<Rightarrow> string list \<Rightarrow> bool" where
  "only_from_secrets G s es cs ns j cors \<longleftrightarrow>
     (\<forall>x. tcs_Exchange s = Some x \<longrightarrow> list_all (\<lambda>(name, key). map_of (BuildExchangeConfig G x es) name
          = (if ex_SecretRef x = [] then None else map_option JStr (map_of es key)))
        [(''key'', ''api-key''), (''secret'', ''secret''), (''password'', ''password''), (''uid'', ''uid''),
         (''wallet_address'', ''wallet_address''), (''private_key'', ''private_key'')])
   \<and> (\<forall>a. tcs_APIServer s = Some a \<longrightarrow> map_of (buildAPIServerConfig a cs j cors) ''password'' = map_option JStr (map_of cs ''password''))
   \<and> (\<forall>tg. Option.bind (tcs_Notification s) nt_Telegram = Some tg \<longrightarrow> map_of (buildTelegramConfig tg ns) ''token''
          = (if tg_SecretRef tg = [] then None else map_option JStr (map_of ns ''token'')))"

lemma no_plaintext_only_secrets:
  assumes "plaintextCredentialFields s = []"
  shows "only_from_secrets G s es cs ns j cors"
  unfolding only_from_secrets_def
proof (intro conjI allI impI)
  fix x assume x: "tcs_Exchange s = Some x"
  show "list_all (\<lambda>(name, key). map_of (BuildExchangeConfig G x es) name = (if ex_SecretRef x = [] then None else map_option JStr (map_of es key)))
      [(''key'', ''api-key''), (''secret'', ''secret''), (''password'', ''password''), (''uid'', ''uid''),
       (''wallet_address'', ''wallet_address''), (''private_key'', ''private_key'')]"
    using exchange_from_secret [of G x es] no_plaintext(1) [OF assms x]
    by (simp add: exchange_credentials_def from_secret_def split: option.split)
next
  fix a assume "tcs_APIServer s = Some a"
  with no_plaintext(2) [OF assms] api_from_secret [of a cs j cors]
  show "map_of (buildAPIServerConfig a cs j cors) ''password'' = map_option JStr (map_of cs ''password'')"
    by (simp add: api_credentials_def from_secret_def split: option.splits)
next
  fix tg assume "Option.bind (tcs_Notification s) nt_Telegram = Some tg"
  with no_plaintext(3) [OF assms] telegram_from_secret [of tg ns]
  show "map_of (buildTelegramConfig tg ns) ''token'' = (if tg_SecretRef tg = [] then None else map_option JStr (map_of ns ''token''))"
    by (simp add: telegram_from_def)
qed

end
