(* ===== verification/TradeBotFinalizer.thy ===== *)
theory TradeBotFinalizer
  imports TradeBotResources
begin

text \<open>\<open>controllers/tradebot/finalizers.go\<close>: one step of a TradeBot's cleanup. The StatefulSet is
  scaled to zero and waited for across reconciles, up to a grace period; then the user-data PVC is
  detached from its owner if an annotation asks for it.\<close>

section \<open>The reconciler's settings\<close>

record reconciler =
  r_FinalizerGracePeriod :: duration
  r_MaxConcurrentReconciles :: int
  r_Recorder :: bool
  r_DefaultImage :: string
  r_OperatorNamespace :: string

definition defaultFinalizerGracePeriod :: duration where
  "defaultFinalizerGracePeriod = 2 * Minute"

definition finalizerGracePeriod :: "reconciler \<Rightarrow> duration" where
  "finalizerGracePeriod R =
     (if r_FinalizerGracePeriod R > 0 then r_FinalizerGracePeriod R else defaultFinalizerGracePeriod)"

definition deadline_passed :: "reconciler \<Rightarrow> tradebot \<Rightarrow> gotime \<Rightarrow> bool" where
  "deadline_passed R tb now = (case om_DeletionTimestamp (tb_meta tb) of
       None \<Rightarrow> False
     | Some dt \<Rightarrow> now - dt > finalizerGracePeriod R)"

definition finalizerDeadlinePassed :: "'e api \<Rightarrow> reconciler \<Rightarrow> tradebot \<Rightarrow> ('e, bool) op" where
  "finalizerDeadlinePassed A R tb = (case om_DeletionTimestamp (tb_meta tb) of
       None \<Rightarrow> State_Monad.return False
     | Some dt \<Rightarrow> do {
         now \<leftarrow> do_Now A;
         State_Monad.return (now - dt > finalizerGracePeriod R) })"

section \<open>Scaling down\<close>

definition scaled_down :: "statefulset \<Rightarrow> bool" where
  "scaled_down s \<longleftrightarrow> sts_Replicas s = Some 0 \<and> sts_StatusReplicas s = 0 \<and> sts_StatusReadyReplicas s = 0"

definition ensureStatefulSetScaledDown :: "'e api \<Rightarrow> statefulset \<Rightarrow> ('e, goerr + bool) op" where
  "ensureStatefulSetScaledDown A s =
    (if sts_Replicas s = None \<or> sts_Replicas s \<noteq> Some 0
     then do {
       r \<leftarrow> do_UpdateStatefulSet A (s\<lparr>sts_Replicas := Some 0\<rparr>);
       case r of
         Some e \<Rightarrow> if \<not> IsConflict e then State_Monad.return (Inl e) else State_Monad.return (Inr False)
       | None \<Rightarrow> State_Monad.return (Inr False) }
     else State_Monad.return (Inr (sts_StatusReplicas s = 0 \<and> sts_StatusReadyReplicas s = 0)))"

section \<open>Preserving the volume\<close>

definition preserves_data :: "tradebot \<Rightarrow> bool" where
  "preserves_data tb = (map_of (om_Annotations (tb_meta tb)) ''freqtrade.io/preserve-data'' = Some ''true'')"

definition released_pvc :: "golib \<Rightarrow> tradebot \<Rightarrow> gotime \<Rightarrow> pvc \<Rightarrow> pvc" where
  "released_pvc G tb now p = p\<lparr>pvc_meta := (pvc_meta p)\<lparr>
     om_OwnerReferences := filter (\<lambda>r. or_UID r \<noteq> om_UID (tb_meta tb)) (om_OwnerReferences (pvc_meta p)),
     om_Annotations := map_put ''freqtrade.io/preserved-at'' (time_RFC3339 G now)
       (map_put ''freqtrade.io/preserved-from'' (tb_Name tb) (om_Annotations (pvc_meta p)))\<rparr>\<rparr>"

definition handlePVCPreservation :: "'e api \<Rightarrow> golib \<Rightarrow> tradebot \<Rightarrow> ('e, goerr option) op" where
  "handlePVCPreservation A G tb =
    (if preserves_data tb
     then do {
       r \<leftarrow> do_GetPVC A \<lparr>nn_Namespace = tb_Namespace tb, nn_Name = tb_Name tb @ ''-user-data''\<rparr>;
       case r of
         Inl e \<Rightarrow> if IsNotFound e then State_Monad.return None else State_Monad.return (Some e)
       | Inr p \<Rightarrow> do {
           now \<leftarrow> do_Now A;
           do_UpdatePVC A (released_pvc G tb now p) } }
     else State_Monad.return None)"

section \<open>finalizeTradeBot\<close>

definition finalizeTradeBot ::
  "'e api \<Rightarrow> golib \<Rightarrow> reconciler \<Rightarrow> tradebot \<Rightarrow> ('e, goerr + bool) op" where
  "finalizeTradeBot A G R tb = do {
     r \<leftarrow> do_GetStatefulSet A (key_of_meta (tb_meta tb));
     let finish = do {
       _ \<leftarrow> handlePVCPreservation A G tb;
       State_Monad.return (Inr True) };
     case r of
       Inl e \<Rightarrow> if IsNotFound e then finish else State_Monad.return (Inl e)
     | Inr s \<Rightarrow> do {
         d \<leftarrow> ensureStatefulSetScaledDown A s;
         case d of
           Inl e \<Rightarrow> State_Monad.return (Inl e)
         | Inr scaledDown \<Rightarrow>
             if scaledDown then finish
             else do {
               late \<leftarrow> finalizerDeadlinePassed A R tb;
               if late then do {
                 _ \<leftarrow> record_event (r_Recorder R) EventWarning ''FinalizerGracePeriodExceeded''
                   (''StatefulSet did not scale down within the '' @ duration_String (finalizerGracePeriod R)
                     @ '' grace period; removing the finalizer anyway'');
                 finish }
               else State_Monad.return (Inr False) } } }"

section \<open>When cleanup counts as complete\<close>

text \<open>What lets the finalizer go: the StatefulSet is gone, it reads as scaled down, or the clock has
  answered a time past the grace period.\<close>

definition workload_gone :: "tradebot \<Rightarrow> event \<Rightarrow> bool" where
  "workload_gone tb e = (case e of
       GetStatefulSet k (Inl err) \<Rightarrow> k = key_of_meta (tb_meta tb) \<and> IsNotFound err
     | GetStatefulSet k (Inr s) \<Rightarrow> k = key_of_meta (tb_meta tb) \<and> scaled_down s
     | _ \<Rightarrow> False)"

definition grace_exceeded :: "'e api \<Rightarrow> reconciler \<Rightarrow> tradebot \<Rightarrow> bool" where
  "grace_exceeded A R tb \<longleftrightarrow> (\<exists>w. deadline_passed R tb (fst (api_Now A w)))"

lemma emits_Now: "(\<And>w. Q (fst (api_Now A w)) []) \<Longrightarrow> emits (do_Now A) Q"
  by (simp add: do_Now_def emits_def ask_def result_def final_def split_beta)

lemma finalizerDeadlinePassed_emits:
  "emits (finalizerDeadlinePassed A R tb) (\<lambda>b t. t = [] \<and> (b \<longrightarrow> grace_exceeded A R tb))"
proof (cases "om_DeletionTimestamp (tb_meta tb)")
  case (Some dt)
  have "emits (do {
      now \<leftarrow> do_Now A;
      State_Monad.return (now - dt > finalizerGracePeriod R) })
      (\<lambda>b t. t = [] \<and> (b \<longrightarrow> grace_exceeded A R tb))"
    by (rule emits_bind [OF emits_Now
          [where Q = "\<lambda>n t. t = [] \<and> (\<exists>w. n = fst (api_Now A w))"]])
       (auto intro!: emits_return simp: grace_exceeded_def deadline_passed_def Some)
  then show ?thesis by (simp add: finalizerDeadlinePassed_def Some)
qed (auto simp: finalizerDeadlinePassed_def intro!: emits_return)

lemma ensureScaledDown_emits:
  "emits (ensureStatefulSetScaledDown A s) (\<lambda>r t. r = Inr True \<longrightarrow> scaled_down s)"
  unfolding ensureStatefulSetScaledDown_def call_defs
  by (intro emits_if emits_bind [OF emits_call [where Q = "\<lambda>_ _. True"]] emits_case_option emits_return)
     (auto simp: scaled_down_def)

lemma only_handlePVCPreservation [only_intro]:
  "\<lbrakk>\<And>k r. P (GetPVC k r); \<And>p r. preserves_data tb \<Longrightarrow> P (UpdatePVC p r)\<rbrakk>
    \<Longrightarrow> only P (handlePVCPreservation A G tb)"
  by (auto simp: handlePVCPreservation_def call_defs intro!: only_intro)

lemma only_ensureScaledDown [only_intro]:
  "(\<And>r. P (UpdateStatefulSet (s\<lparr>sts_Replicas := Some 0\<rparr>) r)) \<Longrightarrow> only P (ensureStatefulSetScaledDown A s)"
  by (auto simp: ensureStatefulSetScaledDown_def call_defs intro!: only_intro)

lemma only_finalizerDeadlinePassed [only_intro]: "only P (finalizerDeadlinePassed A R tb)"
  by (auto simp: finalizerDeadlinePassed_def call_defs intro!: only_intro)

lemma only_finalizeTradeBot [only_intro]:
  "\<lbrakk>\<And>k r. P (GetPVC k r); \<And>p r. preserves_data tb \<Longrightarrow> P (UpdatePVC p r); \<And>k r. P (GetStatefulSet k r);
    \<And>s r. P (UpdateStatefulSet (s\<lparr>sts_Replicas := Some 0\<rparr>) r); \<And>a b c. P (Recorded a b c)\<rbrakk>
    \<Longrightarrow> only P (finalizeTradeBot A G R tb)"
  unfolding finalizeTradeBot_def Let_def do_GetStatefulSet_def
  by (intro only_intro)

lemma finish_emits:
  assumes "\<And>u. Q (Inr True) u"
  shows "emits (do { _ \<leftarrow> handlePVCPreservation A G tb; State_Monad.return (Inr True) }) Q"
proof -
  have "emits (handlePVCPreservation A G tb) (\<lambda>_ _. True)"
    by (rule emits_of_only [where P = "\<lambda>_. True"]) (intro only_intro TrueI)+
  then show ?thesis by (rule emits_bind) (auto intro!: emits_return assms)
qed

text \<open>Cleanup is complete only when the workload is gone or the grace period is over.\<close>

lemma finalizeTradeBot_emits:
  "emits (finalizeTradeBot A G R tb)
     (\<lambda>r t. r = Inr True \<longrightarrow> grace_exceeded A R tb \<or> (\<exists>e \<in> set t. workload_gone tb e))"
  unfolding finalizeTradeBot_def Let_def do_GetStatefulSet_def
proof (rule emits_bind [OF emits_call
      [where Q = "\<lambda>r t. t = [GetStatefulSet (key_of_meta (tb_meta tb)) r]"]], rule refl, rule emits_case_sum)
  fix r t e
  assume "t = [GetStatefulSet (key_of_meta (tb_meta tb)) r]" "r = Inl e"
  then show "emits (if IsNotFound e
        then do { _ \<leftarrow> handlePVCPreservation A G tb; State_Monad.return (Inr True) }
        else State_Monad.return (Inl e))
      (\<lambda>y u. y = Inr True \<longrightarrow> grace_exceeded A R tb \<or> (\<exists>e \<in> set (t @ u). workload_gone tb e))"
    by (intro emits_if finish_emits emits_return) (auto simp: workload_gone_def)
next
  fix r t s
  assume t: "t = [GetStatefulSet (key_of_meta (tb_meta tb)) r]" "r = Inr s"
  then have gone: "scaled_down s \<Longrightarrow> \<exists>e \<in> set (t @ u). workload_gone tb e" for u
    by (auto simp: workload_gone_def)
  show "emits (do {
         d \<leftarrow> ensureStatefulSetScaledDown A s;
         case d of
           Inl e \<Rightarrow> State_Monad.return (Inl e)
         | Inr scaledDown \<Rightarrow>
             if scaledDown then do { _ \<leftarrow> handlePVCPreservation A G tb; State_Monad.return (Inr True) }
             else do {
               late \<leftarrow> finalizerDeadlinePassed A R tb;
               if late then do {
                 _ \<leftarrow> record_event (r_Recorder R) EventWarning ''FinalizerGracePeriodExceeded''
                   (''StatefulSet did not scale down within the '' @ duration_String (finalizerGracePeriod R)
                     @ '' grace period; removing the finalizer anyway'');
                 _ \<leftarrow> handlePVCPreservation A G tb; State_Monad.return (Inr True) }
               else State_Monad.return (Inr False) } })
      (\<lambda>y u. y = Inr True \<longrightarrow> grace_exceeded A R tb \<or> (\<exists>e \<in> set (t @ u). workload_gone tb e))"
    by (rule emits_bind [OF ensureScaledDown_emits], rule emits_case_sum, rule emits_return, simp,
        rule emits_if, rule finish_emits, use gone in force,
        rule emits_bind [OF finalizerDeadlinePassed_emits], rule emits_if,
        rule emits_bind [OF emits_of_only [OF only_record_event [where P = "\<lambda>_. True"], where Q = "\<lambda>_ _. True"]])
       (auto intro!: finish_emits emits_return)
qed

text \<open>The preserved volume: the owner reference of the bot is gone, every other one stays.\<close>

lemma released_pvc_owners:
  "set (om_OwnerReferences (pvc_meta (released_pvc G tb now p)))
     = {r \<in> set (om_OwnerReferences (pvc_meta p)). or_UID r \<noteq> om_UID (tb_meta tb)}"
  "pvc_Spec (released_pvc G tb now p) = pvc_Spec p"
  by (auto simp: released_pvc_def)

definition releases_volume :: "golib \<Rightarrow> tradebot \<Rightarrow> event \<Rightarrow> event \<Rightarrow> bool" where
  "releases_volume G tb d e \<longleftrightarrow> preserves_data tb \<and> (\<exists>p now r.
     d = GetPVC \<lparr>nn_Namespace = tb_Namespace tb, nn_Name = tb_Name tb @ ''-user-data''\<rparr> (Inr p)
     \<and> e = UpdatePVC (released_pvc G tb now p) r)"

lemma handlePVCPreservation_keeps:
  "keeps (\<lambda>e. \<exists>p r. e = UpdatePVC p r) (releases_volume G tb) (handlePVCPreservation A G tb)"
proof (cases "preserves_data tb")
  case True
  let ?k = "\<lparr>nn_Namespace = tb_Namespace tb, nn_Name = tb_Name tb @ ''-user-data''\<rparr>"
  show ?thesis
    unfolding handlePVCPreservation_def keeps_def if_P [OF True] call_defs
  proof (rule emits_bind [OF emits_call [where Q = "\<lambda>r t. t = [GetPVC ?k r]"]], rule refl, rule emits_case_sum)
    fix x t p
    assume t: "t = [GetPVC ?k x]" "x = Inr p"
    show "emits (do { now \<leftarrow> ask (api_Now A); call (api_UpdatePVC A (released_pvc G tb now p)) (UpdatePVC (released_pvc G tb now p)) })
        (\<lambda>_ u. backed (\<lambda>e. \<exists>p r. e = UpdatePVC p r) (releases_volume G tb) (t @ u))"
      by (rule emits_bind [OF emits_ask [where Q = "\<lambda>_ u. u = []"]], rule refl, rule emits_call)
         (use t True in \<open>auto simp: backed_def less_Suc_eq releases_volume_def\<close>)
  qed (auto intro!: emits_return emits_if simp: backed_def)
qed (simp add: handlePVCPreservation_def keeps_return)

lemma finalizeTradeBot_volume:
  "keeps (\<lambda>e. \<exists>p r. e = UpdatePVC p r) (releases_volume G tb) (finalizeTradeBot A G R tb)"
proof -
  let ?k = "keeps (\<lambda>e. \<exists>p r. e = UpdatePVC p r) (releases_volume G tb)"
  have "?k (ensureStatefulSetScaledDown A s)" "?k (finalizerDeadlinePassed A R tb)" "?k (record_event b ty c d)" for s b ty c d
    by (rule keeps_only, intro only_intro; simp)+
  then show ?thesis
    unfolding finalizeTradeBot_def Let_def do_GetStatefulSet_def
    by (intro keeps_intro handlePVCPreservation_keeps) simp_all
qed

end
