(* ===== verification/TradeBotWorkload.thy ===== *)
theory TradeBotWorkload
  imports TradeBotResources TradeBotFinalizer ConfigBuilder SHA256
begin

text \<open>\<open>controllers/tradebot/resources.go\<close>: the references of a TradeBot, the config hash, and the
  sequence of server-side applies that creates or updates everything the bot owns. The central fact
  is which config hash ends up on the pod template: under \<open>updateStrategy: Auto\<close> the one just
  rendered, otherwise the one the running StatefulSet already carries.\<close>

definition defaultImage :: "reconciler \<Rightarrow> string" where
  "defaultImage R = (if r_DefaultImage R \<noteq> [] then r_DefaultImage R else DefaultFreqtradeImage)"

section \<open>References\<close>

record referencedResources =
  rf_strategy :: strategy
  rf_tradebotconfig :: tradebotconfig

definition fetchReferencedResources ::
  "'e api \<Rightarrow> tradebot \<Rightarrow> string \<Rightarrow> ('e, goerr + referencedResources) op" where
  "fetchReferencedResources A tb namespace = do {
     c \<leftarrow> do_GetTradeBotConfig A \<lparr>nn_Namespace = namespace, nn_Name = tb_Config (tb_Spec tb)\<rparr>;
     case c of
       Inl e \<Rightarrow> State_Monad.return (Inl e)
     | Inr cfg \<Rightarrow> do {
         s \<leftarrow> do_GetStrategy A \<lparr>nn_Namespace = namespace, nn_Name = tb_Strategy (tb_Spec tb)\<rparr>;
         case s of
           Inl e \<Rightarrow> State_Monad.return (Inl e)
         | Inr strat \<Rightarrow> State_Monad.return (Inr \<lparr>rf_strategy = strat, rf_tradebotconfig = cfg\<rparr>) } }"

section \<open>The config hash\<close>

definition hex_of_bytes :: "nat list \<Rightarrow> string" where
  "hex_of_bytes bs = concat (map (\<lambda>b. [hex_digit (b div 16), hex_digit (b mod 16)]) bs)"

definition computeConfigHash :: "smap \<Rightarrow> string \<Rightarrow> string" where
  "computeConfigHash configData strategyScript =
     take 16 (hex_of_bytes (sha256 (map_str configData ''config.json'' @ strategyScript)))"

definition template_hash :: "statefulset \<Rightarrow> string" where
  "template_hash s = map_str (pt_Annotations (sts_Template s)) ConfigHashAnnotation"

definition statefulSetTemplateHash :: "'e api \<Rightarrow> tradebot \<Rightarrow> string \<Rightarrow> ('e, goerr + string) op" where
  "statefulSetTemplateHash A tb freshHash =
    (if tb_UpdateStrategy (tb_Spec tb) = ''Auto'' then State_Monad.return (Inr freshHash)
     else do {
       r \<leftarrow> do_GetStatefulSet A (key_of_meta (tb_meta tb));
       State_Monad.return (case r of
           Inr existing \<Rightarrow> let h = template_hash existing in Inr (if h \<noteq> [] then h else freshHash)
         | Inl e \<Rightarrow> if IsNotFound e then Inr freshHash else Inl e) })"

section \<open>Drift and restart\<close>

definition configDriftCondition :: "string \<Rightarrow> string \<Rightarrow> int \<Rightarrow> bool \<Rightarrow> condition" where
  "configDriftCondition name namespace observedGeneration drift =
    (if drift
     then mk_cond_gen ConditionConfigDrift ConditionTrue ReasonPendingRestart
       (''Rendered config has changed but spec.updateStrategy is Manual, so the StatefulSet pod template was ''
        @ ''deliberately left untouched (a bot may be holding open positions - an unrequested restart is not ''
        @ ''this operator's call to make). Roll it out with: kubectl rollout restart statefulset/'' @ name
        @ '' -n '' @ namespace
        @ '' - or set spec.updateStrategy: Auto, which this operator applies itself and clears this condition for.'')
       observedGeneration
     else mk_cond_gen ConditionConfigDrift ConditionFalse ReasonAsExpected [] observedGeneration)"

definition recordConfigRestartEvent :: "reconciler \<Rightarrow> tradebot \<Rightarrow> string \<Rightarrow> ('e, unit) op" where
  "recordConfigRestartEvent R tb newHash =
    (if \<not> r_Recorder R \<or> tb_UpdateStrategy (tb_Spec tb) \<noteq> ''Auto'' then State_Monad.return ()
     else if st_AppliedConfigHash (tb_Status tb) = [] \<or> st_AppliedConfigHash (tb_Status tb) = newHash
     then State_Monad.return ()
     else record_event (r_Recorder R) EventNormal ''ConfigRestart''
       ''Config changed and spec.updateStrategy is Auto: triggering a StatefulSet rolling restart'')"

section \<open>reconcileResources\<close>

text \<open>\<open>apply_or m msg k\<close> is \<open>if err := m; err != nil { return fmt.Errorf(msg + "%w", err) }\<close> followed
  by the rest.\<close>

definition apply_or :: "('e, goerr option) op \<Rightarrow> string \<Rightarrow> ('e, goerr + 'a) op \<Rightarrow> ('e, goerr + 'a) op" where
  "apply_or m msg k = do {
     r \<leftarrow> m;
     case r of Some e \<Rightarrow> State_Monad.return (Inl (Wrap msg e)) | None \<Rightarrow> k }"

record reconcileOutcome =
  ro_appliedConfigHash :: string
  ro_resolvedImage :: string
  ro_configDrift :: bool

definition main_image :: "statefulset \<Rightarrow> string" where
  "main_image s = ct_Image (ps_Containers (pt_Spec (sts_Template s)) ! 0)"

definition apply_workload ::
  "'e api \<Rightarrow> klib \<Rightarrow> reconciler \<Rightarrow> tradebot \<Rightarrow> strategy \<Rightarrow> string \<Rightarrow> string list \<Rightarrow> string
     \<Rightarrow> ('e, goerr + reconcileOutcome) op" where
  "apply_workload A K R tb strat freshHash freqUINames templateHash =
    (let configSecretName = tb_Name tb @ ''-config'';
         strategyConfigMapName = tb_Name tb @ ''-strategy'';
         pvcName = tb_Name tb @ ''-user-data'';
         s = BuildStatefulSet tb (defaultImage R) (ss_Name (sy_Spec strat)) configSecretName
               strategyConfigMapName pvcName templateHash
     in apply_or (Apply A K (tb_meta tb) (MStatefulSet s)) ''failed to apply StatefulSet: ''
        (do {
          _ \<leftarrow> recordConfigRestartEvent R tb templateHash;
          apply_or (Apply A K (tb_meta tb) (MService (BuildService tb))) ''failed to apply Service: ''
          (apply_or (Apply A K (tb_meta tb) (MNetworkPolicy (BuildNetworkPolicy tb freqUINames (r_OperatorNamespace R))))
             ''failed to apply NetworkPolicy: ''
          (State_Monad.return (Inr \<lparr>ro_appliedConfigHash = freshHash, ro_resolvedImage = main_image s,
             ro_configDrift = (templateHash \<noteq> freshHash)\<rparr>))) }))"

definition reconcileResources ::
  "'e api \<Rightarrow> klib \<Rightarrow> reconciler \<Rightarrow> tradebot \<Rightarrow> strategy \<Rightarrow> smap \<Rightarrow> string list
     \<Rightarrow> ('e, goerr + reconcileOutcome) op" where
  "reconcileResources A K R tb strat configData freqUINames =
    (let freshHash = computeConfigHash configData (ss_Script (sy_Spec strat)) in
     apply_or (Apply A K (tb_meta tb) (MSecret (BuildSecret tb configData))) ''failed to apply Secret: ''
     (apply_or (Apply A K (tb_meta tb) (MConfigMap (BuildStrategyConfigMap tb strat)))
        ''failed to apply Strategy ConfigMap: ''
     (apply_or (Apply A K (tb_meta tb) (MPVC (BuildUserDataPVC tb))) ''failed to apply PVC: ''
     (do {
        h \<leftarrow> statefulSetTemplateHash A tb freshHash;
        case h of
          Inl e \<Rightarrow> State_Monad.return (Inl (Wrap ''failed to determine StatefulSet config-hash annotation: '' e))
        | Inr templateHash \<Rightarrow> apply_workload A K R tb strat freshHash freqUINames templateHash }))))"

section \<open>Rules\<close>

lemma only_apply_or [only_intro]: "\<lbrakk>only P m; only P k\<rbrakk> \<Longrightarrow> only P (apply_or m msg k)"
  unfolding apply_or_def by (intro only_intro)

lemma keeps_apply_or [keeps_intro]: "\<lbrakk>keeps W J m; keeps W J k\<rbrakk> \<Longrightarrow> keeps W J (apply_or m msg k)"
  unfolding apply_or_def by (intro keeps_intro)

text \<open>Putting a part in front whose events do not concern the statement.\<close>

lemma emits_apply_or:
  assumes m: "only P m" and k: "emits k Q"
    and fail: "\<And>e t. list_all P t \<Longrightarrow> Q (Inl e) t"
    and pre: "\<And>r t u. \<lbrakk>list_all P t; Q r u\<rbrakk> \<Longrightarrow> Q r (t @ u)"
  shows "emits (apply_or m msg k) Q"
  unfolding apply_or_def
proof (rule emits_bind [OF m [unfolded only_def]], rule emits_case_option)
  fix x t assume "list_all P t" "x = None"
  then show "emits k (\<lambda>y u. Q y (t @ u))" by (intro emits_conseq [OF k] pre)
next
  fix x t and e :: goerr assume "list_all P t"
  then show "emits (State_Monad.return (Inl (Wrap msg e))) (\<lambda>y u. Q y (t @ u))"
    by (intro emits_return) (simp add: fail)
qed

lemma only_recordConfigRestartEvent [only_intro]:
  "(\<And>a b c. P (Recorded a b c)) \<Longrightarrow> only P (recordConfigRestartEvent R tb h)"
  by (auto simp: recordConfigRestartEvent_def intro!: only_intro)

lemma only_fetchReferencedResources [only_intro]:
  "\<lbrakk>\<And>k r. P (GetTradeBotConfig k r); \<And>k r. P (GetStrategy k r)\<rbrakk>
    \<Longrightarrow> only P (fetchReferencedResources A tb ns)"
  by (auto simp: fetchReferencedResources_def call_defs intro!: only_intro)

lemma only_statefulSetTemplateHash [only_intro]:
  "(\<And>r. P (GetStatefulSet (key_of_meta (tb_meta tb)) r)) \<Longrightarrow> only P (statefulSetTemplateHash A tb h)"
  by (auto simp: statefulSetTemplateHash_def call_defs intro!: only_intro)

lemma only_reconcileResources [only_intro]:
  "\<lbrakk>\<And>m r. P (ApplyPatch m r); \<And>k r. P (GetStatefulSet k r); \<And>a b c. P (Recorded a b c)\<rbrakk>
    \<Longrightarrow> only P (reconcileResources A K R tb strat cd fs)"
  by (auto simp: reconcileResources_def apply_workload_def Let_def intro!: only_intro)

section \<open>The hash on the pod template\<close>

lemma hex_of_bytes_length [simp]: "length (hex_of_bytes bs) = 2 * length bs"
  by (induction bs) (simp_all add: hex_of_bytes_def)

lemma computeConfigHash_length [simp]: "length (computeConfigHash cd s) = 16"
  by (simp add: computeConfigHash_def)

lemma computeConfigHash_nonempty [simp]: "computeConfigHash cd s \<noteq> []"
  using computeConfigHash_length [of cd s] by (metis list.size(3) zero_neq_numeral)

lemma template_hash_Build [simp]: "template_hash (BuildStatefulSet tb img s cs cm pv h) = h"
  by (simp add: template_hash_def BuildStatefulSet_def map_str_def)

text \<open>\<open>settles tb fresh t h\<close>: the reads in \<open>t\<close> justify putting \<open>h\<close> on the template.\<close>

definition settles :: "tradebot \<Rightarrow> string \<Rightarrow> event list \<Rightarrow> string \<Rightarrow> bool" where
  "settles tb fresh t h \<longleftrightarrow>
    (if tb_UpdateStrategy (tb_Spec tb) = ''Auto'' then h = fresh
     else \<exists>r. GetStatefulSet (key_of_meta (tb_meta tb)) r \<in> set t \<and>
       (case r of
          Inr old \<Rightarrow> h = (if template_hash old \<noteq> [] then template_hash old else fresh)
        | Inl e \<Rightarrow> IsNotFound e \<and> h = fresh))"

lemma settles_mono:
  assumes "settles tb f t h" and "set t \<subseteq> set u"
  shows "settles tb f u h"
proof (cases "tb_UpdateStrategy (tb_Spec tb) = ''Auto''")
  case False
  with assms(1) obtain r where "GetStatefulSet (key_of_meta (tb_meta tb)) r \<in> set t"
      "case r of Inr old \<Rightarrow> h = (if template_hash old \<noteq> [] then template_hash old else f)
         | Inl e \<Rightarrow> IsNotFound e \<and> h = f"
    unfolding settles_def by auto
  with assms(2) False show ?thesis unfolding settles_def by (simp only: if_False) blast
qed (use assms(1) in \<open>simp add: settles_def\<close>)

lemma templateHash_settles:
  "emits (statefulSetTemplateHash A tb fresh) (\<lambda>r t. \<forall>h. r = Inr h \<longrightarrow> settles tb fresh t h)"
  unfolding statefulSetTemplateHash_def call_defs
  by (intro emits_if emits_return emits_bind [OF emits_call
        [where Q = "\<lambda>r t. t = [GetStatefulSet (key_of_meta (tb_meta tb)) r]"]])
     (auto simp: settles_def Let_def split: sum.splits if_splits)

text \<open>An event that applies a StatefulSet, and one that does not.\<close>

definition applies_sts :: "event \<Rightarrow> statefulset option" where
  "applies_sts e = (case e of ApplyPatch (MStatefulSet s) r \<Rightarrow> Some s | _ \<Rightarrow> None)"

lemma applies_sts_simps [simp]:
  "applies_sts (ApplyPatch (MStatefulSet s) r) = Some s"
  "applies_sts (GetStatefulSet k g) = None" "applies_sts (Recorded a b c) = None"
  by (simp_all add: applies_sts_def)

lemma only_Apply_other:
  assumes "klib_laws K" and "\<And>s. m \<noteq> MStatefulSet s"
  shows "only (\<lambda>e. applies_sts e = None) (Apply A K owner m)"
proof (rule only_Apply)
  fix m' r
  assume "SetControllerReference K owner m = Inr m'"
  with assms obtain rs where "m' = with_owners rs m"
    unfolding klib_laws_def owner_refs_def by blast
  with assms(2) show "applies_sts (ApplyPatch m' r) = None"
    by (cases m) (auto simp: applies_sts_def)
qed

lemma Apply_sts_emits:
  assumes "klib_laws K"
  shows "emits (Apply A K owner (MStatefulSet s)) (\<lambda>r t.
     (t = [] \<and> r \<noteq> None) \<or> (\<exists>s'. t = [ApplyPatch (MStatefulSet s') r] \<and> sts_Template s' = sts_Template s))"
proof -
  have "\<exists>s'. m' = MStatefulSet s' \<and> sts_Template s' = sts_Template s"
    if "SetControllerReference K owner (MStatefulSet s) = Inr m'" for m'
    using assms that owner_refs.statefulset_content unfolding klib_laws_def by metis
  then show ?thesis
    unfolding Apply_def applyServerSide_def do_Patch_def
    by (fastforce intro!: emits_case_sum emits_return emits_call)
qed

text \<open>What \<open>apply_workload\<close> puts on the template, and what it reports.\<close>

definition workload_ok :: "string \<Rightarrow> string \<Rightarrow> (goerr + reconcileOutcome) \<Rightarrow> event list \<Rightarrow> bool" where
  "workload_ok fresh h r t \<longleftrightarrow>
     (\<forall>e \<in> set t. \<forall>s. applies_sts e = Some s \<longrightarrow> template_hash s = h) \<and>
     (\<forall>out. r = Inr out \<longrightarrow> ro_appliedConfigHash out = fresh \<and> ro_configDrift out = (h \<noteq> fresh)
        \<and> (\<exists>s. ApplyPatch (MStatefulSet s) None \<in> set t \<and> main_image s = ro_resolvedImage out))"

lemma apply_workload_emits:
  assumes K: "klib_laws K"
  shows "emits (apply_workload A K R tb strat fresh fs h) (workload_ok fresh h)"
proof -
  let ?s = "BuildStatefulSet tb (defaultImage R) (ss_Name (sy_Spec strat)) (tb_Name tb @ ''-config'')
     (tb_Name tb @ ''-strategy'') (tb_Name tb @ ''-user-data'') h"
  let ?out = "\<lparr>ro_appliedConfigHash = fresh, ro_resolvedImage = main_image ?s, ro_configDrift = (h \<noteq> fresh)\<rparr>"
  let ?rest = "do {
      _ \<leftarrow> recordConfigRestartEvent R tb h;
      apply_or (Apply A K (tb_meta tb) (MService (BuildService tb))) ''failed to apply Service: ''
      (apply_or (Apply A K (tb_meta tb) (MNetworkPolicy (BuildNetworkPolicy tb fs (r_OperatorNamespace R))))
         ''failed to apply NetworkPolicy: '' (State_Monad.return (Inr ?out))) }"
  have rest: "emits ?rest (\<lambda>r t. (\<forall>e \<in> set t. applies_sts e = None) \<and> (\<forall>out. r = Inr out \<longrightarrow> out = ?out))"
  proof (rule emits_conj [THEN emits_conseq])
    show "emits ?rest (\<lambda>_ t. list_all (\<lambda>e. applies_sts e = None) t)"
      unfolding only_def [symmetric]
      by (intro only_bind only_apply_or only_return only_recordConfigRestartEvent only_Apply_other [OF K]) auto
    show "emits ?rest (\<lambda>r t. \<forall>out. r = Inr out \<longrightarrow> out = ?out)"
      by (rule emits_bind_only [where P = "\<lambda>_. True"], intro only_intro TrueI,
          (rule emits_apply_or [where P = "\<lambda>_. True"], intro only_intro TrueI)+)
         (auto intro!: emits_return)
  qed (auto simp: list_all_iff)
  show ?thesis
    unfolding apply_workload_def Let_def apply_or_def [of "Apply A K (tb_meta tb) (MStatefulSet ?s)"]
  proof (rule emits_bind [OF Apply_sts_emits [OF K]], rule emits_case_option)
    fix x t
    assume t: "(t = [] \<and> x \<noteq> None)
        \<or> (\<exists>s'. t = [ApplyPatch (MStatefulSet s') x] \<and> sts_Template s' = sts_Template ?s)" and "x = None"
    then obtain s' where "t = [ApplyPatch (MStatefulSet s') None]" "sts_Template s' = sts_Template ?s" by auto
    moreover from this have "template_hash s' = h" "main_image s' = main_image ?s"
      using template_hash_Build [of tb] by (auto simp: template_hash_def main_image_def)
    ultimately show "emits ?rest (\<lambda>y u. workload_ok fresh h y (t @ u))"
      by (intro emits_conseq [OF rest]) (fastforce simp: workload_ok_def)
  next
    fix x t and e :: goerr
    assume "(t = [] \<and> x \<noteq> None)
        \<or> (\<exists>s'. t = [ApplyPatch (MStatefulSet s') x] \<and> sts_Template s' = sts_Template ?s)"
    moreover have "sts_Template s' = sts_Template ?s \<Longrightarrow> template_hash s' = h" for s'
      using template_hash_Build [of tb] by (auto simp: template_hash_def)
    ultimately show "emits (State_Monad.return (Inl (Wrap ''failed to apply StatefulSet: '' e)))
        (\<lambda>y u. workload_ok fresh h y (t @ u))"
      by (intro emits_return) (auto simp: workload_ok_def)
  qed
qed

text \<open>The whole resource pass: every StatefulSet it applies carries a hash the reads of the pass
  justify, and drift is reported exactly when that hash is not the fresh one.\<close>

definition pass_ok :: "tradebot \<Rightarrow> string \<Rightarrow> (goerr + reconcileOutcome) \<Rightarrow> event list \<Rightarrow> bool" where
  "pass_ok tb fresh r t \<longleftrightarrow>
     sofar (\<lambda>p e. \<forall>s. applies_sts e = Some s \<longrightarrow> settles tb fresh p (template_hash s)) t \<and>
     (\<forall>out. r = Inr out \<longrightarrow> ro_appliedConfigHash out = fresh \<and>
        (\<exists>s. ApplyPatch (MStatefulSet s) None \<in> set t \<and> main_image s = ro_resolvedImage out
           \<and> ro_configDrift out = (template_hash s \<noteq> fresh)))"

lemma sofar_settles_prefix:
  "sofar (\<lambda>p e. \<forall>s. applies_sts e = Some s \<longrightarrow> settles tb fresh p (template_hash s)) u
    \<Longrightarrow> sofar (\<lambda>p e. \<forall>s. applies_sts e = Some s \<longrightarrow> settles tb fresh (t @ p) (template_hash s)) u"
  by (erule sofar_mono) (auto intro: settles_mono)

lemma pass_ok_prefix:
  assumes "list_all (\<lambda>e. applies_sts e = None) t" and "pass_ok tb fresh r u"
  shows "pass_ok tb fresh r (t @ u)"
proof -
  have "sofar (\<lambda>p e. \<forall>s. applies_sts e = Some s \<longrightarrow> settles tb fresh p (template_hash s)) t"
    using assms(1) by (intro sofar_list_all) (auto simp: list_all_iff)
  with assms(2) show ?thesis
    by (fastforce simp: pass_ok_def sofar_append intro: sofar_settles_prefix)
qed

lemma pass_ok_error: "list_all (\<lambda>e. applies_sts e = None) t \<Longrightarrow> pass_ok tb fresh (Inl e) t"
  by (auto simp: pass_ok_def list_all_iff intro!: sofar_list_all)

lemma reconcileResources_pass:
  assumes K: "klib_laws K"
  shows "emits (reconcileResources A K R tb strat cd fs)
     (pass_ok tb (computeConfigHash cd (ss_Script (sy_Spec strat))))"
proof -
  let ?fresh = "computeConfigHash cd (ss_Script (sy_Spec strat))"
  have hash: "emits (statefulSetTemplateHash A tb ?fresh)
      (\<lambda>r t. list_all (\<lambda>e. applies_sts e = None) t \<and> (\<forall>h. r = Inr h \<longrightarrow> settles tb ?fresh t h))"
    by (rule emits_conj [OF _ templateHash_settles], fold only_def) (intro only_intro, simp)
  have tail: "emits (do {
        h \<leftarrow> statefulSetTemplateHash A tb ?fresh;
        case h of
          Inl e \<Rightarrow> State_Monad.return (Inl (Wrap ''failed to determine StatefulSet config-hash annotation: '' e))
        | Inr templateHash \<Rightarrow> apply_workload A K R tb strat ?fresh fs templateHash }) (pass_ok tb ?fresh)"
  proof (rule emits_bind [OF hash], rule emits_case_sum)
    fix x t h
    assume t: "list_all (\<lambda>e. applies_sts e = None) t \<and> (\<forall>h. x = Inr h \<longrightarrow> settles tb ?fresh t h)"
      and "x = Inr h"
    then have "settles tb ?fresh (t @ u) h" for u by (auto intro: settles_mono)
    moreover have "sofar (\<lambda>p e. \<forall>s. applies_sts e = Some s \<longrightarrow> settles tb ?fresh p (template_hash s)) t"
      using t by (intro sofar_list_all) (auto simp: list_all_iff)
    moreover have "sofar (\<lambda>p e. \<forall>s. applies_sts e = Some s \<longrightarrow> settles tb ?fresh (t @ p) (template_hash s)) u"
      if "\<And>p. settles tb ?fresh (t @ p) h" "workload_ok ?fresh h y u" for u y
      using that by (intro sofar_list_all) (auto simp: workload_ok_def list_all_iff)
    ultimately show "emits (apply_workload A K R tb strat ?fresh fs h) (\<lambda>y u. pass_ok tb ?fresh y (t @ u))"
      by (intro emits_conseq [OF apply_workload_emits [OF K]])
         (fastforce simp: pass_ok_def workload_ok_def sofar_append)
  qed (auto intro!: emits_return pass_ok_error)
  show ?thesis
    unfolding reconcileResources_def Let_def
    by (rule emits_apply_or [OF only_Apply_other [OF K] emits_apply_or [OF only_Apply_other [OF K]
          emits_apply_or [OF only_Apply_other [OF K] tail]]])
       (auto intro: pass_ok_error pass_ok_prefix)
qed

lemma pass_ok_outcome:
  assumes "pass_ok tb fresh r t" and "r = Inr out"
  shows "ro_appliedConfigHash out = fresh \<and> (\<exists>s. ApplyPatch (MStatefulSet s) None \<in> set t
     \<and> main_image s = ro_resolvedImage out \<and> (ro_configDrift out \<longleftrightarrow> template_hash s \<noteq> fresh)
     \<and> (tb_UpdateStrategy (tb_Spec tb) = ''Auto'' \<longrightarrow> \<not> ro_configDrift out))"
proof -
  from assms obtain s where s: "ApplyPatch (MStatefulSet s) None \<in> set t" "main_image s = ro_resolvedImage out"
      "ro_configDrift out \<longleftrightarrow> template_hash s \<noteq> fresh" and hash: "ro_appliedConfigHash out = fresh"
    unfolding pass_ok_def by blast
  from s(1) obtain p u where t: "t = p @ ApplyPatch (MStatefulSet s) None # u" by (meson split_list)
  from assms(1) have "sofar (\<lambda>p e. \<forall>s. applies_sts e = Some s \<longrightarrow> settles tb fresh p (template_hash s)) t"
    by (simp add: pass_ok_def)
  from sofarD [OF this t] have "settles tb fresh p (template_hash s)" by simp
  then have "tb_UpdateStrategy (tb_Spec tb) = ''Auto'' \<longrightarrow> template_hash s = fresh" by (simp add: settles_def)
  with s hash show ?thesis by blast
qed

end
