(* ===== verification/TradeBotStatus.thy ===== *)
theory TradeBotStatus
  imports Shared
begin

text \<open>\<open>controllers/tradebot/status.go\<close>: every TradeBot status write goes through the v1beta1 object.
  The two copies between the versions are inverse to each other, and what is persisted carries the
  spec and metadata of the object that was just read, so \<open>spec.state\<close> survives every status
  write.\<close>

section \<open>Copies between the versions\<close>

definition bot_from_beta :: "betabotstatus \<Rightarrow> botstatus" where
  "bot_from_beta b = \<lparr>bs_State = bbs_State b, bs_Version = bbs_Version b, bs_DryRun = bbs_DryRun b,
     bs_OpenTrades = bbs_OpenTrades b, bs_MaxOpenTrades = bbs_MaxOpenTrades b,
     bs_TotalProfitAbs = bbs_TotalProfitAbs b, bs_TotalProfitPct = bbs_TotalProfitPct b,
     bs_LastPollTime = bbs_LastPollTime b, bs_LastPollError = bbs_LastPollError b\<rparr>"

definition bot_to_beta :: "botstatus \<Rightarrow> betabotstatus" where
  "bot_to_beta b = \<lparr>bbs_State = bs_State b, bbs_Version = bs_Version b, bbs_DryRun = bs_DryRun b,
     bbs_OpenTrades = bs_OpenTrades b, bbs_MaxOpenTrades = bs_MaxOpenTrades b,
     bbs_TotalProfitAbs = bs_TotalProfitAbs b, bbs_TotalProfitPct = bs_TotalProfitPct b,
     bbs_LastPollTime = bs_LastPollTime b, bbs_LastPollError = bs_LastPollError b\<rparr>"

definition copyTradeBotStatusFromBeta :: "tradebot \<Rightarrow> betatradebot \<Rightarrow> tradebot" where
  "copyTradeBotStatusFromBeta dst src = dst\<lparr>tb_Status := (tb_Status dst)\<lparr>
     st_Phase := bst_Phase (btb_Status src), st_Message := bst_Message (btb_Status src),
     st_Conditions := bst_Conditions (btb_Status src),
     st_ObservedGeneration := bst_ObservedGeneration (btb_Status src),
     st_AppliedConfigHash := bst_AppliedConfigHash (btb_Status src),
     st_ResolvedImage := bst_ResolvedImage (btb_Status src),
     st_Bot := map_option bot_from_beta (bst_Bot (btb_Status src))\<rparr>\<rparr>"

definition copyTradeBotStatusToBeta :: "betatradebot \<Rightarrow> tradebot \<Rightarrow> betatradebot" where
  "copyTradeBotStatusToBeta dst src = dst\<lparr>btb_Status := (btb_Status dst)\<lparr>
     bst_Phase := st_Phase (tb_Status src), bst_Message := st_Message (tb_Status src),
     bst_Conditions := st_Conditions (tb_Status src),
     bst_ObservedGeneration := st_ObservedGeneration (tb_Status src),
     bst_AppliedConfigHash := st_AppliedConfigHash (tb_Status src),
     bst_ResolvedImage := st_ResolvedImage (tb_Status src),
     bst_Bot := map_option bot_to_beta (st_Bot (tb_Status src))\<rparr>\<rparr>"

lemma bot_beta_inverse [simp]: "bot_to_beta (bot_from_beta b) = b" "bot_from_beta (bot_to_beta c) = c"
  by (simp_all add: bot_to_beta_def bot_from_beta_def)

lemma map_bot_beta [simp]:
  "map_option bot_to_beta (map_option bot_from_beta x) = x"
  "map_option bot_from_beta (map_option bot_to_beta y) = y"
  by (simp_all add: option.map_comp o_def option.map_ident)

lemma copy_to_from [simp]: "copyTradeBotStatusToBeta b (copyTradeBotStatusFromBeta t b) = b"
  by (simp add: copyTradeBotStatusToBeta_def copyTradeBotStatusFromBeta_def)

lemma copy_from_to: "tb_Status (copyTradeBotStatusFromBeta t (copyTradeBotStatusToBeta b t)) = tb_Status t"
  by (simp add: copyTradeBotStatusToBeta_def copyTradeBotStatusFromBeta_def)

lemma copy_keeps [simp]:
  "btb_Spec (copyTradeBotStatusToBeta b t) = btb_Spec b"
  "btb_meta (copyTradeBotStatusToBeta b t) = btb_meta b"
  "tb_Spec (copyTradeBotStatusFromBeta t b) = tb_Spec t"
  "tb_meta (copyTradeBotStatusFromBeta t b) = tb_meta t"
  "st_Conditions (tb_Status (copyTradeBotStatusFromBeta t b)) = bst_Conditions (btb_Status b)"
  "st_Bot (tb_Status (copyTradeBotStatusFromBeta t b)) = map_option bot_from_beta (bst_Bot (btb_Status b))"
  by (simp_all add: copyTradeBotStatusToBeta_def copyTradeBotStatusFromBeta_def)

section \<open>patchTradeBotStatus\<close>

definition patch_mutate ::
  "tradebot \<Rightarrow> (gotime \<Rightarrow> tradebot \<Rightarrow> tradebot) \<Rightarrow> gotime \<Rightarrow> betatradebot \<Rightarrow> betatradebot \<times> tradebot" where
  "patch_mutate tb mutate now beta =
    (let t = mutate now (copyTradeBotStatusFromBeta tb beta) in (copyTradeBotStatusToBeta beta t, t))"

definition patchTradeBotStatus ::
  "'e api \<Rightarrow> klib \<Rightarrow> tradebot \<Rightarrow> (gotime \<Rightarrow> tradebot \<Rightarrow> tradebot) \<Rightarrow> ('e, goerr + tradebot) op" where
  "patchTradeBotStatus A K tb mutate =
     PatchStatus A (tradebot_cobj A K) (key_of_meta (tb_meta tb)) (patch_mutate tb mutate)"

section \<open>Writes of a TradeBot keep its spec\<close>

text \<open>The writes to a TradeBot object, and the read such a write is built on: same spec, same name
  and namespace.\<close>

fun tradebot_write :: "event \<Rightarrow> betatradebot option" where
  "tradebot_write (UpdateBetaTradeBot b r) = Some b"
| "tradebot_write (StatusUpdateBetaTradeBot b r) = Some b"
| "tradebot_write _ = None"

definition spec_kept :: "event \<Rightarrow> event \<Rightarrow> bool" where
  "spec_kept d e \<longleftrightarrow> (\<exists>b b0. tradebot_write e = Some b \<and> read_tradebot d = Some b0
     \<and> btb_Spec b = btb_Spec b0 \<and> om_Name (btb_meta b) = om_Name (btb_meta b0)
     \<and> om_Namespace (btb_meta b) = om_Namespace (btb_meta b0))"

abbreviation spec_keeping :: "('e, 'a) op \<Rightarrow> bool" where
  "spec_keeping \<equiv> keeps (\<lambda>e. tradebot_write e \<noteq> None) spec_kept"

lemma patched_keeps_spec:
  "btb_Spec (conditioned_object.patched (tradebot_cobj A K) (patch_mutate tb m) now b) = btb_Spec b"
  "btb_meta (conditioned_object.patched (tradebot_cobj A K) (patch_mutate tb m) now b) = btb_meta b"
  unfolding tbobj.patched_def
  by (simp_all add: tradebot_cobj_def tradebot_SetObservedGeneration_def Let_def patch_mutate_def)

lemma patch_only_events:
  "only (\<lambda>e. (\<exists>k r. e = GetBetaTradeBot k r) \<or> (\<exists>b r. e = StatusUpdateBetaTradeBot b r))
     (patchTradeBotStatus A K tb m)"
  unfolding patchTradeBotStatus_def
  by (rule only_PatchStatus) (auto simp: tradebot_cobj_def call_defs intro!: only_intro)

lemma only_patchTradeBotStatus [only_intro]:
  "\<lbrakk>\<And>k r. P (GetBetaTradeBot k r); \<And>b r. P (StatusUpdateBetaTradeBot b r)\<rbrakk>
    \<Longrightarrow> only P (patchTradeBotStatus A K tb m)"
  by (rule only_conseq [OF patch_only_events]) auto

lemma spec_keeping_patchTradeBotStatus [keeps_intro]:
  "spec_keeping (patchTradeBotStatus A K tb m)"
  unfolding keeps_def
proof (rule emits_conseq [OF emits_conj [OF
      tbobj.PatchStatus_justified [where A = A and K = K and key = "key_of_meta (tb_meta tb)"
        and mutate = "patch_mutate tb m" and Aa = A, folded patchTradeBotStatus_def]
      patch_only_events [unfolded only_def]]], elim conjE)
  fix x t
  assume j: "conditioned_object.justified (tradebot_cobj A K) read_tradebot written_tradebot (patch_mutate tb m) t"
    and p: "list_all (\<lambda>e. (\<exists>k r. e = GetBetaTradeBot k r) \<or> (\<exists>b r. e = StatusUpdateBetaTradeBot b r)) t"
  have kept: "spec_kept d e" if "written_tradebot e = Some obj" "conditioned_object.justifies (tradebot_cobj A K) read_tradebot (patch_mutate tb m) d obj"
    for d e obj
  proof -
    from that(1) have "tradebot_write e = Some obj" by (cases e rule: written_tradebot.cases) auto
    with that(2) show ?thesis by (auto simp: spec_kept_def tbobj.justifies_def patched_keeps_spec)
  qed
  show "backed (\<lambda>e. tradebot_write e \<noteq> None) spec_kept t"
    unfolding backed_def
  proof (intro allI impI)
    fix i assume i: "i < length t" "tradebot_write (t ! i) \<noteq> None"
    with p have "written_tradebot (t ! i) \<noteq> None" by (auto simp: list_all_length)
    with j i(1) obtain k obj where "k < i" "written_tradebot (t ! i) = Some obj"
        "conditioned_object.justifies (tradebot_cobj A K) read_tradebot (patch_mutate tb m) (t ! k) obj"
      unfolding tbobj.justified_def backed_def by blast
    with kept show "\<exists>j < i. spec_kept (t ! j) (t ! i)" by blast
  qed
qed

text \<open>What a successful status patch returns: the caller's object with the freshly read status, after
  the mutation.\<close>

lemma patchTradeBotStatus_result:
  "emits (patchTradeBotStatus A K tb m) (\<lambda>r t. \<forall>tb'. r = Inr tb' \<longrightarrow>
     (\<exists>b now. GetBetaTradeBot (key_of_meta (tb_meta tb)) (Inr b) \<in> set t
        \<and> tb' = m now (copyTradeBotStatusFromBeta tb b)))"
proof -
  have "emits (PatchStatus A (tradebot_cobj A K) (key_of_meta (tb_meta tb)) (patch_mutate tb m))
     (\<lambda>r t. \<forall>x. r = Inr x \<longrightarrow> (\<exists>b now. GetBetaTradeBot (key_of_meta (tb_meta tb)) (Inr b) \<in> set t
        \<and> x = snd (patch_mutate tb m now b)))"
    by (rule PatchStatus_result)
       (auto simp: tradebot_cobj_def call_defs intro!: emits_call)
  then show ?thesis by (simp add: patchTradeBotStatus_def patch_mutate_def Let_def)
qed

end
