(* ===== verification/BotClient.thy ===== *)
theory BotClient
  imports Client
begin

text \<open>Package \<open>controllers/tradebot/botclient\<close>: the client for a bot's REST API. Every typed method
  goes through \<open>bot_do\<close>, which authenticates, caps the response body and turns a non-2xx answer
  into a status error. \<open>botclient_only\<close> is the package's scope boundary: the requests it can ever
  send are the six read-only endpoints, start and stop.\<close>

record botclient =
  bcl_baseURL :: string
  bcl_username :: string
  bcl_password :: string

definition botclient_New :: "string \<Rightarrow> string \<Rightarrow> string \<Rightarrow> botclient" where
  "botclient_New baseURL username password =
     \<lparr>bcl_baseURL = baseURL, bcl_username = username, bcl_password = password\<rparr>"

definition maxResponseBody :: nat where "maxResponseBody = 2 ^ 20"

section \<open>The request primitive\<close>

text \<open>The request \<open>do\<close> sends: basic auth unless both credentials are empty, a content type only with
  a body.\<close>

definition bot_request :: "botclient \<Rightarrow> string \<Rightarrow> string \<Rightarrow> string \<Rightarrow> httpreq" where
  "bot_request c mth path body = \<lparr>rq_Method = mth, rq_URL = bcl_baseURL c @ path,
     rq_BasicAuth = (if bcl_username c \<noteq> [] \<or> bcl_password c \<noteq> []
                     then Some (bcl_username c, bcl_password c) else None),
     rq_Headers = (if body \<noteq> [] then [(''Content-Type'', ''application/json'')] else []),
     rq_Body = body\<rparr>"

text \<open>\<open>out\<close> is the decoder of the expected response, \<open>None\<close> when the body is discarded.\<close>

definition bot_do ::
  "'e api \<Rightarrow> golib \<Rightarrow> botclient \<Rightarrow> string \<Rightarrow> string \<Rightarrow> string \<Rightarrow> (json \<Rightarrow> goerr + 'a) option
     \<Rightarrow> ('e, goerr + 'a option) op" where
  "bot_do A G c mth path body out = (case http_NewRequest G mth (bcl_baseURL c @ path) of
       Some e \<Rightarrow> State_Monad.return (Inl (Wrap ''building request: '' e))
     | None \<Rightarrow> do {
         r \<leftarrow> do_HTTP A (bot_request c mth path body);
         State_Monad.return (case r of
             Inl e \<Rightarrow> Inl e
           | Inr resp \<Rightarrow> (case rs_Body resp of
               Inl e \<Rightarrow> Inl (Wrap ''reading response body: '' e)
             | Inr full \<Rightarrow>
                 (let data = take (maxResponseBody + 1) full in
                  if length data > maxResponseBody
                  then Inl (ErrString (''response body exceeds '' @ Itoa (int maxResponseBody) @ '' bytes''))
                  else if rs_StatusCode resp < 200 \<or> rs_StatusCode resp \<ge> 300
                  then Inl (BotStatusError (rs_StatusCode resp))
                  else (case out of
                      None \<Rightarrow> Inr None
                    | Some decode \<Rightarrow> (case json_Unmarshal G data of
                        Inl e \<Rightarrow> Inl (Wrap ''decoding response: '' e)
                      | Inr j \<Rightarrow> (case decode j of
                          Inl e \<Rightarrow> Inl (Wrap ''decoding response: '' e)
                        | Inr v \<Rightarrow> Inr (Some v)))))))
       })"

section \<open>Decoding the responses\<close>

definition float_zero :: float64 where "float_zero = F64 0"

definition dec_float :: "golib \<Rightarrow> string \<Rightarrow> json \<Rightarrow> goerr + float64" where
  "dec_float G f j = (case field_of f j of
       None \<Rightarrow> Inr float_zero
     | Some (JNum s) \<Rightarrow> (case ParseFloat G s of None \<Rightarrow> Inl type_error | Some v \<Rightarrow> Inr v)
     | Some _ \<Rightarrow> Inl type_error)"

definition dec_pair :: "(json \<Rightarrow> goerr + 'a) \<Rightarrow> (json \<Rightarrow> goerr + 'b) \<Rightarrow> json \<Rightarrow> goerr + ('a \<times> 'b)" where
  "dec_pair f g j = (if \<not> is_struct j then Inl type_error else
     (case f j of Inl e \<Rightarrow> Inl e | Inr a \<Rightarrow> (case g j of Inl e \<Rightarrow> Inl e | Inr b \<Rightarrow> Inr (a, b))))"

definition dec_single :: "(json \<Rightarrow> goerr + 'a) \<Rightarrow> json \<Rightarrow> goerr + 'a" where
  "dec_single f j = (if \<not> is_struct j then Inl type_error else f j)"

section \<open>The endpoints\<close>

definition discard :: "goerr + 'a option \<Rightarrow> goerr option" where
  "discard r = (case r of Inl e \<Rightarrow> Some e | Inr _ \<Rightarrow> None)"

text \<open>A typed method hands out the decoded response.\<close>

definition typed :: "goerr + 'a option \<Rightarrow> goerr + 'a" where
  "typed r = (case r of Inl e \<Rightarrow> Inl e | Inr (Some v) \<Rightarrow> Inr v | Inr None \<Rightarrow> Inl type_error)"

definition bot_Ping :: "'e api \<Rightarrow> golib \<Rightarrow> botclient \<Rightarrow> ('e, goerr option) op" where
  "bot_Ping A G c = do {
     r \<leftarrow> bot_do A G c ''GET'' ''/api/v1/ping'' [] (None :: (json \<Rightarrow> goerr + unit) option);
     State_Monad.return (discard r) }"

record versionresponse =
  vr_Version :: string

definition bot_Version :: "'e api \<Rightarrow> golib \<Rightarrow> botclient \<Rightarrow> ('e, goerr + string) op" where
  "bot_Version A G c = do {
     r \<leftarrow> bot_do A G c ''GET'' ''/api/v1/version'' [] (Some (dec_single (dec_string ''version'')));
     State_Monad.return (typed r) }"

text \<open>\<open>ShowConfigResponse\<close> as state and dry-run flag, \<open>CountResponse\<close> as current and maximum,
  \<open>ProfitResponse\<close> as absolute and percentage profit, \<open>BalanceResponse\<close> as the total.\<close>

definition bot_ShowConfig :: "'e api \<Rightarrow> golib \<Rightarrow> botclient \<Rightarrow> ('e, goerr + string \<times> bool) op" where
  "bot_ShowConfig A G c = do {
     r \<leftarrow> bot_do A G c ''GET'' ''/api/v1/show_config'' []
       (Some (dec_pair (dec_string ''state'') (dec_bool ''dry_run'')));
     State_Monad.return (typed r) }"

definition bot_Count :: "'e api \<Rightarrow> golib \<Rightarrow> botclient \<Rightarrow> ('e, goerr + int \<times> int) op" where
  "bot_Count A G c = do {
     r \<leftarrow> bot_do A G c ''GET'' ''/api/v1/count'' []
       (Some (dec_pair (dec_int ''current'') (dec_int ''max'')));
     State_Monad.return (typed r) }"

definition bot_Profit :: "'e api \<Rightarrow> golib \<Rightarrow> botclient \<Rightarrow> ('e, goerr + float64 \<times> float64) op" where
  "bot_Profit A G c = do {
     r \<leftarrow> bot_do A G c ''GET'' ''/api/v1/profit'' []
       (Some (dec_pair (dec_float G ''profit_all_coin'') (dec_float G ''profit_all_percent'')));
     State_Monad.return (typed r) }"

definition bot_Balance :: "'e api \<Rightarrow> golib \<Rightarrow> botclient \<Rightarrow> ('e, goerr + float64) op" where
  "bot_Balance A G c = do {
     r \<leftarrow> bot_do A G c ''GET'' ''/api/v1/balance'' [] (Some (dec_single (dec_float G ''total'')));
     State_Monad.return (typed r) }"

definition bot_Start :: "'e api \<Rightarrow> golib \<Rightarrow> botclient \<Rightarrow> ('e, goerr option) op" where
  "bot_Start A G c = do {
     r \<leftarrow> bot_do A G c ''POST'' ''/api/v1/start'' [] (None :: (json \<Rightarrow> goerr + unit) option);
     State_Monad.return (discard r) }"

definition bot_Stop :: "'e api \<Rightarrow> golib \<Rightarrow> botclient \<Rightarrow> ('e, goerr option) op" where
  "bot_Stop A G c = do {
     r \<leftarrow> bot_do A G c ''POST'' ''/api/v1/stop'' [] (None :: (json \<Rightarrow> goerr + unit) option);
     State_Monad.return (discard r) }"

lemmas endpoint_defs = bot_Ping_def bot_Version_def bot_ShowConfig_def bot_Count_def bot_Profit_def
  bot_Balance_def bot_Start_def bot_Stop_def

section \<open>What the client sends\<close>

lemma emits_bot_do:
  "emits (bot_do A G c mth path body out)
     (\<lambda>_ t. t = [] \<or> (\<exists>r. t = [HTTPDo (bot_request c mth path body) r]))"
  by (auto simp: bot_do_def do_HTTP_def
      intro!: emits_case_option emits_return emits_bind [OF emits_call
        [where Q = "\<lambda>x t. t = [HTTPDo (bot_request c mth path body) x]"]])

lemma only_bot_do [only_intro]:
  "(\<And>r. P (HTTPDo (bot_request c mth path body) r)) \<Longrightarrow> only P (bot_do A G c mth path body out)"
  unfolding only_def by (rule emits_conseq [OF emits_bot_do]) auto

text \<open>The requests that change a bot's state.\<close>

fun changes_bot :: "event \<Rightarrow> bool" where
  "changes_bot (HTTPDo rq r) = (rq_Method rq \<noteq> ''GET'')"
| "changes_bot _ = False"

text \<open>The read-only endpoints send GET requests to the client's own base URL and nothing else.\<close>

definition readonly_call :: "botclient \<Rightarrow> event \<Rightarrow> bool" where
  "readonly_call c e = (case e of
       HTTPDo rq r \<Rightarrow> rq_Method rq = ''GET'' \<and> HasPrefix (rq_URL rq) (bcl_baseURL c) \<and> rq_Body rq = []
     | _ \<Rightarrow> False)"

lemma readonly_endpoints [only_intro]:
  "only (readonly_call c) (bot_Ping A G c)" "only (readonly_call c) (bot_Version A G c)"
  "only (readonly_call c) (bot_ShowConfig A G c)" "only (readonly_call c) (bot_Count A G c)"
  "only (readonly_call c) (bot_Profit A G c)" "only (readonly_call c) (bot_Balance A G c)"
  unfolding endpoint_defs
  by (intro only_bind only_bot_do only_return; simp add: readonly_call_def bot_request_def)+

lemma readonly_not_changes: "readonly_call c e \<Longrightarrow> \<not> changes_bot e"
  by (cases e) (auto simp: readonly_call_def)

text \<open>Start and stop each send at most one POST to their own path.\<close>

lemma emits_bot_Start:
  "emits (bot_Start A G c)
     (\<lambda>_ t. t = [] \<or> (\<exists>r. t = [HTTPDo (bot_request c ''POST'' ''/api/v1/start'' []) r]))"
  unfolding bot_Start_def by (rule emits_bind [OF emits_bot_do]) (auto intro: emits_return)

lemma emits_bot_Stop:
  "emits (bot_Stop A G c)
     (\<lambda>_ t. t = [] \<or> (\<exists>r. t = [HTTPDo (bot_request c ''POST'' ''/api/v1/stop'' []) r]))"
  unfolding bot_Stop_def by (rule emits_bind [OF emits_bot_do]) (auto intro: emits_return)

text \<open>A response over the cap is rejected whatever its status.\<close>

lemma bot_do_oversized:
  assumes "http_NewRequest G mth (bcl_baseURL c @ path) = None"
    and "fst (api_HTTPDo A (bot_request c mth path body) (env w)) = Inr resp"
    and "rs_Body resp = Inr full" and "length full > maxResponseBody"
  shows "\<exists>m. result (bot_do A G c mth path body out) w = Inl (ErrString m)"
  using assms by (simp add: bot_do_def do_HTTP_def min_def)

end
