(* ===== verification/Poller.thy ===== *)
theory Poller
  imports TradeBotStatus BotClient ConfigBuilder TradeBotResources
begin

text \<open>\<open>controllers/tradebot/poller.go\<close> and the bot gauges of \<open>controllers/shared/metrics.go\<close>: one
  poll of a bot end to end - eligibility, credentials, the HTTP calls, classification of a failure,
  merging into \<open>status.bot\<close>, the gauges - and the backoff arithmetic. The scheduler around it is in
  \<open>PollerMachine\<close>.\<close>

section \<open>Eligibility\<close>

definition isTradeMode :: "tradebot \<Rightarrow> bool" where
  "isTradeMode tb = (let cmd = TrimSpace (tb_FreqtradeCommand (tb_Spec tb)) in cmd = [] \<or> cmd = ''trade'')"

definition introspectionEnabled :: "tradebot \<Rightarrow> bool" where
  "introspectionEnabled tb = (case Option.bind (tb_Introspection (tb_Spec tb)) is_Enabled of
     None \<Rightarrow> True | Some b \<Rightarrow> b)"

definition shouldPoll :: "tradebot \<Rightarrow> bool" where
  "shouldPoll tb = (isTradeMode tb \<and> introspectionEnabled tb)"

definition pollInterval :: "tradebot \<Rightarrow> duration" where
  "pollInterval tb = (case tb_Introspection (tb_Spec tb) of
     Some i \<Rightarrow> if is_Interval i > 0 then is_Interval i else 60 * Second
   | None \<Rightarrow> 60 * Second)"

definition hasIntrospectionDisabledCondition :: "klib \<Rightarrow> tradebot \<Rightarrow> bool" where
  "hasIntrospectionDisabledCondition K tb =
    (case FindStatusCondition K (st_Conditions (tb_Status tb)) ConditionBotReachable of
       None \<Rightarrow> False
     | Some c \<Rightarrow> cd_Reason c = ReasonIntrospectionDisabled
         \<and> cd_ObservedGeneration c = om_Generation (tb_meta tb))"

definition set_cond :: "klib \<Rightarrow> gotime \<Rightarrow> condition \<Rightarrow> tradebot \<Rightarrow> tradebot" where
  "set_cond K now c tb = tb\<lparr>tb_Status := (tb_Status tb)\<lparr>
     st_Conditions := SetStatusCondition K now c (st_Conditions (tb_Status tb))\<rparr>\<rparr>"

lemma set_cond_simps [simp]:
  "tb_Spec (set_cond K now c tb) = tb_Spec tb" "tb_meta (set_cond K now c tb) = tb_meta tb"
  "st_Bot (tb_Status (set_cond K now c tb)) = st_Bot (tb_Status tb)"
  "st_Conditions (tb_Status (set_cond K now c tb)) = SetStatusCondition K now c (st_Conditions (tb_Status tb))"
  by (simp_all add: set_cond_def)

definition setIntrospectionDisabledCondition :: "'e api \<Rightarrow> klib \<Rightarrow> tradebot \<Rightarrow> ('e, unit) op" where
  "setIntrospectionDisabledCondition A K tb = do {
     _ \<leftarrow> patchTradeBotStatus A K tb (\<lambda>now t. set_cond K now
       (mk_cond_gen ConditionBotReachable ConditionUnknown ReasonIntrospectionDisabled
         ''spec.introspection.enabled is false; the operator is not polling this bot''
         (om_Generation (tb_meta tb))) t);
     State_Monad.return () }"

section \<open>Credentials\<close>

definition resolveCredentials :: "'e api \<Rightarrow> tradebot \<Rightarrow> ('e, string \<times> (goerr + string \<times> string)) op" where
  "resolveCredentials A tb = do {
     r \<leftarrow> do_GetTradeBotConfig A \<lparr>nn_Namespace = tb_Namespace tb, nn_Name = tb_Config (tb_Spec tb)\<rparr>;
     case r of
       Inl e \<Rightarrow> State_Monad.return ([],
         Inl (Wrap (''failed to get TradeBotConfig '' @ tb_Config (tb_Spec tb) @ '': '') e))
     | Inr c \<Rightarrow>
        (let exchange = (case tcs_Exchange (tc_Spec c) of None \<Rightarrow> [] | Some x \<Rightarrow> ex_Name x) in
         case tcs_APIServer (tc_Spec c) of
           None \<Rightarrow> State_Monad.return (exchange,
             Inl (ErrString (''TradeBotConfig '' @ tb_Config (tb_Spec tb) @ '' has no spec.apiServer'')))
         | Some a \<Rightarrow>
             if as_SecretRef a = []
             then State_Monad.return (exchange, Inr (as_Username a, as_Password a))
             else do {
               sd \<leftarrow> GetSecretData A (tb_Namespace tb) (as_SecretRef a);
               State_Monad.return (exchange, case sd of
                   Inl e \<Rightarrow> Inl (Wrap ''failed to get API credentials secret: '' e)
                 | Inr m \<Rightarrow> Inr (if map_str m ''user'' \<noteq> [] then map_str m ''user'' else as_Username a,
                                 if map_str m ''password'' \<noteq> [] then map_str m ''password'' else as_Password a))
             }) }"

definition botBaseURL :: "tradebot \<Rightarrow> string" where
  "botBaseURL tb = ''http://'' @ tb_Name tb @ ''.'' @ tb_Namespace tb @ ''.svc.cluster.local:'' @ Itoa FreqtradeAPIPort"

section \<open>Failure classification\<close>

fun find_bot_status :: "goerr \<Rightarrow> int option" where
  "find_bot_status (BotStatusError c) = Some c"
| "find_bot_status (Wrap p e) = find_bot_status e"
| "find_bot_status _ = None"

fun is_deadline :: "goerr \<Rightarrow> bool" where
  "is_deadline (TransportError d t m) = d"
| "is_deadline (Wrap p e) = is_deadline e"
| "is_deadline _ = False"

fun is_timeout :: "goerr \<Rightarrow> bool" where
  "is_timeout (TransportError d t m) = t"
| "is_timeout (Wrap p e) = is_timeout e"
| "is_timeout _ = False"

definition classifyError :: "goerr \<Rightarrow> string" where
  "classifyError e =
    (if find_bot_status e = Some 401 then ReasonAuthFailed
     else if is_deadline e then ReasonTimeout
     else if is_timeout e then ReasonTimeout
     else ReasonConnectionRefused)"

definition unreachableCondition :: "tradebot \<Rightarrow> string \<Rightarrow> goerr \<Rightarrow> condition" where
  "unreachableCondition tb reason e =
     mk_cond_gen ConditionBotReachable ConditionFalse reason (err_Error e) (om_Generation (tb_meta tb))"

section \<open>One poll\<close>

definition formatFloat :: "golib \<Rightarrow> float64 \<Rightarrow> string" where "formatFloat G f = FormatFloat G f"

text \<open>The outcome of a poll: the fresh status if the required calls succeeded, the condition, and the
  balance if that call succeeded.\<close>

definition pollWithClient ::
  "'e api \<Rightarrow> golib \<Rightarrow> botclient \<Rightarrow> tradebot \<Rightarrow> ('e, botstatus option \<times> condition \<times> float64 option) op" where
  "pollWithClient A G c tb = do {
     pingErr \<leftarrow> bot_Ping A G c;
     case pingErr of
       Some e \<Rightarrow> State_Monad.return (None, unreachableCondition tb (classifyError e) e, None)
     | None \<Rightarrow> do {
         cfg \<leftarrow> bot_ShowConfig A G c;
         case cfg of
           Inl e \<Rightarrow> State_Monad.return (None, unreachableCondition tb (classifyError e) e, None)
         | Inr (state, dryRun) \<Rightarrow> do {
             ver \<leftarrow> bot_Version A G c;
             case ver of
               Inl e \<Rightarrow> State_Monad.return (None, unreachableCondition tb (classifyError e) e, None)
             | Inr version \<Rightarrow> do {
                 count \<leftarrow> bot_Count A G c;
                 profit \<leftarrow> bot_Profit A G c;
                 balance \<leftarrow> bot_Balance A G c;
                 let degraded = (case count of Inl e \<Rightarrow> [''count: '' @ err_Error e] | Inr _ \<Rightarrow> [])
                       @ (case profit of Inl e \<Rightarrow> [''profit: '' @ err_Error e] | Inr _ \<Rightarrow> [])
                       @ (case balance of Inl e \<Rightarrow> [''balance: '' @ err_Error e] | Inr _ \<Rightarrow> []);
                 State_Monad.return (Some (botstatus_zero\<lparr>bs_State := state, bs_Version := version,
                     bs_DryRun := Some dryRun,
                     bs_OpenTrades := (case count of Inl _ \<Rightarrow> None | Inr (cur, mx) \<Rightarrow> Some cur),
                     bs_MaxOpenTrades := (case count of Inl _ \<Rightarrow> None | Inr (cur, mx) \<Rightarrow> Some mx),
                     bs_TotalProfitAbs := (case profit of Inl _ \<Rightarrow> [] | Inr (coin, pct) \<Rightarrow> formatFloat G coin),
                     bs_TotalProfitPct := (case profit of Inl _ \<Rightarrow> [] | Inr (coin, pct) \<Rightarrow> formatFloat G pct),
                     bs_LastPollError := (if degraded \<noteq> []
                       then ''best-effort fields unavailable: '' @ Join degraded ''; '' else [])\<rparr>),
                   mk_cond_gen ConditionBotReachable ConditionTrue ReasonAsExpected [] (om_Generation (tb_meta tb)),
                   case balance of Inl _ \<Rightarrow> None | Inr amount \<Rightarrow> Some amount)
               }
           }
       }
   }"

definition poll ::
  "'e api \<Rightarrow> golib \<Rightarrow> tradebot \<Rightarrow> ('e, botstatus option \<times> condition \<times> string \<times> float64 option) op" where
  "poll A G tb = do {
     creds \<leftarrow> resolveCredentials A tb;
     case creds of
       (exchange, Inl e) \<Rightarrow>
         State_Monad.return (None, unreachableCondition tb ReasonConnectionRefused e, exchange, None)
     | (exchange, Inr (username, password)) \<Rightarrow> do {
         r \<leftarrow> pollWithClient A G (botclient_New (botBaseURL tb) username password) tb;
         State_Monad.return (case r of (st, reachable, balance) \<Rightarrow> (st, reachable, exchange, balance)) } }"

section \<open>Merging into the status\<close>

definition mergeBotStatus :: "botstatus option \<Rightarrow> botstatus option \<Rightarrow> condition \<Rightarrow> gotime \<Rightarrow> botstatus" where
  "mergeBotStatus existing fresh reachable now = (case fresh of
       Some f \<Rightarrow> f\<lparr>bs_LastPollTime := Some now\<rparr>
     | None \<Rightarrow> (case existing of None \<Rightarrow> botstatus_zero | Some e \<Rightarrow> e)\<lparr>bs_LastPollTime := Some now,
         bs_LastPollError := cd_Message reachable\<rparr>)"

section \<open>Backoff\<close>

record pollstate =
  ps_nextPollAt :: gotime
  ps_consecutiveFailures :: nat
  ps_inFlight :: bool
  ps_strategy :: string
  ps_exchange :: string
  ps_dryRun :: string

definition new_pollstate :: "gotime \<Rightarrow> pollstate" where
  "new_pollstate now = \<lparr>ps_nextPollAt = now, ps_consecutiveFailures = 0, ps_inFlight = False,
     ps_strategy = [], ps_exchange = [], ps_dryRun = []\<rparr>"

definition maxBackoffMultiple :: int where "maxBackoffMultiple = 10"

text \<open>The delay after the given number of consecutive failures, in 64-bit arithmetic.\<close>

definition backoff_delay :: "duration \<Rightarrow> nat \<Rightarrow> duration" where
  "backoff_delay interval failures =
    (let shift = (if failures > 4 then 4 else failures);
         backoff = wrap64 (interval * 2 ^ shift);
         maxBackoff = wrap64 (interval * maxBackoffMultiple)
     in if backoff > maxBackoff then maxBackoff else backoff)"

definition backoff_step :: "duration \<Rightarrow> bool \<Rightarrow> gotime \<Rightarrow> pollstate \<Rightarrow> pollstate" where
  "backoff_step interval reachable now st =
    (if reachable
     then st\<lparr>ps_consecutiveFailures := 0, ps_nextPollAt := now + interval\<rparr>
     else let f = ps_consecutiveFailures st + 1
          in st\<lparr>ps_consecutiveFailures := f, ps_nextPollAt := now + backoff_delay interval f\<rparr>)"

text \<open>The poller's memory: one entry per tracked bot.\<close>

type_synonym pollmap = "(nname \<times> pollstate) list"

definition on_entry :: "nname \<Rightarrow> (pollstate \<Rightarrow> pollstate) \<Rightarrow> pollmap \<Rightarrow> pollmap" where
  "on_entry key f p = (case map_of p key of None \<Rightarrow> p | Some st \<Rightarrow> map_put key (f st) p)"

definition updateBackoff :: "nname \<Rightarrow> tradebot \<Rightarrow> condition \<Rightarrow> gotime \<Rightarrow> pollmap \<Rightarrow> pollmap" where
  "updateBackoff key tb reachable now p =
     on_entry key (backoff_step (pollInterval tb) (cd_Status reachable = ConditionTrue) now) p"

section \<open>Gauges\<close>

definition bot_labels :: "tradebot \<Rightarrow> string \<Rightarrow> string \<Rightarrow> smap" where
  "bot_labels tb exchange dryRun = [(''namespace'', tb_Namespace tb), (''tradebot'', tb_Name tb),
     (''strategy'', tb_Strategy (tb_Spec tb)), (''exchange'', exchange), (''dry_run'', dryRun)]"

definition dry_run_label :: "botstatus option \<Rightarrow> string" where
  "dry_run_label st = (case Option.bind st bs_DryRun of
     None \<Rightarrow> ''unknown'' | Some b \<Rightarrow> if b then ''true'' else ''false'')"

definition set_opt :: "string \<Rightarrow> smap \<Rightarrow> mvalue option \<Rightarrow> ('e, unit) op" where
  "set_opt name labels v = (case v of None \<Rightarrow> State_Monad.return () | Some x \<Rightarrow> emit (MetricSet name labels x))"

definition recordMetrics ::
  "'e api \<Rightarrow> golib \<Rightarrow> nname \<Rightarrow> tradebot \<Rightarrow> botstatus option \<Rightarrow> condition \<Rightarrow> string \<Rightarrow> float64 option
     \<Rightarrow> pollmap \<Rightarrow> ('e, pollmap) op" where
  "recordMetrics A G key tb botStatus reachable exchange balance p =
    (let dryRun = dry_run_label botStatus;
         labels = bot_labels tb exchange dryRun;
         p' = on_entry key (\<lambda>st. st\<lparr>ps_strategy := tb_Strategy (tb_Spec tb), ps_exchange := exchange,
                ps_dryRun := dryRun\<rparr>) p
     in do {
       _ \<leftarrow> emit (MetricSet ''freqtrade_bot_up'' labels
         (MvInt (if cd_Status reachable = ConditionTrue then 1 else 0)));
       now \<leftarrow> do_Now A;
       _ \<leftarrow> emit (MetricSet ''freqtrade_bot_last_poll_timestamp_seconds'' labels (MvInt (now div Second)));
       case botStatus of
         None \<Rightarrow> State_Monad.return p'
       | Some st \<Rightarrow> do {
           _ \<leftarrow> emit (MetricSet ''freqtrade_bot_state'' labels (MvInt (if bs_State st = ''running'' then 1 else 0)));
           _ \<leftarrow> set_opt ''freqtrade_bot_open_trades'' labels (map_option MvInt (bs_OpenTrades st));
           _ \<leftarrow> set_opt ''freqtrade_bot_max_open_trades'' labels (map_option MvInt (bs_MaxOpenTrades st));
           _ \<leftarrow> set_opt ''freqtrade_bot_profit_abs'' labels (map_option MvFloat (ParseFloat G (bs_TotalProfitAbs st)));
           _ \<leftarrow> set_opt ''freqtrade_bot_profit_ratio'' labels (map_option MvPercent (ParseFloat G (bs_TotalProfitPct st)));
           _ \<leftarrow> set_opt ''freqtrade_bot_balance'' labels (map_option MvFloat balance);
           State_Monad.return p' }
     })"

definition bot_gauges :: "string list" where
  "bot_gauges = [''freqtrade_bot_up'', ''freqtrade_bot_state'', ''freqtrade_bot_open_trades'',
     ''freqtrade_bot_max_open_trades'', ''freqtrade_bot_profit_abs'', ''freqtrade_bot_profit_ratio'',
     ''freqtrade_bot_balance'', ''freqtrade_bot_last_poll_timestamp_seconds'']"

text \<open>\<open>DeleteBotMetrics\<close> deletes every gauge of one exact label set.\<close>

definition DeleteBotMetrics :: "string \<Rightarrow> string \<Rightarrow> string \<Rightarrow> string \<Rightarrow> string \<Rightarrow> event list" where
  "DeleteBotMetrics namespace tradeBot strategy exchange dryRun =
     map (\<lambda>g. MetricDelete g [(''namespace'', namespace), (''tradebot'', tradeBot), (''strategy'', strategy),
       (''exchange'', exchange), (''dry_run'', dryRun)]) bot_gauges"

section \<open>pollOne\<close>

text \<open>One worker's handling of a key. The deferred reset of the in-flight flag runs on every path.\<close>

definition clear_inflight :: "nname \<Rightarrow> pollmap \<Rightarrow> pollmap" where
  "clear_inflight key p = on_entry key (\<lambda>st. st\<lparr>ps_inFlight := False\<rparr>) p"

definition poll_status ::
  "klib \<Rightarrow> botstatus option \<Rightarrow> condition \<Rightarrow> gotime \<Rightarrow> tradebot \<Rightarrow> tradebot" where
  "poll_status K fresh reachable now t = set_cond K now reachable
     (t\<lparr>tb_Status := (tb_Status t)\<lparr>st_Bot := Some (mergeBotStatus (st_Bot (tb_Status t)) fresh reachable now)\<rparr>\<rparr>)"

definition pollOne :: "'e api \<Rightarrow> klib \<Rightarrow> golib \<Rightarrow> nname \<Rightarrow> pollmap \<Rightarrow> ('e, pollmap) op" where
  "pollOne A K G key p = do {
     r \<leftarrow> do_GetTradeBot A key;
     case r of
       Inl e \<Rightarrow> State_Monad.return (clear_inflight key p)
     | Inr tb \<Rightarrow> do {
         out \<leftarrow> poll A G tb;
         case out of (fresh, reachable, exchange, balance) \<Rightarrow> do {
           p \<leftarrow> recordMetrics A G key tb fresh reachable exchange balance p;
           now \<leftarrow> do_Now A;
           let p = updateBackoff key tb reachable now p;
           _ \<leftarrow> patchTradeBotStatus A K tb (poll_status K fresh reachable);
           State_Monad.return (clear_inflight key p)
         } } }"

section \<open>The poller never changes a bot\<close>

lemma only_resolveCredentials [only_intro]:
  "\<lbrakk>\<And>k r. P (GetTradeBotConfig k r); \<And>k r. P (GetSecret k r)\<rbrakk> \<Longrightarrow> only P (resolveCredentials A tb)"
  by (auto simp: resolveCredentials_def call_defs Let_def intro!: only_intro split: option.split)

lemma only_pollWithClient: "only (readonly_call c) (pollWithClient A G c tb)"
  unfolding pollWithClient_def Let_def
  by (intro only_intro)

definition poll_event :: "tradebot \<Rightarrow> event \<Rightarrow> bool" where
  "poll_event tb e = (case e of
       GetTradeBotConfig k r \<Rightarrow> True
     | GetSecret k r \<Rightarrow> True
     | HTTPDo rq r \<Rightarrow> rq_Method rq = ''GET'' \<and> HasPrefix (rq_URL rq) (botBaseURL tb) \<and> rq_Body rq = []
     | _ \<Rightarrow> False)"

lemma only_poll: "only (poll_event tb) (poll A G tb)"
  unfolding poll_def
proof (intro only_bind only_case_prod only_case_sum only_return)
  show "only (poll_event tb) (resolveCredentials A tb)"
    by (intro only_intro) (simp_all add: poll_event_def)
next
  fix u pw
  show "only (poll_event tb) (pollWithClient A G (botclient_New (botBaseURL tb) u pw) tb)"
    by (rule only_conseq [OF only_pollWithClient])
       (auto simp: readonly_call_def poll_event_def botclient_New_def split: event.splits)
qed

lemma only_set_opt [only_intro]: "(\<And>v. P (MetricSet n l v)) \<Longrightarrow> only P (set_opt n l x)"
  by (auto simp: set_opt_def intro!: only_intro)

lemma only_recordMetrics [only_intro]:
  "(\<And>n l v. P (MetricSet n l v)) \<Longrightarrow> only P (recordMetrics A G key tb st c ex bal p)"
  by (auto simp: recordMetrics_def Let_def call_defs intro!: only_intro)

fun poller_event :: "event \<Rightarrow> bool" where
  "poller_event (HTTPDo rq r) = (rq_Method rq = ''GET'' \<and> rq_Body rq = [])"
| "poller_event (GetTradeBot k r) = True"
| "poller_event (GetTradeBotConfig k r) = True"
| "poller_event (GetSecret k r) = True"
| "poller_event (MetricSet n l v) = True"
| "poller_event (GetBetaTradeBot k r) = True"
| "poller_event (StatusUpdateBetaTradeBot b r) = True"
| "poller_event _ = False"

lemma only_pollOne: "only poller_event (pollOne A K G key p)"
  unfolding pollOne_def do_GetTradeBot_def do_Now_def Let_def
proof (intro only_bind only_case_sum only_case_prod only_return only_call only_ask only_recordMetrics
    only_patchTradeBotStatus)
  fix tb
  show "only poller_event (poll A G tb)"
    by (rule only_conseq [OF only_poll]) (auto simp: poll_event_def split: event.splits)
qed simp_all

lemma spec_keeping_pollOne: "spec_keeping (pollOne A K G key p)"
  unfolding pollOne_def do_GetTradeBot_def do_Now_def Let_def
proof (intro keeps_bind keeps_case_sum keeps_case_prod keeps_return keeps_call keeps_ask
    spec_keeping_patchTradeBotStatus)
  fix tb
  show "spec_keeping (poll A G tb)"
    by (rule keeps_only, rule only_conseq [OF only_poll]) (auto simp: poll_event_def split: event.splits)
next
  fix tb a b c d
  show "spec_keeping (recordMetrics A G key tb a b c d p)"
    by (rule keeps_only, rule only_recordMetrics) simp
qed simp

section \<open>The outcome of a poll\<close>

text \<open>A poll has a fresh status exactly when it found the bot reachable; the condition is always a
  BotReachable condition of the polled generation, True or False, never Unknown.\<close>

definition poll_outcome :: "tradebot \<Rightarrow> botstatus option \<Rightarrow> condition \<Rightarrow> bool" where
  "poll_outcome tb st c \<longleftrightarrow> cd_Type c = ConditionBotReachable
     \<and> cd_ObservedGeneration c = om_Generation (tb_meta tb)
     \<and> (if st = None
        then cd_Status c = ConditionFalse
          \<and> cd_Reason c \<in> {ReasonAuthFailed, ReasonTimeout, ReasonConnectionRefused}
        else cd_Status c = ConditionTrue \<and> cd_Reason c = ReasonAsExpected)"

lemma classifyError_cases: "classifyError e \<in> {ReasonAuthFailed, ReasonTimeout, ReasonConnectionRefused}"
  by (simp add: classifyError_def)

lemma unreachable_outcome: "poll_outcome tb None (unreachableCondition tb (classifyError e) e)"
  using classifyError_cases [of e] by (simp add: poll_outcome_def unreachableCondition_def)

lemma pollWithClient_outcome:
  "yields (pollWithClient A G c tb) (\<lambda>r. poll_outcome tb (fst r) (fst (snd r)))"
  unfolding pollWithClient_def Let_def
  by (intro yields_intro) (simp_all add: unreachable_outcome, simp add: poll_outcome_def)

lemma poll_outcome_holds:
  "yields (poll A G tb) (\<lambda>r. poll_outcome tb (fst r) (fst (snd r)))"
  unfolding poll_def
  by (intro yields_bind yields_case_prod yields_case_sum yields_return
      yields_bind_result [OF pollWithClient_outcome])
     (auto simp: poll_outcome_def unreachableCondition_def)

section \<open>Backoff bounds\<close>

text \<open>The bound on the interval that keeps the 64-bit products exact: about eighteen years.\<close>

abbreviation interval_ok :: "duration \<Rightarrow> bool" where
  "interval_ok i \<equiv> 0 < i \<and> i * 16 < 2 ^ 63"

lemma backoff_delay_exact:
  assumes "interval_ok i"
  shows "backoff_delay i f = min (i * 2 ^ min f 4) (i * 10)"
proof -
  have le16: "(2 :: int) ^ min f 4 \<le> 2 ^ 4" by (rule power_increasing) auto
  with assms have "i * 2 ^ min f 4 \<le> i * 16" by (intro mult_left_mono) auto
  moreover have "0 < i * 2 ^ min f 4" using assms by simp
  ultimately have "wrap64 (i * 2 ^ min f 4) = i * 2 ^ min f 4"
    using assms by (intro wrap64_id; linarith)
  moreover have "wrap64 (i * 10) = i * 10" using assms by (intro wrap64_id) auto
  moreover have "(if f > 4 then 4 else f) = min f 4" by (auto simp: min_def)
  ultimately show ?thesis
    by (simp add: backoff_delay_def maxBackoffMultiple_def Let_def min_def)
qed

lemma backoff_delay_bounds:
  assumes "interval_ok i" and "0 < f"
  shows "2 * i \<le> backoff_delay i f" and "backoff_delay i f \<le> 10 * i"
proof -
  have "(2 :: int) ^ 1 \<le> 2 ^ min f 4" by (rule power_increasing) (use assms(2) in auto)
  with assms(1) have "i * 2 \<le> i * 2 ^ min f 4" by (simp add: mult_left_mono)
  with assms show "2 * i \<le> backoff_delay i f" "backoff_delay i f \<le> 10 * i"
    by (auto simp: backoff_delay_exact min_def)
qed

lemma backoff_delay_mono:
  assumes "interval_ok i" and "f \<le> g"
  shows "backoff_delay i f \<le> backoff_delay i g"
proof -
  have "(2 :: int) ^ min f 4 \<le> 2 ^ min g 4" by (rule power_increasing) (use assms(2) in auto)
  with assms(1) have "i * 2 ^ min f 4 \<le> i * 2 ^ min g 4" by (simp add: mult_left_mono)
  then show ?thesis unfolding backoff_delay_exact [OF assms(1)] by linarith
qed

section \<open>The poller's memory\<close>

lemma map_of_on_entry [simp]:
  "map_of (on_entry key f p) k = (if k = key then map_option f (map_of p key) else map_of p k)"
  by (auto simp: on_entry_def split: option.split)

lemma on_entry_keys [simp]: "fst ` set (on_entry key f p) = fst ` set p"
proof -
  have "map_of p key \<noteq> None \<Longrightarrow> key \<in> fst ` set p"
    by (metis map_of_eq_None_iff)
  then show ?thesis by (auto simp: on_entry_def split: option.split)
qed

lemma pollOne_clears:
  "yields (pollOne A K G key p) (\<lambda>p'. \<forall>st. map_of p' key = Some st \<longrightarrow> \<not> ps_inFlight st)"
  unfolding pollOne_def Let_def
  by (intro yields_intro) (auto simp: clear_inflight_def)

end
