(* ===== verification/TradeBotState.thy ===== *)
theory TradeBotState
  imports Poller TradeBotFinalizer
begin

text \<open>The desired-state half of \<open>controllers/tradebot/main.go\<close>: \<open>reconcileState\<close> compares
  \<open>spec.state\<close> with the state the poller last observed and, for a reachable bot, sends one start or
  stop call.\<close>

definition set_state_cond ::
  "'e api \<Rightarrow> klib \<Rightarrow> tradebot \<Rightarrow> condstatus \<Rightarrow> string \<Rightarrow> string \<Rightarrow> ('e, goerr option) op" where
  "set_state_cond A K tb status reason message = do {
     r \<leftarrow> patchTradeBotStatus A K tb
       (\<lambda>now. set_cond K now (mk_cond ConditionStateReconciled status reason message));
     State_Monad.return (case r of Inl e \<Rightarrow> Some e | Inr _ \<Rightarrow> None) }"

definition reconcileStateChange ::
  "'e api \<Rightarrow> klib \<Rightarrow> golib \<Rightarrow> reconciler \<Rightarrow> tradebot \<Rightarrow> botclient \<Rightarrow> string
     \<Rightarrow> ('e, duration \<times> goerr option) op" where
  "reconcileStateChange A K G R tb botClient desired =
    (let action = (if desired = TradeBotStateStopped then ''stop'' else ''start'');
         eventReason = (if desired = TradeBotStateStopped then ''BotStopped'' else ''BotStarted'')
     in do {
       callErr \<leftarrow> (if desired = TradeBotStateStopped then bot_Stop A G botClient else bot_Start A G botClient);
       case callErr of
         Some e \<Rightarrow> do {
           _ \<leftarrow> record_event (r_Recorder R) EventWarning ''BotStateChangeFailed''
             (''Failed to '' @ action @ '' bot: '' @ err_Error e);
           patchErr \<leftarrow> set_state_cond A K tb ConditionFalse ReasonStateChangeFailed (err_Error e);
           State_Monad.return (0, patchErr) }
       | None \<Rightarrow> do {
           _ \<leftarrow> record_event (r_Recorder R) EventNormal eventReason
             (''Issued '' @ action @ '' to align with spec.state='' @ desired);
           patchErr \<leftarrow> set_state_cond A K tb ConditionFalse ReasonStateChangePending
             (''Issued '' @ action @ ''; waiting for the next poll to confirm'');
           State_Monad.return (wrap64 (pollInterval tb + 5 * Second), patchErr) } })"

definition desired_state :: "betatradebot \<Rightarrow> string" where
  "desired_state b = (if btb_State (btb_Spec b) = [] then TradeBotStateRunning else btb_State (btb_Spec b))"

definition observed_state :: "tradebot \<Rightarrow> string" where
  "observed_state tb = (case st_Bot (tb_Status tb) of None \<Rightarrow> ''unknown'' | Some b \<Rightarrow> bs_State b)"

definition state_matches :: "string \<Rightarrow> string \<Rightarrow> bool" where
  "state_matches desired observed \<longleftrightarrow>
     (desired = TradeBotStateRunning \<and> observed = ''running'')
     \<or> (desired = TradeBotStateStopped \<and> observed = ''stopped'')"

definition reconcileState ::
  "'e api \<Rightarrow> klib \<Rightarrow> golib \<Rightarrow> reconciler \<Rightarrow> tradebot \<Rightarrow> betatradebot \<Rightarrow> ('e, duration \<times> goerr option) op" where
  "reconcileState A K G R tb tbBeta =
    (let desired = desired_state tbBeta in
     if \<not> IsStatusConditionTrue K (st_Conditions (tb_Status tb)) ConditionBotReachable
     then do {
       patchErr \<leftarrow> set_state_cond A K tb ConditionFalse ReasonBotUnreachable
         ''Bot is unreachable; desired state cannot be verified or enforced'';
       State_Monad.return (0, patchErr) }
     else if state_matches desired (observed_state tb)
     then do {
       patchErr \<leftarrow> set_state_cond A K tb ConditionTrue ReasonAsExpected [];
       State_Monad.return (0, patchErr) }
     else do {
       creds \<leftarrow> resolveCredentials A tb;
       case creds of
         (exchange, Inl e) \<Rightarrow> do {
           patchErr \<leftarrow> set_state_cond A K tb ConditionFalse ReasonStateChangeFailed (err_Error e);
           State_Monad.return (0, patchErr) }
       | (exchange, Inr (username, password)) \<Rightarrow>
           reconcileStateChange A K G R tb (botclient_New (botBaseURL tb) username password) desired })"

definition reconcileStateAndComputeRequeue ::
  "'e api \<Rightarrow> klib \<Rightarrow> golib \<Rightarrow> reconciler \<Rightarrow> nname \<Rightarrow> tradebot \<Rightarrow> duration
     \<Rightarrow> ('e, duration \<times> goerr option) op" where
  "reconcileStateAndComputeRequeue A K G R key tb defaultRequeueAfter = do {
     r \<leftarrow> do_GetBetaTradeBot A key;
     case r of
       Inl e \<Rightarrow> State_Monad.return (defaultRequeueAfter, IgnoreNotFound e)
     | Inr beta \<Rightarrow> do {
         s \<leftarrow> reconcileState A K G R tb beta;
         State_Monad.return (case s of
             (d, Some e) \<Rightarrow> (0, Some e)
           | (d, None) \<Rightarrow>
               if d > 0 \<and> (defaultRequeueAfter = 0 \<or> d < defaultRequeueAfter) then (d, None)
               else (defaultRequeueAfter, None)) } }"

section \<open>At most one call, to a reachable bot that is in the wrong state\<close>

lemma only_set_state_cond [only_intro]:
  "\<lbrakk>\<And>k r. P (GetBetaTradeBot k r); \<And>b r. P (StatusUpdateBetaTradeBot b r)\<rbrakk>
    \<Longrightarrow> only P (set_state_cond A K tb st rs m)"
  unfolding set_state_cond_def by (intro only_intro)

lemma spec_keeping_set_state_cond [keeps_intro]: "spec_keeping (set_state_cond A K tb st rs m)"
  unfolding set_state_cond_def by (intro keeps_intro)

text \<open>The call that aligns a bot with the desired state.\<close>

definition aligning_call :: "tradebot \<Rightarrow> string \<Rightarrow> event \<Rightarrow> bool" where
  "aligning_call tb desired e \<longleftrightarrow> (\<exists>rq r. e = HTTPDo rq r \<and> rq_Method rq = ''POST'' \<and> rq_Body rq = []
     \<and> rq_URL rq = botBaseURL tb @ (if desired = TradeBotStateStopped then ''/api/v1/stop'' else ''/api/v1/start''))"

definition one_call :: "tradebot \<Rightarrow> string \<Rightarrow> event list \<Rightarrow> bool" where
  "one_call tb desired t \<longleftrightarrow> length (filter changes_bot t) \<le> 1
     \<and> (\<forall>e \<in> set t. changes_bot e \<longrightarrow> aligning_call tb desired e)"

lemma one_call_quiet: "list_all (\<lambda>e. \<not> changes_bot e) t \<Longrightarrow> one_call tb d (t @ u) = one_call tb d u"
  "list_all (\<lambda>e. \<not> changes_bot e) u \<Longrightarrow> one_call tb d (t @ u) = one_call tb d t"
  by (auto simp: one_call_def list_all_iff)

lemma one_call_none: "list_all (\<lambda>e. \<not> changes_bot e) t \<Longrightarrow> one_call tb d t"
  by (simp add: one_call_def list_all_iff)

lemma state_call_emits:
  "emits (if d = TradeBotStateStopped then bot_Stop A G (botclient_New (botBaseURL tb) u p)
          else bot_Start A G (botclient_New (botBaseURL tb) u p)) (\<lambda>_ t. one_call tb d t)"
  by (intro emits_if emits_conseq [OF emits_bot_Stop] emits_conseq [OF emits_bot_Start])
     (auto simp: one_call_def aligning_call_def bot_request_def botclient_New_def)

lemma only_quiet_set_state_cond: "only (\<lambda>e. \<not> changes_bot e) (set_state_cond A K tb st rs m)"
  by (intro only_intro) simp_all

lemma reconcileStateChange_one_call:
  "emits (reconcileStateChange A K G R tb (botclient_New (botBaseURL tb) u p) d) (\<lambda>_ t. one_call tb d t)"
proof -
  have quiet: "only (\<lambda>e. \<not> changes_bot e) (do {
      _ \<leftarrow> record_event (r_Recorder R) ty a b;
      patchErr \<leftarrow> set_state_cond A K tb st rs m;
      State_Monad.return (x, patchErr) })" for ty a b st rs m and x :: duration
    by (intro only_intro) simp_all
  show ?thesis
    unfolding reconcileStateChange_def Let_def
    by (rule emits_bind [OF state_call_emits], rule emits_case_option;
        rule emits_of_only [OF quiet]) (simp_all add: one_call_quiet)
qed

text \<open>The call happens only when the bot was last seen reachable and in another state.\<close>

lemma reconcileState_one_call:
  "emits (reconcileState A K G R tb b) (\<lambda>_ t. one_call tb (desired_state b) t \<and>
     (\<forall>e \<in> set t. changes_bot e \<longrightarrow>
        IsStatusConditionTrue K (st_Conditions (tb_Status tb)) ConditionBotReachable
        \<and> \<not> state_matches (desired_state b) (observed_state tb)))"
proof -
  have creds: "only (\<lambda>e. \<not> changes_bot e) (resolveCredentials A tb)"
    by (intro only_intro) simp_all
  have quiet: "only (\<lambda>e. \<not> changes_bot e) (do {
      patchErr \<leftarrow> set_state_cond A K tb st rs m;
      State_Monad.return (x, patchErr) })" for st rs m and x :: duration
    by (intro only_intro) simp_all
  show ?thesis
    unfolding reconcileState_def Let_def
    by (intro emits_if emits_of_only [OF quiet] emits_bind [OF creds [unfolded only_def]] emits_case_prod
          emits_case_sum emits_conseq [OF reconcileStateChange_one_call])
       (auto simp: one_call_none list_all_iff one_call_quiet [unfolded list_all_iff])
qed

lemma reconcileStateAndComputeRequeue_one_call:
  "emits (reconcileStateAndComputeRequeue A K G R key tb dflt) (\<lambda>_ t.
     length (filter changes_bot t) \<le> 1 \<and>
     (\<forall>e \<in> set t. changes_bot e \<longrightarrow> (\<exists>b. GetBetaTradeBot key (Inr b) \<in> set t
        \<and> aligning_call tb (desired_state b) e
        \<and> IsStatusConditionTrue K (st_Conditions (tb_Status tb)) ConditionBotReachable
        \<and> \<not> state_matches (desired_state b) (observed_state tb))))"
  unfolding reconcileStateAndComputeRequeue_def do_GetBetaTradeBot_def
  by (rule emits_bind [OF emits_call [where Q = "\<lambda>r t. t = [GetBetaTradeBot key r]"]], rule refl,
      rule emits_case_sum, rule emits_return, simp,
      rule emits_bind [OF reconcileState_one_call])
     (auto intro!: emits_return simp: one_call_def)

lemma spec_keeping_reconcileState [keeps_intro]: "spec_keeping (reconcileState A K G R tb b)"
proof -
  have "spec_keeping (resolveCredentials A tb)"
    by (intro keeps_only only_intro) simp_all
  moreover have "spec_keeping (reconcileStateChange A K G R tb c d)" for c d
  proof -
    have "spec_keeping (bot_Stop A G c)" "spec_keeping (bot_Start A G c)"
      by (rule keeps_only [unfolded only_def], rule emits_conseq [OF emits_bot_Stop], force,
          rule keeps_only [unfolded only_def], rule emits_conseq [OF emits_bot_Start], force)
    moreover have "spec_keeping (record_event x ty a b)" for x ty a b
      by (rule keeps_only) (auto intro: only_intro)
    ultimately show ?thesis
      unfolding reconcileStateChange_def Let_def by (intro keeps_intro)
  qed
  ultimately show ?thesis
    unfolding reconcileState_def Let_def by (intro keeps_intro)
qed

lemma spec_keeping_reconcileStateAndComputeRequeue [keeps_intro]:
  "spec_keeping (reconcileStateAndComputeRequeue A K G R key tb dflt)"
  unfolding reconcileStateAndComputeRequeue_def do_GetBetaTradeBot_def
  by (intro keeps_intro) simp_all

end
