(* ===== verification/TradeBotReconcile.thy ===== *)
theory TradeBotReconcile
  imports TradeBotWorkload TradeBotState
begin

text \<open>\<open>controllers/tradebot/main.go\<close>: the reconcile handler of a TradeBot, step by step as the code
  has it - deletion, finalizer, the trade-only guard, references, CORS hosts, rendering, resources,
  workload status, the success status, lifecycle events and the desired state.\<close>

abbreviation "BotFinalizer \<equiv> ''freqtrade.io/finalizer''"

section \<open>CORS hosts\<close>

definition references :: "tradebot \<Rightarrow> frequi \<Rightarrow> bool" where
  "references tb f = (tb_Name tb \<in> set (fu_TradeBotRefs (fu_Spec f)))"

definition cors_candidates :: "golib \<Rightarrow> frequi \<Rightarrow> string list" where
  "cors_candidates G f =
    (if fu_Host (fu_Spec f) \<noteq> []
     then (case InferHostScheme G (fu_Host (fu_Spec f)) ''https'' of
         (scheme, hostname) \<Rightarrow> [scheme @ ''://'' @ hostname])
     else [''http://'' @ om_Name (fu_meta f) @ ''.'' @ om_Namespace (fu_meta f) @ ''.svc.cluster.local'',
           ''http://localhost:8080''])"

definition collectCORSHostsForTradeBot :: "golib \<Rightarrow> tradebot \<Rightarrow> frequi list \<Rightarrow> string list" where
  "collectCORSHostsForTradeBot G tb fs =
     sort (foldl (\<lambda>acc f. if references tb f then append_new acc (cors_candidates G f) else acc) [] fs)"

definition referencingFreqUINames :: "tradebot \<Rightarrow> frequi list \<Rightarrow> string list" where
  "referencingFreqUINames tb fs = sort (map (\<lambda>f. om_Name (fu_meta f)) (filter (references tb) fs))"

fun validateCORSHosts :: "string list \<Rightarrow> goerr option" where
  "validateCORSHosts [] = None"
| "validateCORSHosts (h # hs) =
    (if \<not> HasPrefix h ''http://'' \<and> \<not> HasPrefix h ''https://''
     then Some (ErrString (''CORS host '' @ Quote h @ '' must start with http:// or https://''))
     else validateCORSHosts hs)"

definition cors_warning :: "string list \<Rightarrow> string" where
  "cors_warning corsHosts =
    (if corsHosts = []
     then ''Warning: No CORS hosts configured. API may not be accessible from UIs. ''
       @ ''Setting default CORS hosts (localhost and BOTNAME.SERVICE.svc.cluster.local).''
     else (case validateCORSHosts corsHosts of
         None \<Rightarrow> [] | Some e \<Rightarrow> ''Warning: Invalid CORS host: '' @ err_Error e))"

section \<open>Workload status and phase\<close>

record workloadStatus =
  ws_ready :: bool
  ws_message :: string
  ws_requeueAfter :: duration

definition computeWorkloadStatus :: "'e api \<Rightarrow> tradebot \<Rightarrow> ('e, goerr + workloadStatus) op" where
  "computeWorkloadStatus A tb = do {
     r \<leftarrow> do_GetStatefulSet A (key_of_meta (tb_meta tb));
     State_Monad.return (case r of
         Inl e \<Rightarrow> Inl (Wrap ''failed to get StatefulSet: '' e)
       | Inr s \<Rightarrow>
           if sts_StatusReadyReplicas s < 1
           then Inr \<lparr>ws_ready = False, ws_message = ''Waiting for StatefulSet to become ready (''
             @ Itoa (sts_StatusReadyReplicas s) @ '' ready)'', ws_requeueAfter = 15 * Second\<rparr>
           else Inr \<lparr>ws_ready = True, ws_message = [], ws_requeueAfter = 0\<rparr>) }"

definition workload_phase :: "klib \<Rightarrow> condition list \<Rightarrow> string" where
  "workload_phase K conditions =
    (case FindStatusCondition K conditions ConditionWorkloadReady of
       None \<Rightarrow> []
     | Some c \<Rightarrow>
         if cd_Reason c = ReasonWorkloadHealthy then ''Running''
         else if cd_Reason c = ReasonReconcileError then ''ResourceError''
         else ''Pending'')"

definition deriveTradeBotPhase :: "klib \<Rightarrow> condition list \<Rightarrow> string" where
  "deriveTradeBotPhase K conditions =
    (case FindStatusCondition K conditions ConditionConfigResolved of
       Some c \<Rightarrow>
         if cd_Status c = ConditionFalse
         then (if cd_Reason c = ReasonReferenceNotFound then ''Error'' else ''ConfigError'')
         else workload_phase K conditions
     | None \<Rightarrow> workload_phase K conditions)"

section \<open>failReconcile\<close>

definition with_phase :: "klib \<Rightarrow> string \<Rightarrow> tradebot \<Rightarrow> tradebot" where
  "with_phase K message t = t\<lparr>tb_Status := (tb_Status t)\<lparr>
     st_Phase := deriveTradeBotPhase K (st_Conditions (tb_Status t)), st_Message := message\<rparr>\<rparr>"

definition fail_mutate :: "klib \<Rightarrow> string \<Rightarrow> string \<Rightarrow> string \<Rightarrow> gotime \<Rightarrow> tradebot \<Rightarrow> tradebot" where
  "fail_mutate K conditionType reason message now t =
     with_phase K message
       (set_cond K now (mk_cond ConditionReady ConditionFalse reason message)
         (set_cond K now (mk_cond conditionType ConditionFalse reason message) t))"

definition failReconcileRequeueAfter :: duration where "failReconcileRequeueAfter = 30 * Second"

definition failReconcile ::
  "'e api \<Rightarrow> klib \<Rightarrow> reconciler \<Rightarrow> tradebot \<Rightarrow> string \<Rightarrow> string \<Rightarrow> string \<Rightarrow> goerr option
     \<Rightarrow> ('e, reconcile_result) op" where
  "failReconcile A K R tb conditionType reason message err = do {
     r \<leftarrow> patchTradeBotStatus A K tb (fail_mutate K conditionType reason message);
     case r of
       Inl e \<Rightarrow> State_Monad.return (mk_result (5 * Second) (Some e))
     | Inr _ \<Rightarrow> do {
         _ \<leftarrow> record_event (r_Recorder R) EventWarning reason message;
         _ \<leftarrow> emit (MetricInc ''freqtrade_operator_reconcile_errors_total'' [''tradebot'', reason]);
         State_Monad.return (mk_result failReconcileRequeueAfter err) } }"

section \<open>Success status and lifecycle events\<close>

definition success_mutate ::
  "klib \<Rightarrow> workloadStatus \<Rightarrow> string \<Rightarrow> reconcileOutcome \<Rightarrow> gotime \<Rightarrow> tradebot \<Rightarrow> tradebot" where
  "success_mutate K workload message outcome now t =
    (let status = (if ws_ready workload then ConditionTrue else ConditionFalse);
         reason = (if ws_ready workload then ReasonWorkloadHealthy else ReasonWorkloadProgressing);
         t = set_cond K now (mk_cond ConditionConfigResolved ConditionTrue ReasonAsExpected []) t;
         t = set_cond K now (mk_cond ConditionWorkloadReady status reason (ws_message workload)) t;
         t = set_cond K now (mk_cond ConditionReady status reason message) t;
         t = set_cond K now (configDriftCondition (tb_Name t) (tb_Namespace t) (om_Generation (tb_meta t))
               (ro_configDrift outcome)) t;
         t = t\<lparr>tb_Status := (tb_Status t)\<lparr>st_AppliedConfigHash := ro_appliedConfigHash outcome,
               st_ResolvedImage := ro_resolvedImage outcome\<rparr>\<rparr>
     in with_phase K message t)"

record lifecycleEventInputs =
  le_wasWorkloadReady :: bool
  le_wasConfigDrift :: bool
  le_hadWorkloadBefore :: bool
  le_oldConfigHash :: string
  le_newConfigHash :: string

definition lifecycle_before :: "klib \<Rightarrow> tradebot \<Rightarrow> string \<Rightarrow> lifecycleEventInputs" where
  "lifecycle_before K tb newHash =
     \<lparr>le_wasWorkloadReady = IsStatusConditionTrue K (st_Conditions (tb_Status tb)) ConditionWorkloadReady,
      le_wasConfigDrift = IsStatusConditionTrue K (st_Conditions (tb_Status tb)) ConditionConfigDrift,
      le_hadWorkloadBefore = (st_ResolvedImage (tb_Status tb) \<noteq> []),
      le_oldConfigHash = st_AppliedConfigHash (tb_Status tb), le_newConfigHash = newHash\<rparr>"

definition recordLifecycleEvents :: "klib \<Rightarrow> reconciler \<Rightarrow> tradebot \<Rightarrow> lifecycleEventInputs \<Rightarrow> ('e, unit) op" where
  "recordLifecycleEvents K R tb before = do {
     _ \<leftarrow> record_event (r_Recorder R \<and> \<not> le_hadWorkloadBefore before \<and> st_ResolvedImage (tb_Status tb) \<noteq> [])
       EventNormal ''WorkloadCreated'' ''Workload created for the first time'';
     _ \<leftarrow> record_event (r_Recorder R \<and> le_newConfigHash before \<noteq> [] \<and> le_newConfigHash before \<noteq> le_oldConfigHash before)
       EventNormal ''ConfigRendered'' ''Rendered config.json changed'';
     _ \<leftarrow> record_event (r_Recorder R \<and> \<not> le_wasWorkloadReady before
         \<and> IsStatusConditionTrue K (st_Conditions (tb_Status tb)) ConditionWorkloadReady)
       EventNormal ''BotReady'' ''Bot workload is ready'';
     record_event (r_Recorder R \<and> \<not> le_wasConfigDrift before
         \<and> IsStatusConditionTrue K (st_Conditions (tb_Status tb)) ConditionConfigDrift)
       EventWarning ''ConfigDrift''
       (''Rendered config has changed but is not yet reflected in the running workload - ''
        @ ''see the ConfigDrift condition for the remedy'') }"

section \<open>Reconcile\<close>

text \<open>Step 2: deletion.\<close>

definition with_finalizers :: "string list \<Rightarrow> betatradebot \<Rightarrow> betatradebot" where
  "with_finalizers fs b = b\<lparr>btb_meta := (btb_meta b)\<lparr>om_Finalizers := fs\<rparr>\<rparr>"

definition reconcile_deletion ::
  "'e api \<Rightarrow> klib \<Rightarrow> golib \<Rightarrow> reconciler \<Rightarrow> tradebot \<Rightarrow> ('e, reconcile_result) op" where
  "reconcile_deletion A K G R tb =
    (if ContainsFinalizer K (om_Finalizers (tb_meta tb)) BotFinalizer
     then do {
       f \<leftarrow> finalizeTradeBot A G R tb;
       case f of
         Inl e \<Rightarrow> State_Monad.return (mk_result (10 * Second) (Some e))
       | Inr complete \<Rightarrow>
           if \<not> complete then State_Monad.return (mk_result (5 * Second) None)
           else do {
             g \<leftarrow> do_GetBetaTradeBot A (key_of_meta (tb_meta tb));
             case g of
               Inl e \<Rightarrow> if IsNotFound e then State_Monad.return (mk_result 0 None)
                 else State_Monad.return (mk_result (5 * Second) (Some e))
             | Inr latest \<Rightarrow> do {
                 u \<leftarrow> do_UpdateBetaTradeBot A (with_finalizers
                   (RemoveFinalizer K (om_Finalizers (btb_meta latest)) BotFinalizer) latest);
                 State_Monad.return (case u of
                     Some e \<Rightarrow> mk_result (5 * Second) (Some e)
                   | None \<Rightarrow> mk_result 0 None) } } }
     else State_Monad.return (mk_result 0 None))"

text \<open>Step 3: the finalizer.\<close>

definition reconcile_add_finalizer :: "'e api \<Rightarrow> klib \<Rightarrow> nname \<Rightarrow> ('e, reconcile_result) op" where
  "reconcile_add_finalizer A K key = do {
     g \<leftarrow> do_GetBetaTradeBot A key;
     case g of
       Inl e \<Rightarrow> State_Monad.return (mk_result (5 * Second) (IgnoreNotFound e))
     | Inr beta \<Rightarrow> do {
         u \<leftarrow> do_UpdateBetaTradeBot A (with_finalizers
           (AddFinalizer K (om_Finalizers (btb_meta beta)) BotFinalizer) beta);
         State_Monad.return (mk_result (5 * Second) u) } }"

text \<open>Steps 8 and 9: the workload's state into status, events, and the desired state.\<close>

definition reconcile_status ::
  "'e api \<Rightarrow> klib \<Rightarrow> golib \<Rightarrow> reconciler \<Rightarrow> nname \<Rightarrow> tradebot \<Rightarrow> string \<Rightarrow> reconcileOutcome
     \<Rightarrow> ('e, reconcile_result) op" where
  "reconcile_status A K G R key tb corsWarning outcome = do {
     ws \<leftarrow> computeWorkloadStatus A tb;
     case ws of
       Inl e \<Rightarrow> failReconcile A K R tb ConditionWorkloadReady ReasonReconcileError
         (''Failed to read workload status: '' @ err_Error e) (Some e)
     | Inr workload \<Rightarrow> do {
         let message = (if corsWarning \<noteq> [] then corsWarning else ws_message workload);
         p \<leftarrow> patchTradeBotStatus A K tb (success_mutate K workload message outcome);
         case p of
           Inl e \<Rightarrow> State_Monad.return (mk_result (5 * Second) (Some e))
         | Inr tb' \<Rightarrow> do {
             _ \<leftarrow> recordLifecycleEvents K R tb' (lifecycle_before K tb (ro_appliedConfigHash outcome));
             s \<leftarrow> reconcileStateAndComputeRequeue A K G R key tb' (ws_requeueAfter workload);
             State_Monad.return (case s of
                 (d, Some e) \<Rightarrow> mk_result (5 * Second) (Some e)
               | (d, None) \<Rightarrow> mk_result d None) } } }"

text \<open>Steps 3.5 to 7.\<close>

definition reconcile_live ::
  "'e api \<Rightarrow> klib \<Rightarrow> golib \<Rightarrow> reconciler \<Rightarrow> nname \<Rightarrow> tradebot \<Rightarrow> ('e, reconcile_result) op" where
  "reconcile_live A K G R key tb =
    (let cmd = TrimSpace (tb_FreqtradeCommand (tb_Spec tb)) in
     if cmd \<noteq> [] \<and> cmd \<noteq> ''trade''
     then failReconcile A K R tb ConditionConfigResolved ReasonJobModeRemoved
       (''spec.freqtrade_command='' @ Quote cmd @ '' is no longer supported - TradeBot is trade-only; ''
        @ ''recreate this as a Backtest instead'') None
     else do {
       rf \<leftarrow> fetchReferencedResources A tb (nn_Namespace key);
       case rf of
         Inl e \<Rightarrow> failReconcile A K R tb ConditionConfigResolved
           (if IsNotFound e then ReasonReferenceNotFound else ReasonReconcileError)
           (''Failed to fetch referenced resources: '' @ err_Error e) (Some e)
       | Inr res \<Rightarrow> do {
           l \<leftarrow> do_ListFreqUI A (tb_Namespace tb);
           case l of
             Inl e \<Rightarrow> State_Monad.return (mk_result 0 (Some (Wrap ''failed to list FreqUI resources: '' e)))
           | Inr fs \<Rightarrow> do {
               let corsHosts = collectCORSHostsForTradeBot G tb fs;
               c \<leftarrow> BuildConfig A G (tb_Name tb) (tb_Namespace tb) (tc_Spec (rf_tradebotconfig res)) corsHosts;
               _ \<leftarrow> emit (MetricObserve ''freqtrade_operator_config_render_duration_seconds'');
               case c of
                 Inl e \<Rightarrow> failReconcile A K R tb ConditionConfigResolved
                   (if IsNotFound e then ReasonSecretMissing else ReasonConfigInvalid)
                   (''Failed to build configuration: '' @ err_Error e) (Some e)
               | Inr configData \<Rightarrow> do {
                   out \<leftarrow> reconcileResources A K R tb (rf_strategy res) configData (referencingFreqUINames tb fs);
                   case out of
                     Inl e \<Rightarrow> failReconcile A K R tb ConditionWorkloadReady ReasonReconcileError
                       (''Failed to reconcile resources: '' @ err_Error e) (Some e)
                   | Inr outcome \<Rightarrow> reconcile_status A K G R key tb (cors_warning corsHosts) outcome } } } })"

definition Reconcile ::
  "'e api \<Rightarrow> klib \<Rightarrow> golib \<Rightarrow> reconciler \<Rightarrow> nname \<Rightarrow> ('e, reconcile_result) op" where
  "Reconcile A K G R key = do {
     r \<leftarrow> do_GetTradeBot A key;
     case r of
       Inl e \<Rightarrow> State_Monad.return (if IsNotFound e then mk_result 0 None else mk_result 0 (IgnoreNotFound e))
     | Inr tb \<Rightarrow>
         if om_DeletionTimestamp (tb_meta tb) \<noteq> None then reconcile_deletion A K G R tb
         else if \<not> ContainsFinalizer K (om_Finalizers (tb_meta tb)) BotFinalizer
         then reconcile_add_finalizer A K key
         else reconcile_live A K G R key tb }"

section \<open>Events of the parts\<close>

lemma only_failReconcile [only_intro]:
  "\<lbrakk>\<And>k r. P (GetBetaTradeBot k r); \<And>b r. P (StatusUpdateBetaTradeBot b r); \<And>a b c. P (Recorded a b c);
    \<And>n l. P (MetricInc n l)\<rbrakk> \<Longrightarrow> only P (failReconcile A K R tb ty rs m e)"
  unfolding failReconcile_def by (intro only_intro)

lemma only_recordLifecycleEvents [only_intro]:
  "(\<And>a b c. P (Recorded a b c)) \<Longrightarrow> only P (recordLifecycleEvents K R tb b)"
  unfolding recordLifecycleEvents_def by (intro only_intro)

lemma only_computeWorkloadStatus [only_intro]:
  "(\<And>k r. P (GetStatefulSet k r)) \<Longrightarrow> only P (computeWorkloadStatus A tb)"
  unfolding computeWorkloadStatus_def do_GetStatefulSet_def by (intro only_intro)

lemma only_bot_Start_Stop [only_intro]:
  "(\<And>rq r. P (HTTPDo rq r)) \<Longrightarrow> only P (bot_Start A G c)"
  "(\<And>rq r. P (HTTPDo rq r)) \<Longrightarrow> only P (bot_Stop A G c)"
  by (auto simp: endpoint_defs intro!: only_intro)

lemma only_reconcileStateAndComputeRequeue [only_intro]:
  "\<lbrakk>\<And>k r. P (GetBetaTradeBot k r); \<And>b r. P (StatusUpdateBetaTradeBot b r); \<And>a b c. P (Recorded a b c);
    \<And>k r. P (GetTradeBotConfig k r); \<And>k r. P (GetSecret k r); \<And>rq r. P (HTTPDo rq r)\<rbrakk>
    \<Longrightarrow> only P (reconcileStateAndComputeRequeue A K G R key tb d)"
  unfolding reconcileStateAndComputeRequeue_def reconcileState_def reconcileStateChange_def
    do_GetBetaTradeBot_def Let_def
  by (intro only_intro)

lemma only_reconcile_status [only_intro]:
  "\<lbrakk>\<And>k r. P (GetBetaTradeBot k r); \<And>b r. P (StatusUpdateBetaTradeBot b r); \<And>a b c. P (Recorded a b c);
    \<And>n l. P (MetricInc n l); \<And>k r. P (GetStatefulSet k r);
    \<And>k r. P (GetTradeBotConfig k r); \<And>k r. P (GetSecret k r); \<And>rq r. P (HTTPDo rq r)\<rbrakk>
    \<Longrightarrow> only P (reconcile_status A K G R key tb w out)"
  unfolding reconcile_status_def Let_def by (intro only_intro)

section \<open>A TradeBot's spec survives every write\<close>

lemma spec_keeping_failReconcile [keeps_intro]: "spec_keeping (failReconcile A K R tb ty rs m e)"
  unfolding failReconcile_def
  by (intro keeps_intro) (auto intro!: keeps_only only_intro)

lemma spec_keeping_update:
  "spec_keeping (do {
     g \<leftarrow> do_GetBetaTradeBot A key;
     case g of
       Inl e \<Rightarrow> State_Monad.return (f e)
     | Inr b \<Rightarrow> do {
         u \<leftarrow> do_UpdateBetaTradeBot A (with_finalizers (fin b) b);
         State_Monad.return (h u) } })"
  unfolding keeps_def call_defs
proof (rule emits_bind [OF emits_call [where Q = "\<lambda>r t. t = [GetBetaTradeBot key r]"]], rule refl,
    rule emits_case_sum)
  fix x t b
  assume "t = [GetBetaTradeBot key x]" "x = Inr b"
  then show "emits (do {
         u \<leftarrow> call (api_UpdateBetaTradeBot A (with_finalizers (fin b) b))
           (UpdateBetaTradeBot (with_finalizers (fin b) b));
         State_Monad.return (h u) }) (\<lambda>_ u. backed (\<lambda>e. tradebot_write e \<noteq> None) spec_kept (t @ u))"
    by (intro emits_bind [OF emits_call [where
          Q = "\<lambda>r t. t = [UpdateBetaTradeBot (with_finalizers (fin b) b) r]"]] emits_return)
       (auto simp: spec_kept_def with_finalizers_def intro: backed_snoc [where t = "[x]" for x, simplified]
         simp: backed_def less_Suc_eq)
qed (auto intro!: emits_return simp: backed_def)

lemma spec_keeping_Reconcile: "spec_keeping (Reconcile A K G R key)"
proof -
  have fin: "spec_keeping (finalizeTradeBot A G R tb)" for tb
    by (intro keeps_only only_intro) simp_all
  have other: "spec_keeping (fetchReferencedResources A tb ns)" "spec_keeping (BuildConfig A G n ns s c)"
      "spec_keeping (reconcileResources A K R tb st cd fs)" "spec_keeping (recordLifecycleEvents K R tb b)"
      "spec_keeping (computeWorkloadStatus A tb)" for tb ns n s c st cd fs b
    by (intro keeps_only only_intro; simp)+
  have status: "spec_keeping (reconcile_status A K G R key tb w out)" for tb w out
    unfolding reconcile_status_def Let_def by (intro keeps_intro other)
  have live: "spec_keeping (reconcile_live A K G R key tb)" for tb
    unfolding reconcile_live_def do_ListFreqUI_def Let_def by (intro keeps_intro other status) simp_all
  have del: "spec_keeping (reconcile_deletion A K G R tb)" for tb
  proof -
    let ?done = "\<lambda>e. if IsNotFound e then mk_result 0 None else mk_result (5 * Second) (Some e)"
    have *: "(if b then State_Monad.return x else State_Monad.return y)
        = State_Monad.return (if b then x else y)" for b and x y :: reconcile_result
      by simp
    show ?thesis
      unfolding reconcile_deletion_def *
      by (intro keeps_if keeps_bind fin keeps_case_sum keeps_return spec_keeping_update)
  qed
  have add: "spec_keeping (reconcile_add_finalizer A K key)"
    unfolding reconcile_add_finalizer_def by (rule spec_keeping_update)
  show ?thesis
    unfolding Reconcile_def do_GetTradeBot_def by (intro keeps_intro del add live) simp
qed

section \<open>When the finalizer goes\<close>

text \<open>An update that leaves a TradeBot without the operator's finalizer.\<close>

definition releases :: "klib \<Rightarrow> event \<Rightarrow> bool" where
  "releases K e = (case e of
       UpdateBetaTradeBot b r \<Rightarrow> \<not> ContainsFinalizer K (om_Finalizers (btb_meta b)) BotFinalizer
     | _ \<Rightarrow> False)"

text \<open>\<open>may_release\<close>: the bot was read with a deletion timestamp, and its workload is gone or its
  grace period over.\<close>

definition may_release :: "'e api \<Rightarrow> reconciler \<Rightarrow> nname \<Rightarrow> event list \<Rightarrow> bool" where
  "may_release A R key t \<longleftrightarrow> (\<exists>tb. GetTradeBot key (Inr tb) \<in> set t
     \<and> om_DeletionTimestamp (tb_meta tb) \<noteq> None
     \<and> (grace_exceeded A R tb \<or> (\<exists>e \<in> set t. workload_gone tb e)))"

lemma releases_simps [simp]:
  "\<not> releases K (GetTradeBot k x)" "\<not> releases K (GetBetaTradeBot k b)"
  "\<not> releases K (StatusUpdateBetaTradeBot bb r)" "\<not> releases K (Recorded a s c)" "\<not> releases K (MetricInc n l)"
  "\<not> releases K (GetStatefulSet k g)" "\<not> releases K (GetTradeBotConfig k h)" "\<not> releases K (GetSecret k i)"
  "\<not> releases K (HTTPDo rq rp)" "\<not> releases K (GetStrategy k j)" "\<not> releases K (ListFreqUI ns fl)"
  "\<not> releases K (MetricObserve n)" "\<not> releases K (ApplyPatch m r)" "\<not> releases K (GetPVC k pp)"
  "\<not> releases K (UpdatePVC pv r)" "\<not> releases K (UpdateStatefulSet ss r)"
  by (simp_all add: releases_def)

lemma only_reconcile_live [only_intro]:
  "\<lbrakk>\<And>k r. P (GetBetaTradeBot k r); \<And>b r. P (StatusUpdateBetaTradeBot b r); \<And>a b c. P (Recorded a b c);
    \<And>n l. P (MetricInc n l); \<And>k r. P (GetStatefulSet k r); \<And>k r. P (GetTradeBotConfig k r);
    \<And>k r. P (GetSecret k r); \<And>rq r. P (HTTPDo rq r); \<And>k r. P (GetStrategy k r); \<And>ns r. P (ListFreqUI ns r);
    \<And>n. P (MetricObserve n); \<And>m r. P (ApplyPatch m r)\<rbrakk>
    \<Longrightarrow> only P (reconcile_live A K G R key tb)"
  unfolding reconcile_live_def do_ListFreqUI_def Let_def by (intro only_intro)

lemma add_finalizer_quiet:
  assumes "klib_laws K"
  shows "only (\<lambda>e. \<not> releases K e) (reconcile_add_finalizer A K key)"
proof -
  have "ContainsFinalizer K (AddFinalizer K fs BotFinalizer) BotFinalizer" for fs
    using assms finalizer_ops.contains_add unfolding klib_laws_def by fast
  then show ?thesis
    unfolding reconcile_add_finalizer_def call_defs
    by (intro only_intro) (simp_all add: releases_def with_finalizers_def)
qed

lemma deletion_releases:
  "emits (reconcile_deletion A K G R tb) (\<lambda>_ t. (\<exists>e \<in> set t. releases K e) \<longrightarrow>
     grace_exceeded A R tb \<or> (\<exists>e \<in> set t. workload_gone tb e))"
proof -
  let ?Q = "\<lambda>t. (\<exists>e \<in> set t. releases K e) \<longrightarrow> grace_exceeded A R tb \<or> (\<exists>e \<in> set t. workload_gone tb e)"
  have fin: "emits (finalizeTradeBot A G R tb) (\<lambda>r t. list_all (\<lambda>e. \<not> releases K e) t \<and>
      (r = Inr True \<longrightarrow> grace_exceeded A R tb \<or> (\<exists>e \<in> set t. workload_gone tb e)))"
    by (rule emits_conj [OF _ finalizeTradeBot_emits], fold only_def, intro only_intro) simp_all
  show ?thesis
    unfolding reconcile_deletion_def
    by (intro emits_if emits_bind [OF fin] emits_case_sum emits_return
        emits_of_only [where P = "\<lambda>_. True" and m = "State_Monad.bind (do_GetBetaTradeBot A k) f" for k f])
       (auto simp: call_defs list_all_iff intro!: only_intro)
qed

text \<open>No reconcile takes the finalizer away from a bot whose workload may still be running, unless
  the grace period is over.\<close>

lemma Reconcile_releases:
  assumes "klib_laws K"
  shows "emits (Reconcile A K G R key) (\<lambda>_ t. (\<exists>e \<in> set t. releases K e) \<longrightarrow> may_release A R key t)"
  unfolding Reconcile_def do_GetTradeBot_def
proof (rule emits_bind [OF emits_call [where Q = "\<lambda>r t. t = [GetTradeBot key r]"]], rule refl,
    rule emits_case_sum, rule emits_return, simp, intro emits_if)
  fix x t tb
  assume t: "t = [GetTradeBot key x]" "x = Inr tb"
  {
    assume "om_DeletionTimestamp (tb_meta tb) \<noteq> None"
    with t show "emits (reconcile_deletion A K G R tb)
        (\<lambda>_ u. (\<exists>e \<in> set (t @ u). releases K e) \<longrightarrow> may_release A R key (t @ u))"
      by (intro emits_conseq [OF deletion_releases]) (auto simp: may_release_def)
  next
    show "emits (reconcile_add_finalizer A K key)
        (\<lambda>_ u. (\<exists>e \<in> set (t @ u). releases K e) \<longrightarrow> may_release A R key (t @ u))"
      by (rule emits_of_only [OF add_finalizer_quiet [OF assms]]) (use t in \<open>auto simp: list_all_iff\<close>)
  next
    have "only (\<lambda>e. \<not> releases K e) (reconcile_live A K G R key tb)"
      by (intro only_intro) simp_all
    then show "emits (reconcile_live A K G R key tb)
        (\<lambda>_ u. (\<exists>e \<in> set (t @ u). releases K e) \<longrightarrow> may_release A R key (t @ u))"
      by (rule emits_of_only) (use t in \<open>auto simp: list_all_iff\<close>)
  }
qed

section \<open>The config hash a reconcile applies\<close>

lemma applies_sts_other [simp]:
  "applies_sts (GetTradeBot k a) = None" "applies_sts (GetBetaTradeBot k b) = None"
  "applies_sts (StatusUpdateBetaTradeBot bb r) = None" "applies_sts (MetricInc n l) = None"
  "applies_sts (GetTradeBotConfig k h) = None" "applies_sts (GetSecret k i) = None"
  "applies_sts (HTTPDo rq rp) = None" "applies_sts (GetStrategy k j) = None"
  "applies_sts (ListFreqUI ns fl) = None" "applies_sts (MetricObserve n) = None"
  "applies_sts (GetPVC k pp) = None" "applies_sts (UpdatePVC pv r) = None"
  "applies_sts (UpdateStatefulSet ss r) = None" "applies_sts (UpdateBetaTradeBot bb r) = None"
  by (simp_all add: applies_sts_def)

definition hashes_settled :: "tradebot \<Rightarrow> event list \<Rightarrow> bool" where
  "hashes_settled tb t \<longleftrightarrow>
     sofar (\<lambda>p e. \<forall>s. applies_sts e = Some s \<longrightarrow> (\<exists>fresh. settles tb fresh p (template_hash s))) t"

lemma hashes_settled_quiet: "list_all (\<lambda>e. applies_sts e = None) t \<Longrightarrow> hashes_settled tb t"
  unfolding hashes_settled_def by (rule sofar_list_all) (auto simp: list_all_iff)

lemma hashes_settled_append:
  assumes "hashes_settled tb t" "hashes_settled tb u"
  shows "hashes_settled tb (t @ u)"
proof -
  have "sofar (\<lambda>p e. \<forall>s. applies_sts e = Some s \<longrightarrow> (\<exists>fresh. settles tb fresh (t @ p) (template_hash s))) u"
    using assms(2) unfolding hashes_settled_def
    by (rule sofar_mono) (metis settles_mono set_append Un_upper2)
  with assms(1) show ?thesis by (simp add: hashes_settled_def sofar_append)
qed

lemmas hashes_settled_pre = hashes_settled_append [OF hashes_settled_quiet]
lemmas hashes_settled_post = hashes_settled_append [OF _ hashes_settled_quiet]

lemma pass_hashes_settled: "pass_ok tb fresh r t \<Longrightarrow> hashes_settled tb t"
  unfolding pass_ok_def hashes_settled_def by (blast intro: sofar_mono)

lemma live_hashes_settled:
  assumes K: "klib_laws K"
  shows "emits (reconcile_live A K G R key tb) (\<lambda>_ t. hashes_settled tb t)"
proof -
  let ?q = "\<lambda>e. applies_sts e = None"
  have fail: "only ?q (failReconcile A K R tb ty rs m e)" for ty rs m e by (intro only_intro) simp_all
  have stat: "only ?q (reconcile_status A K G R key tb w out)" for w out by (intro only_intro) simp_all
  have refs: "only ?q (fetchReferencedResources A tb ns)" for ns by (intro only_intro) simp_all
  have build: "only ?q (BuildConfig A G n ns sp c)" for n ns sp c by (intro only_intro) simp_all
  have list: "only ?q (do_ListFreqUI A ns)" for ns unfolding call_defs by (intro only_intro) simp_all
  have obs: "only ?q (emit (MetricObserve n))" for n by (intro only_intro) simp_all
  have res: "emits (reconcileResources A K R tb st cd fs) (\<lambda>_ t. hashes_settled tb t)" for st cd fs
    by (rule emits_conseq [OF reconcileResources_pass [OF K]]) (rule pass_hashes_settled)
  have tail: "emits (do {
      out \<leftarrow> reconcileResources A K R tb st cd fs;
      case out of
        Inl e \<Rightarrow> failReconcile A K R tb ty rs (m e) (Some e)
      | Inr outcome \<Rightarrow> reconcile_status A K G R key tb w outcome }) (\<lambda>_ t. hashes_settled tb t)"
    for st cd fs ty rs m w
    by (rule emits_bind [OF res], rule emits_case_sum, rule emits_of_only [OF fail], erule (1) hashes_settled_post,
        rule emits_of_only [OF stat], erule (1) hashes_settled_post)
  note part = hashes_settled_quiet hashes_settled_pre
  show ?thesis
    unfolding reconcile_live_def Let_def
    by (intro emits_if emits_of_only [OF fail] emits_case_sum emits_bind_only [OF refs]
        emits_bind_only [OF list] emits_bind_only [OF build] emits_bind_only [OF obs] emits_return tail)
       (auto intro: part)
qed

text \<open>In a whole reconcile: the read of the bot decides between the two update strategies.\<close>

definition hash_backed :: "nname \<Rightarrow> event list \<Rightarrow> event \<Rightarrow> bool" where
  "hash_backed key p e \<longleftrightarrow> (\<forall>s. applies_sts e = Some s \<longrightarrow>
     (\<exists>tb fresh. GetTradeBot key (Inr tb) \<in> set p \<and> settles tb fresh p (template_hash s)))"

lemma Reconcile_hashes:
  assumes K: "klib_laws K"
  shows "emits (Reconcile A K G R key) (\<lambda>_ t. sofar (hash_backed key) t)"
proof -
  have del: "only (\<lambda>e. applies_sts e = None) (reconcile_deletion A K G R tb)" for tb
    unfolding reconcile_deletion_def call_defs by (intro only_intro) simp_all
  have add: "only (\<lambda>e. applies_sts e = None) (reconcile_add_finalizer A K key)"
    unfolding reconcile_add_finalizer_def call_defs by (intro only_intro) simp_all
  have quiet: "sofar (hash_backed key) (GetTradeBot key x # u)" if "list_all (\<lambda>e. applies_sts e = None) u" for x u
    using that by (intro sofar_list_all) (auto simp: list_all_iff hash_backed_def)
  have live: "sofar (hash_backed key) (GetTradeBot key (Inr tb) # u)" if "hashes_settled tb u" for tb u
  proof -
    have "settles tb f p h \<Longrightarrow> settles tb f (GetTradeBot key (Inr tb) # p) h" for f p h
      by (rule settles_mono) auto
    then have "sofar (\<lambda>p e. hash_backed key (GetTradeBot key (Inr tb) # p) e) u"
      using that unfolding hashes_settled_def
      by (elim sofar_mono) (metis hash_backed_def list.set_intros(1))
    then show ?thesis by (simp add: sofar_Cons hash_backed_def)
  qed
  show ?thesis
    unfolding Reconcile_def do_GetTradeBot_def
    by (rule emits_bind [OF emits_call [where Q = "\<lambda>r t. t = [GetTradeBot key r]"]], rule refl,
        rule emits_case_sum, rule emits_return, use quiet [of "[]"] in simp,
        intro emits_if emits_of_only [OF del] emits_of_only [OF add]
          emits_conseq [OF live_hashes_settled [OF K]])
       (simp_all add: quiet live)
qed

section \<open>State changes\<close>

lemma success_mutate_keeps [simp]:
  "tb_meta (success_mutate K w m out now t) = tb_meta t"
  "tb_Spec (success_mutate K w m out now t) = tb_Spec t"
  "st_Bot (tb_Status (success_mutate K w m out now t)) = st_Bot (tb_Status t)"
  by (simp_all add: success_mutate_def with_phase_def Let_def)

lemma configDrift_type [simp]: "cd_Type (configDriftCondition n ns g d) = ConditionConfigDrift"
  by (simp add: configDriftCondition_def)

lemma success_mutate_reachable:
  assumes "klib_laws K"
  shows "IsStatusConditionTrue K (st_Conditions (tb_Status (success_mutate K w m out now t))) ConditionBotReachable
     = IsStatusConditionTrue K (st_Conditions (tb_Status t)) ConditionBotReachable"
  using assms meta_conditions.is_true_set unfolding klib_laws_def
  by (fastforce simp: success_mutate_def with_phase_def Let_def)

text \<open>The last state the poller recorded on the stored object.\<close>

definition observed_beta :: "betatradebot \<Rightarrow> string" where
  "observed_beta b = (case bst_Bot (btb_Status b) of None \<Rightarrow> ''unknown'' | Some s \<Rightarrow> bbs_State s)"

lemma observed_copy [simp]: "observed_state (copyTradeBotStatusFromBeta t b) = observed_beta b"
  by (simp add: observed_state_def observed_beta_def bot_from_beta_def split: option.split)

lemma observed_success [simp]: "observed_state (success_mutate K w m out now t) = observed_state t"
  by (simp add: observed_state_def)

lemma aligning_meta: "tb_meta t = tb_meta tb \<Longrightarrow> aligning_call t d e = aligning_call tb d e"
  by (simp add: aligning_call_def botBaseURL_def)

text \<open>\<open>calls_ok\<close>: at most one call that changes the bot, justified by the stored status (reachable,
  in another state) and the stored \<open>spec.state\<close>, both read in the same reconcile.\<close>

definition call_justified :: "klib \<Rightarrow> nname \<Rightarrow> tradebot \<Rightarrow> event list \<Rightarrow> event \<Rightarrow> bool" where
  "call_justified K key tb t e \<longleftrightarrow> (\<exists>seen want.
     GetBetaTradeBot (key_of_meta (tb_meta tb)) (Inr seen) \<in> set t \<and> GetBetaTradeBot key (Inr want) \<in> set t
     \<and> aligning_call tb (desired_state want) e
     \<and> IsStatusConditionTrue K (bst_Conditions (btb_Status seen)) ConditionBotReachable
     \<and> \<not> state_matches (desired_state want) (observed_beta seen))"

definition calls_ok :: "klib \<Rightarrow> nname \<Rightarrow> tradebot \<Rightarrow> event list \<Rightarrow> bool" where
  "calls_ok K key tb t \<longleftrightarrow> length (filter changes_bot t) \<le> 1
     \<and> (\<forall>e \<in> set t. changes_bot e \<longrightarrow> call_justified K key tb t e)"

lemma calls_ok_quiet: "list_all (\<lambda>e. \<not> changes_bot e) t \<Longrightarrow> calls_ok K key tb t"
  by (simp add: calls_ok_def list_all_iff)

lemma calls_ok_pre: "\<lbrakk>list_all (\<lambda>e. \<not> changes_bot e) t; calls_ok K key tb u\<rbrakk> \<Longrightarrow> calls_ok K key tb (t @ u)"
  by (fastforce simp: calls_ok_def list_all_iff call_justified_def)

lemma state_change_justified:
  assumes K: "klib_laws K" and quiet: "list_all (\<lambda>e. \<not> changes_bot e) t" "list_all (\<lambda>e. \<not> changes_bot e) v"
    and seen: "GetBetaTradeBot (key_of_meta (tb_meta tb)) (Inr b) \<in> set t"
    and tb': "tb' = success_mutate K w m out now (copyTradeBotStatusFromBeta tb b)"
    and u: "length (filter changes_bot u) \<le> 1 \<and> (\<forall>e \<in> set u. changes_bot e \<longrightarrow>
      (\<exists>want. GetBetaTradeBot key (Inr want) \<in> set u \<and> aligning_call tb' (desired_state want) e
         \<and> IsStatusConditionTrue K (st_Conditions (tb_Status tb')) ConditionBotReachable
         \<and> \<not> state_matches (desired_state want) (observed_state tb')))"
  shows "calls_ok K key tb (t @ v @ u)"
proof -
  have reach: "IsStatusConditionTrue K (st_Conditions (tb_Status tb')) ConditionBotReachable
      = IsStatusConditionTrue K (bst_Conditions (btb_Status b)) ConditionBotReachable"
    by (simp add: tb' success_mutate_reachable [OF K])
  have "observed_state tb' = observed_beta b" by (simp add: tb')
  moreover have "aligning_call tb' d e = aligning_call tb d e" for d e
    by (rule aligning_meta) (simp add: tb')
  note same = calculation this
  have "call_justified K key tb (t @ v @ u) e" if e: "e \<in> set u" "changes_bot e" for e
  proof -
    from u e obtain want where "GetBetaTradeBot key (Inr want) \<in> set u"
      "aligning_call tb' (desired_state want) e"
      "IsStatusConditionTrue K (st_Conditions (tb_Status tb')) ConditionBotReachable"
      "\<not> state_matches (desired_state want) (observed_state tb')" by blast
    with same reach seen show ?thesis
      unfolding call_justified_def by (intro exI [of _ b] exI [of _ want]) simp
  qed
  moreover have "filter changes_bot (t @ v @ u) = filter changes_bot u"
    using quiet by (simp add: list_all_iff)
  ultimately show ?thesis
    using u quiet by (auto simp: calls_ok_def list_all_iff)
qed

lemma status_calls_ok:
  assumes K: "klib_laws K"
  shows "emits (reconcile_status A K G R key tb cw out) (\<lambda>_ t. calls_ok K key tb t)"
proof -
  let ?q = "\<lambda>e. \<not> changes_bot e"
  have fail: "only ?q (failReconcile A K R tb ty rs m e)" for ty rs m e by (intro only_intro) simp_all
  have ws: "only ?q (computeWorkloadStatus A tb)" by (intro only_intro) simp_all
  have ev: "only ?q (recordLifecycleEvents K R t b)" for t b by (intro only_intro) simp_all
  have patch: "emits (patchTradeBotStatus A K tb mu) (\<lambda>r t. list_all ?q t \<and> (\<forall>tb'. r = Inr tb' \<longrightarrow>
      (\<exists>b now. GetBetaTradeBot (key_of_meta (tb_meta tb)) (Inr b) \<in> set t
         \<and> tb' = mu now (copyTradeBotStatusFromBeta tb b))))" for mu
    by (rule emits_conj [OF _ patchTradeBotStatus_result], fold only_def, intro only_intro) simp_all
  have state: "emits (reconcileStateAndComputeRequeue A K G R key tb' d) (\<lambda>_ u. calls_ok K key tb (t @ v @ u))"
    if "list_all ?q t" "list_all ?q v" "GetBetaTradeBot (key_of_meta (tb_meta tb)) (Inr b) \<in> set t"
      "tb' = success_mutate K w m out now (copyTradeBotStatusFromBeta tb b)" for tb' t v b now w m d
    using emits_conseq [OF reconcileStateAndComputeRequeue_one_call state_change_justified [OF K that]] .
  have tail: "emits (do {
      p \<leftarrow> patchTradeBotStatus A K tb (success_mutate K w m out);
      case p of
        Inl e \<Rightarrow> State_Monad.return (mk_result (5 * Second) (Some e))
      | Inr tb' \<Rightarrow> do {
          _ \<leftarrow> recordLifecycleEvents K R tb' (b tb');
          s \<leftarrow> reconcileStateAndComputeRequeue A K G R key tb' d;
          State_Monad.return (f s) } }) (\<lambda>_ t. calls_ok K key tb t)"
    for w m d b and f :: "duration \<times> goerr option \<Rightarrow> reconcile_result"
    by (rule emits_bind [OF patch], rule emits_case_sum, rule emits_return,
        use calls_ok_quiet in simp, elim conjE allE impE, assumption, elim exE conjE,
        rule emits_bind [OF ev [unfolded only_def]], rule emits_bind [OF state], assumption+)
       (auto intro!: emits_return)
  show ?thesis
    unfolding reconcile_status_def Let_def
    by (rule emits_bind_only [OF ws], rule emits_case_sum, rule emits_of_only [OF fail],
        erule calls_ok_quiet, rule tail, erule (1) calls_ok_pre)
qed

lemma live_calls_ok:
  assumes K: "klib_laws K"
  shows "emits (reconcile_live A K G R key tb) (\<lambda>_ t. calls_ok K key tb t)"
proof -
  let ?q = "\<lambda>e. \<not> changes_bot e"
  have fail: "only ?q (failReconcile A K R tb ty rs m e)" for ty rs m e by (intro only_intro) simp_all
  have refs: "only ?q (fetchReferencedResources A tb ns)" for ns by (intro only_intro) simp_all
  have build: "only ?q (BuildConfig A G n ns sp c)" for n ns sp c by (intro only_intro) simp_all
  have list: "only ?q (do_ListFreqUI A ns)" for ns unfolding call_defs by (intro only_intro) simp_all
  have obs: "only ?q (emit (MetricObserve n))" for n by (intro only_intro) simp_all
  have res: "only ?q (reconcileResources A K R tb st cd fs)" for st cd fs by (intro only_intro) simp_all
  show ?thesis
    unfolding reconcile_live_def Let_def
    by (intro emits_if emits_of_only [OF fail] emits_case_sum emits_bind_only [OF refs]
        emits_bind_only [OF list] emits_bind_only [OF build] emits_bind_only [OF obs]
        emits_bind_only [OF res] emits_return status_calls_ok [OF K])
       (auto intro: calls_ok_quiet calls_ok_pre)
qed

end
