(* ===== verification/TradeBotConditions.thy ===== *)
theory TradeBotConditions
  imports TradeBotReconcile
begin

text \<open>What the TradeBot reconciler reports: the conditions and the phase after a success and after
  each failure, on the objects that are actually written, and the guard in front of every action.\<close>

section \<open>Reading conditions back\<close>

definition seen :: "klib \<Rightarrow> condition list \<Rightarrow> string \<Rightarrow> (condstatus \<times> string \<times> string) option" where
  "seen K cs ty = map_option (\<lambda>c. (cd_Status c, cd_Reason c, cd_Message c)) (FindStatusCondition K cs ty)"

lemma seen_set:
  assumes "klib_laws K"
  shows "seen K (SetStatusCondition K now c cs) ty =
     (if ty = cd_Type c then Some (cd_Status c, cd_Reason c, cd_Message c) else seen K cs ty)"
proof -
  from assms have "meta_conditions (SetStatusCondition K) (FindStatusCondition K) (IsStatusConditionTrue K)"
    by (simp add: klib_laws_def)
  from meta_conditions.observed_set [OF this] meta_conditions.observed_def [OF this]
  show ?thesis by (simp add: seen_def)
qed

lemma seen_true:
  assumes "klib_laws K"
  shows "IsStatusConditionTrue K cs ty \<longleftrightarrow> (\<exists>r m. seen K cs ty = Some (ConditionTrue, r, m))"
  using assms meta_conditions.is_true_iff unfolding klib_laws_def seen_def by fastforce

text \<open>The phase depends on the conditions only through what can be read back.\<close>

lemma derive_seen:
  "deriveTradeBotPhase K cs =
    (case seen K cs ConditionConfigResolved of
       Some (ConditionFalse, r, m) \<Rightarrow> if r = ReasonReferenceNotFound then ''Error'' else ''ConfigError''
     | _ \<Rightarrow> (case seen K cs ConditionWorkloadReady of
         None \<Rightarrow> []
       | Some (s, r, m) \<Rightarrow> if r = ReasonWorkloadHealthy then ''Running''
           else if r = ReasonReconcileError then ''ResourceError'' else ''Pending''))"
  by (auto simp: deriveTradeBotPhase_def workload_phase_def seen_def split: option.splits condstatus.splits)

section \<open>After a success\<close>

abbreviation "conds t \<equiv> st_Conditions (tb_Status t)"

lemma with_phase_simps [simp]:
  "conds (with_phase K m t) = conds t" "st_Message (tb_Status (with_phase K m t)) = m"
  "st_Phase (tb_Status (with_phase K m t)) = deriveTradeBotPhase K (conds t)"
  "st_AppliedConfigHash (tb_Status (with_phase K m t)) = st_AppliedConfigHash (tb_Status t)"
  "st_ResolvedImage (tb_Status (with_phase K m t)) = st_ResolvedImage (tb_Status t)"
  by (simp_all add: with_phase_def)

lemma success_seen:
  assumes K: "klib_laws K"
  shows "seen K (conds (success_mutate K w m out now t)) ty =
    (if ty = ConditionConfigDrift
     then (let c = configDriftCondition (tb_Name t) (tb_Namespace t) (om_Generation (tb_meta t)) (ro_configDrift out)
           in Some (cd_Status c, cd_Reason c, cd_Message c))
     else if ty = ConditionReady
     then Some (if ws_ready w then ConditionTrue else ConditionFalse,
                if ws_ready w then ReasonWorkloadHealthy else ReasonWorkloadProgressing, m)
     else if ty = ConditionWorkloadReady
     then Some (if ws_ready w then ConditionTrue else ConditionFalse,
                if ws_ready w then ReasonWorkloadHealthy else ReasonWorkloadProgressing, ws_message w)
     else if ty = ConditionConfigResolved then Some (ConditionTrue, ReasonAsExpected, [])
     else seen K (conds t) ty)"
  by (simp add: success_mutate_def Let_def seen_set [OF K])

lemma success_status:
  "tb_Status (success_mutate K w m out now t) = (tb_Status t)\<lparr>
     st_Conditions := conds (success_mutate K w m out now t),
     st_AppliedConfigHash := ro_appliedConfigHash out, st_ResolvedImage := ro_resolvedImage out,
     st_Phase := deriveTradeBotPhase K (conds (success_mutate K w m out now t)), st_Message := m\<rparr>"
  by (simp add: success_mutate_def Let_def with_phase_def set_cond_def)

lemma success_phase:
  assumes K: "klib_laws K"
  shows "st_Phase (tb_Status (success_mutate K w m out now t)) = (if ws_ready w then ''Running'' else ''Pending'')"
  by (subst success_status) (simp add: derive_seen success_seen [OF K])

section \<open>After a failure\<close>

lemma fail_seen:
  assumes K: "klib_laws K"
  shows "seen K (conds (fail_mutate K ty rs m now t)) x =
    (if x = ConditionReady \<or> x = ty then Some (ConditionFalse, rs, m) else seen K (conds t) x)"
  by (simp add: fail_mutate_def seen_set [OF K])

text \<open>A configuration failure always shows in the phase. A resource failure shows as ResourceError
  unless an earlier configuration failure is still on record.\<close>

lemma fail_phase_config:
  assumes K: "klib_laws K"
  shows "st_Phase (tb_Status (fail_mutate K ConditionConfigResolved rs m now t))
     = (if rs = ReasonReferenceNotFound then ''Error'' else ''ConfigError'')"
proof -
  have "st_Phase (tb_Status (fail_mutate K ConditionConfigResolved rs m now t))
      = deriveTradeBotPhase K (conds (fail_mutate K ConditionConfigResolved rs m now t))"
    by (simp add: fail_mutate_def)
  then show ?thesis by (simp add: derive_seen fail_seen [OF K])
qed

lemma fail_phase_workload:
  assumes K: "klib_laws K"
  shows "st_Phase (tb_Status (fail_mutate K ConditionWorkloadReady ReasonReconcileError m now t))
     = (case seen K (conds t) ConditionConfigResolved of
         Some (ConditionFalse, r, _) \<Rightarrow> if r = ReasonReferenceNotFound then ''Error'' else ''ConfigError''
       | _ \<Rightarrow> ''ResourceError'')"
proof -
  have "st_Phase (tb_Status (fail_mutate K ConditionWorkloadReady ReasonReconcileError m now t))
      = deriveTradeBotPhase K (conds (fail_mutate K ConditionWorkloadReady ReasonReconcileError m now t))"
    by (simp add: fail_mutate_def)
  then show ?thesis
    by (simp add: derive_seen fail_seen [OF K] split: option.split condstatus.split)
qed

section \<open>The object that is written\<close>

definition persisted :: "betatradebot \<Rightarrow> tradebot \<Rightarrow> betatradebot" where
  "persisted b t = tradebot_SetObservedGeneration (om_Generation (btb_meta b)) (copyTradeBotStatusToBeta b t)"

lemma persisted_simps [simp]:
  "btb_meta (persisted b t) = btb_meta b" "btb_Spec (persisted b t) = btb_Spec b"
  "bst_Conditions (btb_Status (persisted b t)) = conds t"
  "bst_Message (btb_Status (persisted b t)) = st_Message (tb_Status t)"
  "bst_Phase (btb_Status (persisted b t)) = st_Phase (tb_Status t)"
  "bst_ObservedGeneration (btb_Status (persisted b t)) = om_Generation (btb_meta b)"
  "bst_AppliedConfigHash (btb_Status (persisted b t)) = st_AppliedConfigHash (tb_Status t)"
  "bst_ResolvedImage (btb_Status (persisted b t)) = st_ResolvedImage (tb_Status t)"
  by (simp_all add: persisted_def tradebot_SetObservedGeneration_def copyTradeBotStatusToBeta_def)

text \<open>Every status write of a patch is the object just read with its status mutated and the observed
  generation set to the object's own.\<close>

definition writes_of :: "(betatradebot \<Rightarrow> bool) \<Rightarrow> event list \<Rightarrow> bool" where
  "writes_of P t \<longleftrightarrow> list_all (\<lambda>e. case e of StatusUpdateBetaTradeBot b r \<Rightarrow> P b | _ \<Rightarrow> True) t"

lemma writes_of_append [simp]: "writes_of P (t @ u) \<longleftrightarrow> writes_of P t \<and> writes_of P u"
  by (simp add: writes_of_def)

lemma writes_of_none: "list_all (\<lambda>e. written_tradebot e = None) t \<Longrightarrow> writes_of P t"
  by (auto simp: writes_of_def list_all_iff split: event.split)

lemma patched_persisted:
  "conditioned_object.patched (tradebot_cobj A K) (patch_mutate tb m) now b
     = persisted b (m now (copyTradeBotStatusFromBeta tb b))"
  unfolding tbobj.patched_def by (simp add: tradebot_cobj_def patch_mutate_def Let_def persisted_def)

lemma patch_writes:
  assumes "\<And>now b. P (persisted b (m now (copyTradeBotStatusFromBeta tb b)))"
  shows "emits (patchTradeBotStatus A K tb m) (\<lambda>_ t. writes_of P t)"
proof (rule emits_conseq [OF tbobj.PatchStatus_writes [where A = A and K = K and key = "key_of_meta (tb_meta tb)"
        and mutate = "patch_mutate tb m" and Aa = A and P = P, folded patchTradeBotStatus_def]])
  show "P (conditioned_object.patched (tradebot_cobj A K) (patch_mutate tb m) now b)" for now b
    by (simp add: patched_persisted assms)
qed (auto simp: writes_of_def list_all_iff split: event.splits)

text \<open>What a failed reconcile writes.\<close>

definition reports_failure :: "klib \<Rightarrow> string \<Rightarrow> string \<Rightarrow> string \<Rightarrow> betatradebot \<Rightarrow> bool" where
  "reports_failure K ty rs m b \<longleftrightarrow>
     seen K (bst_Conditions (btb_Status b)) ty = Some (ConditionFalse, rs, m)
     \<and> seen K (bst_Conditions (btb_Status b)) ConditionReady = Some (ConditionFalse, rs, m)
     \<and> bst_Message (btb_Status b) = m \<and> bst_ObservedGeneration (btb_Status b) = om_Generation (btb_meta b)
     \<and> bst_Phase (btb_Status b) = deriveTradeBotPhase K (bst_Conditions (btb_Status b))"

lemma fail_writes:
  assumes K: "klib_laws K"
  shows "emits (failReconcile A K R tb ty rs m e) (\<lambda>_ t. writes_of (reports_failure K ty rs m) t)"
proof -
  have tail: "only (\<lambda>e. written_tradebot e = None) (do {
      _ \<leftarrow> record_event x EventWarning rs m;
      _ \<leftarrow> emit (MetricInc n l);
      State_Monad.return d })" for x n l and d :: reconcile_result
    by (intro only_intro) simp_all
  have "reports_failure K ty rs m (persisted b (fail_mutate K ty rs m now t))" for b now t
    by (simp add: reports_failure_def fail_seen [OF K]) (simp add: fail_mutate_def)
  then have p: "emits (patchTradeBotStatus A K tb (fail_mutate K ty rs m))
      (\<lambda>_ t. writes_of (reports_failure K ty rs m) t)"
    by (rule patch_writes)
  show ?thesis
    unfolding failReconcile_def
    by (rule emits_bind [OF p], rule emits_case_sum, rule emits_return, simp,
        rule emits_of_only [OF tail]) (simp add: writes_of_none)
qed

section \<open>The guard in front of every action\<close>

text \<open>An action on the workload: applying an object, or a call that changes the bot.\<close>

fun acts :: "event \<Rightarrow> bool" where
  "acts (ApplyPatch m r) = True"
| "acts (HTTPDo rq r) = (rq_Method rq \<noteq> ''GET'')"
| "acts _ = False"

definition manageable :: "klib \<Rightarrow> tradebot \<Rightarrow> bool" where
  "manageable K tb \<longleftrightarrow> om_DeletionTimestamp (tb_meta tb) = None
     \<and> ContainsFinalizer K (om_Finalizers (tb_meta tb)) BotFinalizer \<and> isTradeMode tb"

lemma Reconcile_guarded:
  "emits (Reconcile A K G R key) (\<lambda>_ t. sofar (\<lambda>p e. acts e \<longrightarrow>
     (\<exists>tb. GetTradeBot key (Inr tb) \<in> set p \<and> manageable K tb)) t)"
proof -
  let ?P = "\<lambda>p e. acts e \<longrightarrow> (\<exists>tb. GetTradeBot key (Inr tb) \<in> set p \<and> manageable K tb)"
  have del: "only (\<lambda>e. \<not> acts e) (reconcile_deletion A K G R tb)" for tb
    unfolding reconcile_deletion_def call_defs by (intro only_intro) simp_all
  have add: "only (\<lambda>e. \<not> acts e) (reconcile_add_finalizer A K key)"
    unfolding reconcile_add_finalizer_def call_defs by (intro only_intro) simp_all
  have job: "only (\<lambda>e. \<not> acts e) (reconcile_live A K G R key tb)" if "\<not> isTradeMode tb" for tb
    using that unfolding reconcile_live_def isTradeMode_def Let_def
    by (simp, intro only_intro) simp_all
  have quiet: "sofar ?P (GetTradeBot key x # u)" if "list_all (\<lambda>e. \<not> acts e) u" for x u
    using that by (intro sofar_list_all) (simp add: list_all_iff)
  have live: "emits (reconcile_live A K G R key tb) (\<lambda>_ u. sofar ?P (GetTradeBot key (Inr tb) # u))"
    if "om_DeletionTimestamp (tb_meta tb) = None" "ContainsFinalizer K (om_Finalizers (tb_meta tb)) BotFinalizer"
    for tb
  proof (cases "isTradeMode tb")
    case False
    then show ?thesis by (intro emits_of_only [OF job] quiet)
  next
    case True
    with that have m: "manageable K tb" by (simp add: manageable_def)
    have "only (\<lambda>_. True) (reconcile_live A K G R key tb)" by (intro only_intro TrueI)
    then show ?thesis
      by (rule emits_of_only) (use m in \<open>auto simp: sofar_Cons intro!: sofar_list_all list_all_iff [THEN iffD2]\<close>)
  qed
  show ?thesis
    unfolding Reconcile_def do_GetTradeBot_def
    by (rule emits_bind [OF emits_call [where Q = "\<lambda>r t. t = [GetTradeBot key r]"]], rule refl,
        rule emits_case_sum, rule emits_return, use quiet [of "[]"] in simp,
        intro emits_if emits_of_only [OF del] emits_of_only [OF add])
       (use quiet live in auto)
qed

section \<open>CORS hosts\<close>

lemma distinct_append_new: "distinct acc \<Longrightarrow> distinct (append_new acc hs)"
  by (induction acc hs rule: append_new.induct) auto

lemma collect_fold:
  "set (foldl (\<lambda>acc f. if references tb f then append_new acc (cors_candidates G f) else acc) acc fs)
     = set acc \<union> (\<Union>f \<in> {f \<in> set fs. references tb f}. set (cors_candidates G f))"
  "distinct acc \<Longrightarrow>
     distinct (foldl (\<lambda>acc f. if references tb f then append_new acc (cors_candidates G f) else acc) acc fs)"
  by (induction fs arbitrary: acc) (auto simp: set_append_new distinct_append_new)

lemma collectCORS_set:
  "set (collectCORSHostsForTradeBot G tb fs) = (\<Union>f \<in> {f \<in> set fs. references tb f}. set (cors_candidates G f))"
  "distinct (collectCORSHostsForTradeBot G tb fs)" "sorted (collectCORSHostsForTradeBot G tb fs)"
  by (simp_all add: collectCORSHostsForTradeBot_def collect_fold)

lemma validate_ok: "validateCORSHosts hs = None \<longleftrightarrow>
    (\<forall>h \<in> set hs. HasPrefix h ''http://'' \<or> HasPrefix h ''https://'')"
  by (induction hs) auto

section \<open>Whole reconciles\<close>

text \<open>The pod template a reconcile applies under any strategy but Auto carries the hash the existing
  StatefulSet had, if it had one.\<close>

definition keeps_running_hash :: "nname \<Rightarrow> event list \<Rightarrow> event \<Rightarrow> bool" where
  "keeps_running_hash key p e \<longleftrightarrow> (\<forall>s r. e = ApplyPatch (MStatefulSet s) r \<longrightarrow>
     (\<exists>tb. GetTradeBot key (Inr tb) \<in> set p \<and> (tb_UpdateStrategy (tb_Spec tb) = ''Auto'' \<or>
        (\<exists>rd. GetStatefulSet (key_of_meta (tb_meta tb)) rd \<in> set p \<and>
           (case rd of
              Inr old \<Rightarrow> template_hash old \<noteq> [] \<longrightarrow> template_hash s = template_hash old
            | Inl err \<Rightarrow> IsNotFound err)))))"

lemma settles_manual:
  assumes "settles tb fresh p h" and "tb_UpdateStrategy (tb_Spec tb) \<noteq> ''Auto''"
  shows "\<exists>rd. GetStatefulSet (key_of_meta (tb_meta tb)) rd \<in> set p \<and>
     (case rd of Inr old \<Rightarrow> template_hash old \<noteq> [] \<longrightarrow> h = template_hash old | Inl err \<Rightarrow> IsNotFound err)"
  using assms unfolding settles_def by (auto split: sum.splits)

lemma hash_backed_kept:
  assumes "hash_backed key p e"
  shows "keeps_running_hash key p e"
  unfolding keeps_running_hash_def
proof (intro allI impI)
  fix s r
  assume "e = ApplyPatch (MStatefulSet s) r"
  with assms obtain tb fresh where "GetTradeBot key (Inr tb) \<in> set p" "settles tb fresh p (template_hash s)"
    unfolding hash_backed_def by auto
  with settles_manual [of tb fresh p "template_hash s"]
  show "\<exists>tb. GetTradeBot key (Inr tb) \<in> set p \<and> (tb_UpdateStrategy (tb_Spec tb) = ''Auto'' \<or>
      (\<exists>rd. GetStatefulSet (key_of_meta (tb_meta tb)) rd \<in> set p \<and>
         (case rd of Inr old \<Rightarrow> template_hash old \<noteq> [] \<longrightarrow> template_hash s = template_hash old
          | Inl err \<Rightarrow> IsNotFound err)))"
    by (intro exI [of _ tb] conjI) blast+
qed

lemma Reconcile_keeps_hash:
  "klib_laws K \<Longrightarrow> sofar (keeps_running_hash key) (events (Reconcile A K G R key) w)"
  by (rule sofar_mono [OF emitsD [OF Reconcile_hashes]]) (auto intro: hash_backed_kept)

text \<open>The calls of a whole reconcile.\<close>

definition reconcile_calls :: "klib \<Rightarrow> nname \<Rightarrow> event list \<Rightarrow> bool" where
  "reconcile_calls K key t \<longleftrightarrow> length (filter changes_bot t) \<le> 1
     \<and> (\<forall>e \<in> set t. changes_bot e \<longrightarrow>
          (\<exists>tb. GetTradeBot key (Inr tb) \<in> set t \<and> call_justified K key tb t e))"

lemma Reconcile_calls:
  assumes K: "klib_laws K"
  shows "emits (Reconcile A K G R key) (\<lambda>_ t. reconcile_calls K key t)"
proof -
  have quiet: "reconcile_calls K key (GetTradeBot key x # u)" if "list_all (\<lambda>e. \<not> changes_bot e) u" for x u
    using that by (simp add: reconcile_calls_def list_all_iff)
  have del: "only (\<lambda>e. \<not> changes_bot e) (reconcile_deletion A K G R tb)" for tb
    unfolding reconcile_deletion_def call_defs by (intro only_intro) simp_all
  have add: "only (\<lambda>e. \<not> changes_bot e) (reconcile_add_finalizer A K key)"
    unfolding reconcile_add_finalizer_def call_defs by (intro only_intro) simp_all
  have live: "reconcile_calls K key (GetTradeBot key (Inr tb) # u)" if "calls_ok K key tb u" for tb u
    using that unfolding reconcile_calls_def calls_ok_def call_justified_def by fastforce
  show ?thesis
    unfolding Reconcile_def do_GetTradeBot_def
    by (rule emits_bind [OF emits_call [where Q = "\<lambda>r t. t = [GetTradeBot key r]"]], rule refl,
        rule emits_case_sum, rule emits_return, use quiet [of "[]"] in simp,
        intro emits_if emits_of_only [OF del] emits_of_only [OF add] emits_conseq [OF live_calls_ok [OF K]])
       (simp_all add: quiet live)
qed

section \<open>A failed poll keeps the last good data\<close>

lemma patch_backed:
  "keeps (\<lambda>e. written_tradebot e \<noteq> None) (\<lambda>d e. \<exists>k b now r. d = GetBetaTradeBot k (Inr b)
     \<and> e = StatusUpdateBetaTradeBot (persisted b (m now (copyTradeBotStatusFromBeta tb b))) r)
     (patchTradeBotStatus A K tb m)"
  unfolding keeps_def
proof (rule emits_conseq [OF tbobj.PatchStatus_justified [where A = A and K = K and key = "key_of_meta (tb_meta tb)"
        and mutate = "patch_mutate tb m" and Aa = A, folded patchTradeBotStatus_def]])
  fix t
  assume "conditioned_object.justified (tradebot_cobj A K) read_tradebot written_tradebot (patch_mutate tb m) t"
  then show "backed (\<lambda>e. written_tradebot e \<noteq> None) (\<lambda>d e. \<exists>k b now r. d = GetBetaTradeBot k (Inr b)
     \<and> e = StatusUpdateBetaTradeBot (persisted b (m now (copyTradeBotStatusFromBeta tb b))) r) t"
    unfolding tbobj.justified_def
  proof (rule backed_mono)
    fix d e
    assume "\<exists>obj. written_tradebot e = Some obj
      \<and> conditioned_object.justifies (tradebot_cobj A K) read_tradebot (patch_mutate tb m) d obj"
    then obtain obj b now where o: "written_tradebot e = Some obj" "read_tradebot d = Some b"
        "obj = conditioned_object.patched (tradebot_cobj A K) (patch_mutate tb m) now b"
      unfolding tbobj.justifies_def by blast
    with patched_persisted [of A K tb m now b] show "\<exists>k b now r. d = GetBetaTradeBot k (Inr b)
        \<and> e = StatusUpdateBetaTradeBot (persisted b (m now (copyTradeBotStatusFromBeta tb b))) r"
      by (cases e rule: written_tradebot.cases; cases d rule: read_tradebot.cases) auto
  qed simp
qed

text \<open>What a failed poll leaves of the bot's data: everything but the time and error of the poll.\<close>

definition same_data :: "betabotstatus option \<Rightarrow> betabotstatus option \<Rightarrow> bool" where
  "same_data old new \<longleftrightarrow> (\<exists>n. new = Some n \<and> (\<exists>o'. o' = (case old of None \<Rightarrow> bot_to_beta botstatus_zero | Some x \<Rightarrow> x)
     \<and> n = o'\<lparr>bbs_LastPollTime := bbs_LastPollTime n, bbs_LastPollError := bbs_LastPollError n\<rparr>))"

definition keeps_last_good :: "klib \<Rightarrow> event \<Rightarrow> event \<Rightarrow> bool" where
  "keeps_last_good K d e \<longleftrightarrow> (\<exists>k old new r. d = GetBetaTradeBot k (Inr old) \<and> e = StatusUpdateBetaTradeBot new r
     \<and> (\<exists>st rs m. seen K (bst_Conditions (btb_Status new)) ConditionBotReachable = Some (st, rs, m)
          \<and> (st = ConditionTrue \<or> (st = ConditionFalse \<and> same_data (bst_Bot (btb_Status old)) (bst_Bot (btb_Status new))))))"

lemma persisted_bot: "bst_Bot (btb_Status (persisted b t)) = map_option bot_to_beta (st_Bot (tb_Status t))"
  by (simp add: persisted_def tradebot_SetObservedGeneration_def copyTradeBotStatusToBeta_def)

lemma poll_status_last_good:
  assumes K: "klib_laws K" and out: "poll_outcome tb fresh reachable"
  shows "keeps_last_good K (GetBetaTradeBot k (Inr b))
     (StatusUpdateBetaTradeBot (persisted b (poll_status K fresh reachable now (copyTradeBotStatusFromBeta t b))) r)"
proof -
  have "same_data (bst_Bot (btb_Status b))
      (Some (bot_to_beta (mergeBotStatus (map_option bot_from_beta (bst_Bot (btb_Status b))) None reachable now)))"
    by (cases "bst_Bot (btb_Status b)")
       (simp_all add: same_data_def mergeBotStatus_def bot_to_beta_def bot_from_beta_def botstatus_zero_def)
  then show ?thesis
    using out by (auto simp: keeps_last_good_def poll_status_def seen_set [OF K] persisted_bot poll_outcome_def
        split: if_splits)
qed

text \<open>Every status write of a poll is the polled outcome put into the status read before it, so a relation between
  the two objects that every such outcome satisfies holds of all its writes.\<close>

lemma pollOne_backed:
  assumes J: "\<And>tb fresh reachable k b now t r. poll_outcome tb fresh reachable \<Longrightarrow> J (GetBetaTradeBot k (Inr b))
      (StatusUpdateBetaTradeBot (persisted b (poll_status K fresh reachable now (copyTradeBotStatusFromBeta t b))) r)"
  shows "keeps (\<lambda>e. written_tradebot e \<noteq> None) J (pollOne A K G key p)"
proof -
  let ?k = "keeps (\<lambda>e. written_tradebot e \<noteq> None) J"
  have poll: "emits (poll A G tb) (\<lambda>r t. backed (\<lambda>e. written_tradebot e \<noteq> None) J t
      \<and> poll_outcome tb (fst r) (fst (snd r)))" for tb
  proof -
    have "only (\<lambda>e. written_tradebot e = None) (poll A G tb)"
      by (rule only_conseq [OF only_poll]) (auto simp: poll_event_def split: event.splits)
    then show ?thesis
      using yieldsD [OF poll_outcome_holds [of A G tb]] unfolding only_def emits_def
      by (metis (no_types, lifting) backed_none list_all_iff)
  qed
  have patch: "?k (patchTradeBotStatus A K tb (poll_status K fresh reachable))"
    if "poll_outcome tb fresh reachable" for tb fresh reachable
    using patch_backed [of "poll_status K fresh reachable" tb A K] unfolding keeps_def
    by (elim emits_conseq backed_mono) (use J [OF that] in auto)
  have metrics: "?k (recordMetrics A G key tb f c x bal p)" for tb f c x bal
    by (intro keeps_only only_intro) simp
  have tail: "?k (do {
      p \<leftarrow> recordMetrics A G key tb fresh reachable exchange balance p;
      now \<leftarrow> do_Now A;
      _ \<leftarrow> patchTradeBotStatus A K tb (poll_status K fresh reachable);
      State_Monad.return (clear_inflight key (updateBackoff key tb reachable now p)) })"
    if "poll_outcome tb fresh reachable" for tb fresh reachable exchange balance
    unfolding do_Now_def by (intro keeps_bind metrics keeps_ask patch that keeps_return)
  show ?thesis
    unfolding pollOne_def Let_def do_GetTradeBot_def
    by (rule keeps_bind, rule keeps_call, simp, rule keeps_case_sum, rule keeps_return,
        rule keeps_bind_result [OF poll], rule emits_case_prod, rule emits_case_prod, rule emits_case_prod,
        rule emits_conseq [OF tail [unfolded keeps_def]]) (auto intro: backed_append)
qed

lemma pollOne_keeps_last_good:
  assumes K: "klib_laws K"
  shows "keeps (\<lambda>e. written_tradebot e \<noteq> None) (keeps_last_good K) (pollOne A K G key p)"
  by (rule pollOne_backed) (rule poll_status_last_good [OF K])

section \<open>No write without a change\<close>

lemma patch_unchanged:
  assumes "\<And>now b. DeepEqualTradeBot K b (persisted b (m now (copyTradeBotStatusFromBeta tb b)))"
  shows "only (\<lambda>e. written_tradebot e = None) (patchTradeBotStatus A K tb m)"
  unfolding patchTradeBotStatus_def
  by (rule tbobj.PatchStatus_unchanged) (use assms in \<open>simp add: patched_persisted, simp add: tradebot_cobj_def\<close>)

end
