(* ===== verification/SmallControllers.thy ===== *)
theory SmallControllers
  imports Admission TradeBotConditions
begin

text \<open>The Strategy and TradeBotConfig reconcilers (\<open>controllers/strategy/main.go\<close>,
  \<open>controllers/tradebotconfig/main.go\<close>): neither owns a workload; each validates and reports a Ready
  condition.\<close>

section \<open>Strategy\<close>

definition validateStrategy :: "strategy \<Rightarrow> goerr option" where
  "validateStrategy s =
    (if ss_Name (sy_Spec s) = [] then Some (ErrString ''strategy name is required'')
     else if ss_Script (sy_Spec s) = [] then Some (ErrString ''strategy script is required'')
     else if \<not> IsValidPythonClassName (ss_Name (sy_Spec s))
     then Some (ErrString (''strategy name '' @ [CHR 0x27] @ ss_Name (sy_Spec s) @ [CHR 0x27]
       @ '' is not a valid Python class name''))
     else (case ValidateStrategyScript (ss_Script (sy_Spec s)) (ss_Name (sy_Spec s)) of
         Some e \<Rightarrow> Some (Wrap ''strategy script validation failed: '' e)
       | None \<Rightarrow> None))"

definition deriveStrategyPhase :: "klib \<Rightarrow> condition list \<Rightarrow> string" where
  "deriveStrategyPhase K conditions = (case FindStatusCondition K conditions ConditionReady of
       None \<Rightarrow> ''Validating''
     | Some c \<Rightarrow> if cd_Status c = ConditionTrue then ''Valid'' else ''Invalid'')"

definition strategy_condition :: "goerr option \<Rightarrow> condition" where
  "strategy_condition validateErr = (case validateErr of
       None \<Rightarrow> mk_cond ConditionReady ConditionTrue ReasonAsExpected ''Strategy configuration is valid''
     | Some e \<Rightarrow> mk_cond ConditionReady ConditionFalse ReasonConfigInvalid (err_Error e))"

definition strategy_mutate :: "klib \<Rightarrow> goerr option \<Rightarrow> gotime \<Rightarrow> strategy \<Rightarrow> strategy \<times> unit" where
  "strategy_mutate K validateErr now s =
    (let cs = SetStatusCondition K now (strategy_condition validateErr) (sst_Conditions (sy_Status s))
     in (s\<lparr>sy_Status := (sy_Status s)\<lparr>sst_Conditions := cs, sst_Phase := deriveStrategyPhase K cs\<rparr>\<rparr>, ()))"

definition Strategy_Reconcile :: "'e api \<Rightarrow> klib \<Rightarrow> bool \<Rightarrow> nname \<Rightarrow> ('e, reconcile_result) op" where
  "Strategy_Reconcile A K has_recorder key = do {
     r \<leftarrow> do_GetStrategy A key;
     case r of
       Inl e \<Rightarrow> State_Monad.return (if IsNotFound e then mk_result 0 None else mk_result 0 (IgnoreNotFound e))
     | Inr s \<Rightarrow> do {
         let validateErr = validateStrategy s;
         p \<leftarrow> PatchStatus A (strategy_cobj A K) (key_of_meta (sy_meta s)) (strategy_mutate K validateErr);
         case p of
           Inl e \<Rightarrow> State_Monad.return (mk_result (10 * Second) (Some e))
         | Inr _ \<Rightarrow>
             (case validateErr of
                None \<Rightarrow> State_Monad.return (mk_result 0 None)
              | Some e \<Rightarrow> do {
                  _ \<leftarrow> record_event has_recorder EventWarning ''ValidationFailed'' (err_Error e);
                  _ \<leftarrow> emit (MetricInc ''freqtrade_operator_reconcile_errors_total'' [''strategy'', ''ValidationFailed'']);
                  State_Monad.return (mk_result 0 None) }) } }"

section \<open>TradeBotConfig\<close>

definition deriveTradeBotConfigPhase :: "klib \<Rightarrow> condition list \<Rightarrow> string" where
  "deriveTradeBotConfigPhase K conditions = (case FindStatusCondition K conditions ConditionReady of
       None \<Rightarrow> ''Validating''
     | Some c \<Rightarrow> if cd_Status c = ConditionTrue then ''Valid'' else ''Invalid'')"

definition tradebotconfig_mutate :: "klib \<Rightarrow> gotime \<Rightarrow> tradebotconfig \<Rightarrow> tradebotconfig \<times> unit" where
  "tradebotconfig_mutate K now c =
    (let cs = SetStatusCondition K now (mk_cond ConditionReady ConditionTrue ReasonAsExpected
           ''TradeBotConfig configuration is valid'') (tcst_Conditions (tc_Status c))
     in (c\<lparr>tc_Status := (tc_Status c)\<lparr>tcst_Conditions := cs, tcst_Phase := deriveTradeBotConfigPhase K cs\<rparr>\<rparr>, ()))"

definition TradeBotConfig_Reconcile :: "'e api \<Rightarrow> klib \<Rightarrow> nname \<Rightarrow> ('e, reconcile_result) op" where
  "TradeBotConfig_Reconcile A K key = do {
     r \<leftarrow> do_GetTradeBotConfig A key;
     case r of
       Inl e \<Rightarrow> State_Monad.return (if IsNotFound e then mk_result 0 None else mk_result 0 (IgnoreNotFound e))
     | Inr c \<Rightarrow> do {
         p \<leftarrow> PatchStatus A (tradebotconfig_cobj A K) (key_of_meta (tc_meta c)) (tradebotconfig_mutate K);
         State_Monad.return (case p of
             Inl e \<Rightarrow> mk_result (10 * Second) (Some e)
           | Inr _ \<Rightarrow> mk_result 0 None) } }"

section \<open>Agreement with admission, and what is reported\<close>

lemma validateStrategy_agrees: "validateStrategy s = None \<longleftrightarrow> validateStrategySpec s = None"
  by (simp add: validateStrategy_def validateStrategySpec_def split: option.split)

definition strategy_verdict :: "klib \<Rightarrow> bool \<Rightarrow> strategy \<Rightarrow> bool" where
  "strategy_verdict K valid s \<longleftrightarrow>
     sst_Phase (sy_Status s) = (if valid then ''Valid'' else ''Invalid'')
     \<and> (IsStatusConditionTrue K (sst_Conditions (sy_Status s)) ConditionReady \<longleftrightarrow> valid)
     \<and> sst_ObservedGeneration (sy_Status s) = om_Generation (sy_meta s)"

lemma strategy_condition_simps [simp]:
  "cd_Type (strategy_condition v) = ConditionReady"
  "cd_Status (strategy_condition v) = (if v = None then ConditionTrue else ConditionFalse)"
  by (simp_all add: strategy_condition_def split: option.split)

lemma derive_set:
  assumes "klib_laws K" and "cd_Type c = ConditionReady"
  shows "deriveStrategyPhase K (SetStatusCondition K now c cs)
     = (if cd_Status c = ConditionTrue then ''Valid'' else ''Invalid'')"
proof -
  have "\<exists>c'. FindStatusCondition K (SetStatusCondition K now c cs) (cd_Type c) = Some c' \<and> cd_Status c' = cd_Status c"
    using assms(1) meta_conditions.find_set_same unfolding klib_laws_def by blast
  with assms(2) show ?thesis by (auto simp: deriveStrategyPhase_def)
qed

lemma strategy_patched_verdict:
  assumes K: "klib_laws K"
  shows "strategy_verdict K (v = None) (conditioned_object.patched (strategy_cobj A K) (strategy_mutate K v) now s)"
proof -
  have "IsStatusConditionTrue K (SetStatusCondition K now (strategy_condition v) cs) ConditionReady \<longleftrightarrow> v = None" for cs
    by (simp add: seen_true [OF K] seen_set [OF K])
  then show ?thesis
    unfolding syobj.patched_def
    by (simp add: strategy_cobj_def strategy_mutate_def Let_def strategy_SetObservedGeneration_def strategy_verdict_def
        derive_set [OF K])
qed

text \<open>Every status a reconcile writes agrees with admission on the object it read.\<close>

lemma Strategy_Reconcile_verdict:
  assumes K: "klib_laws K"
  shows "emits (Strategy_Reconcile A K rec key) (\<lambda>_ t. sofar (\<lambda>p e. \<forall>obj. written_strategy e = Some obj \<longrightarrow>
     (\<exists>s. GetStrategy key (Inr s) \<in> set p \<and> strategy_verdict K (validateStrategySpec s = None) obj)) t)"
proof -
  let ?P = "\<lambda>p e. \<forall>obj. written_strategy e = Some obj \<longrightarrow>
     (\<exists>s. GetStrategy key (Inr s) \<in> set p \<and> strategy_verdict K (validateStrategySpec s = None) obj)"
  have start: "sofar ?P (GetStrategy key (Inr s) # u)"
    if "list_all (\<lambda>e. \<forall>obj. written_strategy e = Some obj \<longrightarrow> strategy_verdict K (validateStrategySpec s = None) obj) u" for s u
    using that by (auto simp: sofar_Cons list_all_iff intro!: sofar_list_all) blast
  have patch: "emits (PatchStatus A (strategy_cobj A K) k (strategy_mutate K (validateStrategy s))) (\<lambda>_ t.
      list_all (\<lambda>e. \<forall>obj. written_strategy e = Some obj \<longrightarrow> strategy_verdict K (validateStrategySpec s = None) obj) t)" for k s
    by (rule syobj.PatchStatus_writes) (simp add: strategy_patched_verdict [OF K] flip: validateStrategy_agrees)
  have tail: "only (\<lambda>e. written_strategy e = None) (do {
      _ \<leftarrow> record_event rec EventWarning a b; _ \<leftarrow> emit (MetricInc n l); State_Monad.return d })"
    for a b n l and d :: reconcile_result
    by (intro only_intro) simp_all
  have end': "emits (case v of
        None \<Rightarrow> State_Monad.return (mk_result 0 None)
      | Some e \<Rightarrow> do {
          _ \<leftarrow> record_event rec EventWarning ''ValidationFailed'' (err_Error e);
          _ \<leftarrow> emit (MetricInc ''freqtrade_operator_reconcile_errors_total'' [''strategy'', ''ValidationFailed'']);
          State_Monad.return (mk_result 0 None) }) (\<lambda>_ t. list_all (\<lambda>e. written_strategy e = None) t)" for v
    by (rule emits_case_option) (auto intro!: emits_return tail [unfolded only_def])
  show ?thesis
    unfolding Strategy_Reconcile_def do_GetStrategy_def Let_def
  proof (rule emits_bind [OF emits_call [where Q = "\<lambda>r t. t = [GetStrategy key r]"]], rule refl, rule emits_case_sum)
    fix x t e
    assume "t = [GetStrategy key x]"
    then show "emits (State_Monad.return (if IsNotFound e then mk_result 0 None else mk_result 0 (IgnoreNotFound e)))
        (\<lambda>_ u. sofar ?P (t @ u))"
      by (intro emits_return) (simp add: sofar_Cons)
  next
    fix x t s
    assume t: "t = [GetStrategy key x]" "x = Inr s"
    show "emits (do {
         p \<leftarrow> PatchStatus A (strategy_cobj A K) (key_of_meta (sy_meta s)) (strategy_mutate K (validateStrategy s));
         case p of
           Inl e \<Rightarrow> State_Monad.return (mk_result (10 * Second) (Some e))
         | Inr _ \<Rightarrow>
             (case validateStrategy s of
                None \<Rightarrow> State_Monad.return (mk_result 0 None)
              | Some e \<Rightarrow> do {
                  _ \<leftarrow> record_event rec EventWarning ''ValidationFailed'' (err_Error e);
                  _ \<leftarrow> emit (MetricInc ''freqtrade_operator_reconcile_errors_total'' [''strategy'', ''ValidationFailed'']);
                  State_Monad.return (mk_result 0 None) }) }) (\<lambda>_ u. sofar ?P (t @ u))"
      by (rule emits_bind [OF patch], rule emits_case_sum, rule emits_return, simp add: t start,
          rule emits_conseq [OF end'], unfold t append_Cons append_Nil, rule start)
         (auto simp: list_all_iff)
  qed
qed

end
