(* ===== verification/PollerMachine.thy ===== *)
theory PollerMachine
  imports Poller
begin

text \<open>The scheduler and the workers of \<open>BotPoller\<close>. \<open>scheduleDue\<close> is the scheduler's pass as a
  program. Around it, a step relation interleaves that pass, bot by bot as the code holds its mutex,
  with the workers: taking a key from the channel needs no lock, the updates of the shared map do.\<close>

definition poll_workers :: "int \<Rightarrow> nat" where
  "poll_workers configured = (if configured > 0 then nat configured else 4)"

definition queue_cap :: "int \<Rightarrow> nat" where
  "queue_cap configured = poll_workers configured * 2"

abbreviation tb_key :: "tradebot \<Rightarrow> nname" where "tb_key tb \<equiv> key_of_meta (tb_meta tb)"

section \<open>One scheduler pass\<close>

record pass =
  pa_state :: pollmap
  pa_queue :: "nname list"
  pa_seen :: "nname list"
  pa_needs :: "tradebot list"

definition entry_of :: "nname \<Rightarrow> gotime \<Rightarrow> pollmap \<Rightarrow> pollstate" where
  "entry_of key now p = (case map_of p key of None \<Rightarrow> new_pollstate now | Some st \<Rightarrow> st)"

text \<open>One iteration over the listed bots. The send on the channel is non-blocking.\<close>

definition schedule_item :: "klib \<Rightarrow> nat \<Rightarrow> gotime \<Rightarrow> tradebot \<Rightarrow> pass \<Rightarrow> pass" where
  "schedule_item K cap now tb a =
    (let key = tb_key tb in
     if \<not> isTradeMode tb then a
     else if \<not> introspectionEnabled tb
     then (if \<not> hasIntrospectionDisabledCondition K tb then a\<lparr>pa_needs := pa_needs a @ [tb]\<rparr> else a)
     else
       (let st = entry_of key now (pa_state a);
            a = a\<lparr>pa_seen := key # pa_seen a, pa_state := map_put key st (pa_state a)\<rparr>
        in if ps_inFlight st \<or> now < ps_nextPollAt st then a
           else if length (pa_queue a) < cap
           then a\<lparr>pa_state := map_put key (st\<lparr>ps_inFlight := True\<rparr>) (pa_state a),
                  pa_queue := pa_queue a @ [key]\<rparr>
           else a))"

definition forgotten :: "nname list \<Rightarrow> pollmap \<Rightarrow> pollmap" where
  "forgotten seen p = filter (\<lambda>(k, st). k \<notin> set seen) p"

definition remembered :: "nname list \<Rightarrow> pollmap \<Rightarrow> pollmap" where
  "remembered seen p = filter (\<lambda>(k, st). k \<in> set seen) p"

definition forget_events :: "pollmap \<Rightarrow> event list" where
  "forget_events p = concat (map (\<lambda>(k, st). DeleteBotMetrics (nn_Namespace k) (nn_Name k)
     (ps_strategy st) (ps_exchange st) (ps_dryRun st)) p)"

fun emit_all :: "event list \<Rightarrow> ('e, unit) op" where
  "emit_all [] = State_Monad.return ()"
| "emit_all (e # es) = do { _ \<leftarrow> emit e; emit_all es }"

fun set_disabled_all :: "'e api \<Rightarrow> klib \<Rightarrow> tradebot list \<Rightarrow> ('e, unit) op" where
  "set_disabled_all A K [] = State_Monad.return ()"
| "set_disabled_all A K (tb # tbs) = do {
     _ \<leftarrow> setIntrospectionDisabledCondition A K tb;
     set_disabled_all A K tbs }"

definition scan :: "klib \<Rightarrow> nat \<Rightarrow> gotime \<Rightarrow> tradebot list \<Rightarrow> pollmap \<Rightarrow> nname list \<Rightarrow> pass" where
  "scan K cap now bots p q =
     fold (schedule_item K cap now) bots \<lparr>pa_state = p, pa_queue = q, pa_seen = [], pa_needs = []\<rparr>"

definition scheduleDue ::
  "'e api \<Rightarrow> klib \<Rightarrow> nat \<Rightarrow> pollmap \<Rightarrow> nname list \<Rightarrow> ('e, pollmap \<times> nname list) op" where
  "scheduleDue A K cap p q = do {
     l \<leftarrow> do_ListTradeBots A;
     case l of
       Inl e \<Rightarrow> State_Monad.return (p, q)
     | Inr bots \<Rightarrow> do {
         now \<leftarrow> do_Now A;
         let a = scan K cap now bots p q;
         _ \<leftarrow> emit_all (forget_events (forgotten (pa_seen a) (pa_state a)));
         _ \<leftarrow> set_disabled_all A K (pa_needs a);
         State_Monad.return (remembered (pa_seen a) (pa_state a), pa_queue a) } }"

section \<open>The poller as a state machine\<close>

datatype sched_phase = Idle | Scanning gotime "tradebot list" "nname list"

record pollsys =
  py_state :: pollmap
  py_queue :: "nname list"
  py_running :: "nname list"
  py_phase :: sched_phase

definition poll_init :: pollsys where
  "poll_init = \<lparr>py_state = [], py_queue = [], py_running = [], py_phase = Idle\<rparr>"

definition item_step :: "klib \<Rightarrow> nat \<Rightarrow> gotime \<Rightarrow> tradebot \<Rightarrow> tradebot list \<Rightarrow> nname list \<Rightarrow> pollsys \<Rightarrow> pollsys" where
  "item_step K cap now b bs seen s =
    (let a = schedule_item K cap now b \<lparr>pa_state = py_state s, pa_queue = py_queue s, pa_seen = seen, pa_needs = []\<rparr>
     in s\<lparr>py_state := pa_state a, py_queue := pa_queue a, py_phase := Scanning now bs (pa_seen a)\<rparr>)"

definition remember_labels :: "nname \<Rightarrow> string \<Rightarrow> string \<Rightarrow> string \<Rightarrow> pollmap \<Rightarrow> pollmap" where
  "remember_labels key strategy exchange dryRun =
     on_entry key (\<lambda>st. st\<lparr>ps_strategy := strategy, ps_exchange := exchange, ps_dryRun := dryRun\<rparr>)"

text \<open>A tick starts a pass over whatever the list returned; a worker takes a key whenever it is free;
  the worker's three critical sections wait for the scheduler's lock.\<close>

inductive poll_step :: "klib \<Rightarrow> int \<Rightarrow> pollsys \<Rightarrow> pollsys \<Rightarrow> bool" for K configured where
  Tick: "py_phase s = Idle \<Longrightarrow> poll_step K configured s (s\<lparr>py_phase := Scanning now bots []\<rparr>)"
| Item: "py_phase s = Scanning now (b # bs) seen \<Longrightarrow>
    poll_step K configured s (item_step K (queue_cap configured) now b bs seen s)"
| Forget: "py_phase s = Scanning now [] seen \<Longrightarrow>
    poll_step K configured s (s\<lparr>py_state := remembered seen (py_state s), py_phase := Idle\<rparr>)"
| Take: "\<lbrakk>py_queue s = k # q; length (py_running s) < poll_workers configured\<rbrakk> \<Longrightarrow>
    poll_step K configured s (s\<lparr>py_queue := q, py_running := k # py_running s\<rparr>)"
| Labels: "\<lbrakk>py_phase s = Idle; k \<in> set (py_running s)\<rbrakk> \<Longrightarrow>
    poll_step K configured s (s\<lparr>py_state := remember_labels k strat exch dry (py_state s)\<rparr>)"
| Backoff: "\<lbrakk>py_phase s = Idle; k \<in> set (py_running s)\<rbrakk> \<Longrightarrow>
    poll_step K configured s (s\<lparr>py_state := updateBackoff k tb reachable now (py_state s)\<rparr>)"
| Finish: "\<lbrakk>py_phase s = Idle; k \<in> set (py_running s)\<rbrakk> \<Longrightarrow>
    poll_step K configured s (s\<lparr>py_state := clear_inflight k (py_state s), py_running := remove1 k (py_running s)\<rparr>)"

definition poll_reachable :: "klib \<Rightarrow> int \<Rightarrow> pollsys \<Rightarrow> bool" where
  "poll_reachable K configured s \<longleftrightarrow> (poll_step K configured)\<^sup>*\<^sup>* poll_init s"

section \<open>Invariant\<close>

definition inflight :: "pollmap \<Rightarrow> nname \<Rightarrow> bool" where
  "inflight p k \<longleftrightarrow> (\<exists>st. map_of p k = Some st \<and> ps_inFlight st)"

definition busy :: "pollsys \<Rightarrow> nname list" where "busy s = py_queue s @ py_running s"

definition poll_inv :: "int \<Rightarrow> pollsys \<Rightarrow> bool" where
  "poll_inv configured s \<longleftrightarrow> length (py_queue s) \<le> queue_cap configured
     \<and> length (py_running s) \<le> poll_workers configured
     \<and> (\<forall>k. inflight (py_state s) k \<longrightarrow> k \<in> set (busy s))"

lemma inflight_map_put [simp]: "inflight (map_put k st p) j \<longleftrightarrow> (if j = k then ps_inFlight st else inflight p j)"
  by (simp add: inflight_def)

lemma inflight_on_entry:
  "(\<And>st. ps_inFlight (f st) = ps_inFlight st) \<Longrightarrow> inflight (on_entry k f p) j = inflight p j"
  by (auto simp: inflight_def)

lemma inflight_labels [simp]: "inflight (remember_labels k a b c p) j = inflight p j"
  unfolding remember_labels_def by (rule inflight_on_entry) simp

lemma inflight_backoff [simp]: "inflight (updateBackoff k tb r now p) j = inflight p j"
  unfolding updateBackoff_def by (rule inflight_on_entry) (simp add: backoff_step_def Let_def)

lemma inflight_clear [simp]: "inflight (clear_inflight k p) j \<longleftrightarrow> j \<noteq> k \<and> inflight p j"
  by (auto simp: inflight_def clear_inflight_def)

lemma map_of_remembered [simp]: "map_of (remembered seen p) k = (if k \<in> set seen then map_of p k else None)"
  by (induction p) (auto simp: remembered_def)

lemma inflight_remembered [simp]: "inflight (remembered seen p) k \<longleftrightarrow> k \<in> set seen \<and> inflight p k"
  by (simp add: inflight_def)

lemma inflight_entry: "ps_inFlight (entry_of k now p) \<longleftrightarrow> inflight p k"
  by (simp add: entry_of_def inflight_def new_pollstate_def split: option.split)

text \<open>What one iteration does to the queue and the in-flight flags: nothing, or it marks and enqueues
  a bot that was not in flight while there was room.\<close>

lemma schedule_item_cases:
  fixes K cap now tb and a :: pass
  defines "a' \<equiv> schedule_item K cap now tb a"
  obtains (skip) "pa_queue a' = pa_queue a" "\<And>k. inflight (pa_state a') k = inflight (pa_state a) k"
  | (enqueue) "pa_queue a' = pa_queue a @ [tb_key tb]" "length (pa_queue a) < cap"
      "\<not> inflight (pa_state a) (tb_key tb)" "map_of (pa_state a') (tb_key tb) \<noteq> None"
      "\<And>k. inflight (pa_state a') k = (k = tb_key tb \<or> inflight (pa_state a) k)"
proof (cases "shouldPoll tb")
  case False
  then have "pa_state a' = pa_state a" "pa_queue a' = pa_queue a"
    by (auto simp: a'_def schedule_item_def shouldPoll_def Let_def)
  then show thesis by (intro skip) simp_all
next
  case True
  let ?st = "entry_of (tb_key tb) now (pa_state a)"
  show thesis
  proof (cases "ps_inFlight ?st \<or> now < ps_nextPollAt ?st \<or> \<not> length (pa_queue a) < cap")
    case True
    with \<open>shouldPoll tb\<close> have "pa_state a' = map_put (tb_key tb) ?st (pa_state a)" "pa_queue a' = pa_queue a"
      by (auto simp: a'_def schedule_item_def shouldPoll_def Let_def)
    then show thesis by (intro skip) (simp_all add: inflight_entry)
  next
    case False
    with \<open>shouldPoll tb\<close> have "pa_queue a' = pa_queue a @ [tb_key tb]"
        "pa_state a' = map_put (tb_key tb) (?st\<lparr>ps_inFlight := True\<rparr>) (map_put (tb_key tb) ?st (pa_state a))"
      by (auto simp: a'_def schedule_item_def shouldPoll_def Let_def)
    with False show thesis by (intro enqueue) (simp_all add: inflight_entry)
  qed
qed

lemma poll_inv_step:
  assumes "poll_step K configured s s'" and inv: "poll_inv configured s"
  shows "poll_inv configured s'"
  using assms(1)
proof cases
  case (Item now b bs seen)
  let ?a = "\<lparr>pa_state = py_state s, pa_queue = py_queue s, pa_seen = seen, pa_needs = []\<rparr>"
  show ?thesis
    by (cases rule: schedule_item_cases [where K = K and cap = "queue_cap configured" and now = now and tb = b and a = ?a])
       (use inv in \<open>auto simp: Item(1) poll_inv_def busy_def item_step_def Let_def\<close>)
next
  case (Take k q)
  then show ?thesis using inv by (auto simp: poll_inv_def busy_def)
next
  case (Finish k)
  have "length (remove1 k (py_running s)) \<le> length (py_running s)" by (simp add: length_remove1)
  with Finish inv show ?thesis
    by (auto simp: poll_inv_def busy_def)
qed (use inv in \<open>auto simp: poll_inv_def busy_def\<close>)

lemma poll_inv_reachable: "poll_reachable K configured s \<Longrightarrow> poll_inv configured s"
  unfolding poll_reachable_def
proof (induction rule: rtranclp_induct)
  case base
  then show ?case by (simp add: poll_init_def poll_inv_def inflight_def)
qed (rule poll_inv_step)

section \<open>One poll per bot at a time\<close>

text \<open>The scheduler's memory of a bot is what keeps it from being polled twice at once. As long as no
  pass forgets a bot that is queued or being polled, every busy key is busy once.\<close>

definition keeps_busy :: "pollsys \<Rightarrow> bool" where
  "keeps_busy s \<longleftrightarrow> (\<forall>k \<in> set (busy s). map_of (py_state s) k \<noteq> None)"

definition steady_step :: "klib \<Rightarrow> int \<Rightarrow> pollsys \<Rightarrow> pollsys \<Rightarrow> bool" where
  "steady_step K configured s s' \<longleftrightarrow> poll_step K configured s s' \<and> keeps_busy s'"

definition exclusive :: "pollsys \<Rightarrow> bool" where
  "exclusive s \<longleftrightarrow> distinct (busy s) \<and> (\<forall>k \<in> set (busy s). inflight (py_state s) k)"

lemma exclusive_step:
  assumes "steady_step K configured s s'" and ex: "exclusive s"
  shows "exclusive s'"
proof -
  from assms(1) have step: "poll_step K configured s s'" and busy': "keeps_busy s'"
    by (auto simp: steady_step_def)
  from step show ?thesis
  proof cases
    case (Item now b bs seen)
    let ?a = "\<lparr>pa_state = py_state s, pa_queue = py_queue s, pa_seen = seen, pa_needs = []\<rparr>"
    show ?thesis
      by (cases rule: schedule_item_cases [where K = K and cap = "queue_cap configured" and now = now and tb = b and a = ?a])
         (use ex in \<open>auto simp: Item(1) exclusive_def busy_def item_step_def Let_def\<close>)
  next
    case (Forget now seen)
    then have "py_state s' = remembered seen (py_state s)" "busy s' = busy s" by (auto simp: busy_def)
    with ex busy' show ?thesis
      by (auto simp: exclusive_def keeps_busy_def split: if_splits)
  next
    case (Take k q)
    with ex show ?thesis by (auto simp: exclusive_def busy_def)
  next
    case (Finish k)
    with ex show ?thesis
      by (auto simp: exclusive_def busy_def distinct_remove1 set_remove1_eq)
  qed (use ex in \<open>auto simp: exclusive_def busy_def\<close>)
qed

lemma exclusive_reachable: "(steady_step K configured)\<^sup>*\<^sup>* poll_init s \<Longrightarrow> exclusive s"
proof (induction rule: rtranclp_induct)
  case base
  then show ?case by (simp add: exclusive_def busy_def poll_init_def)
qed (rule exclusive_step)

section \<open>The program of a pass and the machine\<close>

text \<open>Without workers in between, the steps of a pass compute what \<open>scheduleDue\<close> computes.\<close>

lemma scan_steps:
  assumes "py_phase s = Scanning now bots seen"
  shows "(poll_step K configured)\<^sup>*\<^sup>* s
     (let a = fold (schedule_item K (queue_cap configured) now) bots
          \<lparr>pa_state = py_state s, pa_queue = py_queue s, pa_seen = seen, pa_needs = ns\<rparr>
      in s\<lparr>py_state := pa_state a, py_queue := pa_queue a, py_phase := Scanning now [] (pa_seen a)\<rparr>)"
  using assms
proof (induction bots arbitrary: s seen ns)
  case Nil
  then show ?case by (cases s) simp
next
  case (Cons b bs)
  let ?a = "\<lambda>ns. schedule_item K (queue_cap configured) now b
     \<lparr>pa_state = py_state s, pa_queue = py_queue s, pa_seen = seen, pa_needs = ns\<rparr>"
  let ?s = "item_step K (queue_cap configured) now b bs seen s"
  have same: "pa_state (?a ns) = pa_state (?a [])" "pa_queue (?a ns) = pa_queue (?a [])"
      "pa_seen (?a ns) = pa_seen (?a [])"
    by (auto simp: schedule_item_def Let_def)
  let ?last = "\<lambda>a. s\<lparr>py_state := pa_state a, py_queue := pa_queue a, py_phase := Scanning now [] (pa_seen a)\<rparr>"
  have step: "poll_step K configured s ?s" using Cons.prems by (rule Item)
  have ph: "py_phase ?s = Scanning now bs (pa_seen (?a []))" by (simp add: item_step_def Let_def)
  have last': "?s\<lparr>py_state := pa_state a, py_queue := pa_queue a, py_phase := Scanning now [] (pa_seen a)\<rparr> = ?last a" for a
    by (simp add: item_step_def Let_def)
  have "\<lparr>pa_state = py_state ?s, pa_queue = py_queue ?s, pa_seen = pa_seen (?a []), pa_needs = pa_needs (?a ns)\<rparr> = ?a ns"
    using same by (simp add: item_step_def Let_def)
  with Cons.IH [OF ph, of "pa_needs (?a ns)"]
  have "(poll_step K configured)\<^sup>*\<^sup>* ?s (?last (fold (schedule_item K (queue_cap configured) now) bs (?a ns)))"
    by (simp only: Let_def last')
  with step have "(poll_step K configured)\<^sup>*\<^sup>* s (?last (fold (schedule_item K (queue_cap configured) now) bs (?a ns)))"
    by (rule converse_rtranclp_into_rtranclp)
  then show ?case by (simp add: Let_def)
qed

lemma scheduleDue_refines:
  assumes "fst (api_ListTradeBots A (env w)) = Inr bots" and "py_phase s = Idle"
    and now: "now = fst (api_Now A (snd (api_ListTradeBots A (env w))))"
  shows "(poll_step K configured)\<^sup>*\<^sup>* s
     (s\<lparr>py_state := fst (result (scheduleDue A K (queue_cap configured) (py_state s) (py_queue s)) w),
        py_queue := snd (result (scheduleDue A K (queue_cap configured) (py_state s) (py_queue s)) w)\<rparr>)"
proof -
  let ?a = "scan K (queue_cap configured) now bots (py_state s) (py_queue s)"
  let ?t = "s\<lparr>py_phase := Scanning now bots []\<rparr>"
  let ?u = "?t\<lparr>py_state := pa_state ?a, py_queue := pa_queue ?a, py_phase := Scanning now [] (pa_seen ?a)\<rparr>"
  have "poll_step K configured s ?t" using assms(2) by (rule Tick)
  moreover have "(poll_step K configured)\<^sup>*\<^sup>* ?t ?u"
    using scan_steps [of ?t now bots "[]" K configured "[]"] by (simp add: scan_def Let_def)
  moreover have "poll_step K configured ?u (?u\<lparr>py_state := remembered (pa_seen ?a) (py_state ?u), py_phase := Idle\<rparr>)"
    by (rule Forget [where now = now]) simp
  ultimately have "(poll_step K configured)\<^sup>*\<^sup>* s
      (?u\<lparr>py_state := remembered (pa_seen ?a) (py_state ?u), py_phase := Idle\<rparr>)"
    by (meson converse_rtranclp_into_rtranclp rtranclp.rtrancl_into_rtrancl)
  moreover have "result (scheduleDue A K (queue_cap configured) (py_state s) (py_queue s)) w
      = (remembered (pa_seen ?a) (pa_state ?a), pa_queue ?a)"
    using assms(1) now by (simp add: scheduleDue_def call_defs Let_def)
  moreover have "s\<lparr>py_queue := q, py_state := p, py_phase := Idle\<rparr> = s\<lparr>py_state := p, py_queue := q\<rparr>" for p q
    using assms(2) by (cases s) simp
  ultimately show ?thesis by simp
qed

section \<open>What a pass does\<close>

text \<open>The specification of a pass over the listed bots, bot by bot and without an order of execution. A bot is to be polled when
  it runs \<open>trade\<close> and its introspection is not switched off; it is due when it is new or neither being polled nor backed
  off. As many due bots as the queue has room for are enqueued, in the order of the list, and exactly these are marked.
  Every bot to be polled has an entry afterwards, its old one or a fresh one, and every other one is forgotten.\<close>

definition to_poll :: "tradebot \<Rightarrow> bool" where
  "to_poll tb \<longleftrightarrow> TrimSpace (tb_FreqtradeCommand (tb_Spec tb)) \<in> {[], ''trade''}
     \<and> (\<forall>i. tb_Introspection (tb_Spec tb) = Some i \<longrightarrow> is_Enabled i \<noteq> Some False)"

definition due_now :: "gotime \<Rightarrow> pollmap \<Rightarrow> nname \<Rightarrow> bool" where
  "due_now now p k \<longleftrightarrow> (\<forall>st. map_of p k = Some st \<longrightarrow> \<not> ps_inFlight st \<and> ps_nextPollAt st \<le> now)"

definition taken :: "nat \<Rightarrow> gotime \<Rightarrow> tradebot list \<Rightarrow> pollmap \<Rightarrow> nname list \<Rightarrow> nname list" where
  "taken cap now bots p q = take (cap - length q) (filter (due_now now p) (map tb_key (filter to_poll bots)))"

definition fresh_entry :: "gotime \<Rightarrow> pollstate" where
  "fresh_entry now = \<lparr>ps_nextPollAt = now, ps_consecutiveFailures = 0, ps_inFlight = False, ps_strategy = [], ps_exchange = [], ps_dryRun = []\<rparr>"

definition marked :: "bool \<Rightarrow> pollstate \<Rightarrow> pollstate" where
  "marked b st = (if b then st\<lparr>ps_inFlight := True\<rparr> else st)"

definition entry_after :: "nname set \<Rightarrow> gotime \<Rightarrow> pollmap \<Rightarrow> nname \<Rightarrow> pollstate" where
  "entry_after sent now p k = marked (k \<in> sent) (case map_of p k of None \<Rightarrow> fresh_entry now | Some st \<Rightarrow> st)"

definition pass_spec :: "nat \<Rightarrow> gotime \<Rightarrow> tradebot list \<Rightarrow> pollmap \<Rightarrow> nname list \<Rightarrow> pollmap \<Rightarrow> nname list \<Rightarrow> bool" where
  "pass_spec cap now bots p q p' q' \<longleftrightarrow> q' = q @ taken cap now bots p q
     \<and> (\<forall>k. map_of p' k = (if k \<in> tb_key ` {tb \<in> set bots. to_poll tb}
            then Some (entry_after (set (taken cap now bots p q)) now p k) else None))"

lemma to_poll_iff: "to_poll tb \<longleftrightarrow> isTradeMode tb \<and> introspectionEnabled tb"
  by (cases "tb_Introspection (tb_Spec tb)") (auto simp: to_poll_def isTradeMode_def introspectionEnabled_def Let_def split: option.splits)

lemma entry_of_fresh: "entry_of k now p = (case map_of p k of None \<Rightarrow> fresh_entry now | Some st \<Rightarrow> st)"
  by (simp add: entry_of_def new_pollstate_def fresh_entry_def split: option.split)

lemma due_entry: "due_now now p k \<longleftrightarrow> \<not> ps_inFlight (entry_of k now p) \<and> ps_nextPollAt (entry_of k now p) \<le> now"
  by (auto simp: due_now_def entry_of_fresh fresh_entry_def split: option.splits)

text \<open>One bot of the list: what becomes of the queue and of the entries.\<close>

lemma item_skip: "\<not> to_poll b \<Longrightarrow> pa_state (schedule_item K cap now b a) = pa_state a
    \<and> pa_queue (schedule_item K cap now b a) = pa_queue a \<and> pa_seen (schedule_item K cap now b a) = pa_seen a"
  by (auto simp: to_poll_iff schedule_item_def Let_def)

lemma item_polled:
  assumes "to_poll b" and "g = (due_now now (pa_state a) (tb_key b) \<and> length (pa_queue a) < cap)"
  shows "pa_seen (schedule_item K cap now b a) = tb_key b # pa_seen a"
    and "pa_queue (schedule_item K cap now b a) = pa_queue a @ (if g then [tb_key b] else [])"
    and "map_of (pa_state (schedule_item K cap now b a)) k = (if k = tb_key b
       then Some (entry_after (if g then {k} else {}) now (pa_state a) k) else map_of (pa_state a) k)"
  using assms unfolding due_entry
  by (auto simp: to_poll_iff schedule_item_def Let_def entry_after_def marked_def entry_of_fresh [symmetric])

lemma due_cong: "(\<And>b. b \<in> set bs \<Longrightarrow> map_of p' (tb_key b) = map_of p (tb_key b))
    \<Longrightarrow> filter (due_now now p') (map tb_key (filter to_poll bs)) = filter (due_now now p) (map tb_key (filter to_poll bs))"
  by (rule filter_cong) (auto simp: due_now_def)

lemma entry_cong: "\<lbrakk>map_of p' k = map_of p k; k \<in> sent' \<longleftrightarrow> k \<in> sent\<rbrakk> \<Longrightarrow> entry_after sent' now p' k = entry_after sent now p k"
  by (simp add: entry_after_def)

lemma taken_keys: "set (taken cap now bots p q) \<subseteq> tb_key ` set bots"
  unfolding taken_def using set_take_subset by fastforce

lemma scan_spec:
  assumes "distinct (map tb_key bots)"
  shows "pa_queue (fold (schedule_item K cap now) bots a) = pa_queue a @ taken cap now bots (pa_state a) (pa_queue a)
    \<and> set (pa_seen (fold (schedule_item K cap now) bots a)) = tb_key ` {tb \<in> set bots. to_poll tb} \<union> set (pa_seen a)
    \<and> (\<forall>k. map_of (pa_state (fold (schedule_item K cap now) bots a)) k = (if k \<in> tb_key ` {tb \<in> set bots. to_poll tb}
         then Some (entry_after (set (taken cap now bots (pa_state a) (pa_queue a))) now (pa_state a) k) else map_of (pa_state a) k))"
  using assms
proof (induction bots arbitrary: a)
  case Nil
  then show ?case by (simp add: taken_def)
next
  case (Cons b bs)
  let ?a = "schedule_item K cap now b a" and ?P = "tb_key ` {tb \<in> set bs. to_poll tb}"
  have fresh: "tb_key b \<notin> tb_key ` set bs" using Cons.prems by auto
  note IH = Cons.IH [of ?a]
  show ?case
  proof (cases "to_poll b")
    case False
    have "taken cap now (b # bs) (pa_state a) (pa_queue a) = taken cap now bs (pa_state a) (pa_queue a)"
      "{tb \<in> set (b # bs). to_poll tb} = {tb \<in> set bs. to_poll tb}" using False by (auto simp: taken_def)
    then show ?thesis using IH Cons.prems item_skip [OF False, of K cap now a] by (simp only: fold_simps distinct.simps list.map simp_thms)
  next
    case True
    define g where "g \<longleftrightarrow> due_now now (pa_state a) (tb_key b) \<and> length (pa_queue a) < cap"
    note item = item_polled [OF True g_def, of K]
    have same: "map_of (pa_state ?a) (tb_key x) = map_of (pa_state a) (tb_key x)" if "x \<in> set bs" for x
    proof -
      have "tb_key x \<noteq> tb_key b" using fresh that by (metis imageI)
      then show ?thesis using item(3) [of "tb_key x"] by simp
    qed
    have room: "cap - Suc (length (pa_queue a)) = cap - length (pa_queue a) - 1" by simp
    have tk: "taken cap now (b # bs) (pa_state a) (pa_queue a)
        = (if g then [tb_key b] else []) @ taken cap now bs (pa_state ?a) (pa_queue ?a)"
      using True due_cong [OF same, of bs now] item(2)
      by (cases "cap - length (pa_queue a)") (auto simp: taken_def g_def room simp del: diff_diff_left)
    have keys: "tb_key ` {tb \<in> set (b # bs). to_poll tb} = insert (tb_key b) ?P" using True by auto
    have out: "tb_key b \<notin> set (taken cap now bs (pa_state ?a) (pa_queue ?a))" "tb_key b \<notin> ?P"
      using fresh taken_keys by fast+
    show ?thesis
    proof (intro conjI allI)
      show "pa_queue (fold (schedule_item K cap now) (b # bs) a) = pa_queue a @ taken cap now (b # bs) (pa_state a) (pa_queue a)"
        using IH Cons.prems by (simp add: tk item(2))
      show "set (pa_seen (fold (schedule_item K cap now) (b # bs) a))
          = tb_key ` {tb \<in> set (b # bs). to_poll tb} \<union> set (pa_seen a)"
        unfolding keys using IH Cons.prems by (simp add: item(1))
      fix k
      have "map_of (pa_state (fold (schedule_item K cap now) (b # bs) a)) k = (if k \<in> ?P
          then Some (entry_after (set (taken cap now bs (pa_state ?a) (pa_queue ?a))) now (pa_state ?a) k) else map_of (pa_state ?a) k)"
        using IH Cons.prems by simp
      also have "\<dots> = (if k \<in> insert (tb_key b) ?P
          then Some (entry_after (set (taken cap now (b # bs) (pa_state a) (pa_queue a))) now (pa_state a) k) else map_of (pa_state a) k)"
      proof (cases "k = tb_key b")
        case True
        then show ?thesis using out item(3) [of k] by (auto simp: tk intro!: entry_cong)
      next
        case False
        have "k \<in> ?P \<Longrightarrow> map_of (pa_state ?a) k = map_of (pa_state a) k" using same by auto
        with False show ?thesis using item(3) [of k] by (auto simp: tk intro!: entry_cong)
      qed
      finally show "map_of (pa_state (fold (schedule_item K cap now) (b # bs) a)) k = (if k \<in> tb_key ` {tb \<in> set (b # bs). to_poll tb}
          then Some (entry_after (set (taken cap now (b # bs) (pa_state a) (pa_queue a))) now (pa_state a) k) else map_of (pa_state a) k)"
        unfolding keys .
    qed
  qed
qed

lemma scheduleDue_spec:
  assumes list: "fst (api_ListTradeBots A (env w)) = Inr bots" and keys: "distinct (map tb_key bots)"
  shows "pass_spec cap (fst (api_Now A (snd (api_ListTradeBots A (env w))))) bots p q
     (fst (result (scheduleDue A K cap p q) w)) (snd (result (scheduleDue A K cap p q) w))"
proof -
  let ?now = "fst (api_Now A (snd (api_ListTradeBots A (env w))))"
  let ?a = "scan K cap ?now bots p q"
  have "result (scheduleDue A K cap p q) w = (remembered (pa_seen ?a) (pa_state ?a), pa_queue ?a)"
    using list by (simp add: scheduleDue_def call_defs Let_def)
  with scan_spec [OF keys, of K cap ?now "\<lparr>pa_state = p, pa_queue = q, pa_seen = [], pa_needs = []\<rparr>"] show ?thesis
    unfolding pass_spec_def scan_def by simp
qed

lemma scheduleDue_failed:
  "fst (api_ListTradeBots A (env w)) = Inl err \<Longrightarrow> result (scheduleDue A K cap p q) w = (p, q)"
  by (simp add: scheduleDue_def call_defs)

section \<open>Exposed series\<close>

text \<open>The bot gauges a trace leaves exposed: setting a gauge exposes its series, deleting removes
  it.\<close>

fun expose :: "event \<Rightarrow> (string \<times> smap) list \<Rightarrow> (string \<times> smap) list" where
  "expose (MetricSet n l v) xs = (if (n, l) \<in> set xs then xs else (n, l) # xs)"
| "expose (MetricDelete n l) xs = filter (\<lambda>x. x \<noteq> (n, l)) xs"
| "expose _ xs = xs"

definition exposed :: "event list \<Rightarrow> (string \<times> smap) list" where
  "exposed t = fold expose t []"

lemma set_expose: "set (expose e xs) = (case e of
    MetricSet n l v \<Rightarrow> insert (n, l) (set xs) | MetricDelete n l \<Rightarrow> set xs - {(n, l)} | _ \<Rightarrow> set xs)"
  by (cases e) auto

text \<open>A series stays exposed while nothing deletes it.\<close>

lemma exposed_stays:
  "\<lbrakk>x \<in> set xs; \<forall>n l. MetricDelete n l \<in> set t \<longrightarrow> x \<noteq> (n, l)\<rbrakk> \<Longrightarrow> x \<in> set (fold expose t xs)"
proof (induction t arbitrary: xs)
  case (Cons e t)
  then have "x \<in> set (expose e xs)" by (auto simp: set_expose split: event.split)
  with Cons show ?case by auto
qed simp

lemma exposed_last:
  assumes "MetricSet n l v \<in> set t" and "\<forall>m k. MetricDelete m k \<in> set t \<longrightarrow> (n, l) \<noteq> (m, k)"
  shows "(n, l) \<in> set (fold expose t xs)"
proof -
  from assms(1) obtain a b where t: "t = a @ MetricSet n l v # b" by (meson split_list)
  have "(n, l) \<in> set (expose (MetricSet n l v) (fold expose a xs))" by simp
  then show ?thesis unfolding t fold_append fold.simps comp_apply
    by (intro exposed_stays) (use assms(2) t in auto)
qed

text \<open>Deleting the series of a label set removes all eight gauges of it.\<close>

lemma delete_gone:
  "g \<in> set gs \<or> (g, l) \<notin> set xs \<Longrightarrow> (g, l) \<notin> set (fold expose (map (\<lambda>g. MetricDelete g l) gs) xs)"
proof (induction gs arbitrary: xs)
  case (Cons h gs)
  then have "g \<in> set gs \<or> (g, l) \<notin> set (filter (\<lambda>x. x \<noteq> (h, l)) xs)" by auto
  from Cons.IH [OF this] show ?case by simp
qed simp

definition key_labels :: "nname \<Rightarrow> string \<Rightarrow> string \<Rightarrow> string \<Rightarrow> smap" where
  "key_labels k st ex d = [(''namespace'', nn_Namespace k), (''tradebot'', nn_Name k), (''strategy'', st),
     (''exchange'', ex), (''dry_run'', d)]"

lemma DeleteBotMetrics_labels:
  "DeleteBotMetrics (nn_Namespace k) (nn_Name k) st ex d = map (\<lambda>g. MetricDelete g (key_labels k st ex d)) bot_gauges"
  by (simp add: DeleteBotMetrics_def key_labels_def)

lemma bot_labels_key: "bot_labels tb ex d = key_labels (tb_key tb) (tb_Strategy (tb_Spec tb)) ex d"
  by (simp add: bot_labels_def key_labels_def key_of_meta_def)

text \<open>What one recording of a poll's gauges leaves in the trace and in the memory.\<close>

definition records :: "smap \<Rightarrow> event list \<Rightarrow> bool" where
  "records l t \<longleftrightarrow> list_all (\<lambda>e. \<exists>n v. e = MetricSet n l v) t"

lemma only_set_opt_records: "only (\<lambda>e. \<exists>n v. e = MetricSet n l v) (set_opt n l x)"
  by (rule only_set_opt) blast

lemma recordMetrics_emits:
  "emits (recordMetrics A G key tb st c ex bal p) (\<lambda>p' t.
     (\<exists>v. MetricSet ''freqtrade_bot_up'' (bot_labels tb ex (dry_run_label st)) v \<in> set t)
     \<and> records (bot_labels tb ex (dry_run_label st)) t
     \<and> p' = remember_labels key (tb_Strategy (tb_Spec tb)) ex (dry_run_label st) p)"
proof -
  let ?l = "bot_labels tb ex (dry_run_label st)"
  let ?p = "remember_labels key (tb_Strategy (tb_Spec tb)) ex (dry_run_label st) p"
  let ?Q = "\<lambda>p' t. records ?l t \<and> p' = ?p"
  have emit: "only (\<lambda>e. \<exists>n v. e = MetricSet n ?l v) (emit (MetricSet n ?l v))" for n v
    by (rule only_emit) blast
  have now: "only (\<lambda>e. \<exists>n v. e = MetricSet n ?l v) (do_Now A)"
    unfolding do_Now_def by (rule only_ask)
  show ?thesis
    unfolding recordMetrics_def Let_def remember_labels_def [symmetric]
    by (rule emits_bind [OF emits_emit [where Q = "\<lambda>_ t. \<exists>v. t = [MetricSet ''freqtrade_bot_up'' ?l v]"]], blast,
        rule emits_conseq [where P = ?Q],
        rule emits_bind_only [OF now], rule emits_bind_only [OF emit], rule emits_case_option, rule emits_return,
        simp add: records_def,
        rule emits_bind_only [OF emit],
        (rule emits_bind_only [OF only_set_opt_records])+, rule emits_return)
       (auto simp: records_def)
qed

lemma recordMetrics_memory:
  "result (recordMetrics A G key tb st c ex bal p) w
     = remember_labels key (tb_Strategy (tb_Spec tb)) ex (dry_run_label st) p"
  using emitsD [OF recordMetrics_emits [of A G key tb st c ex bal p], of w] by simp

text \<open>A bot that answered and then stopped answering before it was forgotten: the series of its last
  good poll carry another \<open>dry_run\<close> label than the ones deleted, so they stay exposed.\<close>

lemma stale_series_survive:
  assumes "st = Some b" and "bs_DryRun b = Some d"
    and good: "good = recordMetrics A G (tb_key tb) tb st c ex bal p"
    and bad: "bad = recordMetrics A G (tb_key tb) tb None c' ex bal' (result good w)"
    and e': "map_of (result bad w') (tb_key tb) = Some e'"
  shows "(''freqtrade_bot_up'', bot_labels tb ex (dry_run_label st))
    \<in> set (exposed (events good w @ events bad w' @ forget_events [(tb_key tb, e')]))"
proof -
  note g = emitsD [OF recordMetrics_emits [of A G "tb_key tb" tb st c ex bal p, folded good], of w]
  note b = emitsD [OF recordMetrics_emits [of A G "tb_key tb" tb None c' ex bal' "result good w", folded bad], of w']
  have "dry_run_label st \<noteq> ''unknown''" "dry_run_label None = ''unknown''"
    using assms(1,2) by (auto simp: dry_run_label_def)
  moreover have "ps_dryRun e' = dry_run_label None"
    using b e' by (auto simp: remember_labels_def)
  ultimately have other: "bot_labels tb ex (dry_run_label st) \<noteq> key_labels (tb_key tb) s x (ps_dryRun e')" for s x
    by (simp add: bot_labels_key key_labels_def)
  have "MetricDelete n l \<notin> set (events good w @ events bad w')" for n l
    using g b by (auto simp: records_def list_all_iff)
  then have "(''freqtrade_bot_up'', bot_labels tb ex (dry_run_label st)) \<noteq> (n, l)"
    if "MetricDelete n l \<in> set (events good w @ events bad w' @ forget_events [(tb_key tb, e')])" for n l
    using that other by (auto simp: forget_events_def DeleteBotMetrics_labels)
  moreover obtain v where "MetricSet ''freqtrade_bot_up'' (bot_labels tb ex (dry_run_label st)) v \<in> set (events good w)"
    using g by blast
  ultimately show ?thesis unfolding exposed_def by (intro exposed_last) auto
qed

section \<open>Two polls of one bot\<close>

text \<open>Forgetting a bot that is being polled and seeing it again starts a second poll beside the
  first.\<close>

lemma poll_steps:
  "py_phase s = Idle \<Longrightarrow> poll_step K c s (s\<lparr>py_phase := Scanning now bots []\<rparr>)"
  "py_phase s = Scanning now (b # bs) seen \<Longrightarrow> poll_step K c s (item_step K (queue_cap c) now b bs seen s)"
  "py_phase s = Scanning now [] seen \<Longrightarrow>
     poll_step K c s (s\<lparr>py_state := remembered seen (py_state s), py_phase := Idle\<rparr>)"
  by (fact Tick Item Forget)+

lemma fresh_item:
  assumes "shouldPoll b" and "map_of p (tb_key b) = None" and "length q < cap"
  shows "schedule_item K cap now b \<lparr>pa_state = p, pa_queue = q, pa_seen = seen, pa_needs = ns\<rparr>
     = \<lparr>pa_state = map_put (tb_key b) ((new_pollstate now)\<lparr>ps_inFlight := True\<rparr>)
          (map_put (tb_key b) (new_pollstate now) p),
        pa_queue = q @ [tb_key b], pa_seen = tb_key b # seen, pa_needs = ns\<rparr>"
  using assms by (simp add: schedule_item_def shouldPoll_def entry_of_def new_pollstate_def Let_def)

lemma queue_cap_pos: "0 < queue_cap c" "1 < queue_cap c" "0 < poll_workers c"
  by (auto simp: queue_cap_def poll_workers_def)

lemma poll_fresh:
  assumes "shouldPoll b" and "py_phase s = Idle" and "map_of (py_state s) (tb_key b) = None"
    and "py_queue s = []" and "length (py_running s) < poll_workers c"
  shows "\<exists>s'. (poll_step K c)\<^sup>*\<^sup>* s s' \<and> py_phase s' = Idle \<and> py_queue s' = []
     \<and> py_running s' = tb_key b # py_running s"
proof -
  let ?s1 = "s\<lparr>py_phase := Scanning now [b] []\<rparr>"
  let ?s2 = "item_step K (queue_cap c) now b [] [] ?s1"
  let ?s3 = "?s2\<lparr>py_state := remembered [tb_key b] (py_state ?s2), py_phase := Idle\<rparr>"
  let ?s4 = "?s3\<lparr>py_queue := [], py_running := tb_key b # py_running ?s3\<rparr>"
  have q: "py_queue ?s2 = [tb_key b]" "py_phase ?s2 = Scanning now [] [tb_key b]" "py_running ?s2 = py_running s"
    using assms(1,3,4) queue_cap_pos by (simp_all add: item_step_def fresh_item)
  have "poll_step K c s ?s1" "poll_step K c ?s1 ?s2"
    using assms(2) by (intro poll_steps; simp)+
  moreover have "poll_step K c ?s2 ?s3" using q by (intro poll_steps)
  moreover have "poll_step K c ?s3 ?s4" using q assms(5) by (intro Take) simp_all
  ultimately have "(poll_step K c)\<^sup>*\<^sup>* s ?s4" by (meson rtranclp.rtrancl_into_rtrancl rtranclp.rtrancl_refl)
  with q show ?thesis by (intro exI [of _ ?s4]) simp
qed

lemma double_poll:
  assumes b: "shouldPoll b" and c: "1 < poll_workers c"
  shows "\<exists>s. poll_reachable K c s \<and> py_running s = [tb_key b, tb_key b]"
proof -
  obtain s1 where s1: "(poll_step K c)\<^sup>*\<^sup>* poll_init s1" "py_phase s1 = Idle" "py_queue s1 = []"
      "py_running s1 = [tb_key b]"
    using poll_fresh [OF b, of poll_init c K] c by (auto simp: poll_init_def)
  let ?s2 = "s1\<lparr>py_phase := Scanning 0 [] []\<rparr>"
  let ?s3 = "?s2\<lparr>py_state := remembered [] (py_state ?s2), py_phase := Idle\<rparr>"
  have "poll_step K c s1 ?s2" "poll_step K c ?s2 ?s3" using s1(2) by (intro poll_steps; simp)+
  moreover obtain s4 where "(poll_step K c)\<^sup>*\<^sup>* ?s3 s4" "py_running s4 = [tb_key b, tb_key b]"
    using poll_fresh [OF b, of ?s3 c K] s1 c by auto
  ultimately show ?thesis
    using s1(1) unfolding poll_reachable_def by (meson rtranclp.rtrancl_into_rtrancl rtranclp_trans)
qed

end
