(* ===== verification/Conversion.thy ===== *)
theory Conversion
  imports Admission TradeBotState
begin

text \<open>\<open>api/v1alpha1/tradebot_conversion.go\<close> and \<open>strategy_conversion.go\<close>: the conversions between a
  stored v1beta1 object and its v1alpha1 form. \<open>convertJSON\<close> sends a sub-structure through
  \<open>encoding/json\<close> into the twin type of the other version; its uses are the fields of
  \<open>jsonconv\<close>, and \<open>passthrough\<close> states what the code relies on, that matching JSON tags carry every
  field over.\<close>

section \<open>The v1beta1 Strategy\<close>

text \<open>\<open>api/v1beta1/strategy_types.go\<close>, the stored form. Its specs carry the same JSON tags as the v1alpha1 ones.\<close>

record betastrategyspec =
  bss_Name :: string
  bss_Script :: string

record betastrategystatus =
  bsst_Phase :: string
  bsst_Message :: string
  bsst_Conditions :: "condition list"
  bsst_ObservedGeneration :: int

record betastrategy =
  bsy_meta :: objmeta
  bsy_Spec :: betastrategyspec
  bsy_Status :: betastrategystatus

definition strategy_to_beta :: "strategyspec \<Rightarrow> betastrategyspec" where
  "strategy_to_beta s = \<lparr>bss_Name = ss_Name s, bss_Script = ss_Script s\<rparr>"

definition strategy_from_beta :: "betastrategyspec \<Rightarrow> strategyspec" where
  "strategy_from_beta s = \<lparr>ss_Name = bss_Name s, ss_Script = bss_Script s\<rparr>"

section \<open>JSON conversions\<close>

record jsonconv =
  cj_App :: "tbappconfig \<Rightarrow> goerr + tbappconfig"
  cj_Introspection :: "introspectionspec \<Rightarrow> goerr + introspectionspec"
  cj_BotToBeta :: "botstatus \<Rightarrow> goerr + betabotstatus"
  cj_BotFromBeta :: "betabotstatus \<Rightarrow> goerr + botstatus"
  cj_StrategyToBeta :: "strategyspec \<Rightarrow> goerr + betastrategyspec"
  cj_StrategyFromBeta :: "betastrategyspec \<Rightarrow> goerr + strategyspec"

definition passthrough :: "jsonconv \<Rightarrow> bool" where
  "passthrough C \<longleftrightarrow> (\<forall>x. cj_App C x = Inr x) \<and> (\<forall>x. cj_Introspection C x = Inr x)
     \<and> (\<forall>x. cj_BotToBeta C x = Inr (bot_to_beta x)) \<and> (\<forall>x. cj_BotFromBeta C x = Inr (bot_from_beta x))
     \<and> (\<forall>x. cj_StrategyToBeta C x = Inr (strategy_to_beta x)) \<and> (\<forall>x. cj_StrategyFromBeta C x = Inr (strategy_from_beta x))"

definition identity_conv :: jsonconv where
  "identity_conv = \<lparr>cj_App = Inr, cj_Introspection = Inr, cj_BotToBeta = (\<lambda>x. Inr (bot_to_beta x)),
     cj_BotFromBeta = (\<lambda>x. Inr (bot_from_beta x)), 
     cj_StrategyToBeta = (\<lambda>x. Inr (strategy_to_beta x)), cj_StrategyFromBeta = (\<lambda>x. Inr (strategy_from_beta x))\<rparr>"

lemma identity_passthrough: "passthrough identity_conv"
  by (simp add: passthrough_def identity_conv_def)

text \<open>A pointer field: nil stays nil, otherwise it is converted, and a failure is wrapped.\<close>

definition conv_opt :: "('a \<Rightarrow> goerr + 'b) \<Rightarrow> string \<Rightarrow> 'a option \<Rightarrow> goerr + 'b option" where
  "conv_opt f msg x = (case x of
       None \<Rightarrow> Inr None
     | Some v \<Rightarrow> (case f v of Inl e \<Rightarrow> Inl (Wrap msg e) | Inr y \<Rightarrow> Inr (Some y)))"

section \<open>TradeBot\<close>

definition TradeBot_ConvertTo :: "jsonconv \<Rightarrow> tradebot \<Rightarrow> goerr + betatradebot" where
  "TradeBot_ConvertTo C t =
    (let cmd = tb_FreqtradeCommand (tb_Spec t) in
     if cmd \<noteq> [] \<and> cmd \<noteq> ''trade''
     then Inl (ErrString (''TradeBot '' @ tb_Namespace t @ ''/'' @ tb_Name t @ '' has spec.freqtrade_command='' @ Quote cmd
       @ '' - v1beta1 TradeBot is trade-only (P6-4); ''
       @ ''one-shot runs (backtesting, hyperopt, ...) have no v1beta1 TradeBot equivalent, use a Backtest instead''))
     else (case conv_opt (cj_App C) ''converting spec.app: '' (tb_App (tb_Spec t)) of
         Inl e \<Rightarrow> Inl e
       | Inr app \<Rightarrow> (case conv_opt (cj_Introspection C) ''converting spec.introspection: '' (tb_Introspection (tb_Spec t)) of
           Inl e \<Rightarrow> Inl e
         | Inr introspection \<Rightarrow> (case conv_opt (cj_BotToBeta C) ''converting status.bot: '' (st_Bot (tb_Status t)) of
             Inl e \<Rightarrow> Inl e
           | Inr bst \<Rightarrow> Inr \<lparr>btb_meta = tb_meta t,
               btb_Spec = \<lparr>btb_ConfigRef = tb_Config (tb_Spec t), btb_StrategyRef = tb_Strategy (tb_Spec t),
                 btb_App = app, btb_UpdateStrategy = tb_UpdateStrategy (tb_Spec t),
                 btb_Introspection = introspection, btb_State = []\<rparr>,
               btb_Status = \<lparr>bst_Phase = st_Phase (tb_Status t), bst_Message = st_Message (tb_Status t),
                 bst_Conditions = st_Conditions (tb_Status t), bst_ObservedGeneration = st_ObservedGeneration (tb_Status t),
                 bst_AppliedConfigHash = st_AppliedConfigHash (tb_Status t),
                 bst_ResolvedImage = st_ResolvedImage (tb_Status t), bst_Bot = bst\<rparr>\<rparr>))))"

definition TradeBot_ConvertFrom :: "jsonconv \<Rightarrow> betatradebot \<Rightarrow> goerr + tradebot" where
  "TradeBot_ConvertFrom C src =
    (case conv_opt (cj_App C) ''converting spec.app: '' (btb_App (btb_Spec src)) of
       Inl e \<Rightarrow> Inl e
     | Inr app \<Rightarrow> (case conv_opt (cj_Introspection C) ''converting spec.introspection: '' (btb_Introspection (btb_Spec src)) of
         Inl e \<Rightarrow> Inl e
       | Inr introspection \<Rightarrow> (case conv_opt (cj_BotFromBeta C) ''converting status.bot: '' (bst_Bot (btb_Status src)) of
           Inl e \<Rightarrow> Inl e
         | Inr bst \<Rightarrow> Inr \<lparr>tb_meta = btb_meta src,
             tb_Spec = \<lparr>tb_FreqtradeCommand = [], tb_FreqtradeArguments = [], tb_Config = btb_ConfigRef (btb_Spec src),
               tb_Strategy = btb_StrategyRef (btb_Spec src), tb_App = app, tb_Data = None,
               tb_UpdateStrategy = btb_UpdateStrategy (btb_Spec src), tb_Introspection = introspection\<rparr>,
             tb_Status = \<lparr>st_Phase = bst_Phase (btb_Status src), st_Message = bst_Message (btb_Status src),
               st_Conditions = bst_Conditions (btb_Status src), st_ObservedGeneration = bst_ObservedGeneration (btb_Status src),
               st_AppliedConfigHash = bst_AppliedConfigHash (btb_Status src),
               st_ResolvedImage = bst_ResolvedImage (btb_Status src), st_Bot = bst\<rparr>\<rparr>)))"

section \<open>Strategy\<close>

definition Strategy_ConvertTo :: "jsonconv \<Rightarrow> strategy \<Rightarrow> goerr + betastrategy" where
  "Strategy_ConvertTo C s = (case cj_StrategyToBeta C (sy_Spec s) of
       Inl e \<Rightarrow> Inl (Wrap ''converting spec: '' e)
     | Inr spec \<Rightarrow> Inr \<lparr>bsy_meta = sy_meta s, bsy_Spec = spec,
         bsy_Status = \<lparr>bsst_Phase = sst_Phase (sy_Status s), bsst_Message = sst_Message (sy_Status s),
           bsst_Conditions = sst_Conditions (sy_Status s), bsst_ObservedGeneration = sst_ObservedGeneration (sy_Status s)\<rparr>\<rparr>)"

definition Strategy_ConvertFrom :: "jsonconv \<Rightarrow> betastrategy \<Rightarrow> goerr + strategy" where
  "Strategy_ConvertFrom C src = (case cj_StrategyFromBeta C (bsy_Spec src) of
       Inl e \<Rightarrow> Inl (Wrap ''converting spec: '' e)
     | Inr spec \<Rightarrow> Inr \<lparr>sy_meta = bsy_meta src, sy_Spec = spec,
         sy_Status = \<lparr>sst_Phase = bsst_Phase (bsy_Status src), sst_Message = bsst_Message (bsy_Status src),
           sst_Conditions = bsst_Conditions (bsy_Status src), sst_ObservedGeneration = bsst_ObservedGeneration (bsy_Status src)\<rparr>\<rparr>)"

section \<open>Round trips\<close>

text \<open>An interface of two versions: a partial conversion to the hub and one back, what the way down
  forgets, and what the way up forgets.\<close>

locale converter =
  fixes up :: "'a \<Rightarrow> goerr + 'b" and down :: "'b \<Rightarrow> goerr + 'a"
    and ok :: "'a \<Rightarrow> bool" and forget :: "'a \<Rightarrow> 'a" and drop_hub :: "'b \<Rightarrow> 'b"
  assumes up_ok: "ok x \<longleftrightarrow> (\<exists>y. up x = Inr y)"
    and up_down: "up x = Inr y \<Longrightarrow> down y = Inr (forget x)"
    and down_up: "down y = Inr x \<Longrightarrow> up x = Inr (drop_hub y)"
    and down_total: "\<exists>x. down y = Inr x"
begin

text \<open>What a stored object shows in the old version is accepted again.\<close>

lemma down_ok: "down y = Inr x \<Longrightarrow> ok x"
  using up_ok down_up by blast

lemma forget_ok: "up x = Inr y \<Longrightarrow> ok (forget x)"
  using up_down by (blast intro: down_ok)

lemma lossless:
  "\<lbrakk>ok x; forget x = x; drop_hub z = z\<rbrakk> \<Longrightarrow> (\<exists>y. up x = Inr y \<and> down y = Inr x) \<and> (\<exists>x. down z = Inr x \<and> up x = Inr z)"
  using up_ok up_down down_up down_total by metis

lemma down_again: "down y = Inr x \<Longrightarrow> down (drop_hub y) = Inr (forget x)"
  using up_down down_up by blast

end

lemma conv_opt_Inr [simp]: "conv_opt (\<lambda>x. Inr (f x)) msg x = Inr (map_option f x)" "conv_opt Inr msg y = Inr y"
  by (simp_all add: conv_opt_def split: option.split)

lemma passthrough_conv:
  assumes "passthrough C"
  shows "conv_opt (cj_App C) m a = Inr a" "conv_opt (cj_Introspection C) m i = Inr i"
    "conv_opt (cj_BotToBeta C) m b = Inr (map_option bot_to_beta b)"
    "conv_opt (cj_BotFromBeta C) m bb = Inr (map_option bot_from_beta bb)"
    "cj_StrategyToBeta C s = Inr (strategy_to_beta s)" "cj_StrategyFromBeta C bs = Inr (strategy_from_beta bs)"
  using assms by (simp_all add: passthrough_def conv_opt_def split: option.split)

definition trade_only :: "tradebot \<Rightarrow> bool" where
  "trade_only t \<longleftrightarrow> tb_FreqtradeCommand (tb_Spec t) \<in> {[], ''trade''}"

text \<open>What a TradeBot loses on the way through storage: its command, its arguments and its data cache;
  on the way back up, its desired state.\<close>

definition forget_job_fields :: "tradebot \<Rightarrow> tradebot" where
  "forget_job_fields t = t\<lparr>tb_Spec := (tb_Spec t)\<lparr>tb_FreqtradeCommand := [], tb_FreqtradeArguments := [], tb_Data := None\<rparr>\<rparr>"

definition reset_state :: "betatradebot \<Rightarrow> betatradebot" where
  "reset_state b = b\<lparr>btb_Spec := (btb_Spec b)\<lparr>btb_State := []\<rparr>\<rparr>"

lemma TradeBot_converter:
  assumes C: "passthrough C"
  shows "converter (TradeBot_ConvertTo C) (TradeBot_ConvertFrom C) trade_only forget_job_fields reset_state"
proof
  fix x y
  show "trade_only x \<longleftrightarrow> (\<exists>y. TradeBot_ConvertTo C x = Inr y)"
    by (auto simp: trade_only_def TradeBot_ConvertTo_def passthrough_conv [OF C] Let_def)
  show "TradeBot_ConvertTo C x = Inr y \<Longrightarrow> TradeBot_ConvertFrom C y = Inr (forget_job_fields x)"
    by (auto simp: TradeBot_ConvertTo_def TradeBot_ConvertFrom_def passthrough_conv [OF C] Let_def
        forget_job_fields_def split: if_splits)
  show "TradeBot_ConvertFrom C y = Inr x \<Longrightarrow> TradeBot_ConvertTo C x = Inr (reset_state y)"
    by (auto simp: TradeBot_ConvertTo_def TradeBot_ConvertFrom_def passthrough_conv [OF C] Let_def reset_state_def)
  show "\<exists>x. TradeBot_ConvertFrom C y = Inr x"
    by (simp add: TradeBot_ConvertFrom_def passthrough_conv [OF C])
qed

lemma Strategy_converter:
  assumes C: "passthrough C"
  shows "converter (Strategy_ConvertTo C) (Strategy_ConvertFrom C) (\<lambda>_. True) (\<lambda>s. s) (\<lambda>s. s)"
  by unfold_locales (auto simp: Strategy_ConvertTo_def Strategy_ConvertFrom_def passthrough_conv [OF C] strategy_to_beta_def strategy_from_beta_def)

interpretation tbconv: converter "TradeBot_ConvertTo identity_conv" "TradeBot_ConvertFrom identity_conv"
  trade_only forget_job_fields reset_state
  by (rule TradeBot_converter [OF identity_passthrough])

interpretation syconv: converter "Strategy_ConvertTo identity_conv" "Strategy_ConvertFrom identity_conv"
  "\<lambda>_. True" "\<lambda>s. s" "\<lambda>s. s"
  by (rule Strategy_converter [OF identity_passthrough])

lemma Strategy_roundtrip:
  assumes "passthrough C"
  shows "(\<exists>b. Strategy_ConvertTo C s = Inr b \<and> Strategy_ConvertFrom C b = Inr s)
    \<and> (\<exists>s. Strategy_ConvertFrom C b = Inr s \<and> Strategy_ConvertTo C s = Inr b)"
  using converter.lossless [OF Strategy_converter [OF assms]] by simp

text \<open>Whatever a v1alpha1 write stores asks for a running bot.\<close>

lemma ConvertTo_running: "TradeBot_ConvertTo C t = Inr b \<Longrightarrow> desired_state b = TradeBotStateRunning"
  by (auto simp: TradeBot_ConvertTo_def Let_def desired_state_def split: if_splits sum.splits)

end
