(* ===== verification/Scenario.thy ===== *)
theory Scenario
  imports SmallControllers PollerMachine Conversion
begin

text \<open>A concrete cluster the theorems are run on: one bot under \<open>updateStrategy: Manual\<close> whose
  StatefulSet is up and carries an older config hash, whose stored status says it is reachable and
  running, and whose stored spec asks for Stopped. The environment is the clock.\<close>

definition demo_meta :: objmeta where
  "demo_meta = (mk_meta ''bot'' ''ns'')\<lparr>om_UID := ''u1'', om_Generation := 3,
     om_Finalizers := [''freqtrade.io/finalizer'']\<rparr>"

definition demo_key :: nname where
  "demo_key = \<lparr>nn_Namespace = ''ns'', nn_Name = ''bot''\<rparr>"

definition demo_spec :: tradebotspec where
  "demo_spec = \<lparr>tb_FreqtradeCommand = [], tb_FreqtradeArguments = [], tb_Config = ''cfg'',
     tb_Strategy = ''strat'', tb_App = None, tb_Data = None, tb_UpdateStrategy = ''Manual'',
     tb_Introspection = None\<rparr>"

definition demo_bot :: betabotstatus where
  "demo_bot = \<lparr>bbs_State = ''running'', bbs_Version = ''1'', bbs_DryRun = Some True, bbs_OpenTrades = Some 2,
     bbs_MaxOpenTrades = Some 3, bbs_TotalProfitAbs = ''1.5'', bbs_TotalProfitPct = ''2'',
     bbs_LastPollTime = None, bbs_LastPollError = []\<rparr>"

definition demo_conds :: "condition list" where
  "demo_conds = [mk_cond_gen ''BotReachable'' ConditionTrue ''AsExpected'' [] 3]"

definition demo_beta :: betatradebot where
  "demo_beta = \<lparr>btb_meta = demo_meta,
     btb_Spec = \<lparr>btb_ConfigRef = ''cfg'', btb_StrategyRef = ''strat'', btb_App = None,
       btb_UpdateStrategy = ''Manual'', btb_Introspection = None, btb_State = ''Stopped''\<rparr>,
     btb_Status = \<lparr>bst_Phase = ''Running'', bst_Message = [], bst_Conditions = demo_conds,
       bst_ObservedGeneration = 3, bst_AppliedConfigHash = [], bst_ResolvedImage = [],
       bst_Bot = Some demo_bot\<rparr>\<rparr>"

definition demo_tb :: tradebot where
  "demo_tb = \<lparr>tb_meta = demo_meta, tb_Spec = demo_spec,
     tb_Status = \<lparr>st_Phase = ''Running'', st_Message = [], st_Conditions = demo_conds,
       st_ObservedGeneration = 3, st_AppliedConfigHash = [], st_ResolvedImage = [],
       st_Bot = Some (bot_from_beta demo_bot)\<rparr>\<rparr>"

definition demo_exchange :: exchangespec where
  "demo_exchange = \<lparr>ex_Name = ''binance'', ex_Key = [], ex_Secret = [], ex_Password = [], ex_UID = [],
     ex_AccountID = [], ex_WalletAddress = [], ex_PrivateKey = [], ex_SecretRef = [],
     ex_CcxtConfig = None, ex_CcxtAsyncConfig = None, ex_CcxtSyncConfig = None, ex_Whitelist = None,
     ex_Blacklist = None, ex_LogResponses = None, ex_EnableWS = None, ex_UnkownFeeRate = None,
     ex_OutdatedOffset = None, ex_MarketRefreshInterval = None\<rparr>"

definition demo_apiserver :: apiserverconfig where
  "demo_apiserver = \<lparr>as_Enabled = None, as_ListenIP = [], as_ListenPort = None, as_Verbosity = [],
     as_EnableOpenAPI = None, as_Username = ''user'', as_Password = ''pw'', as_JWTSecretKey = [],
     as_SecretRef = [], as_CORSOrigins = []\<rparr>"

definition demo_configspec :: tradebotconfigspec where
  "demo_configspec = \<lparr>tcs_Bot = None, tcs_AI = None, tcs_Data = None, tcs_Advanced = None, tcs_Timeout = None,
     tcs_Internals = None, tcs_Exchange = Some demo_exchange, tcs_Pairlist = None, tcs_PairlistMethod = None,
     tcs_EntryPricing = None, tcs_ExitPricing = None, tcs_Order = None, tcs_RiskManagement = None,
     tcs_Notification = None, tcs_APIServer = Some demo_apiserver, tcs_Experimental = None, tcs_Logging = None\<rparr>"

definition demo_config :: tradebotconfig where
  "demo_config = \<lparr>tc_meta = mk_meta ''cfg'' ''ns'', tc_Spec = demo_configspec,
     tc_Status = \<lparr>tcst_Phase = [], tcst_Message = [], tcst_Conditions = [], tcst_ObservedGeneration = 0\<rparr>\<rparr>"

definition demo_strategy :: strategy where
  "demo_strategy = \<lparr>sy_meta = mk_meta ''strat'' ''ns'', sy_Spec = \<lparr>ss_Name = ''S'', ss_Script = ''class S''\<rparr>,
     sy_Status = \<lparr>sst_Phase = [], sst_Message = [], sst_Conditions = [], sst_ObservedGeneration = 0\<rparr>\<rparr>"

definition demo_sts :: statefulset where
  "demo_sts = (BuildStatefulSet demo_tb ''img'' ''S'' ''bot-config'' ''bot-strategy'' ''bot-user-data''
     ''0123456789abcdef'')\<lparr>sts_StatusReplicas := 1, sts_StatusReadyReplicas := 1\<rparr>"

definition demo_notfound :: goerr where "demo_notfound = ApiStatus NotFound ''not found''"

definition demo_api :: "int api" where
  "demo_api = \<lparr>api_GetTradeBot = (\<lambda>k e. (Inr demo_tb, e)), api_GetBetaTradeBot = (\<lambda>k e. (Inr demo_beta, e)),
     api_ListTradeBots = (\<lambda>e. (Inr [demo_tb], e)), api_UpdateBetaTradeBot = (\<lambda>b e. (None, e)),
     api_StatusUpdateBetaTradeBot = (\<lambda>b e. (None, e)), api_GetStrategy = (\<lambda>k e. (Inr demo_strategy, e)),
     api_StatusUpdateStrategy = (\<lambda>s e. (None, e)), api_GetTradeBotConfig = (\<lambda>k e. (Inr demo_config, e)),
     api_StatusUpdateTradeBotConfig = (\<lambda>c e. (None, e)), api_ListFreqUI = (\<lambda>ns e. (Inr [], e)),
     api_GetSecret = (\<lambda>k e. (Inl demo_notfound, e)), api_GetStatefulSet = (\<lambda>k e. (Inr demo_sts, e)),
     api_UpdateStatefulSet = (\<lambda>s e. (None, e)), api_GetPVC = (\<lambda>k e. (Inl demo_notfound, e)),
     api_UpdatePVC = (\<lambda>p e. (None, e)), api_Patch = (\<lambda>m e. (None, e)),
     api_GetFreqUI = (\<lambda>k e. (Inl demo_notfound, e)), api_StatusUpdateFreqUI = (\<lambda>f e. (None, e)),
     api_GetDeployment = (\<lambda>k e. (Inl demo_notfound, e)), api_GetIngress = (\<lambda>k e. (Inl demo_notfound, e)),
     api_DeleteIngress = (\<lambda>i e. (None, e)), api_ListHTTPRoutes = (\<lambda>ns l e. (Inr [], e)),
     api_PatchHTTPRoute = (\<lambda>r e. (Inr r, e)), api_DeleteHTTPRoute = (\<lambda>r e. (None, e)),
     api_GetBacktest = (\<lambda>k e. (Inl demo_notfound, e)), api_UpdateBacktest = (\<lambda>b e. (None, e)),
     api_StatusUpdateBacktest = (\<lambda>b e. (None, e)), api_GetJob = (\<lambda>k e. (Inl demo_notfound, e)),
     api_GetConfigMap = (\<lambda>k e. (Inl demo_notfound, e)), api_UpdateConfigMap = (\<lambda>c e. (None, e)),
     api_CreateConfigMap = (\<lambda>c e. (None, e)), api_GetPod = (\<lambda>k e. (Inl demo_notfound, e)),
     api_ReadFile = (\<lambda>p e. (Inl demo_notfound, e)), api_WriteFile = (\<lambda>p c e. (None, e)),
     api_OpenZip = (\<lambda>p e. (Inl demo_notfound, e)), api_WaitSignal = (\<lambda>b d e. (False, e + d)),
     api_HTTPDo = (\<lambda>rq e. (Inr \<lparr>rs_StatusCode = 200, rs_Body = Inr ''{}''\<rparr>, e)),
     api_Now = (\<lambda>e. (e, e + 1)), api_RandRead = (\<lambda>n e. (Inr (\<lambda>_. CHR ''x''), e)), api_RetrySteps = 4\<rparr>"

definition demo_golib :: golib where
  "demo_golib = \<lparr>url_Parse = (\<lambda>s. if HasPrefix s ''http://'' then Some (''http'', drop 7 s)
       else if HasPrefix s ''https://'' then Some (''https'', drop 8 s) else None),
     ParseFloat = (\<lambda>s. None), FormatFloat = (\<lambda>f. ''0''),
     json_MarshalIndent = (\<lambda>j. Inr ''{}''), json_Unmarshal = (\<lambda>s. Inr (JObj [])),
     http_NewRequest = (\<lambda>m u. None), time_RFC3339 = (\<lambda>t. ''t''),
     quantity_IsZero = (\<lambda>q. q = ''0''), quantity_AsDec = (\<lambda>q. q), float_mul = (\<lambda>a b. a), float_div = (\<lambda>a b. a),
     math_Round = (\<lambda>f. f), json_Marshal = (\<lambda>j. Inr ''{}'')\<rparr>"

definition demo_reconciler :: reconciler where
  "demo_reconciler = \<lparr>r_FinalizerGracePeriod = 0, r_MaxConcurrentReconciles = 1, r_Recorder = False,
     r_DefaultImage = [], r_OperatorNamespace = ''ops''\<rparr>"

definition demo_world :: "(int, event) world" where
  "demo_world = \<lparr>env = 1000, trace = []\<rparr>"

lemmas demo_simps = demo_api_def demo_golib_def demo_reconciler_def demo_world_def demo_key_def

section \<open>Running programs once\<close>

lemma run_bind: "run_state (State_Monad.bind m f) w = (case run_state m w of (a, s) \<Rightarrow> run_state (f a) s)"
  by (simp add: State_Monad.bind_def split_beta)

lemma run_return: "run_state (State_Monad.return x) w = (x, w)"
  by (simp add: State_Monad.return_def)

lemma run_call:
  "run_state (call f ev) w = (case f (env w) of (a, e) \<Rightarrow> (a, w\<lparr>env := e, trace := trace w @ [ev a]\<rparr>))"
  by (simp add: call_def Let_def)

lemma run_ask: "run_state (ask f) w = (case f (env w) of (a, e) \<Rightarrow> (a, w\<lparr>env := e\<rparr>))"
  by (simp add: ask_def Let_def)

lemma run_emit: "run_state (emit ev) w = ((), w\<lparr>trace := trace w @ [ev]\<rparr>)"
  by (simp add: emit_def)

lemmas runs = run_bind run_return run_call run_ask run_emit

lemma emits_run: "emits m Q \<longleftrightarrow>
    (\<forall>w. \<exists>t. trace (snd (run_state m w)) = trace w @ t \<and> Q (fst (run_state m w)) t)"
  by (simp add: emits_def result_def final_def)

lemmas demo_run = emits_run runs call_defs demo_api_def ref_klib_def demo_golib_def

section \<open>The run of the bot\<close>

lemma demo_tb_key [simp]: "tb_key demo_tb = demo_key" "tb_meta demo_tb = demo_meta"
  by (simp_all add: demo_tb_def demo_meta_def mk_meta_def key_of_meta_def demo_key_def)

lemma demo_meta_key [simp]: "key_of_meta demo_meta = demo_key"
  by (simp add: demo_meta_def mk_meta_def key_of_meta_def demo_key_def)

lemma demo_refs:
  "emits (fetchReferencedResources demo_api demo_tb ns)
     (\<lambda>r t. r = Inr \<lparr>rf_strategy = demo_strategy, rf_tradebotconfig = demo_config\<rparr>)"
  by (simp add: demo_run fetchReferencedResources_def)

lemma demo_build:
  "emits (BuildConfig demo_api demo_golib n ns demo_configspec cs) (\<lambda>r t. r = Inr [(''config.json'', ''{}'')])"
  by (simp add: demo_run demo_configspec_def BuildConfig_def
      GetSecretData_def apiServerSecretRef_def demo_apiserver_def resolveAPIServerJWTSecretKey_def
      demo_exchange_def notificationSecretData_def map_str_def)

definition demo_owner :: "ownerref list" where
  "demo_owner = [\<lparr>or_Kind = ''TradeBot'', or_Name = ''bot'', or_UID = ''u1'', or_Controller = True\<rparr>]"

definition demo_applied :: statefulset where
  "demo_applied = m_sts (with_owners demo_owner (MStatefulSet (BuildStatefulSet demo_tb DefaultFreqtradeImage ''S''
     ''bot-config'' ''bot-strategy'' ''bot-user-data'' ''0123456789abcdef'')))"

lemma demo_apply:
  "om_OwnerReferences (manifest_meta m) = [] \<Longrightarrow>
   emits (Apply demo_api ref_klib demo_meta m) (\<lambda>r t. r = None \<and> t = [ApplyPatch (with_owners demo_owner m) None])"
  by (simp add: demo_run Apply_def applyServerSide_def ref_SetControllerReference_def ref_kind_def demo_owner_def
      demo_meta_def mk_meta_def)

lemma demo_apply_or:
  assumes "emits k (\<lambda>y u. Q y (ApplyPatch (with_owners demo_owner m) None # u))"
    and fresh: "om_OwnerReferences (manifest_meta m) = []"
  shows "emits (apply_or (Apply demo_api ref_klib demo_meta m) msg k) Q"
  unfolding apply_or_def by (rule emits_bind [OF demo_apply [OF fresh]]) (use assms in simp)

lemma demo_template: "template_hash demo_sts = ''0123456789abcdef''" "template_hash demo_applied = ''0123456789abcdef''"
  by (simp_all add: template_hash_def demo_sts_def demo_applied_def BuildStatefulSet_def map_str_def)

lemma demo_hash:
  "emits (statefulSetTemplateHash demo_api demo_tb h) (\<lambda>r t. r = Inr ''0123456789abcdef'')"
  by (simp add: demo_run statefulSetTemplateHash_def demo_template)
     (simp add: demo_tb_def demo_spec_def)

lemma demo_meta_simps [simp]: "om_Name demo_meta = ''bot''" "om_Namespace demo_meta = ''ns''"
    "om_DeletionTimestamp demo_meta = None" "om_Finalizers demo_meta = [BotFinalizer]"
  by (simp_all add: demo_meta_def mk_meta_def)

lemma demo_names: "tb_Name demo_tb = ''bot''" "defaultImage demo_reconciler = DefaultFreqtradeImage"
    "ss_Name (sy_Spec demo_strategy) = ''S''"
  by (simp_all add: demo_meta_def mk_meta_def defaultImage_def demo_reconciler_def demo_strategy_def)

lemma demo_resources:
  "emits (reconcileResources demo_api ref_klib demo_reconciler demo_tb demo_strategy cd fs)
     (\<lambda>r t. (\<exists>out. r = Inr out) \<and> ApplyPatch (MStatefulSet demo_applied) None \<in> set t)"
  unfolding reconcileResources_def Let_def apply_workload_def demo_tb_key demo_names
  by (intro demo_apply_or emits_bind [OF demo_hash])
     (simp, intro demo_apply_or emits_bind [OF emits_of_only [OF only_recordConfigRestartEvent [where P = "\<lambda>_. True"],
        where Q = "\<lambda>_ _. True"]] emits_return, auto simp: demo_applied_def)

lemma demo_patch:
  "emits (patchTradeBotStatus demo_api ref_klib demo_tb m)
     (\<lambda>r t. \<exists>now. r = Inr (m now (copyTradeBotStatusFromBeta demo_tb demo_beta)))"
  by (simp add: demo_run patchTradeBotStatus_def PatchStatus_def tradebot_cobj_def
     eval_nat_numeral patch_mutate_def Let_def split_beta) blast

lemma demo_state:
  "emits (reconcileStateAndComputeRequeue demo_api ref_klib demo_golib demo_reconciler demo_key
       (success_mutate ref_klib ws m out now (copyTradeBotStatusFromBeta demo_tb demo_beta)) d)
     (\<lambda>_ t. \<exists>e \<in> set t. changes_bot e)"
proof -
  let ?tb = "success_mutate ref_klib ws m out now (copyTradeBotStatusFromBeta demo_tb demo_beta)"
  have get: "emits (do_GetBetaTradeBot demo_api demo_key) (\<lambda>r t. r = Inr demo_beta)"
    by (simp add: demo_run)
  have creds: "emits (resolveCredentials demo_api ?tb) (\<lambda>r t. \<exists>x u p. r = (x, Inr (u, p)))"
    by (simp add: demo_run resolveCredentials_def demo_config_def demo_configspec_def demo_apiserver_def
        Let_def split: option.split)
  have reach: "IsStatusConditionTrue ref_klib (conds ?tb) ConditionBotReachable"
    using success_mutate_reachable [OF ref_klib_laws, of ws m out now "copyTradeBotStatusFromBeta demo_tb demo_beta"]
    by (simp add: ref_klib_def ref_IsStatusConditionTrue_def ref_FindStatusCondition_def demo_beta_def demo_conds_def)
  have off: "desired_state demo_beta = TradeBotStateStopped" "\<not> state_matches TradeBotStateStopped (observed_state ?tb)"
    by (simp_all add: desired_state_def demo_beta_def TradeBotStateStopped_def TradeBotStateRunning_def
        state_matches_def observed_beta_def demo_bot_def)
  have stop: "emits (bot_Stop demo_api demo_golib c) (\<lambda>_ t. \<exists>e \<in> set t. changes_bot e)" for c
    by (simp add: demo_run bot_Stop_def bot_do_def bot_request_def)
  have any: "emits m (\<lambda>_ u. \<exists>e \<in> set (t @ u). changes_bot e)"
    if "\<exists>e \<in> set t. changes_bot e" "only (\<lambda>_. True) m" for t and m :: "(int, duration \<times> goerr option) op"
    by (rule emits_of_only [OF that(2)]) (use that(1) in auto)
  have change: "emits (reconcileStateChange demo_api ref_klib demo_golib demo_reconciler ?tb c TradeBotStateStopped)
      (\<lambda>_ t. \<exists>e \<in> set t. changes_bot e)" for c
    unfolding reconcileStateChange_def Let_def if_True simp_thms
    by (rule emits_bind [OF stop], erule any) (intro only_intro TrueI)
  have run: "emits (reconcileState demo_api ref_klib demo_golib demo_reconciler ?tb demo_beta)
      (\<lambda>_ t. \<exists>e \<in> set t. changes_bot e)"
    unfolding reconcileState_def Let_def off
    by (simp only: reach off simp_thms if_True if_False, rule emits_bind [OF creds], elim exE,
        simp only: prod.case sum.case, rule emits_conseq [OF change]) auto
  show ?thesis
    unfolding reconcileStateAndComputeRequeue_def
    by (rule emits_bind [OF get], simp only: sum.case, rule emits_bind [OF run], rule emits_return) auto
qed

text \<open>The reconcile of this bot applies a StatefulSet that keeps the old hash and sends a call.\<close>

lemma demo_Reconcile:
  "emits (Reconcile demo_api ref_klib demo_golib demo_reconciler demo_key)
     (\<lambda>_ t. ApplyPatch (MStatefulSet demo_applied) None \<in> set t \<and> (\<exists>e \<in> set t. changes_bot e))"
proof -
  have get: "emits (do_GetTradeBot demo_api demo_key) (\<lambda>r t. r = Inr demo_tb)"
    by (simp add: demo_run)
  have list: "emits (do_ListFreqUI demo_api ns) (\<lambda>r t. r = Inr [])" for ns
    by (simp add: demo_run)
  have obs: "emits (emit (MetricObserve n)) (\<lambda>_ _. True)" for n
    by (rule emits_emit) simp
  have ws: "emits (computeWorkloadStatus demo_api demo_tb) (\<lambda>r t. \<exists>x. r = Inr x)"
    by (simp add: demo_run computeWorkloadStatus_def demo_sts_def)
  have ev: "emits (recordLifecycleEvents K R t b) (\<lambda>_ _. True)" for K R t b
    by (rule emits_of_only [where P = "\<lambda>_. True"]) (intro only_intro TrueI, simp)
  have status: "emits (reconcile_status demo_api ref_klib demo_golib demo_reconciler demo_key demo_tb w out)
      (\<lambda>_ t. \<exists>e \<in> set t. changes_bot e)" for w out
    unfolding reconcile_status_def Let_def
    by (rule emits_bind [OF ws], elim exE, simp only: sum.case, rule emits_bind [OF demo_patch], elim exE,
        simp only: sum.case, rule emits_bind [OF ev], rule emits_bind [OF demo_state], rule emits_return) auto
  have cmd: "TrimSpace (tb_FreqtradeCommand (tb_Spec demo_tb)) = []"
    by (simp add: demo_tb_def demo_spec_def)
  have cfg: "tc_Spec demo_config = demo_configspec" by (simp add: demo_config_def)
  have live: "emits (reconcile_live demo_api ref_klib demo_golib demo_reconciler demo_key demo_tb)
      (\<lambda>_ t. ApplyPatch (MStatefulSet demo_applied) None \<in> set t \<and> (\<exists>e \<in> set t. changes_bot e))"
    unfolding reconcile_live_def Let_def cmd
    by (simp only: simp_thms if_False, rule emits_bind [OF demo_refs],
        simp only: sum.case referencedResources.simps cfg, rule emits_bind [OF list], simp only: sum.case,
        rule emits_bind [OF demo_build], rule emits_bind [OF obs], simp only: sum.case,
        rule emits_bind [OF demo_resources], elim conjE exE, simp only: sum.case,
        rule emits_conseq [OF status]) auto
  have fin: "ContainsFinalizer ref_klib (om_Finalizers (tb_meta demo_tb)) BotFinalizer"
    by (simp add: ref_klib_def)
  show ?thesis
    unfolding Reconcile_def
    by (rule emits_bind [OF get], simp only: sum.case demo_tb_key demo_meta_simps fin [unfolded demo_tb_key demo_meta_simps]
          simp_thms if_False, rule emits_conseq [OF live]) auto
qed

section \<open>A deleted bot\<close>

definition demo_deleted :: tradebot where
  "demo_deleted = demo_tb\<lparr>tb_meta := demo_meta\<lparr>om_DeletionTimestamp := Some 900\<rparr>\<rparr>"

definition demo_gone_api :: "int api" where
  "demo_gone_api = demo_api\<lparr>api_GetTradeBot := (\<lambda>k e. (Inr demo_deleted, e)),
     api_GetStatefulSet := (\<lambda>k e. (Inl demo_notfound, e))\<rparr>"

lemma demo_gone_releases:
  "list_ex (releases ref_klib) (events (Reconcile demo_gone_api ref_klib demo_golib demo_reconciler demo_key) demo_world)"
proof -
  have "emits (Reconcile demo_gone_api ref_klib demo_golib demo_reconciler demo_key) (\<lambda>_ t. list_ex (releases ref_klib) t)"
    by (simp add: demo_run demo_gone_api_def Reconcile_def demo_deleted_def reconcile_deletion_def finalizeTradeBot_def
        demo_notfound_def IsNotFound_def Let_def handlePVCPreservation_def preserves_data_def)
       (simp add: demo_meta_def mk_meta_def runs call_defs releases_def with_finalizers_def ref_RemoveFinalizer_def
         demo_beta_def)
  then show ?thesis by (rule emitsD)
qed

lemma demo_resources_result:
  "\<exists>out. result (reconcileResources demo_api ref_klib demo_reconciler demo_tb demo_strategy [(''config.json'', ''{}'')] []) demo_world = Inr out"
  using emitsD [OF demo_resources] by blast

section \<open>Smaller settings\<close>

definition demo_cond :: condition where
  "demo_cond = mk_cond ''BotReachable'' ConditionTrue ''AsExpected'' []"

lemma demo_tb_spec: "tb_Spec demo_tb = demo_spec"
  by (simp add: demo_tb_def)

text \<open>A good poll and a failed one after it, recorded for the same bot.\<close>

definition demo_good :: "(int, pollmap) op" where
  "demo_good = recordMetrics demo_api demo_golib demo_key demo_tb (Some (bot_from_beta demo_bot)) demo_cond ''binance''
     None [(demo_key, new_pollstate 0)]"

definition demo_bad :: "(int, pollmap) op" where
  "demo_bad = recordMetrics demo_api demo_golib demo_key demo_tb None demo_cond ''binance'' None (result demo_good demo_world)"

definition demo_left :: pollstate where
  "demo_left = (new_pollstate 0)\<lparr>ps_strategy := ''strat'', ps_exchange := ''binance'', ps_dryRun := ''unknown''\<rparr>"

lemma demo_bad_result: "result demo_bad demo_world = [(demo_key, demo_left)]"
  unfolding demo_bad_def demo_good_def recordMetrics_memory
  by (simp add: remember_labels_def on_entry_def map_put_def demo_tb_spec dry_run_label_def demo_spec_def
      new_pollstate_def demo_left_def)

definition demo_jwtspec :: tradebotconfigspec where
  "demo_jwtspec = demo_configspec\<lparr>tcs_APIServer := Some (demo_apiserver\<lparr>as_Enabled := Some True\<rparr>)\<rparr>"

lemma demo_jwt_run:
  "\<exists>k. result (resolveAPIServerJWTSecretKey demo_api demo_golib ''bot'' ''ns'' demo_jwtspec []) demo_world = Inr k
     \<and> \<not> list_ex (\<lambda>e. stored_jwt demo_golib ''bot'' e k)
       (events (resolveAPIServerJWTSecretKey demo_api demo_golib ''bot'' ''ns'' demo_jwtspec []) demo_world)"
proof -
  have "emits (resolveAPIServerJWTSecretKey demo_api demo_golib ''bot'' ''ns'' demo_jwtspec [])
      (\<lambda>r t. \<exists>k. r = Inr k \<and> \<not> list_ex (\<lambda>e. stored_jwt demo_golib ''bot'' e k) t)"
    by (simp add: demo_run resolveAPIServerJWTSecretKey_def existingAPIServerJWTSecretKey_def
        generateAPIServerJWTSecretKey_def demo_jwtspec_def demo_configspec_def demo_apiserver_def map_str_def Let_def
        demo_notfound_def IsNotFound_def minAPIServerJWTSecretKeyLength_def stored_jwt_def)
  then show ?thesis by (rule emitsD)
qed

text \<open>A stored object that asks for a running bot, so that the bot can be written through v1alpha1.\<close>

definition demo_run_api :: "int api" where
  "demo_run_api = demo_api\<lparr>api_GetBetaTradeBot := (\<lambda>k e. (Inr (reset_state demo_beta), e))\<rparr>"

lemma demo_admitted: "result (TradeBot_ValidateCreate demo_run_api demo_tb) demo_world = None"
  by (simp add: TradeBot_ValidateCreate_def validate_TradeBot_def call_defs demo_run_api_def demo_api_def demo_tb_spec
      demo_spec_def check_interval_def reset_state_def TradeBotStateStopped_def)

end
