(* ===== verification/FreqUIResources.thy ===== *)
theory FreqUIResources
  imports TradeBotResources
begin

text \<open>Package \<open>controllers/frequi/resources\<close>: the pure builders of the objects a FreqUI owns - the
  Deployment and its Service, and the two ways to expose them, one Ingress with a rule per host or
  one HTTPRoute per host - with the merging of the user's overrides. The lemmas at the end say what
  the overrides cannot change and that the two exposures route the same hosts to the same
  backends.\<close>

section \<open>Deployment\<close>

definition frequiUID :: int where "frequiUID = 101"

definition frequiSecurityContext :: secctx where
  "frequiSecurityContext = RestrictedSecurityContext\<lparr>sc_RunAsUser := Some frequiUID\<rparr>"

text \<open>The pod template before the user's overrides.\<close>

definition frequi_probe :: "int \<Rightarrow> int \<Rightarrow> probe" where
  "frequi_probe delay period = HTTPGetProbe ''/'' 80 ''HTTP'' delay period 5 3"

definition frequi_mount :: "string \<Rightarrow> string \<Rightarrow> volmount" where
  "frequi_mount name path = \<lparr>vm_Name = name, vm_MountPath = path, vm_SubPath = [], vm_ReadOnly = False\<rparr>"

definition frequi_pod :: "string \<Rightarrow> podspec" where
  "frequi_pod img = podspec_zero\<lparr>ps_RestartPolicy := ''Always'', ps_TerminationGracePeriodSeconds := Some 30,
     ps_DNSPolicy := ''ClusterFirst'',
     ps_SecurityContext := Some \<lparr>psc_RunAsUser = None, psc_RunAsGroup = None, psc_FSGroup = Some frequiUID, psc_rest = None\<rparr>,
     ps_Volumes := [\<lparr>vol_Name = ''tmp'', vol_Source = EmptyDirVolume\<rparr>,
       \<lparr>vol_Name = ''nginx-cache'', vol_Source = EmptyDirVolume\<rparr>,
       \<lparr>vol_Name = ''nginx-run'', vol_Source = EmptyDirVolume\<rparr>],
     ps_Containers := [container_zero\<lparr>ct_Name := ''frequi'', ct_Image := img, ct_ImagePullPolicy := ''Always'',
       ct_SecurityContext := Some frequiSecurityContext,
       ct_VolumeMounts := [frequi_mount ''tmp'' ''/tmp'', frequi_mount ''nginx-cache'' ''/var/cache/nginx'',
         frequi_mount ''nginx-run'' ''/var/run''],
       ct_Ports := [\<lparr>cp_ContainerPort = 80, cp_Protocol = ''TCP''\<rparr>],
       ct_LivenessProbe := Some (frequi_probe 30 30), ct_ReadinessProbe := Some (frequi_probe 10 10),
       ct_TerminationMessagePath := ''/dev/termination-log'', ct_TerminationMessagePolicy := ''File''\<rparr>]\<rparr>"

text \<open>Ranging over a nil map finds nothing.\<close>

definition or_empty :: "smap option \<Rightarrow> smap" where
  "or_empty m = (case m of None \<Rightarrow> [] | Some m \<Rightarrow> m)"

text \<open>The steps in the order of the code; most of them append, where the TradeBot builder replaces.\<close>

definition applyPodSpecOverrides :: "podspec \<Rightarrow> fupodspec \<Rightarrow> podspec" where
  "applyPodSpecOverrides p u =
    (let p = assign_if (or_empty (rr_Limits (fp_Resources u)) \<noteq> [] \<or> or_empty (rr_Requests (fp_Resources u)) \<noteq> [])
               (over0 (\<lambda>c. c\<lparr>ct_Resources := fp_Resources u\<rparr>)) p;
         p = assign_if (fp_Env u \<noteq> []) (over0 (\<lambda>c. c\<lparr>ct_Env := ct_Env c @ fp_Env u\<rparr>)) p;
         p = assign_if (fp_VolumeMounts u \<noteq> [])
               (over0 (\<lambda>c. c\<lparr>ct_VolumeMounts := ct_VolumeMounts c @ fp_VolumeMounts u\<rparr>)) p;
         p = assign_if (fp_Volumes u \<noteq> []) (\<lambda>p. p\<lparr>ps_Volumes := ps_Volumes p @ fp_Volumes u\<rparr>) p;
         p = assign_if (fp_SecurityContext u \<noteq> None) (\<lambda>p. p\<lparr>ps_SecurityContext := fp_SecurityContext u\<rparr>) p;
         p = assign_if (fp_InitContainers u \<noteq> [])
               (\<lambda>p. p\<lparr>ps_InitContainers := ps_InitContainers p @ fp_InitContainers u\<rparr>) p;
         p = assign_if (fp_ImagePullSecrets u \<noteq> [])
               (\<lambda>p. p\<lparr>ps_ImagePullSecrets := ps_ImagePullSecrets p @ fp_ImagePullSecrets u\<rparr>) p;
         p = assign_if (fp_LivenessProbe u \<noteq> None) (over0 (\<lambda>c. c\<lparr>ct_LivenessProbe := fp_LivenessProbe u\<rparr>)) p;
         p = assign_if (fp_ReadinessProbe u \<noteq> None) (over0 (\<lambda>c. c\<lparr>ct_ReadinessProbe := fp_ReadinessProbe u\<rparr>)) p;
         p = assign_if (fp_Affinity u \<noteq> None) (\<lambda>p. p\<lparr>ps_Affinity := fp_Affinity u\<rparr>) p;
         p = assign_if (fp_AntiAffinity u \<noteq> None)
               (\<lambda>p. p\<lparr>ps_Affinity := Some ((case ps_Affinity p of None \<Rightarrow> affinity_zero | Some a \<Rightarrow> a)
                  \<lparr>af_PodAntiAffinity := fp_AntiAffinity u\<rparr>)\<rparr>) p;
         p = assign_if (fp_NodeSelector u \<noteq> []) (\<lambda>p. p\<lparr>ps_NodeSelector := fp_NodeSelector u\<rparr>) p;
         p = assign_if (fp_Tolerations u \<noteq> []) (\<lambda>p. p\<lparr>ps_Tolerations := ps_Tolerations p @ fp_Tolerations u\<rparr>) p;
         p = assign_if (fp_TopologySpreadConstraints u \<noteq> [])
               (\<lambda>p. p\<lparr>ps_TopologySpreadConstraints := ps_TopologySpreadConstraints p @ fp_TopologySpreadConstraints u\<rparr>) p
     in p)"

definition fu_app :: "frequi \<Rightarrow> (fuappconfig \<Rightarrow> 'a option) \<Rightarrow> 'a option" where
  "fu_app f g = Option.bind (fu_App (fu_Spec f)) g"

abbreviation fu_Name :: "frequi \<Rightarrow> string" where "fu_Name f \<equiv> om_Name (fu_meta f)"
abbreviation fu_Namespace :: "frequi \<Rightarrow> string" where "fu_Namespace f \<equiv> om_Namespace (fu_meta f)"

definition frequi_image :: "frequi \<Rightarrow> string" where
  "frequi_image f = (case fu_app f fa_PodSpec of
       Some p \<Rightarrow> if fp_Image p \<noteq> [] then fp_Image p else ''freqtradeorg/frequi:latest''
     | None \<Rightarrow> ''freqtradeorg/frequi:latest'')"

definition BuildFreqUIDeployment :: "frequi \<Rightarrow> deployment" where
  "BuildFreqUIDeployment f =
    (let replicas = (case Option.bind (fu_app f fa_PodSpec) fp_Replicas of None \<Rightarrow> 1 | Some n \<Rightarrow> n);
         base = frequi_pod (frequi_image f);
         final = (case fu_app f fa_PodSpec of None \<Rightarrow> base | Some u \<Rightarrow> applyPodSpecOverrides base u)
     in \<lparr>dep_meta = mk_meta (fu_Name f) (fu_Namespace f), dep_Replicas = Some replicas,
         dep_Selector = [(appLabelKey, fu_Name f)],
         dep_Template = \<lparr>pt_Labels = [(appLabelKey, fu_Name f)], pt_Annotations = [], pt_Spec = final\<rparr>,
         dep_StatusReplicas = 0, dep_StatusAvailableReplicas = 0\<rparr>)"

section \<open>Service\<close>

definition applyServiceSpecOverrides :: "svcspec \<Rightarrow> fuservicespec \<Rightarrow> svcspec" where
  "applyServiceSpecOverrides s u =
    (let s = assign_if (fs_Type u \<noteq> []) (\<lambda>s. s\<lparr>svs_Type := fs_Type u\<rparr>) s;
         s = assign_if (fs_Ports u \<noteq> []) (\<lambda>s. s\<lparr>svs_Ports := fs_Ports u\<rparr>) s;
         s = assign_if (fs_Selector u \<noteq> []) (\<lambda>s. s\<lparr>svs_Selector := fs_Selector u\<rparr>) s;
         s = assign_if (fs_LoadBalancerSourceRanges u \<noteq> [])
               (\<lambda>s. s\<lparr>svs_LoadBalancerSourceRanges := fs_LoadBalancerSourceRanges u\<rparr>) s;
         s = assign_if (fs_ExternalTrafficPolicy u \<noteq> [])
               (\<lambda>s. s\<lparr>svs_ExternalTrafficPolicy := fs_ExternalTrafficPolicy u\<rparr>) s;
         s = assign_if (fs_SessionAffinity u \<noteq> []) (\<lambda>s. s\<lparr>svs_SessionAffinity := fs_SessionAffinity u\<rparr>) s
     in s)"

definition BuildFreqUIService :: "frequi \<Rightarrow> service" where
  "BuildFreqUIService f =
    (let base = \<lparr>svs_Selector = [(appLabelKey, fu_Name f)], svs_Type = ''ClusterIP'',
           svs_Ports = [\<lparr>sp_Name = ''http'', sp_Port = 80, sp_TargetPort = 80, sp_Protocol = ''TCP''\<rparr>],
           svs_LoadBalancerSourceRanges = [], svs_ExternalTrafficPolicy = [], svs_SessionAffinity = []\<rparr>
     in \<lparr>svc_meta = mk_meta (fu_Name f) (fu_Namespace f),
         svc_Spec = (case fu_app f fa_ServiceSpec of None \<Rightarrow> base | Some u \<Rightarrow> applyServiceSpecOverrides base u)\<rparr>)"

section \<open>Ingress\<close>

record tradebotapiroute =
  ar_Name :: string
  ar_ServiceName :: string
  ar_PathPrefix :: string

definition ResolveMainHost :: "frequi \<Rightarrow> string" where
  "ResolveMainHost f = (if fu_Host (fu_Spec f) \<noteq> [] then fu_Host (fu_Spec f)
     else fu_Name f @ ''.'' @ fu_Namespace f @ ''.svc.cluster.local'')"

definition api_host :: "frequi \<Rightarrow> tradebotapiroute \<Rightarrow> string" where
  "api_host f a = ar_Name a @ ''.'' @ ResolveMainHost f"

definition ingress_rule :: "string \<Rightarrow> string \<Rightarrow> int \<Rightarrow> ingressrule" where
  "ingress_rule host backend port = \<lparr>ir_Host = host,
     ir_Paths = [\<lparr>ip_Path = ''/'', ip_PathType = Some ''Prefix'', ip_Backend = ServiceBackend backend port\<rparr>]\<rparr>"

definition applyIngressSpecOverrides :: "ingressspec \<Rightarrow> fuingressspec \<Rightarrow> ingressspec" where
  "applyIngressSpecOverrides s u =
    (let s = assign_if (fi_IngressClassName u \<noteq> None) (\<lambda>s. s\<lparr>igs_IngressClassName := fi_IngressClassName u\<rparr>) s;
         s = assign_if (fi_Rules u \<noteq> []) (\<lambda>s. s\<lparr>igs_Rules := fi_Rules u\<rparr>) s;
         s = assign_if (fi_TLS u \<noteq> []) (\<lambda>s. s\<lparr>igs_TLS := fi_TLS u\<rparr>) s;
         s = assign_if (fi_DefaultBackend u \<noteq> None) (\<lambda>s. s\<lparr>igs_DefaultBackend := fi_DefaultBackend u\<rparr>) s
     in s)"

text \<open>A loop that assigns every entry of one map to another.\<close>

definition fu_map_merge :: "smap \<Rightarrow> smap \<Rightarrow> smap" where
  "fu_map_merge m extra = foldr (\<lambda>(k, v) acc. map_put k v acc) extra m"

definition BuildFreqUIIngress :: "frequi \<Rightarrow> tradebotapiroute list \<Rightarrow> ingress" where
  "BuildFreqUIIngress f apis =
    (let mainHost = ResolveMainHost f;
         rules = ingress_rule mainHost (fu_Name f) 80
           # map (\<lambda>a. ingress_rule (api_host f a) (ar_ServiceName a) 8080) apis;
         tls = (if fu_TLS (fu_Spec f) = []
                then [\<lparr>it_Hosts = mainHost # map (api_host f) apis, it_SecretName = []\<rparr>]
                else fu_TLS (fu_Spec f));
         base = \<lparr>igs_IngressClassName = None, igs_Rules = rules, igs_TLS = tls, igs_DefaultBackend = None\<rparr>;
         final = (case fu_app f fa_IngressSpec of None \<Rightarrow> base | Some u \<Rightarrow> applyIngressSpecOverrides base u);
         annotations = fu_map_merge [] (fu_IngressAnnotations (fu_Spec f));
         annotations = (case fu_app f fa_IngressSpec of None \<Rightarrow> annotations
                        | Some u \<Rightarrow> fu_map_merge annotations (fi_Annotations u))
     in \<lparr>ing_meta = (mk_meta (fu_Name f) (fu_Namespace f))\<lparr>om_Annotations := annotations\<rparr>, ing_Spec = final\<rparr>)"

section \<open>HTTPRoutes\<close>

abbreviation "FrequiRouteLabelKey \<equiv> ''freqtrade.io/frequi''"
abbreviation "managedByLabelKey \<equiv> ''app.kubernetes.io/managed-by''"
abbreviation "managedByLabelValue \<equiv> ''freqtrade-operator''"

definition buildHTTPRoute ::
  "string \<Rightarrow> string \<Rightarrow> string list \<Rightarrow> raw list \<Rightarrow> smap \<Rightarrow> smap \<Rightarrow> string \<Rightarrow> int \<Rightarrow> httproute" where
  "buildHTTPRoute name namespace hostnames parentRefs labels annotations backendServiceName backendPort =
    \<lparr>hr_meta = (mk_meta name namespace)\<lparr>om_Labels := labels, om_Annotations := annotations\<rparr>,
     hr_ParentRefs = parentRefs, hr_Hostnames = hostnames,
     hr_Rules = [\<lparr>hrr_PathType = ''PathPrefix'', hrr_PathValue = ''/'', hrr_BackendName = backendServiceName,
       hrr_BackendPort = backendPort\<rparr>],
     hr_StatusParents = []\<rparr>"

definition BuildFreqUIHTTPRoutes ::
  "klib \<Rightarrow> frequi \<Rightarrow> tradebotapiroute list \<Rightarrow> httproute list \<times> string list" where
  "BuildFreqUIHTTPRoutes K f apis =
    (let (parentRefs, annotations, labels) = (case fu_Gateway (fu_Spec f) of
             None \<Rightarrow> ([], [], [])
           | Some g \<Rightarrow> (fg_ParentRefs g, fg_Annotations g, fu_map_merge [] (fg_Labels g)));
         labels = map_put managedByLabelKey managedByLabelValue (map_put FrequiRouteLabelKey (fu_Name f) labels);
         uiHostnames = (case fu_Gateway (fu_Spec f) of
             Some g \<Rightarrow> if fg_Hostnames g \<noteq> [] then fg_Hostnames g else [ResolveMainHost f]
           | None \<Rightarrow> [ResolveMainHost f]);
         name_of = (\<lambda>a. fu_Name f @ ''-'' @ ar_Name a);
         ok = (\<lambda>a. IsDNS1123Subdomain K (name_of a))
     in (buildHTTPRoute (fu_Name f) (fu_Namespace f) uiHostnames parentRefs labels annotations (fu_Name f) 80
           # map (\<lambda>a. buildHTTPRoute (name_of a) (fu_Namespace f) [api_host f a] parentRefs labels annotations
                 (ar_ServiceName a) FreqtradeAPIPort) (filter ok apis),
         map ar_Name (filter (\<lambda>a. \<not> ok a) apis)))"

section \<open>What the overrides leave alone\<close>

lemma map_of_extra_merge: "map_of (fu_map_merge m extra) k = (case map_of extra k of Some v \<Rightarrow> Some v | None \<Rightarrow> map_of m k)"
  by (induction extra) (auto simp: fu_map_merge_def)

text \<open>Whatever the user sets, the container is the operator's with its security context and port, its
  own mounts come first and its volumes are there.\<close>

definition container_ext :: "container \<Rightarrow> container \<Rightarrow> bool" where
  "container_ext c c' \<longleftrightarrow> ct_Name c' = ct_Name c \<and> ct_Image c' = ct_Image c
     \<and> ct_SecurityContext c' = ct_SecurityContext c \<and> ct_Ports c' = ct_Ports c \<and> ct_Command c' = ct_Command c
     \<and> (\<exists>ms. ct_VolumeMounts c' = ct_VolumeMounts c @ ms)"

definition pod_ext :: "podspec \<Rightarrow> podspec \<Rightarrow> bool" where
  "pod_ext p q \<longleftrightarrow> list_all2 container_ext (ps_Containers p) (ps_Containers q) \<and> (\<exists>vs. ps_Volumes q = ps_Volumes p @ vs)"

lemma container_ext_refl [simp]: "container_ext c c"
  by (simp add: container_ext_def)

lemma container_ext_trans: "\<lbrakk>container_ext a b; container_ext b c\<rbrakk> \<Longrightarrow> container_ext a c"
  by (auto simp: container_ext_def)

lemma pod_ext_trans: "\<lbrakk>pod_ext p q; pod_ext q r\<rbrakk> \<Longrightarrow> pod_ext p r"
  unfolding pod_ext_def by (auto intro: list_all2_trans [OF container_ext_trans])

lemma pod_ext_assign: "\<lbrakk>pod_ext q (g q); pod_ext p q\<rbrakk> \<Longrightarrow> pod_ext p (assign_if b g q)"
  by (auto simp: assign_if_def intro: pod_ext_trans)

lemma pod_ext_over0: "(\<And>c. container_ext c (g c)) \<Longrightarrow> pod_ext p (over0 g p)"
  by (auto simp: pod_ext_def list_all2_refl split: list.split)

lemma pod_ext_same: "\<lbrakk>ps_Containers q = ps_Containers p; \<exists>vs. ps_Volumes q = ps_Volumes p @ vs\<rbrakk> \<Longrightarrow> pod_ext p q"
  by (simp add: pod_ext_def list_all2_refl)

lemma applyPodSpecOverrides_keeps: "pod_ext p (applyPodSpecOverrides p u)"
  unfolding applyPodSpecOverrides_def Let_def
  by (rule pod_ext_assign, (rule pod_ext_same pod_ext_over0, simp_all add: container_ext_def)[1])+
     (simp add: pod_ext_same)

lemma deployment_container:
  "\<exists>c. ps_Containers (pt_Spec (dep_Template (BuildFreqUIDeployment f))) = [c]
     \<and> ct_SecurityContext c = Some frequiSecurityContext \<and> ct_Image c = frequi_image f
     \<and> (\<exists>ms. ct_VolumeMounts c = [frequi_mount ''tmp'' ''/tmp'', frequi_mount ''nginx-cache'' ''/var/cache/nginx'',
         frequi_mount ''nginx-run'' ''/var/run''] @ ms)"
proof (cases "fu_app f fa_PodSpec")
  case None
  then show ?thesis by (simp add: BuildFreqUIDeployment_def Let_def frequi_pod_def)
next
  case (Some u)
  have "ps_Containers (frequi_pod img) = [hd (ps_Containers (frequi_pod img))]" for img by (simp add: frequi_pod_def)
  with applyPodSpecOverrides_keeps [of "frequi_pod (frequi_image f)" u] Some show ?thesis
    by (auto simp: BuildFreqUIDeployment_def Let_def frequi_pod_def pod_ext_def container_ext_def list_all2_Cons1)
qed

section \<open>The two exposures agree\<close>

text \<open>What a host is routed to: hosts with the backend Service and port, for an Ingress rule and for a
  route.\<close>

definition ingress_targets :: "ingress \<Rightarrow> (string \<times> ingressbackend) list" where
  "ingress_targets i = concat (map (\<lambda>r. map (\<lambda>p. (ir_Host r, ip_Backend p)) (ir_Paths r)) (igs_Rules (ing_Spec i)))"

definition route_targets :: "httproute list \<Rightarrow> (string \<times> ingressbackend) list" where
  "route_targets rs = concat (map (\<lambda>r. concat (map (\<lambda>h. map (\<lambda>u. (h, ServiceBackend (hrr_BackendName u) (hrr_BackendPort u)))
     (hr_Rules r)) (hr_Hostnames r))) rs)"

lemma ingress_targets_built:
  assumes "\<And>u. fu_app f fa_IngressSpec = Some u \<Longrightarrow> fi_Rules u = []"
  shows "ingress_targets (BuildFreqUIIngress f apis) =
     (ResolveMainHost f, ServiceBackend (fu_Name f) 80) # map (\<lambda>a. (api_host f a, ServiceBackend (ar_ServiceName a) 8080)) apis"
proof -
  have "igs_Rules (ing_Spec (BuildFreqUIIngress f apis)) = ingress_rule (ResolveMainHost f) (fu_Name f) 80
      # map (\<lambda>a. ingress_rule (api_host f a) (ar_ServiceName a) 8080) apis"
    using assms by (cases "fu_app f fa_IngressSpec")
      (simp_all add: BuildFreqUIIngress_def Let_def applyIngressSpecOverrides_def assign_if_def)
  moreover have "concat (map (\<lambda>r. map (\<lambda>p. (ir_Host r, ip_Backend p)) (ir_Paths r))
       (map (\<lambda>a. ingress_rule (api_host f a) (ar_ServiceName a) 8080) apis))
     = map (\<lambda>a. (api_host f a, ServiceBackend (ar_ServiceName a) 8080)) apis"
    by (induction apis) (simp_all add: ingress_rule_def)
  ultimately show ?thesis by (simp add: ingress_targets_def ingress_rule_def)
qed

lemma route_targets_Cons:
  "route_targets (buildHTTPRoute n ns [h] ps ls an b p # rs) = (h, ServiceBackend b p) # route_targets rs"
  by (simp add: route_targets_def buildHTTPRoute_def)

lemma route_targets_map:
  "route_targets (map (\<lambda>a. buildHTTPRoute (nm a) ns [h a] ps ls an (b a) p) xs) = map (\<lambda>a. (h a, ServiceBackend (b a) p)) xs"
  by (induction xs) (simp_all add: route_targets_Cons, simp add: route_targets_def)

lemma route_targets_built:
  assumes "\<And>g. fu_Gateway (fu_Spec f) = Some g \<Longrightarrow> fg_Hostnames g = []"
    and "\<And>a. a \<in> set apis \<Longrightarrow> IsDNS1123Subdomain K (fu_Name f @ ''-'' @ ar_Name a)"
  shows "route_targets (fst (BuildFreqUIHTTPRoutes K f apis)) =
     (ResolveMainHost f, ServiceBackend (fu_Name f) 80) # map (\<lambda>a. (api_host f a, ServiceBackend (ar_ServiceName a) 8080)) apis"
  using assms
  by (cases "fu_Gateway (fu_Spec f)")
     (simp_all add: BuildFreqUIHTTPRoutes_def Let_def split_beta route_targets_Cons route_targets_map FreqtradeAPIPort_def)

text \<open>Every route names this FreqUI in its ownership label, whatever labels the user asked for, lies in the
  FreqUI's namespace and has no owner yet; the routes and the skipped names account for every API
  route.\<close>

lemma built_routes:
  assumes "r \<in> set (fst (BuildFreqUIHTTPRoutes K f apis))"
  shows "map_of (om_Labels (hr_meta r)) FrequiRouteLabelKey = Some (fu_Name f)"
    "om_Namespace (hr_meta r) = fu_Namespace f" "om_OwnerReferences (hr_meta r) = []"
    "om_Name (hr_meta r) = fu_Name f \<or> (\<exists>a \<in> set apis. om_Name (hr_meta r) = fu_Name f @ ''-'' @ ar_Name a)"
  using assms by (auto simp: BuildFreqUIHTTPRoutes_def Let_def split_beta buildHTTPRoute_def mk_meta_def)

lemma built_routes_count:
  "length (fst (BuildFreqUIHTTPRoutes K f apis)) + length (snd (BuildFreqUIHTTPRoutes K f apis)) = Suc (length apis)"
  by (simp add: BuildFreqUIHTTPRoutes_def Let_def split_beta sum_length_filter_compl)

lemma frequi_built_unowned [simp]:
  "om_OwnerReferences (dep_meta (BuildFreqUIDeployment f)) = []"
  "om_OwnerReferences (svc_meta (BuildFreqUIService f)) = []"
  "om_OwnerReferences (ing_meta (BuildFreqUIIngress f apis)) = []"
  by (simp_all add: BuildFreqUIDeployment_def BuildFreqUIService_def BuildFreqUIIngress_def Let_def mk_meta_def)

end
