(* ===== verification/FreqUIReconcile.thy ===== *)
theory FreqUIReconcile
  imports FreqUIResources TradeBotConditions
begin

text \<open>The FreqUI reconciler (\<open>controllers/frequi/main.go\<close>): it applies the Deployment and the Service,
  turns the referenced TradeBots into API routes, exposes the UI through an Ingress, through HTTPRoutes or
  not at all, removes what an earlier exposure mode left behind, and reports WorkloadReady,
  TradeBotRefsResolved, ExposureReady and their aggregate Ready. The lemmas say what it deletes, what
  the written status means, and which name conflicts it can notice.\<close>

record freqreconciler =
  fr_Recorder :: bool
  fr_GatewayAPIAvailable :: bool

section \<open>Conditions and URL\<close>

definition deriveFreqUIPhase :: "klib \<Rightarrow> condition list \<Rightarrow> string" where
  "deriveFreqUIPhase K conditions = (case FindStatusCondition K conditions ConditionWorkloadReady of
       None \<Rightarrow> ''Initializing''
     | Some c \<Rightarrow>
        if cd_Reason c = ReasonWorkloadHealthy
        then (if IsStatusConditionFalse K conditions ConditionExposureReady then ''Degraded'' else ''Running'')
        else if cd_Reason c = ReasonReconcileError then ''ResourceError''
        else ''Pending'')"

definition aggregateReadyCondition :: "klib \<Rightarrow> condition list \<Rightarrow> string \<Rightarrow> condition" where
  "aggregateReadyCondition K conditions message =
    (let workloadReady = IsStatusConditionTrue K conditions ConditionWorkloadReady;
         exposureReady = IsStatusConditionTrue K conditions ConditionExposureReady;
         reason_of = (\<lambda>ty. case FindStatusCondition K conditions ty of
            Some c \<Rightarrow> cd_Reason c | None \<Rightarrow> ReasonWorkloadProgressing)
     in if workloadReady \<and> exposureReady then mk_cond ConditionReady ConditionTrue ReasonAsExpected message
        else mk_cond ConditionReady ConditionFalse
          (if \<not> workloadReady then reason_of ConditionWorkloadReady else reason_of ConditionExposureReady) message)"

definition deriveFreqUIURL :: "golib \<Rightarrow> frequi \<Rightarrow> string" where
  "deriveFreqUIURL G f =
    (if fu_Exposure (fu_Spec f) = FUExposureNone
     then ''http://'' @ fu_Name f @ ''.'' @ fu_Namespace f @ ''.svc.cluster.local''
     else (let defaultScheme = (if fu_Exposure (fu_Spec f) \<noteq> FUExposureGateway \<and> fu_TLS (fu_Spec f) \<noteq> []
                 then ''https'' else ''http'');
               (scheme, hostname) = InferHostScheme G (ResolveMainHost f) defaultScheme
           in scheme @ ''://'' @ hostname))"

definition tradeBotRefsResolvedCondition :: "string list \<Rightarrow> condition" where
  "tradeBotRefsResolvedCondition unresolvedRefs =
    (if unresolvedRefs = [] then mk_cond ConditionTradeBotRefsResolved ConditionTrue ReasonAsExpected []
     else mk_cond ConditionTradeBotRefsResolved ConditionFalse ReasonUnresolvableTradeBotRefs
       (''spec.tradeBotRefs entries with no matching TradeBot in this namespace: '' @ Join unresolvedRefs '', ''))"

definition isDeploymentReady :: "deployment \<Rightarrow> bool" where
  "isDeploymentReady d \<longleftrightarrow> dep_StatusAvailableReplicas d = dep_StatusReplicas d \<and> dep_StatusReplicas d > 0"

text \<open>The \<open>%v\<close> verb on a \<open>[]string\<close>.\<close>

definition fmt_strings :: "string list \<Rightarrow> string" where
  "fmt_strings xs = ''['' @ Join xs '' '' @ '']''"

section \<open>What the gateways say of a route\<close>

text \<open>\<open>route_verdict\<close> is the loop over one route's parents: None when some parent accepts the route,
  otherwise the first reason a parent gave for not doing so.\<close>

definition parent_accepts :: "klib \<Rightarrow> condition list \<Rightarrow> bool" where
  "parent_accepts K cs \<longleftrightarrow>
     (case (FindStatusCondition K cs ''Accepted'', FindStatusCondition K cs ''ResolvedRefs'') of
        (Some a, Some r) \<Rightarrow> cd_Status a = ConditionTrue \<and> cd_Status r = ConditionTrue
      | _ \<Rightarrow> False)"

definition parent_reason :: "klib \<Rightarrow> condition list \<Rightarrow> string" where
  "parent_reason K cs =
     (let refused = (\<lambda>ty. case FindStatusCondition K cs ty of
         Some c \<Rightarrow> if cd_Status c \<noteq> ConditionTrue then Some (cd_Reason c) else None | None \<Rightarrow> None)
      in case refused ''Accepted'' of Some r \<Rightarrow> r
         | None \<Rightarrow> (case refused ''ResolvedRefs'' of Some r \<Rightarrow> r | None \<Rightarrow> []))"

fun route_verdict :: "klib \<Rightarrow> condition list list \<Rightarrow> string \<Rightarrow> string option" where
  "route_verdict K [] firstReason = Some (if firstReason = [] then ''Unknown'' else firstReason)"
| "route_verdict K (p # ps) firstReason =
     (if parent_accepts K p then None
      else route_verdict K ps (if firstReason = [] then parent_reason K p else firstReason))"

text \<open>A failure: the route's name, and its reason, or none when no gateway has claimed the route.\<close>

definition route_failure :: "klib \<Rightarrow> httproute \<Rightarrow> (string \<times> string option) option" where
  "route_failure K route =
    (if hr_StatusParents route = [] then Some (om_Name (hr_meta route), None)
     else map_option (\<lambda>reason. (om_Name (hr_meta route), Some reason)) (route_verdict K (hr_StatusParents route) []))"

definition deriveGatewayExposureCondition :: "klib \<Rightarrow> httproute list \<Rightarrow> condition" where
  "deriveGatewayExposureCondition K routes =
    (let failures = List.map_filter (route_failure K) routes;
         reason = (if list_ex (\<lambda>(_, r). r = None) failures then ReasonRoutePending else ReasonRouteNotAccepted);
         names = map (\<lambda>(n, r). case r of None \<Rightarrow> n @ '' (pending)'' | Some s \<Rightarrow> n @ '' ('' @ s @ '')'') failures
     in if failures = []
        then mk_cond ConditionExposureReady ConditionTrue ReasonAsExpected ''every HTTPRoute was accepted by its Gateway''
        else mk_cond ConditionExposureReady ConditionFalse reason
          (''not every HTTPRoute has been accepted: '' @ Join names '', ''))"

section \<open>Removing what another exposure mode left\<close>

definition owned_by :: "klib \<Rightarrow> frequi \<Rightarrow> objmeta \<Rightarrow> bool" where
  "owned_by K f m = (case GetControllerOf K m of None \<Rightarrow> False | Some owner \<Rightarrow> or_UID owner = om_UID (fu_meta f))"

fun prune_loop :: "'e api \<Rightarrow> klib \<Rightarrow> frequi \<Rightarrow> string list \<Rightarrow> httproute list \<Rightarrow> ('e, goerr option) op" where
  "prune_loop A K f desired [] = State_Monad.return None"
| "prune_loop A K f desired (route # rs) =
     (if om_Name (hr_meta route) \<in> set desired \<or> \<not> owned_by K f (hr_meta route) then prune_loop A K f desired rs
      else do {
        d \<leftarrow> do_DeleteHTTPRoute A route;
        case d of
          Some e \<Rightarrow> if IsNotFound e then prune_loop A K f desired rs
            else State_Monad.return (Some (Wrap (''failed to delete stale HTTPRoute '' @ om_Name (hr_meta route) @ '': '') e))
        | None \<Rightarrow> prune_loop A K f desired rs })"

definition pruneHTTPRoutes :: "'e api \<Rightarrow> klib \<Rightarrow> freqreconciler \<Rightarrow> frequi \<Rightarrow> string list \<Rightarrow> ('e, goerr option) op" where
  "pruneHTTPRoutes A K R f desired =
    (if \<not> fr_GatewayAPIAvailable R then State_Monad.return None
     else do {
       l \<leftarrow> do_ListHTTPRoutes A (fu_Namespace f) [(FrequiRouteLabelKey, fu_Name f)];
       case l of
         Inl e \<Rightarrow> State_Monad.return (Some (Wrap ''failed to list HTTPRoutes for pruning: '' e))
       | Inr routes \<Rightarrow> prune_loop A K f desired routes })"

definition deleteOwnedIngress :: "'e api \<Rightarrow> klib \<Rightarrow> frequi \<Rightarrow> ('e, goerr option) op" where
  "deleteOwnedIngress A K f = do {
     g \<leftarrow> do_GetIngress A \<lparr>nn_Namespace = fu_Namespace f, nn_Name = fu_Name f\<rparr>;
     case g of
       Inl e \<Rightarrow> State_Monad.return (if IsNotFound e then None else Some (Wrap ''failed to get Ingress for deletion: '' e))
     | Inr i \<Rightarrow>
         if \<not> owned_by K f (ing_meta i) then State_Monad.return None
         else do {
           d \<leftarrow> do_DeleteIngress A i;
           State_Monad.return (case d of
               None \<Rightarrow> None
             | Some e \<Rightarrow> if IsNotFound e then None else Some (Wrap ''failed to delete Ingress: '' e)) } }"

section \<open>Exposure\<close>

text \<open>Applying the routes: the routes as the server returned them, and the names that collided.\<close>

fun apply_routes ::
  "'e api \<Rightarrow> klib \<Rightarrow> frequi \<Rightarrow> httproute list \<Rightarrow> httproute list \<Rightarrow> string list \<Rightarrow> ('e, goerr + httproute list \<times> string list) op" where
  "apply_routes A K f [] applied conflicts = State_Monad.return (Inr (applied, conflicts))"
| "apply_routes A K f (route # rs) applied conflicts = do {
     a \<leftarrow> Apply_HTTPRoute A K (fu_meta f) route;
     case a of
       Inl e \<Rightarrow> if is_already_owned e then apply_routes A K f rs applied (conflicts @ [om_Name (hr_meta route)])
         else State_Monad.return (Inl (Wrap (''failed to apply HTTPRoute '' @ om_Name (hr_meta route) @ '': '') e))
     | Inr route' \<Rightarrow> apply_routes A K f rs (applied @ [route']) conflicts }"

text \<open>\<open>prune_then\<close>: the two clean-up calls and then the condition to report.\<close>

definition prune_then ::
  "'e api \<Rightarrow> klib \<Rightarrow> freqreconciler \<Rightarrow> frequi \<Rightarrow> string list \<Rightarrow> bool \<Rightarrow> condition \<Rightarrow> ('e, goerr + condition) op" where
  "prune_then A K R f desired drop_ingress cond = do {
     p \<leftarrow> pruneHTTPRoutes A K R f desired;
     case p of
       Some e \<Rightarrow> State_Monad.return (Inl e)
     | None \<Rightarrow>
         if \<not> drop_ingress then State_Monad.return (Inr cond)
         else do {
           d \<leftarrow> deleteOwnedIngress A K f;
           State_Monad.return (case d of Some e \<Rightarrow> Inl e | None \<Rightarrow> Inr cond) } }"

definition reconcileExposure ::
  "'e api \<Rightarrow> klib \<Rightarrow> freqreconciler \<Rightarrow> frequi \<Rightarrow> tradebotapiroute list \<Rightarrow> ('e, goerr + condition) op" where
  "reconcileExposure A K R f apis =
    (if fu_Exposure (fu_Spec f) = FUExposureGateway then
       (if \<not> fr_GatewayAPIAvailable R
        then State_Monad.return (Inr (mk_cond ConditionExposureReady ConditionFalse ReasonGatewayAPINotInstalled
          (''spec.exposure is Gateway, but this cluster does not serve gateway.networking.k8s.io/v1 '' @
           ''HTTPRoute. Install Gateway API and restart the operator - availability is only checked at startup.'')))
        else (let (routes, skippedRoutes) = BuildFreqUIHTTPRoutes K f apis in do {
          a \<leftarrow> apply_routes A K f routes [] [];
          case a of
            Inl e \<Rightarrow> State_Monad.return (Inl e)
          | Inr (applied, conflictNames) \<Rightarrow>
              prune_then A K R f (map (om_Name \<circ> hr_meta) applied) True
                (if conflictNames \<noteq> [] \<or> skippedRoutes \<noteq> []
                 then mk_cond ConditionExposureReady ConditionFalse ReasonRouteNameConflict
                   (''could not reconcile every HTTPRoute: name conflicts='' @ fmt_strings conflictNames
                    @ '', over-long names='' @ fmt_strings skippedRoutes)
                 else deriveGatewayExposureCondition K applied) }))
     else if fu_Exposure (fu_Spec f) = FUExposureNone then
       prune_then A K R f [] True
         (mk_cond ConditionExposureReady ConditionTrue ReasonExposureNone ''no external exposure requested'')
     else do {
       let ingress = BuildFreqUIIngress f apis;
       a \<leftarrow> Apply A K (fu_meta f) (MIngress ingress);
       case a of
         Some e \<Rightarrow> State_Monad.return
           (if is_already_owned e
            then Inr (mk_cond ConditionExposureReady ConditionFalse ReasonRouteNameConflict
              (''could not apply Ingress '' @ om_Name (ing_meta ingress) @ '': '' @ err_Error e))
            else Inl (Wrap ''failed to apply ingress: '' e))
       | None \<Rightarrow> prune_then A K R f [] False
           (mk_cond ConditionExposureReady ConditionTrue ReasonAsExpected ''Ingress applied'') })"

section \<open>All resources\<close>

definition api_enabled :: "tradebotconfig \<Rightarrow> bool" where
  "api_enabled c \<longleftrightarrow> tcst_Phase (tc_Status c) = ''Valid''
     \<and> (case tcs_APIServer (tc_Spec c) of Some a \<Rightarrow> as_Enabled a = Some True | None \<Rightarrow> False)"

fun resolve_refs ::
  "'e api \<Rightarrow> frequi \<Rightarrow> string list \<Rightarrow> tradebotapiroute list \<Rightarrow> string list
     \<Rightarrow> ('e, goerr + tradebotapiroute list \<times> string list) op" where
  "resolve_refs A f [] apis unresolved = State_Monad.return (Inr (apis, unresolved))"
| "resolve_refs A f (ref # refs) apis unresolved = do {
     b \<leftarrow> do_GetTradeBot A \<lparr>nn_Namespace = fu_Namespace f, nn_Name = ref\<rparr>;
     case b of
       Inl e \<Rightarrow> if IsNotFound e then resolve_refs A f refs apis (unresolved @ [ref])
         else State_Monad.return (Inl (Wrap (''failed to get TradeBot '' @ ref @ '': '') e))
     | Inr tb \<Rightarrow> do {
         c \<leftarrow> do_GetTradeBotConfig A \<lparr>nn_Namespace = fu_Namespace f, nn_Name = tb_Config (tb_Spec tb)\<rparr>;
         case c of
           Inl e \<Rightarrow> resolve_refs A f refs apis unresolved
         | Inr cfg \<Rightarrow>
             resolve_refs A f refs
               (if api_enabled cfg then apis @ [\<lparr>ar_Name = ref, ar_ServiceName = ref, ar_PathPrefix = ref\<rparr>] else apis)
               unresolved } }"

definition reconcileAllResources ::
  "'e api \<Rightarrow> klib \<Rightarrow> freqreconciler \<Rightarrow> frequi \<Rightarrow> ('e, goerr + string list \<times> condition) op" where
  "reconcileAllResources A K R f = do {
     d \<leftarrow> Apply A K (fu_meta f) (MDeployment (BuildFreqUIDeployment f));
     case d of
       Some e \<Rightarrow> State_Monad.return (Inl (Wrap ''failed to apply deployment: '' e))
     | None \<Rightarrow> do {
         s \<leftarrow> Apply A K (fu_meta f) (MService (BuildFreqUIService f));
         case s of
           Some e \<Rightarrow> State_Monad.return (Inl (Wrap ''failed to apply service: '' e))
         | None \<Rightarrow> do {
             r \<leftarrow> resolve_refs A f (fu_TradeBotRefs (fu_Spec f)) [] [];
             case r of
               Inl e \<Rightarrow> State_Monad.return (Inl e)
             | Inr (apis, unresolved) \<Rightarrow> do {
                 x \<leftarrow> reconcileExposure A K R f apis;
                 State_Monad.return (case x of Inl e \<Rightarrow> Inl e | Inr cond \<Rightarrow> Inr (unresolved, cond)) } } } }"

section \<open>Reconcile\<close>

definition frequi_fail_mutate :: "klib \<Rightarrow> string \<Rightarrow> gotime \<Rightarrow> frequi \<Rightarrow> frequi \<times> unit" where
  "frequi_fail_mutate K message now f =
    (let cs = fst_Conditions (fu_Status f);
         cs = SetStatusCondition K now (mk_cond ConditionWorkloadReady ConditionFalse ReasonReconcileError message) cs;
         cs = SetStatusCondition K now (mk_cond ConditionReady ConditionFalse ReasonReconcileError message) cs
     in (f\<lparr>fu_Status := (fu_Status f)\<lparr>fst_Conditions := cs, fst_Phase := deriveFreqUIPhase K cs,
           fst_Message := message\<rparr>\<rparr>, ()))"

definition frequi_failReconcile ::
  "'e api \<Rightarrow> klib \<Rightarrow> freqreconciler \<Rightarrow> frequi \<Rightarrow> string \<Rightarrow> duration \<Rightarrow> goerr option \<Rightarrow> ('e, reconcile_result) op" where
  "frequi_failReconcile A K R f message requeueAfter err = do {
     p \<leftarrow> PatchStatus A (frequi_cobj A K) (key_of_meta (fu_meta f)) (frequi_fail_mutate K message);
     case p of
       Inl patchErr \<Rightarrow> State_Monad.return (mk_result (5 * Second) (Some patchErr))
     | Inr _ \<Rightarrow> do {
         _ \<leftarrow> record_event (fr_Recorder R) EventWarning ReasonReconcileError message;
         _ \<leftarrow> emit (MetricInc ''freqtrade_operator_reconcile_errors_total'' [''frequi'', ReasonReconcileError]);
         State_Monad.return (mk_result requeueAfter err) } }"

definition frequi_ready_mutate ::
  "klib \<Rightarrow> bool \<Rightarrow> string \<Rightarrow> string \<Rightarrow> string list \<Rightarrow> condition \<Rightarrow> gotime \<Rightarrow> frequi \<Rightarrow> frequi \<times> unit" where
  "frequi_ready_mutate K ready message url unresolvedRefs exposureCond now f =
    (let cs = fst_Conditions (fu_Status f);
         condition = (if ready then mk_cond ConditionWorkloadReady ConditionTrue ReasonWorkloadHealthy message
           else mk_cond ConditionWorkloadReady ConditionFalse ReasonWorkloadProgressing message);
         cs = SetStatusCondition K now condition cs;
         cs = SetStatusCondition K now (tradeBotRefsResolvedCondition unresolvedRefs) cs;
         cs = SetStatusCondition K now exposureCond cs;
         cs = SetStatusCondition K now (aggregateReadyCondition K cs message) cs
     in (f\<lparr>fu_Status := (fu_Status f)\<lparr>fst_Conditions := cs, fst_Phase := deriveFreqUIPhase K cs,
           fst_Message := message, fst_URL := url\<rparr>\<rparr>, ()))"

definition frequi_status ::
  "'e api \<Rightarrow> klib \<Rightarrow> golib \<Rightarrow> freqreconciler \<Rightarrow> frequi \<Rightarrow> string list \<Rightarrow> condition \<Rightarrow> deployment \<Rightarrow> ('e, reconcile_result) op" where
  "frequi_status A K G R f unresolvedRefs exposureCond d =
    (let ready = isDeploymentReady d;
         message = (if ready then ''FreqUI deployed successfully''
           else ''Waiting for deployment to be ready ('' @ Itoa (dep_StatusAvailableReplicas d) @ ''/''
             @ Itoa (dep_StatusReplicas d) @ '' replicas)'');
         url = (if ready then deriveFreqUIURL G f else []);
         requeueAfter = (if ready then 5 * Minute else 15 * Second);
         wasReady = IsStatusConditionTrue K (fst_Conditions (fu_Status f)) ConditionWorkloadReady
     in do {
       p \<leftarrow> PatchStatus A (frequi_cobj A K) (key_of_meta (fu_meta f))
         (frequi_ready_mutate K ready message url unresolvedRefs exposureCond);
       case p of
         Inl e \<Rightarrow> State_Monad.return (mk_result (5 * Second) (Some e))
       | Inr _ \<Rightarrow> do {
           _ \<leftarrow> record_event (fr_Recorder R \<and> \<not> wasReady \<and> ready) EventNormal ''WorkloadReady'' ''FreqUI deployment is ready'';
           State_Monad.return (mk_result requeueAfter None) } })"

definition FreqUI_Reconcile ::
  "'e api \<Rightarrow> klib \<Rightarrow> golib \<Rightarrow> freqreconciler \<Rightarrow> nname \<Rightarrow> ('e, reconcile_result) op" where
  "FreqUI_Reconcile A K G R key = do {
     r \<leftarrow> do_GetFreqUI A key;
     case r of
       Inl e \<Rightarrow> State_Monad.return (if IsNotFound e then mk_result 0 None else mk_result 0 (IgnoreNotFound e))
     | Inr f \<Rightarrow> do {
         x \<leftarrow> reconcileAllResources A K R f;
         case x of
           Inl e \<Rightarrow> frequi_failReconcile A K R f (''Failed to reconcile resources: '' @ err_Error e) (30 * Second) (Some e)
         | Inr (unresolvedRefs, exposureCond) \<Rightarrow> do {
             g \<leftarrow> do_GetDeployment A \<lparr>nn_Namespace = fu_Namespace f, nn_Name = fu_Name f\<rparr>;
             case g of
               Inl e \<Rightarrow> frequi_failReconcile A K R f (''Failed to get deployment status: '' @ err_Error e) (30 * Second) (Some e)
             | Inr d \<Rightarrow> frequi_status A K G R f unresolvedRefs exposureCond d } } }"

section \<open>Deletions\<close>

text \<open>The object an event asks the API server to delete.\<close>

definition deleted_meta :: "event \<Rightarrow> objmeta option" where
  "deleted_meta e = (case e of DeleteHTTPRoute r _ \<Rightarrow> Some (hr_meta r) | DeleteIngress i _ \<Rightarrow> Some (ing_meta i) | _ \<Rightarrow> None)"

definition delete_ok :: "klib \<Rightarrow> frequi \<Rightarrow> event \<Rightarrow> bool" where
  "delete_ok K f e \<longleftrightarrow> (\<forall>m. deleted_meta e = Some m \<longrightarrow> owned_by K f m)
     \<and> (\<forall>i r. e = DeleteIngress i r \<longrightarrow> fu_Exposure (fu_Spec f) \<in> {FUExposureGateway, FUExposureNone})"

lemma delete_ok_simps [simp]:
  "delete_ok K f (DeleteHTTPRoute r x) = owned_by K f (hr_meta r)"
  "delete_ok K f (DeleteIngress i x) \<longleftrightarrow> owned_by K f (ing_meta i) \<and> fu_Exposure (fu_Spec f) \<in> {FUExposureGateway, FUExposureNone}"
  "delete_ok K f (ApplyPatch m y)" "delete_ok K f (PatchHTTPRoute r z)" "delete_ok K f (ListHTTPRoutes a b c)"
  "delete_ok K f (GetIngress k i')" "delete_ok K f (GetTradeBot k tb)" "delete_ok K f (GetTradeBotConfig k tc)"
  "delete_ok K f (GetFreqUI k fr)" "delete_ok K f (StatusUpdateFreqUI f' r')" "delete_ok K f (GetDeployment k dr)"
  "delete_ok K f (Recorded ty rs ms)" "delete_ok K f (MetricInc n l)"
  by (simp_all add: delete_ok_def deleted_meta_def)

lemma only_prune_loop: "only (delete_ok K f) (prune_loop A K f desired rs)"
  by (induction rs) (auto simp: call_defs intro!: only_intro)

lemma only_pruneHTTPRoutes: "only (delete_ok K f) (pruneHTTPRoutes A K R f desired)"
  by (auto simp: pruneHTTPRoutes_def call_defs intro!: only_intro only_prune_loop)

lemma only_deleteOwnedIngress:
  "fu_Exposure (fu_Spec f) \<in> {FUExposureGateway, FUExposureNone} \<Longrightarrow> only (delete_ok K f) (deleteOwnedIngress A K f)"
  unfolding deleteOwnedIngress_def call_defs by (intro only_intro) auto

lemma only_prune_then:
  "(b \<Longrightarrow> fu_Exposure (fu_Spec f) \<in> {FUExposureGateway, FUExposureNone}) \<Longrightarrow> only (delete_ok K f) (prune_then A K R f ds b c)"
  unfolding prune_then_def by (intro only_intro only_pruneHTTPRoutes only_deleteOwnedIngress) auto

lemma only_Apply_HTTPRoute: "(\<And>x y. P (PatchHTTPRoute x y)) \<Longrightarrow> only P (Apply_HTTPRoute A K owner route)"
  by (auto simp: Apply_HTTPRoute_def call_defs intro!: only_intro)

lemma only_apply_routes:
  "(\<And>x y. P (PatchHTTPRoute x y)) \<Longrightarrow> only P (apply_routes A K f rs applied conflicts)"
  by (induction rs arbitrary: applied conflicts) (auto intro!: only_intro only_Apply_HTTPRoute)

lemma only_reconcileExposure: "only (delete_ok K f) (reconcileExposure A K R f apis)"
  unfolding reconcileExposure_def Let_def split_beta
  by (intro only_intro only_prune_then only_apply_routes) auto

lemma only_resolve_refs:
  "\<lbrakk>\<And>k x. P (GetTradeBot k x); \<And>k x. P (GetTradeBotConfig k x)\<rbrakk> \<Longrightarrow> only P (resolve_refs A f refs apis un)"
  by (induction refs arbitrary: apis un) (auto simp: call_defs intro!: only_intro)

lemma only_reconcileAllResources: "only (delete_ok K f) (reconcileAllResources A K R f)"
  unfolding reconcileAllResources_def
  by (intro only_intro only_resolve_refs only_reconcileExposure) auto

text \<open>A read, and then a program whose events are judged by what was read.\<close>

lemma emits_read_then:
  assumes "\<And>x. only (S x) (g x)"
  shows "emits (State_Monad.bind (call f ev) g) (\<lambda>_ t. \<exists>x u. t = ev x # u \<and> list_all (S x) u)"
  by (rule emits_bind [OF emits_call [where Q = "\<lambda>x t. t = [ev x]"]], rule refl,
      rule emits_conseq [OF assms [unfolded only_def]]) auto

lemma FreqUI_Reconcile_deletes:
  "emits (FreqUI_Reconcile A K G R key)
     (\<lambda>_ t. \<exists>r u. t = GetFreqUI key r # u \<and> list_all (\<lambda>e. \<forall>f. r = Inr f \<longrightarrow> delete_ok K f e) u \<and> (\<forall>e. r = Inl e \<longrightarrow> u = []))"
proof -
  have fail: "only (delete_ok K f) (frequi_failReconcile A K R f m d x)" for f m d x
    unfolding frequi_failReconcile_def
    by (intro only_intro only_PatchStatus) (auto simp: frequi_cobj_def call_defs intro!: only_intro)
  have status: "only (delete_ok K f) (frequi_status A K G R f un c d)" for f un c d
    unfolding frequi_status_def Let_def
    by (intro only_intro only_PatchStatus) (auto simp: frequi_cobj_def call_defs intro!: only_intro)
  have get: "emits (do_GetFreqUI A key) (\<lambda>r t. t = [GetFreqUI key r])"
    unfolding do_GetFreqUI_def by (rule emits_call) simp
  have body: "only (delete_ok K f) (do {
         x \<leftarrow> reconcileAllResources A K R f;
         case x of
           Inl e \<Rightarrow> frequi_failReconcile A K R f (''Failed to reconcile resources: '' @ err_Error e) (30 * Second) (Some e)
         | Inr (unresolvedRefs, exposureCond) \<Rightarrow> do {
             g \<leftarrow> do_GetDeployment A \<lparr>nn_Namespace = fu_Namespace f, nn_Name = fu_Name f\<rparr>;
             case g of
               Inl e \<Rightarrow> frequi_failReconcile A K R f (''Failed to get deployment status: '' @ err_Error e) (30 * Second) (Some e)
             | Inr d \<Rightarrow> frequi_status A K G R f unresolvedRefs exposureCond d } })" for f
    unfolding do_GetDeployment_def by (intro only_intro only_reconcileAllResources fail status) simp
  show ?thesis
    unfolding FreqUI_Reconcile_def
    by (rule emits_bind [OF get], rule emits_case_sum, rule emits_return, simp,
        rule emits_conseq [OF body [unfolded only_def]]) auto
qed

section \<open>What the written status means\<close>

text \<open>The meaning of a written status: Ready is the conjunction of WorkloadReady and ExposureReady, the phase
  Running says the same, and Degraded says that the workload is up but not reachable.\<close>

definition frequi_status_ok :: "klib \<Rightarrow> frequi \<Rightarrow> bool" where
  "frequi_status_ok K f \<longleftrightarrow>
    (let cs = fst_Conditions (fu_Status f); phase = fst_Phase (fu_Status f);
         workload = IsStatusConditionTrue K cs ConditionWorkloadReady;
         exposure = IsStatusConditionTrue K cs ConditionExposureReady
     in (IsStatusConditionTrue K cs ConditionReady \<longleftrightarrow> workload \<and> exposure)
      \<and> (phase = ''Running'' \<longleftrightarrow> workload \<and> exposure)
      \<and> (phase = ''Degraded'' \<longleftrightarrow> workload \<and> \<not> exposure)
      \<and> fst_ObservedGeneration (fu_Status f) = om_Generation (fu_meta f))"

lemma seen_false:
  assumes "klib_laws K"
  shows "IsStatusConditionFalse K cs ty \<longleftrightarrow> (\<exists>r m. seen K cs ty = Some (ConditionFalse, r, m))"
  using assms tested_conditions.is_false_iff unfolding klib_laws_def seen_def by fastforce

lemma frequi_phase_seen:
  assumes "klib_laws K" and "seen K cs ConditionWorkloadReady = Some (st, r, m)"
  shows "deriveFreqUIPhase K cs =
     (if r = ReasonWorkloadHealthy
      then (if \<exists>r m. seen K cs ConditionExposureReady = Some (ConditionFalse, r, m) then ''Degraded'' else ''Running'')
      else if r = ReasonReconcileError then ''ResourceError'' else ''Pending'')"
  using assms(2) by (auto simp: deriveFreqUIPhase_def seen_false [OF assms(1)] seen_def)

lemma aggregate_simps [simp]:
  "cd_Type (aggregateReadyCondition K cs m) = ConditionReady"
  "cd_Status (aggregateReadyCondition K cs m) = (if IsStatusConditionTrue K cs ConditionWorkloadReady
     \<and> IsStatusConditionTrue K cs ConditionExposureReady then ConditionTrue else ConditionFalse)"
  by (simp_all add: aggregateReadyCondition_def Let_def)

lemma refs_type [simp]: "cd_Type (tradeBotRefsResolvedCondition un) = ConditionTradeBotRefsResolved"
  by (simp add: tradeBotRefsResolvedCondition_def)

text \<open>The condition an exposure reports.\<close>

definition exposure_verdict :: "condition \<Rightarrow> bool" where
  "exposure_verdict c \<longleftrightarrow> cd_Type c = ConditionExposureReady \<and> cd_Status c \<in> {ConditionTrue, ConditionFalse}"

lemma ready_patched_ok:
  assumes K: "klib_laws K" and c: "exposure_verdict c"
  shows "frequi_status_ok K (conditioned_object.patched (frequi_cobj A K) (frequi_ready_mutate K ready m url un c) now f)"
  unfolding fuobj.patched_def using c
  by (cases "cd_Status c")
     (simp_all add: frequi_cobj_def frequi_ready_mutate_def Let_def frequi_SetObservedGeneration_def
       frequi_status_ok_def seen_true [OF K] seen_set [OF K] exposure_verdict_def
       frequi_phase_seen [OF K, of _ "if ready then ConditionTrue else ConditionFalse"
         "if ready then ReasonWorkloadHealthy else ReasonWorkloadProgressing" m])

lemma fail_patched_ok:
  assumes K: "klib_laws K"
  shows "frequi_status_ok K (conditioned_object.patched (frequi_cobj A K) (frequi_fail_mutate K m) now f)"
  unfolding fuobj.patched_def
  by (simp add: frequi_cobj_def frequi_fail_mutate_def Let_def frequi_SetObservedGeneration_def
       frequi_status_ok_def seen_true [OF K] seen_set [OF K]
       frequi_phase_seen [OF K, of _ ConditionFalse ReasonReconcileError m])

lemma gateway_verdict: "exposure_verdict (deriveGatewayExposureCondition K rs)"
  by (simp add: exposure_verdict_def deriveGatewayExposureCondition_def Let_def)

lemma prune_then_result: "yields (prune_then A K R f ds b c) (\<lambda>r. \<forall>c'. r = Inr c' \<longrightarrow> c' = c)"
  unfolding prune_then_def
  by (intro yields_intro) (auto split: option.splits)

lemma exposure_result: "yields (reconcileExposure A K R f apis) (\<lambda>r. \<forall>c. r = Inr c \<longrightarrow> exposure_verdict c)"
proof -
  have prune: "yields (prune_then A K R f ds b c) (\<lambda>r. \<forall>c'. r = Inr c' \<longrightarrow> exposure_verdict c')"
    if "exposure_verdict c" for ds b c
    using prune_then_result that unfolding yields_def by blast
  show ?thesis
    unfolding reconcileExposure_def Let_def split_beta
    by (intro yields_intro prune) (auto simp: gateway_verdict, auto simp: exposure_verdict_def)
qed

lemma resources_result:
  "yields (reconcileAllResources A K R f) (\<lambda>r. \<forall>un c. r = Inr (un, c) \<longrightarrow> exposure_verdict c)"
  unfolding reconcileAllResources_def
  by (intro yields_intro yields_bind_result [OF exposure_result]) (auto split: sum.splits)

definition writes_ok :: "klib \<Rightarrow> event \<Rightarrow> bool" where
  "writes_ok K e \<longleftrightarrow> (\<forall>f. written_frequi e = Some f \<longrightarrow> frequi_status_ok K f)"

lemma FreqUI_Reconcile_writes:
  assumes K: "klib_laws K"
  shows "only (writes_ok K) (FreqUI_Reconcile A K G R key)"
proof -
  have silent: "written_frequi e = None \<Longrightarrow> writes_ok K e" for e by (simp add: writes_ok_def)
  have fail: "only (writes_ok K) (frequi_failReconcile A K R f m d x)" for f m d x
    unfolding frequi_failReconcile_def
    by (intro only_intro silent, unfold only_def writes_ok_def, rule fuobj.PatchStatus_writes)
       (simp_all add: fail_patched_ok [OF K])
  have status: "only (writes_ok K) (frequi_status A K G R f un c d)" if "exposure_verdict c" for f un c d
    unfolding frequi_status_def Let_def
    by (intro only_intro silent, unfold only_def writes_ok_def, rule fuobj.PatchStatus_writes)
       (simp_all add: ready_patched_ok [OF K that])
  have prune: "only (writes_ok K) (prune_loop A K f ds rs)" for f ds rs
    by (induction rs) (auto simp: call_defs intro!: only_intro silent)
  have pt: "only (writes_ok K) (prune_then A K R f ds b c)" for f ds b c
    unfolding prune_then_def pruneHTTPRoutes_def deleteOwnedIngress_def call_defs
    by (intro only_intro prune silent) simp_all
  have ex: "only (writes_ok K) (reconcileExposure A K R f apis)" for f apis
    unfolding reconcileExposure_def Let_def split_beta
    by (intro only_intro pt only_apply_routes silent) simp_all
  have all: "only (writes_ok K) (reconcileAllResources A K R f)" for f
    unfolding reconcileAllResources_def by (intro only_intro only_resolve_refs ex silent) simp_all
  show ?thesis
    unfolding FreqUI_Reconcile_def do_GetFreqUI_def do_GetDeployment_def
    by (intro only_intro silent only_bind_result [OF all resources_result]) (auto intro!: only_intro fail status silent)
qed

section \<open>Name conflicts\<close>

text \<open>The objects handed to Apply are built afresh and carry no owner, so SetControllerReference never
  reports that they are owned already; an object of the same name that another FreqUI owns is not noticed
  here.\<close>

lemma wrapped_owned: "\<lbrakk>klib_laws K; SetControllerReference K owner m = Inl e; om_OwnerReferences (manifest_meta m) = []\<rbrakk>
    \<Longrightarrow> \<not> is_already_owned e"
  using owner_refs.fresh_not_owned unfolding klib_laws_def by blast

text \<open>The API server answers with status errors; \<open>AlreadyOwnedError\<close> is an error value of the client side.\<close>

definition server_errors :: "'e api \<Rightarrow> bool" where
  "server_errors A \<longleftrightarrow> (\<forall>r x e. fst (api_PatchHTTPRoute A r x) = Inl e \<longrightarrow> \<not> is_already_owned e)
     \<and> (\<forall>m x e. fst (api_Patch A m x) = Some e \<longrightarrow> \<not> is_already_owned e)"

lemma Apply_conflict:
  assumes "klib_laws K" "server_errors A" "om_OwnerReferences (manifest_meta m) = []"
    and gvk: "\<And>m e. GVKForObject K m = Inl e \<Longrightarrow> \<not> is_already_owned e"
  shows "yields (Apply A K owner m) (\<lambda>x. \<forall>e. x = Some e \<longrightarrow> \<not> is_already_owned e)"
  using wrapped_owned [OF assms(1) _ assms(3)] assms(2) gvk
  by (auto simp: Apply_def applyServerSide_def call_defs yields_def server_errors_def split: sum.splits)

lemma Apply_HTTPRoute_conflict:
  assumes "klib_laws K" "server_errors A" "om_OwnerReferences (hr_meta r) = []"
    and gvk: "\<And>m e. GVKForObject K m = Inl e \<Longrightarrow> \<not> is_already_owned e"
  shows "yields (Apply_HTTPRoute A K owner r) (\<lambda>x. \<forall>e. x = Inl e \<longrightarrow> \<not> is_already_owned e)"
  using wrapped_owned [OF assms(1), of _ "MHTTPRoute r"] assms(2,3) gvk
  by (auto simp: Apply_HTTPRoute_def call_defs yields_def server_errors_def split: sum.splits)

lemma apply_routes_conflicts:
  assumes K: "klib_laws K" "server_errors A" "\<And>m e. GVKForObject K m = Inl e \<Longrightarrow> \<not> is_already_owned e"
    and "\<forall>r \<in> set rs. om_OwnerReferences (hr_meta r) = []"
  shows "yields (apply_routes A K f rs applied conflicts) (\<lambda>x. \<forall>a c. x = Inr (a, c) \<longrightarrow> c = conflicts)"
  using assms(4)
proof (induction rs arbitrary: applied)
  case (Cons r rs)
  have "yields (Apply_HTTPRoute A K (fu_meta f) r) (\<lambda>x. \<forall>e. x = Inl e \<longrightarrow> \<not> is_already_owned e)"
    using Apply_HTTPRoute_conflict [OF K(1,2)] K(3) Cons.prems by simp
  then show ?case
    unfolding apply_routes.simps
    by (rule yields_bind_result) (use Cons in \<open>auto intro!: yields_intro\<close>)
qed (auto intro: yields_intro)

lemma exposure_conflict:
  assumes K: "klib_laws K" "server_errors A" "\<And>m e. GVKForObject K m = Inl e \<Longrightarrow> \<not> is_already_owned e"
    and fits: "snd (BuildFreqUIHTTPRoutes K f apis) = []"
  shows "yields (reconcileExposure A K R f apis) (\<lambda>r. \<forall>c. r = Inr c \<longrightarrow> cd_Reason c \<noteq> ReasonRouteNameConflict)"
proof -
  have prune: "yields (prune_then A K R f ds b c) (\<lambda>r. \<forall>c'. r = Inr c' \<longrightarrow> cd_Reason c' \<noteq> ReasonRouteNameConflict)"
    if "cd_Reason c \<noteq> ReasonRouteNameConflict" for ds b c
    using prune_then_result that unfolding yields_def by blast
  have gw: "cd_Reason (deriveGatewayExposureCondition K rs) \<noteq> ReasonRouteNameConflict" for rs
    by (simp add: deriveGatewayExposureCondition_def Let_def)
  have routes: "yields (apply_routes A K f (fst (BuildFreqUIHTTPRoutes K f apis)) [] []) (\<lambda>x. \<forall>a c. x = Inr (a, c) \<longrightarrow> c = [])"
    by (rule apply_routes_conflicts [OF K]) (auto intro: built_routes(3))
  have ing: "yields (Apply A K (fu_meta f) (MIngress (BuildFreqUIIngress f apis))) (\<lambda>x. \<forall>e. x = Some e \<longrightarrow> \<not> is_already_owned e)"
    by (rule Apply_conflict [OF K(1,2)]) (simp_all add: K(3))
  show ?thesis
    unfolding reconcileExposure_def Let_def split_beta
    by (intro yields_if yields_bind_result [OF routes] yields_bind_result [OF ing])
       (auto intro!: yields_intro prune simp: fits gw)
qed

end
