(* ===== verification/BacktestResources.thy ===== *)
theory BacktestResources
  imports TradeBotResources
begin

text \<open>Package \<open>controllers/backtest/resources\<close>: the pure builders of the objects of a Backtest run - the
  freqtrade command line, the pod with its init containers and the result-collecting sidecar, the Job, the
  results PVC, the config Secret, the strategy ConfigMap and the sidecar's namespace-wide ServiceAccount,
  Role and RoleBinding. Where a builder has the name of one of the TradeBot package, it carries the prefix
  \<open>bt_\<close>. The lemmas say which part of the pod the user's overrides cannot touch and which they can remove.\<close>

section \<open>Names\<close>

abbreviation "userDataMountPath \<equiv> ''/freqtrade/user_data''"
abbreviation "cacheVolumeName \<equiv> ''cache''"
abbreviation "cacheMountPath \<equiv> ''/cache''"
abbreviation "freqtradeContainerName \<equiv> ''freqtrade''"
abbreviation "SidecarServiceAccountName \<equiv> ''freqtrade-backtest-sidecar''"
abbreviation "ResultsPVCMountPath \<equiv> ''/results''"
abbreviation "sidecarTokenMountPath \<equiv> ''/var/run/secrets/kubernetes.io/serviceaccount''"

abbreviation bk_Name :: "backtest \<Rightarrow> string" where "bk_Name b \<equiv> om_Name (bk_meta b)"
abbreviation bk_Namespace :: "backtest \<Rightarrow> string" where "bk_Namespace b \<equiv> om_Namespace (bk_meta b)"

definition ResultsPVCName :: "string \<Rightarrow> string" where
  "ResultsPVCName backtestName = backtestName @ ''-results''"

definition ResultsConfigMapName :: "string \<Rightarrow> string" where
  "ResultsConfigMapName backtestName = backtestName @ ''-results''"

section \<open>The command line\<close>

text \<open>A flag with its value when the field is set.\<close>

definition opt_flag :: "string \<Rightarrow> string \<Rightarrow> string list" where
  "opt_flag flag v = (if v \<noteq> [] then [flag, v] else [])"

definition list_flag :: "string \<Rightarrow> string list \<Rightarrow> string list" where
  "list_flag flag vs = (if vs \<noteq> [] then flag # vs else [])"

definition buildArgs :: "golib \<Rightarrow> backtestspec \<Rightarrow> string \<Rightarrow> bool \<Rightarrow> string list \<Rightarrow> string list" where
  "buildArgs G spec strategyName hasCache extraArgs =
     [''backtesting'', ''--config'', ''/config/config.json'', ''--strategy-path'', ''/strategy'',
      ''--strategy'', strategyName, ''--userdir'', userDataMountPath,
      ''--logfile'', ''/freqtrade/user_data/logs/freqtrade.log'']
     @ (if hasCache then [''--datadir'', cacheMountPath] else [])
     @ opt_flag ''--timerange'' (run_Timerange spec)
     @ opt_flag ''--timeframe'' (run_Timeframe spec)
     @ opt_flag ''--timeframe-detail'' (bk_TimeframeDetail spec)
     @ list_flag ''--pairs'' (run_Pairs spec)
     @ (case bk_MaxOpenTrades spec of None \<Rightarrow> [] | Some n \<Rightarrow> [''--max-open-trades'', Itoa n])
     @ opt_flag ''--stake-amount'' (bk_StakeAmount spec)
     @ (case bk_DryRunWallet spec of None \<Rightarrow> [] | Some q \<Rightarrow> [''--dry-run-wallet'', quantity_AsDec G q])
     @ (case bk_Fee spec of None \<Rightarrow> [] | Some f \<Rightarrow> [''--fee'', f])
     @ (if bk_EnableProtections spec = Some True then [''--enable-protections''] else [])
     @ list_flag ''--breakdown'' (bk_Breakdown spec)
     @ opt_flag ''--cache'' (bk_Cache spec)
     @ extraArgs"

section \<open>The pod\<close>

definition bt_mount :: "string \<Rightarrow> string \<Rightarrow> bool \<Rightarrow> volmount" where
  "bt_mount name path ro = \<lparr>vm_Name = name, vm_MountPath = path, vm_SubPath = [], vm_ReadOnly = ro\<rparr>"

text \<open>\<open>strings.ToLower\<close> on the ASCII letters; the CRD restricts the policy to three ASCII words.\<close>

definition buildDownloadDataInitContainer :: "backtestspec \<Rightarrow> string \<Rightarrow> volmount list \<Rightarrow> container" where
  "buildDownloadDataInitContainer spec img mounts =
    (let dlArgs = [''download-data'', ''--config'', ''/config/config.json'', ''--userdir'', userDataMountPath,
             ''--datadir'', cacheMountPath]
           @ opt_flag ''--timerange'' (run_Timerange spec)
           @ opt_flag ''-t'' (run_Timeframe spec)
           @ list_flag ''--pairs'' (run_Pairs spec)
           @ (case run_Data spec of None \<Rightarrow> [] | Some d \<Rightarrow> ds_DownloadArgs d);
         policy = (case run_Data spec of None \<Rightarrow> [] | Some d \<Rightarrow> map lower_char (TrimSpace (ds_DownloadPolicy d)));
         policy = (if policy = [] then ''always'' else policy);
         base = container_zero\<lparr>ct_Name := ''init-download-data'', ct_Image := img, ct_ImagePullPolicy := ''IfNotPresent'',
           ct_SecurityContext := Some RestrictedSecurityContext, ct_VolumeMounts := mounts\<rparr>
     in if policy = ''never'' then base\<lparr>ct_Command := [''true'']\<rparr>
        else if policy = ''ifmissing''
        then base\<lparr>ct_Command := [''sh'', ''-c'',
               ''if [ -z '' @ [CHR 0x22] @ ''$(ls -A /cache 2>/dev/null)'' @ [CHR 0x22]
               @ '' ]; then exec freqtrade '' @ [CHR 0x22] @ ''$@'' @ [CHR 0x22] @ ''; fi'', ''init-download-data''],
             ct_Args := dlArgs\<rparr>
        else base\<lparr>ct_Command := [freqtradeContainerName], ct_Args := dlArgs\<rparr>)"

definition sidecarTokenVolume :: volume where
  "sidecarTokenVolume = \<lparr>vol_Name = ''sidecar-token'', vol_Source = ProjectedVolume
     [TokenProjection ''token'' 3607,
      ConfigMapProjection ''kube-root-ca.crt'' [(''ca.crt'', ''ca.crt'')],
      DownwardProjection [(''namespace'', ''metadata.namespace'')]]\<rparr>"

definition buildSidecarContainer :: "string \<Rightarrow> string \<Rightarrow> string \<Rightarrow> container" where
  "buildSidecarContainer operatorImage backtestName strategyName = container_zero\<lparr>ct_Name := ''collect-results'',
     ct_Image := operatorImage, ct_ImagePullPolicy := ''IfNotPresent'', ct_RestartPolicy := Some ''Always'',
     ct_Args := [''collect-results'', ''--backtest-name'', backtestName, ''--strategy-name'', strategyName,
       ''--results-pvc-dir'', ResultsPVCMountPath],
     ct_Env := [EnvFieldRef ''POD_NAME'' ''metadata.name'', EnvFieldRef ''POD_NAMESPACE'' ''metadata.namespace''],
     ct_VolumeMounts := [bt_mount userDataVolumeName userDataMountPath True,
       bt_mount ''sidecar-token'' sidecarTokenMountPath True, bt_mount ''results'' ResultsPVCMountPath False],
     ct_SecurityContext := Some RestrictedSecurityContext\<rparr>"

definition bt_mergePodSpecOverrides :: "podspec \<Rightarrow> runpodspec \<Rightarrow> podspec" where
  "bt_mergePodSpecOverrides d ov =
    (let d = assign_if (rp_Image ov \<noteq> []) (over0 (\<lambda>c. c\<lparr>ct_Image := rp_Image ov\<rparr>)) d;
         d = assign_if (rp_Resources ov \<noteq> resreq_zero) (over0 (\<lambda>c. c\<lparr>ct_Resources := rp_Resources ov\<rparr>)) d;
         d = assign_if (rp_Env ov \<noteq> []) (over0 (\<lambda>c. c\<lparr>ct_Env := rp_Env ov\<rparr>)) d;
         d = assign_if (rp_VolumeMounts ov \<noteq> []) (over0 (\<lambda>c. c\<lparr>ct_VolumeMounts := rp_VolumeMounts ov\<rparr>)) d;
         d = assign_if (rp_Volumes ov \<noteq> []) (\<lambda>d. d\<lparr>ps_Volumes := rp_Volumes ov\<rparr>) d;
         d = assign_if (rp_SecurityContext ov \<noteq> None) (\<lambda>d. d\<lparr>ps_SecurityContext := rp_SecurityContext ov\<rparr>) d;
         d = assign_if (rp_InitContainers ov \<noteq> []) (\<lambda>d. d\<lparr>ps_InitContainers := rp_InitContainers ov\<rparr>) d;
         d = assign_if (rp_ImagePullSecrets ov \<noteq> []) (\<lambda>d. d\<lparr>ps_ImagePullSecrets := rp_ImagePullSecrets ov\<rparr>) d;
         d = assign_if (rp_Affinity ov \<noteq> None) (\<lambda>d. d\<lparr>ps_Affinity := rp_Affinity ov\<rparr>) d;
         d = assign_if (rp_NodeSelector ov \<noteq> []) (\<lambda>d. d\<lparr>ps_NodeSelector := rp_NodeSelector ov\<rparr>) d;
         d = assign_if (rp_Tolerations ov \<noteq> []) (\<lambda>d. d\<lparr>ps_Tolerations := rp_Tolerations ov\<rparr>) d;
         d = assign_if (rp_TopologySpreadConstraints ov \<noteq> [])
               (\<lambda>d. d\<lparr>ps_TopologySpreadConstraints := rp_TopologySpreadConstraints ov\<rparr>) d
     in d)"

definition has_cache :: "backtestspec \<Rightarrow> bool" where
  "has_cache spec = (case run_Data spec of None \<Rightarrow> False | Some d \<Rightarrow> TrimSpace (ds_PVCName d) \<noteq> [])"

definition bt_BuildPod :: "golib \<Rightarrow> backtest \<Rightarrow> string \<Rightarrow> string \<Rightarrow> string \<Rightarrow> string \<Rightarrow> string \<Rightarrow> podspec" where
  "bt_BuildPod G b img operatorImage strategyName configSecretName strategyConfigMapName =
    (let spec = bk_Spec b;
         hasCache = has_cache spec;
         cachePVC = (case run_Data spec of None \<Rightarrow> [] | Some d \<Rightarrow> ds_PVCName d);
         volumes = [\<lparr>vol_Name = ''config'', vol_Source = SecretVolume configSecretName\<rparr>,
             \<lparr>vol_Name = ''strategy'', vol_Source = ConfigMapVolume strategyConfigMapName\<rparr>,
             \<lparr>vol_Name = userDataVolumeName, vol_Source = EmptyDirVolume\<rparr>,
             \<lparr>vol_Name = ''results'', vol_Source = PVCVolume (ResultsPVCName (bk_Name b))\<rparr>]
           @ (if hasCache then [\<lparr>vol_Name = cacheVolumeName, vol_Source = PVCVolume cachePVC\<rparr>] else [])
           @ [sidecarTokenVolume];
         mounts = [bt_mount ''config'' ''/config'' True, bt_mount ''strategy'' ''/strategy'' True,
           bt_mount userDataVolumeName userDataMountPath False];
         mainMounts = mounts @ (if hasCache then [bt_mount cacheVolumeName cacheMountPath True] else []);
         initMounts = mounts @ (if hasCache then [bt_mount cacheVolumeName cacheMountPath False] else []);
         initContainers = [container_zero\<lparr>ct_Name := ''init-user-data'', ct_Image := ''busybox:latest'',
               ct_ImagePullPolicy := ''IfNotPresent'', ct_SecurityContext := Some RestrictedSecurityContext,
               ct_Command := [''sh'', ''-c''], ct_Args := [''mkdir -p /freqtrade/user_data/logs /freqtrade/user_data/data''],
               ct_VolumeMounts := [bt_mount userDataVolumeName userDataMountPath False]\<rparr>]
           @ (if hasCache then [buildDownloadDataInitContainer spec img initMounts] else [])
           @ [buildSidecarContainer operatorImage (bk_Name b) strategyName];
         main = container_zero\<lparr>ct_Name := freqtradeContainerName, ct_Image := img, ct_ImagePullPolicy := ''IfNotPresent'',
           ct_Command := [freqtradeContainerName],
           ct_Args := buildArgs G spec strategyName hasCache (run_ExtraArgs spec),
           ct_VolumeMounts := mainMounts, ct_SecurityContext := Some RestrictedSecurityContext,
           ct_Resources := DefaultContainerResources\<rparr>;
         pod = podspec_zero\<lparr>
           ps_SecurityContext := Some \<lparr>psc_RunAsUser = Some 1000, psc_RunAsGroup = Some 1000, psc_FSGroup = Some 1000,
             psc_rest = None\<rparr>,
           ps_ServiceAccountName := SidecarServiceAccountName, ps_AutomountServiceAccountToken := Some False,
           ps_RestartPolicy := ''Never'', ps_InitContainers := initContainers, ps_Containers := [main],
           ps_Volumes := volumes\<rparr>
     in case run_Pod spec of None \<Rightarrow> pod | Some ov \<Rightarrow> bt_mergePodSpecOverrides pod ov)"

section \<open>Job, PVC, Secret, ConfigMap\<close>

definition defaultTTLSecondsAfterFinished :: int where "defaultTTLSecondsAfterFinished = 86400"
definition jobBackoffLimit :: int where "jobBackoffLimit = 1"

definition BuildJob :: "golib \<Rightarrow> backtest \<Rightarrow> string \<Rightarrow> string \<Rightarrow> string \<Rightarrow> string \<Rightarrow> string \<Rightarrow> job" where
  "BuildJob G b img operatorImage strategyName configSecretName strategyConfigMapName =
    (let podSpec = bt_BuildPod G b img operatorImage strategyName configSecretName strategyConfigMapName;
         ttl = (case run_TTLSecondsAfterFinished (bk_Spec b) of None \<Rightarrow> defaultTTLSecondsAfterFinished | Some t \<Rightarrow> t);
         labels = [(''name'', bk_Name b), (''app'', ''freqtrade-backtest'')]
     in \<lparr>job_meta = (mk_meta (bk_Name b) (bk_Namespace b))\<lparr>om_Labels := labels\<rparr>,
         job_BackoffLimit = Some jobBackoffLimit, job_TTLSecondsAfterFinished = Some ttl,
         job_Template = \<lparr>pt_Labels = labels, pt_Annotations = [], pt_Spec = podSpec\<rparr>,
         job_Succeeded = 0, job_Failed = 0, job_Active = 0, job_StartTime = None, job_CompletionTime = None\<rparr>)"

definition BuildResultsPVC :: "golib \<Rightarrow> backtest \<Rightarrow> pvc" where
  "BuildResultsPVC G b =
    (let (size, storageClassName) = (case run_Results (bk_Spec b) of
           None \<Rightarrow> (''1Gi'', None)
         | Some r \<Rightarrow> (if \<not> quantity_IsZero G (rsp_Size r) then rsp_Size r else ''1Gi'', rsp_StorageClassName r))
     in \<lparr>pvc_meta = mk_meta (ResultsPVCName (bk_Name b)) (bk_Namespace b),
         pvc_Spec = \<lparr>pvcs_AccessModes = [''ReadWriteOnce''], pvcs_Requests = [(''storage'', size)],
           pvcs_StorageClassName = storageClassName, pvcs_VolumeName = []\<rparr>\<rparr>)"

definition ResultsRetentionPolicy :: "backtest \<Rightarrow> string" where
  "ResultsRetentionPolicy b = (case run_Results (bk_Spec b) of
       Some r \<Rightarrow> if rsp_RetentionPolicy r \<noteq> [] then rsp_RetentionPolicy r else ''Delete''
     | None \<Rightarrow> ''Delete'')"

definition BuildConfigSecret :: "backtest \<Rightarrow> smap \<Rightarrow> secret" where
  "BuildConfigSecret b secretData = \<lparr>
     sec_meta = (mk_meta (bk_Name b @ ''-config'') (bk_Namespace b))\<lparr>om_Labels :=
       [(''app'', ''freqtrade-backtest''), (''name'', bk_Name b), (ContainsCredentialsLabel, ''true'')]\<rparr>,
     sec_Type = ''Opaque'', sec_Data = [], sec_StringData = secretData\<rparr>"

definition bt_BuildStrategyConfigMap :: "backtest \<Rightarrow> string \<Rightarrow> string \<Rightarrow> configmap" where
  "bt_BuildStrategyConfigMap b strategyName script = \<lparr>
     cm_meta = mk_meta (bk_Name b @ ''-strategy'') (bk_Namespace b), cm_Data = [(strategyName @ ''.py'', script)]\<rparr>"

section \<open>The sidecar's access rights\<close>

definition BuildSidecarServiceAccount :: "string \<Rightarrow> serviceaccount" where
  "BuildSidecarServiceAccount namespace = \<lparr>sa_meta = mk_meta SidecarServiceAccountName namespace\<rparr>"

definition BuildSidecarRole :: "string \<Rightarrow> role" where
  "BuildSidecarRole namespace = \<lparr>role_meta = mk_meta SidecarServiceAccountName namespace,
     role_Rules = [\<lparr>plr_APIGroups = [[]], plr_Resources = [''configmaps''], plr_Verbs = [''get'', ''create'', ''update'']\<rparr>,
       \<lparr>plr_APIGroups = [[]], plr_Resources = [''pods''], plr_Verbs = [''get'']\<rparr>]\<rparr>"

definition BuildSidecarRoleBinding :: "string \<Rightarrow> rolebinding" where
  "BuildSidecarRoleBinding namespace = \<lparr>rb_meta = mk_meta SidecarServiceAccountName namespace,
     rb_RoleAPIGroup = ''rbac.authorization.k8s.io'', rb_RoleKind = ''Role'', rb_RoleName = SidecarServiceAccountName,
     rb_Subjects = [(''ServiceAccount'', SidecarServiceAccountName, namespace)]\<rparr>"

section \<open>What a run's pod guarantees\<close>

text \<open>What the overrides can never change: the pod's identity and restart behaviour, and the command line,
  command and security context of the main container.\<close>

definition bt_core :: "podspec \<Rightarrow> podspec \<Rightarrow> bool" where
  "bt_core p q \<longleftrightarrow> ps_ServiceAccountName q = ps_ServiceAccountName p
     \<and> ps_AutomountServiceAccountToken q = ps_AutomountServiceAccountToken p \<and> ps_RestartPolicy q = ps_RestartPolicy p
     \<and> map ct_Command (ps_Containers q) = map ct_Command (ps_Containers p)
     \<and> map ct_Args (ps_Containers q) = map ct_Args (ps_Containers p)
     \<and> map ct_SecurityContext (ps_Containers q) = map ct_SecurityContext (ps_Containers p)"

lemma bt_core_refl: "bt_core p p"
  by (simp add: bt_core_def)

lemma bt_core_assign: "\<lbrakk>bt_core q (g q); bt_core p q\<rbrakk> \<Longrightarrow> bt_core p (assign_if b g q)"
  by (simp add: assign_if_def bt_core_def)

lemma bt_core_over0:
  "(\<And>c. ct_Command (g c) = ct_Command c \<and> ct_Args (g c) = ct_Args c \<and> ct_SecurityContext (g c) = ct_SecurityContext c)
    \<Longrightarrow> bt_core p (over0 g p)"
  by (auto simp: bt_core_def over0_def split: list.split)

lemma bt_core_same:
  "\<lbrakk>ps_ServiceAccountName q = ps_ServiceAccountName p; ps_AutomountServiceAccountToken q = ps_AutomountServiceAccountToken p;
    ps_RestartPolicy q = ps_RestartPolicy p; ps_Containers q = ps_Containers p\<rbrakk> \<Longrightarrow> bt_core p q"
  by (simp add: bt_core_def)

lemma bt_merge_core: "bt_core p (bt_mergePodSpecOverrides p ov)"
  unfolding bt_mergePodSpecOverrides_def Let_def
  by (rule bt_core_assign, (rule bt_core_same bt_core_over0, simp_all)[1])+ (rule bt_core_refl)

lemma bt_pod_core:
  "ps_ServiceAccountName (bt_BuildPod G b img op s cs sm) = SidecarServiceAccountName"
  "ps_AutomountServiceAccountToken (bt_BuildPod G b img op s cs sm) = Some False"
  "ps_RestartPolicy (bt_BuildPod G b img op s cs sm) = ''Never''"
  "map ct_Args (ps_Containers (bt_BuildPod G b img op s cs sm))
     = [buildArgs G (bk_Spec b) s (has_cache (bk_Spec b)) (run_ExtraArgs (bk_Spec b))]"
  "map ct_Command (ps_Containers (bt_BuildPod G b img op s cs sm)) = [[freqtradeContainerName]]"
  "map ct_SecurityContext (ps_Containers (bt_BuildPod G b img op s cs sm)) = [Some RestrictedSecurityContext]"
  using bt_merge_core unfolding bt_core_def bt_BuildPod_def Let_def
  by (cases "run_Pod (bk_Spec b)"; simp)+

text \<open>What they can change, stated for the parts results depend on: the list of init containers, which holds the
  sidecar, and the mounts of the main container.\<close>

lemma assign_if_parts:
  "ps_InitContainers (assign_if b f d) = (if b then ps_InitContainers (f d) else ps_InitContainers d)"
  "ps_Volumes (assign_if b f d) = (if b then ps_Volumes (f d) else ps_Volumes d)"
  by (simp_all add: assign_if_def)

lemma bt_merge_parts:
  "ps_InitContainers (bt_mergePodSpecOverrides p ov)
     = (if rp_InitContainers ov \<noteq> [] then rp_InitContainers ov else ps_InitContainers p)"
  "ps_Volumes (bt_mergePodSpecOverrides p ov) = (if rp_Volumes ov \<noteq> [] then rp_Volumes ov else ps_Volumes p)"
  unfolding bt_mergePodSpecOverrides_def Let_def by (simp_all add: assign_if_parts)

text \<open>Without an override of the mounts, the containers mount what the operator gave them.\<close>

definition same_mounts :: "podspec \<Rightarrow> podspec \<Rightarrow> bool" where
  "same_mounts p q \<longleftrightarrow> map ct_VolumeMounts (ps_Containers q) = map ct_VolumeMounts (ps_Containers p)"

lemma same_mounts_assign: "\<lbrakk>b \<Longrightarrow> same_mounts q (g q); same_mounts p q\<rbrakk> \<Longrightarrow> same_mounts p (assign_if b g q)"
  by (auto simp: assign_if_def same_mounts_def)

lemma same_mounts_over0: "(\<And>c. ct_VolumeMounts (g c) = ct_VolumeMounts c) \<Longrightarrow> same_mounts p (over0 g p)"
  by (auto simp: same_mounts_def split: list.split)

lemma same_mounts_same: "ps_Containers q = ps_Containers p \<Longrightarrow> same_mounts p q"
  by (simp add: same_mounts_def)

lemma bt_merge_mounts: "rp_VolumeMounts ov = [] \<Longrightarrow> same_mounts p (bt_mergePodSpecOverrides p ov)"
  unfolding bt_mergePodSpecOverrides_def Let_def
  by (rule same_mounts_assign, (simp, fail | rule same_mounts_same same_mounts_over0, simp)[1])+ (simp add: same_mounts_def)

text \<open>The main container then has neither the sidecar's token nor the results volume.\<close>

lemma bt_pod_mounts:
  assumes "\<And>ov. run_Pod (bk_Spec b) = Some ov \<Longrightarrow> rp_VolumeMounts ov = []"
    and "c \<in> set (ps_Containers (bt_BuildPod G b img op s cs sm))" "m \<in> set (ct_VolumeMounts c)"
  shows "vm_Name m \<in> {''config'', ''strategy'', userDataVolumeName, cacheVolumeName}"
proof -
  define base where "base = bt_BuildPod G (b\<lparr>bk_Spec := (bk_Spec b)\<lparr>run_Pod := None\<rparr>\<rparr>) img op s cs sm"
  have "same_mounts base (bt_BuildPod G b img op s cs sm)"
    using assms(1) bt_merge_mounts
    by (cases "run_Pod (bk_Spec b)")
       (simp_all add: base_def bt_BuildPod_def Let_def has_cache_def buildDownloadDataInitContainer_def same_mounts_def)
  then have "ct_VolumeMounts c \<in> set (map ct_VolumeMounts (ps_Containers base))"
    using assms(2) unfolding same_mounts_def by (metis image_eqI list.set_map)
  with assms(3) show ?thesis
    by (auto simp: base_def bt_BuildPod_def Let_def bt_mount_def split: if_splits)
qed

text \<open>The sidecar is one of the init containers exactly when the user does not replace them (or lists it).\<close>

lemma bt_pod_sidecar:
  "ps_InitContainers (bt_BuildPod G b img op s cs sm) = (case run_Pod (bk_Spec b) of
       Some ov \<Rightarrow> if rp_InitContainers ov \<noteq> [] then rp_InitContainers ov
                 else ps_InitContainers (bt_BuildPod G (b\<lparr>bk_Spec := (bk_Spec b)\<lparr>run_Pod := None\<rparr>\<rparr>) img op s cs sm)
     | None \<Rightarrow> ps_InitContainers (bt_BuildPod G (b\<lparr>bk_Spec := (bk_Spec b)\<lparr>run_Pod := None\<rparr>\<rparr>) img op s cs sm))"
  by (simp add: bt_BuildPod_def Let_def bt_merge_parts has_cache_def buildDownloadDataInitContainer_def split: option.split)

lemma bt_sidecar_default:
  "run_Pod (bk_Spec b) = None \<Longrightarrow>
     buildSidecarContainer op (bk_Name b) s \<in> set (ps_InitContainers (bt_BuildPod G b img op s cs sm))"
  by (simp add: bt_BuildPod_def Let_def)

text \<open>Everything built here is without an owner.\<close>

lemma bt_built_unowned [simp]:
  "om_OwnerReferences (job_meta (BuildJob G b i op s cs sm)) = []"
  "om_OwnerReferences (pvc_meta (BuildResultsPVC G b)) = []"
  "om_OwnerReferences (sec_meta (BuildConfigSecret b d)) = []"
  "om_OwnerReferences (cm_meta (bt_BuildStrategyConfigMap b n sc)) = []"
  by (simp_all add: BuildJob_def BuildResultsPVC_def BuildConfigSecret_def bt_BuildStrategyConfigMap_def mk_meta_def
      Let_def split_beta)

end
