(* ===== verification/BacktestReconcile.thy ===== *)
theory BacktestReconcile
  imports BacktestResources TradeBotConditions
begin

text \<open>The Backtest reconciler (\<open>controllers/backtest/main.go\<close>, \<open>resources.go\<close>, \<open>results.go\<close>,
  \<open>finalizers.go\<close>): it creates the objects of a run once, follows the Job to its end, adopts the results
  the sidecar left in a ConfigMap, and on deletion keeps the results PVC when the spec asks for it. The
  lemmas say when a Job is applied, what a written status means, what a finished run does, and when the
  finalizer goes away.\<close>

abbreviation "BacktestFinalizer \<equiv> ''freqtrade.io/finalizer''"

record btreconciler =
  bt_Recorder :: bool
  bt_DefaultImage :: string
  bt_OperatorImage :: string

section \<open>The workload's outcome\<close>

record btworkload =
  wl_running :: bool
  wl_succeeded :: bool
  wl_failed :: bool
  wl_message :: string
  wl_requeueAfter :: duration
  wl_startTime :: "gotime option"
  wl_completionTime :: "gotime option"

definition btworkload_zero :: btworkload where
  "btworkload_zero = \<lparr>wl_running = False, wl_succeeded = False, wl_failed = False, wl_message = [], wl_requeueAfter = 0,
     wl_startTime = None, wl_completionTime = None\<rparr>"

definition conditionStatusAndReason :: "btworkload \<Rightarrow> condstatus \<times> string" where
  "conditionStatusAndReason w =
    (if wl_failed w then (ConditionFalse, ReasonWorkloadFailed)
     else if wl_succeeded w then (ConditionTrue, ReasonWorkloadSucceeded)
     else (ConditionFalse, ReasonWorkloadProgressing))"

definition recordedOutcome :: "klib \<Rightarrow> backtest \<Rightarrow> btworkload option" where
  "recordedOutcome K b = (case FindStatusCondition K (bkst_Conditions (bk_Status b)) ConditionWorkloadReady of
       None \<Rightarrow> None
     | Some c \<Rightarrow>
        let ws = btworkload_zero\<lparr>wl_message := bkst_Message (bk_Status b), wl_startTime := bkst_StartTime (bk_Status b),
              wl_completionTime := bkst_CompletionTime (bk_Status b)\<rparr>
        in if cd_Reason c = ReasonWorkloadSucceeded then Some (ws\<lparr>wl_succeeded := True\<rparr>)
           else if cd_Reason c = ReasonWorkloadFailed then Some (ws\<lparr>wl_failed := True\<rparr>)
           else None)"

definition job_outcome :: "job \<Rightarrow> btworkload" where
  "job_outcome j =
    (let ws = btworkload_zero\<lparr>wl_startTime := job_StartTime j, wl_completionTime := job_CompletionTime j\<rparr>
     in if job_Succeeded j > 0 then ws\<lparr>wl_succeeded := True\<rparr>
        else if job_Failed j > 0 then ws\<lparr>wl_failed := True, wl_message := ''Job failed; check pod logs''\<rparr>
        else if job_Active j > 0
        then ws\<lparr>wl_running := True, wl_message := ''Job is running'', wl_requeueAfter := 15 * Second\<rparr>
        else ws\<lparr>wl_message := ''Waiting for Job to start'', wl_requeueAfter := 15 * Second\<rparr>)"

definition bt_computeWorkloadStatus :: "'e api \<Rightarrow> klib \<Rightarrow> backtest \<Rightarrow> ('e, goerr + btworkload) op" where
  "bt_computeWorkloadStatus A K b = do {
     g \<leftarrow> do_GetJob A (key_of_meta (bk_meta b));
     case g of
       Inl e \<Rightarrow> State_Monad.return
         (case recordedOutcome K b of
            Some ws \<Rightarrow> if IsNotFound e then Inr ws else Inl (Wrap ''failed to get Job: '' e)
          | None \<Rightarrow> Inl (Wrap ''failed to get Job: '' e))
     | Inr j \<Rightarrow> State_Monad.return (Inr (job_outcome j)) }"

definition deriveBacktestPhase :: "btworkload \<Rightarrow> string" where
  "deriveBacktestPhase w = (if wl_succeeded w then ''Succeeded'' else if wl_failed w then ''Failed''
     else if wl_running w then ''Running'' else ''Pending'')"

section \<open>Creating the run\<close>

definition fetchReferencedObjects :: "'e api \<Rightarrow> backtest \<Rightarrow> ('e, goerr + strategy \<times> tradebotconfig) op" where
  "fetchReferencedObjects A b = do {
     s \<leftarrow> do_GetStrategy A \<lparr>nn_Namespace = bk_Namespace b, nn_Name = run_StrategyRef (bk_Spec b)\<rparr>;
     case s of
       Inl e \<Rightarrow> State_Monad.return (Inl (Wrap (''failed to get Strategy '' @ run_StrategyRef (bk_Spec b) @ '': '') e))
     | Inr strat \<Rightarrow> do {
         c \<leftarrow> do_GetTradeBotConfig A \<lparr>nn_Namespace = bk_Namespace b, nn_Name = run_ConfigRef (bk_Spec b)\<rparr>;
         State_Monad.return (case c of
             Inl e \<Rightarrow> Inl (Wrap (''failed to get TradeBotConfig '' @ run_ConfigRef (bk_Spec b) @ '': '') e)
           | Inr cfg \<Rightarrow> Inr (strat, cfg)) } }"

definition bt_defaultImage :: "btreconciler \<Rightarrow> string" where
  "bt_defaultImage R = (if bt_DefaultImage R \<noteq> [] then bt_DefaultImage R else DefaultFreqtradeImage)"

text \<open>\<open>then_or m msg k\<close>: stop with the wrapped error of \<open>m\<close>, or go on.\<close>

definition then_or :: "('e, goerr option) op \<Rightarrow> string \<Rightarrow> ('e, goerr + 'a) op \<Rightarrow> ('e, goerr + 'a) op" where
  "then_or m msg k = do { x \<leftarrow> m; case x of Some e \<Rightarrow> State_Monad.return (Inl (Wrap msg e)) | None \<Rightarrow> k }"

definition ensureSidecarRBAC :: "'e api \<Rightarrow> klib \<Rightarrow> string \<Rightarrow> ('e, goerr + unit) op" where
  "ensureSidecarRBAC A K namespace =
     then_or (ApplyUnowned A K (MServiceAccount (BuildSidecarServiceAccount namespace)))
       ''failed to apply sidecar ServiceAccount: ''
     (then_or (ApplyUnowned A K (MRole (BuildSidecarRole namespace))) ''failed to apply sidecar Role: ''
     (then_or (ApplyUnowned A K (MRoleBinding (BuildSidecarRoleBinding namespace)))
       ''failed to apply sidecar RoleBinding: '' (State_Monad.return (Inr ()))))"

definition create_run ::
  "'e api \<Rightarrow> klib \<Rightarrow> golib \<Rightarrow> btreconciler \<Rightarrow> backtest \<Rightarrow> strategy \<Rightarrow> smap \<Rightarrow> ('e, goerr + string) op" where
  "create_run A K G R b strat configData =
    (let configSecret = BuildConfigSecret b configData;
         strategyConfigMap = bt_BuildStrategyConfigMap b (ss_Name (sy_Spec strat)) (ss_Script (sy_Spec strat));
         job = BuildJob G b (bt_defaultImage R) (bt_OperatorImage R) (ss_Name (sy_Spec strat))
           (om_Name (sec_meta configSecret)) (om_Name (cm_meta strategyConfigMap))
     in then_or (Apply A K (bk_meta b) (MSecret configSecret)) ''failed to apply config Secret: ''
       (then_or (Apply A K (bk_meta b) (MConfigMap strategyConfigMap)) ''failed to apply strategy ConfigMap: ''
       (then_or (Apply A K (bk_meta b) (MPVC (BuildResultsPVC G b))) ''failed to apply results PVC: ''
       (do {
          rb \<leftarrow> ensureSidecarRBAC A K (bk_Namespace b);
          case rb of
            Inl e \<Rightarrow> State_Monad.return (Inl (Wrap ''failed to provision the results-collection sidecar's RBAC: '' e))
          | Inr _ \<Rightarrow> then_or (Apply A K (bk_meta b) (MJob job)) ''failed to apply Job: ''
              (State_Monad.return (Inr (bk_Name b))) }))))"

definition bt_reconcileResources ::
  "'e api \<Rightarrow> klib \<Rightarrow> golib \<Rightarrow> btreconciler \<Rightarrow> backtest \<Rightarrow> ('e, goerr + string) op" where
  "bt_reconcileResources A K G R b = do {
     g \<leftarrow> do_GetJob A \<lparr>nn_Namespace = bk_Namespace b, nn_Name = bk_Name b\<rparr>;
     case g of
       Inr _ \<Rightarrow> State_Monad.return (Inr (bk_Name b))
     | Inl getErr \<Rightarrow>
         if \<not> IsNotFound getErr
         then State_Monad.return (Inl (Wrap ''failed to check for an existing Job: '' getErr))
         else if recordedOutcome K b \<noteq> None then State_Monad.return (Inr (bk_Name b))
         else do {
           f \<leftarrow> fetchReferencedObjects A b;
           case f of
             Inl e \<Rightarrow> State_Monad.return (Inl e)
           | Inr (strat, cfg) \<Rightarrow> do {
               c \<leftarrow> BuildConfig A G (bk_Name b) (bk_Namespace b) (tc_Spec cfg) [];
               case c of
                 Inl e \<Rightarrow> State_Monad.return (Inl (Wrap ''failed to build config: '' e))
               | Inr configData \<Rightarrow> create_run A K G R b strat configData } } }"

section \<open>Results\<close>

definition unavailableCondition :: "string \<Rightarrow> int \<Rightarrow> condition" where
  "unavailableCondition message generation =
     mk_cond_gen ConditionResultsAvailable ConditionFalse ReasonResultsUnavailable message generation"

text \<open>Decoding a \<open>BacktestResults\<close>: an empty value for a field that is absent, the first error otherwise.\<close>

definition dec_results :: "json \<Rightarrow> goerr + backtestresults" where
  "dec_results j =
    (if \<not> is_struct j then Inl type_error
     else case (dec_int ''totalTrades'' j, dec_string ''profitAbs'' j, dec_string ''profitPct'' j, dec_string ''winRatePct'' j,
         dec_string ''maxDrawdownPct'' j, dec_string ''sharpeRatio'' j, dec_string ''sortinoRatio'' j,
         dec_string ''cagrPct'' j, dec_string ''bestPair'' j, dec_string ''worstPair'' j, dec_string ''resultFile'' j) of
       (Inr n, Inr pa, Inr pp, Inr wr, Inr md, Inr sh, Inr so, Inr cg, Inr bp, Inr wp, Inr rf) \<Rightarrow>
         Inr \<lparr>br_TotalTrades = n, br_ProfitAbs = pa, br_ProfitPct = pp, br_WinRatePct = wr, br_MaxDrawdownPct = md,
           br_SharpeRatio = sh, br_SortinoRatio = so, br_CAGRPct = cg, br_BestPair = bp, br_WorstPair = wp,
           br_ResultFile = rf\<rparr>
     | _ \<Rightarrow> Inl type_error)"

definition ensureOwned :: "'e api \<Rightarrow> klib \<Rightarrow> backtest \<Rightarrow> configmap \<Rightarrow> ('e, goerr option) op" where
  "ensureOwned A K b cm =
    (if list_ex (\<lambda>r. or_UID r = om_UID (bk_meta b)) (om_OwnerReferences (cm_meta cm)) then State_Monad.return None
     else (case SetControllerReference K (bk_meta b) (MConfigMap cm) of
         Inl e \<Rightarrow> State_Monad.return (Some e)
       | Inr m \<Rightarrow> do_UpdateConfigMap A (m_configmap m)))"

text \<open>What the data of a results ConfigMap says.\<close>

definition read_results :: "golib \<Rightarrow> string \<Rightarrow> int \<Rightarrow> smap \<Rightarrow> backtestresults option \<times> condition" where
  "read_results G cmName generation data =
    (case map_of data ''error'' of
       Some errMsg \<Rightarrow> (None, unavailableCondition errMsg generation)
     | None \<Rightarrow>
        (case map_of data ''results.json'' of
           None \<Rightarrow> (None, unavailableCondition (''results ConfigMap '' @ cmName @ '' has neither '' @ Quote ''results.json''
             @ '' nor '' @ Quote ''error'') generation)
         | Some raw \<Rightarrow>
            (case (case json_Unmarshal G raw of Inl e \<Rightarrow> Inl e | Inr j \<Rightarrow> dec_results j) of
               Inl e \<Rightarrow> (None, unavailableCondition (''results ConfigMap '' @ cmName @ [CHR 0x27] @ ''s results.json is malformed: ''
                 @ err_Error e) generation)
             | Inr results \<Rightarrow> (Some results,
                 mk_cond_gen ConditionResultsAvailable ConditionTrue ReasonAsExpected [] generation))))"

text \<open>The results, the condition to set (none while the ConfigMap is missing) and whether to look again soon.\<close>

definition adoptAndParseResults ::
  "'e api \<Rightarrow> klib \<Rightarrow> golib \<Rightarrow> backtest \<Rightarrow> ('e, goerr + backtestresults option \<times> condition option \<times> bool) op" where
  "adoptAndParseResults A K G b = do {
     g \<leftarrow> do_GetConfigMap A \<lparr>nn_Namespace = bk_Namespace b, nn_Name = ResultsConfigMapName (bk_Name b)\<rparr>;
     case g of
       Inl e \<Rightarrow> State_Monad.return
         (if IsNotFound e then Inr (None, None, True) else Inl (Wrap ''failed to get results ConfigMap: '' e))
     | Inr cm \<Rightarrow> do {
         o' \<leftarrow> ensureOwned A K b cm;
         State_Monad.return (case o' of
             Some e \<Rightarrow> Inl (Wrap ''failed to adopt results ConfigMap: '' e)
           | None \<Rightarrow> (let (res, cond) = read_results G (om_Name (cm_meta cm)) (om_Generation (bk_meta b)) (cm_Data cm)
               in Inr (res, Some cond, False))) } }"

section \<open>Status\<close>

definition bt_fail_mutate :: "klib \<Rightarrow> string \<Rightarrow> string \<Rightarrow> string \<Rightarrow> gotime \<Rightarrow> backtest \<Rightarrow> backtest \<times> unit" where
  "bt_fail_mutate K conditionType reason message now b =
    (let cs = bkst_Conditions (bk_Status b);
         cs = SetStatusCondition K now (mk_cond conditionType ConditionFalse reason message) cs;
         cs = SetStatusCondition K now (mk_cond ConditionReady ConditionFalse reason message) cs
     in (b\<lparr>bk_Status := (bk_Status b)\<lparr>bkst_Conditions := cs, bkst_Phase := ''Error'', bkst_Message := message\<rparr>\<rparr>, ()))"

definition bt_failReconcile ::
  "'e api \<Rightarrow> klib \<Rightarrow> btreconciler \<Rightarrow> backtest \<Rightarrow> string \<Rightarrow> string \<Rightarrow> string \<Rightarrow> goerr option \<Rightarrow> ('e, reconcile_result) op" where
  "bt_failReconcile A K R b conditionType reason message err = do {
     p \<leftarrow> PatchStatus A (backtest_cobj A K) (key_of_meta (bk_meta b)) (bt_fail_mutate K conditionType reason message);
     case p of
       Inl patchErr \<Rightarrow> State_Monad.return (mk_result (5 * Second) (Some patchErr))
     | Inr _ \<Rightarrow> do {
         _ \<leftarrow> record_event (bt_Recorder R) EventWarning reason message;
         _ \<leftarrow> emit (MetricInc ''freqtrade_operator_reconcile_errors_total'' [''backtest'', reason]);
         State_Monad.return (mk_result (30 * Second) err) } }"

definition bt_mutate ::
  "klib \<Rightarrow> string \<Rightarrow> btworkload \<Rightarrow> backtestresults option \<Rightarrow> condition option \<Rightarrow> gotime \<Rightarrow> backtest \<Rightarrow> backtest \<times> unit" where
  "bt_mutate K jobName w results resultsCondition now b =
    (let (status, reason) = conditionStatusAndReason w;
         cs = bkst_Conditions (bk_Status b);
         cs = SetStatusCondition K now (mk_cond ConditionConfigResolved ConditionTrue ReasonAsExpected []) cs;
         cs = SetStatusCondition K now (mk_cond ConditionWorkloadReady status reason (wl_message w)) cs;
         cs = SetStatusCondition K now (mk_cond ConditionReady status reason (wl_message w)) cs;
         cs = (case resultsCondition of None \<Rightarrow> cs | Some c \<Rightarrow> SetStatusCondition K now c cs);
         st = (bk_Status b)\<lparr>bkst_Conditions := cs\<rparr>;
         st = (case results of None \<Rightarrow> st | Some r \<Rightarrow> st\<lparr>bkst_Results := Some r\<rparr>);
         st = st\<lparr>bkst_JobName := jobName, bkst_ResultsPVCName := bk_Name b @ ''-results''\<rparr>;
         st = (if wl_startTime w \<noteq> None then st\<lparr>bkst_StartTime := wl_startTime w\<rparr> else st);
         st = (if wl_completionTime w \<noteq> None then st\<lparr>bkst_CompletionTime := wl_completionTime w\<rparr> else st);
         st = st\<lparr>bkst_Phase := deriveBacktestPhase w, bkst_Message := wl_message w\<rparr>
     in (b\<lparr>bk_Status := st\<rparr>, ()))"

definition resultsRequeueAfter :: duration where "resultsRequeueAfter = 5 * Second"

section \<open>Finalization\<close>

definition bt_released_pvc :: "golib \<Rightarrow> backtest \<Rightarrow> gotime \<Rightarrow> pvc \<Rightarrow> pvc" where
  "bt_released_pvc G b now p = p\<lparr>pvc_meta := (pvc_meta p)\<lparr>
     om_OwnerReferences := filter (\<lambda>r. or_UID r \<noteq> om_UID (bk_meta b)) (om_OwnerReferences (pvc_meta p)),
     om_Annotations := map_put ''freqtrade.io/preserved-at'' (time_RFC3339 G now)
       (map_put ''freqtrade.io/preserved-from'' (bk_Name b) (om_Annotations (pvc_meta p)))\<rparr>\<rparr>"

definition finalizeBacktest :: "'e api \<Rightarrow> golib \<Rightarrow> backtest \<Rightarrow> ('e, goerr option) op" where
  "finalizeBacktest A G b =
    (if ResultsRetentionPolicy b \<noteq> ''Retain'' then State_Monad.return None
     else do {
       g \<leftarrow> do_GetPVC A \<lparr>nn_Namespace = bk_Namespace b, nn_Name = bk_Name b @ ''-results''\<rparr>;
       case g of
         Inl e \<Rightarrow> State_Monad.return
           (if IsNotFound e then None else Some (Wrap ''failed to get results PVC during finalization: '' e))
       | Inr p \<Rightarrow> do {
           now \<leftarrow> do_Now A;
           u \<leftarrow> do_UpdatePVC A (bt_released_pvc G b now p);
           State_Monad.return (map_option (Wrap ''failed to update results PVC to preserve it: '') u) } })"

definition bt_with_finalizers :: "string list \<Rightarrow> backtest \<Rightarrow> backtest" where
  "bt_with_finalizers fs b = b\<lparr>bk_meta := (bk_meta b)\<lparr>om_Finalizers := fs\<rparr>\<rparr>"

definition bt_reconcile_deletion :: "'e api \<Rightarrow> klib \<Rightarrow> golib \<Rightarrow> backtest \<Rightarrow> ('e, reconcile_result) op" where
  "bt_reconcile_deletion A K G b =
    (if ContainsFinalizer K (om_Finalizers (bk_meta b)) BacktestFinalizer
     then do {
       f \<leftarrow> finalizeBacktest A G b;
       case f of
         Some e \<Rightarrow> State_Monad.return (mk_result (10 * Second) (Some e))
       | None \<Rightarrow> do {
           u \<leftarrow> do_UpdateBacktest A (bt_with_finalizers (RemoveFinalizer K (om_Finalizers (bk_meta b)) BacktestFinalizer) b);
           State_Monad.return (case u of Some e \<Rightarrow> mk_result (5 * Second) (Some e) | None \<Rightarrow> mk_result 0 None) } }
     else State_Monad.return (mk_result 0 None))"

section \<open>Reconcile\<close>

definition bt_report ::
  "'e api \<Rightarrow> klib \<Rightarrow> golib \<Rightarrow> btreconciler \<Rightarrow> backtest \<Rightarrow> string \<Rightarrow> btworkload \<Rightarrow> ('e, reconcile_result) op" where
  "bt_report A K G R b jobName w = do {
     a \<leftarrow> (if wl_succeeded w \<and> bkst_Results (bk_Status b) = None then adoptAndParseResults A K G b
          else State_Monad.return (Inr (None, None, False)));
     case a of
       Inl e \<Rightarrow> bt_failReconcile A K R b ConditionResultsAvailable ReasonReconcileError
         (''failed to adopt results ConfigMap: '' @ err_Error e) (Some e)
     | Inr (results, resultsCondition, resultsRequeue) \<Rightarrow> do {
         p \<leftarrow> PatchStatus A (backtest_cobj A K) (key_of_meta (bk_meta b)) (bt_mutate K jobName w results resultsCondition);
         State_Monad.return (case p of
             Inl e \<Rightarrow> mk_result (5 * Second) (Some e)
           | Inr _ \<Rightarrow> mk_result (if resultsRequeue \<and> wl_requeueAfter w = 0 then resultsRequeueAfter
               else wl_requeueAfter w) None) } }"

definition bt_reconcile_live :: "'e api \<Rightarrow> klib \<Rightarrow> golib \<Rightarrow> btreconciler \<Rightarrow> backtest \<Rightarrow> ('e, reconcile_result) op" where
  "bt_reconcile_live A K G R b = do {
     r \<leftarrow> bt_reconcileResources A K G R b;
     case r of
       Inl e \<Rightarrow> bt_failReconcile A K R b ConditionConfigResolved
         (if IsNotFound e then ReasonReferenceNotFound else ReasonReconcileError)
         (''failed to reconcile resources: '' @ err_Error e) (Some e)
     | Inr jobName \<Rightarrow> do {
         c \<leftarrow> bt_computeWorkloadStatus A K b;
         case c of
           Inl e \<Rightarrow> bt_failReconcile A K R b ConditionWorkloadReady ReasonReconcileError
             (''failed to read workload status: '' @ err_Error e) (Some e)
         | Inr w \<Rightarrow> bt_report A K G R b jobName w } }"

definition Backtest_Reconcile :: "'e api \<Rightarrow> klib \<Rightarrow> golib \<Rightarrow> btreconciler \<Rightarrow> nname \<Rightarrow> ('e, reconcile_result) op" where
  "Backtest_Reconcile A K G R key = do {
     r \<leftarrow> do_GetBacktest A key;
     case r of
       Inl e \<Rightarrow> State_Monad.return (if IsNotFound e then mk_result 0 None else mk_result 0 (IgnoreNotFound e))
     | Inr b \<Rightarrow>
         if om_DeletionTimestamp (bk_meta b) \<noteq> None then bt_reconcile_deletion A K G b
         else if \<not> ContainsFinalizer K (om_Finalizers (bk_meta b)) BacktestFinalizer
         then do {
           u \<leftarrow> do_UpdateBacktest A (bt_with_finalizers (AddFinalizer K (om_Finalizers (bk_meta b)) BacktestFinalizer) b);
           State_Monad.return (mk_result (5 * Second) u) }
         else bt_reconcile_live A K G R b }"

section \<open>One run, one Job\<close>

text \<open>An event that applies an object.\<close>

definition applies :: "event \<Rightarrow> bool" where
  "applies e = (case e of ApplyPatch m r \<Rightarrow> True | _ \<Rightarrow> False)"

lemma applies_simps [simp]:
  "applies (ApplyPatch m x)" "\<not> applies (GetJob k j)" "\<not> applies (GetBacktest k b)" "\<not> applies (UpdateBacktest b' y)"
  "\<not> applies (StatusUpdateBacktest b' y)" "\<not> applies (GetConfigMap k c)" "\<not> applies (UpdateConfigMap c' y)"
  "\<not> applies (GetPVC k p)" "\<not> applies (UpdatePVC p' y)" "\<not> applies (Recorded t r m')" "\<not> applies (MetricInc n l)"
  by (simp_all add: applies_def)

lemma only_bt_failReconcile [only_intro]:
  "\<lbrakk>\<And>k x. P (GetBacktest k x); \<And>b y. P (StatusUpdateBacktest b y); \<And>t r m. P (Recorded t r m); \<And>n l. P (MetricInc n l)\<rbrakk>
    \<Longrightarrow> only P (bt_failReconcile A K R b ty rs m e)"
  unfolding bt_failReconcile_def
  by (intro only_intro only_PatchStatus) (auto simp: backtest_cobj_def call_defs intro!: only_intro)

lemma only_adoptAndParseResults [only_intro]:
  "\<lbrakk>\<And>k x. P (GetConfigMap k x); \<And>c y. P (UpdateConfigMap c y)\<rbrakk> \<Longrightarrow> only P (adoptAndParseResults A K G b)"
  unfolding adoptAndParseResults_def ensureOwned_def call_defs by (intro only_intro)

lemma only_bt_report [only_intro]:
  "\<lbrakk>\<And>k x. P (GetBacktest k x); \<And>b y. P (StatusUpdateBacktest b y); \<And>t r m. P (Recorded t r m); \<And>n l. P (MetricInc n l);
    \<And>k x. P (GetConfigMap k x); \<And>c y. P (UpdateConfigMap c y)\<rbrakk> \<Longrightarrow> only P (bt_report A K G R b j w)"
  unfolding bt_report_def
  by (intro only_intro only_PatchStatus) (auto simp: backtest_cobj_def call_defs intro!: only_intro)

lemma only_bt_computeWorkloadStatus [only_intro]: "(\<And>k x. P (GetJob k x)) \<Longrightarrow> only P (bt_computeWorkloadStatus A K b)"
  unfolding bt_computeWorkloadStatus_def call_defs by (intro only_intro)

lemma only_finalizeBacktest [only_intro]:
  "\<lbrakk>\<And>k x. P (GetPVC k x); \<And>p y. P (UpdatePVC p y)\<rbrakk> \<Longrightarrow> only P (finalizeBacktest A G b)"
  unfolding finalizeBacktest_def call_defs by (intro only_intro)

text \<open>The first event of a live reconcile looks the Job up; unless it is missing and no outcome is recorded, nothing is
  applied.\<close>

definition starts_run :: "klib \<Rightarrow> backtest \<Rightarrow> (goerr + job) \<Rightarrow> bool" where
  "starts_run K b g \<longleftrightarrow> (\<exists>e. g = Inl e \<and> IsNotFound e) \<and> recordedOutcome K b = None"

definition one_shot :: "klib \<Rightarrow> backtest \<Rightarrow> event list \<Rightarrow> bool" where
  "one_shot K b t \<longleftrightarrow> (\<exists>g u. t = GetJob (key_of_meta (bk_meta b)) g # u \<and> (starts_run K b g \<or> list_all (\<lambda>e. \<not> applies e) u))"

lemma one_shot_append: "\<lbrakk>one_shot K b t; list_all (\<lambda>e. \<not> applies e) v\<rbrakk> \<Longrightarrow> one_shot K b (t @ v)"
  by (auto simp: one_shot_def)

lemma bt_reconcileResources_one_shot: "emits (bt_reconcileResources A K G R b) (\<lambda>_ t. one_shot K b t)"
proof -
  have get: "emits (do_GetJob A k) (\<lambda>r t. t = [GetJob k r])" for k
    unfolding do_GetJob_def by (rule emits_call) simp
  have any: "emits m (\<lambda>_ u. one_shot K b (GetJob (key_of_meta (bk_meta b)) g # u))"
    if "starts_run K b g" "only (\<lambda>_. True) m" for g and m :: "('a, goerr + string) op"
    by (rule emits_of_only [OF that(2)]) (auto simp: one_shot_def that(1))
  have rest: "only (\<lambda>_. True) (do {
           f \<leftarrow> fetchReferencedObjects A b;
           case f of
             Inl e \<Rightarrow> State_Monad.return (Inl e)
           | Inr (strat, cfg) \<Rightarrow> do {
               c \<leftarrow> BuildConfig A G (bk_Name b) (bk_Namespace b) (tc_Spec cfg) [];
               case c of
                 Inl e \<Rightarrow> State_Monad.return (Inl (Wrap ''failed to build config: '' e))
               | Inr configData \<Rightarrow> create_run A K G R b strat configData } })"
    unfolding fetchReferencedObjects_def create_run_def ensureSidecarRBAC_def then_or_def Let_def call_defs ApplyUnowned_def
      applyServerSide_def
    by (intro only_intro TrueI)
  show ?thesis
    unfolding bt_reconcileResources_def key_of_meta_def [symmetric]
  proof (rule emits_bind [OF get], rule emits_case_sum)
    fix g t e
    assume t: "t = [GetJob (key_of_meta (bk_meta b)) g]" and g: "g = Inl e"
    note any' = any [OF _ rest, of g]
    show "emits (if \<not> IsNotFound e
         then State_Monad.return (Inl (Wrap ''failed to check for an existing Job: '' e))
         else if recordedOutcome K b \<noteq> None then State_Monad.return (Inr (bk_Name b))
         else do {
           f \<leftarrow> fetchReferencedObjects A b;
           case f of
             Inl e \<Rightarrow> State_Monad.return (Inl e)
           | Inr (strat, cfg) \<Rightarrow> do {
               c \<leftarrow> BuildConfig A G (bk_Name b) (bk_Namespace b) (tc_Spec cfg) [];
               case c of
                 Inl e \<Rightarrow> State_Monad.return (Inl (Wrap ''failed to build config: '' e))
               | Inr configData \<Rightarrow> create_run A K G R b strat configData } }) (\<lambda>y u. one_shot K b (t @ u))"
      using any' by (auto intro!: emits_if emits_return simp: one_shot_def t g starts_run_def)
  qed (auto intro!: emits_return simp: one_shot_def)
qed

lemma bt_reconcile_live_one_shot: "emits (bt_reconcile_live A K G R b) (\<lambda>_ t. one_shot K b t)"
  unfolding bt_reconcile_live_def
  by (rule emits_bind [OF bt_reconcileResources_one_shot],
      rule emits_of_only [where P = "\<lambda>e. \<not> applies e"], intro only_intro) (auto intro: one_shot_append)

lemma Backtest_Reconcile_one_shot:
  "emits (Backtest_Reconcile A K G R key) (\<lambda>_ t. \<forall>e \<in> set t. applies e \<longrightarrow>
     (\<exists>b x u. t = GetBacktest key (Inr b) # GetJob (key_of_meta (bk_meta b)) (Inl x) # u \<and> IsNotFound x
        \<and> recordedOutcome K b = None \<and> om_DeletionTimestamp (bk_meta b) = None))"
proof -
  have get: "emits (do_GetBacktest A key) (\<lambda>r t. t = [GetBacktest key r])"
    unfolding do_GetBacktest_def by (rule emits_call) simp
  have none: "emits m (\<lambda>_ u. \<forall>e \<in> set (GetBacktest key r # u). applies e \<longrightarrow> C e u)"
    if "only (\<lambda>e. \<not> applies e) m" for r and m :: "('a, reconcile_result) op" and C
    by (rule emits_of_only [OF that]) (auto simp: list_all_iff)
  show ?thesis
    unfolding Backtest_Reconcile_def
  proof (rule emits_bind [OF get], rule emits_case_sum)
    fix r t e
    assume "t = [GetBacktest key r]"
    then show "emits (State_Monad.return (if IsNotFound e then mk_result 0 None else mk_result 0 (IgnoreNotFound e)))
      (\<lambda>_ u. \<forall>e \<in> set (t @ u). applies e \<longrightarrow>
        (\<exists>b x v. t @ u = GetBacktest key (Inr b) # GetJob (key_of_meta (bk_meta b)) (Inl x) # v \<and> IsNotFound x
        \<and> recordedOutcome K b = None \<and> om_DeletionTimestamp (bk_meta b) = None))"
      by (intro emits_return) simp
  next
    fix r t b
    assume t: "t = [GetBacktest key r]" and r: "r = Inr b"
    show "emits (if om_DeletionTimestamp (bk_meta b) \<noteq> None then bt_reconcile_deletion A K G b
         else if \<not> ContainsFinalizer K (om_Finalizers (bk_meta b)) BacktestFinalizer
         then do {
           u \<leftarrow> do_UpdateBacktest A (bt_with_finalizers (AddFinalizer K (om_Finalizers (bk_meta b)) BacktestFinalizer) b);
           State_Monad.return (mk_result (5 * Second) u) }
         else bt_reconcile_live A K G R b)
      (\<lambda>_ u. \<forall>e \<in> set (t @ u). applies e \<longrightarrow>
        (\<exists>b x v. t @ u = GetBacktest key (Inr b) # GetJob (key_of_meta (bk_meta b)) (Inl x) # v \<and> IsNotFound x
        \<and> recordedOutcome K b = None \<and> om_DeletionTimestamp (bk_meta b) = None))"
      unfolding t append_Cons append_Nil
    proof (intro emits_if)
      assume del: "\<not> om_DeletionTimestamp (bk_meta b) \<noteq> None"
      show "emits (bt_reconcile_live A K G R b) (\<lambda>_ u. \<forall>e \<in> set (GetBacktest key r # u). applies e \<longrightarrow>
        (\<exists>b x v. GetBacktest key r # u = GetBacktest key (Inr b) # GetJob (key_of_meta (bk_meta b)) (Inl x) # v \<and> IsNotFound x
        \<and> recordedOutcome K b = None \<and> om_DeletionTimestamp (bk_meta b) = None))"
        by (rule emits_conseq [OF bt_reconcile_live_one_shot])
           (use del in \<open>auto simp: one_shot_def r starts_run_def list_all_iff\<close>)
    qed (rule none, (auto simp: bt_reconcile_deletion_def call_defs intro!: only_intro)[1])+
  qed
qed

section \<open>What the written status means\<close>

text \<open>What the recorded outcome says of success and failure.\<close>

definition verdict :: "klib \<Rightarrow> backtest \<Rightarrow> (bool \<times> bool) option" where
  "verdict K b = map_option (\<lambda>w. (wl_succeeded w, wl_failed w)) (recordedOutcome K b)"

lemma verdict_seen:
  "verdict K b = (case seen K (bkst_Conditions (bk_Status b)) ConditionWorkloadReady of
       None \<Rightarrow> None
     | Some (st, r, m) \<Rightarrow> if r = ReasonWorkloadSucceeded then Some (True, False)
         else if r = ReasonWorkloadFailed then Some (False, True) else None)"
  by (auto simp: verdict_def recordedOutcome_def seen_def btworkload_zero_def Let_def split: option.split)

lemma verdict_None: "verdict K b = None \<longleftrightarrow> recordedOutcome K b = None"
  by (simp add: verdict_def)

lemma recorded_flags: "recordedOutcome K b = Some w \<Longrightarrow> verdict K b = Some (wl_succeeded w, wl_failed w)
    \<and> wl_succeeded w \<noteq> wl_failed w \<and> \<not> wl_running w \<and> wl_requeueAfter w = 0"
  by (auto simp: verdict_def recordedOutcome_def btworkload_zero_def Let_def split: option.splits if_splits)

definition bt_status_ok :: "klib \<Rightarrow> backtest \<Rightarrow> bool" where
  "bt_status_ok K b \<longleftrightarrow>
    (let phase = bkst_Phase (bk_Status b); ready = IsStatusConditionTrue K (bkst_Conditions (bk_Status b)) ConditionReady
     in (phase = ''Succeeded'' \<longleftrightarrow> ready)
      \<and> (phase = ''Succeeded'' \<longrightarrow> verdict K b = Some (True, False))
      \<and> (phase = ''Failed'' \<longrightarrow> verdict K b = Some (False, True))
      \<and> (phase \<in> {''Running'', ''Pending''} \<longrightarrow> verdict K b = None)
      \<and> phase \<in> {''Succeeded'', ''Failed'', ''Running'', ''Pending'', ''Error''}
      \<and> bkst_ObservedGeneration (bk_Status b) = om_Generation (bk_meta b))"

text \<open>A workload status has at most one of succeeded and failed.\<close>

definition coherent :: "btworkload \<Rightarrow> bool" where
  "coherent w \<longleftrightarrow> \<not> (wl_succeeded w \<and> wl_failed w) \<and> (wl_succeeded w \<or> wl_failed w \<longrightarrow> \<not> wl_running w)"

lemma job_outcome_coherent: "coherent (job_outcome j)"
  by (simp add: coherent_def job_outcome_def btworkload_zero_def Let_def)

lemma recorded_coherent: "recordedOutcome K b = Some w \<Longrightarrow> coherent w"
  using recorded_flags unfolding coherent_def by blast

lemma bt_conditions_seen:
  assumes K: "klib_laws K" and rc: "\<And>c. rcond = Some c \<Longrightarrow> cd_Type c = ConditionResultsAvailable"
  shows "seen K (bkst_Conditions (bk_Status (fst (bt_mutate K j w res rcond now b)))) ty =
     (if ty = ConditionResultsAvailable then
        (case rcond of Some c \<Rightarrow> Some (cd_Status c, cd_Reason c, cd_Message c)
         | None \<Rightarrow> seen K (bkst_Conditions (bk_Status b)) ty)
      else if ty \<in> {ConditionReady, ConditionWorkloadReady}
      then Some (fst (conditionStatusAndReason w), snd (conditionStatusAndReason w), wl_message w)
      else if ty = ConditionConfigResolved then Some (ConditionTrue, ReasonAsExpected, [])
      else seen K (bkst_Conditions (bk_Status b)) ty)"
proof -
  have cs: "bkst_Conditions (bk_Status (fst (bt_mutate K j w res rcond now b))) =
    (let (status, reason) = conditionStatusAndReason w; cs = bkst_Conditions (bk_Status b);
         cs = SetStatusCondition K now (mk_cond ConditionConfigResolved ConditionTrue ReasonAsExpected []) cs;
         cs = SetStatusCondition K now (mk_cond ConditionWorkloadReady status reason (wl_message w)) cs;
         cs = SetStatusCondition K now (mk_cond ConditionReady status reason (wl_message w)) cs
     in case rcond of None \<Rightarrow> cs | Some c \<Rightarrow> SetStatusCondition K now c cs)"
    by (simp add: bt_mutate_def Let_def split_beta split: option.split)
  show ?thesis
    unfolding cs using rc by (cases rcond) (simp_all add: Let_def split_beta seen_set [OF K])
qed

lemma bt_mutate_phase [simp]:
  "bkst_Phase (bk_Status (fst (bt_mutate K j w res rcond now b))) = deriveBacktestPhase w"
  "bk_meta (fst (bt_mutate K j w res rcond now b)) = bk_meta b"
  by (simp_all add: bt_mutate_def Let_def split_beta split: option.split)

lemma SetObservedGeneration_simps [simp]:
  "bkst_Phase (bk_Status (backtest_SetObservedGeneration g b)) = bkst_Phase (bk_Status b)"
  "bkst_Conditions (bk_Status (backtest_SetObservedGeneration g b)) = bkst_Conditions (bk_Status b)"
  "bkst_ObservedGeneration (bk_Status (backtest_SetObservedGeneration g b)) = g"
  "bk_meta (backtest_SetObservedGeneration g b) = bk_meta b"
  by (simp_all add: backtest_SetObservedGeneration_def)

lemma verdict_SetObservedGeneration [simp]:
  "verdict K (backtest_SetObservedGeneration g b) = verdict K b"
  by (simp add: verdict_seen backtest_SetObservedGeneration_def)

lemma verdict_mutate:
  assumes "klib_laws K" "\<And>c. rcond = Some c \<Longrightarrow> cd_Type c = ConditionResultsAvailable" "coherent w"
  shows "verdict K (fst (bt_mutate K j w res rcond now b)) =
     (if wl_succeeded w then Some (True, False) else if wl_failed w then Some (False, True) else None)"
  using assms(3) by (auto simp: verdict_seen bt_conditions_seen [OF assms(1,2)] conditionStatusAndReason_def coherent_def)

lemma bt_patched_ok:
  assumes K: "klib_laws K" and rc: "\<And>c. rcond = Some c \<Longrightarrow> cd_Type c = ConditionResultsAvailable" and w: "coherent w"
  shows "bt_status_ok K (conditioned_object.patched (backtest_cobj A K) (bt_mutate K j w res rcond) now b)"
proof -
  let ?b = "fst (bt_mutate K j w res rcond now b)"
  have "IsStatusConditionTrue K (bkst_Conditions (bk_Status ?b)) ConditionReady \<longleftrightarrow> wl_succeeded w"
    using w by (auto simp: seen_true [OF K] bt_conditions_seen [OF K rc] conditionStatusAndReason_def coherent_def)
  then show ?thesis
    using w verdict_mutate [OF K rc w, of rcond j res now b]
    unfolding btobj.patched_def bt_status_ok_def Let_def
    by (cases "wl_succeeded w"; cases "wl_failed w"; cases "wl_running w")
       (simp_all add: backtest_cobj_def deriveBacktestPhase_def coherent_def)
qed

text \<open>A failed reconcile keeps the recorded outcome, unless it is the workload's own condition that it overwrites.\<close>

lemma bt_fail_seen:
  assumes K: "klib_laws K"
  shows "seen K (bkst_Conditions (bk_Status (fst (bt_fail_mutate K ty rs m now b)))) x =
     (if x = ConditionReady \<or> x = ty then Some (ConditionFalse, rs, m) else seen K (bkst_Conditions (bk_Status b)) x)"
  by (simp add: bt_fail_mutate_def Let_def seen_set [OF K])

lemma verdict_fail:
  assumes K: "klib_laws K" and rs: "rs \<in> {ReasonReconcileError, ReasonReferenceNotFound}"
  shows "verdict K (conditioned_object.patched (backtest_cobj A K) (bt_fail_mutate K ty rs m) now b)
     = (if ty = ConditionWorkloadReady then None else verdict K b)"
  unfolding btobj.patched_def Let_def using rs by (auto simp: backtest_cobj_def verdict_seen bt_fail_seen [OF K])

lemma bt_fail_patched_ok:
  assumes K: "klib_laws K"
  shows "bt_status_ok K (conditioned_object.patched (backtest_cobj A K) (bt_fail_mutate K ty rs m) now b)"
  unfolding btobj.patched_def bt_status_ok_def Let_def
  by (simp add: backtest_cobj_def seen_true [OF K] bt_fail_seen [OF K]) (simp add: bt_fail_mutate_def Let_def)

definition bt_writes_ok :: "klib \<Rightarrow> event \<Rightarrow> bool" where
  "bt_writes_ok K e \<longleftrightarrow> (\<forall>b. written_backtest e = Some b \<longrightarrow> bt_status_ok K b)"

lemma bt_silent: "written_backtest e = None \<Longrightarrow> bt_writes_ok K e"
  by (simp add: bt_writes_ok_def)

lemma adopt_result:
  "yields (adoptAndParseResults A K G b) (\<lambda>r. \<forall>x c y. r = Inr (x, Some c, y) \<longrightarrow> cd_Type c = ConditionResultsAvailable)"
  unfolding adoptAndParseResults_def
  by (intro yields_intro)
     (auto simp: read_results_def unavailableCondition_def Let_def split: option.splits sum.splits prod.splits if_splits)

lemma workload_result: "yields (bt_computeWorkloadStatus A K b) (\<lambda>r. \<forall>w. r = Inr w \<longrightarrow> coherent w)"
  unfolding bt_computeWorkloadStatus_def
  by (intro yields_intro) (auto simp: job_outcome_coherent recorded_coherent split: option.splits if_splits)

text \<open>The status write of a report: whatever holds of every patched object.\<close>

lemma bt_PatchStatus_writes:
  assumes "\<And>now b. S (conditioned_object.patched (backtest_cobj A K) mutate now b)"
  shows "only (\<lambda>e. \<forall>b. written_backtest e = Some b \<longrightarrow> S b) (PatchStatus A (backtest_cobj A K) key mutate)"
  unfolding only_def by (rule btobj.PatchStatus_writes) (rule assms)

lemma bt_failReconcile_writes:
  assumes "\<And>now b. S (conditioned_object.patched (backtest_cobj A K) (bt_fail_mutate K ty rs m) now b)"
  shows "only (\<lambda>e. \<forall>b. written_backtest e = Some b \<longrightarrow> S b) (bt_failReconcile A K R b0 ty rs m err)"
  unfolding bt_failReconcile_def by (intro only_intro bt_PatchStatus_writes assms) simp_all

lemma bt_report_writes:
  assumes "\<And>res c now b. (\<And>c'. c = Some c' \<Longrightarrow> cd_Type c' = ConditionResultsAvailable)
       \<Longrightarrow> S (conditioned_object.patched (backtest_cobj A K) (bt_mutate K j w res c) now b)"
    and "\<And>m now b. S (conditioned_object.patched (backtest_cobj A K) (bt_fail_mutate K ConditionResultsAvailable ReasonReconcileError m) now b)"
  shows "only (\<lambda>e. \<forall>b. written_backtest e = Some b \<longrightarrow> S b) (bt_report A K G R b0 j w)"
proof -
  have y: "yields (if wl_succeeded w \<and> bkst_Results (bk_Status b0) = None then adoptAndParseResults A K G b0
          else State_Monad.return (Inr (None, None, False)))
      (\<lambda>r. \<forall>x c y. r = Inr (x, Some c, y) \<longrightarrow> cd_Type c = ConditionResultsAvailable)"
    by (intro yields_if adopt_result yields_return) simp
  have o: "only (\<lambda>e. \<forall>b. written_backtest e = Some b \<longrightarrow> S b)
      (if wl_succeeded w \<and> bkst_Results (bk_Status b0) = None then adoptAndParseResults A K G b0
          else State_Monad.return (Inr (None, None, False)))"
    by (intro only_intro) simp_all
  show ?thesis
    unfolding bt_report_def
    by (rule only_bind_result [OF o y]) (auto intro!: only_intro bt_PatchStatus_writes bt_failReconcile_writes assms)
qed

lemma bt_reconcile_live_writes:
  assumes K: "klib_laws K"
  shows "only (bt_writes_ok K) (bt_reconcile_live A K G R b)"
proof -
  have res: "only (bt_writes_ok K) (bt_reconcileResources A K G R b)"
    unfolding bt_reconcileResources_def fetchReferencedObjects_def create_run_def ensureSidecarRBAC_def then_or_def Let_def
      call_defs ApplyUnowned_def applyServerSide_def
    by (intro only_intro bt_silent) simp_all
  have fail: "only (bt_writes_ok K) (bt_failReconcile A K R b ty rs m e)" for ty rs m e
    unfolding bt_writes_ok_def by (rule bt_failReconcile_writes) (rule bt_fail_patched_ok [OF K])
  have report: "only (bt_writes_ok K) (bt_report A K G R b j w)" if "coherent w" for j w
    unfolding bt_writes_ok_def by (rule bt_report_writes) (auto intro: bt_patched_ok [OF K _ that] bt_fail_patched_ok [OF K])
  have ws: "only (bt_writes_ok K) (bt_computeWorkloadStatus A K b)"
    by (intro only_intro bt_silent) simp
  show ?thesis
    unfolding bt_reconcile_live_def
    by (intro only_bind [OF res] only_case_sum fail only_bind_result [OF ws workload_result]) (auto intro!: report)
qed

lemma Backtest_Reconcile_writes:
  assumes K: "klib_laws K"
  shows "only (bt_writes_ok K) (Backtest_Reconcile A K G R key)"
  unfolding Backtest_Reconcile_def bt_reconcile_deletion_def do_GetBacktest_def do_UpdateBacktest_def
  by (intro only_intro bt_reconcile_live_writes [OF K] bt_silent) simp_all

section \<open>A finished run stays finished\<close>

text \<open>A call whose possible answers are known.\<close>

lemma only_call_range: "(\<And>e. P (ev (fst (f e)))) \<Longrightarrow> only P (call f ev)"
  by (simp add: only_def emits_def run_defs split_beta)

lemma yields_call_range: "(\<And>e. S (fst (f e))) \<Longrightarrow> yields (call f ev) S"
  by (simp add: yields_def)

text \<open>The stored object only ever shows the outcome \<open>v\<close>.\<close>

definition stored_outcome :: "'e api \<Rightarrow> klib \<Rightarrow> bool \<times> bool \<Rightarrow> bool" where
  "stored_outcome A K v \<longleftrightarrow> (\<forall>k x b. fst (api_GetBacktest A k x) = Inr b \<longrightarrow> verdict K b = Some v)"

text \<open>The answers to the reads of the Job in a run, and what the status counts of a Job say.\<close>

definition job_read :: "event \<Rightarrow> (goerr + job) option" where
  "job_read e = (case e of GetJob k r \<Rightarrow> Some r | _ \<Rightarrow> None)"

definition job_says :: "job \<Rightarrow> (bool \<times> bool) option" where
  "job_says j = (if job_Succeeded j > 0 then Some (True, False) else if job_Failed j > 0 then Some (False, True) else None)"

text \<open>The outcomes a status may be written with, when \<open>v\<close> is stored and the Job was read with the answers \<open>rs\<close>: the first
  read is the check for an existing Job, the second the read of the workload's status.\<close>

fun written_outcomes :: "bool \<times> bool \<Rightarrow> (goerr + job) list \<Rightarrow> (bool \<times> bool) option set" where
  "written_outcomes v [_, Inl err] = (if IsNotFound err then {Some v} else {None})"
| "written_outcomes v [_, Inr j] = {Some v, job_says j}"
| "written_outcomes v _ = {Some v}"

definition outcome_told :: "klib \<Rightarrow> bool \<times> bool \<Rightarrow> event list \<Rightarrow> bool" where
  "outcome_told K v t \<longleftrightarrow> (\<forall>e \<in> set t. \<not> applies e
     \<and> (\<forall>b. written_backtest e = Some b \<longrightarrow> verdict K b \<in> written_outcomes v (List.map_filter job_read t)))"

definition tells :: "klib \<Rightarrow> (bool \<times> bool) option set \<Rightarrow> event \<Rightarrow> bool" where
  "tells K S e \<longleftrightarrow> \<not> applies e \<and> job_read e = None \<and> (\<forall>b. written_backtest e = Some b \<longrightarrow> verdict K b \<in> S)"

lemma tells_simps [simp]:
  "tells K S (GetBacktest k x)" "tells K S (GetConfigMap k c)" "tells K S (UpdateConfigMap cm y)" "tells K S (Recorded t r m)"
  "tells K S (MetricInc n l)" "tells K S (UpdateBacktest b y)" "tells K S (GetPVC k p)" "tells K S (UpdatePVC p' y)"
  by (simp_all add: tells_def job_read_def)

lemma told_reads:
  assumes "list_all (\<lambda>e. \<exists>k r. e = GetJob k r) t" "list_all (tells K (written_outcomes v (List.map_filter job_read t))) u"
  shows "outcome_told K v (t @ u)"
proof -
  have "List.map_filter job_read u = []" using assms(2) by (induction u) (auto simp: tells_def List.map_filter_def)
  then have "List.map_filter job_read (t @ u) = List.map_filter job_read t" by (simp add: List.map_filter_def)
  with assms show ?thesis by (auto simp: outcome_told_def list_all_iff tells_def)
qed

lemma bt_PatchStatus_tells:
  assumes st: "stored_outcome A K v"
    and m: "\<And>now b. verdict K b = Some v \<Longrightarrow> verdict K (conditioned_object.patched (backtest_cobj A K) mutate now b) \<in> S"
  shows "only (tells K S) (PatchStatus A (backtest_cobj A K) key mutate)"
proof -
  let ?r = "\<lambda>e. (\<forall>b. read_backtest e = Some b \<longrightarrow> verdict K b = Some v) \<and> \<not> applies e \<and> job_read e = None"
  have get: "read_backtest (GetBacktest k (fst (api_GetBacktest A k x))) = Some b \<Longrightarrow> verdict K b = Some v" for k x b
    using st by (cases "fst (api_GetBacktest A k x)") (auto simp: stored_outcome_def)
  have "only ?r (PatchStatus A (backtest_cobj A K) key mutate)"
    by (rule only_PatchStatus)
       (auto simp: backtest_cobj_def call_defs job_read_def intro!: only_intro only_call_range dest: get)
  then show ?thesis
    unfolding only_def
  proof (rule emits_conseq [OF emits_conj [OF _ btobj.PatchStatus_justified]], elim conjE)
    fix t
    assume r: "list_all ?r t" and j: "conditioned_object.justified (backtest_cobj A K) read_backtest written_backtest mutate t"
    have "verdict K obj \<in> S" if w: "e \<in> set t" "written_backtest e = Some obj" for e obj
    proof -
      from backedD [OF j [unfolded btobj.justified_def] w(1)] w(2)
      obtain d where "d \<in> set t" "conditioned_object.justifies (backtest_cobj A K) read_backtest mutate d obj" by auto
      then show ?thesis using r m by (auto simp: btobj.justifies_def list_all_iff)
    qed
    with r show "list_all (tells K S) t" by (auto simp: list_all_iff tells_def)
  qed
qed

lemma bt_fail_tells:
  assumes K: "klib_laws K" and st: "stored_outcome A K v" and rs: "rs \<in> {ReasonReconcileError, ReasonReferenceNotFound}"
    and S: "(if ty = ConditionWorkloadReady then None else Some v) \<in> S"
  shows "only (tells K S) (bt_failReconcile A K R b ty rs m e)"
  unfolding bt_failReconcile_def
  by (intro only_intro bt_PatchStatus_tells [OF st]) (use S in \<open>simp_all add: verdict_fail [OF K rs] split: if_splits\<close>)

lemma bt_report_tells:
  assumes K: "klib_laws K" and st: "stored_outcome A K v" and w: "coherent w" and S: "Some v \<in> S"
    "(if wl_succeeded w then Some (True, False) else if wl_failed w then Some (False, True) else None) \<in> S"
  shows "only (tells K S) (bt_report A K G R b j w)"
proof -
  have m: "verdict K (conditioned_object.patched (backtest_cobj A K) (bt_mutate K j w res c) now b') \<in> S"
    if "\<And>c'. c = Some c' \<Longrightarrow> cd_Type c' = ConditionResultsAvailable" for res c now b'
    unfolding btobj.patched_def Let_def using S(2) by (simp add: backtest_cobj_def verdict_mutate [OF K that w])
  have y: "yields (if wl_succeeded w \<and> bkst_Results (bk_Status b) = None then adoptAndParseResults A K G b
        else State_Monad.return (Inr (None, None, False)))
      (\<lambda>r. \<forall>x c y. r = Inr (x, Some c, y) \<longrightarrow> cd_Type c = ConditionResultsAvailable)"
    by (intro yields_if adopt_result yields_return) simp
  have o: "only (tells K S) (if wl_succeeded w \<and> bkst_Results (bk_Status b) = None then adoptAndParseResults A K G b
        else State_Monad.return (Inr (None, None, False)))"
    by (intro only_intro) simp_all
  have fail: "only (tells K S) (bt_failReconcile A K R b ConditionResultsAvailable ReasonReconcileError msg e)" for msg e
    by (rule bt_fail_tells [OF K st]) (use S(1) in simp_all)
  show ?thesis
    unfolding bt_report_def
    by (rule only_bind_result [OF o y]) (auto intro!: only_intro fail bt_PatchStatus_tells [OF st] m)
qed

text \<open>With an outcome on record the resource pass is one read of the Job, and so is the read of the workload's status.\<close>

lemma recorded_reads:
  assumes w: "recordedOutcome K b = Some w"
  shows "emits (bt_reconcileResources A K G R b) (\<lambda>r t. \<exists>k g. t = [GetJob k g])"
    and "emits (bt_computeWorkloadStatus A K b) (\<lambda>r t. \<exists>k g. t = [GetJob k g] \<and> (case g of
         Inl e \<Rightarrow> if IsNotFound e then r = Inr w else \<exists>e'. r = Inl e' | Inr j \<Rightarrow> r = Inr (job_outcome j)))"
proof -
  have get: "emits (do_GetJob A k) (\<lambda>r t. t = [GetJob k r])" for k
    unfolding do_GetJob_def by (rule emits_call) simp
  show "emits (bt_reconcileResources A K G R b) (\<lambda>r t. \<exists>k g. t = [GetJob k g])"
    unfolding bt_reconcileResources_def
    by (rule emits_bind [OF get], rule emits_case_sum) (auto simp: w intro!: emits_if emits_return)
  show "emits (bt_computeWorkloadStatus A K b) (\<lambda>r t. \<exists>k g. t = [GetJob k g] \<and> (case g of
       Inl e \<Rightarrow> if IsNotFound e then r = Inr w else \<exists>e'. r = Inl e' | Inr j \<Rightarrow> r = Inr (job_outcome j)))"
    unfolding bt_computeWorkloadStatus_def
    by (rule emits_bind [OF get], rule emits_case_sum) (auto simp: w intro!: emits_return)
qed

lemma job_says_outcome:
  "job_says j = (if wl_succeeded (job_outcome j) then Some (True, False) else if wl_failed (job_outcome j) then Some (False, True) else None)"
  by (simp add: job_says_def job_outcome_def btworkload_zero_def Let_def)

lemma status_tells:
  assumes K: "klib_laws K" and st: "stored_outcome A K v" and w: "recordedOutcome K b = Some w" "verdict K b = Some v"
  shows "emits (do {
      c \<leftarrow> bt_computeWorkloadStatus A K b;
      case c of
        Inl e \<Rightarrow> bt_failReconcile A K R b ConditionWorkloadReady ReasonReconcileError (f e) (Some e)
      | Inr w \<Rightarrow> bt_report A K G R b j w }) (\<lambda>_ u. outcome_told K v (GetJob k g # u))"
proof (rule emits_bind [OF recorded_reads(2) [OF w(1)]], elim exE conjE)
  fix c :: "goerr + btworkload" and t k' g'
  assume t: "t = [GetJob k' g']" and c: "case g' of Inl e \<Rightarrow> if IsNotFound e then c = Inr w else \<exists>e'. c = Inl e' | Inr j \<Rightarrow> c = Inr (job_outcome j)"
  let ?S = "written_outcomes v [g, g']"
  have told: "list_all (tells K ?S) u \<Longrightarrow> outcome_told K v (GetJob k g # t @ u)" for u
    using told_reads [of "[GetJob k g, GetJob k' g']" K v u] by (simp add: t List.map_filter_def job_read_def)
  have v: "v = (wl_succeeded w, wl_failed w)" "wl_succeeded w \<noteq> wl_failed w" using recorded_flags [OF w(1)] w(2) by simp_all
  have "only (tells K ?S) (case c of
        Inl e \<Rightarrow> bt_failReconcile A K R b ConditionWorkloadReady ReasonReconcileError (f e) (Some e) | Inr w \<Rightarrow> bt_report A K G R b j w)"
  proof (cases g')
    case (Inl e)
    show ?thesis
    proof (cases "IsNotFound e")
      case True
      then show ?thesis using c v by (simp add: Inl) (rule bt_report_tells [OF K st recorded_coherent [OF w(1)]]; auto)
    next
      case False
      then show ?thesis using c by (auto simp: Inl intro!: bt_fail_tells [OF K st])
    qed
  next
    case (Inr j')
    then show ?thesis using c by (simp add: bt_report_tells [OF K st job_outcome_coherent] job_says_outcome)
  qed
  then show "emits (case c of
        Inl e \<Rightarrow> bt_failReconcile A K R b ConditionWorkloadReady ReasonReconcileError (f e) (Some e) | Inr w \<Rightarrow> bt_report A K G R b j w)
      (\<lambda>_ u. outcome_told K v (GetJob k g # t @ u))"
    by (rule emits_of_only) (rule told)
qed

lemma recorded_run:
  assumes K: "klib_laws K" and st: "stored_outcome A K v"
  shows "emits (Backtest_Reconcile A K G R key) (\<lambda>_ t. outcome_told K v t)"
proof -
  have live: "emits (bt_reconcile_live A K G R b) (\<lambda>_ t. outcome_told K v t)" if b: "verdict K b = Some v" for b
  proof -
    obtain w where w: "recordedOutcome K b = Some w" using b by (auto simp: verdict_def)
    show ?thesis
      unfolding bt_reconcile_live_def
    proof (rule emits_bind [OF recorded_reads(1) [OF w]], elim exE, rule emits_case_sum)
      fix r t k g e assume t: "t = [GetJob k g]"
      have told: "list_all (tells K {Some v}) u \<Longrightarrow> outcome_told K v (t @ u)" for u
        using told_reads [of "[GetJob k g]" K v u] by (simp add: t List.map_filter_def job_read_def)
      show "emits (bt_failReconcile A K R b ConditionConfigResolved (if IsNotFound e then ReasonReferenceNotFound else ReasonReconcileError)
          (''failed to reconcile resources: '' @ err_Error e) (Some e)) (\<lambda>_ u. outcome_told K v (t @ u))"
        by (rule emits_of_only [OF bt_fail_tells [OF K st, where S = "{Some v}"]]) (use told in simp_all)
    next
      fix r t k g j assume t: "t = [GetJob k g]"
      show "emits (do {
          c \<leftarrow> bt_computeWorkloadStatus A K b;
          case c of
            Inl e \<Rightarrow> bt_failReconcile A K R b ConditionWorkloadReady ReasonReconcileError (''failed to read workload status: '' @ err_Error e) (Some e)
          | Inr w \<Rightarrow> bt_report A K G R b j w }) (\<lambda>_ u. outcome_told K v (t @ u))"
        using status_tells [OF K st w b] by (simp add: t)
    qed
  qed
  have quiet: "outcome_told K v t" if "list_all (tells K {}) t" for t
    using told_reads [of "[]" K v t] that by (auto simp: list_all_iff tells_def List.map_filter_def)
  have get: "emits (do_GetBacktest A key) (\<lambda>r t. t = [GetBacktest key r] \<and> (\<forall>b. r = Inr b \<longrightarrow> verdict K b = Some v))"
    unfolding do_GetBacktest_def emits_def run_defs using st by (auto simp: call_def stored_outcome_def Let_def split_beta)
  have first: "outcome_told K v (GetBacktest k r # u)" if "outcome_told K v u" for k r u
    using that by (simp add: outcome_told_def List.map_filter_def job_read_def)
  have upd: "only (tells K {}) (do_UpdateBacktest A b)" for b unfolding do_UpdateBacktest_def by (intro only_intro) simp
  have del: "only (tells K {}) (bt_reconcile_deletion A K G b)" for b
    unfolding bt_reconcile_deletion_def finalizeBacktest_def call_defs by (intro only_intro) simp_all
  show ?thesis
    unfolding Backtest_Reconcile_def
    by (rule emits_bind [OF get], elim conjE, rule emits_case_sum, rule emits_return, simp add: first quiet,
        intro emits_if, rule emits_of_only [OF del], simp add: first quiet,
        rule emits_of_only [OF only_bind [OF upd only_return]], simp add: first quiet,
        rule emits_conseq [OF live], simp_all add: first)
qed

section \<open>Retention\<close>

text \<open>An update that leaves the Backtest without the finalizer.\<close>

definition bt_releases :: "klib \<Rightarrow> event \<Rightarrow> bool" where
  "bt_releases K e \<longleftrightarrow> (\<exists>b r. e = UpdateBacktest b r \<and> \<not> ContainsFinalizer K (om_Finalizers (bk_meta b)) BacktestFinalizer)"

text \<open>The results volume of \<open>b\<close> is safe: it does not exist, or it was written back without \<open>b\<close> as an owner.\<close>

definition results_safe :: "backtest \<Rightarrow> event list \<Rightarrow> bool" where
  "results_safe b t \<longleftrightarrow>
     (\<exists>e. GetPVC \<lparr>nn_Namespace = bk_Namespace b, nn_Name = ResultsPVCName (bk_Name b)\<rparr> (Inl e) \<in> set t \<and> IsNotFound e)
     \<or> (\<exists>p. UpdatePVC p None \<in> set t \<and> (\<forall>r \<in> set (om_OwnerReferences (pvc_meta p)). or_UID r \<noteq> om_UID (bk_meta b)))"

lemma finalizeBacktest_safe:
  "emits (finalizeBacktest A G b) (\<lambda>r t. (r = None \<and> ResultsRetentionPolicy b = ''Retain'' \<longrightarrow> results_safe b t)
     \<and> list_all (\<lambda>e. \<not> bt_releases K e) t)"
proof (cases "ResultsRetentionPolicy b = ''Retain''")
  case True
  have get: "emits (do_GetPVC A k) (\<lambda>r t. t = [GetPVC k r])" for k
    unfolding do_GetPVC_def by (rule emits_call) simp
  have now: "emits (do_Now A) (\<lambda>_ t. t = [])"
    unfolding do_Now_def by (rule emits_ask) simp
  have upd: "emits (do_UpdatePVC A p) (\<lambda>r t. t = [UpdatePVC p r])" for p
    unfolding do_UpdatePVC_def by (rule emits_call) simp
  show ?thesis
    unfolding finalizeBacktest_def
    by (simp only: True simp_thms if_False, rule emits_bind [OF get], rule emits_case_sum, rule emits_return,
        force simp: results_safe_def bt_releases_def ResultsPVCName_def, rule emits_bind [OF now], rule emits_bind [OF upd],
        rule emits_return) (auto simp: results_safe_def bt_releases_def bt_released_pvc_def)
qed (auto simp: finalizeBacktest_def intro: emits_return)

text \<open>The finalizer goes only from a Backtest that is being deleted, and under Retain only once its results are safe.\<close>

definition release_ok :: "klib \<Rightarrow> nname \<Rightarrow> event list \<Rightarrow> event \<Rightarrow> bool" where
  "release_ok K key p e \<longleftrightarrow> (bt_releases K e \<longrightarrow> (\<exists>b. GetBacktest key (Inr b) \<in> set p \<and> om_DeletionTimestamp (bk_meta b) \<noteq> None
     \<and> (ResultsRetentionPolicy b = ''Retain'' \<longrightarrow> results_safe b p)))"

lemma results_safe_Cons: "results_safe b t \<Longrightarrow> results_safe b (e # t)"
  unfolding results_safe_def by (meson list.set_intros(2))

lemma sofar_no_release: "list_all (\<lambda>e. \<not> bt_releases K e) t \<Longrightarrow> sofar (\<lambda>p e. release_ok K key (q @ p) e) t"
  by (rule sofar_list_all) (auto simp: list_all_iff release_ok_def)

lemma do_UpdateBacktest_emits: "emits (do_UpdateBacktest A b) (\<lambda>r t. t = [UpdateBacktest b r])"
  unfolding do_UpdateBacktest_def by (rule emits_call) simp

lemma bt_reconcile_deletion_release:
  assumes d: "om_DeletionTimestamp (bk_meta b) \<noteq> None"
  shows "emits (bt_reconcile_deletion A K G b) (\<lambda>_ u. sofar (release_ok K key) (GetBacktest key (Inr b) # u))"
  unfolding bt_reconcile_deletion_def
proof (intro emits_if, rule emits_bind [OF finalizeBacktest_safe [where K = K]], elim conjE)
  fix f :: "goerr option" and t
  assume safe: "f = None \<and> ResultsRetentionPolicy b = ''Retain'' \<longrightarrow> results_safe b t"
    and t: "list_all (\<lambda>e. \<not> bt_releases K e) t"
  have front: "sofar (release_ok K key) (GetBacktest key (Inr b) # t)"
    using sofar_no_release [OF t, of key "[GetBacktest key (Inr b)]"] by (simp add: sofar_Cons release_ok_def bt_releases_def)
  have "release_ok K key (GetBacktest key (Inr b) # t) e" if "f = None" for e
    using d safe that results_safe_Cons unfolding release_ok_def by fastforce
  then have step: "sofar (release_ok K key) (GetBacktest key (Inr b) # t @ [e])" if "f = None" for e
    using front that sofar_append [of "release_ok K key" "GetBacktest key (Inr b) # t" "[e]"] by (simp add: sofar_Cons [of _ e])
  show "emits (case f of
       Some e \<Rightarrow> State_Monad.return (mk_result (10 * Second) (Some e))
     | None \<Rightarrow> do {
         u \<leftarrow> do_UpdateBacktest A (bt_with_finalizers (RemoveFinalizer K (om_Finalizers (bk_meta b)) BacktestFinalizer) b);
         State_Monad.return (case u of Some e \<Rightarrow> mk_result (5 * Second) (Some e) | None \<Rightarrow> mk_result 0 None) })
       (\<lambda>_ u. sofar (release_ok K key) (GetBacktest key (Inr b) # t @ u))"
    by (rule emits_case_option, rule emits_bind [OF do_UpdateBacktest_emits], rule emits_return)
       (use front step in \<open>auto intro!: emits_return\<close>)
qed (auto intro!: emits_return simp: sofar_Cons release_ok_def bt_releases_def)

lemma bt_live_keeps_finalizer: "only (\<lambda>e. \<not> bt_releases K e) (bt_reconcile_live A K G R b)"
  unfolding bt_reconcile_live_def bt_reconcileResources_def fetchReferencedObjects_def create_run_def ensureSidecarRBAC_def
    then_or_def Let_def call_defs ApplyUnowned_def applyServerSide_def
  by (intro only_intro) (simp_all add: bt_releases_def)

lemma bt_add_keeps_finalizer:
  assumes K: "klib_laws K"
  shows "only (\<lambda>e. \<not> bt_releases K e) (do {
     u \<leftarrow> do_UpdateBacktest A (bt_with_finalizers (AddFinalizer K (om_Finalizers (bk_meta b)) BacktestFinalizer) b);
     State_Monad.return (mk_result (5 * Second) u) })"
proof -
  have fin: "finalizer_ops (ContainsFinalizer K) (AddFinalizer K) (RemoveFinalizer K)"
    using K by (simp add: klib_laws_def)
  show ?thesis
    unfolding do_UpdateBacktest_def
    by (intro only_intro) (simp add: bt_releases_def bt_with_finalizers_def finalizer_ops.contains_add [OF fin])
qed

lemma Backtest_Reconcile_release:
  assumes K: "klib_laws K"
  shows "emits (Backtest_Reconcile A K G R key) (\<lambda>_ t. sofar (release_ok K key) t)"
proof -
  have get: "emits (do_GetBacktest A key) (\<lambda>r t. t = [GetBacktest key r])"
    unfolding do_GetBacktest_def by (rule emits_call) simp
  have quiet: "emits m (\<lambda>_ u. sofar (release_ok K key) (GetBacktest key r # u))"
    if "only (\<lambda>e. \<not> bt_releases K e) m" for r and m :: "('a, reconcile_result) op"
    by (rule emits_of_only [OF that])
       (use sofar_no_release [of K _ key "[GetBacktest key r]"] in \<open>simp add: sofar_Cons release_ok_def bt_releases_def\<close>)
  show ?thesis
    unfolding Backtest_Reconcile_def
  proof (rule emits_bind [OF get], rule emits_case_sum)
    fix r t b
    assume t: "t = [GetBacktest key r]" and r: "r = Inr b"
    show "emits (if om_DeletionTimestamp (bk_meta b) \<noteq> None then bt_reconcile_deletion A K G b
         else if \<not> ContainsFinalizer K (om_Finalizers (bk_meta b)) BacktestFinalizer
         then do {
           u \<leftarrow> do_UpdateBacktest A (bt_with_finalizers (AddFinalizer K (om_Finalizers (bk_meta b)) BacktestFinalizer) b);
           State_Monad.return (mk_result (5 * Second) u) }
         else bt_reconcile_live A K G R b) (\<lambda>_ u. sofar (release_ok K key) (t @ u))"
      unfolding t r append_Cons append_Nil
      by (rule emits_if, erule bt_reconcile_deletion_release, rule emits_if, rule quiet [OF bt_add_keeps_finalizer [OF K]],
          rule quiet [OF bt_live_keeps_finalizer])
  qed (auto intro!: emits_return simp: sofar_Cons release_ok_def bt_releases_def)
qed

section \<open>Waiting for results\<close>

text \<open>While a succeeded run has no results ConfigMap, every reconcile reports success, sets no ResultsAvailable condition
  and asks to be called again after five seconds.\<close>

lemma report_without_results:
  assumes "wl_succeeded w" "wl_requeueAfter w = 0" "bkst_Results (bk_Status b) = None"
    and miss: "\<And>k x. \<exists>e. fst (api_GetConfigMap A k x) = Inl e \<and> IsNotFound e"
  shows "yields (bt_report A K G R b j w) (\<lambda>r. rr_Err r = None \<longrightarrow> rr_RequeueAfter r = resultsRequeueAfter)"
proof -
  have cm: "yields (do_GetConfigMap A k) (\<lambda>g. \<exists>e. g = Inl e \<and> IsNotFound e)" for k
    unfolding do_GetConfigMap_def by (rule yields_call_range) (use miss in simp)
  have "yields (adoptAndParseResults A K G b) (\<lambda>r. r = Inr (None, None, True))"
    unfolding adoptAndParseResults_def by (rule yields_bind_result [OF cm]) (auto intro!: yields_intro)
  then have a: "yields (if wl_succeeded w \<and> bkst_Results (bk_Status b) = None then adoptAndParseResults A K G b
      else State_Monad.return (Inr (None, None, False))) (\<lambda>r. r = Inr (None, None, True))"
    using assms(1,3) by simp
  show ?thesis
    unfolding bt_report_def
    by (rule yields_bind_result [OF a]) (use assms(2) in \<open>auto intro!: yields_intro split: sum.splits\<close>)
qed

end
