(* ===== verification/CollectResults.thy ===== *)
theory CollectResults
  imports BacktestReconcile
begin

text \<open>The result-collecting sidecar (\<open>controllers/backtest/collectresults\<close>, and \<open>runCollectResults\<close> of
  \<open>cmd/main.go\<close>): it waits for the main container of its own pod to exit, copies the run's result file onto
  the results PVC, extracts a summary and creates the results ConfigMap. The file system, the zip archives
  and the pod are answers of the environment. The wait loop takes fuel; the lemmas say how much is enough,
  that the copy stays inside the results directory, and that what the sidecar writes is what the
  reconciler reads.\<close>

section \<open>Package filepath\<close>

text \<open>Splitting at slashes; \<open>a//b\<close> has an empty part.\<close>

fun split_slash :: "string \<Rightarrow> string list" where
  "split_slash [] = [[]]"
| "split_slash (c # s) =
     (if c = CHR ''/'' then [] # split_slash s
      else (case split_slash s of [] \<Rightarrow> [[c]] | p # ps \<Rightarrow> (c # p) # ps))"

text \<open>The lexical processing of \<open>Clean\<close>: empty and dot parts go, a dot-dot part takes the part before it with it, and
  at the root it goes alone. The accumulator holds the kept parts, last one first.\<close>

fun clean_parts :: "bool \<Rightarrow> string list \<Rightarrow> string list \<Rightarrow> string list" where
  "clean_parts rooted acc [] = rev acc"
| "clean_parts rooted acc (p # ps) =
     (if p = [] \<or> p = ''.'' then clean_parts rooted acc ps
      else if p = ''..'' then
        (if acc \<noteq> [] \<and> hd acc \<noteq> ''..'' then clean_parts rooted (tl acc) ps
         else if rooted then clean_parts rooted acc ps
         else clean_parts rooted (''..'' # acc) ps)
      else clean_parts rooted (p # acc) ps)"

definition Clean :: "string \<Rightarrow> string" where
  "Clean s = (if s = [] then ''.''
     else let rooted = (hd s = CHR ''/''); body = Join (clean_parts rooted [] (split_slash s)) ''/''
          in if rooted then ''/'' @ body else if body = [] then ''.'' else body)"

definition path_Join :: "string \<Rightarrow> string \<Rightarrow> string" where
  "path_Join a b = (if a \<noteq> [] then Clean (a @ ''/'' @ b) else if b \<noteq> [] then Clean b else [])"

definition Base :: "string \<Rightarrow> string" where
  "Base path = (if path = [] then ''.''
     else let stripped = rev (dropWhile (\<lambda>c. c = CHR ''/'') (rev path));
              name = rev (takeWhile (\<lambda>c. c \<noteq> CHR ''/'') (rev stripped))
          in if name = [] then ''/'' else name)"

section \<open>The result file\<close>

record cropts =
  cr_BacktestName :: string
  cr_StrategyName :: string
  cr_PodName :: string
  cr_Namespace :: string
  cr_MainContainerName :: string
  cr_ResultsDir :: string
  cr_ResultsPVCDir :: string

definition latestResultFile :: "'e api \<Rightarrow> golib \<Rightarrow> string \<Rightarrow> ('e, goerr + string) op" where
  "latestResultFile A G resultsDir =
    (let pointerPath = path_Join resultsDir ''.last_result.json'' in do {
       r \<leftarrow> do_ReadFile A pointerPath;
       State_Monad.return (case r of
           Inl e \<Rightarrow> Inl (Wrap (''reading '' @ pointerPath @ '': '') e)
         | Inr raw \<Rightarrow>
            (case (case json_Unmarshal G raw of Inl e \<Rightarrow> Inl e | Inr j \<Rightarrow> dec_single (dec_string ''latest_backtest'') j) of
               Inl e \<Rightarrow> Inl (Wrap (''parsing '' @ pointerPath @ '': '') e)
             | Inr latest \<Rightarrow>
                 if latest = [] then Inl (ErrString (pointerPath @ '' has no latest_backtest entry''))
                 else Inr (path_Join resultsDir latest))) })"

definition TrimSuffix :: "string \<Rightarrow> string \<Rightarrow> string" where
  "TrimSuffix s suf = (if HasSuffix s suf then take (length s - length suf) s else s)"

definition readResultBytes :: "'e api \<Rightarrow> string \<Rightarrow> ('e, goerr + string) op" where
  "readResultBytes A path =
    (if \<not> HasSuffix path ''.zip'' then do {
       r \<leftarrow> do_ReadFile A path;
       State_Monad.return (case r of Inl e \<Rightarrow> Inl (Wrap (''reading '' @ path @ '': '') e) | Inr raw \<Rightarrow> Inr raw) }
     else do {
       z \<leftarrow> do_OpenZip A path;
       State_Monad.return (case z of
           Inl e \<Rightarrow> Inl (Wrap (''opening '' @ path @ '' as a zip: '') e)
         | Inr files \<Rightarrow>
            (let entryName = TrimSuffix (Base path) ''.zip'' @ ''.json'' in
             case find (\<lambda>(n, _). n = entryName) files of
               None \<Rightarrow> Inl (ErrString (path @ '' has no '' @ entryName @ '' entry''))
             | Some (_, Inl e) \<Rightarrow> Inl (Wrap (''opening '' @ entryName @ '' inside '' @ path @ '': '') e)
             | Some (_, Inr (Inl e)) \<Rightarrow> Inl (Wrap (''reading '' @ entryName @ '' inside '' @ path @ '': '') e)
             | Some (_, Inr (Inr raw)) \<Rightarrow> Inr raw)) })"

record strategystats =
  ks_TotalTrades :: int
  ks_ProfitTotalAbs :: float64
  ks_ProfitTotal :: float64
  ks_Winrate :: float64
  ks_MaxDrawdownAccount :: float64
  ks_Sharpe :: float64
  ks_Sortino :: float64
  ks_CAGR :: float64
  ks_BestPair :: "string option"
  ks_WorstPair :: "string option"

text \<open>A pointer to a pair statistic: absent or null is nil.\<close>

definition dec_pairkey :: "string \<Rightarrow> json \<Rightarrow> goerr + string option" where
  "dec_pairkey f j = (case field_of f j of
       None \<Rightarrow> Inr None
     | Some p \<Rightarrow> (case dec_single (dec_string ''key'') p of Inl e \<Rightarrow> Inl e | Inr k \<Rightarrow> Inr (Some k)))"

definition dec_stats :: "golib \<Rightarrow> json \<Rightarrow> goerr + strategystats" where
  "dec_stats G j =
    (if \<not> is_struct j then Inl type_error
     else case (dec_int ''total_trades'' j, dec_float G ''profit_total_abs'' j, dec_float G ''profit_total'' j,
         dec_float G ''winrate'' j, dec_float G ''max_drawdown_account'' j, dec_float G ''sharpe'' j,
         dec_float G ''sortino'' j, dec_float G ''cagr'' j, dec_pairkey ''best_pair'' j, dec_pairkey ''worst_pair'' j) of
       (Inr n, Inr pa, Inr pt, Inr wr, Inr md, Inr sh, Inr so, Inr cg, Inr bp, Inr wp) \<Rightarrow>
         Inr \<lparr>ks_TotalTrades = n, ks_ProfitTotalAbs = pa, ks_ProfitTotal = pt, ks_Winrate = wr, ks_MaxDrawdownAccount = md,
           ks_Sharpe = sh, ks_Sortino = so, ks_CAGR = cg, ks_BestPair = bp, ks_WorstPair = wp\<rparr>
     | _ \<Rightarrow> Inl type_error)"

text \<open>Decoding into \<open>map[string]freqtradeStrategyStats\<close>: the last member of a name wins, and one member that does not decode
  makes the whole decoding fail.\<close>

definition dec_strategies :: "golib \<Rightarrow> json \<Rightarrow> goerr + (string \<times> strategystats) list" where
  "dec_strategies G j =
    (if \<not> is_struct j then Inl type_error
     else case field_of ''strategy'' j of
       None \<Rightarrow> Inr []
     | Some (JObj ms) \<Rightarrow>
         (if list_all (\<lambda>(_, v). \<not> isl (dec_stats G v)) ms
          then Inr (map (\<lambda>(k, v). (k, projr (dec_stats G v))) (rev ms)) else Inl type_error)
     | Some _ \<Rightarrow> Inl type_error)"

definition cr_formatFloat :: "golib \<Rightarrow> float64 \<Rightarrow> string" where
  "cr_formatFloat G f = FormatFloat G f"

text \<open>The IEEE encodings of 100 and of \<open>1e4\<close>.\<close>

definition cr_formatPercent :: "golib \<Rightarrow> float64 \<Rightarrow> string" where
  "cr_formatPercent G ratio =
    (let hundred = F64 0x4059000000000000; decimalPlaces = F64 0x40C3880000000000
     in cr_formatFloat G (float_div G (math_Round G (float_mul G (float_mul G ratio hundred) decimalPlaces)) decimalPlaces))"

definition stats_results :: "golib \<Rightarrow> string \<Rightarrow> strategystats \<Rightarrow> backtestresults" where
  "stats_results G path stats = \<lparr>br_TotalTrades = ks_TotalTrades stats, br_ProfitAbs = cr_formatFloat G (ks_ProfitTotalAbs stats),
     br_ProfitPct = cr_formatPercent G (ks_ProfitTotal stats), br_WinRatePct = cr_formatPercent G (ks_Winrate stats),
     br_MaxDrawdownPct = cr_formatPercent G (ks_MaxDrawdownAccount stats), br_SharpeRatio = cr_formatFloat G (ks_Sharpe stats),
     br_SortinoRatio = cr_formatFloat G (ks_Sortino stats), br_CAGRPct = cr_formatPercent G (ks_CAGR stats),
     br_BestPair = (case ks_BestPair stats of None \<Rightarrow> [] | Some k \<Rightarrow> k),
     br_WorstPair = (case ks_WorstPair stats of None \<Rightarrow> [] | Some k \<Rightarrow> k), br_ResultFile = path\<rparr>"

definition parseResultFile :: "'e api \<Rightarrow> golib \<Rightarrow> string \<Rightarrow> string \<Rightarrow> ('e, goerr + backtestresults) op" where
  "parseResultFile A G path strategyName = do {
     r \<leftarrow> readResultBytes A path;
     State_Monad.return (case r of
         Inl e \<Rightarrow> Inl e
       | Inr raw \<Rightarrow>
          (case (case json_Unmarshal G raw of Inl e \<Rightarrow> Inl e | Inr j \<Rightarrow> dec_strategies G j) of
             Inl e \<Rightarrow> Inl (Wrap (''parsing '' @ path @ '': '') e)
           | Inr strategies \<Rightarrow>
              (case map_of strategies strategyName of
                 None \<Rightarrow> Inl (ErrString (path @ '' has no results for strategy '' @ Quote strategyName))
               | Some stats \<Rightarrow> Inr (stats_results G path stats)))) }"

section \<open>Copy and extraction\<close>

definition copyResultFileToPVC :: "'e api \<Rightarrow> golib \<Rightarrow> cropts \<Rightarrow> ('e, unit) op" where
  "copyResultFileToPVC A G opts = do {
     f \<leftarrow> latestResultFile A G (cr_ResultsDir opts);
     case f of
       Inl e \<Rightarrow> State_Monad.return ()
     | Inr resultFile \<Rightarrow> do {
         r \<leftarrow> do_ReadFile A resultFile;
         case r of
           Inl e \<Rightarrow> State_Monad.return ()
         | Inr raw \<Rightarrow> do {
             w \<leftarrow> do_WriteFile A (path_Join (cr_ResultsPVCDir opts) (Base resultFile)) raw;
             State_Monad.return () } } }"

text \<open>\<open>json.Marshal\<close> of a \<open>BacktestResults\<close>: its fields in order, those that are zero left out.\<close>

definition results_members :: "backtestresults \<Rightarrow> (string \<times> json option) list" where
  "results_members r =
    (let str = (\<lambda>s. if s = [] then None else Some (JStr s)) in
     [(''totalTrades'', if br_TotalTrades r = 0 then None else Some (JInt (br_TotalTrades r))),
      (''profitAbs'', str (br_ProfitAbs r)), (''profitPct'', str (br_ProfitPct r)), (''winRatePct'', str (br_WinRatePct r)),
      (''maxDrawdownPct'', str (br_MaxDrawdownPct r)), (''sharpeRatio'', str (br_SharpeRatio r)),
      (''sortinoRatio'', str (br_SortinoRatio r)), (''cagrPct'', str (br_CAGRPct r)), (''bestPair'', str (br_BestPair r)),
      (''worstPair'', str (br_WorstPair r)), (''resultFile'', str (br_ResultFile r))])"

definition present :: "(string \<times> json option) list \<Rightarrow> (string \<times> json) list" where
  "present ms = List.map_filter (\<lambda>(k, v). map_option (Pair k) v) ms"

definition enc_results :: "backtestresults \<Rightarrow> json" where
  "enc_results r = JObj (present (results_members r))"

definition extract_results :: "'e api \<Rightarrow> golib \<Rightarrow> cropts \<Rightarrow> ('e, smap) op" where
  "extract_results A G opts = do {
     f \<leftarrow> latestResultFile A G (cr_ResultsDir opts);
     case f of
       Inl e \<Rightarrow> State_Monad.return [(''error'', err_Error e)]
     | Inr resultFile \<Rightarrow> do {
         p \<leftarrow> parseResultFile A G resultFile (cr_StrategyName opts);
         State_Monad.return (case p of
             Inl e \<Rightarrow> [(''error'', err_Error e)]
           | Inr results \<Rightarrow> (case json_Marshal G (enc_results results) of
               Inl e \<Rightarrow> [(''error'', err_Error e)]
             | Inr s \<Rightarrow> [(''results.json'', s)])) } }"

section \<open>Waiting\<close>

definition cr_pollInterval :: duration where "cr_pollInterval = 2 * Second"
definition maxWait :: duration where "maxWait = 24 * 60 * Minute"

definition mainContainerExited :: "'e api \<Rightarrow> cropts \<Rightarrow> ('e, goerr + bool) op" where
  "mainContainerExited A opts =
    (let key = \<lparr>nn_Namespace = cr_Namespace opts, nn_Name = cr_PodName opts\<rparr> in do {
       g \<leftarrow> do_GetPod A key;
       State_Monad.return (case g of
           Inl e \<Rightarrow> Inl (Wrap (''failed to get own Pod '' @ nn_Namespace key @ ''/'' @ nn_Name key @ '': '') e)
         | Inr p \<Rightarrow> Inr (list_ex (\<lambda>(n, terminated). n = cr_MainContainerName opts \<and> terminated) (pod_ContainerTerminated p))) })"

text \<open>The loop. \<open>armed\<close> says that the signal has not been consumed yet (afterwards its channel is nil and never selected);
  the result is None when the fuel runs out, otherwise the error the code returns, if any.\<close>

fun wait_loop :: "'e api \<Rightarrow> cropts \<Rightarrow> gotime \<Rightarrow> bool \<Rightarrow> nat \<Rightarrow> ('e, goerr option option) op" where
  "wait_loop A opts deadline armed 0 = State_Monad.return None"
| "wait_loop A opts deadline armed (Suc n) = do {
     x \<leftarrow> mainContainerExited A opts;
     case x of
       Inl e \<Rightarrow> State_Monad.return (Some (Some e))
     | Inr exited \<Rightarrow>
         if exited then State_Monad.return (Some None)
         else do {
           now \<leftarrow> do_Now A;
           if now > deadline
           then State_Monad.return (Some (Some (ErrString (''timed out after '' @ duration_String maxWait
             @ '' waiting for container '' @ Quote (cr_MainContainerName opts) @ '' to exit''))))
           else do {
             signalled \<leftarrow> do_WaitSignal A armed cr_pollInterval;
             if armed \<and> signalled
             then do {
               y \<leftarrow> mainContainerExited A opts;
               case y of
                 Inl e \<Rightarrow> State_Monad.return (Some (Some e))
               | Inr exited \<Rightarrow> if exited then State_Monad.return (Some None) else wait_loop A opts deadline False n }
             else wait_loop A opts deadline armed n } } }"

definition waitForMainContainerExit :: "nat \<Rightarrow> 'e api \<Rightarrow> cropts \<Rightarrow> ('e, goerr option option) op" where
  "waitForMainContainerExit fuel A opts = do {
     now \<leftarrow> do_Now A;
     wait_loop A opts (now + maxWait) True fuel }"

section \<open>Run\<close>

text \<open>\<open>in_cluster\<close> and \<open>new_client\<close> are the errors of building the client.\<close>

definition collect_Run ::
  "nat \<Rightarrow> 'e api \<Rightarrow> golib \<Rightarrow> goerr option \<Rightarrow> goerr option \<Rightarrow> cropts \<Rightarrow> ('e, goerr option option) op" where
  "collect_Run fuel A G in_cluster new_client opts =
    (case in_cluster of
       Some e \<Rightarrow> State_Monad.return (Some (Some (Wrap ''failed to build in-cluster config: '' e)))
     | None \<Rightarrow>
        (case new_client of
           Some e \<Rightarrow> State_Monad.return (Some (Some (Wrap ''failed to build Kubernetes client: '' e)))
         | None \<Rightarrow> do {
             w \<leftarrow> waitForMainContainerExit fuel A opts;
             case w of
               None \<Rightarrow> State_Monad.return None
             | Some (Some e) \<Rightarrow> State_Monad.return (Some (Some e))
             | Some None \<Rightarrow> do {
                 _ \<leftarrow> copyResultFileToPVC A G opts;
                 data \<leftarrow> extract_results A G opts;
                 c \<leftarrow> do_CreateConfigMap A \<lparr>cm_meta = mk_meta (cr_BacktestName opts @ ''-results'') (cr_Namespace opts),
                   cm_Data = data\<rparr>;
                 State_Monad.return (Some (map_option (Wrap ''failed to create results ConfigMap: '') c)) } }))"

text \<open>The entry point, after the flags have been parsed.\<close>

definition runCollectResults ::
  "nat \<Rightarrow> 'e api \<Rightarrow> golib \<Rightarrow> goerr option \<Rightarrow> goerr option \<Rightarrow> cropts \<Rightarrow> ('e, goerr option option) op" where
  "runCollectResults fuel A G in_cluster new_client opts =
    (if cr_BacktestName opts = [] \<or> cr_StrategyName opts = []
     then State_Monad.return (Some (Some (ErrString ''--backtest-name and --strategy-name are both required'')))
     else collect_Run fuel A G in_cluster new_client opts)"

section \<open>Termination of the wait\<close>

text \<open>What the loop relies on of time: \<open>clock\<close> is what \<open>time.Now\<close> answers, no call turns it back, and a
  wait that is not cut short by the signal lasts its whole interval.\<close>

definition ticking :: "'e api \<Rightarrow> ('e \<Rightarrow> int) \<Rightarrow> bool" where
  "ticking A clock \<longleftrightarrow>
     (\<forall>x. fst (api_Now A x) = clock x \<and> clock x \<le> clock (snd (api_Now A x)))
     \<and> (\<forall>k x. clock x \<le> clock (snd (api_GetPod A k x)))
     \<and> (\<forall>armed d x. 0 \<le> d \<longrightarrow> clock x \<le> clock (snd (api_WaitSignal A armed d x))
          \<and> (\<not> (armed \<and> fst (api_WaitSignal A armed d x)) \<longrightarrow> clock x + d \<le> clock (snd (api_WaitSignal A armed d x))))"

lemma mainContainerExited_clock:
  "ticking A clock \<Longrightarrow> clock (env w) \<le> clock (env (final (mainContainerExited A opts) w))"
  by (simp add: mainContainerExited_def Let_def call_defs ticking_def)

definition enough_fuel :: "bool \<Rightarrow> nat \<Rightarrow> int \<Rightarrow> bool" where
  "enough_fuel armed n left \<longleftrightarrow> n \<ge> 1 \<and> left < (int n - 1 - (if armed then 1 else 0)) * cr_pollInterval"

lemma cr_pollInterval_pos: "0 < cr_pollInterval"
  by (simp add: cr_pollInterval_def Second_def)

lemma enough_fuel_step:
  assumes "enough_fuel armed (Suc n) left" "0 \<le> left"
  shows "enough_fuel armed n (left - cr_pollInterval)" "armed \<Longrightarrow> enough_fuel False n left"
proof -
  have n: "n \<ge> 1"
    using assms cr_pollInterval_pos by (cases n) (auto simp: enough_fuel_def split: if_splits)
  then show "enough_fuel armed n (left - cr_pollInterval)" "armed \<Longrightarrow> enough_fuel False n left"
    using assms by (auto simp: enough_fuel_def algebra_simps)
qed

lemma enough_fuel_mono: "\<lbrakk>enough_fuel armed n left; left' \<le> left\<rbrakk> \<Longrightarrow> enough_fuel armed n left'"
  by (simp add: enough_fuel_def)

lemma wait_loop_returns:
  assumes tick: "ticking A clock" and fuel: "enough_fuel armed n (deadline - clock (env w))"
  shows "result (wait_loop A opts deadline armed n) w \<noteq> None"
  using fuel
proof (induction n arbitrary: armed w)
  case 0
  then show ?case by (simp add: enough_fuel_def)
next
  case (Suc n)
  define w1 where "w1 = final (mainContainerExited A opts) w"
  define w2 where "w2 = final (do_Now A) w1"
  define w3 where "w3 = final (do_WaitSignal A armed cr_pollInterval) w2"
  define now where "now = result (do_Now A) w1"
  have c1: "clock (env w) \<le> clock (env w1)" using mainContainerExited_clock [OF tick] by (simp add: w1_def)
  have c2: "clock (env w1) \<le> clock (env w2)" "clock (env w1) \<le> now"
    using tick by (simp_all add: w2_def now_def do_Now_def ticking_def)
  have c3: "clock (env w2) \<le> clock (env w3)"
      "\<not> (armed \<and> result (do_WaitSignal A armed cr_pollInterval) w2) \<Longrightarrow> clock (env w2) + cr_pollInterval \<le> clock (env w3)"
    using tick cr_pollInterval_pos by (simp_all add: w3_def do_WaitSignal_def ticking_def)
  have left: "0 \<le> deadline - clock (env w)" if "\<not> now > deadline" using that c1 c2 by simp
  have sleep: "result (wait_loop A opts deadline armed n) w3 \<noteq> None"
    if "\<not> now > deadline" "\<not> (armed \<and> result (do_WaitSignal A armed cr_pollInterval) w2)"
    by (rule Suc.IH, rule enough_fuel_mono [OF enough_fuel_step(1) [OF Suc.prems left [OF that(1)]]])
       (use c1 c2 c3(2) [OF that(2)] in simp)
  have early: "result (wait_loop A opts deadline False n) (final (mainContainerExited A opts) w3) \<noteq> None"
    if "\<not> now > deadline" armed
    by (rule Suc.IH, rule enough_fuel_mono [OF enough_fuel_step(2) [OF Suc.prems left [OF that(1)] that(2)]])
       (use c1 c2 c3(1) mainContainerExited_clock [OF tick, of w3 opts] in simp)
  show ?case
    using sleep early
    by (auto simp: w1_def [symmetric] w2_def [symmetric] w3_def [symmetric] now_def [symmetric] split: sum.split)
qed

text \<open>43203 rounds cover the 24 hours: one per interval, one for the signal and two at the ends.\<close>

lemma wait_returns:
  assumes "ticking A clock" "fuel \<ge> 43203"
  shows "result (waitForMainContainerExit fuel A opts) w \<noteq> None"
proof -
  have "result (do_Now A) w \<le> clock (env (final (do_Now A) w))"
    using assms(1) by (simp add: do_Now_def ticking_def)
  then have "enough_fuel True fuel (result (do_Now A) w + maxWait - clock (env (final (do_Now A) w)))"
    using assms(2) by (simp add: enough_fuel_def maxWait_def cr_pollInterval_def Minute_def Second_def)
  from wait_loop_returns [OF assms(1) this] show ?thesis
    by (simp add: waitForMainContainerExit_def)
qed

section \<open>Integers in text\<close>

lemma parse_digits_append: "parse_digits (xs @ ys) n = Option.bind (parse_digits xs n) (parse_digits ys)"
  by (induction xs arbitrary: n) auto

lemma parse_digit: "d < 10 \<Longrightarrow> parse_digits [digit_char d] n = Some (10 * n + d)"
  by (simp add: digit_char_def of_char_of)

lemma parse_nat_digits: "parse_digits (nat_digits n) 0 = Some n"
proof (induction n rule: nat_digits.induct)
  case (1 n)
  show ?case
  proof (cases "n < 10")
    case True
    then show ?thesis by (subst nat_digits.simps) (simp add: parse_digit del: parse_digits.simps)
  next
    case False
    with 1 have "parse_digits (nat_digits (n div 10)) 0 = Some (n div 10)" by simp
    moreover have "n mod 10 < 10" by simp
    ultimately show ?thesis
      using False by (subst nat_digits.simps) (simp add: parse_digits_append parse_digit del: parse_digits.simps)
  qed
qed

lemma nat_digits_no_sign: "nat_digits n = CHR ''-'' # r \<Longrightarrow> False"
  using parse_nat_digits [of n] by simp

lemma parse_int_Itoa: "\<lbrakk>- (2 ^ 63) \<le> i; i < 2 ^ 63\<rbrakk> \<Longrightarrow> parse_int (Itoa i) = Some i"
proof (cases "i < 0")
  case True
  assume "- (2 ^ 63) \<le> i" "i < 2 ^ 63"
  with True show ?thesis by (simp add: Itoa_def parse_int_def parse_nat_digits)
next
  case False
  assume "- (2 ^ 63) \<le> i" "i < 2 ^ 63"
  moreover have "(case nat_digits (nat i) of CHR ''-'' # r \<Rightarrow> (-1, r) | _ \<Rightarrow> (1 :: int, nat_digits (nat i))) = (1, nat_digits (nat i))"
    using nat_digits_no_sign [of "nat i"] by (auto split: list.split char.split bool.split)
  ultimately show ?thesis using False by (simp add: Itoa_def parse_int_def parse_nat_digits)
qed

section \<open>Round trip of the results\<close>

text \<open>How a tree reads back from its text: an integer is its literal, the rest is itself.\<close>

fun as_read :: "json \<Rightarrow> json" where
  "as_read (JInt i) = JNum (Itoa i)"
| "as_read (JList js) = JList (map as_read js)"
| "as_read (JObj ms) = JObj (map (\<lambda>(k, v). (k, as_read v)) ms)"
| "as_read JNull = JNull"
| "as_read (JBool b) = JBool b"
| "as_read (JFloat f) = JFloat f"
| "as_read (JNum s) = JNum s"
| "as_read (JStr s) = JStr s"

lemma as_read_null [simp]: "as_read j = JNull \<longleftrightarrow> j = JNull"
  by (cases j) auto

abbreviation lowered :: "string \<Rightarrow> string" where
  "lowered \<equiv> map lower_char"

text \<open>Reading a field of an object whose member names differ, also when case is ignored.\<close>

lemma find_key:
  assumes "distinct (map (lowered \<circ> fst) xs)" "(k, v) \<in> set xs" "v \<noteq> JNull"
  shows "find (\<lambda>(k', v). lowered k' = lowered k \<and> v \<noteq> JNull) xs = Some (k, v)"
  using assms by (induction xs) (force simp: image_iff)+

lemma field_of_member:
  assumes "distinct (map (lowered \<circ> fst) ms)" "(k, v) \<in> set ms" "v \<noteq> JNull"
  shows "field_of k (JObj ms) = Some v"
  using find_key [of "rev ms" k v] assms by (simp add: field_of_def rev_map [symmetric])

lemma field_of_missing:
  assumes "\<forall>(k', v) \<in> set ms. lowered k' \<noteq> lowered k"
  shows "field_of k (JObj ms) = None"
  using assms by (auto simp: field_of_def find_None_iff)

lemma present_iff: "(k, j) \<in> set (present ms) \<longleftrightarrow> (k, Some j) \<in> set ms"
  by (force simp: present_def map_filter_def)

lemma present_Cons: "present ((k, v) # ms) = (case v of None \<Rightarrow> present ms | Some j \<Rightarrow> (k, j) # present ms)"
  by (simp add: present_def List.map_filter_simps split: option.split)

lemma present_distinct: "distinct (map (lowered \<circ> fst) ms) \<Longrightarrow> distinct (map (lowered \<circ> fst) (present ms))"
proof (induction ms)
  case (Cons m ms)
  obtain k v where m: "m = (k, v)" by (cases m)
  have "(k', j) \<in> set (present ms) \<Longrightarrow> lowered k' \<in> (lowered \<circ> fst) ` set ms" for k' j
    by (force simp: present_iff image_iff)
  with Cons m show ?case by (auto simp: present_Cons image_iff split: option.split) blast
qed (simp add: present_def List.map_filter_simps)

lemma field_of_present:
  assumes d: "distinct (map (lowered \<circ> fst) ms)" and kv: "(k, v) \<in> set ms" and nn: "v \<noteq> Some JNull"
  shows "field_of k (as_read (JObj (present ms))) = map_option as_read v"
proof (cases v)
  case (Some j)
  let ?xs = "map (\<lambda>(k, v). (k, as_read v)) (present ms)"
  have "distinct (map (lowered \<circ> fst) ?xs)"
    using present_distinct [OF d] by (simp add: comp_def split_beta)
  moreover have "(k, as_read j) \<in> set ?xs"
    using kv Some present_iff by force
  ultimately show ?thesis using field_of_member [of ?xs k "as_read j"] Some nn by simp
next
  case None
  have "lowered k' \<noteq> lowered k" if "(k', j) \<in> set (present ms)" for k' j
  proof -
    have "(k', Some j) \<in> set ms" using that by (simp add: present_iff)
    with kv None d show ?thesis
      by (metis (no_types, lifting) comp_apply distinct_map fst_conv inj_onD option.distinct(1) prod.inject)
  qed
  then show ?thesis using None by (auto intro!: field_of_missing)
qed

lemma keys_distinct: "distinct (map lowered [''totalTrades'', ''profitAbs'', ''profitPct'', ''winRatePct'', ''maxDrawdownPct'',
    ''sharpeRatio'', ''sortinoRatio'', ''cagrPct'', ''bestPair'', ''worstPair'', ''resultFile''])"
  by code_simp

lemma members_distinct: "distinct (map (lowered \<circ> fst) (results_members r))"
proof -
  have "map fst (results_members r) = [''totalTrades'', ''profitAbs'', ''profitPct'', ''winRatePct'', ''maxDrawdownPct'',
      ''sharpeRatio'', ''sortinoRatio'', ''cagrPct'', ''bestPair'', ''worstPair'', ''resultFile'']"
    by (simp only: results_members_def Let_def list.map fst_conv)
  then show ?thesis using keys_distinct unfolding map_map [symmetric] by (simp only:)
qed

lemma members_not_null:
  assumes "(k, v) \<in> set (results_members r)"
  shows "v \<noteq> Some JNull"
proof -
  have "list_all (\<lambda>m. snd m \<noteq> Some JNull) (results_members r)"
    by (simp add: results_members_def Let_def)
  with assms show ?thesis by (auto simp: list_all_iff)
qed

lemma dec_string_present:
  assumes "(k, if s = [] then None else Some (JStr s)) \<in> set (results_members r)"
  shows "dec_string k (as_read (enc_results r)) = Inr s"
  unfolding dec_string_def enc_results_def field_of_present [OF members_distinct assms members_not_null [OF assms]]
  by simp

lemma dec_int_present:
  assumes "- (2 ^ 63) \<le> br_TotalTrades r" "br_TotalTrades r < 2 ^ 63"
  shows "dec_int ''totalTrades'' (as_read (enc_results r)) = Inr (br_TotalTrades r)"
proof -
  have m: "(''totalTrades'', if br_TotalTrades r = 0 then None else Some (JInt (br_TotalTrades r))) \<in> set (results_members r)"
    by (simp add: results_members_def Let_def)
  show ?thesis
    unfolding dec_int_def enc_results_def field_of_present [OF members_distinct m members_not_null [OF m]]
    using parse_int_Itoa [OF assms] by simp
qed

lemma results_decode:
  assumes "- (2 ^ 63) \<le> br_TotalTrades r" "br_TotalTrades r < 2 ^ 63"
  shows "dec_results (as_read (enc_results r)) = Inr r"
proof -
  have s: "is_struct (as_read (enc_results r))" by (simp add: enc_results_def is_struct_def)
  show ?thesis
    unfolding dec_results_def dec_int_present [OF assms]
    by (simp add: s, subst dec_string_present [of _ "br_ProfitAbs r"], simp add: results_members_def Let_def)
       (simp_all add: dec_string_present results_members_def Let_def)
qed

text \<open>The number of trades comes from a 64-bit field.\<close>

lemma parse_int_range: "parse_int s = Some i \<Longrightarrow> - (2 ^ 63) \<le> i \<and> i < 2 ^ 63"
  unfolding parse_int_def by (auto simp: Let_def split_beta split: option.splits if_splits)

lemma dec_int_range: "dec_int f j = Inr i \<Longrightarrow> - (2 ^ 63) \<le> i \<and> i < 2 ^ 63"
  using parse_int_range unfolding dec_int_def by (auto split: option.splits json.splits)

lemma dec_stats_range:
  assumes "dec_stats G j = Inr st"
  shows "- (2 ^ 63) \<le> ks_TotalTrades st \<and> ks_TotalTrades st < 2 ^ 63"
proof -
  have "dec_int ''total_trades'' j = Inr (ks_TotalTrades st)"
    using assms unfolding dec_stats_def by (auto split: if_splits sum.splits)
  then show ?thesis by (rule dec_int_range)
qed

lemma dec_strategies_range:
  assumes "dec_strategies G j = Inr ss" "map_of ss n = Some st"
  shows "- (2 ^ 63) \<le> ks_TotalTrades st \<and> ks_TotalTrades st < 2 ^ 63"
proof -
  from map_of_SomeD [OF assms(2)] assms(1) obtain v where "st = projr (dec_stats G v)" "\<not> isl (dec_stats G v)"
    unfolding dec_strategies_def by (auto simp: list_all_iff split: if_splits option.splits json.splits) fastforce
  then have "dec_stats G v = Inr st" by (cases "dec_stats G v") auto
  then show ?thesis by (rule dec_stats_range)
qed

lemma parse_range:
  "yields (parseResultFile A G f n) (\<lambda>x. \<forall>r. x = Inr r \<longrightarrow> - (2 ^ 63) \<le> br_TotalTrades r \<and> br_TotalTrades r < 2 ^ 63)"
  unfolding parseResultFile_def
  by (intro yields_intro) (auto simp: stats_results_def dest: dec_strategies_range split: sum.splits option.splits)

text \<open>What the sidecar collects, as a value: the results, or the error it reports instead.\<close>

definition collected :: "'e api \<Rightarrow> golib \<Rightarrow> cropts \<Rightarrow> ('e, event) world \<Rightarrow> goerr + backtestresults" where
  "collected A G opts w =
    (let find_file = latestResultFile A G (cr_ResultsDir opts) in
     case result find_file w of
       Inl e \<Rightarrow> Inl e
     | Inr f \<Rightarrow> (case result (parseResultFile A G f (cr_StrategyName opts)) (final find_file w) of
         Inl e \<Rightarrow> Inl e
       | Inr r \<Rightarrow> (case json_Marshal G (enc_results r) of Inl e \<Rightarrow> Inl e | Inr s \<Rightarrow> Inr r)))"

text \<open>Decoding an encoded object gives the object back, as long as its strings are ASCII: \<open>json.Marshal\<close> replaces bytes
  that are not valid UTF-8.\<close>

definition ascii :: "string \<Rightarrow> bool" where
  "ascii s \<longleftrightarrow> list_all (\<lambda>c. of_char c < (128 :: nat)) s"

definition ascii_results :: "backtestresults \<Rightarrow> bool" where
  "ascii_results r \<longleftrightarrow> list_all ascii [br_ProfitAbs r, br_ProfitPct r, br_WinRatePct r, br_MaxDrawdownPct r, br_SharpeRatio r,
     br_SortinoRatio r, br_CAGRPct r, br_BestPair r, br_WorstPair r, br_ResultFile r]"

definition json_faithful :: "golib \<Rightarrow> bool" where
  "json_faithful G \<longleftrightarrow> (\<forall>r s. ascii_results r \<and> json_Marshal G (enc_results r) = Inr s
     \<longrightarrow> json_Unmarshal G s = Inr (as_read (enc_results r)))"

lemma read_extracted:
  assumes "json_faithful G" "\<And>r. collected A G opts w = Inr r \<Longrightarrow> ascii_results r"
  shows "read_results G n gen (result (extract_results A G opts) w) = (case collected A G opts w of
       Inl e \<Rightarrow> (None, unavailableCondition (err_Error e) gen)
     | Inr r \<Rightarrow> (Some r, mk_cond_gen ConditionResultsAvailable ConditionTrue ReasonAsExpected [] gen))"
proof -
  let ?find = "latestResultFile A G (cr_ResultsDir opts)"
  show ?thesis
  proof (cases "result ?find w")
    case (Inl e)
    then show ?thesis by (simp add: extract_results_def collected_def read_results_def)
  next
    case (Inr f)
    let ?parse = "parseResultFile A G f (cr_StrategyName opts)"
    show ?thesis
    proof (cases "result ?parse (final ?find w)")
      case (Inl e)
      then show ?thesis using Inr by (simp add: extract_results_def collected_def read_results_def)
    next
      case res: (Inr r)
      have "dec_results (as_read (enc_results r)) = Inr r"
        using yieldsD [OF parse_range] res results_decode by metis
      then show ?thesis
        using Inr res assms
        by (cases "json_Marshal G (enc_results r)")
           (auto simp: extract_results_def collected_def read_results_def json_faithful_def)
    qed
  qed
qed

section \<open>Paths\<close>

definition good_part :: "string \<Rightarrow> bool" where
  "good_part p \<longleftrightarrow> p \<noteq> [] \<and> p \<noteq> ''.'' \<and> p \<noteq> ''..'' \<and> CHR ''/'' \<notin> set p"

lemma split_slash_parts: "p \<in> set (split_slash s) \<Longrightarrow> CHR ''/'' \<notin> set p"
  by (induction s arbitrary: p) (auto split: list.splits if_splits)

lemma clean_parts_good:
  "\<lbrakk>list_all good_part acc; \<forall>p \<in> set ps. CHR ''/'' \<notin> set p\<rbrakk> \<Longrightarrow> list_all good_part (clean_parts True acc ps)"
proof (induction True acc ps rule: clean_parts.induct)
  case (2 acc p ps)
  then show ?case by (cases acc) (auto simp: good_part_def)
qed (simp add: list_all_iff)

lemma clean_parts_id: "list_all good_part ps \<Longrightarrow> clean_parts r acc ps = rev acc @ ps"
  by (induction ps arbitrary: acc) (auto simp: good_part_def)

lemma clean_parts_append: "list_all good_part ps \<Longrightarrow> clean_parts r acc (ps @ qs) = clean_parts r (rev ps @ acc) qs"
  by (induction ps arbitrary: acc) (auto simp: good_part_def)

lemma split_slash_not_Nil [simp]: "split_slash s \<noteq> []"
  by (induction s) (auto split: list.split)

lemma split_slash_part: "CHR ''/'' \<notin> set p \<Longrightarrow> split_slash p = [p]"
  by (induction p) auto

lemma split_slash_append: "CHR ''/'' \<notin> set p \<Longrightarrow> split_slash (p @ CHR ''/'' # s) = p # split_slash s"
  by (induction p) auto

text \<open>A rooted directory in clean form, and its parts.\<close>

definition rooted_path :: "string list \<Rightarrow> string" where
  "rooted_path ps = ''/'' @ Join ps ''/''"

lemma Join_split: "\<lbrakk>ps \<noteq> []; list_all good_part ps\<rbrakk> \<Longrightarrow> split_slash (Join ps ''/'') = ps"
  by (induction ps "''/''" rule: Join.induct) (auto simp: good_part_def split_slash_part split_slash_append)

lemma Join_split_append:
  "\<lbrakk>ps \<noteq> []; list_all good_part ps\<rbrakk> \<Longrightarrow> split_slash (Join ps ''/'' @ CHR ''/'' # s) = ps @ split_slash s"
  by (induction ps "''/''" rule: Join.induct) (auto simp: good_part_def split_slash_append)

lemma Join_snoc: "Join (ps @ [p]) sep = (if ps = [] then p else Join ps sep @ sep @ p)"
  by (induction ps sep rule: Join.induct) auto

lemma Clean_rooted: "\<exists>ps. list_all good_part ps \<and> Clean (CHR ''/'' # s) = rooted_path ps"
  using clean_parts_good [of "[]" "split_slash (CHR ''/'' # s)"] split_slash_parts
  by (fastforce simp: Clean_def rooted_path_def Let_def)

lemma Base_snoc: "good_part p \<Longrightarrow> Base (xs @ CHR ''/'' # p) = p"
proof (cases p rule: rev_exhaust)
  case (snoc q c)
  assume "good_part p"
  with snoc have "c \<noteq> CHR ''/''" "\<forall>x \<in> set (rev q). x \<noteq> CHR ''/''" by (auto simp: good_part_def)
  then have "takeWhile (\<lambda>x. x \<noteq> CHR ''/'') (rev q @ CHR ''/'' # rev xs) = rev q"
    by (subst takeWhile_append2) auto
  with \<open>c \<noteq> CHR ''/''\<close> show ?thesis by (simp add: snoc Base_def Let_def)
qed (simp add: good_part_def)

lemma Base_rooted: "list_all good_part ps \<Longrightarrow> Base (rooted_path ps) = ''/'' \<or> good_part (Base (rooted_path ps))"
proof (cases ps rule: rev_exhaust)
  case (snoc qs q)
  assume "list_all good_part ps"
  then have "good_part q" using snoc by simp
  moreover have "rooted_path ps = (if qs = [] then [] else rooted_path qs) @ CHR ''/'' # q"
    using snoc by (simp add: rooted_path_def Join_snoc)
  ultimately show ?thesis using Base_snoc by metis
qed (simp add: rooted_path_def Base_def)

text \<open>Joining a directory and one name stays in the directory.\<close>

lemma path_Join_name:
  assumes ds: "list_all good_part ds" and n: "name = ''/'' \<or> good_part name"
  shows "path_Join (rooted_path ds) name = (if good_part name then rooted_path (ds @ [name]) else rooted_path ds)"
proof -
  have parts: "clean_parts True [] (split_slash (rooted_path ds @ ''/'' @ name)) = (if good_part name then ds @ [name] else ds)"
  proof (cases "good_part name")
    case True
    then have "split_slash name = [name]" by (simp add: split_slash_part good_part_def)
    with True ds show ?thesis
      by (cases "ds = []") (auto simp: rooted_path_def Join_split_append clean_parts_append good_part_def clean_parts_id)
  next
    case False
    with n ds show ?thesis
      by (cases "ds = []") (auto simp: rooted_path_def Join_split_append clean_parts_append)
  qed
  then show ?thesis
    by (simp add: path_Join_def Clean_def rooted_path_def)
qed

lemma latest_rooted:
  assumes "cr_ResultsDir opts = CHR ''/'' # s"
  shows "yields (latestResultFile A G (cr_ResultsDir opts)) (\<lambda>r. \<forall>f. r = Inr f \<longrightarrow> (\<exists>ps. list_all good_part ps \<and> f = rooted_path ps))"
  unfolding latestResultFile_def assms Let_def
  by (intro yields_intro) (use Clean_rooted in \<open>fastforce simp: path_Join_def split: sum.splits if_splits\<close>)

text \<open>The raw copy goes to the results directory, under a name of its own.\<close>

definition inside :: "string list \<Rightarrow> event \<Rightarrow> bool" where
  "inside ds e \<longleftrightarrow> (\<forall>p c r. e = WriteFile p c r \<longrightarrow> p = rooted_path ds \<or> (\<exists>name. good_part name \<and> p = rooted_path (ds @ [name])))"

lemma copy_inside:
  assumes "cr_ResultsDir opts = CHR ''/'' # s" "cr_ResultsPVCDir opts = rooted_path ds" "list_all good_part ds"
  shows "only (inside ds) (copyResultFileToPVC A G opts)"
proof -
  have o: "only (inside ds) (latestResultFile A G (cr_ResultsDir opts))"
    unfolding latestResultFile_def Let_def do_ReadFile_def by (intro only_intro) (simp add: inside_def)
  have rd: "inside ds (ReadFile f x)" for f x by (simp add: inside_def)
  have w: "inside ds (WriteFile (path_Join (rooted_path ds) (Base (rooted_path ps))) c r)" if "list_all good_part ps" for ps c r
    using path_Join_name [OF assms(3) Base_rooted [OF that]] by (auto simp: inside_def)
  show ?thesis
    unfolding copyResultFileToPVC_def
    by (rule only_bind_result [OF o latest_rooted [OF assms(1)]])
       (auto simp: assms(2) call_defs rd intro!: only_intro w)
qed

section \<open>The ConfigMap is created, never updated\<close>

lemma only_wait_loop: "(\<And>k x. P (GetPod k x)) \<Longrightarrow> only P (wait_loop A opts d armed n)"
  by (induction n arbitrary: armed) (auto simp: mainContainerExited_def Let_def call_defs intro!: only_intro)

definition collector_event :: "string list \<Rightarrow> event \<Rightarrow> bool" where
  "collector_event ds e \<longleftrightarrow> inside ds e \<and> (\<forall>c r. e \<noteq> UpdateConfigMap c r)"

lemma collector_event_simps [simp]:
  "collector_event ds (ReadFile p x)" "collector_event ds (GetPod k q)" "collector_event ds (OpenZip p z)"
  "collector_event ds (CreateConfigMap cm y)" "collector_event ds (WriteFile p c r) = inside ds (WriteFile p c r)"
  by (simp_all add: collector_event_def inside_def)

lemma only_latestResultFile: "(\<And>p x. P (ReadFile p x)) \<Longrightarrow> only P (latestResultFile A G d)"
  unfolding latestResultFile_def Let_def do_ReadFile_def by (intro only_intro)

lemma only_extract_results: "\<lbrakk>\<And>p x. P (ReadFile p x); \<And>p z. P (OpenZip p z)\<rbrakk> \<Longrightarrow> only P (extract_results A G opts)"
  unfolding extract_results_def parseResultFile_def readResultBytes_def do_ReadFile_def do_OpenZip_def
  by (intro only_intro only_latestResultFile)

lemma copy_never_updates: "only (\<lambda>e. \<forall>c r. e \<noteq> UpdateConfigMap c r) (copyResultFileToPVC A G opts)"
  unfolding copyResultFileToPVC_def do_ReadFile_def do_WriteFile_def by (intro only_intro only_latestResultFile) simp_all

text \<open>Whatever the pointer file says, the collector writes files only into the results volume, and it never updates a
  ConfigMap.\<close>

lemma Run_events:
  assumes "cr_ResultsDir opts = CHR ''/'' # s" "cr_ResultsPVCDir opts = rooted_path ds" "list_all good_part ds"
  shows "only (collector_event ds) (collect_Run fuel A G ic nc opts)"
proof -
  have "only (collector_event ds) (copyResultFileToPVC A G opts)"
    using copy_inside [OF assms, of A G] copy_never_updates [of A G opts] unfolding only_def collector_event_def
    by (rule emits_conseq [OF emits_conj]) (simp_all add: list_all_iff)
  then show ?thesis
    unfolding collect_Run_def waitForMainContainerExit_def do_Now_def do_CreateConfigMap_def
    by (intro only_intro only_wait_loop only_extract_results) simp_all
qed

lemma Run_existing:
  assumes "\<And>c x. \<exists>e. fst (api_CreateConfigMap A c x) = Some e \<and> IsAlreadyExists e"
  shows "yields (collect_Run fuel A G ic nc opts) (\<lambda>r. \<forall>e. r = Some e \<longrightarrow> e \<noteq> None)"
proof -
  have c: "yields (do_CreateConfigMap A cm) (\<lambda>r. r \<noteq> None)" for cm
    unfolding do_CreateConfigMap_def by (rule yields_call_range) (use assms in \<open>metis option.distinct(1)\<close>)
  show ?thesis
    unfolding collect_Run_def
    by (intro yields_intro yields_bind_result [OF c]) auto
qed

section \<open>The run ends\<close>

lemma runCollectResults_returns:
  assumes "ticking A clock" "fuel \<ge> 43203"
  shows "result (runCollectResults fuel A G ic nc opts) w \<noteq> None"
proof -
  have "result (collect_Run fuel A G None None opts) w \<noteq> None"
    using wait_returns [OF assms, of opts w]
    by (auto simp: collect_Run_def split: option.split)
  then show ?thesis
    by (auto simp: runCollectResults_def collect_Run_def split: option.split)
qed

end
