(* ===== verification/BacktestAdmission.thy ===== *)
theory BacktestAdmission
  imports Admission BacktestResources
begin

text \<open>The Backtest admission webhook (\<open>api/v1beta1/backtest_webhook.go\<close>): the two references must be named,
  and extra arguments need an annotation and may not set the flags of a denylist. The lemmas relate it to the command
  line \<open>buildArgs\<close> renders.\<close>

definition allowExtraArgsAnnotation :: string where
  "allowExtraArgsAnnotation = ''freqtrade.io/allow-extra-args''"

definition denylistedExtraArgs :: "string list" where
  "denylistedExtraArgs = [''--config'', ''--strategy'', ''--strategy-path'', ''--db-url'', ''--logfile'', ''--userdir'', ''--datadir'']"

definition bt_shellMetacharacters :: "char list" where
  "bt_shellMetacharacters = '';&|$`<>(){}'' @ [CHR 0x0A]"

text \<open>A flag, alone or joined with its value.\<close>

definition sets_flag :: "string \<Rightarrow> string \<Rightarrow> bool" where
  "sets_flag flag arg \<longleftrightarrow> arg = flag \<or> HasPrefix arg (flag @ ''='')"

fun check_extra_args :: "string list \<Rightarrow> goerr option" where
  "check_extra_args [] = None"
| "check_extra_args (arg # args) =
    (if ContainsAny arg bt_shellMetacharacters
     then Some (ErrString (''spec.extraArgs value '' @ Quote arg @ '' contains a disallowed shell metacharacter''))
     else (case find (\<lambda>denied. sets_flag denied arg) denylistedExtraArgs of
         Some denied \<Rightarrow> Some (ErrString (''spec.extraArgs may not set '' @ Quote denied @ '' - this operator manages it directly''))
       | None \<Rightarrow> check_extra_args args))"

definition validateExtraArgs :: "backtest \<Rightarrow> goerr option" where
  "validateExtraArgs b =
    (if run_ExtraArgs (bk_Spec b) = [] then None
     else if map_str (om_Annotations (bk_meta b)) allowExtraArgsAnnotation \<noteq> ''true''
     then Some (ErrString (''spec.extraArgs is set but the '' @ Quote allowExtraArgsAnnotation @ '' annotation is not ''
       @ Quote ''true'' @ '' - extraArgs is a deliberate escape hatch for flags the typed spec doesn'' @ [CHR 0x27]
       @ ''t cover yet, not a default-on surface''))
     else check_extra_args (run_ExtraArgs (bk_Spec b)))"

definition validateBacktestSpec :: "backtest \<Rightarrow> goerr option" where
  "validateBacktestSpec b =
    (if TrimSpace (run_ConfigRef (bk_Spec b)) = [] then Some (ErrString ''spec.configRef.name is required'')
     else if TrimSpace (run_StrategyRef (bk_Spec b)) = [] then Some (ErrString ''spec.strategyRef.name is required'')
     else validateExtraArgs b)"

definition Backtest_ValidateCreate :: "backtest \<Rightarrow> goerr option" where
  "Backtest_ValidateCreate b = validateBacktestSpec b"

definition Backtest_ValidateUpdate :: "backtest \<Rightarrow> backtest \<Rightarrow> goerr option" where
  "Backtest_ValidateUpdate old b = validateBacktestSpec b"

definition Backtest_ValidateDelete :: "backtest \<Rightarrow> goerr option" where
  "Backtest_ValidateDelete b = None"

section \<open>What admission guarantees\<close>

lemma check_extra_args_ok:
  "check_extra_args args = None \<longleftrightarrow>
     (\<forall>a \<in> set args. \<not> ContainsAny a bt_shellMetacharacters \<and> (\<forall>d \<in> set denylistedExtraArgs. \<not> sets_flag d a))"
  by (induction args) (auto simp: find_None_iff find_Some_iff split: option.split)

lemma admitted_iff:
  "Backtest_ValidateCreate b = None \<longleftrightarrow>
     TrimSpace (run_ConfigRef (bk_Spec b)) \<noteq> [] \<and> TrimSpace (run_StrategyRef (bk_Spec b)) \<noteq> []
     \<and> (run_ExtraArgs (bk_Spec b) = [] \<or> map_str (om_Annotations (bk_meta b)) allowExtraArgsAnnotation = ''true'')
     \<and> (\<forall>a \<in> set (run_ExtraArgs (bk_Spec b)). \<not> ContainsAny a bt_shellMetacharacters
         \<and> (\<forall>d \<in> set denylistedExtraArgs. \<not> sets_flag d a))"
  by (auto simp: Backtest_ValidateCreate_def validateBacktestSpec_def validateExtraArgs_def check_extra_args_ok)

lemma buildArgs_extra: "buildArgs G spec s c extra = buildArgs G spec s c [] @ extra"
  by (simp add: buildArgs_def)

text \<open>So the extra arguments of an admitted Backtest never touch a denylisted flag.\<close>

lemma admitted_flags:
  assumes "Backtest_ValidateCreate b = None" "d \<in> set denylistedExtraArgs"
  shows "filter (sets_flag d) (buildArgs G (bk_Spec b) s c (run_ExtraArgs (bk_Spec b)))
     = filter (sets_flag d) (buildArgs G (bk_Spec b) s c [])"
  using assms by (subst buildArgs_extra) (auto simp: admitted_iff filter_empty_conv)

text \<open>A flag outside the list is the user's, also when the operator renders it from a typed field.\<close>

lemma other_flag_admitted:
  assumes "TrimSpace (run_ConfigRef (bk_Spec b)) \<noteq> []" "TrimSpace (run_StrategyRef (bk_Spec b)) \<noteq> []"
    and "map_str (om_Annotations (bk_meta b)) allowExtraArgsAnnotation = ''true''"
    and "run_ExtraArgs (bk_Spec b) = [''--timerange=20200101-'']"
  shows "Backtest_ValidateCreate b = None"
proof -
  have "\<not> ContainsAny ''--timerange=20200101-'' bt_shellMetacharacters"
    by (simp add: ContainsAny_def bt_shellMetacharacters_def)
  moreover have "\<forall>d \<in> set denylistedExtraArgs. \<not> sets_flag d ''--timerange=20200101-''"
    by (simp add: denylistedExtraArgs_def sets_flag_def HasPrefix_def)
  ultimately show ?thesis using assms by (simp add: admitted_iff)
qed

section \<open>The main container of an admitted run\<close>

text \<open>What a user may add: arguments without a shell metacharacter that set none of the flags the operator sets.\<close>

definition operator_flags :: "string list" where
  "operator_flags = [''--config'', ''--strategy'', ''--strategy-path'', ''--db-url'', ''--logfile'', ''--userdir'', ''--datadir'']"

definition harmless_arg :: "string \<Rightarrow> bool" where
  "harmless_arg a \<longleftrightarrow> set a \<inter> (set '';&|$`<>(){}'' \<union> {CHR 0x0A}) = {}
     \<and> (\<forall>d \<in> set operator_flags. a \<noteq> d \<and> (\<nexists>v. a = d @ ''='' @ v))"

definition admissible :: "backtest \<Rightarrow> bool" where
  "admissible b \<longleftrightarrow> TrimSpace (run_ConfigRef (bk_Spec b)) \<noteq> [] \<and> TrimSpace (run_StrategyRef (bk_Spec b)) \<noteq> []
     \<and> (run_ExtraArgs (bk_Spec b) = [] \<or> map_str (om_Annotations (bk_meta b)) ''freqtrade.io/allow-extra-args'' = ''true'')
     \<and> list_all harmless_arg (run_ExtraArgs (bk_Spec b))"

lemma harmless_iff: "harmless_arg a \<longleftrightarrow> \<not> ContainsAny a bt_shellMetacharacters \<and> (\<forall>d \<in> set denylistedExtraArgs. \<not> sets_flag d a)"
proof -
  have "ContainsAny a bt_shellMetacharacters \<longleftrightarrow> set a \<inter> (set '';&|$`<>(){}'' \<union> {CHR 0x0A}) \<noteq> {}"
    by (auto simp: ContainsAny_def bt_shellMetacharacters_def list_ex_iff)
  moreover have "sets_flag d a \<longleftrightarrow> a = d \<or> (\<exists>v. a = d @ ''='' @ v)" for d
    by (auto simp: sets_flag_def HasPrefix_iff)
  moreover have "operator_flags = denylistedExtraArgs" by (simp add: operator_flags_def denylistedExtraArgs_def)
  ultimately show ?thesis by (simp add: harmless_arg_def)
qed

lemma admitted_admissible: "Backtest_ValidateCreate b = None \<longleftrightarrow> admissible b"
  by (simp add: admitted_iff admissible_def harmless_iff allowExtraArgsAnnotation_def list_all_iff)

text \<open>The arguments the operator puts first, and those a set field is rendered as.\<close>

definition operator_args :: "string \<Rightarrow> bool \<Rightarrow> string list" where
  "operator_args s cached = [''backtesting'', ''--config'', ''/config/config.json'', ''--strategy-path'', ''/strategy'', ''--strategy'', s,
     ''--userdir'', ''/freqtrade/user_data'', ''--logfile'', ''/freqtrade/user_data/logs/freqtrade.log'']
     @ (if cached then [''--datadir'', ''/cache''] else [])"

definition rendered_as :: "string \<Rightarrow> string \<Rightarrow> string list \<Rightarrow> bool" where
  "rendered_as flag v args \<longleftrightarrow> (v \<noteq> [] \<longrightarrow> (\<exists>us ws. args = us @ [flag, v] @ ws))"

lemma rendered_append: "rendered_as f v xs \<Longrightarrow> rendered_as f v (xs @ ys)" "rendered_as f v ys \<Longrightarrow> rendered_as f v (xs @ ys)"
  unfolding rendered_as_def by (metis append.assoc)+

lemma rendered_opt: "rendered_as f v (opt_flag f v)" "rendered_as f v (opt_flag f v @ ws)"
  by (force simp: rendered_as_def opt_flag_def)+

definition typed_rendered :: "backtestspec \<Rightarrow> string list \<Rightarrow> bool" where
  "typed_rendered spec args \<longleftrightarrow> rendered_as ''--timerange'' (run_Timerange spec) args \<and> rendered_as ''--timeframe'' (run_Timeframe spec) args
     \<and> rendered_as ''--timeframe-detail'' (bk_TimeframeDetail spec) args \<and> rendered_as ''--stake-amount'' (bk_StakeAmount spec) args
     \<and> rendered_as ''--cache'' (bk_Cache spec) args"

lemma buildArgs_parts: "\<exists>typed. buildArgs G spec s cached extra = operator_args s cached @ typed @ extra \<and> typed_rendered spec typed"
proof (intro exI conjI)
  let ?typed = "opt_flag ''--timerange'' (run_Timerange spec) @ opt_flag ''--timeframe'' (run_Timeframe spec)
     @ opt_flag ''--timeframe-detail'' (bk_TimeframeDetail spec) @ list_flag ''--pairs'' (run_Pairs spec)
     @ (case bk_MaxOpenTrades spec of None \<Rightarrow> [] | Some n \<Rightarrow> [''--max-open-trades'', Itoa n])
     @ opt_flag ''--stake-amount'' (bk_StakeAmount spec)
     @ (case bk_DryRunWallet spec of None \<Rightarrow> [] | Some q \<Rightarrow> [''--dry-run-wallet'', quantity_AsDec G q])
     @ (case bk_Fee spec of None \<Rightarrow> [] | Some f \<Rightarrow> [''--fee'', f])
     @ (if bk_EnableProtections spec = Some True then [''--enable-protections''] else [])
     @ list_flag ''--breakdown'' (bk_Breakdown spec) @ opt_flag ''--cache'' (bk_Cache spec)"
  show "buildArgs G spec s cached extra = operator_args s cached @ ?typed @ extra"
    by (simp add: buildArgs_def operator_args_def)
  show "typed_rendered spec ?typed"
    unfolding typed_rendered_def by (intro conjI; (rule rendered_opt(1) | rule rendered_opt(2) | rule rendered_append(2))+)
qed

definition runs_backtest :: "backtest \<Rightarrow> string \<Rightarrow> container \<Rightarrow> bool" where
  "runs_backtest b s c \<longleftrightarrow> ct_Command c = [''freqtrade''] \<and> ct_SecurityContext c = Some RestrictedSecurityContext
     \<and> (\<exists>typed. ct_Args c = operator_args s (has_cache (bk_Spec b)) @ typed @ run_ExtraArgs (bk_Spec b) \<and> typed_rendered (bk_Spec b) typed)"

lemma bt_pod_runs: "\<exists>c. ps_Containers (bt_BuildPod G b img op s cs sm) = [c] \<and> runs_backtest b s c"
proof -
  from bt_pod_core(5) [of G b img op s cs sm] obtain c where c: "ps_Containers (bt_BuildPod G b img op s cs sm) = [c]" by auto
  show ?thesis
    using bt_pod_core(4-6) [of G b img op s cs sm] buildArgs_parts [of G "bk_Spec b" s "has_cache (bk_Spec b)" "run_ExtraArgs (bk_Spec b)"]
    by (simp add: c runs_backtest_def)
qed

end
