(* ===== verification/BetaConfigTypes.thy ===== *)
theory BetaConfigTypes
  imports ConfigTypes
begin

text \<open>The sections of the v1beta1 TradeBotConfig (\<open>api/v1beta1/tradebotconfig_types.go\<close>) that repeat those of v1alpha1 as
  types of their own, and the field by field correspondence of the two. Each pair of maps is inverse; a JSON round trip
  between structs of equal tags is one of them. The sections that differ are in \<open>ConfigConversion\<close>.\<close>

section \<open>Types\<close>

record betabotconfig =
  bbc_BotName :: string
  bbc_TradingMode :: string
  bbc_DryRun :: "bool option"
  bbc_DryRunWallet :: "float64 option"
  bbc_StakeCurrency :: string
  bbc_StakeAmount :: string
  bbc_MaxOpenTrades :: "int option"
  bbc_FiatDisplayCurrency :: string
  bbc_DBUrl :: string
  bbc_Export :: string
  bbc_DisableParamExport :: "bool option"
  bbc_DisableDataframeChecks :: "bool option"

record betasvmparams =
  bsvm_Shuffle :: "bool option"
  bsvm_Nu :: "float64 option"

record betafeatureparameters =
  bfp_IncludeCorrPairlist :: "string list"
  bfp_IncludeTimeframes :: "string list"
  bfp_LabelPeriodCandles :: "int option"
  bfp_IncludeShiftedCandles :: "int option"
  bfp_DIThreshold :: "float64 option"
  bfp_WeightFactor :: "float64 option"
  bfp_PrincipalComponentAnalysis :: "bool option"
  bfp_IndicatorPeriodsCandles :: "int list"
  bfp_UseSVMToRemoveOutliers :: "bool option"
  bfp_PlotFeatureImportances :: "int option"
  bfp_SVMParams :: "betasvmparams option"
  bfp_ShuffleAfterSplit :: "bool option"
  bfp_BufferTrainDataCandles :: "int option"

record betadatasplitparameters =
  bdsp_TestSize :: "float64 option"
  bdsp_RandomState :: "int option"
  bdsp_Shuffle :: "bool option"

datatype betamodeltrainingparameters = BetaModelTrainingParameters

record betamodelrewardparameters =
  bmrp_RR :: "float64 option"
  bmrp_ProfitAim :: "float64 option"

record betarlconfig =
  brl_DropOHLCFromFeatures :: "bool option"
  brl_TrainCycles :: "int option"
  brl_MaxTradeDurationCandles :: "int option"
  brl_AddStateInfo :: "bool option"
  brl_MaxTrainingDrawdownPct :: "float64 option"
  brl_CPUCount :: "int option"
  brl_ModelType :: string
  brl_PolicyType :: string
  brl_NetArch :: "int list"
  brl_RandomizeStartingPosition :: "bool option"
  brl_ProgressBar :: "bool option"
  brl_ModelRewardParameters :: "betamodelrewardparameters option"

record betaaiconfig =
  bai_Enabled :: "bool option"
  bai_Identifier :: string
  bai_WriteMetricsToDisk :: "bool option"
  bai_PurgeOldModels :: "int option"
  bai_ConvWidth :: "int option"
  bai_TrainPeriodDays :: "int option"
  bai_BacktestPeriodDays :: "int option"
  bai_LiveRetrainHours :: "int option"
  bai_ExpirationHours :: "int option"
  bai_SaveBacktestModels :: "bool option"
  bai_FitLivePredictionsCandles :: "int option"
  bai_DataKitchenThreadCount :: "int option"
  bai_ActivateTensorboard :: "bool option"
  bai_WaitForTrainingIterationOnReload :: "bool option"
  bai_ContinueLearning :: "bool option"
  bai_Keras :: "bool option"
  bai_FeatureParameters :: "betafeatureparameters option"
  bai_DataSplitParameters :: "betadatasplitparameters option"
  bai_ModelTrainingParameters :: "betamodeltrainingparameters option"
  bai_RLConfig :: "betarlconfig option"

record betadataconfig =
  bdc_DataformatOHLCV :: string
  bdc_DataformatTrades :: string
  bdc_PositionAdjustment :: string
  bdc_NewPairsDaysAgo :: "int option"
  bdc_DownloadTrades :: "bool option"
  bdc_MaxEntryPositionAdjustment :: "float64 option"
  bdc_AvailableCapital :: "float64 option"
  bdc_AmendLastStakeAmount :: "bool option"
  bdc_LastStakeAmountMinRatio :: "float64 option"
  bdc_ProcessOnlyNewCandles :: "bool option"
  bdc_AmountReservePercent :: "float64 option"
  bdc_ReduceDfFootprint :: "bool option"
  bdc_CustomPriceMaxDistanceRatio :: "float64 option"

record betaadvancedconfig =
  badv_TradableBalanceRatio :: "float64 option"
  badv_CancelOpenOrdersOnExit :: "bool option"
  badv_MarginMode :: string
  badv_InitialState :: string
  badv_ForceEntryEnable :: "bool option"

record betaunfilledtimeoutconfig =
  buto_Entry :: "int option"
  buto_Exit :: "int option"
  buto_ExitTimeoutCount :: "int option"
  buto_Unit :: string

record betainternalsconfig =
  bitn_ProcessThrottleSecs :: "int option"
  bitn_Interval :: "int option"
  bitn_SdNotify :: "bool option"

record betapairlistspec =
  bpl_Pairs :: "string list option"

record betapairlistconfig =
  bpc_Method :: string
  bpc_NumberAssets :: "int option"
  bpc_RefreshPeriod :: "int option"
  bpc_AllowInactive :: bool
  bpc_SortKey :: string
  bpc_LookbackTimeframe :: string
  bpc_LookbackPeriod :: "int option"
  bpc_LookbackDays :: "int option"
  bpc_MinChangeRate :: "float64 option"
  bpc_ProducerName :: string
  bpc_Mode :: string
  bpc_ProcessingMode :: string
  bpc_PairlistURL :: string
  bpc_KeepPairlistOnFailure :: "bool option"
  bpc_ReadTimeout :: "int option"
  bpc_BearerToken :: string
  bpc_SaveToFile :: string
  bpc_MaxRank :: "int option"
  bpc_Categories :: "string list"
  bpc_MinDaysListed :: "int option"
  bpc_MaxDaysListed :: "int option"
  bpc_MinPrice :: "float64 option"
  bpc_MaxPrice :: "float64 option"
  bpc_MaxSpreadRatio :: "float64 option"
  bpc_LookbackDaysRange :: "int option"
  bpc_MinRateOfChange :: "float64 option"
  bpc_MaxRateOfChange :: "float64 option"
  bpc_LookbackDaysVolatility :: "int option"
  bpc_MinVolatility :: "float64 option"
  bpc_MaxVolatility :: "float64 option"
  bpc_Offset :: "int option"
  bpc_ShuffleFrequency :: string
  bpc_Seed :: "int option"
  bpc_Minutes :: "int option"
  bpc_MinProfit :: "float64 option"

record betapairlistmethodsspec =
  bpms_Methods :: "betapairlistconfig list"

record betapricingcheckdepthofmarket =
  bpcd_Enabled :: "bool option"
  bpcd_BidsToAskDelta :: "float64 option"

record betapricingspec =
  bprc_PriceSide :: string
  bprc_PriceLastBalance :: "float64 option"
  bprc_UseOrderBook :: "bool option"
  bprc_OrderBookTop :: "int option"
  bprc_CheckDepthOfMarket :: "betapricingcheckdepthofmarket option"

record betatypes =
  bty_Entry :: string
  bty_Exit :: string
  bty_EmergencyExit :: string
  bty_ForceEntry :: string
  bty_ForceExit :: string
  bty_Stoploss :: string
  bty_StoplossOnExchange :: "bool option"
  bty_StoplossOnExchangeInterval :: "int option"
  bty_StoplossOnExchangeLimitRatio :: "float64 option"

record betatimeinforce =
  btif_Entry :: string
  btif_Exit :: string

record betaflow =
  bfl_CacheSize :: "int option"
  bfl_MaxCandles :: "int option"
  bfl_Scale :: "float64 option"
  bfl_StackedImbalanceRange :: "int option"
  bfl_ImbalanceVolume :: "int option"
  bfl_ImbalanceRatio :: "float64 option"

record betaorderspec =
  bord_Types :: "betatypes option"
  bord_TimeInForce :: "betatimeinforce option"
  bord_Flow :: "betaflow option"

record betariskmanagementspec =
  brm_MinimalROI :: "float64 option gomap option"
  brm_Stoploss :: "float64 option"
  brm_TrailingStop :: bool
  brm_TrailingStopPositive :: "float64 option"
  brm_TrailingStopPositiveOffset :: "float64 option"
  brm_TrailingOnlyOffsetIsReached :: bool
  brm_UseExitSignal :: bool
  brm_ExitProfitOnly :: bool
  brm_ExitProfitOffset :: "float64 option"
  brm_Fee :: "float64 option"
  brm_IgnoreRoiIfEntrySignal :: bool
  brm_IgnoreBuyingExpiredCandleAfter :: "int option"
  brm_MinimumTradeAmount :: "int option"
  brm_TargetedTradeAmount :: "int option"
  brm_LookaheadAnalysisExportFilename :: string
  brm_StartupCandle :: "int list option"
  brm_LiquidationBuffer :: "float64 option"
  brm_BacktestBreakdown :: "string list option"

record betaexperimentalconfig =
  bexp_BlockBadExchanges :: "bool option"

record betaloggingconfig =
  blg_Version :: "int option"

record betanotificationtelegramsettings =
  btgs_Status :: string
  btgs_Warning :: string
  btgs_Startup :: string
  btgs_Entry :: string
  btgs_EntryFill :: string
  btgs_EntryCancel :: string
  btgs_Exit :: string
  btgs_ExitFill :: string
  btgs_ExitCancel :: string
  btgs_ProtectionTrigger :: string
  btgs_ProtectionTriggerGlobal :: string

record betanotificationwebhook =
  bwh_Enabled :: "bool option"
  bwh_URL :: string
  bwh_Entry :: string
  bwh_EntryCancel :: string
  bwh_EntryFill :: string
  bwh_Exit :: string
  bwh_ExitCancel :: string
  bwh_ExitFill :: string
  bwh_Status :: string
  bwh_AllowCustomMessages :: "bool option"

record betanotificationdiscord =
  bdis_Enabled :: "bool option"
  bdis_WebhookURL :: string
  bdis_ExitFill :: "smap list"
  bdis_EntryFill :: "smap list"

record betatradebotconfigstatus =
  btcst_Phase :: string
  btcst_Message :: string
  btcst_Conditions :: "condition list"
  btcst_ObservedGeneration :: int

section \<open>Field by field\<close>

definition botconfig_to_beta :: "botconfig \<Rightarrow> betabotconfig" where
  "botconfig_to_beta x =
    \<lparr>bbc_BotName = bc_BotName x, bbc_TradingMode = bc_TradingMode x, bbc_DryRun = bc_DryRun x,
     bbc_DryRunWallet = bc_DryRunWallet x, bbc_StakeCurrency = bc_StakeCurrency x, bbc_StakeAmount = bc_StakeAmount x,
     bbc_MaxOpenTrades = bc_MaxOpenTrades x, bbc_FiatDisplayCurrency = bc_FiatDisplayCurrency x, bbc_DBUrl = bc_DBUrl x,
     bbc_Export = bc_Export x, bbc_DisableParamExport = bc_DisableParamExport x,
     bbc_DisableDataframeChecks = bc_DisableDataframeChecks x\<rparr>"

definition botconfig_from_beta :: "betabotconfig \<Rightarrow> botconfig" where
  "botconfig_from_beta x =
    \<lparr>bc_BotName = bbc_BotName x, bc_TradingMode = bbc_TradingMode x, bc_DryRun = bbc_DryRun x,
     bc_DryRunWallet = bbc_DryRunWallet x, bc_StakeCurrency = bbc_StakeCurrency x, bc_StakeAmount = bbc_StakeAmount x,
     bc_MaxOpenTrades = bbc_MaxOpenTrades x, bc_FiatDisplayCurrency = bbc_FiatDisplayCurrency x, bc_DBUrl = bbc_DBUrl x,
     bc_Export = bbc_Export x, bc_DisableParamExport = bbc_DisableParamExport x,
     bc_DisableDataframeChecks = bbc_DisableDataframeChecks x\<rparr>"

definition svmparams_to_beta :: "svmparams \<Rightarrow> betasvmparams" where
  "svmparams_to_beta x =
    \<lparr>bsvm_Shuffle = svm_Shuffle x, bsvm_Nu = svm_Nu x\<rparr>"

definition svmparams_from_beta :: "betasvmparams \<Rightarrow> svmparams" where
  "svmparams_from_beta x =
    \<lparr>svm_Shuffle = bsvm_Shuffle x, svm_Nu = bsvm_Nu x\<rparr>"

definition featureparameters_to_beta :: "featureparameters \<Rightarrow> betafeatureparameters" where
  "featureparameters_to_beta x =
    \<lparr>bfp_IncludeCorrPairlist = fp_IncludeCorrPairlist x, bfp_IncludeTimeframes = fp_IncludeTimeframes x,
     bfp_LabelPeriodCandles = fp_LabelPeriodCandles x, bfp_IncludeShiftedCandles = fp_IncludeShiftedCandles x,
     bfp_DIThreshold = fp_DIThreshold x, bfp_WeightFactor = fp_WeightFactor x,
     bfp_PrincipalComponentAnalysis = fp_PrincipalComponentAnalysis x,
     bfp_IndicatorPeriodsCandles = fp_IndicatorPeriodsCandles x, bfp_UseSVMToRemoveOutliers = fp_UseSVMToRemoveOutliers x,
     bfp_PlotFeatureImportances = fp_PlotFeatureImportances x,
     bfp_SVMParams = map_option svmparams_to_beta (fp_SVMParams x), bfp_ShuffleAfterSplit = fp_ShuffleAfterSplit x,
     bfp_BufferTrainDataCandles = fp_BufferTrainDataCandles x\<rparr>"

definition featureparameters_from_beta :: "betafeatureparameters \<Rightarrow> featureparameters" where
  "featureparameters_from_beta x =
    \<lparr>fp_IncludeCorrPairlist = bfp_IncludeCorrPairlist x, fp_IncludeTimeframes = bfp_IncludeTimeframes x,
     fp_LabelPeriodCandles = bfp_LabelPeriodCandles x, fp_IncludeShiftedCandles = bfp_IncludeShiftedCandles x,
     fp_DIThreshold = bfp_DIThreshold x, fp_WeightFactor = bfp_WeightFactor x,
     fp_PrincipalComponentAnalysis = bfp_PrincipalComponentAnalysis x,
     fp_IndicatorPeriodsCandles = bfp_IndicatorPeriodsCandles x, fp_UseSVMToRemoveOutliers = bfp_UseSVMToRemoveOutliers x,
     fp_PlotFeatureImportances = bfp_PlotFeatureImportances x,
     fp_SVMParams = map_option svmparams_from_beta (bfp_SVMParams x), fp_ShuffleAfterSplit = bfp_ShuffleAfterSplit x,
     fp_BufferTrainDataCandles = bfp_BufferTrainDataCandles x\<rparr>"

definition datasplitparameters_to_beta :: "datasplitparameters \<Rightarrow> betadatasplitparameters" where
  "datasplitparameters_to_beta x =
    \<lparr>bdsp_TestSize = dsp_TestSize x, bdsp_RandomState = dsp_RandomState x, bdsp_Shuffle = dsp_Shuffle x\<rparr>"

definition datasplitparameters_from_beta :: "betadatasplitparameters \<Rightarrow> datasplitparameters" where
  "datasplitparameters_from_beta x =
    \<lparr>dsp_TestSize = bdsp_TestSize x, dsp_RandomState = bdsp_RandomState x, dsp_Shuffle = bdsp_Shuffle x\<rparr>"

definition modeltrainingparameters_to_beta :: "modeltrainingparameters \<Rightarrow> betamodeltrainingparameters" where
  "modeltrainingparameters_to_beta x = BetaModelTrainingParameters"

definition modeltrainingparameters_from_beta :: "betamodeltrainingparameters \<Rightarrow> modeltrainingparameters" where
  "modeltrainingparameters_from_beta x = ModelTrainingParameters"

definition modelrewardparameters_to_beta :: "modelrewardparameters \<Rightarrow> betamodelrewardparameters" where
  "modelrewardparameters_to_beta x =
    \<lparr>bmrp_RR = mrp_RR x, bmrp_ProfitAim = mrp_ProfitAim x\<rparr>"

definition modelrewardparameters_from_beta :: "betamodelrewardparameters \<Rightarrow> modelrewardparameters" where
  "modelrewardparameters_from_beta x =
    \<lparr>mrp_RR = bmrp_RR x, mrp_ProfitAim = bmrp_ProfitAim x\<rparr>"

definition rlconfig_to_beta :: "rlconfig \<Rightarrow> betarlconfig" where
  "rlconfig_to_beta x =
    \<lparr>brl_DropOHLCFromFeatures = rl_DropOHLCFromFeatures x, brl_TrainCycles = rl_TrainCycles x,
     brl_MaxTradeDurationCandles = rl_MaxTradeDurationCandles x, brl_AddStateInfo = rl_AddStateInfo x,
     brl_MaxTrainingDrawdownPct = rl_MaxTrainingDrawdownPct x, brl_CPUCount = rl_CPUCount x,
     brl_ModelType = rl_ModelType x, brl_PolicyType = rl_PolicyType x, brl_NetArch = rl_NetArch x,
     brl_RandomizeStartingPosition = rl_RandomizeStartingPosition x, brl_ProgressBar = rl_ProgressBar x,
     brl_ModelRewardParameters = map_option modelrewardparameters_to_beta (rl_ModelRewardParameters x)\<rparr>"

definition rlconfig_from_beta :: "betarlconfig \<Rightarrow> rlconfig" where
  "rlconfig_from_beta x =
    \<lparr>rl_DropOHLCFromFeatures = brl_DropOHLCFromFeatures x, rl_TrainCycles = brl_TrainCycles x,
     rl_MaxTradeDurationCandles = brl_MaxTradeDurationCandles x, rl_AddStateInfo = brl_AddStateInfo x,
     rl_MaxTrainingDrawdownPct = brl_MaxTrainingDrawdownPct x, rl_CPUCount = brl_CPUCount x,
     rl_ModelType = brl_ModelType x, rl_PolicyType = brl_PolicyType x, rl_NetArch = brl_NetArch x,
     rl_RandomizeStartingPosition = brl_RandomizeStartingPosition x, rl_ProgressBar = brl_ProgressBar x,
     rl_ModelRewardParameters = map_option modelrewardparameters_from_beta (brl_ModelRewardParameters x)\<rparr>"

definition aiconfig_to_beta :: "aiconfig \<Rightarrow> betaaiconfig" where
  "aiconfig_to_beta x =
    \<lparr>bai_Enabled = ai_Enabled x, bai_Identifier = ai_Identifier x, bai_WriteMetricsToDisk = ai_WriteMetricsToDisk x,
     bai_PurgeOldModels = ai_PurgeOldModels x, bai_ConvWidth = ai_ConvWidth x, bai_TrainPeriodDays = ai_TrainPeriodDays x,
     bai_BacktestPeriodDays = ai_BacktestPeriodDays x, bai_LiveRetrainHours = ai_LiveRetrainHours x,
     bai_ExpirationHours = ai_ExpirationHours x, bai_SaveBacktestModels = ai_SaveBacktestModels x,
     bai_FitLivePredictionsCandles = ai_FitLivePredictionsCandles x,
     bai_DataKitchenThreadCount = ai_DataKitchenThreadCount x, bai_ActivateTensorboard = ai_ActivateTensorboard x,
     bai_WaitForTrainingIterationOnReload = ai_WaitForTrainingIterationOnReload x,
     bai_ContinueLearning = ai_ContinueLearning x, bai_Keras = ai_Keras x,
     bai_FeatureParameters = map_option featureparameters_to_beta (ai_FeatureParameters x),
     bai_DataSplitParameters = map_option datasplitparameters_to_beta (ai_DataSplitParameters x),
     bai_ModelTrainingParameters = map_option modeltrainingparameters_to_beta (ai_ModelTrainingParameters x),
     bai_RLConfig = map_option rlconfig_to_beta (ai_RLConfig x)\<rparr>"

definition aiconfig_from_beta :: "betaaiconfig \<Rightarrow> aiconfig" where
  "aiconfig_from_beta x =
    \<lparr>ai_Enabled = bai_Enabled x, ai_Identifier = bai_Identifier x, ai_WriteMetricsToDisk = bai_WriteMetricsToDisk x,
     ai_PurgeOldModels = bai_PurgeOldModels x, ai_ConvWidth = bai_ConvWidth x, ai_TrainPeriodDays = bai_TrainPeriodDays x,
     ai_BacktestPeriodDays = bai_BacktestPeriodDays x, ai_LiveRetrainHours = bai_LiveRetrainHours x,
     ai_ExpirationHours = bai_ExpirationHours x, ai_SaveBacktestModels = bai_SaveBacktestModels x,
     ai_FitLivePredictionsCandles = bai_FitLivePredictionsCandles x,
     ai_DataKitchenThreadCount = bai_DataKitchenThreadCount x, ai_ActivateTensorboard = bai_ActivateTensorboard x,
     ai_WaitForTrainingIterationOnReload = bai_WaitForTrainingIterationOnReload x,
     ai_ContinueLearning = bai_ContinueLearning x, ai_Keras = bai_Keras x,
     ai_FeatureParameters = map_option featureparameters_from_beta (bai_FeatureParameters x),
     ai_DataSplitParameters = map_option datasplitparameters_from_beta (bai_DataSplitParameters x),
     ai_ModelTrainingParameters = map_option modeltrainingparameters_from_beta (bai_ModelTrainingParameters x),
     ai_RLConfig = map_option rlconfig_from_beta (bai_RLConfig x)\<rparr>"

definition dataconfig_to_beta :: "dataconfig \<Rightarrow> betadataconfig" where
  "dataconfig_to_beta x =
    \<lparr>bdc_DataformatOHLCV = dc_DataformatOHLCV x, bdc_DataformatTrades = dc_DataformatTrades x,
     bdc_PositionAdjustment = dc_PositionAdjustment x, bdc_NewPairsDaysAgo = dc_NewPairsDaysAgo x,
     bdc_DownloadTrades = dc_DownloadTrades x, bdc_MaxEntryPositionAdjustment = dc_MaxEntryPositionAdjustment x,
     bdc_AvailableCapital = dc_AvailableCapital x, bdc_AmendLastStakeAmount = dc_AmendLastStakeAmount x,
     bdc_LastStakeAmountMinRatio = dc_LastStakeAmountMinRatio x, bdc_ProcessOnlyNewCandles = dc_ProcessOnlyNewCandles x,
     bdc_AmountReservePercent = dc_AmountReservePercent x, bdc_ReduceDfFootprint = dc_ReduceDfFootprint x,
     bdc_CustomPriceMaxDistanceRatio = dc_CustomPriceMaxDistanceRatio x\<rparr>"

definition dataconfig_from_beta :: "betadataconfig \<Rightarrow> dataconfig" where
  "dataconfig_from_beta x =
    \<lparr>dc_DataformatOHLCV = bdc_DataformatOHLCV x, dc_DataformatTrades = bdc_DataformatTrades x,
     dc_PositionAdjustment = bdc_PositionAdjustment x, dc_NewPairsDaysAgo = bdc_NewPairsDaysAgo x,
     dc_DownloadTrades = bdc_DownloadTrades x, dc_MaxEntryPositionAdjustment = bdc_MaxEntryPositionAdjustment x,
     dc_AvailableCapital = bdc_AvailableCapital x, dc_AmendLastStakeAmount = bdc_AmendLastStakeAmount x,
     dc_LastStakeAmountMinRatio = bdc_LastStakeAmountMinRatio x, dc_ProcessOnlyNewCandles = bdc_ProcessOnlyNewCandles x,
     dc_AmountReservePercent = bdc_AmountReservePercent x, dc_ReduceDfFootprint = bdc_ReduceDfFootprint x,
     dc_CustomPriceMaxDistanceRatio = bdc_CustomPriceMaxDistanceRatio x\<rparr>"

definition advancedconfig_to_beta :: "advancedconfig \<Rightarrow> betaadvancedconfig" where
  "advancedconfig_to_beta x =
    \<lparr>badv_TradableBalanceRatio = adv_TradableBalanceRatio x, badv_CancelOpenOrdersOnExit = adv_CancelOpenOrdersOnExit x,
     badv_MarginMode = adv_MarginMode x, badv_InitialState = adv_InitialState x,
     badv_ForceEntryEnable = adv_ForceEntryEnable x\<rparr>"

definition advancedconfig_from_beta :: "betaadvancedconfig \<Rightarrow> advancedconfig" where
  "advancedconfig_from_beta x =
    \<lparr>adv_TradableBalanceRatio = badv_TradableBalanceRatio x, adv_CancelOpenOrdersOnExit = badv_CancelOpenOrdersOnExit x,
     adv_MarginMode = badv_MarginMode x, adv_InitialState = badv_InitialState x,
     adv_ForceEntryEnable = badv_ForceEntryEnable x\<rparr>"

definition unfilledtimeoutconfig_to_beta :: "unfilledtimeoutconfig \<Rightarrow> betaunfilledtimeoutconfig" where
  "unfilledtimeoutconfig_to_beta x =
    \<lparr>buto_Entry = uto_Entry x, buto_Exit = uto_Exit x, buto_ExitTimeoutCount = uto_ExitTimeoutCount x,
     buto_Unit = uto_Unit x\<rparr>"

definition unfilledtimeoutconfig_from_beta :: "betaunfilledtimeoutconfig \<Rightarrow> unfilledtimeoutconfig" where
  "unfilledtimeoutconfig_from_beta x =
    \<lparr>uto_Entry = buto_Entry x, uto_Exit = buto_Exit x, uto_ExitTimeoutCount = buto_ExitTimeoutCount x,
     uto_Unit = buto_Unit x\<rparr>"

definition internalsconfig_to_beta :: "internalsconfig \<Rightarrow> betainternalsconfig" where
  "internalsconfig_to_beta x =
    \<lparr>bitn_ProcessThrottleSecs = itn_ProcessThrottleSecs x, bitn_Interval = itn_Interval x, bitn_SdNotify = itn_SdNotify x\<rparr>"

definition internalsconfig_from_beta :: "betainternalsconfig \<Rightarrow> internalsconfig" where
  "internalsconfig_from_beta x =
    \<lparr>itn_ProcessThrottleSecs = bitn_ProcessThrottleSecs x, itn_Interval = bitn_Interval x, itn_SdNotify = bitn_SdNotify x\<rparr>"

definition pairlistspec_to_beta :: "pairlistspec \<Rightarrow> betapairlistspec" where
  "pairlistspec_to_beta x =
    \<lparr>bpl_Pairs = pl_Pairs x\<rparr>"

definition pairlistspec_from_beta :: "betapairlistspec \<Rightarrow> pairlistspec" where
  "pairlistspec_from_beta x =
    \<lparr>pl_Pairs = bpl_Pairs x\<rparr>"

definition pairlistconfig_to_beta :: "pairlistconfig \<Rightarrow> betapairlistconfig" where
  "pairlistconfig_to_beta x =
    \<lparr>bpc_Method = pc_Method x, bpc_NumberAssets = pc_NumberAssets x, bpc_RefreshPeriod = pc_RefreshPeriod x,
     bpc_AllowInactive = pc_AllowInactive x, bpc_SortKey = pc_SortKey x, bpc_LookbackTimeframe = pc_LookbackTimeframe x,
     bpc_LookbackPeriod = pc_LookbackPeriod x, bpc_LookbackDays = pc_LookbackDays x,
     bpc_MinChangeRate = pc_MinChangeRate x, bpc_ProducerName = pc_ProducerName x, bpc_Mode = pc_Mode x,
     bpc_ProcessingMode = pc_ProcessingMode x, bpc_PairlistURL = pc_PairlistURL x,
     bpc_KeepPairlistOnFailure = pc_KeepPairlistOnFailure x, bpc_ReadTimeout = pc_ReadTimeout x,
     bpc_BearerToken = pc_BearerToken x, bpc_SaveToFile = pc_SaveToFile x, bpc_MaxRank = pc_MaxRank x,
     bpc_Categories = pc_Categories x, bpc_MinDaysListed = pc_MinDaysListed x, bpc_MaxDaysListed = pc_MaxDaysListed x,
     bpc_MinPrice = pc_MinPrice x, bpc_MaxPrice = pc_MaxPrice x, bpc_MaxSpreadRatio = pc_MaxSpreadRatio x,
     bpc_LookbackDaysRange = pc_LookbackDaysRange x, bpc_MinRateOfChange = pc_MinRateOfChange x,
     bpc_MaxRateOfChange = pc_MaxRateOfChange x, bpc_LookbackDaysVolatility = pc_LookbackDaysVolatility x,
     bpc_MinVolatility = pc_MinVolatility x, bpc_MaxVolatility = pc_MaxVolatility x, bpc_Offset = pc_Offset x,
     bpc_ShuffleFrequency = pc_ShuffleFrequency x, bpc_Seed = pc_Seed x, bpc_Minutes = pc_Minutes x,
     bpc_MinProfit = pc_MinProfit x\<rparr>"

definition pairlistconfig_from_beta :: "betapairlistconfig \<Rightarrow> pairlistconfig" where
  "pairlistconfig_from_beta x =
    \<lparr>pc_Method = bpc_Method x, pc_NumberAssets = bpc_NumberAssets x, pc_RefreshPeriod = bpc_RefreshPeriod x,
     pc_AllowInactive = bpc_AllowInactive x, pc_SortKey = bpc_SortKey x, pc_LookbackTimeframe = bpc_LookbackTimeframe x,
     pc_LookbackPeriod = bpc_LookbackPeriod x, pc_LookbackDays = bpc_LookbackDays x,
     pc_MinChangeRate = bpc_MinChangeRate x, pc_ProducerName = bpc_ProducerName x, pc_Mode = bpc_Mode x,
     pc_ProcessingMode = bpc_ProcessingMode x, pc_PairlistURL = bpc_PairlistURL x,
     pc_KeepPairlistOnFailure = bpc_KeepPairlistOnFailure x, pc_ReadTimeout = bpc_ReadTimeout x,
     pc_BearerToken = bpc_BearerToken x, pc_SaveToFile = bpc_SaveToFile x, pc_MaxRank = bpc_MaxRank x,
     pc_Categories = bpc_Categories x, pc_MinDaysListed = bpc_MinDaysListed x, pc_MaxDaysListed = bpc_MaxDaysListed x,
     pc_MinPrice = bpc_MinPrice x, pc_MaxPrice = bpc_MaxPrice x, pc_MaxSpreadRatio = bpc_MaxSpreadRatio x,
     pc_LookbackDaysRange = bpc_LookbackDaysRange x, pc_MinRateOfChange = bpc_MinRateOfChange x,
     pc_MaxRateOfChange = bpc_MaxRateOfChange x, pc_LookbackDaysVolatility = bpc_LookbackDaysVolatility x,
     pc_MinVolatility = bpc_MinVolatility x, pc_MaxVolatility = bpc_MaxVolatility x, pc_Offset = bpc_Offset x,
     pc_ShuffleFrequency = bpc_ShuffleFrequency x, pc_Seed = bpc_Seed x, pc_Minutes = bpc_Minutes x,
     pc_MinProfit = bpc_MinProfit x\<rparr>"

definition pairlistmethodsspec_to_beta :: "pairlistmethodsspec \<Rightarrow> betapairlistmethodsspec" where
  "pairlistmethodsspec_to_beta x =
    \<lparr>bpms_Methods = map pairlistconfig_to_beta (pms_Methods x)\<rparr>"

definition pairlistmethodsspec_from_beta :: "betapairlistmethodsspec \<Rightarrow> pairlistmethodsspec" where
  "pairlistmethodsspec_from_beta x =
    \<lparr>pms_Methods = map pairlistconfig_from_beta (bpms_Methods x)\<rparr>"

definition pricingcheckdepthofmarket_to_beta :: "pricingcheckdepthofmarket \<Rightarrow> betapricingcheckdepthofmarket" where
  "pricingcheckdepthofmarket_to_beta x =
    \<lparr>bpcd_Enabled = pcd_Enabled x, bpcd_BidsToAskDelta = pcd_BidsToAskDelta x\<rparr>"

definition pricingcheckdepthofmarket_from_beta :: "betapricingcheckdepthofmarket \<Rightarrow> pricingcheckdepthofmarket" where
  "pricingcheckdepthofmarket_from_beta x =
    \<lparr>pcd_Enabled = bpcd_Enabled x, pcd_BidsToAskDelta = bpcd_BidsToAskDelta x\<rparr>"

definition pricingspec_to_beta :: "pricingspec \<Rightarrow> betapricingspec" where
  "pricingspec_to_beta x =
    \<lparr>bprc_PriceSide = prc_PriceSide x, bprc_PriceLastBalance = prc_PriceLastBalance x,
     bprc_UseOrderBook = prc_UseOrderBook x, bprc_OrderBookTop = prc_OrderBookTop x,
     bprc_CheckDepthOfMarket = map_option pricingcheckdepthofmarket_to_beta (prc_CheckDepthOfMarket x)\<rparr>"

definition pricingspec_from_beta :: "betapricingspec \<Rightarrow> pricingspec" where
  "pricingspec_from_beta x =
    \<lparr>prc_PriceSide = bprc_PriceSide x, prc_PriceLastBalance = bprc_PriceLastBalance x,
     prc_UseOrderBook = bprc_UseOrderBook x, prc_OrderBookTop = bprc_OrderBookTop x,
     prc_CheckDepthOfMarket = map_option pricingcheckdepthofmarket_from_beta (bprc_CheckDepthOfMarket x)\<rparr>"

definition types_to_beta :: "types \<Rightarrow> betatypes" where
  "types_to_beta x =
    \<lparr>bty_Entry = ot_Entry x, bty_Exit = ot_Exit x, bty_EmergencyExit = ot_EmergencyExit x,
     bty_ForceEntry = ot_ForceEntry x, bty_ForceExit = ot_ForceExit x, bty_Stoploss = ot_Stoploss x,
     bty_StoplossOnExchange = ot_StoplossOnExchange x, bty_StoplossOnExchangeInterval = ot_StoplossOnExchangeInterval x,
     bty_StoplossOnExchangeLimitRatio = ot_StoplossOnExchangeLimitRatio x\<rparr>"

definition types_from_beta :: "betatypes \<Rightarrow> types" where
  "types_from_beta x =
    \<lparr>ot_Entry = bty_Entry x, ot_Exit = bty_Exit x, ot_EmergencyExit = bty_EmergencyExit x,
     ot_ForceEntry = bty_ForceEntry x, ot_ForceExit = bty_ForceExit x, ot_Stoploss = bty_Stoploss x,
     ot_StoplossOnExchange = bty_StoplossOnExchange x, ot_StoplossOnExchangeInterval = bty_StoplossOnExchangeInterval x,
     ot_StoplossOnExchangeLimitRatio = bty_StoplossOnExchangeLimitRatio x\<rparr>"

definition timeinforce_to_beta :: "timeinforce \<Rightarrow> betatimeinforce" where
  "timeinforce_to_beta x =
    \<lparr>btif_Entry = tif_Entry x, btif_Exit = tif_Exit x\<rparr>"

definition timeinforce_from_beta :: "betatimeinforce \<Rightarrow> timeinforce" where
  "timeinforce_from_beta x =
    \<lparr>tif_Entry = btif_Entry x, tif_Exit = btif_Exit x\<rparr>"

definition flow_to_beta :: "flow \<Rightarrow> betaflow" where
  "flow_to_beta x =
    \<lparr>bfl_CacheSize = fl_CacheSize x, bfl_MaxCandles = fl_MaxCandles x, bfl_Scale = fl_Scale x,
     bfl_StackedImbalanceRange = fl_StackedImbalanceRange x, bfl_ImbalanceVolume = fl_ImbalanceVolume x,
     bfl_ImbalanceRatio = fl_ImbalanceRatio x\<rparr>"

definition flow_from_beta :: "betaflow \<Rightarrow> flow" where
  "flow_from_beta x =
    \<lparr>fl_CacheSize = bfl_CacheSize x, fl_MaxCandles = bfl_MaxCandles x, fl_Scale = bfl_Scale x,
     fl_StackedImbalanceRange = bfl_StackedImbalanceRange x, fl_ImbalanceVolume = bfl_ImbalanceVolume x,
     fl_ImbalanceRatio = bfl_ImbalanceRatio x\<rparr>"

definition orderspec_to_beta :: "orderspec \<Rightarrow> betaorderspec" where
  "orderspec_to_beta x =
    \<lparr>bord_Types = map_option types_to_beta (ord_Types x),
     bord_TimeInForce = map_option timeinforce_to_beta (ord_TimeInForce x),
     bord_Flow = map_option flow_to_beta (ord_Flow x)\<rparr>"

definition orderspec_from_beta :: "betaorderspec \<Rightarrow> orderspec" where
  "orderspec_from_beta x =
    \<lparr>ord_Types = map_option types_from_beta (bord_Types x),
     ord_TimeInForce = map_option timeinforce_from_beta (bord_TimeInForce x),
     ord_Flow = map_option flow_from_beta (bord_Flow x)\<rparr>"

definition riskmanagementspec_to_beta :: "riskmanagementspec \<Rightarrow> betariskmanagementspec" where
  "riskmanagementspec_to_beta x =
    \<lparr>brm_MinimalROI = rm_MinimalROI x, brm_Stoploss = rm_Stoploss x, brm_TrailingStop = rm_TrailingStop x,
     brm_TrailingStopPositive = rm_TrailingStopPositive x,
     brm_TrailingStopPositiveOffset = rm_TrailingStopPositiveOffset x,
     brm_TrailingOnlyOffsetIsReached = rm_TrailingOnlyOffsetIsReached x, brm_UseExitSignal = rm_UseExitSignal x,
     brm_ExitProfitOnly = rm_ExitProfitOnly x, brm_ExitProfitOffset = rm_ExitProfitOffset x, brm_Fee = rm_Fee x,
     brm_IgnoreRoiIfEntrySignal = rm_IgnoreRoiIfEntrySignal x,
     brm_IgnoreBuyingExpiredCandleAfter = rm_IgnoreBuyingExpiredCandleAfter x,
     brm_MinimumTradeAmount = rm_MinimumTradeAmount x, brm_TargetedTradeAmount = rm_TargetedTradeAmount x,
     brm_LookaheadAnalysisExportFilename = rm_LookaheadAnalysisExportFilename x, brm_StartupCandle = rm_StartupCandle x,
     brm_LiquidationBuffer = rm_LiquidationBuffer x, brm_BacktestBreakdown = rm_BacktestBreakdown x\<rparr>"

definition riskmanagementspec_from_beta :: "betariskmanagementspec \<Rightarrow> riskmanagementspec" where
  "riskmanagementspec_from_beta x =
    \<lparr>rm_MinimalROI = brm_MinimalROI x, rm_Stoploss = brm_Stoploss x, rm_TrailingStop = brm_TrailingStop x,
     rm_TrailingStopPositive = brm_TrailingStopPositive x,
     rm_TrailingStopPositiveOffset = brm_TrailingStopPositiveOffset x,
     rm_TrailingOnlyOffsetIsReached = brm_TrailingOnlyOffsetIsReached x, rm_UseExitSignal = brm_UseExitSignal x,
     rm_ExitProfitOnly = brm_ExitProfitOnly x, rm_ExitProfitOffset = brm_ExitProfitOffset x, rm_Fee = brm_Fee x,
     rm_IgnoreRoiIfEntrySignal = brm_IgnoreRoiIfEntrySignal x,
     rm_IgnoreBuyingExpiredCandleAfter = brm_IgnoreBuyingExpiredCandleAfter x,
     rm_MinimumTradeAmount = brm_MinimumTradeAmount x, rm_TargetedTradeAmount = brm_TargetedTradeAmount x,
     rm_LookaheadAnalysisExportFilename = brm_LookaheadAnalysisExportFilename x, rm_StartupCandle = brm_StartupCandle x,
     rm_LiquidationBuffer = brm_LiquidationBuffer x, rm_BacktestBreakdown = brm_BacktestBreakdown x\<rparr>"

definition experimentalconfig_to_beta :: "experimentalconfig \<Rightarrow> betaexperimentalconfig" where
  "experimentalconfig_to_beta x =
    \<lparr>bexp_BlockBadExchanges = exp_BlockBadExchanges x\<rparr>"

definition experimentalconfig_from_beta :: "betaexperimentalconfig \<Rightarrow> experimentalconfig" where
  "experimentalconfig_from_beta x =
    \<lparr>exp_BlockBadExchanges = bexp_BlockBadExchanges x\<rparr>"

definition loggingconfig_to_beta :: "loggingconfig \<Rightarrow> betaloggingconfig" where
  "loggingconfig_to_beta x =
    \<lparr>blg_Version = lg_Version x\<rparr>"

definition loggingconfig_from_beta :: "betaloggingconfig \<Rightarrow> loggingconfig" where
  "loggingconfig_from_beta x =
    \<lparr>lg_Version = blg_Version x\<rparr>"

definition notificationtelegramsettings_to_beta :: "notificationtelegramsettings \<Rightarrow> betanotificationtelegramsettings" where
  "notificationtelegramsettings_to_beta x =
    \<lparr>btgs_Status = tgs_Status x, btgs_Warning = tgs_Warning x, btgs_Startup = tgs_Startup x, btgs_Entry = tgs_Entry x,
     btgs_EntryFill = tgs_EntryFill x, btgs_EntryCancel = tgs_EntryCancel x, btgs_Exit = tgs_Exit x,
     btgs_ExitFill = tgs_ExitFill x, btgs_ExitCancel = tgs_ExitCancel x, btgs_ProtectionTrigger = tgs_ProtectionTrigger x,
     btgs_ProtectionTriggerGlobal = tgs_ProtectionTriggerGlobal x\<rparr>"

definition notificationtelegramsettings_from_beta :: "betanotificationtelegramsettings \<Rightarrow> notificationtelegramsettings" where
  "notificationtelegramsettings_from_beta x =
    \<lparr>tgs_Status = btgs_Status x, tgs_Warning = btgs_Warning x, tgs_Startup = btgs_Startup x, tgs_Entry = btgs_Entry x,
     tgs_EntryFill = btgs_EntryFill x, tgs_EntryCancel = btgs_EntryCancel x, tgs_Exit = btgs_Exit x,
     tgs_ExitFill = btgs_ExitFill x, tgs_ExitCancel = btgs_ExitCancel x, tgs_ProtectionTrigger = btgs_ProtectionTrigger x,
     tgs_ProtectionTriggerGlobal = btgs_ProtectionTriggerGlobal x\<rparr>"

definition notificationwebhook_to_beta :: "notificationwebhook \<Rightarrow> betanotificationwebhook" where
  "notificationwebhook_to_beta x =
    \<lparr>bwh_Enabled = wh_Enabled x, bwh_URL = wh_URL x, bwh_Entry = wh_Entry x, bwh_EntryCancel = wh_EntryCancel x,
     bwh_EntryFill = wh_EntryFill x, bwh_Exit = wh_Exit x, bwh_ExitCancel = wh_ExitCancel x, bwh_ExitFill = wh_ExitFill x,
     bwh_Status = wh_Status x, bwh_AllowCustomMessages = wh_AllowCustomMessages x\<rparr>"

definition notificationwebhook_from_beta :: "betanotificationwebhook \<Rightarrow> notificationwebhook" where
  "notificationwebhook_from_beta x =
    \<lparr>wh_Enabled = bwh_Enabled x, wh_URL = bwh_URL x, wh_Entry = bwh_Entry x, wh_EntryCancel = bwh_EntryCancel x,
     wh_EntryFill = bwh_EntryFill x, wh_Exit = bwh_Exit x, wh_ExitCancel = bwh_ExitCancel x, wh_ExitFill = bwh_ExitFill x,
     wh_Status = bwh_Status x, wh_AllowCustomMessages = bwh_AllowCustomMessages x\<rparr>"

definition notificationdiscord_to_beta :: "notificationdiscord \<Rightarrow> betanotificationdiscord" where
  "notificationdiscord_to_beta x =
    \<lparr>bdis_Enabled = dis_Enabled x, bdis_WebhookURL = dis_WebhookURL x, bdis_ExitFill = dis_ExitFill x,
     bdis_EntryFill = dis_EntryFill x\<rparr>"

definition notificationdiscord_from_beta :: "betanotificationdiscord \<Rightarrow> notificationdiscord" where
  "notificationdiscord_from_beta x =
    \<lparr>dis_Enabled = bdis_Enabled x, dis_WebhookURL = bdis_WebhookURL x, dis_ExitFill = bdis_ExitFill x,
     dis_EntryFill = bdis_EntryFill x\<rparr>"

definition tradebotconfigstatus_to_beta :: "tradebotconfigstatus \<Rightarrow> betatradebotconfigstatus" where
  "tradebotconfigstatus_to_beta x =
    \<lparr>btcst_Phase = tcst_Phase x, btcst_Message = tcst_Message x, btcst_Conditions = tcst_Conditions x,
     btcst_ObservedGeneration = tcst_ObservedGeneration x\<rparr>"

definition tradebotconfigstatus_from_beta :: "betatradebotconfigstatus \<Rightarrow> tradebotconfigstatus" where
  "tradebotconfigstatus_from_beta x =
    \<lparr>tcst_Phase = btcst_Phase x, tcst_Message = btcst_Message x, tcst_Conditions = btcst_Conditions x,
     tcst_ObservedGeneration = btcst_ObservedGeneration x\<rparr>"

section \<open>Nothing is lost\<close>

lemmas section_simps = option.map_comp option.map_ident o_def

text \<open>A pair of maps between the two forms of a section that are inverse to each other.\<close>

locale same_section =
  fixes up :: "'a \<Rightarrow> 'b" and down :: "'b \<Rightarrow> 'a"
  assumes down_up: "down (up a) = a" and up_down: "up (down b) = b"
begin

lemma opt_down_up: "map_option down (map_option up x) = x"
  by (cases x) (simp_all add: down_up)

lemma opt_up_down: "map_option up (map_option down y) = y"
  by (cases y) (simp_all add: up_down)

end

lemma botconfig_back [simp]:
  "botconfig_from_beta (botconfig_to_beta a) = a"
  "botconfig_to_beta (botconfig_from_beta b) = b"
  by (simp_all add: botconfig_to_beta_def botconfig_from_beta_def section_simps)

lemma svmparams_back [simp]:
  "svmparams_from_beta (svmparams_to_beta a) = a"
  "svmparams_to_beta (svmparams_from_beta b) = b"
  by (simp_all add: svmparams_to_beta_def svmparams_from_beta_def section_simps)

lemma featureparameters_back [simp]:
  "featureparameters_from_beta (featureparameters_to_beta a) = a"
  "featureparameters_to_beta (featureparameters_from_beta b) = b"
  by (simp_all add: featureparameters_to_beta_def featureparameters_from_beta_def section_simps)

lemma datasplitparameters_back [simp]:
  "datasplitparameters_from_beta (datasplitparameters_to_beta a) = a"
  "datasplitparameters_to_beta (datasplitparameters_from_beta b) = b"
  by (simp_all add: datasplitparameters_to_beta_def datasplitparameters_from_beta_def section_simps)

lemma modeltrainingparameters_back [simp]:
  "modeltrainingparameters_from_beta (modeltrainingparameters_to_beta a) = a"
  "modeltrainingparameters_to_beta (modeltrainingparameters_from_beta b) = b"
  by (cases a; simp add: modeltrainingparameters_from_beta_def) (cases b; simp add: modeltrainingparameters_to_beta_def)

lemma modelrewardparameters_back [simp]:
  "modelrewardparameters_from_beta (modelrewardparameters_to_beta a) = a"
  "modelrewardparameters_to_beta (modelrewardparameters_from_beta b) = b"
  by (simp_all add: modelrewardparameters_to_beta_def modelrewardparameters_from_beta_def section_simps)

lemma rlconfig_back [simp]:
  "rlconfig_from_beta (rlconfig_to_beta a) = a"
  "rlconfig_to_beta (rlconfig_from_beta b) = b"
  by (simp_all add: rlconfig_to_beta_def rlconfig_from_beta_def section_simps)

lemma aiconfig_back [simp]:
  "aiconfig_from_beta (aiconfig_to_beta a) = a"
  "aiconfig_to_beta (aiconfig_from_beta b) = b"
  by (simp_all add: aiconfig_to_beta_def aiconfig_from_beta_def section_simps)

lemma dataconfig_back [simp]:
  "dataconfig_from_beta (dataconfig_to_beta a) = a"
  "dataconfig_to_beta (dataconfig_from_beta b) = b"
  by (simp_all add: dataconfig_to_beta_def dataconfig_from_beta_def section_simps)

lemma advancedconfig_back [simp]:
  "advancedconfig_from_beta (advancedconfig_to_beta a) = a"
  "advancedconfig_to_beta (advancedconfig_from_beta b) = b"
  by (simp_all add: advancedconfig_to_beta_def advancedconfig_from_beta_def section_simps)

lemma unfilledtimeoutconfig_back [simp]:
  "unfilledtimeoutconfig_from_beta (unfilledtimeoutconfig_to_beta a) = a"
  "unfilledtimeoutconfig_to_beta (unfilledtimeoutconfig_from_beta b) = b"
  by (simp_all add: unfilledtimeoutconfig_to_beta_def unfilledtimeoutconfig_from_beta_def section_simps)

lemma internalsconfig_back [simp]:
  "internalsconfig_from_beta (internalsconfig_to_beta a) = a"
  "internalsconfig_to_beta (internalsconfig_from_beta b) = b"
  by (simp_all add: internalsconfig_to_beta_def internalsconfig_from_beta_def section_simps)

lemma pairlistspec_back [simp]:
  "pairlistspec_from_beta (pairlistspec_to_beta a) = a"
  "pairlistspec_to_beta (pairlistspec_from_beta b) = b"
  by (simp_all add: pairlistspec_to_beta_def pairlistspec_from_beta_def section_simps)

lemma pairlistconfig_back [simp]:
  "pairlistconfig_from_beta (pairlistconfig_to_beta a) = a"
  "pairlistconfig_to_beta (pairlistconfig_from_beta b) = b"
  by (simp_all add: pairlistconfig_to_beta_def pairlistconfig_from_beta_def section_simps)

lemma pairlistmethodsspec_back [simp]:
  "pairlistmethodsspec_from_beta (pairlistmethodsspec_to_beta a) = a"
  "pairlistmethodsspec_to_beta (pairlistmethodsspec_from_beta b) = b"
  by (simp_all add: pairlistmethodsspec_to_beta_def pairlistmethodsspec_from_beta_def section_simps)

lemma pricingcheckdepthofmarket_back [simp]:
  "pricingcheckdepthofmarket_from_beta (pricingcheckdepthofmarket_to_beta a) = a"
  "pricingcheckdepthofmarket_to_beta (pricingcheckdepthofmarket_from_beta b) = b"
  by (simp_all add: pricingcheckdepthofmarket_to_beta_def pricingcheckdepthofmarket_from_beta_def section_simps)

lemma pricingspec_back [simp]:
  "pricingspec_from_beta (pricingspec_to_beta a) = a"
  "pricingspec_to_beta (pricingspec_from_beta b) = b"
  by (simp_all add: pricingspec_to_beta_def pricingspec_from_beta_def section_simps)

lemma types_back [simp]:
  "types_from_beta (types_to_beta a) = a"
  "types_to_beta (types_from_beta b) = b"
  by (simp_all add: types_to_beta_def types_from_beta_def section_simps)

lemma timeinforce_back [simp]:
  "timeinforce_from_beta (timeinforce_to_beta a) = a"
  "timeinforce_to_beta (timeinforce_from_beta b) = b"
  by (simp_all add: timeinforce_to_beta_def timeinforce_from_beta_def section_simps)

lemma flow_back [simp]:
  "flow_from_beta (flow_to_beta a) = a"
  "flow_to_beta (flow_from_beta b) = b"
  by (simp_all add: flow_to_beta_def flow_from_beta_def section_simps)

lemma orderspec_back [simp]:
  "orderspec_from_beta (orderspec_to_beta a) = a"
  "orderspec_to_beta (orderspec_from_beta b) = b"
  by (simp_all add: orderspec_to_beta_def orderspec_from_beta_def section_simps)

lemma riskmanagementspec_back [simp]:
  "riskmanagementspec_from_beta (riskmanagementspec_to_beta a) = a"
  "riskmanagementspec_to_beta (riskmanagementspec_from_beta b) = b"
  by (simp_all add: riskmanagementspec_to_beta_def riskmanagementspec_from_beta_def section_simps)

lemma experimentalconfig_back [simp]:
  "experimentalconfig_from_beta (experimentalconfig_to_beta a) = a"
  "experimentalconfig_to_beta (experimentalconfig_from_beta b) = b"
  by (simp_all add: experimentalconfig_to_beta_def experimentalconfig_from_beta_def section_simps)

lemma loggingconfig_back [simp]:
  "loggingconfig_from_beta (loggingconfig_to_beta a) = a"
  "loggingconfig_to_beta (loggingconfig_from_beta b) = b"
  by (simp_all add: loggingconfig_to_beta_def loggingconfig_from_beta_def section_simps)

lemma notificationtelegramsettings_back [simp]:
  "notificationtelegramsettings_from_beta (notificationtelegramsettings_to_beta a) = a"
  "notificationtelegramsettings_to_beta (notificationtelegramsettings_from_beta b) = b"
  by (simp_all add: notificationtelegramsettings_to_beta_def notificationtelegramsettings_from_beta_def section_simps)

lemma notificationwebhook_back [simp]:
  "notificationwebhook_from_beta (notificationwebhook_to_beta a) = a"
  "notificationwebhook_to_beta (notificationwebhook_from_beta b) = b"
  by (simp_all add: notificationwebhook_to_beta_def notificationwebhook_from_beta_def section_simps)

lemma notificationdiscord_back [simp]:
  "notificationdiscord_from_beta (notificationdiscord_to_beta a) = a"
  "notificationdiscord_to_beta (notificationdiscord_from_beta b) = b"
  by (simp_all add: notificationdiscord_to_beta_def notificationdiscord_from_beta_def section_simps)

lemma tradebotconfigstatus_back [simp]:
  "tradebotconfigstatus_from_beta (tradebotconfigstatus_to_beta a) = a"
  "tradebotconfigstatus_to_beta (tradebotconfigstatus_from_beta b) = b"
  by (simp_all add: tradebotconfigstatus_to_beta_def tradebotconfigstatus_from_beta_def section_simps)

interpretation sec_bc: same_section botconfig_to_beta botconfig_from_beta
  by unfold_locales simp_all

interpretation sec_ai: same_section aiconfig_to_beta aiconfig_from_beta
  by unfold_locales simp_all

interpretation sec_dc: same_section dataconfig_to_beta dataconfig_from_beta
  by unfold_locales simp_all

interpretation sec_adv: same_section advancedconfig_to_beta advancedconfig_from_beta
  by unfold_locales simp_all

interpretation sec_uto: same_section unfilledtimeoutconfig_to_beta unfilledtimeoutconfig_from_beta
  by unfold_locales simp_all

interpretation sec_itn: same_section internalsconfig_to_beta internalsconfig_from_beta
  by unfold_locales simp_all

interpretation sec_pl: same_section pairlistspec_to_beta pairlistspec_from_beta
  by unfold_locales simp_all

interpretation sec_pms: same_section pairlistmethodsspec_to_beta pairlistmethodsspec_from_beta
  by unfold_locales simp_all

interpretation sec_prc: same_section pricingspec_to_beta pricingspec_from_beta
  by unfold_locales simp_all

interpretation sec_ord: same_section orderspec_to_beta orderspec_from_beta
  by unfold_locales simp_all

interpretation sec_rm: same_section riskmanagementspec_to_beta riskmanagementspec_from_beta
  by unfold_locales simp_all

interpretation sec_exp: same_section experimentalconfig_to_beta experimentalconfig_from_beta
  by unfold_locales simp_all

interpretation sec_lg: same_section loggingconfig_to_beta loggingconfig_from_beta
  by unfold_locales simp_all

interpretation sec_tgs: same_section notificationtelegramsettings_to_beta notificationtelegramsettings_from_beta
  by unfold_locales simp_all

interpretation sec_wh: same_section notificationwebhook_to_beta notificationwebhook_from_beta
  by unfold_locales simp_all

interpretation sec_dis: same_section notificationdiscord_to_beta notificationdiscord_from_beta
  by unfold_locales simp_all

lemmas sections_same = sec_bc.opt_down_up sec_bc.opt_up_down sec_ai.opt_down_up sec_ai.opt_up_down sec_dc.opt_down_up sec_dc.opt_up_down sec_adv.opt_down_up sec_adv.opt_up_down
  sec_uto.opt_down_up sec_uto.opt_up_down sec_itn.opt_down_up sec_itn.opt_up_down sec_pl.opt_down_up sec_pl.opt_up_down sec_pms.opt_down_up sec_pms.opt_up_down
  sec_prc.opt_down_up sec_prc.opt_up_down sec_ord.opt_down_up sec_ord.opt_up_down sec_rm.opt_down_up sec_rm.opt_up_down sec_exp.opt_down_up sec_exp.opt_up_down
  sec_lg.opt_down_up sec_lg.opt_up_down sec_tgs.opt_down_up sec_tgs.opt_up_down sec_wh.opt_down_up sec_wh.opt_up_down sec_dis.opt_down_up sec_dis.opt_up_down

end
