(* ===== verification/ConfigConversion.thy ===== *)
theory ConfigConversion
  imports Conversion BetaConfigTypes
begin

text \<open>The v1beta1 TradeBotConfig (\<open>api/v1beta1/tradebotconfig_types.go\<close>) with its webhook
  (\<open>tradebotconfig_webhook.go\<close>) and conversion (\<open>api/v1alpha1/tradebotconfig_conversion.go\<close>). v1beta1 drops the plaintext
  credential fields and types its secret references, of which the model keeps the names; the sections both versions
  declare field for field alike are in \<open>BetaConfigTypes\<close>. The uses of \<open>convertJSON\<close> are the fields of \<open>cfgconv\<close>.\<close>

section \<open>Types\<close>

record betaexchangespec =
  bex_Name :: string
  bex_AccountID :: string
  bex_SecretRef :: string
  bex_CcxtConfig :: "string option"
  bex_CcxtAsyncConfig :: "string option"
  bex_CcxtSyncConfig :: "string option"
  bex_Whitelist :: "betapairlistspec option"
  bex_Blacklist :: "betapairlistspec option"
  bex_LogResponses :: "bool option"
  bex_EnableWS :: "bool option"
  bex_UnknownFeeRate :: "bool option"
  bex_OutdatedOffset :: "int option"
  bex_MarketRefreshInterval :: "int option"

record betaapiserverconfig =
  bas_Enabled :: "bool option"
  bas_ListenIP :: string
  bas_ListenPort :: "int option"
  bas_Verbosity :: string
  bas_EnableOpenAPI :: "bool option"
  bas_Username :: string
  bas_SecretRef :: string
  bas_CORSOrigins :: "string list"

record betanotificationtelegram =
  btg_Enabled :: "bool option"
  btg_SecretRef :: string
  btg_BalanceDustLevel :: "float64 option"
  btg_Reload :: "bool option"
  btg_AllowCustomMessages :: "bool option"
  btg_ChatID :: string
  btg_TopicID :: string
  btg_AuthorizedUsers :: "string list"
  btg_Settings :: "betanotificationtelegramsettings option"

record betanotificationspec =
  bnt_Telegram :: "betanotificationtelegram option"
  bnt_Webhook :: "betanotificationwebhook option"
  bnt_Discord :: "betanotificationdiscord option"

record betatradebotconfigspec =
  btc_Bot :: "betabotconfig option"
  btc_AI :: "betaaiconfig option"
  btc_Data :: "betadataconfig option"
  btc_Advanced :: "betaadvancedconfig option"
  btc_Timeout :: "betaunfilledtimeoutconfig option"
  btc_Internals :: "betainternalsconfig option"
  btc_Exchange :: "betaexchangespec option"
  btc_Pairlist :: "betapairlistspec option"
  btc_PairlistMethod :: "betapairlistmethodsspec option"
  btc_EntryPricing :: "betapricingspec option"
  btc_ExitPricing :: "betapricingspec option"
  btc_Order :: "betaorderspec option"
  btc_RiskManagement :: "betariskmanagementspec option"
  btc_Notification :: "betanotificationspec option"
  btc_APIServer :: "betaapiserverconfig option"
  btc_Experimental :: "betaexperimentalconfig option"
  btc_Logging :: "betaloggingconfig option"

record betatradebotconfig =
  btc_meta :: objmeta
  btc_Spec :: betatradebotconfigspec
  btc_Status :: betatradebotconfigstatus

section \<open>Webhook\<close>

definition knownCredentialSecretKeys :: "string list" where
  "knownCredentialSecretKeys = [''api-key'', ''secret'', ''password'', ''uid'', ''account_id'',
     ''wallet_address'', ''private_key'']"

text \<open>\<open>spec.bot\<close> is required by the schema; without it the code would dereference nil, which ends the request
  with an error.\<close>

definition validate_BetaTradeBotConfig :: "'e api \<Rightarrow> betatradebotconfig \<Rightarrow> ('e, goerr option) op" where
  "validate_BetaTradeBotConfig A cfg = (case btc_Exchange (btc_Spec cfg) of
       None \<Rightarrow> State_Monad.return (Some (ErrString ''spec.exchange is required''))
     | Some ex \<Rightarrow> (case btc_Bot (btc_Spec cfg) of
         None \<Rightarrow> State_Monad.return (Some (ErrString ''panic: runtime error: invalid memory address or nil pointer dereference''))
       | Some b \<Rightarrow>
          (let dryRun = (bbc_DryRun b = Some True); ref = bex_SecretRef ex in
           if \<not> dryRun \<and> ref = []
           then State_Monad.return (Some (ErrString
             ''spec.exchange.secretRef is required when spec.bot.dry_run is not explicitly true''))
           else if ref = [] then State_Monad.return None
           else do {
             s \<leftarrow> do_GetSecret A \<lparr>nn_Namespace = om_Namespace (btc_meta cfg), nn_Name = ref\<rparr>;
             State_Monad.return (case s of
                 Inl e \<Rightarrow> Some (if IsNotFound e
                   then ErrString (''spec.exchange.secretRef: Secret '' @ Quote ref @ '' not found in namespace ''
                     @ Quote (om_Namespace (btc_meta cfg)))
                   else Wrap (''spec.exchange.secretRef: failed to look up Secret '' @ Quote ref @ '': '') e)
               | Inr secret \<Rightarrow>
                   if list_ex (\<lambda>k. map_of (sec_Data secret) k \<noteq> None) knownCredentialSecretKeys then None
                   else Some (ErrString (''spec.exchange.secretRef: Secret '' @ Quote ref
                     @ '' has none of the expected credential keys ('' @ Join knownCredentialSecretKeys '', '' @ '')''))) })))"

definition BetaTradeBotConfig_ValidateCreate :: "'e api \<Rightarrow> betatradebotconfig \<Rightarrow> ('e, goerr option) op" where
  "BetaTradeBotConfig_ValidateCreate A cfg = validate_BetaTradeBotConfig A cfg"

definition BetaTradeBotConfig_ValidateUpdate :: "'e api \<Rightarrow> betatradebotconfig \<Rightarrow> ('e, goerr option) op" where
  "BetaTradeBotConfig_ValidateUpdate A cfg =
    (if om_DeletionTimestamp (btc_meta cfg) \<noteq> None then State_Monad.return None else validate_BetaTradeBotConfig A cfg)"

text \<open>An admitted config has an exchange; its bot trades with real money only with a credentials Secret, and a named
  Secret was read and holds a known key.\<close>

lemma beta_config_admitted:
  "emits (validate_BetaTradeBotConfig A cfg) (\<lambda>r t. r = None \<longrightarrow> (\<exists>ex b. btc_Exchange (btc_Spec cfg) = Some ex
     \<and> btc_Bot (btc_Spec cfg) = Some b
     \<and> (if bex_SecretRef ex = [] then bbc_DryRun b = Some True
        else \<exists>s. GetSecret \<lparr>nn_Namespace = om_Namespace (btc_meta cfg), nn_Name = bex_SecretRef ex\<rparr> (Inr s) \<in> set t
          \<and> (\<exists>k \<in> set knownCredentialSecretKeys. map_of (sec_Data s) k \<noteq> None))))"
proof -
  have get: "emits (do_GetSecret A k) (\<lambda>r t. t = [GetSecret k r])" for k
    unfolding do_GetSecret_def by (rule emits_call) simp
  show ?thesis
    unfolding validate_BetaTradeBotConfig_def Let_def
    by (intro emits_intro emits_bind [OF get]) (auto simp: list_ex_iff split: sum.splits if_splits)
qed

section \<open>Conversion\<close>

record cfgconv =
  cc_BotToBeta :: "botconfig \<Rightarrow> goerr + betabotconfig"
  cc_BotFromBeta :: "betabotconfig \<Rightarrow> goerr + botconfig"
  cc_AIToBeta :: "aiconfig \<Rightarrow> goerr + betaaiconfig"
  cc_AIFromBeta :: "betaaiconfig \<Rightarrow> goerr + aiconfig"
  cc_DataToBeta :: "dataconfig \<Rightarrow> goerr + betadataconfig"
  cc_DataFromBeta :: "betadataconfig \<Rightarrow> goerr + dataconfig"
  cc_AdvancedToBeta :: "advancedconfig \<Rightarrow> goerr + betaadvancedconfig"
  cc_AdvancedFromBeta :: "betaadvancedconfig \<Rightarrow> goerr + advancedconfig"
  cc_TimeoutToBeta :: "unfilledtimeoutconfig \<Rightarrow> goerr + betaunfilledtimeoutconfig"
  cc_TimeoutFromBeta :: "betaunfilledtimeoutconfig \<Rightarrow> goerr + unfilledtimeoutconfig"
  cc_InternalsToBeta :: "internalsconfig \<Rightarrow> goerr + betainternalsconfig"
  cc_InternalsFromBeta :: "betainternalsconfig \<Rightarrow> goerr + internalsconfig"
  cc_PairlistToBeta :: "pairlistspec \<Rightarrow> goerr + betapairlistspec"
  cc_PairlistFromBeta :: "betapairlistspec \<Rightarrow> goerr + pairlistspec"
  cc_PairlistMethodToBeta :: "pairlistmethodsspec \<Rightarrow> goerr + betapairlistmethodsspec"
  cc_PairlistMethodFromBeta :: "betapairlistmethodsspec \<Rightarrow> goerr + pairlistmethodsspec"
  cc_PricingToBeta :: "pricingspec \<Rightarrow> goerr + betapricingspec"
  cc_PricingFromBeta :: "betapricingspec \<Rightarrow> goerr + pricingspec"
  cc_OrderToBeta :: "orderspec \<Rightarrow> goerr + betaorderspec"
  cc_OrderFromBeta :: "betaorderspec \<Rightarrow> goerr + orderspec"
  cc_RiskManagementToBeta :: "riskmanagementspec \<Rightarrow> goerr + betariskmanagementspec"
  cc_RiskManagementFromBeta :: "betariskmanagementspec \<Rightarrow> goerr + riskmanagementspec"
  cc_ExperimentalToBeta :: "experimentalconfig \<Rightarrow> goerr + betaexperimentalconfig"
  cc_ExperimentalFromBeta :: "betaexperimentalconfig \<Rightarrow> goerr + experimentalconfig"
  cc_LoggingToBeta :: "loggingconfig \<Rightarrow> goerr + betaloggingconfig"
  cc_LoggingFromBeta :: "betaloggingconfig \<Rightarrow> goerr + loggingconfig"
  cc_TelegramSettingsToBeta :: "notificationtelegramsettings \<Rightarrow> goerr + betanotificationtelegramsettings"
  cc_TelegramSettingsFromBeta :: "betanotificationtelegramsettings \<Rightarrow> goerr + notificationtelegramsettings"
  cc_WebhookToBeta :: "notificationwebhook \<Rightarrow> goerr + betanotificationwebhook"
  cc_WebhookFromBeta :: "betanotificationwebhook \<Rightarrow> goerr + notificationwebhook"
  cc_DiscordToBeta :: "notificationdiscord \<Rightarrow> goerr + betanotificationdiscord"
  cc_DiscordFromBeta :: "betanotificationdiscord \<Rightarrow> goerr + notificationdiscord"

definition cfg_identity :: cfgconv where
  "cfg_identity =
    \<lparr>cc_BotToBeta = (\<lambda>x. Inr (botconfig_to_beta x)), cc_BotFromBeta = (\<lambda>x. Inr (botconfig_from_beta x)),
     cc_AIToBeta = (\<lambda>x. Inr (aiconfig_to_beta x)), cc_AIFromBeta = (\<lambda>x. Inr (aiconfig_from_beta x)),
     cc_DataToBeta = (\<lambda>x. Inr (dataconfig_to_beta x)), cc_DataFromBeta = (\<lambda>x. Inr (dataconfig_from_beta x)),
     cc_AdvancedToBeta = (\<lambda>x. Inr (advancedconfig_to_beta x)), cc_AdvancedFromBeta = (\<lambda>x. Inr (advancedconfig_from_beta x)),
     cc_TimeoutToBeta = (\<lambda>x. Inr (unfilledtimeoutconfig_to_beta x)), cc_TimeoutFromBeta = (\<lambda>x. Inr (unfilledtimeoutconfig_from_beta x)),
     cc_InternalsToBeta = (\<lambda>x. Inr (internalsconfig_to_beta x)), cc_InternalsFromBeta = (\<lambda>x. Inr (internalsconfig_from_beta x)),
     cc_PairlistToBeta = (\<lambda>x. Inr (pairlistspec_to_beta x)), cc_PairlistFromBeta = (\<lambda>x. Inr (pairlistspec_from_beta x)),
     cc_PairlistMethodToBeta = (\<lambda>x. Inr (pairlistmethodsspec_to_beta x)), cc_PairlistMethodFromBeta = (\<lambda>x. Inr (pairlistmethodsspec_from_beta x)),
     cc_PricingToBeta = (\<lambda>x. Inr (pricingspec_to_beta x)), cc_PricingFromBeta = (\<lambda>x. Inr (pricingspec_from_beta x)),
     cc_OrderToBeta = (\<lambda>x. Inr (orderspec_to_beta x)), cc_OrderFromBeta = (\<lambda>x. Inr (orderspec_from_beta x)),
     cc_RiskManagementToBeta = (\<lambda>x. Inr (riskmanagementspec_to_beta x)), cc_RiskManagementFromBeta = (\<lambda>x. Inr (riskmanagementspec_from_beta x)),
     cc_ExperimentalToBeta = (\<lambda>x. Inr (experimentalconfig_to_beta x)), cc_ExperimentalFromBeta = (\<lambda>x. Inr (experimentalconfig_from_beta x)),
     cc_LoggingToBeta = (\<lambda>x. Inr (loggingconfig_to_beta x)), cc_LoggingFromBeta = (\<lambda>x. Inr (loggingconfig_from_beta x)),
     cc_TelegramSettingsToBeta = (\<lambda>x. Inr (notificationtelegramsettings_to_beta x)), cc_TelegramSettingsFromBeta = (\<lambda>x. Inr (notificationtelegramsettings_from_beta x)),
     cc_WebhookToBeta = (\<lambda>x. Inr (notificationwebhook_to_beta x)), cc_WebhookFromBeta = (\<lambda>x. Inr (notificationwebhook_from_beta x)),
     cc_DiscordToBeta = (\<lambda>x. Inr (notificationdiscord_to_beta x)), cc_DiscordFromBeta = (\<lambda>x. Inr (notificationdiscord_from_beta x))\<rparr>"

text \<open>The sections that are alike, converted in the order of the code; the first failure ends the conversion.\<close>

type_synonym simplefields = "botconfig option \<times> aiconfig option \<times> dataconfig option \<times> advancedconfig option
  \<times> unfilledtimeoutconfig option \<times> internalsconfig option \<times> pairlistspec option \<times> pairlistmethodsspec option
  \<times> pricingspec option \<times> pricingspec option \<times> orderspec option \<times> riskmanagementspec option
  \<times> experimentalconfig option \<times> loggingconfig option"

type_synonym betasimplefields = "betabotconfig option \<times> betaaiconfig option \<times> betadataconfig option \<times> betaadvancedconfig option
  \<times> betaunfilledtimeoutconfig option \<times> betainternalsconfig option \<times> betapairlistspec option \<times> betapairlistmethodsspec option
  \<times> betapricingspec option \<times> betapricingspec option \<times> betaorderspec option \<times> betariskmanagementspec option
  \<times> betaexperimentalconfig option \<times> betaloggingconfig option"

definition and_then :: "goerr + 'a \<Rightarrow> ('a \<Rightarrow> goerr + 'b) \<Rightarrow> goerr + 'b" where
  "and_then x f = (case x of Inl e \<Rightarrow> Inl e | Inr v \<Rightarrow> f v)"

definition convertSimpleSpecFieldsToBeta :: "cfgconv \<Rightarrow> tradebotconfigspec \<Rightarrow> goerr + betasimplefields" where
  "convertSimpleSpecFieldsToBeta C s =
     and_then (conv_opt (cc_BotToBeta C) ''converting spec.bot: '' (tcs_Bot s)) (\<lambda>b.
     and_then (conv_opt (cc_AIToBeta C) ''converting spec.ai: '' (tcs_AI s)) (\<lambda>ai.
     and_then (conv_opt (cc_DataToBeta C) ''converting spec.data: '' (tcs_Data s)) (\<lambda>d.
     and_then (conv_opt (cc_AdvancedToBeta C) ''converting spec.advanced: '' (tcs_Advanced s)) (\<lambda>adv.
     and_then (conv_opt (cc_TimeoutToBeta C) ''converting spec.timeout: '' (tcs_Timeout s)) (\<lambda>tmo.
     and_then (conv_opt (cc_InternalsToBeta C) ''converting spec.internals: '' (tcs_Internals s)) (\<lambda>itn.
     and_then (conv_opt (cc_PairlistToBeta C) ''converting spec.pairlist: '' (tcs_Pairlist s)) (\<lambda>pl.
     and_then (conv_opt (cc_PairlistMethodToBeta C) ''converting spec.pairlist_method: '' (tcs_PairlistMethod s)) (\<lambda>pm.
     and_then (conv_opt (cc_PricingToBeta C) ''converting spec.entry_pricing: '' (tcs_EntryPricing s)) (\<lambda>enp.
     and_then (conv_opt (cc_PricingToBeta C) ''converting spec.exit_pricing: '' (tcs_ExitPricing s)) (\<lambda>exp.
     and_then (conv_opt (cc_OrderToBeta C) ''converting spec.order: '' (tcs_Order s)) (\<lambda>ord.
     and_then (conv_opt (cc_RiskManagementToBeta C) ''converting spec.risk_management: '' (tcs_RiskManagement s)) (\<lambda>rm.
     and_then (conv_opt (cc_ExperimentalToBeta C) ''converting spec.experimental: '' (tcs_Experimental s)) (\<lambda>xp.
     and_then (conv_opt (cc_LoggingToBeta C) ''converting spec.logging: '' (tcs_Logging s)) (\<lambda>lg.
     Inr (b, ai, d, adv, tmo, itn, pl, pm, enp, exp, ord, rm, xp, lg)))))))))))))))"

definition convertSimpleSpecFieldsFromBeta :: "cfgconv \<Rightarrow> betatradebotconfigspec \<Rightarrow> goerr + simplefields" where
  "convertSimpleSpecFieldsFromBeta C s =
     and_then (conv_opt (cc_BotFromBeta C) ''converting spec.bot: '' (btc_Bot s)) (\<lambda>b.
     and_then (conv_opt (cc_AIFromBeta C) ''converting spec.ai: '' (btc_AI s)) (\<lambda>ai.
     and_then (conv_opt (cc_DataFromBeta C) ''converting spec.data: '' (btc_Data s)) (\<lambda>d.
     and_then (conv_opt (cc_AdvancedFromBeta C) ''converting spec.advanced: '' (btc_Advanced s)) (\<lambda>adv.
     and_then (conv_opt (cc_TimeoutFromBeta C) ''converting spec.timeout: '' (btc_Timeout s)) (\<lambda>tmo.
     and_then (conv_opt (cc_InternalsFromBeta C) ''converting spec.internals: '' (btc_Internals s)) (\<lambda>itn.
     and_then (conv_opt (cc_PairlistFromBeta C) ''converting spec.pairlist: '' (btc_Pairlist s)) (\<lambda>pl.
     and_then (conv_opt (cc_PairlistMethodFromBeta C) ''converting spec.pairlist_method: '' (btc_PairlistMethod s)) (\<lambda>pm.
     and_then (conv_opt (cc_PricingFromBeta C) ''converting spec.entry_pricing: '' (btc_EntryPricing s)) (\<lambda>enp.
     and_then (conv_opt (cc_PricingFromBeta C) ''converting spec.exit_pricing: '' (btc_ExitPricing s)) (\<lambda>exp.
     and_then (conv_opt (cc_OrderFromBeta C) ''converting spec.order: '' (btc_Order s)) (\<lambda>ord.
     and_then (conv_opt (cc_RiskManagementFromBeta C) ''converting spec.risk_management: '' (btc_RiskManagement s)) (\<lambda>rm.
     and_then (conv_opt (cc_ExperimentalFromBeta C) ''converting spec.experimental: '' (btc_Experimental s)) (\<lambda>xp.
     and_then (conv_opt (cc_LoggingFromBeta C) ''converting spec.logging: '' (btc_Logging s)) (\<lambda>lg.
     Inr (b, ai, d, adv, tmo, itn, pl, pm, enp, exp, ord, rm, xp, lg)))))))))))))))"

definition convertExchangeSpecToBeta :: "cfgconv \<Rightarrow> exchangespec \<Rightarrow> goerr + betaexchangespec" where
  "convertExchangeSpecToBeta C e =
     and_then (conv_opt (cc_PairlistToBeta C) ''converting whitelist: '' (ex_Whitelist e)) (\<lambda>wl.
     and_then (conv_opt (cc_PairlistToBeta C) ''converting blacklist: '' (ex_Blacklist e)) (\<lambda>bl.
     Inr \<lparr>bex_Name = ex_Name e, bex_AccountID = ex_AccountID e, bex_SecretRef = ex_SecretRef e,
       bex_CcxtConfig = ex_CcxtConfig e, bex_CcxtAsyncConfig = ex_CcxtAsyncConfig e, bex_CcxtSyncConfig = ex_CcxtSyncConfig e,
       bex_Whitelist = wl, bex_Blacklist = bl, bex_LogResponses = ex_LogResponses e, bex_EnableWS = ex_EnableWS e,
       bex_UnknownFeeRate = ex_UnkownFeeRate e, bex_OutdatedOffset = ex_OutdatedOffset e,
       bex_MarketRefreshInterval = ex_MarketRefreshInterval e\<rparr>))"

definition convertExchangeSpecFromBeta :: "cfgconv \<Rightarrow> betaexchangespec \<Rightarrow> goerr + exchangespec" where
  "convertExchangeSpecFromBeta C e =
     and_then (conv_opt (cc_PairlistFromBeta C) ''converting whitelist: '' (bex_Whitelist e)) (\<lambda>wl.
     and_then (conv_opt (cc_PairlistFromBeta C) ''converting blacklist: '' (bex_Blacklist e)) (\<lambda>bl.
     Inr \<lparr>ex_Name = bex_Name e, ex_Key = [], ex_Secret = [], ex_Password = [], ex_UID = [], ex_AccountID = bex_AccountID e,
       ex_WalletAddress = [], ex_PrivateKey = [], ex_SecretRef = bex_SecretRef e, ex_CcxtConfig = bex_CcxtConfig e,
       ex_CcxtAsyncConfig = bex_CcxtAsyncConfig e, ex_CcxtSyncConfig = bex_CcxtSyncConfig e, ex_Whitelist = wl,
       ex_Blacklist = bl, ex_LogResponses = bex_LogResponses e, ex_EnableWS = bex_EnableWS e,
       ex_UnkownFeeRate = bex_UnknownFeeRate e, ex_OutdatedOffset = bex_OutdatedOffset e,
       ex_MarketRefreshInterval = bex_MarketRefreshInterval e\<rparr>))"

definition apiserver_to_beta :: "apiserverconfig \<Rightarrow> betaapiserverconfig" where
  "apiserver_to_beta a = \<lparr>bas_Enabled = as_Enabled a, bas_ListenIP = as_ListenIP a, bas_ListenPort = as_ListenPort a,
     bas_Verbosity = as_Verbosity a, bas_EnableOpenAPI = as_EnableOpenAPI a, bas_Username = as_Username a,
     bas_SecretRef = as_SecretRef a, bas_CORSOrigins = as_CORSOrigins a\<rparr>"

definition apiserver_from_beta :: "betaapiserverconfig \<Rightarrow> apiserverconfig" where
  "apiserver_from_beta a = \<lparr>as_Enabled = bas_Enabled a, as_ListenIP = bas_ListenIP a, as_ListenPort = bas_ListenPort a,
     as_Verbosity = bas_Verbosity a, as_EnableOpenAPI = bas_EnableOpenAPI a, as_Username = bas_Username a,
     as_Password = [], as_JWTSecretKey = [], as_SecretRef = bas_SecretRef a, as_CORSOrigins = bas_CORSOrigins a\<rparr>"

definition telegram_to_beta :: "cfgconv \<Rightarrow> notificationtelegram \<Rightarrow> goerr + betanotificationtelegram" where
  "telegram_to_beta C t =
     and_then (conv_opt (cc_TelegramSettingsToBeta C) ''converting telegram.settings: '' (tg_Settings t)) (\<lambda>st.
     Inr \<lparr>btg_Enabled = tg_Enabled t, btg_SecretRef = tg_SecretRef t, btg_BalanceDustLevel = tg_BalanceDustLevel t,
       btg_Reload = tg_Reload t, btg_AllowCustomMessages = tg_AllowCustomMessages t, btg_ChatID = tg_ChatID t,
       btg_TopicID = tg_TopicID t, btg_AuthorizedUsers = tg_AuthorizedUsers t, btg_Settings = st\<rparr>)"

definition telegram_from_beta :: "cfgconv \<Rightarrow> betanotificationtelegram \<Rightarrow> goerr + notificationtelegram" where
  "telegram_from_beta C t =
     and_then (conv_opt (cc_TelegramSettingsFromBeta C) ''converting telegram.settings: '' (btg_Settings t)) (\<lambda>st.
     Inr \<lparr>tg_Enabled = btg_Enabled t, tg_Token = [], tg_SecretRef = btg_SecretRef t,
       tg_BalanceDustLevel = btg_BalanceDustLevel t, tg_Reload = btg_Reload t,
       tg_AllowCustomMessages = btg_AllowCustomMessages t, tg_ChatID = btg_ChatID t, tg_TopicID = btg_TopicID t,
       tg_AuthorizedUsers = btg_AuthorizedUsers t, tg_Settings = st\<rparr>)"

text \<open>A pointer to a part whose own conversion words its errors.\<close>

definition opt_then :: "('a \<Rightarrow> goerr + 'b) \<Rightarrow> 'a option \<Rightarrow> goerr + 'b option" where
  "opt_then f x = (case x of None \<Rightarrow> Inr None | Some v \<Rightarrow> and_then (f v) (\<lambda>y. Inr (Some y)))"

definition convertNotificationSpecToBeta :: "cfgconv \<Rightarrow> notificationspec \<Rightarrow> goerr + betanotificationspec" where
  "convertNotificationSpecToBeta C n =
     and_then (opt_then (telegram_to_beta C) (nt_Telegram n)) (\<lambda>tg.
     and_then (conv_opt (cc_WebhookToBeta C) ''converting webhook: '' (nt_Webhook n)) (\<lambda>wh.
     and_then (conv_opt (cc_DiscordToBeta C) ''converting discord: '' (nt_Discord n)) (\<lambda>di.
     Inr \<lparr>bnt_Telegram = tg, bnt_Webhook = wh, bnt_Discord = di\<rparr>)))"

definition convertNotificationSpecFromBeta :: "cfgconv \<Rightarrow> betanotificationspec \<Rightarrow> goerr + notificationspec" where
  "convertNotificationSpecFromBeta C n =
     and_then (opt_then (telegram_from_beta C) (bnt_Telegram n)) (\<lambda>tg.
     and_then (conv_opt (cc_WebhookFromBeta C) ''converting webhook: '' (bnt_Webhook n)) (\<lambda>wh.
     and_then (conv_opt (cc_DiscordFromBeta C) ''converting discord: '' (bnt_Discord n)) (\<lambda>di.
     Inr \<lparr>nt_Telegram = tg, nt_Webhook = wh, nt_Discord = di\<rparr>)))"

definition TradeBotConfig_ConvertTo :: "cfgconv \<Rightarrow> tradebotconfig \<Rightarrow> goerr + betatradebotconfig" where
  "TradeBotConfig_ConvertTo C c =
    (let paths = plaintextCredentialFields (tc_Spec c); s = tc_Spec c in
     if paths \<noteq> []
     then Inl (ErrString (''TradeBotConfig '' @ om_Namespace (tc_meta c) @ ''/'' @ om_Name (tc_meta c)
       @ '' sets deprecated plaintext credential field(s) ['' @ Join paths '', '' @ ''] - v1beta1 has no field for ''
       @ ''these at all; move the value(s) into a Secret and set the corresponding secretRef before converting''))
     else and_then (convertSimpleSpecFieldsToBeta C s) (\<lambda>(b, ai, d, adv, tmo, itn, pl, pm, enp, exp, ord, rm, xp, lg).
       and_then (conv_opt (convertExchangeSpecToBeta C) ''converting spec.exchange: '' (tcs_Exchange s)) (\<lambda>ex.
       and_then (conv_opt (convertNotificationSpecToBeta C) ''converting spec.notification: '' (tcs_Notification s)) (\<lambda>nt.
       Inr \<lparr>btc_meta = tc_meta c,
         btc_Spec = \<lparr>btc_Bot = b, btc_AI = ai, btc_Data = d, btc_Advanced = adv, btc_Timeout = tmo, btc_Internals = itn,
           btc_Exchange = ex, btc_Pairlist = pl, btc_PairlistMethod = pm, btc_EntryPricing = enp, btc_ExitPricing = exp,
           btc_Order = ord, btc_RiskManagement = rm, btc_Notification = nt,
           btc_APIServer = map_option apiserver_to_beta (tcs_APIServer s), btc_Experimental = xp, btc_Logging = lg\<rparr>,
         btc_Status = \<lparr>btcst_Phase = tcst_Phase (tc_Status c), btcst_Message = tcst_Message (tc_Status c),
           btcst_Conditions = tcst_Conditions (tc_Status c),
           btcst_ObservedGeneration = tcst_ObservedGeneration (tc_Status c)\<rparr>\<rparr>))))"

definition TradeBotConfig_ConvertFrom :: "cfgconv \<Rightarrow> betatradebotconfig \<Rightarrow> goerr + tradebotconfig" where
  "TradeBotConfig_ConvertFrom C src =
    (let s = btc_Spec src in
     and_then (convertSimpleSpecFieldsFromBeta C s) (\<lambda>(b, ai, d, adv, tmo, itn, pl, pm, enp, exp, ord, rm, xp, lg).
     and_then (conv_opt (convertExchangeSpecFromBeta C) ''converting spec.exchange: '' (btc_Exchange s)) (\<lambda>ex.
     and_then (conv_opt (convertNotificationSpecFromBeta C) ''converting spec.notification: '' (btc_Notification s)) (\<lambda>nt.
     Inr \<lparr>tc_meta = btc_meta src,
       tc_Spec = \<lparr>tcs_Bot = b, tcs_AI = ai, tcs_Data = d, tcs_Advanced = adv, tcs_Timeout = tmo, tcs_Internals = itn,
         tcs_Exchange = ex, tcs_Pairlist = pl, tcs_PairlistMethod = pm, tcs_EntryPricing = enp, tcs_ExitPricing = exp,
         tcs_Order = ord, tcs_RiskManagement = rm, tcs_Notification = nt,
         tcs_APIServer = map_option apiserver_from_beta (btc_APIServer s), tcs_Experimental = xp, tcs_Logging = lg\<rparr>,
       tc_Status = \<lparr>tcst_Phase = btcst_Phase (btc_Status src), tcst_Message = btcst_Message (btc_Status src),
         tcst_Conditions = btcst_Conditions (btc_Status src),
         tcst_ObservedGeneration = btcst_ObservedGeneration (btc_Status src)\<rparr>\<rparr>))))"

section \<open>Round trips\<close>

text \<open>What the conversions rely on: JSON tags that match carry every field of a section over.\<close>

definition cfg_passthrough :: "cfgconv \<Rightarrow> bool" where
  "cfg_passthrough C \<longleftrightarrow>
     (\<forall>x. cc_BotToBeta C x = Inr (botconfig_to_beta x)) \<and> (\<forall>x. cc_BotFromBeta C x = Inr (botconfig_from_beta x))
     \<and> (\<forall>x. cc_AIToBeta C x = Inr (aiconfig_to_beta x)) \<and> (\<forall>x. cc_AIFromBeta C x = Inr (aiconfig_from_beta x))
     \<and> (\<forall>x. cc_DataToBeta C x = Inr (dataconfig_to_beta x)) \<and> (\<forall>x. cc_DataFromBeta C x = Inr (dataconfig_from_beta x))
     \<and> (\<forall>x. cc_AdvancedToBeta C x = Inr (advancedconfig_to_beta x)) \<and> (\<forall>x. cc_AdvancedFromBeta C x = Inr (advancedconfig_from_beta x))
     \<and> (\<forall>x. cc_TimeoutToBeta C x = Inr (unfilledtimeoutconfig_to_beta x)) \<and> (\<forall>x. cc_TimeoutFromBeta C x = Inr (unfilledtimeoutconfig_from_beta x))
     \<and> (\<forall>x. cc_InternalsToBeta C x = Inr (internalsconfig_to_beta x)) \<and> (\<forall>x. cc_InternalsFromBeta C x = Inr (internalsconfig_from_beta x))
     \<and> (\<forall>x. cc_PairlistToBeta C x = Inr (pairlistspec_to_beta x)) \<and> (\<forall>x. cc_PairlistFromBeta C x = Inr (pairlistspec_from_beta x))
     \<and> (\<forall>x. cc_PairlistMethodToBeta C x = Inr (pairlistmethodsspec_to_beta x)) \<and> (\<forall>x. cc_PairlistMethodFromBeta C x = Inr (pairlistmethodsspec_from_beta x))
     \<and> (\<forall>x. cc_PricingToBeta C x = Inr (pricingspec_to_beta x)) \<and> (\<forall>x. cc_PricingFromBeta C x = Inr (pricingspec_from_beta x))
     \<and> (\<forall>x. cc_OrderToBeta C x = Inr (orderspec_to_beta x)) \<and> (\<forall>x. cc_OrderFromBeta C x = Inr (orderspec_from_beta x))
     \<and> (\<forall>x. cc_RiskManagementToBeta C x = Inr (riskmanagementspec_to_beta x)) \<and> (\<forall>x. cc_RiskManagementFromBeta C x = Inr (riskmanagementspec_from_beta x))
     \<and> (\<forall>x. cc_ExperimentalToBeta C x = Inr (experimentalconfig_to_beta x)) \<and> (\<forall>x. cc_ExperimentalFromBeta C x = Inr (experimentalconfig_from_beta x))
     \<and> (\<forall>x. cc_LoggingToBeta C x = Inr (loggingconfig_to_beta x)) \<and> (\<forall>x. cc_LoggingFromBeta C x = Inr (loggingconfig_from_beta x))
     \<and> (\<forall>x. cc_TelegramSettingsToBeta C x = Inr (notificationtelegramsettings_to_beta x)) \<and> (\<forall>x. cc_TelegramSettingsFromBeta C x = Inr (notificationtelegramsettings_from_beta x))
     \<and> (\<forall>x. cc_WebhookToBeta C x = Inr (notificationwebhook_to_beta x)) \<and> (\<forall>x. cc_WebhookFromBeta C x = Inr (notificationwebhook_from_beta x))
     \<and> (\<forall>x. cc_DiscordToBeta C x = Inr (notificationdiscord_to_beta x)) \<and> (\<forall>x. cc_DiscordFromBeta C x = Inr (notificationdiscord_from_beta x))"

lemma identity_cfg_passthrough: "cfg_passthrough cfg_identity"
  by (simp add: cfg_passthrough_def cfg_identity_def)

lemma and_then_Inr [simp]: "and_then (Inr x) f = f x" "and_then (Inl e) f = Inl e"
  by (simp_all add: and_then_def)

lemma conv_opt_map: "(\<And>v. f v = Inr (g v)) \<Longrightarrow> conv_opt f m x = Inr (map_option g x)"
  by (simp add: conv_opt_def split: option.split)

lemma cfg_passthrough_conv:
  assumes "cfg_passthrough C"
  shows "conv_opt (cc_BotToBeta C) m xBot = Inr (map_option botconfig_to_beta xBot)"
    "conv_opt (cc_BotFromBeta C) m yBot = Inr (map_option botconfig_from_beta yBot)"
    "conv_opt (cc_AIToBeta C) m xAI = Inr (map_option aiconfig_to_beta xAI)"
    "conv_opt (cc_AIFromBeta C) m yAI = Inr (map_option aiconfig_from_beta yAI)"
    "conv_opt (cc_DataToBeta C) m xData = Inr (map_option dataconfig_to_beta xData)"
    "conv_opt (cc_DataFromBeta C) m yData = Inr (map_option dataconfig_from_beta yData)"
    "conv_opt (cc_AdvancedToBeta C) m xAdvanced = Inr (map_option advancedconfig_to_beta xAdvanced)"
    "conv_opt (cc_AdvancedFromBeta C) m yAdvanced = Inr (map_option advancedconfig_from_beta yAdvanced)"
    "conv_opt (cc_TimeoutToBeta C) m xTimeout = Inr (map_option unfilledtimeoutconfig_to_beta xTimeout)"
    "conv_opt (cc_TimeoutFromBeta C) m yTimeout = Inr (map_option unfilledtimeoutconfig_from_beta yTimeout)"
    "conv_opt (cc_InternalsToBeta C) m xInternals = Inr (map_option internalsconfig_to_beta xInternals)"
    "conv_opt (cc_InternalsFromBeta C) m yInternals = Inr (map_option internalsconfig_from_beta yInternals)"
    "conv_opt (cc_PairlistToBeta C) m xPairlist = Inr (map_option pairlistspec_to_beta xPairlist)"
    "conv_opt (cc_PairlistFromBeta C) m yPairlist = Inr (map_option pairlistspec_from_beta yPairlist)"
    "conv_opt (cc_PairlistMethodToBeta C) m xPairlistMethod = Inr (map_option pairlistmethodsspec_to_beta xPairlistMethod)"
    "conv_opt (cc_PairlistMethodFromBeta C) m yPairlistMethod = Inr (map_option pairlistmethodsspec_from_beta yPairlistMethod)"
    "conv_opt (cc_PricingToBeta C) m xPricing = Inr (map_option pricingspec_to_beta xPricing)"
    "conv_opt (cc_PricingFromBeta C) m yPricing = Inr (map_option pricingspec_from_beta yPricing)"
    "conv_opt (cc_OrderToBeta C) m xOrder = Inr (map_option orderspec_to_beta xOrder)"
    "conv_opt (cc_OrderFromBeta C) m yOrder = Inr (map_option orderspec_from_beta yOrder)"
    "conv_opt (cc_RiskManagementToBeta C) m xRiskManagement = Inr (map_option riskmanagementspec_to_beta xRiskManagement)"
    "conv_opt (cc_RiskManagementFromBeta C) m yRiskManagement = Inr (map_option riskmanagementspec_from_beta yRiskManagement)"
    "conv_opt (cc_ExperimentalToBeta C) m xExperimental = Inr (map_option experimentalconfig_to_beta xExperimental)"
    "conv_opt (cc_ExperimentalFromBeta C) m yExperimental = Inr (map_option experimentalconfig_from_beta yExperimental)"
    "conv_opt (cc_LoggingToBeta C) m xLogging = Inr (map_option loggingconfig_to_beta xLogging)"
    "conv_opt (cc_LoggingFromBeta C) m yLogging = Inr (map_option loggingconfig_from_beta yLogging)"
    "conv_opt (cc_TelegramSettingsToBeta C) m xTelegramSettings = Inr (map_option notificationtelegramsettings_to_beta xTelegramSettings)"
    "conv_opt (cc_TelegramSettingsFromBeta C) m yTelegramSettings = Inr (map_option notificationtelegramsettings_from_beta yTelegramSettings)"
    "conv_opt (cc_WebhookToBeta C) m xWebhook = Inr (map_option notificationwebhook_to_beta xWebhook)"
    "conv_opt (cc_WebhookFromBeta C) m yWebhook = Inr (map_option notificationwebhook_from_beta yWebhook)"
    "conv_opt (cc_DiscordToBeta C) m xDiscord = Inr (map_option notificationdiscord_to_beta xDiscord)"
    "conv_opt (cc_DiscordFromBeta C) m yDiscord = Inr (map_option notificationdiscord_from_beta yDiscord)"
  using assms by (simp_all add: cfg_passthrough_def conv_opt_map)

text \<open>Without a plaintext credential the v1alpha1 form of a section is the one its v1beta1 form converts to.\<close>

lemma exchange_conv:
  assumes "cfg_passthrough C"
  shows "\<exists>b. convertExchangeSpecToBeta C e = Inr b"
    and "\<exists>a. convertExchangeSpecFromBeta C b = Inr a"
    and "convertExchangeSpecFromBeta C b = Inr a \<Longrightarrow> convertExchangeSpecToBeta C a = Inr b
      \<and> ex_Key a = [] \<and> ex_Secret a = [] \<and> ex_Password a = [] \<and> ex_UID a = [] \<and> ex_WalletAddress a = []
      \<and> ex_PrivateKey a = []"
    and "convertExchangeSpecToBeta C e = Inr b \<Longrightarrow> ex_Key e = [] \<Longrightarrow> ex_Secret e = [] \<Longrightarrow> ex_Password e = []
      \<Longrightarrow> ex_UID e = [] \<Longrightarrow> ex_WalletAddress e = [] \<Longrightarrow> ex_PrivateKey e = [] \<Longrightarrow> convertExchangeSpecFromBeta C b = Inr e"
  using assms
  by (auto simp: convertExchangeSpecFromBeta_def convertExchangeSpecToBeta_def cfg_passthrough_conv sections_same)

lemma notification_conv:
  assumes "cfg_passthrough C"
  shows "\<exists>b. convertNotificationSpecToBeta C n = Inr b"
    and "\<exists>a. convertNotificationSpecFromBeta C b = Inr a"
    and "convertNotificationSpecFromBeta C b = Inr a \<Longrightarrow> convertNotificationSpecToBeta C a = Inr b
      \<and> (\<forall>t. nt_Telegram a = Some t \<longrightarrow> tg_Token t = [])"
    and "convertNotificationSpecToBeta C n = Inr b \<Longrightarrow> (\<forall>t. nt_Telegram n = Some t \<longrightarrow> tg_Token t = [])
      \<Longrightarrow> convertNotificationSpecFromBeta C b = Inr n"
  using assms
  by (auto simp: convertNotificationSpecFromBeta_def convertNotificationSpecToBeta_def opt_then_def telegram_to_beta_def
      telegram_from_beta_def cfg_passthrough_conv sections_same split: option.splits)

lemma apiserver_conv:
  "apiserver_to_beta (apiserver_from_beta b) = b"
  "as_Password (apiserver_from_beta b) = []" "as_JWTSecretKey (apiserver_from_beta b) = []"
  "as_Password a = [] \<Longrightarrow> as_JWTSecretKey a = [] \<Longrightarrow> apiserver_from_beta (apiserver_to_beta a) = a"
  by (simp_all add: apiserver_to_beta_def apiserver_from_beta_def)

text \<open>The check of \<open>ConvertTo\<close>, section by section.\<close>

definition plain_exchange :: "exchangespec \<Rightarrow> bool" where
  "plain_exchange e \<longleftrightarrow> ex_Key e = [] \<and> ex_Secret e = [] \<and> ex_Password e = [] \<and> ex_UID e = [] \<and> ex_WalletAddress e = []
     \<and> ex_PrivateKey e = []"

definition plain_notification :: "notificationspec \<Rightarrow> bool" where
  "plain_notification n \<longleftrightarrow> (\<forall>t. nt_Telegram n = Some t \<longrightarrow> tg_Token t = [])"

definition plain_apiserver :: "apiserverconfig \<Rightarrow> bool" where
  "plain_apiserver a \<longleftrightarrow> as_Password a = [] \<and> as_JWTSecretKey a = []"

lemma no_plaintext_sections:
  "plaintextCredentialFields s = [] \<longleftrightarrow> pred_option plain_exchange (tcs_Exchange s)
     \<and> pred_option plain_apiserver (tcs_APIServer s) \<and> pred_option plain_notification (tcs_Notification s)"
  by (auto simp: plaintextCredentialFields_def if_set_def plain_exchange_def plain_apiserver_def plain_notification_def
      split: option.split Option.bind_splits if_splits)

text \<open>A section converts when its two conversions are inverse on what has no plaintext credential.\<close>

lemma section_back:
  assumes "conv_opt up m x = Inr y" "pred_option P x" and "\<And>a b. up a = Inr b \<Longrightarrow> P a \<Longrightarrow> dn b = Inr a"
  shows "conv_opt dn m' y = Inr x"
  using assms by (auto simp: conv_opt_def split: option.splits sum.splits)

lemma section_forth:
  assumes "conv_opt dn m y = Inr x" and "\<And>a b. dn b = Inr a \<Longrightarrow> up a = Inr b \<and> P a"
  shows "conv_opt up m' x = Inr y \<and> pred_option P x"
  using assms by (auto simp: conv_opt_def split: option.splits sum.splits)

lemma section_total: "(\<And>a. \<exists>b. f a = Inr b) \<Longrightarrow> \<exists>y. conv_opt f m x = Inr y"
  by (cases x) (auto simp: conv_opt_def split: sum.split, metis sum.distinct(1))

lemma apiserver_forth:
  "map_option apiserver_to_beta (map_option apiserver_from_beta b) = b"
  "pred_option plain_apiserver (map_option apiserver_from_beta b)"
  by (cases b; simp add: apiserver_conv plain_apiserver_def)+

lemma apiserver_back:
  "pred_option plain_apiserver a \<Longrightarrow> map_option apiserver_from_beta (map_option apiserver_to_beta a) = a"
  by (cases a) (simp_all add: apiserver_conv plain_apiserver_def)

lemma TradeBotConfig_ConvertTo_eq:
  assumes C: "cfg_passthrough C"
  shows "TradeBotConfig_ConvertTo C c = Inr b \<longleftrightarrow> plaintextCredentialFields (tc_Spec c) = []
    \<and> btc_meta b = tc_meta c \<and> btc_Status b = tradebotconfigstatus_to_beta (tc_Status c)
    \<and> btc_Bot (btc_Spec b) = map_option botconfig_to_beta (tcs_Bot (tc_Spec c)) \<and> btc_AI (btc_Spec b) = map_option aiconfig_to_beta (tcs_AI (tc_Spec c))
    \<and> btc_Data (btc_Spec b) = map_option dataconfig_to_beta (tcs_Data (tc_Spec c)) \<and> btc_Advanced (btc_Spec b) = map_option advancedconfig_to_beta (tcs_Advanced (tc_Spec c))
    \<and> btc_Timeout (btc_Spec b) = map_option unfilledtimeoutconfig_to_beta (tcs_Timeout (tc_Spec c)) \<and> btc_Internals (btc_Spec b) = map_option internalsconfig_to_beta (tcs_Internals (tc_Spec c))
    \<and> btc_Pairlist (btc_Spec b) = map_option pairlistspec_to_beta (tcs_Pairlist (tc_Spec c)) \<and> btc_PairlistMethod (btc_Spec b) = map_option pairlistmethodsspec_to_beta (tcs_PairlistMethod (tc_Spec c))
    \<and> btc_EntryPricing (btc_Spec b) = map_option pricingspec_to_beta (tcs_EntryPricing (tc_Spec c)) \<and> btc_ExitPricing (btc_Spec b) = map_option pricingspec_to_beta (tcs_ExitPricing (tc_Spec c))
    \<and> btc_Order (btc_Spec b) = map_option orderspec_to_beta (tcs_Order (tc_Spec c)) \<and> btc_RiskManagement (btc_Spec b) = map_option riskmanagementspec_to_beta (tcs_RiskManagement (tc_Spec c))
    \<and> btc_Experimental (btc_Spec b) = map_option experimentalconfig_to_beta (tcs_Experimental (tc_Spec c)) \<and> btc_Logging (btc_Spec b) = map_option loggingconfig_to_beta (tcs_Logging (tc_Spec c))
    \<and> btc_APIServer (btc_Spec b) = map_option apiserver_to_beta (tcs_APIServer (tc_Spec c))
    \<and> conv_opt (convertExchangeSpecToBeta C) ''converting spec.exchange: '' (tcs_Exchange (tc_Spec c))
        = Inr (btc_Exchange (btc_Spec b))
    \<and> conv_opt (convertNotificationSpecToBeta C) ''converting spec.notification: '' (tcs_Notification (tc_Spec c))
        = Inr (btc_Notification (btc_Spec b))"
  by (cases "conv_opt (convertExchangeSpecToBeta C) ''converting spec.exchange: '' (tcs_Exchange (tc_Spec c))";
      cases "conv_opt (convertNotificationSpecToBeta C) ''converting spec.notification: '' (tcs_Notification (tc_Spec c))")
    (auto simp: TradeBotConfig_ConvertTo_def Let_def convertSimpleSpecFieldsToBeta_def cfg_passthrough_conv [OF C]
      tradebotconfigstatus_to_beta_def
      intro!: betatradebotconfig.equality betatradebotconfigspec.equality)

lemma TradeBotConfig_ConvertFrom_eq:
  assumes C: "cfg_passthrough C"
  shows "TradeBotConfig_ConvertFrom C b = Inr c \<longleftrightarrow>
    tc_meta c = btc_meta b \<and> tc_Status c = tradebotconfigstatus_from_beta (btc_Status b)
    \<and> tcs_Bot (tc_Spec c) = map_option botconfig_from_beta (btc_Bot (btc_Spec b)) \<and> tcs_AI (tc_Spec c) = map_option aiconfig_from_beta (btc_AI (btc_Spec b))
    \<and> tcs_Data (tc_Spec c) = map_option dataconfig_from_beta (btc_Data (btc_Spec b)) \<and> tcs_Advanced (tc_Spec c) = map_option advancedconfig_from_beta (btc_Advanced (btc_Spec b))
    \<and> tcs_Timeout (tc_Spec c) = map_option unfilledtimeoutconfig_from_beta (btc_Timeout (btc_Spec b)) \<and> tcs_Internals (tc_Spec c) = map_option internalsconfig_from_beta (btc_Internals (btc_Spec b))
    \<and> tcs_Pairlist (tc_Spec c) = map_option pairlistspec_from_beta (btc_Pairlist (btc_Spec b)) \<and> tcs_PairlistMethod (tc_Spec c) = map_option pairlistmethodsspec_from_beta (btc_PairlistMethod (btc_Spec b))
    \<and> tcs_EntryPricing (tc_Spec c) = map_option pricingspec_from_beta (btc_EntryPricing (btc_Spec b)) \<and> tcs_ExitPricing (tc_Spec c) = map_option pricingspec_from_beta (btc_ExitPricing (btc_Spec b))
    \<and> tcs_Order (tc_Spec c) = map_option orderspec_from_beta (btc_Order (btc_Spec b)) \<and> tcs_RiskManagement (tc_Spec c) = map_option riskmanagementspec_from_beta (btc_RiskManagement (btc_Spec b))
    \<and> tcs_Experimental (tc_Spec c) = map_option experimentalconfig_from_beta (btc_Experimental (btc_Spec b)) \<and> tcs_Logging (tc_Spec c) = map_option loggingconfig_from_beta (btc_Logging (btc_Spec b))
    \<and> tcs_APIServer (tc_Spec c) = map_option apiserver_from_beta (btc_APIServer (btc_Spec b))
    \<and> conv_opt (convertExchangeSpecFromBeta C) ''converting spec.exchange: '' (btc_Exchange (btc_Spec b))
        = Inr (tcs_Exchange (tc_Spec c))
    \<and> conv_opt (convertNotificationSpecFromBeta C) ''converting spec.notification: '' (btc_Notification (btc_Spec b))
        = Inr (tcs_Notification (tc_Spec c))"
  by (cases "conv_opt (convertExchangeSpecFromBeta C) ''converting spec.exchange: '' (btc_Exchange (btc_Spec b))";
      cases "conv_opt (convertNotificationSpecFromBeta C) ''converting spec.notification: '' (btc_Notification (btc_Spec b))")
    (auto simp: TradeBotConfig_ConvertFrom_def Let_def convertSimpleSpecFieldsFromBeta_def cfg_passthrough_conv [OF C]
      tradebotconfigstatus_from_beta_def
      intro!: tradebotconfig.equality tradebotconfigspec.equality)

lemma TradeBotConfig_converter:
  assumes C: "cfg_passthrough C"
  shows "converter (TradeBotConfig_ConvertTo C) (TradeBotConfig_ConvertFrom C)
    (\<lambda>c. plaintextCredentialFields (tc_Spec c) = []) (\<lambda>c. c) (\<lambda>b. b)"
proof
  fix c :: tradebotconfig and b :: betatradebotconfig
  obtain ex nt where *: "conv_opt (convertExchangeSpecToBeta C) ''converting spec.exchange: '' (tcs_Exchange (tc_Spec c)) = Inr ex"
      "conv_opt (convertNotificationSpecToBeta C) ''converting spec.notification: '' (tcs_Notification (tc_Spec c)) = Inr nt"
    using section_total [of "convertExchangeSpecToBeta C"] exchange_conv(1) [OF C]
      section_total [of "convertNotificationSpecToBeta C"] notification_conv(1) [OF C] by blast
  show "plaintextCredentialFields (tc_Spec c) = [] \<longleftrightarrow> (\<exists>b. TradeBotConfig_ConvertTo C c = Inr b)"
    by (auto simp: TradeBotConfig_ConvertTo_def Let_def convertSimpleSpecFieldsToBeta_def cfg_passthrough_conv [OF C] *)
  obtain ex nt where *: "conv_opt (convertExchangeSpecFromBeta C) ''converting spec.exchange: '' (btc_Exchange (btc_Spec b)) = Inr ex"
      "conv_opt (convertNotificationSpecFromBeta C) ''converting spec.notification: '' (btc_Notification (btc_Spec b)) = Inr nt"
    using section_total [of "convertExchangeSpecFromBeta C"] exchange_conv(2) [OF C]
      section_total [of "convertNotificationSpecFromBeta C"] notification_conv(2) [OF C] by blast
  show "\<exists>c. TradeBotConfig_ConvertFrom C b = Inr c"
    by (auto simp: TradeBotConfig_ConvertFrom_def Let_def convertSimpleSpecFieldsFromBeta_def cfg_passthrough_conv [OF C] *)
  show "TradeBotConfig_ConvertFrom C b = Inr c" if "TradeBotConfig_ConvertTo C c = Inr b"
    using that section_back [of "convertExchangeSpecToBeta C" "''converting spec.exchange: ''" "tcs_Exchange (tc_Spec c)" "btc_Exchange (btc_Spec b)"
        plain_exchange "convertExchangeSpecFromBeta C" "''converting spec.exchange: ''"]
      section_back [of "convertNotificationSpecToBeta C" "''converting spec.notification: ''" "tcs_Notification (tc_Spec c)" "btc_Notification (btc_Spec b)"
        plain_notification "convertNotificationSpecFromBeta C" "''converting spec.notification: ''"]
    by (simp add: TradeBotConfig_ConvertTo_eq [OF C] TradeBotConfig_ConvertFrom_eq [OF C] no_plaintext_sections
        sections_same apiserver_back exchange_conv(4) [OF C] notification_conv(4) [OF C] plain_exchange_def plain_notification_def)
  show "TradeBotConfig_ConvertTo C c = Inr b" if "TradeBotConfig_ConvertFrom C b = Inr c"
    using that section_forth [of "convertExchangeSpecFromBeta C" "''converting spec.exchange: ''" "btc_Exchange (btc_Spec b)" "tcs_Exchange (tc_Spec c)"
        "convertExchangeSpecToBeta C" plain_exchange "''converting spec.exchange: ''"]
      section_forth [of "convertNotificationSpecFromBeta C" "''converting spec.notification: ''" "btc_Notification (btc_Spec b)" "tcs_Notification (tc_Spec c)"
        "convertNotificationSpecToBeta C" plain_notification "''converting spec.notification: ''"]
    by (simp add: TradeBotConfig_ConvertTo_eq [OF C] TradeBotConfig_ConvertFrom_eq [OF C] no_plaintext_sections
        sections_same apiserver_forth exchange_conv(3) [OF C] notification_conv(3) [OF C] plain_exchange_def plain_notification_def)
qed

lemma TradeBotConfig_stored_roundtrip:
  assumes "cfg_passthrough C"
  shows "\<exists>c. TradeBotConfig_ConvertFrom C b = Inr c \<and> TradeBotConfig_ConvertTo C c = Inr b"
  using converter.down_total [OF TradeBotConfig_converter [OF assms], of b]
    converter.down_up [OF TradeBotConfig_converter [OF assms]] by blast

interpretation tcconv: converter "TradeBotConfig_ConvertTo cfg_identity" "TradeBotConfig_ConvertFrom cfg_identity"
  "\<lambda>c. plaintextCredentialFields (tc_Spec c) = []" "\<lambda>c. c" "\<lambda>b. b"
  by (rule TradeBotConfig_converter [OF identity_cfg_passthrough])

end
