(* ===== verification/TradeBotDeletion.thy ===== *)
theory TradeBotDeletion
  imports TradeBotReconcile
begin

text \<open>Progress of a deletion: a TradeBot whose grace period is over is released by one reconcile, whatever its
  workload and its volume do, as long as the API server answers. The counterpart of
  \<open>TradeBotReconcile\<close>, which shows that it is not released earlier.\<close>

section \<open>Answers in a known range\<close>

lemma emits_Now_range: "(\<And>x. Q (fst (api_Now A x))) \<Longrightarrow> emits (do_Now A) (\<lambda>now _. Q now)"
  by (rule emits_Now)

lemma emits_any: "only (\<lambda>_. True) m \<Longrightarrow> emits m (\<lambda>_ _. True)"
  by (erule emits_of_only) simp

section \<open>An API server that answers\<close>

text \<open>The bot can be read, and shows a deletion timestamp and the finalizer; its StatefulSet can be read or is
  missing, and an update of it succeeds or conflicts; the stored object can be read.\<close>

definition deletion_pending :: "'e api \<Rightarrow> klib \<Rightarrow> nname \<Rightarrow> tradebot \<Rightarrow> bool" where
  "deletion_pending A K key tb \<longleftrightarrow> (\<forall>x. fst (api_GetTradeBot A key x) = Inr tb)
     \<and> om_DeletionTimestamp (tb_meta tb) \<noteq> None \<and> ContainsFinalizer K (om_Finalizers (tb_meta tb)) BotFinalizer"

definition responsive :: "'e api \<Rightarrow> bool" where
  "responsive A \<longleftrightarrow>
     (\<forall>k x e. fst (api_GetStatefulSet A k x) = Inl e \<longrightarrow> IsNotFound e)
     \<and> (\<forall>s x e. fst (api_UpdateStatefulSet A s x) = Some e \<longrightarrow> IsConflict e)
     \<and> (\<forall>k x. \<exists>b. fst (api_GetBetaTradeBot A k x) = Inr b)"

definition overdue :: "'e api \<Rightarrow> reconciler \<Rightarrow> tradebot \<Rightarrow> bool" where
  "overdue A R tb \<longleftrightarrow> (\<forall>x. deadline_passed R tb (fst (api_Now A x)))"

section \<open>Release\<close>

lemma scale_down_answers:
  assumes "responsive A"
  shows "emits (ensureStatefulSetScaledDown A s) (\<lambda>r _. \<exists>b. r = Inr b)"
  unfolding ensureStatefulSetScaledDown_def do_UpdateStatefulSet_def
proof (intro emits_if)
  show "emits (do {
       r \<leftarrow> call (api_UpdateStatefulSet A (s\<lparr>sts_Replicas := Some 0\<rparr>)) (UpdateStatefulSet (s\<lparr>sts_Replicas := Some 0\<rparr>));
       case r of
         Some e \<Rightarrow> if \<not> IsConflict e then State_Monad.return (Inl e) else State_Monad.return (Inr False)
       | None \<Rightarrow> State_Monad.return (Inr False) }) (\<lambda>r _. \<exists>b. r = Inr b)"
    by (rule emits_bind [OF emits_call_range [where Q = "\<lambda>r _. \<forall>e. r = Some e \<longrightarrow> IsConflict e"]])
       (use assms in \<open>auto simp: responsive_def intro!: emits_intro\<close>)
qed (auto intro!: emits_return)

lemma deadline_answers:
  assumes "overdue A R tb" "om_DeletionTimestamp (tb_meta tb) \<noteq> None"
  shows "emits (finalizerDeadlinePassed A R tb) (\<lambda>late _. late)"
proof -
  obtain dt where dt: "om_DeletionTimestamp (tb_meta tb) = Some dt" using assms(2) by blast
  have now: "emits (do_Now A) (\<lambda>now _. now - dt > finalizerGracePeriod R)"
    by (rule emits_Now_range) (use assms(1) dt in \<open>simp add: overdue_def deadline_passed_def\<close>)
  show ?thesis
    unfolding finalizerDeadlinePassed_def dt option.case
    by (rule emits_bind [OF now], rule emits_return)
qed

lemma finalize_completes:
  assumes A: "responsive A" and late: "overdue A R tb" "om_DeletionTimestamp (tb_meta tb) \<noteq> None"
  shows "emits (finalizeTradeBot A G R tb) (\<lambda>r _. r = Inr True)"
proof -
  have get: "emits (do_GetStatefulSet A k) (\<lambda>r _. \<forall>e. r = Inl e \<longrightarrow> IsNotFound e)" for k
    unfolding do_GetStatefulSet_def by (rule emits_call_range) (use A in \<open>simp add: responsive_def\<close>)
  have pvc: "only (\<lambda>_. True) (handlePVCPreservation A G tb)"
    unfolding handlePVCPreservation_def call_defs by (intro only_intro TrueI)
  have finish: "emits (do { _ \<leftarrow> handlePVCPreservation A G tb; State_Monad.return (Inr True) }) (\<lambda>r _. r = Inr True)"
    by (rule emits_bind [OF emits_any [OF pvc]], rule emits_return, rule refl)
  have warn: "emits (record_event b ty rs m) (\<lambda>_ _. True)" for b ty rs m
    by (rule emits_any) (auto simp: record_event_def intro: only_intro)
  show ?thesis
    unfolding finalizeTradeBot_def Let_def
    by (rule emits_bind [OF get], rule emits_case_sum, simp add: finish, rule emits_bind [OF scale_down_answers [OF A]],
        elim exE, simp only: sum.case, rule emits_if, rule finish, rule emits_bind [OF deadline_answers [OF late]],
        simp only: if_True, rule emits_bind [OF warn], rule finish)
qed

lemma deletion_progress:
  assumes K: "klib_laws K" and A: "responsive A" "deletion_pending A K key tb" "overdue A R tb"
  shows "emits (Reconcile A K G R key) (\<lambda>_ t. list_ex (releases K) t)"
proof -
  have fin: "finalizer_ops (ContainsFinalizer K) (AddFinalizer K) (RemoveFinalizer K)"
    using K by (simp add: klib_laws_def)
  have tb: "om_DeletionTimestamp (tb_meta tb) \<noteq> None" "ContainsFinalizer K (om_Finalizers (tb_meta tb)) BotFinalizer"
    using A(2) by (simp_all add: deletion_pending_def)
  have read: "emits (do_GetTradeBot A key) (\<lambda>r _. r = Inr tb)"
    unfolding do_GetTradeBot_def by (rule emits_call_range) (use A(2) in \<open>simp add: deletion_pending_def\<close>)
  have stored: "emits (do_GetBetaTradeBot A k) (\<lambda>r _. \<exists>b. r = Inr b)" for k
    unfolding do_GetBetaTradeBot_def by (rule emits_call_range) (use A(1) in \<open>simp add: responsive_def\<close>)
  have upd: "emits (do_UpdateBetaTradeBot A b) (\<lambda>r t. t = [UpdateBetaTradeBot b r])" for b
    unfolding do_UpdateBetaTradeBot_def by (rule emits_call) simp
  have released: "releases K (UpdateBetaTradeBot (with_finalizers (RemoveFinalizer K fs BotFinalizer) b) r)" for fs b r
    by (simp add: releases_def with_finalizers_def finalizer_ops.contains_remove [OF fin])
  have "emits (reconcile_deletion A K G R tb) (\<lambda>_ t. list_ex (releases K) t)"
    unfolding reconcile_deletion_def
    by (simp only: tb if_True, rule emits_bind [OF finalize_completes [OF A(1,3) tb(1)]],
        simp only: sum.case simp_thms if_False, rule emits_bind [OF stored], elim exE, simp only: sum.case,
        rule emits_bind [OF upd], rule emits_return) (simp add: released)
  then show ?thesis
    unfolding Reconcile_def
    by (intro emits_bind [OF read]) (auto simp: tb intro: emits_conseq)
qed

end
