(* ===== verification/ScenarioRuns.thy ===== *)
theory ScenarioRuns
  imports Scenario FreqUIReconcile CollectResults BacktestAdmission ConfigConversion TradeBotDeletion
begin

text \<open>More of the concrete cluster: a FreqUI that switches its exposure off while its Ingress still exists, a
  Backtest before, after and at the end of its run, and a JSON text format in which the collector's results
  survive.\<close>

section \<open>A FreqUI without exposure\<close>

definition demo_fmeta :: objmeta where
  "demo_fmeta = (mk_meta ''ui'' ''ns'')\<lparr>om_UID := ''u2'', om_Generation := 5\<rparr>"

definition demo_frequi :: frequi where
  "demo_frequi = \<lparr>fu_meta = demo_fmeta, fu_Spec = \<lparr>fu_Host = ''ui.example'', fu_TLS = [], fu_IngressAnnotations = [],
       fu_App = None, fu_TradeBotRefs = [], fu_Exposure = FUExposureNone, fu_Gateway = None\<rparr>,
     fu_Status = \<lparr>fst_Phase = [], fst_Message = [], fst_URL = [], fst_Conditions = [], fst_ObservedGeneration = 0\<rparr>\<rparr>"

definition demo_ingress :: ingress where
  "demo_ingress = (BuildFreqUIIngress demo_frequi [])\<lparr>ing_meta := (mk_meta ''ui'' ''ns'')\<lparr>om_OwnerReferences :=
     [\<lparr>or_Kind = ''FreqUI'', or_Name = ''ui'', or_UID = ''u2'', or_Controller = True\<rparr>]\<rparr>\<rparr>"

definition demo_deployment :: deployment where
  "demo_deployment = (BuildFreqUIDeployment demo_frequi)\<lparr>dep_StatusReplicas := 1, dep_StatusAvailableReplicas := 1\<rparr>"

definition demo_fapi :: "int api" where
  "demo_fapi = demo_api\<lparr>api_GetFreqUI := (\<lambda>k e. (Inr demo_frequi, e)), api_GetIngress := (\<lambda>k e. (Inr demo_ingress, e)),
     api_GetDeployment := (\<lambda>k e. (Inr demo_deployment, e))\<rparr>"

definition demo_fkey :: nname where
  "demo_fkey = \<lparr>nn_Namespace = ''ns'', nn_Name = ''ui''\<rparr>"

definition demo_freconciler :: freqreconciler where
  "demo_freconciler = \<lparr>fr_Recorder = False, fr_GatewayAPIAvailable = False\<rparr>"

lemma demo_owned: "owned_by ref_klib demo_frequi (ing_meta demo_ingress)"
  by (simp add: owned_by_def ref_klib_def ref_GetControllerOf_def demo_ingress_def demo_frequi_def demo_fmeta_def mk_meta_def)

lemma demo_fapply:
  "om_OwnerReferences (manifest_meta m) = [] \<Longrightarrow> emits (Apply demo_fapi ref_klib demo_fmeta m) (\<lambda>r t. r = None)"
  by (simp add: demo_run demo_fapi_def Apply_def applyServerSide_def ref_SetControllerReference_def demo_fmeta_def mk_meta_def)

lemma demo_frequi_simps [simp]:
  "fu_meta demo_frequi = demo_fmeta" "fu_Exposure (fu_Spec demo_frequi) = FUExposureNone"
  "fu_TradeBotRefs (fu_Spec demo_frequi) = []" "fu_App (fu_Spec demo_frequi) = None" "fu_Gateway (fu_Spec demo_frequi) = None"
  by (simp_all add: demo_frequi_def)

lemma demo_exposure:
  "emits (reconcileExposure demo_fapi ref_klib demo_freconciler demo_frequi apis)
     (\<lambda>r t. (\<exists>c. r = Inr c) \<and> DeleteIngress demo_ingress None \<in> set t)"
  using demo_owned
  by (simp add: reconcileExposure_def prune_then_def pruneHTTPRoutes_def deleteOwnedIngress_def emits_run runs call_defs
      demo_fapi_def demo_api_def demo_freconciler_def)

lemma demo_all_resources:
  "emits (reconcileAllResources demo_fapi ref_klib demo_freconciler demo_frequi)
     (\<lambda>r t. (\<exists>c. r = Inr ([], c)) \<and> DeleteIngress demo_ingress None \<in> set t)"
  unfolding reconcileAllResources_def demo_frequi_simps resolve_refs.simps
  by (rule emits_bind [OF demo_fapply], simp, simp only: option.case, rule emits_bind [OF demo_fapply], simp,
      simp only: option.case State_Monad.bind_left_identity, simp only: sum.case prod.case, rule emits_bind [OF demo_exposure], rule emits_return) auto

lemma demo_frequi_new [simp]: "demo_frequi \<noteq> frequi_SetObservedGeneration 5 f"
proof
  assume "demo_frequi = frequi_SetObservedGeneration 5 f"
  then have "fst_ObservedGeneration (fu_Status demo_frequi) = fst_ObservedGeneration (fu_Status (frequi_SetObservedGeneration 5 f))"
    by simp
  then show False by (simp add: demo_frequi_def frequi_SetObservedGeneration_def)
qed

lemma demo_frequi_gen [simp]:
  "om_Generation demo_fmeta = 5"
  "fu_meta (fst (frequi_ready_mutate K r m u un c now demo_frequi)) = demo_fmeta"
  by (auto simp: demo_fmeta_def frequi_ready_mutate_def Let_def)

lemma demo_frequi_status:
  "emits (frequi_status demo_fapi ref_klib demo_golib demo_freconciler demo_frequi [] c demo_deployment)
     (\<lambda>_ t. \<exists>e \<in> set t. \<exists>f. written_frequi e = Some f)"
proof -
  have patch: "emits (PatchStatus demo_fapi (frequi_cobj demo_fapi ref_klib) (key_of_meta demo_fmeta) (frequi_ready_mutate ref_klib r m u [] c))
      (\<lambda>x t. (\<exists>y. x = Inr y) \<and> (\<exists>e \<in> set t. \<exists>f. written_frequi e = Some f))" for r m u
    by (simp add: emits_run runs call_defs PatchStatus_def frequi_cobj_def eval_nat_numeral Let_def split_beta
        demo_fapi_def demo_api_def) (simp add: ref_klib_def)
  show ?thesis
    unfolding frequi_status_def Let_def demo_frequi_simps
    by (rule emits_bind [OF patch], elim conjE exE, simp only: sum.case, rule emits_of_only [where P = "\<lambda>_. True"], intro only_intro TrueI) auto
qed

lemma demo_FreqUI_Reconcile:
  "emits (FreqUI_Reconcile demo_fapi ref_klib demo_golib demo_freconciler demo_fkey)
     (\<lambda>_ t. DeleteIngress demo_ingress None \<in> set t \<and> (\<exists>e \<in> set t. \<exists>f. written_frequi e = Some f))"
proof -
  have get: "emits (do_GetFreqUI demo_fapi k) (\<lambda>r t. r = Inr demo_frequi)"
       "emits (do_GetDeployment demo_fapi k) (\<lambda>r t. r = Inr demo_deployment)" for k
    by (simp_all add: emits_run runs call_defs demo_fapi_def)
  show ?thesis
    unfolding FreqUI_Reconcile_def
    by (rule emits_bind [OF get(1)], simp only: sum.case, rule emits_bind [OF demo_all_resources], elim conjE exE,
        simp only: sum.case prod.case, rule emits_bind [OF get(2)], simp only: sum.case, rule emits_conseq [OF demo_frequi_status]) auto
qed

section \<open>A Backtest\<close>

definition demo_bmeta :: objmeta where
  "demo_bmeta = (mk_meta ''run'' ''ns'')\<lparr>om_UID := ''u3'', om_Generation := 2, om_Finalizers := [BacktestFinalizer],
     om_Annotations := [(allowExtraArgsAnnotation, ''true'')]\<rparr>"

definition demo_bspec :: backtestspec where
  "demo_bspec = \<lparr>run_ConfigRef = ''cfg'', run_StrategyRef = ''strat'', run_Timerange = ''20240101-'', run_Timeframe = [],
     run_Pairs = [], run_Data = None,
     run_Results = Some \<lparr>rsp_Size = ''0'', rsp_StorageClassName = None, rsp_RetentionPolicy = ''Retain''\<rparr>,
     run_Pod = None, run_TTLSecondsAfterFinished = None, run_ExtraArgs = [''--timerange=20200101-''],
     bk_TimeframeDetail = [], bk_MaxOpenTrades = None, bk_StakeAmount = [], bk_DryRunWallet = None, bk_Fee = None,
     bk_EnableProtections = None, bk_Breakdown = [], bk_Cache = []\<rparr>"

definition demo_backtest :: backtest where
  "demo_backtest = \<lparr>bk_meta = demo_bmeta, bk_Spec = demo_bspec,
     bk_Status = \<lparr>bkst_Phase = [], bkst_Message = [], bkst_Conditions = [], bkst_ObservedGeneration = 0, bkst_JobName = [],
       bkst_ResultsPVCName = [], bkst_StartTime = None, bkst_CompletionTime = None, bkst_Results = None\<rparr>\<rparr>"

definition demo_bkey :: nname where
  "demo_bkey = \<lparr>nn_Namespace = ''ns'', nn_Name = ''run''\<rparr>"

definition demo_breconciler :: btreconciler where
  "demo_breconciler = \<lparr>bt_Recorder = False, bt_DefaultImage = [], bt_OperatorImage = ''op''\<rparr>"

lemma demo_backtest_simps [simp]:
  "bk_meta demo_backtest = demo_bmeta" "bk_Spec demo_backtest = demo_bspec" "om_Name demo_bmeta = ''run''"
  "om_Namespace demo_bmeta = ''ns''" "om_DeletionTimestamp demo_bmeta = None" "om_Finalizers demo_bmeta = [BacktestFinalizer]"
  "recordedOutcome ref_klib demo_backtest = None"
  by (simp_all add: demo_backtest_def demo_bmeta_def mk_meta_def recordedOutcome_def ref_klib_def ref_FindStatusCondition_def)

text \<open>Before the run: no Job, no outcome.\<close>

definition demo_bapi :: "int api" where
  "demo_bapi = demo_api\<lparr>api_GetBacktest := (\<lambda>k e. (Inr demo_backtest, e))\<rparr>"

definition demo_job :: job where
  "demo_job = m_job (with_owners [\<lparr>or_Kind = ''Backtest'', or_Name = ''run'', or_UID = ''u3'', or_Controller = True\<rparr>]
     (MJob (BuildJob demo_golib demo_backtest DefaultFreqtradeImage ''op'' ''S'' ''run-config'' ''run-strategy'')))"

lemma demo_bapply:
  "om_OwnerReferences (manifest_meta m) = [] \<Longrightarrow>
   emits (Apply demo_bapi ref_klib demo_bmeta m) (\<lambda>r t. r = None \<and> t =
     [ApplyPatch (with_owners [\<lparr>or_Kind = ''Backtest'', or_Name = ''run'', or_UID = ''u3'', or_Controller = True\<rparr>] m) None])"
  by (simp add: demo_run demo_bapi_def Apply_def applyServerSide_def ref_SetControllerReference_def ref_kind_def demo_bmeta_def mk_meta_def)

lemma demo_rbac: "emits (ensureSidecarRBAC demo_bapi ref_klib ns) (\<lambda>r _. r = Inr ())"
  by (simp add: demo_run demo_bapi_def ensureSidecarRBAC_def then_or_def ApplyUnowned_def applyServerSide_def)

lemma demo_then_or:
  assumes "om_OwnerReferences (manifest_meta m) = []" "emits k (\<lambda>_ t. x \<in> set t)"
  shows "emits (then_or (Apply demo_bapi ref_klib demo_bmeta m) msg k) (\<lambda>_ t. x \<in> set t)"
  unfolding then_or_def by (rule emits_bind [OF demo_bapply [OF assms(1)]]) (use assms(2) in \<open>auto intro: emits_conseq\<close>)

lemma demo_create_run:
  "emits (create_run demo_bapi ref_klib demo_golib demo_breconciler demo_backtest demo_strategy cd)
     (\<lambda>_ t. ApplyPatch (MJob demo_job) None \<in> set t)"
proof -
  have job: "emits (then_or (Apply demo_bapi ref_klib demo_bmeta (MJob (BuildJob demo_golib demo_backtest DefaultFreqtradeImage
        ''op'' ''S'' ''run-config'' ''run-strategy''))) msg (State_Monad.return (Inr n)))
      (\<lambda>_ t. ApplyPatch (MJob demo_job) None \<in> set t)" for msg n
    unfolding then_or_def by (rule emits_bind [OF demo_bapply]) (auto simp: demo_job_def intro!: emits_return)
  have names: "bt_defaultImage demo_breconciler = DefaultFreqtradeImage" "bt_OperatorImage demo_breconciler = ''op''"
    "om_Name (sec_meta (BuildConfigSecret demo_backtest d)) = ''run-config''"
    "om_Name (cm_meta (bt_BuildStrategyConfigMap demo_backtest n sc)) = ''run-strategy''" for d n sc
    by (simp_all add: bt_defaultImage_def demo_breconciler_def BuildConfigSecret_def bt_BuildStrategyConfigMap_def mk_meta_def)
  show ?thesis
    unfolding create_run_def Let_def names demo_names demo_backtest_simps
    by (intro demo_then_or, simp_all, rule emits_bind [OF demo_rbac], simp only: sum.case, rule emits_conseq [OF job]) auto
qed

lemma demo_brefs: "emits (fetchReferencedObjects demo_bapi demo_backtest) (\<lambda>r _. r = Inr (demo_strategy, demo_config))"
  by (simp add: emits_run runs call_defs demo_bapi_def demo_api_def fetchReferencedObjects_def)

lemma demo_bbuild: "emits (BuildConfig demo_bapi demo_golib n ns demo_configspec cs) (\<lambda>r t. \<exists>d. r = Inr d)"
  by (simp add: demo_run demo_bapi_def demo_configspec_def BuildConfig_def
      GetSecretData_def apiServerSecretRef_def demo_apiserver_def resolveAPIServerJWTSecretKey_def
      demo_exchange_def notificationSecretData_def map_str_def)

lemma demo_starts:
  "emits (Backtest_Reconcile demo_bapi ref_klib demo_golib demo_breconciler demo_bkey)
     (\<lambda>_ t. ApplyPatch (MJob demo_job) None \<in> set t)"
proof -
  have get: "emits (do_GetBacktest demo_bapi k) (\<lambda>r t. r = Inr demo_backtest)"
      "emits (do_GetJob demo_bapi k) (\<lambda>r t. r = Inl demo_notfound)" for k
    by (simp_all add: emits_run runs call_defs demo_bapi_def demo_api_def)
  have nf: "IsNotFound demo_notfound" by (simp add: demo_notfound_def IsNotFound_def)
  have cfg: "tc_Spec demo_config = demo_configspec" by (simp add: demo_config_def)
  have fin: "ContainsFinalizer ref_klib (om_Finalizers demo_bmeta) BacktestFinalizer" by (simp add: ref_klib_def)
  have res: "emits (bt_reconcileResources demo_bapi ref_klib demo_golib demo_breconciler demo_backtest)
      (\<lambda>_ t. ApplyPatch (MJob demo_job) None \<in> set t)"
    unfolding bt_reconcileResources_def
    by (rule emits_bind [OF get(2)], simp only: sum.case nf demo_backtest_simps simp_thms if_False, rule emits_bind [OF demo_brefs],
        simp only: sum.case prod.case cfg, rule emits_bind [OF demo_bbuild], elim exE, simp only: sum.case,
        rule emits_conseq [OF demo_create_run]) auto
  have live: "emits (bt_reconcile_live demo_bapi ref_klib demo_golib demo_breconciler demo_backtest)
      (\<lambda>_ t. ApplyPatch (MJob demo_job) None \<in> set t)"
    unfolding bt_reconcile_live_def
    by (rule emits_bind [OF res], rule emits_of_only [where P = "\<lambda>_. True"], intro only_intro TrueI) auto
  show ?thesis
    unfolding Backtest_Reconcile_def
    by (rule emits_bind [OF get(1)], simp only: sum.case demo_backtest_simps fin [unfolded demo_backtest_simps] simp_thms if_False,
        rule emits_conseq [OF live]) auto
qed

text \<open>After the run: the outcome is on record and the Job is gone.\<close>

definition demo_finished :: backtest where
  "demo_finished = demo_backtest\<lparr>bk_Status := (bk_Status demo_backtest)\<lparr>
     bkst_Conditions := [mk_cond ConditionWorkloadReady ConditionTrue ReasonWorkloadSucceeded []]\<rparr>\<rparr>"

definition demo_done_api :: "int api" where
  "demo_done_api = demo_api\<lparr>api_GetBacktest := (\<lambda>k e. (Inr demo_finished, e))\<rparr>"

lemma demo_done: "stored_outcome demo_done_api ref_klib (True, False)"
  by (simp add: stored_outcome_def demo_done_api_def verdict_seen seen_def demo_finished_def ref_klib_def ref_FindStatusCondition_def)

lemma demo_finished_simps:
  "bk_meta demo_finished = demo_bmeta" "bkst_Results (bk_Status demo_finished) = None"
  "bkst_ObservedGeneration (bk_Status demo_finished) = 0"
  "recordedOutcome ref_klib demo_finished = Some (btworkload_zero\<lparr>wl_succeeded := True\<rparr>)"
  by (simp_all add: demo_finished_def demo_backtest_def recordedOutcome_def ref_klib_def ref_FindStatusCondition_def
      btworkload_zero_def)

lemma demo_finished_new [simp]: "demo_finished \<noteq> backtest_SetObservedGeneration 2 b"
proof
  assume "demo_finished = backtest_SetObservedGeneration 2 b"
  then have "bkst_ObservedGeneration (bk_Status demo_finished) = bkst_ObservedGeneration (bk_Status (backtest_SetObservedGeneration 2 b))"
    by simp
  then show False by (simp add: demo_finished_simps backtest_SetObservedGeneration_def)
qed

lemma demo_done_writes:
  "emits (Backtest_Reconcile demo_done_api ref_klib demo_golib demo_breconciler demo_bkey)
     (\<lambda>_ t. \<exists>e \<in> set t. \<exists>b. written_backtest e = Some b)"
proof -
  have get: "emits (do_GetBacktest demo_done_api k) (\<lambda>r t. r = Inr demo_finished)"
      "emits (do_GetJob demo_done_api k) (\<lambda>r t. r = Inl demo_notfound)"
      "emits (do_GetConfigMap demo_done_api k) (\<lambda>r t. r = Inl demo_notfound)" for k
    by (simp_all add: emits_run runs call_defs demo_done_api_def demo_api_def)
  have nf: "IsNotFound demo_notfound" by (simp add: demo_notfound_def IsNotFound_def)
  have fin: "ContainsFinalizer ref_klib (om_Finalizers demo_bmeta) BacktestFinalizer" by (simp add: ref_klib_def)
  have gen: "om_Generation (bk_meta (fst (bt_mutate K j w r c now demo_finished))) = 2"
      "om_Generation (bk_meta demo_finished) = 2" for K j w r c now
    by (simp_all add: bt_mutate_def Let_def split_beta demo_finished_simps demo_bmeta_def)
  have patch: "emits (PatchStatus demo_done_api (backtest_cobj demo_done_api ref_klib) (key_of_meta demo_bmeta) (bt_mutate ref_klib j w None None))
      (\<lambda>x t. \<exists>e \<in> set t. \<exists>b. written_backtest e = Some b)" for j w
    by (simp add: emits_run runs call_defs PatchStatus_def backtest_cobj_def eval_nat_numeral Let_def split_beta gen
        demo_done_api_def demo_api_def) (simp add: ref_klib_def gen)
  have res: "emits (bt_reconcileResources demo_done_api ref_klib demo_golib demo_breconciler demo_finished) (\<lambda>r _. \<exists>n. r = Inr n)"
      "emits (bt_computeWorkloadStatus demo_done_api ref_klib demo_finished) (\<lambda>r _. r = Inr (btworkload_zero\<lparr>wl_succeeded := True\<rparr>))"
    unfolding bt_reconcileResources_def bt_computeWorkloadStatus_def
    by (rule emits_bind [OF get(2)]; simp add: nf demo_finished_simps emits_return)+
  have adopt: "emits (adoptAndParseResults demo_done_api ref_klib demo_golib demo_finished) (\<lambda>r _. r = Inr (None, None, True))"
    unfolding adoptAndParseResults_def by (rule emits_bind [OF get(3)]) (simp add: nf emits_return)
  have report: "emits (bt_report demo_done_api ref_klib demo_golib demo_breconciler demo_finished j (btworkload_zero\<lparr>wl_succeeded := True\<rparr>))
      (\<lambda>_ t. \<exists>e \<in> set t. \<exists>b. written_backtest e = Some b)" for j
    unfolding bt_report_def demo_finished_simps
    by (simp, rule emits_bind [OF adopt], simp only: sum.case prod.case, rule emits_bind [OF patch], rule emits_return) auto
  show ?thesis
    unfolding Backtest_Reconcile_def bt_reconcile_live_def
    by (rule emits_bind [OF get(1)], simp only: sum.case demo_finished_simps demo_backtest_simps fin [unfolded demo_backtest_simps]
        simp_thms if_False, rule emits_bind [OF res(1)], elim exE, simp only: sum.case, rule emits_bind [OF res(2)],
        simp only: sum.case, rule emits_conseq [OF report]) auto
qed

text \<open>The Job is gone, and the second read of it in a reconcile is refused.\<close>

definition demo_refusal :: goerr where "demo_refusal = ApiStatus Forbidden ''jobs is forbidden''"

definition demo_refused_api :: "int api" where
  "demo_refused_api = demo_done_api\<lparr>api_GetJob := (\<lambda>k e. (if e = env demo_world then Inl demo_notfound else Inl demo_refusal, e + 1))\<rparr>"

lemma demo_refused_outcome: "stored_outcome demo_refused_api ref_klib (True, False)"
  using demo_done by (simp add: stored_outcome_def demo_refused_api_def)

lemma demo_refused_run:
  "\<exists>e b. e \<in> set (events (Backtest_Reconcile demo_refused_api ref_klib demo_golib demo_breconciler demo_bkey) demo_world)
     \<and> written_backtest e = Some b"
  "List.map_filter job_read (events (Backtest_Reconcile demo_refused_api ref_klib demo_golib demo_breconciler demo_bkey) demo_world)
     = [Inl demo_notfound, Inl demo_refusal]"
proof -
  have nf: "IsNotFound demo_notfound" "\<not> IsNotFound demo_refusal"
    by (simp_all add: demo_notfound_def demo_refusal_def IsNotFound_def)
  have lib: "ContainsFinalizer ref_klib [BacktestFinalizer] BacktestFinalizer" "DeepEqualBacktest ref_klib = (=)"
    "bt_Recorder demo_breconciler = False" "trace demo_world = []"
    by (simp_all add: ref_klib_def demo_breconciler_def demo_world_def)
  have api: "api_GetBacktest demo_refused_api = (\<lambda>k e. (Inr demo_finished, e))"
    "api_StatusUpdateBacktest demo_refused_api = (\<lambda>b e. (None, e))" "api_RetrySteps demo_refused_api = 4"
    "api_GetJob demo_refused_api = (\<lambda>k e. (if e = env demo_world then Inl demo_notfound else Inl demo_refusal, e + 1))"
    by (simp_all add: demo_refused_api_def demo_done_api_def demo_api_def)
  have gen: "om_Generation (bk_meta (fst (bt_fail_mutate K ty rs m now demo_finished))) = 2"
      "om_Generation (bk_meta demo_finished) = 2" for K ty rs m now
    by (simp_all add: bt_fail_mutate_def Let_def demo_finished_simps demo_bmeta_def)
  note run = events_def final_def runs call_defs api Backtest_Reconcile_def bt_reconcile_live_def bt_reconcileResources_def
    bt_computeWorkloadStatus_def demo_finished_simps nf lib record_event_def bt_failReconcile_def PatchStatus_def backtest_cobj_def eval_nat_numeral
    Let_def split_beta gen
  show "\<exists>e b. e \<in> set (events (Backtest_Reconcile demo_refused_api ref_klib demo_golib demo_breconciler demo_bkey) demo_world)
     \<and> written_backtest e = Some b"
    by (simp add: run) (intro exI conjI disjI2 disjI1, rule refl, simp)
  show "List.map_filter job_read (events (Backtest_Reconcile demo_refused_api ref_klib demo_golib demo_breconciler demo_bkey) demo_world)
     = [Inl demo_notfound, Inl demo_refusal]"
    by (simp add: run) (simp add: List.map_filter_def job_read_def)
qed

text \<open>Deleted, with the results volume still there.\<close>

definition demo_bdeleted :: backtest where
  "demo_bdeleted = demo_backtest\<lparr>bk_meta := demo_bmeta\<lparr>om_DeletionTimestamp := Some 900\<rparr>\<rparr>"

definition demo_bpvc :: pvc where
  "demo_bpvc = BuildResultsPVC demo_golib demo_backtest"

definition demo_bgone_api :: "int api" where
  "demo_bgone_api = demo_api\<lparr>api_GetBacktest := (\<lambda>k e. (Inr demo_bdeleted, e)), api_GetPVC := (\<lambda>k e. (Inr demo_bpvc, e))\<rparr>"

lemma demo_bgone:
  "emits (Backtest_Reconcile demo_bgone_api ref_klib demo_golib demo_breconciler demo_bkey) (\<lambda>_ t. list_ex (bt_releases ref_klib) t)"
proof -
  have retain: "ResultsRetentionPolicy demo_bdeleted = ''Retain''"
    by (simp add: ResultsRetentionPolicy_def demo_bdeleted_def demo_bspec_def)
  have meta: "bk_meta demo_bdeleted = demo_bmeta\<lparr>om_DeletionTimestamp := Some 900\<rparr>" by (simp add: demo_bdeleted_def)
  have rel: "bt_releases ref_klib (UpdateBacktest (bt_with_finalizers (RemoveFinalizer ref_klib [BacktestFinalizer] BacktestFinalizer) b) r)" for b r
    by (simp add: bt_releases_def ref_klib_def bt_with_finalizers_def ref_RemoveFinalizer_def)
  have fin: "emits (finalizeBacktest demo_bgone_api demo_golib demo_bdeleted) (\<lambda>r t. r = None)"
    by (simp add: emits_run runs call_defs demo_bgone_api_def demo_api_def finalizeBacktest_def retain)
  have get: "emits (do_GetBacktest demo_bgone_api demo_bkey) (\<lambda>r t. r = Inr demo_bdeleted)"
      "emits (do_UpdateBacktest demo_bgone_api b) (\<lambda>r t. t = [UpdateBacktest b r])" for b
    by (simp_all add: emits_run runs call_defs demo_bgone_api_def demo_api_def)
  have has: "ContainsFinalizer ref_klib [BacktestFinalizer] BacktestFinalizer"
    "om_DeletionTimestamp (bk_meta demo_bdeleted) \<noteq> None" "om_Finalizers (bk_meta demo_bdeleted) = [BacktestFinalizer]"
    by (simp_all add: ref_klib_def meta)
  show ?thesis
    unfolding Backtest_Reconcile_def bt_reconcile_deletion_def
    by (rule emits_bind [OF get(1)], simp only: sum.case has if_True simp_thms, rule emits_bind [OF fin], simp only: option.case,
        rule emits_bind [OF get(2)], rule emits_return) (simp add: rel)
qed

section \<open>Admission of a Backtest\<close>

lemma demo_bspec_extra [simp]: "run_ExtraArgs demo_bspec = [''--timerange=20200101-'']"
  by (simp add: demo_bspec_def)

lemma demo_refs_named: "TrimSpace ''cfg'' \<noteq> []" "TrimSpace ''strat'' \<noteq> []"
  by code_simp+

lemma demo_backtest_admitted: "Backtest_ValidateCreate demo_backtest = None"
  by (rule other_flag_admitted) (simp_all add: demo_bspec_def demo_bmeta_def map_str_def demo_refs_named)

section \<open>Collecting results\<close>

text \<open>The clock of the environment moves on as the collector waits.\<close>

lemma demo_ticking: "ticking demo_api (\<lambda>e. e)"
  by (simp add: ticking_def demo_api_def)

definition demo_opts :: cropts where
  "demo_opts = \<lparr>cr_BacktestName = ''run'', cr_StrategyName = ''S'', cr_PodName = ''run-x'', cr_Namespace = ''ns'',
     cr_MainContainerName = ''freqtrade'', cr_ResultsDir = ''/freqtrade/user_data/backtest_results'', cr_ResultsPVCDir = ''/results''\<rparr>"

text \<open>A text format for flat objects of strings and integers: every string is preceded by its length in unary, and a
  member is its name, a letter for the kind of its value, and the value.\<close>

definition put_str :: "string \<Rightarrow> string" where
  "put_str s = replicate (length s) CHR ''1'' @ CHR ''0'' # s"

fun get_len :: "nat \<Rightarrow> string \<Rightarrow> nat \<times> string" where
  "get_len n (c # cs) = (if c = CHR ''1'' then get_len (Suc n) cs else (n, cs))"
| "get_len n [] = (n, [])"

definition get_str :: "string \<Rightarrow> string \<times> string" where
  "get_str s = (case get_len 0 s of (n, r) \<Rightarrow> (take n r, drop n r))"

lemma get_len_unary: "get_len n (replicate k CHR ''1'' @ CHR ''0'' # r) = (n + k, r)"
  by (induction k arbitrary: n) simp_all

lemma get_put_str: "get_str (put_str s @ r) = (s, r)"
  by (simp add: get_str_def put_str_def get_len_unary)

fun put_members :: "(string \<times> json) list \<Rightarrow> string" where
  "put_members ((k, JInt i) # ms) = put_str k @ CHR ''i'' # put_str (Itoa i) @ put_members ms"
| "put_members ((k, JStr s) # ms) = put_str k @ CHR ''s'' # put_str s @ put_members ms"
| "put_members ms = []"

fun get_members :: "nat \<Rightarrow> string \<Rightarrow> (string \<times> json) list" where
  "get_members 0 s = []"
| "get_members (Suc n) s = (if s = [] then [] else
     (case get_str s of (k, r) \<Rightarrow> (case get_str (tl r) of (v, r') \<Rightarrow>
        (k, if hd r = CHR ''i'' then JNum v else JStr v) # get_members n r')))"

definition flat :: "json \<Rightarrow> bool" where
  "flat j \<longleftrightarrow> (\<exists>i. j = JInt i) \<or> (\<exists>s. j = JStr s)"

lemma put_str_length: "0 < length (put_str s)"
  by (simp add: put_str_def)

lemma get_put_members:
  "\<lbrakk>list_all (\<lambda>(k, j). flat j) ms; length (put_members ms) \<le> n\<rbrakk>
     \<Longrightarrow> get_members n (put_members ms) = map (\<lambda>(k, j). (k, as_read j)) ms"
proof (induction ms arbitrary: n rule: put_members.induct)
  case (1 k i ms)
  then obtain m where "n = Suc m" by (cases n) (simp_all add: put_str_def)
  with 1 show ?case by (simp add: get_put_str put_str_length)
next
  case (2 k s ms)
  then obtain m where "n = Suc m" by (cases n) (simp_all add: put_str_def)
  with 2 show ?case by (simp add: get_put_str put_str_length)
next
  case "3_1" then show ?case by (cases n) simp_all
qed (simp_all add: flat_def)

lemma results_flat: "(k, Some j) \<in> set (results_members r) \<Longrightarrow> flat j"
  unfolding results_members_def Let_def list.set insert_iff prod.inject empty_iff
  by (elim disjE conjE) (simp_all add: flat_def split: if_splits)

text \<open>The freqtrade result file is one more text of the format.\<close>

definition demo_file :: json where
  "demo_file = JObj [(''strategy'', JObj [(''S'', JObj [(''total_trades'', JNum ''7'')])])]"

definition demo_jsonlib :: golib where
  "demo_jsonlib = demo_golib\<lparr>json_Marshal := (\<lambda>j. case j of JObj ms \<Rightarrow> Inr (put_members ms) | _ \<Rightarrow> Inl demo_notfound),
     json_Unmarshal := (\<lambda>s. Inr (if s = ''file'' then demo_file else JObj (get_members (length s) s)))\<rparr>"

lemma put_members_not_file: "put_members ms \<noteq> ''file''"
proof -
  have "put_str s @ r \<noteq> ''file''" for s r by (cases s) (simp_all add: put_str_def)
  then show ?thesis by (cases ms rule: put_members.cases) auto
qed

lemma demo_json_faithful: "json_faithful demo_jsonlib"
proof -
  have flat: "list_all (\<lambda>(k, j). flat j) (present (results_members r))" for r
    using results_flat by (auto simp: list_all_iff present_iff)
  show ?thesis
    by (auto simp: json_faithful_def demo_jsonlib_def enc_results_def get_put_members [OF flat] put_members_not_file)
qed

definition demo_files_api :: "int api" where
  "demo_files_api = demo_api\<lparr>api_ReadFile := (\<lambda>p e. (Inr (if HasSuffix p ''.last_result.json''
     then put_members [(''latest_backtest'', JStr ''r.json'')] else ''file''), e))\<rparr>"

definition demo_results :: backtestresults where
  "demo_results = \<lparr>br_TotalTrades = 7, br_ProfitAbs = ''0'', br_ProfitPct = ''0'', br_WinRatePct = ''0'', br_MaxDrawdownPct = ''0'',
     br_SharpeRatio = ''0'', br_SortinoRatio = ''0'', br_CAGRPct = ''0'', br_BestPair = [], br_WorstPair = [],
     br_ResultFile = ''/freqtrade/user_data/backtest_results/r.json''\<rparr>"

lemma demo_pointer:
  "result (latestResultFile demo_files_api demo_jsonlib (cr_ResultsDir demo_opts)) w
     = Inr ''/freqtrade/user_data/backtest_results/r.json''"
proof -
  have ptr: "path_Join (cr_ResultsDir demo_opts) ''.last_result.json'' = ''/freqtrade/user_data/backtest_results/.last_result.json''"
    "path_Join (cr_ResultsDir demo_opts) ''r.json'' = ''/freqtrade/user_data/backtest_results/r.json''"
    by code_simp+
  have suf: "HasSuffix ''/freqtrade/user_data/backtest_results/.last_result.json'' ''.last_result.json''" by code_simp
  have parsed: "json_Unmarshal demo_jsonlib (put_members [(''latest_backtest'', JStr ''r.json'')]) = Inr (JObj [(''latest_backtest'', JStr ''r.json'')])"
    using put_members_not_file get_put_members [of "[(''latest_backtest'', JStr ''r.json'')]"]
    by (simp add: demo_jsonlib_def flat_def del: put_members.simps)
  have latest: "dec_single (dec_string ''latest_backtest'') (JObj [(''latest_backtest'', JStr ''r.json'')]) = Inr ''r.json''"
    by code_simp
  show ?thesis
    unfolding latestResultFile_def Let_def ptr
    by (simp add: call_defs demo_files_api_def suf parsed latest ptr del: put_members.simps)
qed

lemma demo_stats: "dec_strategies demo_jsonlib demo_file = Inr [(''S'', \<lparr>ks_TotalTrades = 7, ks_ProfitTotalAbs = F64 0,
    ks_ProfitTotal = F64 0, ks_Winrate = F64 0, ks_MaxDrawdownAccount = F64 0, ks_Sharpe = F64 0, ks_Sortino = F64 0,
    ks_CAGR = F64 0, ks_BestPair = None, ks_WorstPair = None\<rparr>)]"
  by code_simp

lemma demo_parse:
  "result (parseResultFile demo_files_api demo_jsonlib ''/freqtrade/user_data/backtest_results/r.json'' (cr_StrategyName demo_opts)) w
     = Inr demo_results"
proof -
  have names: "\<not> HasSuffix ''/freqtrade/user_data/backtest_results/r.json'' ''.zip''"
    "\<not> HasSuffix ''/freqtrade/user_data/backtest_results/r.json'' ''.last_result.json''" by code_simp+
  have raw: "json_Unmarshal demo_jsonlib ''file'' = Inr demo_file" by (simp add: demo_jsonlib_def)
  show ?thesis
    unfolding parseResultFile_def readResultBytes_def
    by (simp add: names call_defs demo_files_api_def raw demo_stats)
       (simp add: demo_opts_def stats_results_def demo_results_def cr_formatFloat_def cr_formatPercent_def Let_def
         demo_jsonlib_def demo_golib_def)
qed

lemma demo_collected: "collected demo_files_api demo_jsonlib demo_opts demo_world = Inr demo_results" "ascii_results demo_results"
proof -
  show "collected demo_files_api demo_jsonlib demo_opts demo_world = Inr demo_results"
    unfolding collected_def Let_def demo_pointer sum.case demo_parse by (simp add: demo_jsonlib_def enc_results_def)
  show "ascii_results demo_results" by code_simp
qed

section \<open>A bot whose grace period is over\<close>

definition demo_late_api :: "int api" where
  "demo_late_api = demo_api\<lparr>api_GetTradeBot := (\<lambda>k e. (Inr demo_deleted, e)), api_Now := (\<lambda>e. (10 ^ 15, e))\<rparr>"

lemma demo_late: "responsive demo_late_api" "deletion_pending demo_late_api ref_klib demo_key demo_deleted"
    "overdue demo_late_api demo_reconciler demo_deleted"
  by (simp_all add: responsive_def deletion_pending_def overdue_def demo_late_api_def demo_api_def demo_deleted_def
      ref_klib_def deadline_passed_def finalizerGracePeriod_def demo_reconciler_def defaultFinalizerGracePeriod_def
      Minute_def Second_def)

section \<open>Callers of a bot\<close>

definition demo_pod :: netpod where
  "demo_pod = \<lparr>nd_Namespace = ''ns'', nd_NamespaceLabels = [], nd_Labels = selector_labels demo_tb\<rparr>"

definition demo_caller :: netpod where
  "demo_caller = \<lparr>nd_Namespace = ''ns'', nd_NamespaceLabels = [], nd_Labels = [(''app'', ''ui'')]\<rparr>"

lemma demo_pod_of: "pod_of demo_tb demo_pod"
  by (simp add: pod_of_def demo_pod_def BuildStatefulSet_def)

end
