(* ===== verification/Watches.thy ===== *)
theory Watches
  imports TradeBotReconcile FreqUIReconcile BacktestReconcile
begin

text \<open>Which changes in the cluster wake which reconciler: the \<open>SetupWithManager\<close> functions of the five controllers
  (\<open>controllers/*/setup.go\<close>) with the mapping functions of \<open>controllers/shared/utils.go\<close>. A controller is the list
  of its watches, each a kind of object, a handler that turns an event into reconcile requests, and a predicate
  that filters events. The predicates and handlers of controller-runtime are the record \<open>crlib\<close>, a parameter;
  \<open>cr_laws\<close> states their documented behaviour. The TradeBot controller watches FreqUIs in their v1alpha1 form, which
  has the metadata and the names of the referenced bots of the v1beta1 form that stands for both here. The lemmas say
  which requests an event leads to.\<close>

named_theorems watch_simps "evaluation of watches"

section \<open>Objects and events\<close>

datatype kind = KTradeBot | KFreqUI | KTradeBotConfig | KStrategy | KBacktest
  | KSecret | KConfigMap | KPVC | KStatefulSet | KService | KNetworkPolicy | KDeployment | KIngress | KHTTPRoute | KJob
  | KServiceAccount | KRole | KRoleBinding

datatype watched = WTradeBot tradebot | WFreqUI frequi | WTradeBotConfig tradebotconfig | WStrategy strategy
  | WBacktest backtest | WObject manifest

fun manifest_kind :: "manifest \<Rightarrow> kind" where
  "manifest_kind (MSecret x) = KSecret"
| "manifest_kind (MConfigMap x) = KConfigMap"
| "manifest_kind (MPVC x) = KPVC"
| "manifest_kind (MStatefulSet x) = KStatefulSet"
| "manifest_kind (MService x) = KService"
| "manifest_kind (MNetworkPolicy x) = KNetworkPolicy"
| "manifest_kind (MDeployment x) = KDeployment"
| "manifest_kind (MIngress x) = KIngress"
| "manifest_kind (MHTTPRoute x) = KHTTPRoute"
| "manifest_kind (MJob x) = KJob"
| "manifest_kind (MServiceAccount x) = KServiceAccount"
| "manifest_kind (MRole x) = KRole"
| "manifest_kind (MRoleBinding x) = KRoleBinding"

fun watched_kind :: "watched \<Rightarrow> kind" where
  "watched_kind (WTradeBot x) = KTradeBot"
| "watched_kind (WFreqUI x) = KFreqUI"
| "watched_kind (WTradeBotConfig x) = KTradeBotConfig"
| "watched_kind (WStrategy x) = KStrategy"
| "watched_kind (WBacktest x) = KBacktest"
| "watched_kind (WObject m) = manifest_kind m"

fun watched_meta :: "watched \<Rightarrow> objmeta" where
  "watched_meta (WTradeBot x) = tb_meta x"
| "watched_meta (WFreqUI x) = fu_meta x"
| "watched_meta (WTradeBotConfig x) = tc_meta x"
| "watched_meta (WStrategy x) = sy_meta x"
| "watched_meta (WBacktest x) = bk_meta x"
| "watched_meta (WObject m) = manifest_meta m"

text \<open>The name of a kind as owner references carry it.\<close>

definition kind_name :: "kind \<Rightarrow> string" where
  "kind_name k = (case k of KTradeBot \<Rightarrow> ''TradeBot'' | KFreqUI \<Rightarrow> ''FreqUI'' | KTradeBotConfig \<Rightarrow> ''TradeBotConfig''
     | KStrategy \<Rightarrow> ''Strategy'' | KBacktest \<Rightarrow> ''Backtest'' | KSecret \<Rightarrow> ''Secret'' | KConfigMap \<Rightarrow> ''ConfigMap''
     | KPVC \<Rightarrow> ''PersistentVolumeClaim'' | KStatefulSet \<Rightarrow> ''StatefulSet'' | KService \<Rightarrow> ''Service''
     | KNetworkPolicy \<Rightarrow> ''NetworkPolicy'' | KDeployment \<Rightarrow> ''Deployment'' | KIngress \<Rightarrow> ''Ingress''
     | KHTTPRoute \<Rightarrow> ''HTTPRoute'' | KJob \<Rightarrow> ''Job'' | KServiceAccount \<Rightarrow> ''ServiceAccount'' | KRole \<Rightarrow> ''Role''
     | KRoleBinding \<Rightarrow> ''RoleBinding'')"

datatype wevent = Created watched | Updated watched watched | Deleted watched | Generic watched

fun involved :: "wevent \<Rightarrow> watched list" where
  "involved (Created x) = [x]"
| "involved (Updated x y) = [x, y]"
| "involved (Deleted x) = [x]"
| "involved (Generic x) = [x]"

definition event_kind :: "wevent \<Rightarrow> kind" where
  "event_kind e = watched_kind (hd (involved e))"

section \<open>controller-runtime\<close>

type_synonym predicate = "wevent \<Rightarrow> bool"
type_synonym eventhandler = "wevent \<Rightarrow> nname list"
type_synonym mapfunc = "watched \<Rightarrow> nname list"

record crlib =
  GenerationChangedPredicate :: predicate
  AnnotationChangedPredicate :: predicate
  ResourceVersionChangedPredicate :: predicate
  predicate_Or :: "predicate list \<Rightarrow> predicate"
  EnqueueRequestForObject :: eventhandler
  EnqueueRequestForOwner :: "kind \<Rightarrow> eventhandler"
  EnqueueRequestsFromMapFunc :: "mapfunc \<Rightarrow> eventhandler"

text \<open>The requests for the controller owner of kind \<open>k\<close> of an object.\<close>

definition owner_requests :: "kind \<Rightarrow> watched \<Rightarrow> nname set" where
  "owner_requests k x = {\<lparr>nn_Namespace = om_Namespace (watched_meta x), nn_Name = or_Name r\<rparr> |r.
     r \<in> set (om_OwnerReferences (watched_meta x)) \<and> or_Controller r \<and> or_Kind r = kind_name k}"

text \<open>The three predicates only ever reject updates; the handlers look at the old and the new object of an update.\<close>

definition changed_only :: "(objmeta \<Rightarrow> 'a) \<Rightarrow> predicate \<Rightarrow> bool" where
  "changed_only f p \<longleftrightarrow> (\<forall>e. p e \<longleftrightarrow>
     (case e of Updated x y \<Rightarrow> f (watched_meta x) \<noteq> f (watched_meta y) | _ \<Rightarrow> True))"

definition cr_laws :: "crlib \<Rightarrow> bool" where
  "cr_laws L \<longleftrightarrow> changed_only om_Generation (GenerationChangedPredicate L)
     \<and> changed_only om_Annotations (AnnotationChangedPredicate L)
     \<and> changed_only om_ResourceVersion (ResourceVersionChangedPredicate L)
     \<and> (\<forall>ps e. predicate_Or L ps e \<longleftrightarrow> (\<exists>p \<in> set ps. p e))
     \<and> (\<forall>e. set (EnqueueRequestForObject L e) = key_of_meta ` watched_meta ` set (involved e))
     \<and> (\<forall>k e. set (EnqueueRequestForOwner L k e) = (\<Union>x \<in> set (involved e). owner_requests k x))
     \<and> (\<forall>f e. set (EnqueueRequestsFromMapFunc L f e) = (\<Union>x \<in> set (involved e). set (f x)))"

section \<open>Mapping functions\<close>

text \<open>The answer of the cache for the TradeBots of a namespace whose index under a field holds a value.\<close>

type_synonym indexed_list = "string \<Rightarrow> string \<Rightarrow> string \<Rightarrow> goerr + tradebot list"

definition configRefField :: string where "configRefField = ''spec.config''"
definition strategyRefField :: string where "strategyRefField = ''spec.strategy''"

text \<open>The closure \<open>indexTradeBotRef\<close> registers: an empty reference is not indexed.\<close>

definition index_values :: "(tradebot \<Rightarrow> string) \<Rightarrow> tradebot \<Rightarrow> string list" where
  "index_values get tb = (let v = get tb in if v \<noteq> [] then [v] else [])"

definition EnqueueTradeBotsByConfigRef :: "indexed_list \<Rightarrow> string \<Rightarrow> mapfunc" where
  "EnqueueTradeBotsByConfigRef list refField obj =
    (case list (om_Namespace (watched_meta obj)) refField (om_Name (watched_meta obj)) of
       Inl e \<Rightarrow> []
     | Inr tradeBots \<Rightarrow> map (\<lambda>bot. \<lparr>nn_Namespace = om_Namespace (tb_meta bot), nn_Name = om_Name (tb_meta bot)\<rparr>) tradeBots)"

definition EnqueueTradeBotsByFreqUIRef :: mapfunc where
  "EnqueueTradeBotsByFreqUIRef obj = (case obj of
       WFreqUI frequi \<Rightarrow> map (\<lambda>tradeBotRef. \<lparr>nn_Namespace = om_Namespace (fu_meta frequi), nn_Name = tradeBotRef\<rparr>)
         (fu_TradeBotRefs (fu_Spec frequi))
     | _ \<Rightarrow> [])"

section \<open>The controllers\<close>

record controller =
  ct_For :: kind
  ct_Watches :: "(kind \<times> eventhandler \<times> predicate) list"
  ct_MaxConcurrentReconciles :: int

text \<open>\<open>Owns\<close> of the builder: the owner of the kind the controller is for.\<close>

definition Owns :: "crlib \<Rightarrow> kind \<Rightarrow> kind \<Rightarrow> kind \<times> eventhandler \<times> predicate" where
  "Owns L owner k = (k, EnqueueRequestForOwner L owner, ResourceVersionChangedPredicate L)"

definition tradebot_controller :: "crlib \<Rightarrow> indexed_list \<Rightarrow> reconciler \<Rightarrow> controller" where
  "tradebot_controller L list R =
    (let tradeBotChanged = predicate_Or L [GenerationChangedPredicate L, AnnotationChangedPredicate L];
         specChanged = GenerationChangedPredicate L;
         maxReconciles = (if r_MaxConcurrentReconciles R > 0 then r_MaxConcurrentReconciles R else 4)
     in \<lparr>ct_For = KTradeBot,
         ct_Watches =
          [(KTradeBot, EnqueueRequestForObject L, tradeBotChanged),
           (KFreqUI, EnqueueRequestsFromMapFunc L EnqueueTradeBotsByFreqUIRef, specChanged),
           (KTradeBotConfig, EnqueueRequestsFromMapFunc L (EnqueueTradeBotsByConfigRef list configRefField), specChanged),
           (KStrategy, EnqueueRequestsFromMapFunc L (EnqueueTradeBotsByConfigRef list strategyRefField), specChanged)]
          @ map (Owns L KTradeBot) [KSecret, KConfigMap, KService, KPVC, KStatefulSet],
         ct_MaxConcurrentReconciles = maxReconciles\<rparr>)"

definition frequi_controller :: "crlib \<Rightarrow> freqreconciler \<Rightarrow> controller" where
  "frequi_controller L R = \<lparr>ct_For = KFreqUI,
     ct_Watches = [(KFreqUI, EnqueueRequestForObject L, GenerationChangedPredicate L)]
       @ map (Owns L KFreqUI) [KDeployment, KService, KIngress]
       @ (if fr_GatewayAPIAvailable R then [Owns L KFreqUI KHTTPRoute] else []),
     ct_MaxConcurrentReconciles = 1\<rparr>"

definition strategy_controller :: "crlib \<Rightarrow> controller" where
  "strategy_controller L = \<lparr>ct_For = KStrategy,
     ct_Watches = [(KStrategy, EnqueueRequestForObject L, GenerationChangedPredicate L)], ct_MaxConcurrentReconciles = 2\<rparr>"

definition tradebotconfig_controller :: "crlib \<Rightarrow> controller" where
  "tradebotconfig_controller L = \<lparr>ct_For = KTradeBotConfig,
     ct_Watches = [(KTradeBotConfig, EnqueueRequestForObject L, GenerationChangedPredicate L)], ct_MaxConcurrentReconciles = 2\<rparr>"

definition backtest_controller :: "crlib \<Rightarrow> controller" where
  "backtest_controller L = \<lparr>ct_For = KBacktest,
     ct_Watches = [(KBacktest, EnqueueRequestForObject L, GenerationChangedPredicate L)]
       @ map (Owns L KBacktest) [KSecret, KConfigMap, KPVC, KJob],
     ct_MaxConcurrentReconciles = 4\<rparr>"

text \<open>What the running controller enqueues: each watch sees the events of its kind that its predicate accepts.\<close>

definition enqueued :: "controller \<Rightarrow> wevent \<Rightarrow> nname list" where
  "enqueued c e = concat (map (\<lambda>(k, h, p). if event_kind e = k \<and> p e then h e else []) (ct_Watches c))"

section \<open>What wakes a controller\<close>

lemma cr_lawsD:
  assumes "cr_laws L"
  shows "changed_only om_Generation (GenerationChangedPredicate L)"
    "changed_only om_Annotations (AnnotationChangedPredicate L)"
    "changed_only om_ResourceVersion (ResourceVersionChangedPredicate L)"
    "\<And>ps e. predicate_Or L ps e \<longleftrightarrow> (\<exists>p \<in> set ps. p e)"
    "\<And>e. set (EnqueueRequestForObject L e) = key_of_meta ` watched_meta ` set (involved e)"
    "\<And>k e. set (EnqueueRequestForOwner L k e) = (\<Union>x \<in> set (involved e). owner_requests k x)"
    "\<And>f e. set (EnqueueRequestsFromMapFunc L f e) = (\<Union>x \<in> set (involved e). set (f x))"
  using assms by (simp_all add: cr_laws_def)

lemma changed_only_update: "changed_only f p \<Longrightarrow> p (Updated x y) \<longleftrightarrow> f (watched_meta x) \<noteq> f (watched_meta y)"
  by (simp add: changed_only_def)

lemma changed_only_other: "changed_only f p \<Longrightarrow> p (Created x)" "changed_only f p \<Longrightarrow> p (Deleted x)" "changed_only f p \<Longrightarrow> p (Generic x)"
  by (simp_all add: changed_only_def)

lemma set_enqueued:
  "set (enqueued c e) = (\<Union>(k, h, p) \<in> set (ct_Watches c). if event_kind e = k \<and> p e then set (h e) else {})"
  by (force simp: enqueued_def split: if_splits)

lemma event_kind_simps [simp, watch_simps]:
  "event_kind (Created x) = watched_kind x" "event_kind (Updated x y) = watched_kind x"
  "event_kind (Deleted x) = watched_kind x" "event_kind (Generic x) = watched_kind x"
  by (simp_all add: event_kind_def)

text \<open>A change of a referenced object reaches the bots that its mapping function names, for the old and the new
  object.\<close>

lemma mapped_change:
  assumes L: "cr_laws L"
  shows "set (enqueued (tradebot_controller L list R) (Updated (WTradeBotConfig c) (WTradeBotConfig c'))) =
      (if om_Generation (tc_meta c) = om_Generation (tc_meta c') then {}
       else set (EnqueueTradeBotsByConfigRef list configRefField (WTradeBotConfig c))
         \<union> set (EnqueueTradeBotsByConfigRef list configRefField (WTradeBotConfig c')))"
    and "set (enqueued (tradebot_controller L list R) (Updated (WStrategy s) (WStrategy s'))) =
      (if om_Generation (sy_meta s) = om_Generation (sy_meta s') then {}
       else set (EnqueueTradeBotsByConfigRef list strategyRefField (WStrategy s))
         \<union> set (EnqueueTradeBotsByConfigRef list strategyRefField (WStrategy s')))"
    and "set (enqueued (tradebot_controller L list R) (Updated (WFreqUI f) (WFreqUI f'))) =
      (if om_Generation (fu_meta f) = om_Generation (fu_meta f') then {}
       else set (EnqueueTradeBotsByFreqUIRef (WFreqUI f)) \<union> set (EnqueueTradeBotsByFreqUIRef (WFreqUI f')))"
  using cr_lawsD [OF L] changed_only_update [OF cr_lawsD(1) [OF L]]
  by (auto simp: set_enqueued tradebot_controller_def Owns_def Let_def)

text \<open>The index of the cache: the stored bots of the namespace for which the registered function yields the value.\<close>

definition field_index :: "string \<Rightarrow> tradebot \<Rightarrow> string list" where
  "field_index field = (if field = configRefField then index_values (\<lambda>t. tb_Config (tb_Spec t))
     else index_values (\<lambda>t. tb_Strategy (tb_Spec t)))"

definition serves_index :: "indexed_list \<Rightarrow> tradebot list \<Rightarrow> bool" where
  "serves_index list bots \<longleftrightarrow> (\<forall>ns field v. list ns field v =
     Inr (filter (\<lambda>b. om_Namespace (tb_meta b) = ns \<and> v \<in> set (field_index field b)) bots))"

lemma mapped_bots:
  assumes "serves_index list bots" and "om_Name (watched_meta x) \<noteq> []"
  shows "set (EnqueueTradeBotsByConfigRef list configRefField x) = key_of_meta ` tb_meta `
      {b \<in> set bots. om_Namespace (tb_meta b) = om_Namespace (watched_meta x) \<and> tb_Config (tb_Spec b) = om_Name (watched_meta x)}"
    and "set (EnqueueTradeBotsByConfigRef list strategyRefField x) = key_of_meta ` tb_meta `
      {b \<in> set bots. om_Namespace (tb_meta b) = om_Namespace (watched_meta x) \<and> tb_Strategy (tb_Spec b) = om_Name (watched_meta x)}"
  using assms
  by (auto simp: serves_index_def EnqueueTradeBotsByConfigRef_def field_index_def index_values_def Let_def key_of_meta_def
      configRefField_def strategyRefField_def image_iff)

lemma mapped_frequi_refs:
  "set (EnqueueTradeBotsByFreqUIRef (WFreqUI f))
     = (\<lambda>n. \<lparr>nn_Namespace = om_Namespace (fu_meta f), nn_Name = n\<rparr>) ` set (fu_TradeBotRefs (fu_Spec f))"
  by (simp add: EnqueueTradeBotsByFreqUIRef_def)

section \<open>Status writes wake nobody\<close>

text \<open>The controllers of the operator.\<close>

definition all_controllers :: "crlib \<Rightarrow> indexed_list \<Rightarrow> reconciler \<Rightarrow> freqreconciler \<Rightarrow> controller list" where
  "all_controllers L list R F = [tradebot_controller L list R, frequi_controller L F, strategy_controller L,
     tradebotconfig_controller L, backtest_controller L]"

lemma tradebot_update_wakes:
  assumes L: "cr_laws L" and c: "c \<in> set (all_controllers L list R F)"
    and e: "enqueued c (Updated (WTradeBot x) (WTradeBot y)) \<noteq> []"
  shows "om_Generation (tb_meta x) \<noteq> om_Generation (tb_meta y) \<or> om_Annotations (tb_meta x) \<noteq> om_Annotations (tb_meta y)"
proof -
  from e have "set (enqueued c (Updated (WTradeBot x) (WTradeBot y))) \<noteq> {}" by simp
  with c show ?thesis
    using cr_lawsD [OF L] changed_only_update [OF cr_lawsD(1) [OF L]] changed_only_update [OF cr_lawsD(2) [OF L]]
    by (auto simp: all_controllers_def set_enqueued tradebot_controller_def frequi_controller_def strategy_controller_def
        tradebotconfig_controller_def backtest_controller_def Owns_def Let_def split: if_splits)
qed

section \<open>Changes of owned objects\<close>

text \<open>The deletion of an object wakes the controller for its controller owner when the controller owns the kind.\<close>

definition tradebot_owned :: "kind list" where
  "tradebot_owned = [KSecret, KConfigMap, KService, KPVC, KStatefulSet]"

lemma owned_deletion:
  assumes L: "cr_laws L"
  shows "set (enqueued (tradebot_controller L list R) (Deleted (WObject m))) =
      (if manifest_kind m \<in> set tradebot_owned then owner_requests KTradeBot (WObject m) else {})"
    and "set (enqueued (backtest_controller L) (Deleted (WObject m))) =
      (if manifest_kind m \<in> {KSecret, KConfigMap, KPVC, KJob} then owner_requests KBacktest (WObject m) else {})"
    and "set (enqueued (frequi_controller L F) (Deleted (WObject m))) =
      (if manifest_kind m \<in> {KDeployment, KService, KIngress} \<or> manifest_kind m = KHTTPRoute \<and> fr_GatewayAPIAvailable F
       then owner_requests KFreqUI (WObject m) else {})"
  using cr_lawsD [OF L] changed_only_other [OF cr_lawsD(3) [OF L]]
  by (cases m; auto simp: set_enqueued tradebot_controller_def frequi_controller_def backtest_controller_def
      tradebot_owned_def Owns_def Let_def split: if_splits)+

end
