(* ===== verification/SecretContainment.thy ===== *)
theory SecretContainment
  imports TradeBotReconcile
begin

text \<open>Where the rendered configuration goes. It holds exchange keys, API credentials and the JWT key; of the objects a
  reconcile applies, only the bot's config Secret is built from it. Every other object is what its builder makes of the
  TradeBot, the Strategy, the names of the FreqUIs and a config hash.\<close>

definition workload_objects :: "reconciler \<Rightarrow> tradebot \<Rightarrow> strategy \<Rightarrow> string list \<Rightarrow> string \<Rightarrow> manifest set" where
  "workload_objects R tb strat fs h = {MConfigMap (BuildStrategyConfigMap tb strat), MPVC (BuildUserDataPVC tb), MService (BuildService tb),
     MNetworkPolicy (BuildNetworkPolicy tb fs (r_OperatorNamespace R)),
     MStatefulSet (BuildStatefulSet tb (defaultImage R) (ss_Name (sy_Spec strat)) (tb_Name tb @ ''-config'') (tb_Name tb @ ''-strategy'')
       (tb_Name tb @ ''-user-data'') h)}"

text \<open>A hash that may stand on a template: sixteen characters, or what the StatefulSet read before had.\<close>

definition hash_known :: "tradebot \<Rightarrow> event list \<Rightarrow> string \<Rightarrow> bool" where
  "hash_known tb t h \<longleftrightarrow> length h = 16 \<or> (\<exists>s. GetStatefulSet (key_of_meta (tb_meta tb)) (Inr s) \<in> set t \<and> h = template_hash s)"

definition applied :: "klib \<Rightarrow> reconciler \<Rightarrow> tradebot \<Rightarrow> strategy \<Rightarrow> string list \<Rightarrow> string \<Rightarrow> event \<Rightarrow> bool" where
  "applied K R tb strat fs h e \<longleftrightarrow> (\<forall>m r. e = ApplyPatch m r \<longrightarrow> (\<exists>m0. SetControllerReference K (tb_meta tb) m0 = Inr m
     \<and> ((\<exists>cd. m0 = MSecret (BuildSecret tb cd)) \<or> m0 \<in> workload_objects R tb strat fs h)))"

definition config_contained :: "klib \<Rightarrow> reconciler \<Rightarrow> nname \<Rightarrow> event list \<Rightarrow> event \<Rightarrow> bool" where
  "config_contained K R key t e \<longleftrightarrow> (\<forall>m r. e = ApplyPatch m r \<longrightarrow> (\<exists>tb strat fl h. GetTradeBot key (Inr tb) \<in> set t
     \<and> GetStrategy \<lparr>nn_Namespace = nn_Namespace key, nn_Name = tb_Strategy (tb_Spec tb)\<rparr> (Inr strat) \<in> set t
     \<and> ListFreqUI (tb_Namespace tb) (Inr fl) \<in> set t \<and> hash_known tb t h \<and> applied K R tb strat (referencingFreqUINames tb fl) h e))"

lemma hash_known_mono: "\<lbrakk>hash_known tb t h; set t \<subseteq> set u\<rbrakk> \<Longrightarrow> hash_known tb u h"
  by (auto simp: hash_known_def)

lemma settles_known: "settles tb (computeConfigHash cd sc) t h \<Longrightarrow> hash_known tb t h"
  by (auto simp: settles_def hash_known_def split: if_splits sum.splits)

section \<open>The resource pass\<close>

lemma Apply_applied:
  assumes "(\<exists>cd. m = MSecret (BuildSecret tb cd)) \<or> m \<in> workload_objects R tb strat fs h"
  shows "only (applied K R tb strat fs h) (Apply A K (tb_meta tb) m)"
  by (rule only_Apply) (use assms in \<open>auto simp: applied_def\<close>)

lemma applied_other: "\<forall>m r. e \<noteq> ApplyPatch m r \<Longrightarrow> applied K R tb strat fs h e"
  by (simp add: applied_def)

lemma workload_applied: "only (applied K R tb strat fs h) (apply_workload A K R tb strat fresh fs h)"
  unfolding apply_workload_def Let_def
  by (intro only_intro Apply_applied applied_other) (simp_all add: workload_objects_def)

definition pass_applied :: "klib \<Rightarrow> reconciler \<Rightarrow> tradebot \<Rightarrow> strategy \<Rightarrow> string list \<Rightarrow> event list \<Rightarrow> bool" where
  "pass_applied K R tb strat fs t \<longleftrightarrow> (\<exists>h. hash_known tb t h \<and> list_all (applied K R tb strat fs h) t)"

lemma template_applied:
  fixes strat :: strategy and cd :: smap
  defines "fresh \<equiv> computeConfigHash cd (ss_Script (sy_Spec strat))"
  shows "emits (do {
      h \<leftarrow> statefulSetTemplateHash A tb fresh;
      case h of
        Inl e \<Rightarrow> State_Monad.return (Inl (f e))
      | Inr templateHash \<Rightarrow> apply_workload A K R tb strat fresh fs templateHash }) (\<lambda>_. pass_applied K R tb strat fs)"
proof -
  have hash: "emits (statefulSetTemplateHash A tb fresh)
      (\<lambda>r t. list_all (\<lambda>e. \<forall>m r. e \<noteq> ApplyPatch m r) t \<and> (\<forall>h. r = Inr h \<longrightarrow> settles tb fresh t h))"
    by (rule emits_conj [OF _ templateHash_settles], fold only_def) (intro only_intro, simp)
  show ?thesis
  proof (rule emits_bind [OF hash], rule emits_case_sum)
    fix x :: "goerr + string" and t e
    assume "list_all (\<lambda>e. \<forall>m r. e \<noteq> ApplyPatch m r) t \<and> (\<forall>h. x = Inr h \<longrightarrow> settles tb fresh t h)"
    then show "emits (State_Monad.return (Inl (f e))) (\<lambda>_ u. pass_applied K R tb strat fs (t @ u))"
      unfolding pass_applied_def
      by (intro emits_return exI [of _ fresh]) (auto simp: fresh_def hash_known_def list_all_iff intro: applied_other)
  next
    fix x t h assume t: "list_all (\<lambda>e. \<forall>m r. e \<noteq> ApplyPatch m r) t \<and> (\<forall>h. x = Inr h \<longrightarrow> settles tb fresh t h)" "x = Inr h"
    then have "hash_known tb (t @ u) h" for u
      using settles_known [of tb cd] hash_known_mono unfolding fresh_def by (metis Un_upper1 set_append)
    with t show "emits (apply_workload A K R tb strat fresh fs h) (\<lambda>_ u. pass_applied K R tb strat fs (t @ u))"
      unfolding pass_applied_def
      by (intro emits_of_only [OF workload_applied] exI [of _ h]) (auto simp: list_all_iff intro: applied_other)
  qed
qed

lemma applied_first:
  assumes k: "emits k (\<lambda>_. pass_applied K R tb strat fs)"
    and m: "(\<exists>cd. m = MSecret (BuildSecret tb cd)) \<or> (\<forall>h. m \<in> workload_objects R tb strat fs h)"
  shows "emits (apply_or (Apply A K (tb_meta tb) m) msg k) (\<lambda>_. pass_applied K R tb strat fs)"
proof (rule emits_apply_or [OF _ k])
  show "only (\<lambda>e. \<forall>h. applied K R tb strat fs h e) (Apply A K (tb_meta tb) m)"
    by (rule only_Apply) (use m in \<open>auto simp: applied_def\<close>)
next
  fix t assume "list_all (\<lambda>e. \<forall>h. applied K R tb strat fs h e) t"
  then show "pass_applied K R tb strat fs t"
    unfolding pass_applied_def by (intro exI [of _ "replicate 16 CHR ''0''"]) (auto simp: hash_known_def list_all_iff)
next
  fix t u assume "list_all (\<lambda>e. \<forall>h. applied K R tb strat fs h e) t" "pass_applied K R tb strat fs u"
  then show "pass_applied K R tb strat fs (t @ u)"
    using hash_known_mono [of tb u _ "t @ u"] by (auto simp: pass_applied_def list_all_iff)
qed

lemma resources_applied: "emits (reconcileResources A K R tb strat cd fs) (\<lambda>_. pass_applied K R tb strat fs)"
  unfolding reconcileResources_def Let_def
  by (intro applied_first template_applied) (auto simp: workload_objects_def)

section \<open>The whole reconcile\<close>

abbreviation "silent e \<equiv> \<forall>m r. e \<noteq> ApplyPatch m r"

lemma contained_other: "silent e \<Longrightarrow> config_contained K R key t e"
  by (simp add: config_contained_def)

definition pass_reads :: "nname \<Rightarrow> tradebot \<Rightarrow> strategy \<Rightarrow> frequi list \<Rightarrow> event list \<Rightarrow> bool" where
  "pass_reads key tb strat fl t \<longleftrightarrow> list_all silent t
     \<and> GetStrategy \<lparr>nn_Namespace = nn_Namespace key, nn_Name = tb_Strategy (tb_Spec tb)\<rparr> (Inr strat) \<in> set t
     \<and> ListFreqUI (tb_Namespace tb) (Inr fl) \<in> set t"

lemma contained_pass:
  assumes "pass_reads key tb strat fl t" "hash_known tb u h" "list_all (applied K R tb strat (referencingFreqUINames tb fl) h) u" "list_all silent v"
  shows "list_all (config_contained K R key (GetTradeBot key (Inr tb) # t @ u @ v)) (t @ u @ v)"
proof -
  have "config_contained K R key (GetTradeBot key (Inr tb) # t @ u @ v) e" if "e \<in> set u" for e
    using assms that hash_known_mono [OF assms(2), of "GetTradeBot key (Inr tb) # t @ u @ v"]
    unfolding config_contained_def pass_reads_def list_all_iff by (intro allI impI exI [of _ tb] exI [of _ strat] exI [of _ fl] exI [of _ h]) auto
  then show ?thesis
    using assms by (auto simp: pass_reads_def list_all_iff intro: contained_other)
qed

text \<open>The other parts of a reconcile apply nothing.\<close>

lemma silent_parts:
  "only silent (failReconcile A K R tb ty rs m e)" "only silent (reconcile_status A K G R key tb w out)"
  "only silent (BuildConfig A G n ns sp c)" "only silent (emit (MetricObserve x))"
  by (intro only_intro; simp)+

lemma contained_silent: "list_all silent t \<Longrightarrow> list_all (config_contained K R key u) t"
  by (auto simp: list_all_iff intro: contained_other)

lemma pass_contained:
  assumes t: "pass_reads key tb strat fl t"
  shows "emits (do {
      out \<leftarrow> reconcileResources A K R tb strat cd (referencingFreqUINames tb fl);
      case out of
        Inl e \<Rightarrow> failReconcile A K R tb ty rs (m e) (Some e)
      | Inr outcome \<Rightarrow> reconcile_status A K G R key tb w outcome })
    (\<lambda>_ u. list_all (config_contained K R key (GetTradeBot key (Inr tb) # t @ u)) (t @ u))"
  by (rule emits_bind [OF resources_applied], unfold pass_applied_def, elim exE conjE, rule emits_case_sum;
      (rule emits_of_only [OF silent_parts(1)] | rule emits_of_only [OF silent_parts(2)]), drule (2) contained_pass [OF t]) simp_all

lemma render_contained:
  assumes t: "pass_reads key tb strat fl t"
  shows "emits (do {
      c \<leftarrow> BuildConfig A G n ns sp cs;
      _ \<leftarrow> emit (MetricObserve x);
      case c of
        Inl e \<Rightarrow> failReconcile A K R tb ty (rs e) (m e) (Some e)
      | Inr cd \<Rightarrow> do {
          out \<leftarrow> reconcileResources A K R tb strat cd (referencingFreqUINames tb fl);
          case out of
            Inl e \<Rightarrow> failReconcile A K R tb ty' rs' (m' e) (Some e)
          | Inr outcome \<Rightarrow> reconcile_status A K G R key tb w outcome } })
    (\<lambda>_ u. list_all (config_contained K R key (GetTradeBot key (Inr tb) # t @ u)) (t @ u))"
proof (rule emits_bind [OF silent_parts(3) [unfolded only_def]], rule emits_bind [OF silent_parts(4) [unfolded only_def]], rule emits_case_sum)
  fix t1 t2 e assume q: "list_all silent t1" "list_all silent t2"
  show "emits (failReconcile A K R tb ty (rs e) (m e) (Some e))
      (\<lambda>_ u. list_all (config_contained K R key (GetTradeBot key (Inr tb) # t @ t1 @ t2 @ u)) (t @ t1 @ t2 @ u))"
    by (rule emits_of_only [OF silent_parts(1)], rule contained_silent) (use t q in \<open>simp add: pass_reads_def\<close>)
next
  fix t1 t2 cd assume q: "list_all silent t1" "list_all silent t2"
  with t have "pass_reads key tb strat fl (t @ t1 @ t2)" by (simp add: pass_reads_def)
  from pass_contained [OF this] show "emits (do {
        out \<leftarrow> reconcileResources A K R tb strat cd (referencingFreqUINames tb fl);
        case out of
          Inl e \<Rightarrow> failReconcile A K R tb ty' rs' (m' e) (Some e)
        | Inr outcome \<Rightarrow> reconcile_status A K G R key tb w outcome })
      (\<lambda>_ u. list_all (config_contained K R key (GetTradeBot key (Inr tb) # t @ t1 @ t2 @ u)) (t @ t1 @ t2 @ u))" by simp
qed

lemma refs_reads:
  "emits (fetchReferencedResources A tb (nn_Namespace key)) (\<lambda>r t. list_all silent t \<and> (\<forall>res. r = Inr res \<longrightarrow>
     pass_reads key tb (rf_strategy res) fl (t @ [ListFreqUI (tb_Namespace tb) (Inr fl)])))"
  unfolding fetchReferencedResources_def call_defs
  by (rule emits_bind [OF emits_call [where Q = "\<lambda>r t. list_all silent t"]], simp, rule emits_case_sum, rule emits_return, simp,
      rule emits_bind [OF emits_call [where Q = "\<lambda>r t. t = [GetStrategy \<lparr>nn_Namespace = nn_Namespace key, nn_Name = tb_Strategy (tb_Spec tb)\<rparr> r]"]], simp,
      rule emits_case_sum; rule emits_return) (auto simp: pass_reads_def)

lemma live_contained:
  "emits (reconcile_live A K G R key tb) (\<lambda>_ t. list_all (config_contained K R key (GetTradeBot key (Inr tb) # t)) t)"
proof -
  have refs: "emits (fetchReferencedResources A tb (nn_Namespace key)) (\<lambda>r t. list_all silent t \<and> (\<forall>res fl. r = Inr res \<longrightarrow>
     pass_reads key tb (rf_strategy res) fl (t @ [ListFreqUI (tb_Namespace tb) (Inr fl)])))"
    by (rule emits_conseq [OF refs_reads]) (auto simp: pass_reads_def)
  have lst: "emits (do_ListFreqUI A (tb_Namespace tb)) (\<lambda>r t. t = [ListFreqUI (tb_Namespace tb) r])"
    unfolding call_defs by (rule emits_call) simp
  show ?thesis
    unfolding reconcile_live_def Let_def
    by (rule emits_if, rule emits_of_only [OF silent_parts(1)], erule contained_silent,
        rule emits_bind [OF refs], rule emits_case_sum, rule emits_of_only [OF silent_parts(1)], rule contained_silent, simp,
        rule emits_bind [OF lst], rule emits_case_sum, rule emits_return, rule contained_silent, simp,
        rule emits_conseq [OF render_contained]) auto
qed

lemma Reconcile_contained: "emits (Reconcile A K G R key) (\<lambda>_ t. list_all (config_contained K R key t) t)"
proof -
  have del: "only silent (reconcile_deletion A K G R tb)" for tb
    unfolding reconcile_deletion_def call_defs by (intro only_intro) simp_all
  have add: "only silent (reconcile_add_finalizer A K key)"
    unfolding reconcile_add_finalizer_def call_defs by (intro only_intro) simp_all
  have quiet: "list_all (config_contained K R key (GetTradeBot key x # u)) (GetTradeBot key x # u)" if "list_all silent u" for x u
    using that by (auto simp: list_all_iff intro: contained_other)
  have head: "config_contained K R key t (GetTradeBot key x)" for t x by (rule contained_other) simp
  show ?thesis
    unfolding Reconcile_def do_GetTradeBot_def
    by (rule emits_bind [OF emits_call [where Q = "\<lambda>r t. t = [GetTradeBot key r]"]], rule refl,
        rule emits_case_sum, rule emits_return, use quiet [of "[]"] in simp,
        intro emits_if emits_of_only [OF del] emits_of_only [OF add] emits_conseq [OF live_contained])
       (use quiet head in simp_all)
qed

end
