(* ===== verification/ControlLoop.thy ===== *)
theory ControlLoop
  imports Watches TradeBotConditions SecretContainment
begin

text \<open>The TradeBot controller as a loop: its reconciler and the poller write the same stored status, and what the
  watches deliver decides when the reconciler runs again. The lemmas here put the pieces together: neither writer
  touches the part of the other, what a reconcile depends on is watched but for its NetworkPolicy and the Secrets it reads
  and does not own, a poll wakes no reconciler, and a reconcile comes back on its own only in a few listed cases.\<close>

section \<open>Two writers of one status\<close>

text \<open>A status write together with the read it is computed from.\<close>

definition rewrote :: "(betatradebot \<Rightarrow> betatradebot \<Rightarrow> bool) \<Rightarrow> event \<Rightarrow> event \<Rightarrow> bool" where
  "rewrote S d e \<longleftrightarrow> (\<exists>k b b' r. d = GetBetaTradeBot k (Inr b) \<and> e = StatusUpdateBetaTradeBot b' r \<and> S b b')"

abbreviation rewriting :: "(betatradebot \<Rightarrow> betatradebot \<Rightarrow> bool) \<Rightarrow> ('e, 'a) op \<Rightarrow> bool" where
  "rewriting S \<equiv> keeps (\<lambda>e. written_tradebot e \<noteq> None) (rewrote S)"

abbreviation find_beta :: "klib \<Rightarrow> betatradebot \<Rightarrow> string \<Rightarrow> condition option" where
  "find_beta K b \<equiv> FindStatusCondition K (bst_Conditions (btb_Status b))"

text \<open>What a reconcile leaves alone: the poller's observation and its condition. What a poll leaves alone: the
  reconciler's conditions, phase, message, hash and image. Both leave metadata and spec.\<close>

definition poller_part_kept :: "klib \<Rightarrow> betatradebot \<Rightarrow> betatradebot \<Rightarrow> bool" where
  "poller_part_kept K b b' \<longleftrightarrow> btb_meta b' = btb_meta b \<and> btb_Spec b' = btb_Spec b \<and> bst_Bot (btb_Status b') = bst_Bot (btb_Status b)
     \<and> find_beta K b' ConditionBotReachable = find_beta K b ConditionBotReachable"

definition reconciler_part_kept :: "klib \<Rightarrow> betatradebot \<Rightarrow> betatradebot \<Rightarrow> bool" where
  "reconciler_part_kept K b b' \<longleftrightarrow> btb_meta b' = btb_meta b \<and> btb_Spec b' = btb_Spec b
     \<and> (\<forall>ty. ty \<noteq> ConditionBotReachable \<longrightarrow> find_beta K b' ty = find_beta K b ty)
     \<and> bst_Phase (btb_Status b') = bst_Phase (btb_Status b) \<and> bst_Message (btb_Status b') = bst_Message (btb_Status b)
     \<and> bst_AppliedConfigHash (btb_Status b') = bst_AppliedConfigHash (btb_Status b)
     \<and> bst_ResolvedImage (btb_Status b') = bst_ResolvedImage (btb_Status b)"

text \<open>The observed generation is moved to the current one by either writer.\<close>

definition generation_claimed :: "betatradebot \<Rightarrow> bool" where
  "generation_claimed b \<longleftrightarrow> bst_ObservedGeneration (btb_Status b) = om_Generation (btb_meta b)"

lemma rewriting_patch:
  assumes "\<And>now b. S b (persisted b (m now (copyTradeBotStatusFromBeta tb b)))"
  shows "rewriting S (patchTradeBotStatus A K tb m)"
  using patch_backed [of m tb A K] unfolding keeps_def
  by (elim emits_conseq backed_mono) (use assms in \<open>auto simp: rewrote_def\<close>)

lemma find_set_other:
  assumes "klib_laws K" "ty \<noteq> cd_Type c"
  shows "FindStatusCondition K (SetStatusCondition K now c cs) ty = FindStatusCondition K cs ty"
  using assms meta_conditions.find_set_other unfolding klib_laws_def by metis

text \<open>A mutation of the reconciler: it sets conditions other than the poller's and leaves the observation.\<close>

definition leaves_poller :: "klib \<Rightarrow> (gotime \<Rightarrow> tradebot \<Rightarrow> tradebot) \<Rightarrow> bool" where
  "leaves_poller K m \<longleftrightarrow> (\<forall>now t. st_Bot (tb_Status (m now t)) = st_Bot (tb_Status t)
     \<and> FindStatusCondition K (conds (m now t)) ConditionBotReachable = FindStatusCondition K (conds t) ConditionBotReachable)"

lemma leaves_poller_mutations:
  assumes K: "klib_laws K"
  shows "leaves_poller K (success_mutate K w m out)"
    and "ty \<noteq> ConditionBotReachable \<Longrightarrow> leaves_poller K (fail_mutate K ty rs msg)"
    and "ty \<noteq> ConditionBotReachable \<Longrightarrow> leaves_poller K (\<lambda>now. set_cond K now (mk_cond ty st rs msg))"
  by (simp_all add: leaves_poller_def success_mutate_def fail_mutate_def with_phase_def Let_def set_cond_def find_set_other [OF K])

lemma rewriting_reconciler:
  assumes K: "klib_laws K" and "leaves_poller K m"
  shows "rewriting (poller_part_kept K) (patchTradeBotStatus A K tb m)"
  by (rule rewriting_patch) (use assms in \<open>auto simp: poller_part_kept_def persisted_bot leaves_poller_def\<close>)

lemma failReconcile_rewriting:
  assumes K: "klib_laws K" and "ty \<noteq> ConditionBotReachable"
  shows "rewriting (poller_part_kept K) (failReconcile A K R tb ty rs m e)"
  unfolding failReconcile_def
  by (intro keeps_bind keeps_case_sum keeps_return rewriting_reconciler [OF K] leaves_poller_mutations [OF K] assms)
     (auto intro!: keeps_only only_intro)

lemma reconcileState_rewriting:
  assumes K: "klib_laws K"
  shows "rewriting (poller_part_kept K) (reconcileStateAndComputeRequeue A K G R key tb d)"
proof -
  have sc: "rewriting (poller_part_kept K) (set_state_cond A K tb st rs m)" for tb st rs m
    unfolding set_state_cond_def
    by (intro keeps_bind keeps_return rewriting_reconciler [OF K] leaves_poller_mutations [OF K]) simp
  have "rewriting (poller_part_kept K) (resolveCredentials A tb)" "rewriting (poller_part_kept K) (bot_Start A G c)"
    "rewriting (poller_part_kept K) (bot_Stop A G c)" "rewriting (poller_part_kept K) (record_event x ty a b)"
    "rewriting (poller_part_kept K) (do_GetBetaTradeBot A key)" for c x ty a b
    unfolding do_GetBetaTradeBot_def by (intro keeps_only only_intro; simp)+
  then show ?thesis
    unfolding reconcileStateAndComputeRequeue_def reconcileState_def reconcileStateChange_def Let_def
    by (intro keeps_intro sc)
qed

lemma Reconcile_rewriting:
  assumes K: "klib_laws K"
  shows "rewriting (poller_part_kept K) (Reconcile A K G R key)"
proof -
  let ?k = "rewriting (poller_part_kept K)"
  have other: "?k (fetchReferencedResources A tb ns)" "?k (BuildConfig A G n ns s c)" "?k (reconcileResources A K R tb st cd fs)"
      "?k (recordLifecycleEvents K R tb b)" "?k (computeWorkloadStatus A tb)" "?k (do_ListFreqUI A ns)" for tb ns n s c st cd fs b
    unfolding do_ListFreqUI_def by (intro keeps_only only_intro; simp)+
  have fail: "?k (failReconcile A K R tb ConditionConfigResolved rs m e)" "?k (failReconcile A K R tb ConditionWorkloadReady rs m e)"
    for tb rs m e
    by (rule failReconcile_rewriting [OF K], simp)+
  have status: "?k (reconcile_status A K G R key tb w out)" for tb w out
    unfolding reconcile_status_def Let_def
    by (intro keeps_bind keeps_case_sum keeps_return other fail rewriting_reconciler [OF K] leaves_poller_mutations [OF K]
        reconcileState_rewriting [OF K])
  have live: "?k (reconcile_live A K G R key tb)" for tb
    unfolding reconcile_live_def Let_def
    by (intro keeps_if keeps_bind keeps_case_sum keeps_return other fail status) (auto intro!: keeps_only only_intro)
  have del: "?k (reconcile_deletion A K G R tb)" for tb
    unfolding reconcile_deletion_def call_defs by (intro keeps_only only_intro) simp_all
  have add: "?k (reconcile_add_finalizer A K key)"
    unfolding reconcile_add_finalizer_def call_defs by (intro keeps_only only_intro) simp_all
  show ?thesis
    unfolding Reconcile_def do_GetTradeBot_def by (intro keeps_intro del add live) simp
qed

text \<open>The poller's side: whatever the poll found.\<close>

lemma poll_status_kept:
  assumes K: "klib_laws K" and "cd_Type reachable = ConditionBotReachable"
  shows "reconciler_part_kept K b (persisted b (poll_status K fresh reachable now (copyTradeBotStatusFromBeta t b)))"
    and "generation_claimed (persisted b (poll_status K fresh reachable now (copyTradeBotStatusFromBeta t b)))"
  using assms
  by (auto simp: reconciler_part_kept_def generation_claimed_def poll_status_def set_cond_def find_set_other [OF K]
      copyTradeBotStatusFromBeta_def)

lemma pollOne_rewriting:
  assumes K: "klib_laws K"
  shows "rewriting (\<lambda>b b'. reconciler_part_kept K b b' \<and> generation_claimed b') (pollOne A K G key p)"
  by (rule pollOne_backed) (use poll_status_kept [OF K] in \<open>auto simp: rewrote_def poll_outcome_def\<close>)

section \<open>When a reconcile comes back on its own\<close>

text \<open>A result without an error that asks to be run again. An error makes the work queue retry; neither means that
  only an event of a watch starts the next reconcile.\<close>

definition comes_back :: "reconcile_result \<Rightarrow> bool" where
  "comes_back r \<longleftrightarrow> rr_Err r = None \<and> rr_RequeueAfter r \<noteq> 0"

lemma comes_back_simps [simp]: "comes_back (mk_result d e) \<longleftrightarrow> e = None \<and> d \<noteq> 0"
  by (auto simp: comes_back_def mk_result_def)

definition sent :: "event list \<Rightarrow> bool" where "sent t \<longleftrightarrow> (\<exists>e \<in> set t. changes_bot e)"

definition not_ready :: "tradebot \<Rightarrow> event list \<Rightarrow> bool" where
  "not_ready tb t \<longleftrightarrow> (\<exists>s. GetStatefulSet (key_of_meta (tb_meta tb)) (Inr s) \<in> set t \<and> sts_StatusReadyReplicas s < 1)"

lemma sent_append [simp]: "sent (t @ u) \<longleftrightarrow> sent t \<or> sent u"
  by (auto simp: sent_def)

lemma not_ready_append [simp]: "not_ready tb (t @ u) \<longleftrightarrow> not_ready tb t \<or> not_ready tb u"
  by (auto simp: not_ready_def)

lemma any_only: "only (\<lambda>_. True) m \<Longrightarrow> emits m (\<lambda>_ _. True)"
  unfolding only_def by (erule emits_conseq) simp

lemma state_call_sent:
  "emits (if stop then bot_Stop A G c else bot_Start A G c) (\<lambda>r t. r = None \<longrightarrow> sent t)"
proof -
  have "emits (bot_do A G c ''POST'' path [] (None :: (json \<Rightarrow> goerr + unit) option)) (\<lambda>r t. \<forall>x. r = Inr x \<longrightarrow> sent t)" for path
    unfolding bot_do_def do_HTTP_def
    by (rule emits_case_option, rule emits_bind [OF emits_call [where Q = "\<lambda>r t. sent t"]])
       (auto simp: sent_def bot_request_def intro!: emits_return)
  then have "emits (do { r \<leftarrow> bot_do A G c ''POST'' path [] (None :: (json \<Rightarrow> goerr + unit) option); State_Monad.return (discard r) })
      (\<lambda>r t. r = None \<longrightarrow> sent t)" for path
    by (rule emits_bind) (auto simp: discard_def intro!: emits_return split: sum.splits)
  then show ?thesis unfolding bot_Stop_def bot_Start_def by (intro emits_if)
qed

lemma reconcileState_back:
  "emits (reconcileState A K G R tb b) (\<lambda>r t. fst r \<noteq> 0 \<longrightarrow> sent t)"
proof -
  have quiet: "emits (do { patchErr \<leftarrow> set_state_cond A K tb st rs m; State_Monad.return ((0 :: duration), patchErr) })
      (\<lambda>r t. fst r \<noteq> 0 \<longrightarrow> sent (u @ t))" for st rs m u
    by (rule emits_bind [OF any_only [where m = "set_state_cond A K tb st rs m"]])
       (auto intro!: emits_return only_intro)
  have change: "emits (reconcileStateChange A K G R tb c d) (\<lambda>r t. fst r \<noteq> 0 \<longrightarrow> sent t)" for c d
  proof -
    have rec: "emits (do {
        _ \<leftarrow> record_event x ty a msg; patchErr \<leftarrow> set_state_cond A K tb st rs m; State_Monad.return ((d' :: duration), patchErr) })
      (\<lambda>r t. fst r \<noteq> 0 \<longrightarrow> d' \<noteq> 0)" for x ty a msg st rs m d'
      by (rule emits_bind [OF any_only [where m = "record_event x ty a msg"]], intro only_intro, simp,
          rule emits_bind [OF any_only [where m = "set_state_cond A K tb st rs m"]])
         (auto intro!: emits_return only_intro)
    show ?thesis
      unfolding reconcileStateChange_def Let_def
      by (rule emits_bind [OF state_call_sent], rule emits_case_option; rule emits_conseq [OF rec]) auto
  qed
  have creds: "emits (resolveCredentials A tb) (\<lambda>_ _. True)" by (rule any_only) (intro only_intro TrueI)
  show ?thesis
    unfolding reconcileState_def Let_def
    by (intro emits_if quiet [where u = "[]", simplified] emits_bind [OF creds] emits_case_prod emits_case_sum
        quiet emits_conseq [OF change]) auto
qed

lemma requeue_back:
  "emits (reconcileStateAndComputeRequeue A K G R key tb d) (\<lambda>r t. fst r \<noteq> 0 \<and> snd r = None \<longrightarrow> d \<noteq> 0 \<or> sent t)"
  unfolding reconcileStateAndComputeRequeue_def
  by (rule emits_bind [OF any_only [where m = "do_GetBetaTradeBot A key"]], simp add: call_defs, intro only_intro TrueI,
      rule emits_case_sum, rule emits_return, simp, rule emits_bind [OF reconcileState_back], rule emits_return)
     (auto split: option.splits if_splits)

lemma failReconcile_stays: "emits (failReconcile A K R tb ty rs m (Some e)) (\<lambda>r _. \<not> comes_back r)"
  unfolding failReconcile_def
  by (rule emits_bind [OF any_only], intro only_intro TrueI, rule emits_case_sum, rule emits_return, simp,
      rule emits_bind [OF any_only], intro only_intro TrueI, rule emits_bind [OF any_only], intro only_intro TrueI,
      rule emits_return, simp)

lemma workload_back:
  "emits (computeWorkloadStatus A tb) (\<lambda>r t. \<forall>w. r = Inr w \<longrightarrow> ws_requeueAfter w \<noteq> 0 \<longrightarrow> not_ready tb t)"
  unfolding computeWorkloadStatus_def do_GetStatefulSet_def
  by (rule emits_bind [OF emits_call [where Q = "\<lambda>r t. t = [GetStatefulSet (key_of_meta (tb_meta tb)) r]"]], rule refl,
      rule emits_return) (auto simp: not_ready_def split: sum.splits if_splits)

lemma status_back:
  "emits (reconcile_status A K G R key tb cw out) (\<lambda>r t. comes_back r \<longrightarrow> not_ready tb t \<or> sent t)"
  unfolding reconcile_status_def Let_def
  by (rule emits_bind [OF workload_back], rule emits_case_sum, rule emits_conseq [OF failReconcile_stays], simp,
      rule emits_bind [OF any_only], intro only_intro TrueI, rule emits_case_sum, rule emits_return, simp,
      rule emits_bind [OF any_only], intro only_intro TrueI, rule emits_bind [OF requeue_back], rule emits_return)
     (auto split: option.splits prod.splits)

definition back_reason :: "klib \<Rightarrow> tradebot \<Rightarrow> event list \<Rightarrow> bool" where
  "back_reason K tb t \<longleftrightarrow> om_DeletionTimestamp (tb_meta tb) \<noteq> None \<or> \<not> ContainsFinalizer K (om_Finalizers (tb_meta tb)) BotFinalizer
     \<or> \<not> isTradeMode tb \<or> not_ready tb t \<or> sent t"

lemma live_back:
  "emits (reconcile_live A K G R key tb) (\<lambda>r t. comes_back r \<longrightarrow> \<not> isTradeMode tb \<or> not_ready tb t \<or> sent t)"
proof (cases "isTradeMode tb")
  case True
  have fail: "emits (failReconcile A K R tb ty rs m (Some e)) (\<lambda>r t. comes_back r \<longrightarrow> not_ready tb (u @ t) \<or> sent (u @ t))" for ty rs m e u
    by (rule emits_conseq [OF failReconcile_stays]) simp
  have mode: "\<not> (TrimSpace (tb_FreqtradeCommand (tb_Spec tb)) \<noteq> [] \<and> TrimSpace (tb_FreqtradeCommand (tb_Spec tb)) \<noteq> ''trade'')"
    using True by (auto simp: isTradeMode_def Let_def)
  have "emits (reconcile_live A K G R key tb) (\<lambda>r t. comes_back r \<longrightarrow> not_ready tb t \<or> sent t)"
    unfolding reconcile_live_def Let_def if_not_P [OF mode]
    by (rule emits_bind [OF any_only], intro only_intro TrueI, rule emits_case_sum, rule fail,
        rule emits_bind [OF any_only], simp add: call_defs, intro only_intro TrueI, rule emits_case_sum, rule emits_return, simp,
        rule emits_bind [OF any_only], intro only_intro TrueI, rule emits_bind [OF any_only], intro only_intro TrueI,
        rule emits_case_sum, rule emits_conseq [OF failReconcile_stays], simp,
        rule emits_bind [OF any_only], intro only_intro TrueI, rule emits_case_sum, rule emits_conseq [OF failReconcile_stays], simp,
        rule emits_conseq [OF status_back]) auto
  then show ?thesis by (rule emits_conseq) simp
next
  case False
  have "only (\<lambda>_. True) (reconcile_live A K G R key tb)" by (intro only_intro TrueI)
  from emits_conseq [OF any_only [OF this]] False show ?thesis by simp
qed

lemma Reconcile_back:
  "emits (Reconcile A K G R key) (\<lambda>r t. comes_back r \<longrightarrow> (\<exists>tb. GetTradeBot key (Inr tb) \<in> set t \<and> back_reason K tb t))"
proof -
  have del: "emits (reconcile_deletion A K G R tb) (\<lambda>_ _. True)" for tb
    unfolding reconcile_deletion_def call_defs by (intro any_only only_intro TrueI)
  have add: "emits (reconcile_add_finalizer A K key) (\<lambda>_ _. True)"
    unfolding reconcile_add_finalizer_def call_defs by (intro any_only only_intro TrueI)
  show ?thesis
    unfolding Reconcile_def do_GetTradeBot_def
    by (rule emits_bind [OF emits_call [where Q = "\<lambda>r t. t = [GetTradeBot key r]"]], rule refl, rule emits_case_sum,
        rule emits_return, simp add: IgnoreNotFound_def,
        intro emits_if emits_conseq [OF del] emits_conseq [OF add] emits_conseq [OF live_back])
       (auto simp: back_reason_def not_ready_def sent_def)
qed

section \<open>What a reconcile reads is watched\<close>

text \<open>The references a reconcile of \<open>tb\<close> follows.\<close>

definition follows_refs :: "nname \<Rightarrow> tradebot \<Rightarrow> event \<Rightarrow> bool" where
  "follows_refs key tb e \<longleftrightarrow> (case e of
       GetTradeBotConfig k r \<Rightarrow> nn_Name k = tb_Config (tb_Spec tb) \<and> nn_Namespace k \<in> {nn_Namespace key, om_Namespace (tb_meta tb)}
     | GetStrategy k r \<Rightarrow> nn_Name k = tb_Strategy (tb_Spec tb) \<and> nn_Namespace k = nn_Namespace key
     | ListFreqUI ns r \<Rightarrow> ns = om_Namespace (tb_meta tb)
     | GetTradeBot k r \<Rightarrow> k = key \<and> r = Inr tb
     | _ \<Rightarrow> True)"

lemma follows_refs_simps [simp]:
  "follows_refs key tb (GetBetaTradeBot k a)" "follows_refs key tb (StatusUpdateBetaTradeBot b r)" "follows_refs key tb (Recorded x y z)"
  "follows_refs key tb (MetricInc n l)" "follows_refs key tb (GetStatefulSet k c)" "follows_refs key tb (GetSecret k d)"
  "follows_refs key tb (HTTPDo rq rp)" "follows_refs key tb (MetricObserve n)" "follows_refs key tb (ApplyPatch m r)"
  "follows_refs key tb (UpdateBetaTradeBot b r)" "follows_refs key tb (GetPVC k f)" "follows_refs key tb (UpdatePVC pv r)"
  "follows_refs key tb (UpdateStatefulSet ss r)" "follows_refs key tb (GetTradeBot key (Inr tb))"
  by (simp_all add: follows_refs_def)

lemma credentials_follow:
  assumes "tb_meta t = tb_meta tb" "tb_Spec t = tb_Spec tb"
  shows "only (follows_refs key tb) (reconcileStateAndComputeRequeue A K G R key' t d)"
proof -
  have creds: "only (follows_refs key tb) (resolveCredentials A t)"
    unfolding resolveCredentials_def do_GetTradeBotConfig_def Let_def
    by (intro only_intro) (simp_all add: follows_refs_def assms)
  have calls: "only (follows_refs key tb) (do_GetBetaTradeBot A key')" unfolding call_defs by (intro only_intro) simp
  show ?thesis
    unfolding reconcileStateAndComputeRequeue_def reconcileState_def reconcileStateChange_def Let_def
    by (intro only_intro creds calls) simp_all
qed

lemma status_follows: "only (follows_refs key tb) (reconcile_status A K G R key tb cw out)"
proof -
  have patched: "yields (patchTradeBotStatus A K tb (success_mutate K w m out))
      (\<lambda>r. \<forall>t. r = Inr t \<longrightarrow> tb_meta t = tb_meta tb \<and> tb_Spec t = tb_Spec tb)" for w m
    by (rule yields_emits, rule emits_conseq [OF patchTradeBotStatus_result]) auto
  show ?thesis
    unfolding reconcile_status_def Let_def
    by (intro only_bind only_case_sum only_return only_recordLifecycleEvents only_failReconcile only_computeWorkloadStatus
        only_bind_result [OF _ patched] only_patchTradeBotStatus credentials_follow; simp)
qed

lemma live_follows: "only (follows_refs key tb) (reconcile_live A K G R key tb)"
proof -
  have refs: "only (follows_refs key tb) (fetchReferencedResources A tb (nn_Namespace key))"
    unfolding fetchReferencedResources_def call_defs by (intro only_intro) (simp_all add: follows_refs_def)
  have list: "only (follows_refs key tb) (do_ListFreqUI A (tb_Namespace tb))"
    unfolding call_defs by (intro only_intro) (simp add: follows_refs_def)
  show ?thesis
    unfolding reconcile_live_def Let_def
    by (intro only_intro refs list status_follows; simp)
qed

lemma Reconcile_follows:
  "emits (Reconcile A K G R key) (\<lambda>_ t. \<forall>tb. GetTradeBot key (Inr tb) \<in> set t \<longrightarrow> list_all (follows_refs key tb) t)"
proof -
  have del: "only (follows_refs key tb) (reconcile_deletion A K G R tb)" for tb
    unfolding reconcile_deletion_def call_defs by (intro only_intro) simp_all
  have add: "only (follows_refs key tb) (reconcile_add_finalizer A K key)" for tb
    unfolding reconcile_add_finalizer_def call_defs by (intro only_intro) simp_all
  have one: "list_all (follows_refs key tb') (GetTradeBot key (Inr tb) # u)"
    if u: "list_all (follows_refs key tb) u" and tb': "GetTradeBot key (Inr tb') \<in> set (GetTradeBot key (Inr tb) # u)" for tb tb' u
  proof -
    from u tb' have "tb' = tb" by (auto simp: list_all_iff follows_refs_def)
    with u show ?thesis by simp
  qed
  show ?thesis
    unfolding Reconcile_def do_GetTradeBot_def
    by (rule emits_bind [OF emits_call [where Q = "\<lambda>r t. t = [GetTradeBot key r]"]], rule refl, rule emits_case_sum,
        rule emits_return, simp, intro emits_if emits_of_only [OF del] emits_of_only [OF add] emits_of_only [OF live_follows])
       (use one in auto)
qed

text \<open>So a change of the spec of an object the reconcile followed a reference to enqueues the bot, and so does a change of
  the spec of a FreqUI that names it, before or after.\<close>

definition config_wakes :: "crlib \<Rightarrow> indexed_list \<Rightarrow> reconciler \<Rightarrow> nname \<Rightarrow> nname \<Rightarrow> bool" where
  "config_wakes L list R k key \<longleftrightarrow> (\<forall>c c'. key_of_meta (tc_meta c) = k \<and> key_of_meta (tc_meta c') = k
     \<and> om_Generation (tc_meta c) \<noteq> om_Generation (tc_meta c')
     \<longrightarrow> key \<in> set (enqueued (tradebot_controller L list R) (Updated (WTradeBotConfig c) (WTradeBotConfig c'))))"

definition strategy_wakes :: "crlib \<Rightarrow> indexed_list \<Rightarrow> reconciler \<Rightarrow> nname \<Rightarrow> nname \<Rightarrow> bool" where
  "strategy_wakes L list R k key \<longleftrightarrow> (\<forall>s s'. key_of_meta (sy_meta s) = k \<and> key_of_meta (sy_meta s') = k
     \<and> om_Generation (sy_meta s) \<noteq> om_Generation (sy_meta s')
     \<longrightarrow> key \<in> set (enqueued (tradebot_controller L list R) (Updated (WStrategy s) (WStrategy s'))))"

definition frequi_wakes :: "crlib \<Rightarrow> indexed_list \<Rightarrow> reconciler \<Rightarrow> string \<Rightarrow> nname \<Rightarrow> bool" where
  "frequi_wakes L list R ns key \<longleftrightarrow> (\<forall>f f'. om_Namespace (fu_meta f) = ns \<and> om_Namespace (fu_meta f') = ns
     \<and> nn_Name key \<in> set (fu_TradeBotRefs (fu_Spec f)) \<union> set (fu_TradeBotRefs (fu_Spec f'))
     \<and> om_Generation (fu_meta f) \<noteq> om_Generation (fu_meta f')
     \<longrightarrow> key \<in> set (enqueued (tradebot_controller L list R) (Updated (WFreqUI f) (WFreqUI f'))))"

lemma key_in_namespace:
  "(key :: nname) \<in> (\<lambda>n. \<lparr>nn_Namespace = ns, nn_Name = n\<rparr>) ` N \<longleftrightarrow> nn_Namespace key = ns \<and> nn_Name key \<in> N"
  by (cases key) auto

lemma references_wake:
  assumes L: "cr_laws L" and list: "serves_index list bots" and tb: "tb \<in> set bots" and key: "key_of_meta (tb_meta tb) = key"
    and refs: "tb_Config (tb_Spec tb) \<noteq> []" "tb_Strategy (tb_Spec tb) \<noteq> []"
    and e: "follows_refs key tb e"
  shows "case e of GetTradeBotConfig k r \<Rightarrow> config_wakes L list R k key | GetStrategy k r \<Rightarrow> strategy_wakes L list R k key
    | ListFreqUI ns r \<Rightarrow> frequi_wakes L list R ns key | _ \<Rightarrow> True"
proof -
  have ns: "om_Namespace (tb_meta tb) = nn_Namespace key" using key by (auto simp: key_of_meta_def)
  have c: "config_wakes L list R k key" if k: "nn_Name k = tb_Config (tb_Spec tb)" "nn_Namespace k = nn_Namespace key" for k
    unfolding config_wakes_def
  proof (intro allI impI, elim conjE)
    fix c c' :: tradebotconfig assume cc: "key_of_meta (tc_meta c) = k" "key_of_meta (tc_meta c') = k" "om_Generation (tc_meta c) \<noteq> om_Generation (tc_meta c')"
    then have n: "om_Name (tc_meta c) = tb_Config (tb_Spec tb)" "om_Namespace (tc_meta c) = om_Namespace (tb_meta tb)"
      using k ns by (auto simp: key_of_meta_def)
    have "key \<in> set (EnqueueTradeBotsByConfigRef list configRefField (WTradeBotConfig c))"
      using mapped_bots(1) [OF list, of "WTradeBotConfig c"] n refs tb key by (force simp: image_iff)
    with cc show "key \<in> set (enqueued (tradebot_controller L list R) (Updated (WTradeBotConfig c) (WTradeBotConfig c')))"
      by (simp add: mapped_change(1) [OF L])
  qed
  have s: "strategy_wakes L list R k key" if k: "nn_Name k = tb_Strategy (tb_Spec tb)" "nn_Namespace k = nn_Namespace key" for k
    unfolding strategy_wakes_def
  proof (intro allI impI, elim conjE)
    fix s s' :: strategy assume cc: "key_of_meta (sy_meta s) = k" "key_of_meta (sy_meta s') = k" "om_Generation (sy_meta s) \<noteq> om_Generation (sy_meta s')"
    then have n: "om_Name (sy_meta s) = tb_Strategy (tb_Spec tb)" "om_Namespace (sy_meta s) = om_Namespace (tb_meta tb)"
      using k ns by (auto simp: key_of_meta_def)
    have "key \<in> set (EnqueueTradeBotsByConfigRef list strategyRefField (WStrategy s))"
      using mapped_bots(2) [OF list, of "WStrategy s"] n refs tb key by (force simp: image_iff)
    with cc show "key \<in> set (enqueued (tradebot_controller L list R) (Updated (WStrategy s) (WStrategy s')))"
      by (simp add: mapped_change(2) [OF L])
  qed
  have f: "frequi_wakes L list R (nn_Namespace key) key"
    unfolding frequi_wakes_def by (auto simp: mapped_change(3) [OF L] mapped_frequi_refs key_in_namespace)
  from e c s f ns show ?thesis by (auto simp: follows_refs_def split: event.splits)
qed

section \<open>The objects a reconcile applies\<close>

definition applied_kind :: "event \<Rightarrow> kind option" where
  "applied_kind e = (case e of ApplyPatch m r \<Rightarrow> Some (manifest_kind m) | _ \<Rightarrow> None)"

lemma applied_kind_simps [simp]:
  "applied_kind (GetBetaTradeBot k a) = None" "applied_kind (StatusUpdateBetaTradeBot b r) = None" "applied_kind (Recorded x y z) = None"
  "applied_kind (MetricInc n l) = None" "applied_kind (GetStatefulSet k c) = None" "applied_kind (GetSecret k d) = None"
  "applied_kind (HTTPDo rq rp) = None" "applied_kind (MetricObserve n) = None" "applied_kind (ApplyPatch m r) = Some (manifest_kind m)"
  "applied_kind (UpdateBetaTradeBot b r) = None" "applied_kind (GetPVC k f) = None" "applied_kind (UpdatePVC pv r) = None"
  "applied_kind (UpdateStatefulSet ss r) = None" "applied_kind (GetTradeBot k g) = None" "applied_kind (GetTradeBotConfig k h) = None"
  "applied_kind (GetStrategy k i) = None" "applied_kind (ListFreqUI ns j) = None"
  by (simp_all add: applied_kind_def)

lemma owner_ref_kind:
  assumes "klib_laws K" "SetControllerReference K owner m = Inr m'"
  shows "manifest_kind m' = manifest_kind m"
proof -
  from assms owner_refs.owners_only obtain rs where "m' = with_owners rs m" unfolding klib_laws_def by blast
  then show ?thesis by (cases m) simp_all
qed

lemma Reconcile_kinds:
  assumes K: "klib_laws K"
  shows "only (\<lambda>e. \<forall>k. applied_kind e = Some k \<longrightarrow> k \<in> set (KNetworkPolicy # tradebot_owned)) (Reconcile A K G R key)"
proof -
  let ?o = "only (\<lambda>e. \<forall>k. applied_kind e = Some k \<longrightarrow> k \<in> set (KNetworkPolicy # tradebot_owned))"
  have res: "?o (reconcileResources A K R tb st cd fs)" for tb st cd fs
    unfolding reconcileResources_def apply_workload_def Let_def
    by (intro only_intro) (auto dest: owner_ref_kind [OF K] simp: tradebot_owned_def)
  have live: "?o (reconcile_live A K G R key tb)" for tb
    unfolding reconcile_live_def Let_def do_ListFreqUI_def
    by (intro only_bind only_if only_case_sum only_return only_call only_emit only_fetchReferencedResources only_BuildConfig
        only_failReconcile only_reconcile_status res; simp)
  have del: "?o (reconcile_deletion A K G R tb)" for tb
    unfolding reconcile_deletion_def call_defs by (intro only_intro) simp_all
  have add: "?o (reconcile_add_finalizer A K key)"
    unfolding reconcile_add_finalizer_def call_defs by (intro only_intro) simp_all
  show ?thesis
    unfolding Reconcile_def do_GetTradeBot_def by (intro only_intro live del add) simp
qed

section \<open>The owner of an applied object\<close>

text \<open>Documented behaviour of \<open>controllerutil.SetControllerReference\<close> for an owner of a kind the scheme knows: an object without
  owners gets one owner reference, a controller reference with the kind and the name of the owner.\<close>

definition sets_owner :: "klib \<Rightarrow> kind \<Rightarrow> objmeta \<Rightarrow> bool" where
  "sets_owner K k owner \<longleftrightarrow> (\<forall>m m'. SetControllerReference K owner m = Inr m' \<and> om_OwnerReferences (manifest_meta m) = []
     \<longrightarrow> (\<exists>r. om_OwnerReferences (manifest_meta m') = [r] \<and> or_Controller r \<and> or_Kind r = kind_name k \<and> or_Name r = om_Name owner))"

lemma with_owners_namespace: "om_Namespace (manifest_meta (with_owners rs m)) = om_Namespace (manifest_meta m)"
  by (cases m) simp_all

lemma applied_owner:
  assumes K: "klib_laws K" and own: "sets_owner K KTradeBot (tb_meta tb)" and e: "applied K R tb strat fs h (ApplyPatch m r)"
  shows "owner_requests KTradeBot (WObject m) = {key_of_meta (tb_meta tb)}"
proof -
  from e obtain m0 where m0: "SetControllerReference K (tb_meta tb) m0 = Inr m"
    and b: "(\<exists>cd. m0 = MSecret (BuildSecret tb cd)) \<or> m0 \<in> workload_objects R tb strat fs h" by (auto simp: applied_def)
  from b have fresh: "om_OwnerReferences (manifest_meta m0) = []" "om_Namespace (manifest_meta m0) = tb_Namespace tb"
    by (auto simp: workload_objects_def built_namespace)
  from K m0 obtain rs where m: "m = with_owners rs m0" unfolding klib_laws_def owner_refs_def by blast
  from own m0 fresh(1) obtain o' where "om_OwnerReferences (manifest_meta m) = [o']" "or_Controller o'"
    "or_Kind o' = kind_name KTradeBot" "or_Name o' = om_Name (tb_meta tb)" unfolding sets_owner_def by blast
  then show ?thesis using fresh(2) by (auto simp: owner_requests_def m with_owners_namespace key_of_meta_def)
qed

lemma Reconcile_owner:
  assumes K: "klib_laws K" and own: "sets_owner K KTradeBot (tb_meta tb)"
    and read: "GetTradeBot key (Inr tb) \<in> set (events (Reconcile A K G R key) w)"
    and e: "ApplyPatch m r \<in> set (events (Reconcile A K G R key) w)"
  shows "owner_requests KTradeBot (WObject m) = {key_of_meta (tb_meta tb)}"
proof -
  have follows: "list_all (follows_refs key tb) (events (Reconcile A K G R key) w)" using emitsD [OF Reconcile_follows] read by blast
  have "config_contained K R key (events (Reconcile A K G R key) w) (ApplyPatch m r)"
    using emitsD [OF Reconcile_contained] e by (metis list_all_iff)
  then obtain tb' strat fl h where tb': "GetTradeBot key (Inr tb') \<in> set (events (Reconcile A K G R key) w)"
    and a: "applied K R tb' strat (referencingFreqUINames tb' fl) h (ApplyPatch m r)" unfolding config_contained_def by blast
  from follows tb' have "tb' = tb" by (auto simp: list_all_iff follows_refs_def)
  with applied_owner [OF K own] a show ?thesis by blast
qed

section \<open>What is noticed\<close>

text \<open>An object of the bot: the bot is its controller owner. An object of nobody: it has no controller owner.\<close>

abbreviation of_bot :: "nname \<Rightarrow> manifest \<Rightarrow> bool" where
  "of_bot key m \<equiv> key \<in> owner_requests KTradeBot (WObject m)"

abbreviation of_nobody :: "manifest \<Rightarrow> bool" where
  "of_nobody m \<equiv> \<forall>r \<in> set (om_OwnerReferences (manifest_meta m)). \<not> or_Controller r"

definition object_wakes :: "crlib \<Rightarrow> indexed_list \<Rightarrow> reconciler \<Rightarrow> ('a \<Rightarrow> manifest) \<Rightarrow> nname \<Rightarrow> bool" where
  "object_wakes L list R M key \<longleftrightarrow> (\<forall>x y. (of_bot key (M x) \<or> of_bot key (M y))
     \<and> om_ResourceVersion (manifest_meta (M x)) \<noteq> om_ResourceVersion (manifest_meta (M y))
     \<longrightarrow> key \<in> set (enqueued (tradebot_controller L list R) (Updated (WObject (M x)) (WObject (M y)))))"

definition unowned_unseen :: "crlib \<Rightarrow> indexed_list \<Rightarrow> reconciler \<Rightarrow> ('a \<Rightarrow> manifest) \<Rightarrow> bool" where
  "unowned_unseen L list R M \<longleftrightarrow> (\<forall>x y. of_nobody (M x) \<and> of_nobody (M y)
     \<longrightarrow> enqueued (tradebot_controller L list R) (Updated (WObject (M x)) (WObject (M y))) = [])"

definition bot_wakes :: "crlib \<Rightarrow> indexed_list \<Rightarrow> reconciler \<Rightarrow> nname \<Rightarrow> nname \<Rightarrow> bool" where
  "bot_wakes L list R k key \<longleftrightarrow> (\<forall>x y. key_of_meta (tb_meta x) = k \<and> key_of_meta (tb_meta y) = k
     \<and> (om_Generation (tb_meta x) \<noteq> om_Generation (tb_meta y) \<or> om_Annotations (tb_meta x) \<noteq> om_Annotations (tb_meta y))
     \<longrightarrow> key \<in> set (enqueued (tradebot_controller L list R) (Updated (WTradeBot x) (WTradeBot y))))"

lemma owned_update:
  assumes L: "cr_laws L" and k: "manifest_kind m \<in> set tradebot_owned"
  shows "set (enqueued (tradebot_controller L list R) (Updated (WObject m) (WObject m'))) =
    (if om_ResourceVersion (manifest_meta m) = om_ResourceVersion (manifest_meta m') then {}
     else owner_requests KTradeBot (WObject m) \<union> owner_requests KTradeBot (WObject m'))"
  using k cr_lawsD(6) [OF L] changed_only_update [OF cr_lawsD(3) [OF L]]
  by (cases m) (auto simp: set_enqueued tradebot_controller_def tradebot_owned_def Owns_def Let_def split: if_splits)

lemma owned_wakes:
  assumes L: "cr_laws L" and k: "\<And>x. manifest_kind (M x) \<in> set tradebot_owned"
  shows "object_wakes L list R M key" and "unowned_unseen L list R M"
proof -
  show "object_wakes L list R M key" unfolding object_wakes_def by (auto simp: owned_update [OF L k])
  have "owner_requests KTradeBot (WObject m) = {}" if "of_nobody m" for m using that by (auto simp: owner_requests_def)
  then have "set (enqueued (tradebot_controller L list R) (Updated (WObject (M x)) (WObject (M y)))) = {}"
    if "of_nobody (M x)" "of_nobody (M y)" for x y using that by (simp add: owned_update [OF L k])
  then show "unowned_unseen L list R M" unfolding unowned_unseen_def by simp
qed

lemma own_wakes:
  assumes L: "cr_laws L"
  shows "bot_wakes L list R key key"
  unfolding bot_wakes_def
  using cr_lawsD(4,5) [OF L] changed_only_update [OF cr_lawsD(1) [OF L]] changed_only_update [OF cr_lawsD(2) [OF L]]
  by (auto simp: set_enqueued tradebot_controller_def Let_def)

text \<open>The reconcile of \<open>key\<close> performed \<open>e\<close>; then a later change of what \<open>e\<close> read enqueues the bot again: of the bot itself, of a
  configuration, strategy or FreqUI, and of a StatefulSet, volume or Secret that the bot owns. A Secret that nobody owns,
  such as one with credentials that the configuration refers to, enqueues nobody when it changes. A deletion of the object
  that \<open>e\<close> applied enqueues the bot, except that a NetworkPolicy is applied and not watched.\<close>

definition noticed :: "crlib \<Rightarrow> indexed_list \<Rightarrow> reconciler \<Rightarrow> nname \<Rightarrow> event \<Rightarrow> bool" where
  "noticed L list R key e = (case e of
       GetTradeBot k r \<Rightarrow> bot_wakes L list R k key
     | GetTradeBotConfig k r \<Rightarrow> config_wakes L list R k key
     | GetStrategy k r \<Rightarrow> strategy_wakes L list R k key
     | ListFreqUI ns r \<Rightarrow> frequi_wakes L list R ns key
     | GetStatefulSet k r \<Rightarrow> object_wakes L list R MStatefulSet key
     | GetPVC k r \<Rightarrow> object_wakes L list R MPVC key
     | GetSecret k r \<Rightarrow> object_wakes L list R MSecret key \<and> unowned_unseen L list R MSecret
     | ApplyPatch m r \<Rightarrow> set (enqueued (tradebot_controller L list R) (Deleted (WObject m)))
         = (if manifest_kind m = KNetworkPolicy then {} else {key})
     | _ \<Rightarrow> True)"

lemma Reconcile_noticed:
  assumes K: "klib_laws K" and L: "cr_laws L" and list: "serves_index list bots" and tb: "tb \<in> set bots"
    and key: "key_of_meta (tb_meta tb) = key" and refs: "tb_Config (tb_Spec tb) \<noteq> []" "tb_Strategy (tb_Spec tb) \<noteq> []"
    and own: "sets_owner K KTradeBot (tb_meta tb)"
    and read: "GetTradeBot key (Inr tb) \<in> set (events (Reconcile A K G R key) w)"
  shows "list_all (noticed L list R key) (events (Reconcile A K G R key) w)"
  unfolding list_all_iff
proof
  fix e assume e: "e \<in> set (events (Reconcile A K G R key) w)"
  have "list_all (follows_refs key tb) (events (Reconcile A K G R key) w)"
    using emitsD [OF Reconcile_follows] read by blast
  with e have follows: "follows_refs key tb e" by (auto simp: list_all_iff)
  note wake = references_wake [OF L list tb key refs follows, of R]
  have kinds: "applied_kind e = Some k \<Longrightarrow> k \<in> set (KNetworkPolicy # tradebot_owned)" for k
    using onlyD [OF Reconcile_kinds [OF K, of A G R key], of w] e unfolding list_all_iff by blast
  have net: "KNetworkPolicy \<notin> set tradebot_owned" by (simp add: tradebot_owned_def)
  have obj: "object_wakes L list R MStatefulSet key" "object_wakes L list R MPVC key" "object_wakes L list R MSecret key"
    "unowned_unseen L list R MSecret" by (rule owned_wakes [OF L], simp add: tradebot_owned_def)+
  show "noticed L list R key e"
  proof (cases e)
    case (ApplyPatch m r)
    then show ?thesis using kinds [of "manifest_kind m"] net Reconcile_owner [OF K own read e [unfolded ApplyPatch]] key
      by (auto simp: noticed_def owned_deletion(1) [OF L])
  next
    case (GetTradeBot k r)
    with follows have "k = key" by (simp add: follows_refs_def)
    with GetTradeBot own_wakes [OF L] show ?thesis by (simp add: noticed_def)
  qed (use wake obj in \<open>simp_all add: noticed_def\<close>)
qed

text \<open>A write of the status, seen by the watches as an update of the bot: the API server keeps the generation and the
  annotations of the object and gives it a new resource version.\<close>

definition status_update :: "betatradebot \<Rightarrow> betatradebot \<Rightarrow> wevent \<Rightarrow> bool" where
  "status_update b b' ev \<longleftrightarrow> (\<exists>x y. ev = Updated (WTradeBot x) (WTradeBot y)
     \<and> om_Generation (tb_meta x) = om_Generation (btb_meta b) \<and> om_Annotations (tb_meta x) = om_Annotations (btb_meta b)
     \<and> om_Generation (tb_meta y) = om_Generation (btb_meta b') \<and> om_Annotations (tb_meta y) = om_Annotations (btb_meta b'))"

definition wakes_nobody :: "controller list \<Rightarrow> betatradebot \<Rightarrow> betatradebot \<Rightarrow> bool" where
  "wakes_nobody cs b b' \<longleftrightarrow> (\<forall>ev c. status_update b b' ev \<longrightarrow> c \<in> set cs \<longrightarrow> enqueued c ev = [])"

lemma same_meta_wakes_nobody:
  assumes "cr_laws L" "btb_meta b' = btb_meta b"
  shows "wakes_nobody (all_controllers L list R F) b b'"
  unfolding wakes_nobody_def status_update_def using tradebot_update_wakes [OF assms(1), of _ list R F] assms(2) by metis

lemma rewriting_mono: "\<lbrakk>rewriting S m; \<And>b b'. S b b' \<Longrightarrow> T b b'\<rbrakk> \<Longrightarrow> rewriting T m"
  unfolding keeps_def by (elim emits_conseq backed_mono) (auto simp: rewrote_def)

lemma pollOne_wakes_nobody:
  assumes "klib_laws K" "cr_laws L"
  shows "rewriting (wakes_nobody (all_controllers L list R F)) (pollOne A K G key p)"
  by (rule rewriting_mono [OF pollOne_rewriting [OF assms(1)]])
     (simp add: same_meta_wakes_nobody [OF assms(2)] reconciler_part_kept_def)

end
