(* ===== verification/PollerLife.thy ===== *)
theory PollerLife
  imports PollerMachine
begin

text \<open>The life of a poller: \<open>BotPoller.Start\<close> from its first tick to its return. The machine of \<open>PollerMachine\<close> runs
  inside; around it are the cancellation of the context, the closing of the channel, the drain of what is still queued
  and the return once every worker is done. A poll that panics ends like any other: \<open>pollOneSafely\<close> recovers, and the
  deferred function of \<open>pollOne\<close> has cleared the in-flight mark.\<close>

record polllife =
  pl_sys :: pollsys
  pl_cancelled :: bool
  pl_closed :: bool
  pl_returned :: bool

definition life_init :: polllife where
  "life_init = \<lparr>pl_sys = poll_init, pl_cancelled = False, pl_closed = False, pl_returned = False\<rparr>"

text \<open>The end of a poll by a panic: the deferred update of the map, and the worker is free for the next key.\<close>

definition poll_panicked :: "nname \<Rightarrow> pollsys \<Rightarrow> pollsys" where
  "poll_panicked k s = s\<lparr>py_state := clear_inflight k (py_state s), py_running := remove1 k (py_running s)\<rparr>"

text \<open>A step of the machine that leaves the idle phase is a tick, which the \<open>select\<close> takes only while it still loops:
  closing the channel is its last act before waiting for the workers. A cancelled context does not keep it from
  taking a tick that is ready as well.\<close>

inductive life_step :: "klib \<Rightarrow> int \<Rightarrow> polllife \<Rightarrow> polllife \<Rightarrow> bool" for K configured where
  Run: "\<lbrakk>poll_step K configured (pl_sys s) y; py_phase (pl_sys s) = Idle \<and> py_phase y \<noteq> Idle \<longrightarrow> \<not> pl_closed s; \<not> pl_returned s\<rbrakk>
    \<Longrightarrow> life_step K configured s (s\<lparr>pl_sys := y\<rparr>)"
| Panic: "\<lbrakk>py_phase (pl_sys s) = Idle; k \<in> set (py_running (pl_sys s))\<rbrakk>
    \<Longrightarrow> life_step K configured s (s\<lparr>pl_sys := poll_panicked k (pl_sys s)\<rparr>)"
| Cancel: "life_step K configured s (s\<lparr>pl_cancelled := True\<rparr>)"
| Close: "\<lbrakk>pl_cancelled s; py_phase (pl_sys s) = Idle; \<not> pl_closed s\<rbrakk> \<Longrightarrow> life_step K configured s (s\<lparr>pl_closed := True\<rparr>)"
| Return: "\<lbrakk>pl_closed s; py_queue (pl_sys s) = []; py_running (pl_sys s) = []\<rbrakk> \<Longrightarrow> life_step K configured s (s\<lparr>pl_returned := True\<rparr>)"

inductive_cases life_stepE [elim]: "life_step K configured s s'"

definition life_reachable :: "klib \<Rightarrow> int \<Rightarrow> polllife \<Rightarrow> bool" where
  "life_reachable K configured s \<longleftrightarrow> (life_step K configured)\<^sup>*\<^sup>* life_init s"

section \<open>Invariant\<close>

text \<open>The machine's own invariant, whatever panics; a closed channel belongs to an idle scheduler, so nothing is ever
  sent on it; a return leaves nothing behind.\<close>

definition life_inv :: "int \<Rightarrow> polllife \<Rightarrow> bool" where
  "life_inv configured s \<longleftrightarrow> poll_inv configured (pl_sys s)
     \<and> (pl_closed s \<longrightarrow> pl_cancelled s \<and> py_phase (pl_sys s) = Idle)
     \<and> (pl_returned s \<longrightarrow> pl_closed s \<and> py_queue (pl_sys s) = [] \<and> py_running (pl_sys s) = [])"

lemma poll_inv_panicked:
  assumes "poll_inv configured s" "k \<in> set (py_running s)"
  shows "poll_inv configured (poll_panicked k s)"
proof -
  have "length (remove1 k (py_running s)) \<le> length (py_running s)" by (simp add: length_remove1)
  with assms show ?thesis by (auto simp: poll_inv_def busy_def poll_panicked_def)
qed

lemma life_inv_step:
  assumes "life_step K configured s s'" and inv: "life_inv configured s"
  shows "life_inv configured s'"
  using assms(1)
proof cases
  case (Run y)
  have "poll_inv configured y" using poll_inv_step [OF Run(2)] inv by (simp add: life_inv_def)
  with Run inv show ?thesis by (auto simp: life_inv_def)
next
  case (Panic k)
  with inv poll_inv_panicked [of configured "pl_sys s" k] show ?thesis
    by (auto simp: life_inv_def) (auto simp: poll_panicked_def)
qed (use inv in \<open>auto simp: life_inv_def\<close>)

lemma life_inv_reachable: "life_reachable K configured s \<Longrightarrow> life_inv configured s"
  unfolding life_reachable_def
proof (induction rule: rtranclp_induct)
  case base
  then show ?case by (simp add: life_init_def life_inv_def poll_init_def poll_inv_def inflight_def)
qed (rule life_inv_step)

section \<open>The drain after closing\<close>

text \<open>What is left to do: two steps for a queued key, one for a running poll.\<close>

definition drain_left :: "pollsys \<Rightarrow> nat" where
  "drain_left s = 2 * length (py_queue s) + length (py_running s)"

definition finishes :: "polllife \<Rightarrow> polllife \<Rightarrow> bool" where
  "finishes s s' \<longleftrightarrow> drain_left (pl_sys s') < drain_left (pl_sys s)"

lemma closed_step:
  assumes "life_step K configured s s'" "life_inv configured s" "pl_closed s"
  shows "pl_closed s'" "drain_left (pl_sys s') \<le> drain_left (pl_sys s)"
proof -
  show "pl_closed s'" using assms(1,3) by cases auto
  have idle: "py_phase (pl_sys s) = Idle" using assms(2,3) by (simp add: life_inv_def)
  show "drain_left (pl_sys s') \<le> drain_left (pl_sys s)"
    using assms(1)
  proof cases
    case (Run y)
    with idle assms(3) have "py_phase y = Idle" by blast
    with Run(2) idle have "drain_left y \<le> drain_left (pl_sys s)"
      by cases (auto simp: drain_left_def length_remove1 item_step_def Let_def)
    with Run show ?thesis by simp
  next
    case (Panic k)
    then show ?thesis by (simp add: drain_left_def poll_panicked_def length_remove1)
  qed (auto simp: drain_left_def)
qed

text \<open>While something is left some worker can take or finish a poll, and then less is left; with nothing left the poller
  can return.\<close>

lemma drain_progress:
  assumes "life_inv configured s" "pl_closed s" "\<not> pl_returned s"
  shows "\<exists>s'. life_step K configured s s' \<and> (finishes s s' \<or> pl_returned s')"
proof -
  have idle: "py_phase (pl_sys s) = Idle" using assms by (simp add: life_inv_def)
  show ?thesis
  proof (cases "py_running (pl_sys s)")
    case (Cons k ks)
    let ?y = "(pl_sys s)\<lparr>py_state := clear_inflight k (py_state (pl_sys s)), py_running := remove1 k (py_running (pl_sys s))\<rparr>"
    have "poll_step K configured (pl_sys s) ?y" by (rule Finish) (use idle Cons in auto)
    then have "life_step K configured s (s\<lparr>pl_sys := ?y\<rparr>)" by (rule Run) (use idle assms in auto)
    moreover have "finishes s (s\<lparr>pl_sys := ?y\<rparr>)" using Cons by (simp add: finishes_def drain_left_def)
    ultimately show ?thesis by blast
  next
    case none: Nil
    show ?thesis
    proof (cases "py_queue (pl_sys s)")
      case (Cons k q)
      let ?y = "(pl_sys s)\<lparr>py_queue := q, py_running := k # py_running (pl_sys s)\<rparr>"
      have "poll_step K configured (pl_sys s) ?y" by (rule Take) (use Cons none in \<open>auto simp: queue_cap_pos\<close>)
      then have "life_step K configured s (s\<lparr>pl_sys := ?y\<rparr>)" by (rule Run) (use idle assms in auto)
      moreover have "finishes s (s\<lparr>pl_sys := ?y\<rparr>)" using Cons by (simp add: finishes_def drain_left_def)
      ultimately show ?thesis by blast
    next
      case Nil
      have "life_step K configured s (s\<lparr>pl_returned := True\<rparr>)" by (rule Return) (use assms Nil none in auto)
      then show ?thesis by (intro exI [of _ "s\<lparr>pl_returned := True\<rparr>"]) simp
    qed
  qed
qed

text \<open>So the poller can always come to its return, and on no run after closing do more than \<open>drain_left\<close> polls start
  or finish.\<close>

lemma drain_returns:
  assumes "life_inv configured s" "pl_closed s"
  shows "\<exists>s'. (life_step K configured)\<^sup>*\<^sup>* s s' \<and> pl_returned s'"
  using assms
proof (induction "drain_left (pl_sys s)" arbitrary: s rule: less_induct)
  case less
  show ?case
  proof (cases "pl_returned s")
    case False
    from drain_progress [OF less.prems False, of K] obtain s' where step: "life_step K configured s s'"
      and or: "finishes s s' \<or> pl_returned s'" by blast
    show ?thesis
    proof (cases "pl_returned s'")
      case True
      with step show ?thesis by blast
    next
      case False
      with or have "drain_left (pl_sys s') < drain_left (pl_sys s)" by (simp add: finishes_def)
      from less.hyps [OF this life_inv_step [OF step less.prems(1)] closed_step(1) [OF step less.prems]]
      show ?thesis using step by (meson converse_rtranclp_into_rtranclp)
    qed
  qed auto
qed

fun finishing :: "polllife list \<Rightarrow> nat" where
  "finishing (s # s' # ss) = (if finishes s s' then 1 else 0) + finishing (s' # ss)"
| "finishing _ = 0"

lemma finishing_bounded:
  assumes "successively (life_step K configured) ss" "ss \<noteq> []" "life_inv configured (hd ss)" "pl_closed (hd ss)"
  shows "finishing ss \<le> drain_left (pl_sys (hd ss))"
  using assms
proof (induction ss rule: finishing.induct)
  case (1 s s' ss)
  then have step: "life_step K configured s s'" by simp
  from 1 have "life_inv configured s" "pl_closed s" by simp_all
  note ok = closed_step [OF step this] life_inv_step [OF step this(1)]
  have "finishing (s' # ss) \<le> drain_left (pl_sys s')" using 1 ok by simp
  with ok(2) show ?case by (auto simp: finishes_def)
qed simp_all

lemma drain_bound: "poll_inv configured s \<Longrightarrow> drain_left s \<le> 5 * poll_workers configured"
  by (auto simp: poll_inv_def drain_left_def queue_cap_def)

text \<open>A pass that was running when the context was cancelled comes to its end, since no send of it blocks.\<close>

lemma scan_ends:
  assumes "py_phase (pl_sys s) = Scanning now bs sn" "\<not> pl_returned s"
  shows "\<exists>y. (life_step K configured)\<^sup>*\<^sup>* s (s\<lparr>pl_sys := y\<rparr>) \<and> py_phase y = Idle"
  using assms
proof (induction bs arbitrary: s sn)
  case Nil
  let ?y = "(pl_sys s)\<lparr>py_state := remembered sn (py_state (pl_sys s)), py_phase := Idle\<rparr>"
  have "life_step K configured s (s\<lparr>pl_sys := ?y\<rparr>)"
    by (rule Run, rule Forget) (use Nil in auto)
  then show ?case by (intro exI [of _ ?y]) auto
next
  case (Cons b bs)
  let ?s = "s\<lparr>pl_sys := item_step K (queue_cap configured) now b bs sn (pl_sys s)\<rparr>"
  have step: "life_step K configured s ?s" by (rule Run, rule Item) (use Cons.prems in auto)
  obtain sn' where "py_phase (pl_sys ?s) = Scanning now bs sn'" by (simp add: item_step_def Let_def)
  from Cons.IH [OF this] Cons.prems obtain y where "(life_step K configured)\<^sup>*\<^sup>* ?s (s\<lparr>pl_sys := y\<rparr>)" "py_phase y = Idle"
    by auto
  with step show ?case by (meson converse_rtranclp_into_rtranclp)
qed

lemma life_inv_steps: "\<lbrakk>(life_step K configured)\<^sup>*\<^sup>* s s'; life_inv configured s\<rbrakk> \<Longrightarrow> life_inv configured s'"
  by (induction rule: rtranclp_induct) (auto intro: life_inv_step)

lemma cancelled_returns:
  assumes inv: "life_inv configured s" and "pl_cancelled s"
  shows "\<exists>s'. (life_step K configured)\<^sup>*\<^sup>* s s' \<and> pl_returned s'"
proof (cases "pl_closed s")
  case True
  with inv show ?thesis by (rule drain_returns)
next
  case False
  with inv have "\<not> pl_returned s" by (auto simp: life_inv_def)
  have "\<exists>y. (life_step K configured)\<^sup>*\<^sup>* s (s\<lparr>pl_sys := y\<rparr>) \<and> py_phase y = Idle"
  proof (cases "py_phase (pl_sys s)")
    case Idle
    then show ?thesis by (intro exI [of _ "pl_sys s"]) simp
  next
    case (Scanning now bs sn)
    from scan_ends [OF this \<open>\<not> pl_returned s\<close>] show ?thesis .
  qed
  then obtain y where y: "(life_step K configured)\<^sup>*\<^sup>* s (s\<lparr>pl_sys := y\<rparr>)" "py_phase y = Idle" by blast
  let ?c = "s\<lparr>pl_sys := y, pl_closed := True\<rparr>"
  have "life_step K configured (s\<lparr>pl_sys := y\<rparr>) (s\<lparr>pl_sys := y, pl_closed := True\<rparr>)"
    using Close [of "s\<lparr>pl_sys := y\<rparr>" K configured] assms(2) False y(2) by simp
  with y(1) have c: "(life_step K configured)\<^sup>*\<^sup>* s ?c" by (rule rtranclp.rtrancl_into_rtrancl)
  have "pl_closed ?c" by simp
  from drain_returns [OF life_inv_steps [OF c inv] this] c show ?thesis by (meson rtranclp_trans)
qed

end
