(* ===== verification/MetricsCollector.thy ===== *)
theory MetricsCollector
  imports TradeBotConditions
begin

text \<open>The scrape-time collector of \<open>controllers/shared/metrics.go\<close>: at every scrape it lists the TradeBots and computes
  the number of bots in each phase and a drift gauge per bot. The lemmas say that the samples are exactly these, that no
  two samples carry the same labels, and that a failed list yields none.\<close>

text \<open>A sample: the metric, the label values in the order of its description, the value.\<close>

record sample =
  sm_Desc :: string
  sm_Labels :: "string list"
  sm_Value :: int

definition tradeBotsDesc :: string where "tradeBotsDesc = ''freqtrade_operator_tradebots''"
definition configDriftDesc :: string where "configDriftDesc = ''freqtrade_operator_config_drift''"

definition collector_Describe :: "string list" where
  "collector_Describe = [tradeBotsDesc, configDriftDesc]"

definition drift_sample :: "klib \<Rightarrow> tradebot \<Rightarrow> sample" where
  "drift_sample K tb = \<lparr>sm_Desc = configDriftDesc, sm_Labels = [om_Namespace (tb_meta tb), om_Name (tb_meta tb)],
     sm_Value = (if IsStatusConditionTrue K (st_Conditions (tb_Status tb)) ConditionConfigDrift then 1 else 0)\<rparr>"

text \<open>\<open>byPhase[phase]++\<close>: a missing entry counts as zero.\<close>

definition count_phase :: "tradebot \<Rightarrow> int gomap \<Rightarrow> int gomap" where
  "count_phase tb byPhase = (let phase = st_Phase (tb_Status tb) in
     map_put phase ((case map_of byPhase phase of None \<Rightarrow> 0 | Some n \<Rightarrow> n) + 1) byPhase)"

definition phase_sample :: "string \<times> int \<Rightarrow> sample" where
  "phase_sample pc = \<lparr>sm_Desc = tradeBotsDesc, sm_Labels = [fst pc], sm_Value = snd pc\<rparr>"

definition collector_Collect :: "'e api \<Rightarrow> klib \<Rightarrow> ('e, sample list) op" where
  "collector_Collect A K = do {
     l \<leftarrow> do_ListTradeBots A;
     State_Monad.return (case l of
         Inl e \<Rightarrow> []
       | Inr items \<Rightarrow> map (drift_sample K) items @ map phase_sample (fold count_phase items [])) }"

section \<open>The counts\<close>

abbreviation in_phase :: "string \<Rightarrow> tradebot list \<Rightarrow> tradebot list" where
  "in_phase p tbs \<equiv> filter (\<lambda>tb. st_Phase (tb_Status tb) = p) tbs"

lemma map_put_distinct: "distinct (map fst m) \<Longrightarrow> distinct (map fst (map_put k v m))"
  by (induction m) (auto simp: map_put_def)

lemma count_phase_distinct: "distinct (map fst m) \<Longrightarrow> distinct (map fst (fold count_phase tbs m))"
  by (induction tbs arbitrary: m) (auto simp: count_phase_def Let_def map_put_distinct)

lemma count_phase_of:
  "map_of (fold count_phase tbs m) p =
     (if in_phase p tbs = [] then map_of m p
      else Some ((case map_of m p of None \<Rightarrow> 0 | Some n \<Rightarrow> n) + int (length (in_phase p tbs))))"
  by (induction tbs arbitrary: m) (auto simp: count_phase_def Let_def split: option.splits)

lemma counts:
  "(p, n) \<in> set (fold count_phase tbs []) \<longleftrightarrow> in_phase p tbs \<noteq> [] \<and> n = int (length (in_phase p tbs))"
proof -
  have d: "distinct (map fst (fold count_phase tbs []))" by (rule count_phase_distinct) simp
  have "(p, n) \<in> set (fold count_phase tbs []) \<longleftrightarrow> map_of (fold count_phase tbs []) p = Some n"
    using map_of_eq_Some_iff [OF d] by auto
  then show ?thesis by (auto simp: count_phase_of)
qed

text \<open>No bot is counted twice or left out.\<close>

lemma sum_without_key:
  fixes m :: "int gomap"
  assumes "distinct (map fst m)"
  shows "sum_list (map snd (filter (\<lambda>(k', _). k' \<noteq> k) m)) + (case map_of m k of None \<Rightarrow> 0 | Some n \<Rightarrow> n) = sum_list (map snd m)"
  using assms
proof (induction m)
  case (Cons e m)
  show ?case
  proof (cases "fst e = k")
    case True
    with Cons.prems have "k \<notin> fst ` set m" by simp
    then have "filter (\<lambda>(k', _). k' \<noteq> k) m = m" by (force simp: filter_id_conv)
    with True show ?thesis by (cases e) simp
  qed (use Cons in \<open>cases e; simp\<close>)
qed simp

lemma count_one: "distinct (map fst m) \<Longrightarrow> sum_list (map snd (count_phase tb m)) = sum_list (map snd m) + 1"
  using sum_without_key [of m "st_Phase (tb_Status tb)"] by (simp add: count_phase_def Let_def map_put_def)

lemma count_phase_sum:
  "distinct (map fst m) \<Longrightarrow> sum_list (map snd (fold count_phase tbs m)) = sum_list (map snd m) + int (length tbs)"
proof (induction tbs arbitrary: m)
  case (Cons tb tbs)
  have "distinct (map fst (count_phase tb m))"
    using count_phase_distinct [OF Cons.prems, of "[tb]"] by simp
  from Cons.IH [OF this] show ?case by (simp add: count_one [OF Cons.prems])
qed simp

section \<open>The samples\<close>

text \<open>A series is a metric with its label values; Prometheus rejects a scrape in which one appears twice.\<close>

definition series :: "sample \<Rightarrow> string \<times> string list" where
  "series x = (sm_Desc x, sm_Labels x)"

text \<open>The gauge of one bot: its namespace and name, and 1 exactly when its ConfigDrift condition is True.\<close>

definition drift_reported :: "klib \<Rightarrow> tradebot \<Rightarrow> sample \<Rightarrow> bool" where
  "drift_reported K tb x \<longleftrightarrow> sm_Labels x = [om_Namespace (tb_meta tb), om_Name (tb_meta tb)] \<and> sm_Value x \<in> {0, 1}
     \<and> (sm_Value x = 1 \<longleftrightarrow> IsStatusConditionTrue K (conds tb) ''ConfigDrift'')"

definition samples_exact :: "klib \<Rightarrow> tradebot list \<Rightarrow> sample list \<Rightarrow> bool" where
  "samples_exact K items xs \<longleftrightarrow>
     (\<forall>p n. \<lparr>sm_Desc = ''freqtrade_operator_tradebots'', sm_Labels = [p], sm_Value = n\<rparr> \<in> set xs
        \<longleftrightarrow> in_phase p items \<noteq> [] \<and> n = int (length (in_phase p items)))
     \<and> list_all2 (drift_reported K) items (filter (\<lambda>x. sm_Desc x = ''freqtrade_operator_config_drift'') xs)
     \<and> sum_list (map sm_Value (filter (\<lambda>x. sm_Desc x = ''freqtrade_operator_tradebots'') xs)) = int (length items)
     \<and> set (map sm_Desc xs) \<subseteq> set collector_Describe"

lemma desc_neq [simp]: "tradeBotsDesc \<noteq> configDriftDesc" "configDriftDesc \<noteq> tradeBotsDesc"
  by (simp_all add: tradeBotsDesc_def configDriftDesc_def)

lemma Collect_exact:
  "samples_exact K items (map (drift_sample K) items @ map phase_sample (fold count_phase items []))"
proof -
  let ?xs = "map (drift_sample K) items @ map phase_sample (fold count_phase items [])"
  have phases: "filter (\<lambda>x. sm_Desc x = tradeBotsDesc) ?xs = map phase_sample (fold count_phase items [])"
    by (simp add: filter_map o_def drift_sample_def phase_sample_def)
  have drift: "filter (\<lambda>x. sm_Desc x = configDriftDesc) ?xs = map (drift_sample K) items"
    by (simp add: filter_map o_def drift_sample_def phase_sample_def)
  have "\<lparr>sm_Desc = tradeBotsDesc, sm_Labels = [p], sm_Value = n\<rparr> \<in> set ?xs \<longleftrightarrow> (p, n) \<in> set (fold count_phase items [])" for p n
    by (force simp: drift_sample_def phase_sample_def image_iff)
  moreover have "sum_list (map sm_Value (map phase_sample (fold count_phase items []))) = int (length items)"
    using count_phase_sum [of "[]" items] by (simp add: o_def phase_sample_def)
  moreover have "set (map sm_Desc ?xs) \<subseteq> set collector_Describe"
    by (auto simp: collector_Describe_def drift_sample_def phase_sample_def)
  moreover have "list_all2 (drift_reported K) items (map (drift_sample K) items)"
    by (simp add: list_all2_conv_all_nth drift_reported_def drift_sample_def)
  ultimately show ?thesis
    unfolding samples_exact_def tradeBotsDesc_def [symmetric] configDriftDesc_def [symmetric] phases drift by (simp only: counts) simp
qed

lemma Collect_series_distinct:
  assumes "distinct (map (\<lambda>tb. key_of_meta (tb_meta tb)) items)"
  shows "distinct (map series (map (drift_sample K) items @ map phase_sample (fold count_phase items [])))"
proof -
  have "distinct (map (\<lambda>tb. series (drift_sample K tb)) items)"
    using assms by (induction items) (auto simp: series_def drift_sample_def key_of_meta_def)
  moreover have "distinct (map (\<lambda>pc. series (phase_sample pc)) (fold count_phase items []))"
    using count_phase_distinct [of "[]" items] by (induction "fold count_phase items []" rule: list.induct)
      (auto simp: distinct_map inj_on_def series_def phase_sample_def)
  moreover have "(\<lambda>tb. series (drift_sample K tb)) ` set items \<inter> (\<lambda>pc. series (phase_sample pc)) ` set (fold count_phase items []) = {}"
    by (auto simp: series_def drift_sample_def phase_sample_def)
  ultimately show ?thesis by (simp add: o_def)
qed

end
