(* ===== verification/Manager.thy ===== *)
theory Manager
  imports Watches CollectResults PollerMachine
begin

text \<open>The operator's binary, \<open>cmd/main.go\<close>, with the Gateway API detection of \<open>controllers/shared/apiavailability.go\<close>.
  \<open>go_main\<close> dispatches between the result-collecting sidecar, whose command line is parsed here, and the manager.
  \<open>runManager\<close> builds the two TLS servers, the manager, the five reconcilers with their watches, the webhooks and the
  poller, and starts it all; each failing step ends the process with code 1. The manager, the cluster and the
  certificate watchers are answers of the environment (\<open>mgrapi\<close>). TLS options are Go slices over shared backing arrays,
  kept in an explicit heap, because two of them grow from the same slice.\<close>

section \<open>Slices\<close>

datatype tlsopt = TlsNil | DisableHTTP2 | GetCertificateOf string string

type_synonym tlsheap = "tlsopt list list"

record slice =
  sl_base :: nat
  sl_len :: nat
  sl_cap :: nat

definition nil_slice :: slice where "nil_slice = \<lparr>sl_base = 0, sl_len = 0, sl_cap = 0\<rparr>"

text \<open>\<open>append\<close> of one element: in place while the capacity lasts, otherwise into a new array. \<open>grow\<close> is the capacity the
  runtime gives an array that has to hold that many elements.\<close>

definition go_append :: "(nat \<Rightarrow> nat) \<Rightarrow> slice \<Rightarrow> tlsopt \<Rightarrow> tlsheap \<Rightarrow> slice \<times> tlsheap" where
  "go_append grow s x h =
    (if sl_len s < sl_cap s
     then (s\<lparr>sl_len := Suc (sl_len s)\<rparr>, h[sl_base s := (h ! sl_base s)[sl_len s := x]])
     else (let c = grow (Suc (sl_len s));
               arr = (if sl_len s = 0 then [] else take (sl_len s) (h ! sl_base s)) @ x # replicate (c - Suc (sl_len s)) TlsNil
           in (\<lparr>sl_base = length h, sl_len = Suc (sl_len s), sl_cap = c\<rparr>, h @ [arr])))"

definition slice_elems :: "tlsheap \<Rightarrow> slice \<Rightarrow> tlsopt list" where
  "slice_elems h s = (if sl_len s = 0 then [] else take (sl_len s) (h ! sl_base s))"

text \<open>What a server makes of its options: they are applied to its TLS configuration in order.\<close>

record tlsconfig =
  tls_NextProtos :: "string list"
  tls_Certificate :: "(string \<times> string) option"

fun apply_tlsopt :: "tlsopt \<Rightarrow> tlsconfig \<Rightarrow> tlsconfig" where
  "apply_tlsopt TlsNil c = c"
| "apply_tlsopt DisableHTTP2 c = c\<lparr>tls_NextProtos := [''http/1.1'']\<rparr>"
| "apply_tlsopt (GetCertificateOf cert key) c = c\<lparr>tls_Certificate := Some (cert, key)\<rparr>"

definition served_tls :: "tlsheap \<Rightarrow> slice \<Rightarrow> tlsconfig" where
  "served_tls h s = fold apply_tlsopt (slice_elems h s) \<lparr>tls_NextProtos = [], tls_Certificate = None\<rparr>"

section \<open>Flags\<close>

record flags =
  fl_metricsAddr :: string
  fl_metricsCertPath :: string
  fl_metricsCertName :: string
  fl_metricsCertKey :: string
  fl_webhookCertPath :: string
  fl_webhookCertName :: string
  fl_webhookCertKey :: string
  fl_enableLeaderElection :: bool
  fl_probeAddr :: string
  fl_secureMetrics :: bool
  fl_enableHTTP2 :: bool
  fl_tradeBotFinalizerGracePeriod :: duration
  fl_tradeBotMaxConcurrentReconciles :: int
  fl_defaultFreqtradeImage :: string
  fl_botPollWorkers :: int
  fl_operatorImage :: string

definition flag_defaults :: flags where
  "flag_defaults = \<lparr>fl_metricsAddr = ''0'', fl_metricsCertPath = [], fl_metricsCertName = ''tls.crt'', fl_metricsCertKey = ''tls.key'',
     fl_webhookCertPath = [], fl_webhookCertName = ''tls.crt'', fl_webhookCertKey = ''tls.key'',
     fl_enableLeaderElection = False, fl_probeAddr = '':8081'', fl_secureMetrics = True, fl_enableHTTP2 = False,
     fl_tradeBotFinalizerGracePeriod = 2 * Minute, fl_tradeBotMaxConcurrentReconciles = 4,
     fl_defaultFreqtradeImage = DefaultFreqtradeImage, fl_botPollWorkers = 4, fl_operatorImage = []\<rparr>"

section \<open>The world of a starting manager\<close>

record metricsoptions =
  mo_BindAddress :: string
  mo_SecureServing :: bool
  mo_TLSOpts :: slice
  mo_FilterProvider :: bool

record manageroptions =
  mg_Metrics :: metricsoptions
  mg_WebhookTLSOpts :: slice
  mg_HealthProbeBindAddress :: string
  mg_LeaderElection :: bool
  mg_LeaderElectionID :: string

record 'e mgrapi =
  ma_NewCertWatcher :: "string \<Rightarrow> string \<Rightarrow> 'e \<Rightarrow> goerr option \<times> 'e"
  ma_GetConfig :: "'e \<Rightarrow> goerr option \<times> 'e"
  ma_NewManager :: "manageroptions \<Rightarrow> 'e \<Rightarrow> goerr option \<times> 'e"
  ma_NewDiscoveryClient :: "'e \<Rightarrow> goerr option \<times> 'e"
  ma_ServerResources :: "string \<Rightarrow> 'e \<Rightarrow> (goerr + string list) \<times> 'e"
  ma_GetPodImages :: "nname \<Rightarrow> 'e \<Rightarrow> (goerr + (string \<times> string) list) \<times> 'e"
  ma_IndexField :: "string \<Rightarrow> (tradebot \<Rightarrow> string list) \<Rightarrow> 'e \<Rightarrow> goerr option \<times> 'e"
  ma_Complete :: "controller \<Rightarrow> 'e \<Rightarrow> goerr option \<times> 'e"
  ma_SetupWebhook :: "string \<Rightarrow> 'e \<Rightarrow> goerr option \<times> 'e"
  ma_Add :: "string \<Rightarrow> 'e \<Rightarrow> goerr option \<times> 'e"
  ma_AddCheck :: "string \<Rightarrow> 'e \<Rightarrow> goerr option \<times> 'e"
  ma_Start :: "'e \<Rightarrow> goerr option \<times> 'e"
  ma_Getenv :: "string \<Rightarrow> string"
  ma_IsGroupDiscoveryFailed :: "goerr \<Rightarrow> bool"

datatype madereconciler = MadeTradeBot reconciler | MadeFreqUI freqreconciler | MadeBacktest btreconciler | MadePlain

datatype mgrevent =
    CertWatcherMade string string "goerr option"
  | ConfigLoaded "goerr option"
  | ManagerMade manageroptions tlsheap "goerr option"
  | CollectorRegistered
  | DiscoveryClientMade "goerr option"
  | ResourcesListed string "goerr + string list"
  | PodRead nname "goerr + (string \<times> string) list"
  | FieldIndexed string "goerr option"
  | ControllerMade kind madereconciler "goerr option"
  | WebhookSetUp string "goerr option"
  | RunnableAdded string "goerr option"
  | CheckAdded string "goerr option"
  | PollerAdded int "goerr option"
  | ManagerRan "goerr option"
  | Exited int

type_synonym ('e, 'a) mgrprog = "('e, mgrevent, 'a) prog"

text \<open>A failing step logs its error and ends the process.\<close>

definition os_Exit :: "int \<Rightarrow> ('e, int) mgrprog" where
  "os_Exit code = do { _ \<leftarrow> emit (Exited code); State_Monad.return code }"

definition or_exit :: "('e, goerr option) mgrprog \<Rightarrow> ('e, int) mgrprog \<Rightarrow> ('e, int) mgrprog" where
  "or_exit m k = do { e \<leftarrow> m; case e of Some _ \<Rightarrow> os_Exit 1 | None \<Rightarrow> k }"

section \<open>Detection at start-up\<close>

definition gatewayAPIGroupVersion :: string where "gatewayAPIGroupVersion = ''gateway.networking.k8s.io/v1''"

definition gatewayAPIHTTPRouteResource :: string where "gatewayAPIHTTPRouteResource = ''httproutes''"

definition gatewayAPIAvailable :: "'e mgrapi \<Rightarrow> ('e, bool \<times> goerr option) mgrprog" where
  "gatewayAPIAvailable M = do {
     r \<leftarrow> call (ma_ServerResources M gatewayAPIGroupVersion) (ResourcesListed gatewayAPIGroupVersion);
     State_Monad.return (case r of
         Inl e \<Rightarrow> if IsNotFound e \<or> ma_IsGroupDiscoveryFailed M e then (False, None) else (False, Some e)
       | Inr names \<Rightarrow> (list_ex (\<lambda>n. n = gatewayAPIHTTPRouteResource) names, None)) }"

definition GatewayAPIAvailable :: "'e mgrapi \<Rightarrow> ('e, bool \<times> goerr option) mgrprog" where
  "GatewayAPIAvailable M = do {
     c \<leftarrow> call (ma_NewDiscoveryClient M) DiscoveryClientMade;
     case c of Some e \<Rightarrow> State_Monad.return (False, Some e) | None \<Rightarrow> gatewayAPIAvailable M }"

definition resolveOwnImage :: "'e mgrapi \<Rightarrow> ('e, string) mgrprog" where
  "resolveOwnImage M =
    (let podName = ma_Getenv M ''POD_NAME''; podNamespace = ma_Getenv M ''POD_NAMESPACE'' in
     if podName = [] \<or> podNamespace = [] then State_Monad.return []
     else do {
       r \<leftarrow> call (ma_GetPodImages M \<lparr>nn_Namespace = podNamespace, nn_Name = podName\<rparr>)
         (PodRead \<lparr>nn_Namespace = podNamespace, nn_Name = podName\<rparr>);
       State_Monad.return (case r of
           Inl e \<Rightarrow> []
         | Inr cs \<Rightarrow> (case find (\<lambda>c. fst c = ''manager'') cs of None \<Rightarrow> [] | Some c \<Rightarrow> snd c)) })"

section \<open>Controllers\<close>

definition complete :: "'e mgrapi \<Rightarrow> madereconciler \<Rightarrow> controller \<Rightarrow> ('e, goerr option) mgrprog" where
  "complete M made c = call (ma_Complete M c) (ControllerMade (ct_For c) made)"

definition indexTradeBotRef :: "'e mgrapi \<Rightarrow> string \<Rightarrow> (tradebot \<Rightarrow> string) \<Rightarrow> ('e, goerr option) mgrprog" where
  "indexTradeBotRef M field get = call (ma_IndexField M field (index_values get)) (FieldIndexed field)"

definition tradebot_SetupWithManager ::
  "'e mgrapi \<Rightarrow> crlib \<Rightarrow> indexed_list \<Rightarrow> reconciler \<Rightarrow> ('e, goerr option) mgrprog" where
  "tradebot_SetupWithManager M L list R = do {
     e \<leftarrow> indexTradeBotRef M configRefField (\<lambda>t. tb_Config (tb_Spec t));
     case e of
       Some err \<Rightarrow> State_Monad.return (Some err)
     | None \<Rightarrow> do {
         e \<leftarrow> indexTradeBotRef M strategyRefField (\<lambda>t. tb_Strategy (tb_Spec t));
         case e of
           Some err \<Rightarrow> State_Monad.return (Some err)
         | None \<Rightarrow> complete M (MadeTradeBot R) (tradebot_controller L list R) } }"

text \<open>The reconcilers as \<open>runManager\<close> fills them in. Every one has an event recorder.\<close>

definition manager_reconciler :: "'e mgrapi \<Rightarrow> flags \<Rightarrow> reconciler" where
  "manager_reconciler M fl = \<lparr>r_FinalizerGracePeriod = fl_tradeBotFinalizerGracePeriod fl,
     r_MaxConcurrentReconciles = fl_tradeBotMaxConcurrentReconciles fl, r_Recorder = True,
     r_DefaultImage = fl_defaultFreqtradeImage fl, r_OperatorNamespace = ma_Getenv M ''POD_NAMESPACE''\<rparr>"

definition manager_freqreconciler :: "bool \<Rightarrow> freqreconciler" where
  "manager_freqreconciler available = \<lparr>fr_Recorder = True, fr_GatewayAPIAvailable = available\<rparr>"

definition manager_btreconciler :: "flags \<Rightarrow> string \<Rightarrow> btreconciler" where
  "manager_btreconciler fl operatorImage = \<lparr>bt_Recorder = True, bt_DefaultImage = fl_defaultFreqtradeImage fl, bt_OperatorImage = operatorImage\<rparr>"

definition setup_controllers ::
  "'e mgrapi \<Rightarrow> crlib \<Rightarrow> indexed_list \<Rightarrow> flags \<Rightarrow> bool \<Rightarrow> string \<Rightarrow> ('e, int) mgrprog \<Rightarrow> ('e, int) mgrprog" where
  "setup_controllers M L list fl available operatorImage k =
    (let F = manager_freqreconciler available in
     or_exit (tradebot_SetupWithManager M L list (manager_reconciler M fl))
     (or_exit (complete M (MadeFreqUI F) (frequi_controller L F))
     (or_exit (complete M MadePlain (strategy_controller L))
     (or_exit (complete M MadePlain (tradebotconfig_controller L))
     (or_exit (complete M (MadeBacktest (manager_btreconciler fl operatorImage)) (backtest_controller L)) k)))))"

definition setup_webhook :: "'e mgrapi \<Rightarrow> string \<Rightarrow> ('e, goerr option) mgrprog" where
  "setup_webhook M name = call (ma_SetupWebhook M name) (WebhookSetUp name)"

definition webhooks :: "string list" where
  "webhooks = [''TradeBot'', ''TradeBotConfig (v1alpha1)'', ''TradeBotConfig (v1beta1)'', ''Strategy'', ''FreqUI'', ''Backtest'']"

fun setup_webhooks :: "'e mgrapi \<Rightarrow> string list \<Rightarrow> ('e, int) mgrprog \<Rightarrow> ('e, int) mgrprog" where
  "setup_webhooks M [] k = k"
| "setup_webhooks M (w # ws) k = or_exit (setup_webhook M w) (setup_webhooks M ws k)"

definition add_if :: "'e mgrapi \<Rightarrow> bool \<Rightarrow> string \<Rightarrow> ('e, int) mgrprog \<Rightarrow> ('e, int) mgrprog" where
  "add_if M wanted name k = (if wanted then or_exit (call (ma_Add M name) (RunnableAdded name)) k else k)"

definition start_manager :: "'e mgrapi \<Rightarrow> flags \<Rightarrow> ('e, int) mgrprog" where
  "start_manager M fl =
     add_if M (fl_metricsCertPath fl \<noteq> []) ''metrics certificate watcher''
     (add_if M (fl_webhookCertPath fl \<noteq> []) ''webhook certificate watcher''
     (or_exit (call (ma_Add M ''TradeBot poller'') (PollerAdded (fl_botPollWorkers fl)))
     (or_exit (call (ma_AddCheck M ''healthz'') (CheckAdded ''healthz''))
     (or_exit (call (ma_AddCheck M ''readyz'') (CheckAdded ''readyz''))
     (or_exit (call (ma_Start M) ManagerRan) (State_Monad.return 0))))))"

section \<open>The manager\<close>

text \<open>The TLS options of a server: with a certificate path, a watcher is made and its option appended.\<close>

definition with_certificate ::
  "'e mgrapi \<Rightarrow> (nat \<Rightarrow> nat) \<Rightarrow> string \<Rightarrow> string \<Rightarrow> string \<Rightarrow> slice \<Rightarrow> tlsheap
     \<Rightarrow> (slice \<Rightarrow> tlsheap \<Rightarrow> ('e, int) mgrprog) \<Rightarrow> ('e, int) mgrprog" where
  "with_certificate M grow path name key opts h k =
    (if path \<noteq> []
     then or_exit (call (ma_NewCertWatcher M (path_Join path name) (path_Join path key))
            (CertWatcherMade (path_Join path name) (path_Join path key)))
          (let (opts', h') = go_append grow opts (GetCertificateOf (path_Join path name) (path_Join path key)) h in k opts' h')
     else k opts h)"

definition runManager :: "'e mgrapi \<Rightarrow> (nat \<Rightarrow> nat) \<Rightarrow> crlib \<Rightarrow> indexed_list \<Rightarrow> flags \<Rightarrow> ('e, int) mgrprog" where
  "runManager M grow L list fl =
    (let (tlsOpts, h) = (if \<not> fl_enableHTTP2 fl then go_append grow nil_slice DisableHTTP2 [] else (nil_slice, []))
     in with_certificate M grow (fl_webhookCertPath fl) (fl_webhookCertName fl) (fl_webhookCertKey fl) tlsOpts h (\<lambda>webhookTLSOpts h.
        with_certificate M grow (fl_metricsCertPath fl) (fl_metricsCertName fl) (fl_metricsCertKey fl) tlsOpts h (\<lambda>metricsTLSOpts h.
        or_exit (call (ma_GetConfig M) ConfigLoaded)
        (let opts = \<lparr>mg_Metrics = \<lparr>mo_BindAddress = fl_metricsAddr fl, mo_SecureServing = fl_secureMetrics fl,
                mo_TLSOpts = metricsTLSOpts, mo_FilterProvider = fl_secureMetrics fl\<rparr>,
              mg_WebhookTLSOpts = webhookTLSOpts, mg_HealthProbeBindAddress = fl_probeAddr fl,
              mg_LeaderElection = fl_enableLeaderElection fl, mg_LeaderElectionID = ''bca373d0.freqtrade.io''\<rparr>
         in or_exit (call (ma_NewManager M opts) (ManagerMade opts h))
           (do {
              _ \<leftarrow> emit CollectorRegistered;
              g \<leftarrow> GatewayAPIAvailable M;
              let available = (case g of (b, Some e) \<Rightarrow> False | (b, None) \<Rightarrow> b);
              operatorImage \<leftarrow> (if fl_operatorImage fl = [] then resolveOwnImage M else State_Monad.return (fl_operatorImage fl));
              setup_controllers M L list fl available operatorImage (setup_webhooks M webhooks (start_manager M fl)) })))))"

section \<open>The command line of the sidecar\<close>

text \<open>\<open>flag.FlagSet.Parse\<close> for a set of string flags: it stops at the first argument that is no flag and at a bare
  double dash; a value comes after an equals sign or is the next argument, whatever that looks like. An unknown flag, a
  bad one or a missing value end the process with code 2, a request for help with 0.\<close>

fun split_eq :: "string \<Rightarrow> string \<times> string option" where
  "split_eq [] = ([], None)"
| "split_eq (c # s) = (if c = CHR ''='' then ([], Some s) else (case split_eq s of (n, v) \<Rightarrow> (c # n, v)))"

definition flag_name :: "string \<Rightarrow> string option" where
  "flag_name s = (case s of
       CHR ''-'' # CHR ''-'' # n \<Rightarrow> Some n
     | CHR ''-'' # n \<Rightarrow> if n = [] then None else Some n
     | _ \<Rightarrow> None)"

fun parse_flags :: "string list \<Rightarrow> string list \<Rightarrow> smap \<Rightarrow> int + smap" where
  "parse_flags known [] m = Inr m"
| "parse_flags known (s # args) m = (case flag_name s of
       None \<Rightarrow> Inr m
     | Some n \<Rightarrow>
         if n = [] then Inr m
         else if hd n = CHR ''-'' \<or> hd n = CHR ''='' then Inl 2
         else (case split_eq n of (name, value) \<Rightarrow>
           if name \<notin> set known then Inl (if name = ''help'' \<or> name = ''h'' then 0 else 2)
           else (case value of
               Some v \<Rightarrow> parse_flags known args (map_put name v m)
             | None \<Rightarrow> (case args of [] \<Rightarrow> Inl 2 | v # rest \<Rightarrow> parse_flags known rest (map_put name v m)))))"

definition collect_flag_names :: "string list" where
  "collect_flag_names = [''backtest-name'', ''strategy-name'', ''results-dir'', ''results-pvc-dir'', ''main-container'']"

definition flag_value :: "smap \<Rightarrow> string \<Rightarrow> string \<Rightarrow> string" where
  "flag_value m name dflt = (case map_of m name of None \<Rightarrow> dflt | Some v \<Rightarrow> v)"

definition collect_options :: "(string \<Rightarrow> string) \<Rightarrow> string list \<Rightarrow> int + cropts" where
  "collect_options getenv args = (case parse_flags collect_flag_names args [] of
       Inl code \<Rightarrow> Inl code
     | Inr m \<Rightarrow> Inr \<lparr>cr_BacktestName = flag_value m ''backtest-name'' [], cr_StrategyName = flag_value m ''strategy-name'' [],
         cr_PodName = getenv ''POD_NAME'', cr_Namespace = getenv ''POD_NAMESPACE'',
         cr_MainContainerName = flag_value m ''main-container'' ''freqtrade'',
         cr_ResultsDir = flag_value m ''results-dir'' ''/freqtrade/user_data/backtest_results'',
         cr_ResultsPVCDir = flag_value m ''results-pvc-dir'' ResultsPVCMountPath\<rparr>)"

text \<open>The entry point. Both sides are given as what they end with: the manager's exit code, and for the collector its error
  or, when its wait runs out of fuel, nothing.\<close>

definition go_main :: "(string \<Rightarrow> string) \<Rightarrow> (cropts \<Rightarrow> goerr option option) \<Rightarrow> int \<Rightarrow> string list \<Rightarrow> int option" where
  "go_main getenv collect manager args =
    (if length args > 1 \<and> args ! 1 = ''collect-results''
     then (case collect_options getenv (drop 2 args) of
         Inl code \<Rightarrow> Some code
       | Inr opts \<Rightarrow> map_option (\<lambda>e. if e = None then 0 else 1) (collect opts))
     else Some manager)"

text \<open>The pod builder and the parser agree, whatever the names are.\<close>

lemma sidecar_options:
  "collect_options getenv (drop 1 (ct_Args (buildSidecarContainer operatorImage backtestName strategyName))) =
     Inr \<lparr>cr_BacktestName = backtestName, cr_StrategyName = strategyName,
       cr_PodName = getenv ''POD_NAME'', cr_Namespace = getenv ''POD_NAMESPACE'', cr_MainContainerName = ''freqtrade'',
       cr_ResultsDir = ''/freqtrade/user_data/backtest_results'', cr_ResultsPVCDir = ResultsPVCMountPath\<rparr>"
  by (simp add: collect_options_def buildSidecarContainer_def flag_name_def collect_flag_names_def flag_value_def)

end
