(* ===== verification/ManagerStart.thy ===== *)
theory ManagerStart
  imports Manager
begin

text \<open>What a run of \<open>runManager\<close> guarantees. Each server is served with the TLS settings its own flags ask for, as long as the
  runtime gives a one-element array no room to spare; with room to spare the two would share a certificate. And the manager is
  started only when both field indexes, the five controllers, every webhook, the poller and the two health checks are in
  place, with exit code 0 only after it stopped without an error.\<close>

section \<open>TLS of the two servers\<close>

text \<open>What the flags ask for: no HTTP/2 unless enabled, and the server's own certificate when a path is given.\<close>

definition wanted_tls :: "flags \<Rightarrow> string \<Rightarrow> string \<Rightarrow> string \<Rightarrow> tlsconfig" where
  "wanted_tls fl path name key = \<lparr>tls_NextProtos = (if fl_enableHTTP2 fl then [] else [''http/1.1'']),
     tls_Certificate = (if path = [] then None else Some (path_Join path name, path_Join path key))\<rparr>"

definition webhook_tls :: "flags \<Rightarrow> tlsconfig" where
  "webhook_tls fl = wanted_tls fl (fl_webhookCertPath fl) (fl_webhookCertName fl) (fl_webhookCertKey fl)"

definition metrics_tls :: "flags \<Rightarrow> tlsconfig" where
  "metrics_tls fl = wanted_tls fl (fl_metricsCertPath fl) (fl_metricsCertName fl) (fl_metricsCertKey fl)"

lemma only_or_exit [only_intro]: "\<lbrakk>only P m; P (Exited 1); only P k\<rbrakk> \<Longrightarrow> only P (or_exit m k)"
  unfolding or_exit_def os_Exit_def by (intro only_intro)

lemma only_with_certificate:
  assumes "\<And>c k r. P (CertWatcherMade c k r)" "P (Exited 1)"
    and "path = [] \<Longrightarrow> only P (cont opts h)"
    and "\<And>opts' h'. \<lbrakk>path \<noteq> []; go_append grow opts (GetCertificateOf (path_Join path name) (path_Join path key)) h = (opts', h')\<rbrakk>
      \<Longrightarrow> only P (cont opts' h')"
  shows "only P (with_certificate M grow path name key opts h cont)"
  unfolding with_certificate_def using assms by (auto intro!: only_intro split: prod.split)

text \<open>The steps after the manager is made.\<close>

definition later :: "mgrevent \<Rightarrow> bool" where
  "later e = (case e of ManagerMade opts h r \<Rightarrow> False | CertWatcherMade c k r \<Rightarrow> False | _ \<Rightarrow> True)"

lemma later_simps [simp]:
  "later CollectorRegistered" "later (DiscoveryClientMade r)" "later (ResourcesListed s x)" "later (PodRead n y)" "later (FieldIndexed s r)"
  "later (ControllerMade k m r)" "later (WebhookSetUp s r)" "later (RunnableAdded s r)" "later (CheckAdded s r)" "later (PollerAdded i r)"
  "later (ManagerRan r)" "later (Exited i)" "later (ConfigLoaded r)" "\<not> later (ManagerMade opts h r)" "\<not> later (CertWatcherMade c k2 r)"
  by (simp_all add: later_def)

lemma only_setup_webhooks: "\<lbrakk>\<And>w r. P (WebhookSetUp w r); P (Exited 1); only P k\<rbrakk> \<Longrightarrow> only P (setup_webhooks M ws k)"
  by (induction ws) (auto simp: setup_webhook_def intro!: only_intro)

lemma setup_later:
  "only later (do {
     _ \<leftarrow> emit CollectorRegistered;
     g \<leftarrow> GatewayAPIAvailable M;
     operatorImage \<leftarrow> (if fl_operatorImage fl = [] then resolveOwnImage M else State_Monad.return (fl_operatorImage fl));
     setup_controllers M L list fl (f g) operatorImage (setup_webhooks M webhooks (start_manager M fl)) })"
proof -
  have start: "only later (start_manager M fl)"
    unfolding start_manager_def add_if_def by (intro only_intro) simp_all
  have ctl: "only later (setup_controllers M L list fl b i (setup_webhooks M webhooks (start_manager M fl)))" for b i
    unfolding setup_controllers_def tradebot_SetupWithManager_def indexTradeBotRef_def complete_def Let_def
    by (intro only_intro only_setup_webhooks start) simp_all
  show ?thesis
    unfolding GatewayAPIAvailable_def gatewayAPIAvailable_def resolveOwnImage_def Let_def
    by (intro only_intro ctl) simp_all
qed

definition made_with :: "(manageroptions \<Rightarrow> tlsheap \<Rightarrow> bool) \<Rightarrow> mgrevent \<Rightarrow> bool" where
  "made_with P e = (case e of ManagerMade opts h r \<Rightarrow> P opts h | _ \<Rightarrow> True)"

lemma list_all_made_with:
  "list_all (made_with P) es \<Longrightarrow> (\<And>opts h. P opts h \<Longrightarrow> Q opts h) \<Longrightarrow> list_all (made_with Q) es"
  by (induction es) (auto simp: made_with_def split: mgrevent.splits)

lemma later_made: "later e \<Longrightarrow> made_with P e"
  by (auto simp: later_def made_with_def split: mgrevent.splits)

text \<open>What the manager is made with, computed from the flags.\<close>

lemma runManager_made:
  assumes "\<And>t0 h0 wo h1 mo h2 opts. \<lbrakk>
      (if \<not> fl_enableHTTP2 fl then go_append grow nil_slice DisableHTTP2 [] else (nil_slice, [])) = (t0, h0);
      (if fl_webhookCertPath fl \<noteq> [] then go_append grow t0 (GetCertificateOf (path_Join (fl_webhookCertPath fl) (fl_webhookCertName fl))
          (path_Join (fl_webhookCertPath fl) (fl_webhookCertKey fl))) h0 else (t0, h0)) = (wo, h1);
      (if fl_metricsCertPath fl \<noteq> [] then go_append grow t0 (GetCertificateOf (path_Join (fl_metricsCertPath fl) (fl_metricsCertName fl))
          (path_Join (fl_metricsCertPath fl) (fl_metricsCertKey fl))) h1 else (t0, h1)) = (mo, h2);
      mg_WebhookTLSOpts opts = wo; mo_TLSOpts (mg_Metrics opts) = mo; mo_SecureServing (mg_Metrics opts) = fl_secureMetrics fl;
      mo_FilterProvider (mg_Metrics opts) = fl_secureMetrics fl\<rbrakk> \<Longrightarrow> P opts h2"
  shows "only (made_with P) (runManager M grow L list fl)"
proof -
  obtain t0 h0 where t0: "(if \<not> fl_enableHTTP2 fl then go_append grow nil_slice DisableHTTP2 [] else (nil_slice, [])) = (t0, h0)" by force
  have rest: "only (made_with P) (do {
     _ \<leftarrow> emit CollectorRegistered;
     g \<leftarrow> GatewayAPIAvailable M;
     operatorImage \<leftarrow> (if fl_operatorImage fl = [] then resolveOwnImage M else State_Monad.return (fl_operatorImage fl));
     setup_controllers M L list fl (f g) operatorImage (setup_webhooks M webhooks (start_manager M fl)) })" for f
    by (rule only_conseq [OF setup_later later_made])
  show ?thesis
    unfolding runManager_def t0 Let_def prod.case
    by (intro only_with_certificate only_or_exit only_call rest)
       (auto simp: made_with_def intro!: assms [OF t0])
qed

text \<open>Appending to a full slice leaves every other slice alone.\<close>

definition slice_ok :: "tlsheap \<Rightarrow> slice \<Rightarrow> bool" where
  "slice_ok h s \<longleftrightarrow> sl_len s = 0 \<or> sl_base s < length h \<and> sl_len s \<le> length (h ! sl_base s)"

lemma append_full:
  assumes "go_append grow s x h = (s', h')" "sl_len s = sl_cap s" "slice_ok h s"
  shows "slice_elems h' s' = slice_elems h s @ [x]" and "slice_ok h' s'"
    and "slice_ok h t \<Longrightarrow> slice_elems h' t = slice_elems h t" and "slice_ok h t \<Longrightarrow> slice_ok h' t"
  using assms by (auto simp: go_append_def slice_elems_def slice_ok_def Let_def nth_append min_def)

lemma append_if_full:
  assumes "(if b then go_append grow s x h else (s, h)) = (s', h')" "sl_len s = sl_cap s" "slice_ok h s"
  shows "slice_elems h' s' = slice_elems h s @ (if b then [x] else [])" and "slice_ok h' s'"
    and "slice_ok h t \<Longrightarrow> slice_elems h' t = slice_elems h t" and "slice_ok h t \<Longrightarrow> slice_ok h' t"
  using assms by (cases b; simp add: append_full)+

lemma first_append:
  assumes "(if b then go_append grow nil_slice x [] else (nil_slice, [])) = (t0, h0)" "grow 1 = 1"
  shows "sl_len t0 = sl_cap t0 \<and> slice_ok h0 t0 \<and> slice_elems h0 t0 = (if b then [x] else [])"
  using assms by (auto simp: go_append_def nil_slice_def slice_ok_def slice_elems_def Let_def split: if_splits)

lemma served_of_elems:
  "slice_elems h s = (if \<not> fl_enableHTTP2 fl then [DisableHTTP2] else [])
       @ (if path \<noteq> [] then [GetCertificateOf (path_Join path name) (path_Join path key)] else [])
     \<Longrightarrow> served_tls h s = wanted_tls fl path name key"
  by (simp add: served_tls_def wanted_tls_def)

lemma separate_tls:
  assumes "grow 1 = 1"
  shows "only (made_with (\<lambda>opts h. served_tls h (mg_WebhookTLSOpts opts) = webhook_tls fl
      \<and> served_tls h (mo_TLSOpts (mg_Metrics opts)) = metrics_tls fl
      \<and> mo_FilterProvider (mg_Metrics opts) = mo_SecureServing (mg_Metrics opts))) (runManager M grow L list fl)"
proof (rule runManager_made, goal_cases)
  case (1 t0 h0 wo h1 mo h2 opts)
  note t0 = first_append [OF 1(1) assms, THEN conjunct1] first_append [OF 1(1) assms, THEN conjunct2, THEN conjunct1]
    first_append [OF 1(1) assms, THEN conjunct2, THEN conjunct2]
  note w = append_if_full [OF 1(2) t0(1,2)] and m = append_if_full [OF 1(3) t0(1) append_if_full(4) [OF 1(2) t0(1,2) t0(2)]]
  have "slice_elems h2 wo = slice_elems h1 wo" by (rule m(3) [OF w(2)])
  then have "served_tls h2 wo = webhook_tls fl"
    unfolding webhook_tls_def by (intro served_of_elems) (simp add: w(1) t0(3))
  moreover have "served_tls h2 mo = metrics_tls fl"
    unfolding metrics_tls_def by (intro served_of_elems) (simp add: m(1) w(3) [OF t0(2)] t0(3))
  ultimately show ?case using 1 by simp
qed

text \<open>With a runtime that gives the first array room to spare, the second append overwrites the option of the first.\<close>

lemma shared_tls:
  assumes "1 < grow 1" and "\<not> fl_enableHTTP2 fl" "fl_webhookCertPath fl \<noteq> []" "fl_metricsCertPath fl \<noteq> []"
  shows "only (made_with (\<lambda>opts h. served_tls h (mg_WebhookTLSOpts opts) = metrics_tls fl)) (runManager M grow L list fl)"
proof -
  obtain n where n: "grow (Suc 0) = Suc (Suc n)" using assms(1) by (auto dest: less_imp_Suc_add)
  show ?thesis
  proof (rule runManager_made, goal_cases)
    case (1 t0 h0 wo h1 mo h2 opts)
    from 1(1-3) have "wo = \<lparr>sl_base = 0, sl_len = 2, sl_cap = Suc (Suc n)\<rparr>
        \<and> h2 = [DisableHTTP2 # GetCertificateOf (path_Join (fl_metricsCertPath fl) (fl_metricsCertName fl))
            (path_Join (fl_metricsCertPath fl) (fl_metricsCertKey fl)) # replicate n TlsNil]"
      using assms(2-) n by (auto simp: go_append_def nil_slice_def)
    then show ?case
      using 1(4) by (simp add: served_tls_def slice_elems_def metrics_tls_def wanted_tls_def assms)
  qed
qed

section \<open>Start only when everything is set up\<close>

definition ready :: "mgrevent set \<Rightarrow> int \<Rightarrow> mgrevent list \<Rightarrow> bool" where
  "ready S code t \<longleftrightarrow> (\<forall>r. ManagerRan r \<in> set t \<longrightarrow> S \<subseteq> set t)
     \<and> (code = 0 \<longleftrightarrow> ManagerRan None \<in> set t) \<and> (code \<noteq> 0 \<longrightarrow> code = 1 \<and> Exited 1 \<in> set t)"

definition quiet :: "mgrevent \<Rightarrow> bool" where
  "quiet e \<longleftrightarrow> (\<forall>r. e \<noteq> ManagerRan r)"

lemma ready_pre: "\<lbrakk>ready S c u; list_all quiet t\<rbrakk> \<Longrightarrow> ready S c (t @ u)"
  by (auto simp: ready_def list_all_iff quiet_def)

lemma ready_only: "\<lbrakk>only quiet m; \<And>x. emits (f x) (ready S)\<rbrakk> \<Longrightarrow> emits (State_Monad.bind m f) (ready S)"
  unfolding only_def by (erule emits_bind) (auto intro: emits_conseq ready_pre)

text \<open>A step in front adds the event of its success to what a start requires.\<close>

lemma ready_or_exit:
  assumes m: "emits m (\<lambda>r t. list_all quiet t \<and> (r = None \<longrightarrow> T \<subseteq> set t))" and k: "emits k (ready S)"
  shows "emits (or_exit m k) (ready (T \<union> S))"
  unfolding or_exit_def os_Exit_def
proof (rule emits_bind [OF m], elim conjE, rule emits_case_option)
  fix r t assume t: "list_all quiet t" "r = None \<longrightarrow> T \<subseteq> set t" and "r = None"
  then show "emits k (\<lambda>c u. ready (T \<union> S) c (t @ u))"
    by (intro emits_conseq [OF k]) (auto simp: ready_def list_all_iff quiet_def)
next
  fix r :: "goerr option" and t e assume t: "list_all quiet t"
  then show "emits (do { _ \<leftarrow> emit (Exited 1); State_Monad.return 1 }) (\<lambda>c u. ready (T \<union> S) c (t @ u))"
    by (intro emits_bind [OF emits_emit [where Q = "\<lambda>_ t. t = [Exited 1]"]] emits_return)
       (auto simp: ready_def list_all_iff quiet_def)
qed

lemma call_succeeds: "(\<And>r. quiet (ev r)) \<Longrightarrow> emits (call f ev) (\<lambda>r t. list_all quiet t \<and> (r = None \<longrightarrow> {ev None} \<subseteq> set t))"
  by (rule emits_call) auto

lemma quiet_simps [simp]:
  "quiet (CertWatcherMade a b r)" "quiet (ConfigLoaded r)" "quiet (ManagerMade opts h r)" "quiet CollectorRegistered" "quiet (DiscoveryClientMade r)"
  "quiet (ResourcesListed s x)" "quiet (PodRead n y)" "quiet (FieldIndexed s r)" "quiet (ControllerMade k m r)" "quiet (WebhookSetUp s r)"
  "quiet (RunnableAdded s r)" "quiet (CheckAdded s r)" "quiet (PollerAdded i r)" "quiet (Exited c)" "\<not> quiet (ManagerRan r)"
  by (simp_all add: quiet_def)

lemma ready_start: "emits (or_exit (call f ManagerRan) (State_Monad.return 0)) (ready {})"
  unfolding or_exit_def os_Exit_def
  by (rule emits_bind [OF emits_call [where Q = "\<lambda>r t. t = [ManagerRan r]"]], rule refl, rule emits_case_option, rule emits_return,
      simp add: ready_def, rule emits_bind [OF emits_emit [where Q = "\<lambda>_ t. t = [Exited 1]"]], rule refl, rule emits_return)
     (auto simp: ready_def)

definition required_start :: "flags \<Rightarrow> mgrevent set" where
  "required_start fl = {PollerAdded (fl_botPollWorkers fl) None, CheckAdded ''healthz'' None, CheckAdded ''readyz'' None}
     \<union> {WebhookSetUp ''TradeBot'' None, WebhookSetUp ''TradeBotConfig (v1alpha1)'' None, WebhookSetUp ''TradeBotConfig (v1beta1)'' None,
        WebhookSetUp ''Strategy'' None, WebhookSetUp ''FreqUI'' None, WebhookSetUp ''Backtest'' None}"

lemma ready_mono: "\<lbrakk>emits m (ready T); S \<subseteq> T\<rbrakk> \<Longrightarrow> emits m (ready S)"
  by (erule emits_conseq) (auto simp: ready_def)

lemma ready_start_manager:
  "emits (start_manager M fl) (ready {PollerAdded (fl_botPollWorkers fl) None, CheckAdded ''healthz'' None, CheckAdded ''readyz'' None})"
proof -
  have add: "emits (add_if M b n k) (ready S)" if "emits k (ready S)" for b n k S
    unfolding add_if_def by (intro emits_if that ready_mono [OF ready_or_exit [OF call_succeeds that]]) auto
  show ?thesis
    unfolding start_manager_def
    by (intro add, rule ready_mono [OF ready_or_exit [OF call_succeeds ready_or_exit [OF call_succeeds
        ready_or_exit [OF call_succeeds ready_start]]]]) auto
qed

lemma ready_webhooks:
  "emits k (ready S) \<Longrightarrow> emits (setup_webhooks M ws k) (ready ({WebhookSetUp w None |w. w \<in> set ws} \<union> S))"
proof (induction ws)
  case (Cons w ws)
  from ready_or_exit [OF call_succeeds Cons.IH [OF Cons.prems]] show ?case
    unfolding setup_webhooks.simps setup_webhook_def by (rule ready_mono) auto
qed simp

lemma quiet_complete:
  "emits (complete M made c) (\<lambda>r t. list_all quiet t \<and> (r = None \<longrightarrow> {ControllerMade (ct_For c) made None} \<subseteq> set t))"
  unfolding complete_def by (rule call_succeeds) simp

lemma quiet_tradebot_setup:
  "emits (tradebot_SetupWithManager M L list R) (\<lambda>r t. list_all quiet t \<and> (r = None \<longrightarrow>
     {FieldIndexed configRefField None, FieldIndexed strategyRefField None, ControllerMade KTradeBot (MadeTradeBot R) None} \<subseteq> set t))"
proof -
  have kind: "ct_For (tradebot_controller L list R) = KTradeBot" by (simp add: tradebot_controller_def Let_def)
  show ?thesis
    unfolding tradebot_SetupWithManager_def indexTradeBotRef_def complete_def kind
    by (rule emits_bind [OF emits_call [where Q = "\<lambda>r t. t = [FieldIndexed configRefField r]"]], rule refl,
        rule emits_case_option, rule emits_bind [OF emits_call [where Q = "\<lambda>r t. t = [FieldIndexed strategyRefField r]"]], rule refl,
        rule emits_case_option, rule emits_call)
       (auto intro!: emits_return)
qed

definition required_controllers :: "'e mgrapi \<Rightarrow> flags \<Rightarrow> bool \<Rightarrow> string \<Rightarrow> mgrevent set" where
  "required_controllers M fl available img =
     {FieldIndexed ''spec.config'' None, FieldIndexed ''spec.strategy'' None,
      ControllerMade KTradeBot (MadeTradeBot \<lparr>r_FinalizerGracePeriod = fl_tradeBotFinalizerGracePeriod fl,
        r_MaxConcurrentReconciles = fl_tradeBotMaxConcurrentReconciles fl, r_Recorder = True,
        r_DefaultImage = fl_defaultFreqtradeImage fl, r_OperatorNamespace = ma_Getenv M ''POD_NAMESPACE''\<rparr>) None,
      ControllerMade KFreqUI (MadeFreqUI \<lparr>fr_Recorder = True, fr_GatewayAPIAvailable = available\<rparr>) None,
      ControllerMade KStrategy MadePlain None, ControllerMade KTradeBotConfig MadePlain None,
      ControllerMade KBacktest (MadeBacktest
        \<lparr>bt_Recorder = True, bt_DefaultImage = fl_defaultFreqtradeImage fl, bt_OperatorImage = img\<rparr>) None}"

lemma ready_controllers:
  assumes "emits k (ready S)"
  shows "emits (setup_controllers M L list fl available img k) (ready (required_controllers M fl available img \<union> S))"
  unfolding setup_controllers_def Let_def
  by (rule ready_mono [OF ready_or_exit [OF quiet_tradebot_setup ready_or_exit [OF quiet_complete ready_or_exit [OF quiet_complete
      ready_or_exit [OF quiet_complete ready_or_exit [OF quiet_complete assms]]]]]])
     (auto simp: required_controllers_def configRefField_def strategyRefField_def manager_reconciler_def manager_freqreconciler_def
       manager_btreconciler_def frequi_controller_def strategy_controller_def tradebotconfig_controller_def backtest_controller_def)

text \<open>What a start needs, whatever the Gateway API detection and the lookup of the operator's own image gave. Without a
  flag the image is that of the container \<open>manager\<close> of the operator's own pod, or empty.\<close>

definition own_image :: "'e mgrapi \<Rightarrow> flags \<Rightarrow> string \<Rightarrow> mgrevent list \<Rightarrow> bool" where
  "own_image M fl img t \<longleftrightarrow> (if fl_operatorImage fl \<noteq> [] then img = fl_operatorImage fl
     else img = [] \<or> (\<exists>cs. PodRead \<lparr>nn_Namespace = ma_Getenv M ''POD_NAMESPACE'', nn_Name = ma_Getenv M ''POD_NAME''\<rparr> (Inr cs) \<in> set t
       \<and> (''manager'', img) \<in> set cs))"

definition all_set_up :: "'e mgrapi \<Rightarrow> flags \<Rightarrow> mgrevent list \<Rightarrow> bool" where
  "all_set_up M fl t \<longleftrightarrow> (\<exists>available img. required_controllers M fl available img \<union> required_start fl \<subseteq> set t
     \<and> own_image M fl img t
     \<and> (available \<longrightarrow> (\<exists>names. ResourcesListed ''gateway.networking.k8s.io/v1'' (Inr names) \<in> set t \<and> ''httproutes'' \<in> set names)))"

definition start_ok :: "'e mgrapi \<Rightarrow> flags \<Rightarrow> int \<Rightarrow> mgrevent list \<Rightarrow> bool" where
  "start_ok M fl code t \<longleftrightarrow> ((\<exists>r. ManagerRan r \<in> set t) \<longrightarrow> all_set_up M fl t)
     \<and> (code = 0 \<longleftrightarrow> ManagerRan None \<in> set t) \<and> (code \<noteq> 0 \<longrightarrow> code = 1 \<and> Exited 1 \<in> set t)"

lemma all_set_up_pre: "all_set_up M fl u \<Longrightarrow> all_set_up M fl (t @ u)"
  unfolding all_set_up_def own_image_def by (elim exE conjE) (intro exI conjI, auto)

lemma start_ok_pre: "\<lbrakk>start_ok M fl c u; list_all quiet t\<rbrakk> \<Longrightarrow> start_ok M fl c (t @ u)"
  by (auto simp: start_ok_def list_all_iff quiet_def intro: all_set_up_pre)

lemma start_ok_bind: "\<lbrakk>only quiet m; \<And>x. emits (f x) (start_ok M fl)\<rbrakk> \<Longrightarrow> emits (State_Monad.bind m f) (start_ok M fl)"
  unfolding only_def by (erule emits_bind) (auto intro: emits_conseq start_ok_pre)

lemma start_ok_or_exit: "\<lbrakk>only quiet m; emits k (start_ok M fl)\<rbrakk> \<Longrightarrow> emits (or_exit m k) (start_ok M fl)"
  unfolding or_exit_def os_Exit_def
  by (rule start_ok_bind, assumption, rule emits_case_option, assumption,
      rule emits_bind [OF emits_emit [where Q = "\<lambda>_ t. t = [Exited 1]"]], rule refl, rule emits_return) (simp add: start_ok_def)

lemma start_ok_certificate:
  "(\<And>opts h. emits (k opts h) (start_ok M fl)) \<Longrightarrow> emits (with_certificate M' grow path name key opts h k) (start_ok M fl)"
  unfolding with_certificate_def
  by (auto intro!: emits_if start_ok_or_exit only_call split: prod.split)

text \<open>The detection reports the resource only when the API server listed it.\<close>

definition detected :: "bool \<times> goerr option \<Rightarrow> mgrevent list \<Rightarrow> bool" where
  "detected g t \<longleftrightarrow> (fst g \<longrightarrow> snd g = None \<and>
     (\<exists>names. ResourcesListed ''gateway.networking.k8s.io/v1'' (Inr names) \<in> set t \<and> ''httproutes'' \<in> set names))"

lemma GatewayAPIAvailable_detected:
  "emits (GatewayAPIAvailable M) (\<lambda>g t. detected g t \<and> list_all quiet t)"
  unfolding GatewayAPIAvailable_def gatewayAPIAvailable_def
  by (rule emits_bind [OF emits_call [where Q = "\<lambda>r t. t = [DiscoveryClientMade r]"]], rule refl, rule emits_case_option,
      rule emits_bind [OF emits_call [where Q = "\<lambda>r t. t = [ResourcesListed gatewayAPIGroupVersion r]"]], rule refl,
      rule emits_return, auto simp: detected_def gatewayAPIGroupVersion_def gatewayAPIHTTPRouteResource_def list_ex_iff split: sum.splits if_splits intro: emits_return)

lemma find_named: "find (\<lambda>c. fst c = n) cs = Some c \<Longrightarrow> (n, snd c) \<in> set cs"
  by (induction cs) (auto split: if_splits)

lemma resolveOwnImage_own:
  "emits (resolveOwnImage M) (\<lambda>img t. list_all quiet t \<and> (img = []
     \<or> (\<exists>cs. PodRead \<lparr>nn_Namespace = ma_Getenv M ''POD_NAMESPACE'', nn_Name = ma_Getenv M ''POD_NAME''\<rparr> (Inr cs) \<in> set t
         \<and> (''manager'', img) \<in> set cs)))"
  unfolding resolveOwnImage_def Let_def
  by (rule emits_if, rule emits_return, simp, rule emits_bind [OF emits_call [where
        Q = "\<lambda>r t. t = [PodRead \<lparr>nn_Namespace = ma_Getenv M ''POD_NAMESPACE'', nn_Name = ma_Getenv M ''POD_NAME''\<rparr> r]"]], rule refl,
      rule emits_return) (auto simp: find_named split: sum.splits option.splits)

lemma runManager_start_ok: "emits (runManager M grow L list fl) (start_ok M fl)"
proof -
  let ?rest = "\<lambda>g. do {
     operatorImage \<leftarrow> (if fl_operatorImage fl = [] then resolveOwnImage M else State_Monad.return (fl_operatorImage fl));
     setup_controllers M L list fl (case g of (b, Some e) \<Rightarrow> False | (b, None) \<Rightarrow> b) operatorImage
       (setup_webhooks M webhooks (start_manager M fl)) }"
  have ctl: "emits (setup_controllers M L list fl b img (setup_webhooks M webhooks (start_manager M fl)))
      (ready (required_controllers M fl b img \<union> required_start fl))" for b img
    by (rule ready_mono [OF ready_controllers [OF ready_webhooks [OF ready_start_manager]]]) (auto simp: required_start_def webhooks_def)
  have resolve: "emits (if fl_operatorImage fl = [] then resolveOwnImage M else State_Monad.return (fl_operatorImage fl))
      (\<lambda>img t. list_all quiet t \<and> own_image M fl img t)"
    unfolding own_image_def by (auto intro!: emits_return resolveOwnImage_own)
  have rest: "emits (?rest g) (\<lambda>c u. start_ok M fl c (t @ u))" if g: "detected g t \<and> list_all quiet t" for g t
  proof (rule emits_bind [OF resolve], rule emits_conseq [OF ctl])
    fix img v c u assume img: "list_all quiet v \<and> own_image M fl img v"
      and u: "ready (required_controllers M fl (case g of (b, Some e) \<Rightarrow> False | (b, None) \<Rightarrow> b) img \<union> required_start fl) c u"
    have "all_set_up M fl (t @ v @ u)" if "ManagerRan r \<in> set u" for r
      unfolding all_set_up_def using u img g that
      by (intro exI [of _ "case g of (b, Some e) \<Rightarrow> False | (b, None) \<Rightarrow> b"] exI [of _ img])
         (auto simp: ready_def detected_def own_image_def split: prod.splits option.splits if_splits)
    then show "start_ok M fl c (t @ v @ u)"
      using u img g by (auto simp: start_ok_def ready_def list_all_iff quiet_def)
  qed
  show ?thesis
    unfolding runManager_def Let_def
    by (cases "if \<not> fl_enableHTTP2 fl then go_append grow nil_slice DisableHTTP2 [] else (nil_slice, [])", simp only: prod.case)
       (intro start_ok_certificate start_ok_or_exit only_call quiet_simps start_ok_bind [OF only_emit]
          emits_bind [OF GatewayAPIAvailable_detected rest])
qed

end
