(* ===== verification/StateLogic.thy ===== *)
theory StateLogic
  imports Client
begin

text \<open>Pre- and postconditions over the environment. The trace logic of \<open>Effects\<close> says what a program does; \<open>holds P m Q\<close>
  says what it leaves behind: started in an environment with \<open>P\<close>, it ends in one where \<open>Q\<close> holds of its result.
  \<open>keeps_state I m\<close> is the special case of an invariant, with one introduction rule per program construct.\<close>

named_theorems state_intro "introduction rules of keeps_state"

definition holds :: "('e \<Rightarrow> bool) \<Rightarrow> ('e, 'ev, 'a) prog \<Rightarrow> ('a \<Rightarrow> 'e \<Rightarrow> bool) \<Rightarrow> bool" where
  "holds P m Q \<longleftrightarrow> (\<forall>w. P (env w) \<longrightarrow> Q (result m w) (env (final m w)))"

abbreviation keeps_state :: "('e \<Rightarrow> bool) \<Rightarrow> ('e, 'ev, 'a) prog \<Rightarrow> bool" where
  "keeps_state I m \<equiv> holds I m (\<lambda>_. I)"

lemma holdsD: "\<lbrakk>holds P m Q; P (env w)\<rbrakk> \<Longrightarrow> Q (result m w) (env (final m w))"
  by (simp add: holds_def)

lemma holds_return: "(\<And>e. P e \<Longrightarrow> Q x e) \<Longrightarrow> holds P (State_Monad.return x) Q"
  by (simp add: holds_def result_def final_def State_Monad.return_def)

lemma holds_call: "(\<And>e. P e \<Longrightarrow> Q (fst (f e)) (snd (f e))) \<Longrightarrow> holds P (call f ev) Q"
  by (simp add: holds_def run_defs split_beta)

lemma holds_ask: "(\<And>e. P e \<Longrightarrow> Q (fst (f e)) (snd (f e))) \<Longrightarrow> holds P (ask f) Q"
  by (simp add: holds_def run_defs split_beta)

lemma holds_emit: "(\<And>e. P e \<Longrightarrow> Q () e) \<Longrightarrow> holds P (emit ev) Q"
  by (simp add: holds_def run_defs)

lemma holds_bind: "\<lbrakk>holds P m R; \<And>x. holds (R x) (f x) Q\<rbrakk> \<Longrightarrow> holds P (State_Monad.bind m f) Q"
  by (simp add: holds_def result_def final_def State_Monad.bind_def split_beta)

lemma holds_conseq: "\<lbrakk>holds P m Q; \<And>e. P' e \<Longrightarrow> P e; \<And>x e. Q x e \<Longrightarrow> Q' x e\<rbrakk> \<Longrightarrow> holds P' m Q'"
  by (simp add: holds_def)

lemma holds_post: "\<lbrakk>holds P m Q; \<And>x e. Q x e \<Longrightarrow> Q' x e\<rbrakk> \<Longrightarrow> holds P m Q'"
  by (erule holds_conseq) auto

lemma holds_pre: "\<lbrakk>holds P m Q; \<And>e. P' e \<Longrightarrow> P e\<rbrakk> \<Longrightarrow> holds P' m Q"
  by (erule holds_conseq) auto

lemma holds_assume: "(C \<Longrightarrow> holds P m Q) \<Longrightarrow> holds (\<lambda>e. C \<and> P e) m Q"
  by (simp add: holds_def)

lemma holds_false: "(\<And>e. \<not> P e) \<Longrightarrow> holds P m Q"
  by (simp add: holds_def)

lemma holds_yields: "\<lbrakk>holds P m Q; yields m S\<rbrakk> \<Longrightarrow> holds P m (\<lambda>x e. Q x e \<and> S x)"
  by (simp add: holds_def yields_def)

lemma holds_case_sum:
  "\<lbrakk>\<And>e. x = Inl e \<Longrightarrow> holds P (f e) Q; \<And>y. x = Inr y \<Longrightarrow> holds P (g y) Q\<rbrakk> \<Longrightarrow> holds P (case x of Inl e \<Rightarrow> f e | Inr y \<Rightarrow> g y) Q"
  by (cases x) auto

lemma holds_case_option:
  "\<lbrakk>x = None \<Longrightarrow> holds P f Q; \<And>y. x = Some y \<Longrightarrow> holds P (g y) Q\<rbrakk> \<Longrightarrow> holds P (case x of None \<Rightarrow> f | Some y \<Rightarrow> g y) Q"
  by (cases x) auto

lemma holds_case_prod: "(\<And>a b. x = (a, b) \<Longrightarrow> holds P (f a b) Q) \<Longrightarrow> holds P (case x of (a, b) \<Rightarrow> f a b) Q"
  by (cases x) auto

lemma holds_if: "\<lbrakk>c \<Longrightarrow> holds P f Q; \<not> c \<Longrightarrow> holds P g Q\<rbrakk> \<Longrightarrow> holds P (if c then f else g) Q"
  by simp

lemma state_rules [state_intro]:
  "keeps_state I (State_Monad.return x)"
  "\<lbrakk>keeps_state I m; \<And>x. keeps_state I (f x)\<rbrakk> \<Longrightarrow> keeps_state I (State_Monad.bind m f)"
  "keeps_state I (emit ev)"
  by (auto intro: holds_return holds_bind holds_emit)

lemmas state_cases [state_intro] = holds_case_sum holds_case_option holds_case_prod holds_if

lemma state_call [state_intro]: "(\<And>e. I e \<Longrightarrow> I (snd (f e))) \<Longrightarrow> keeps_state I (call f ev)"
  by (rule holds_call)

lemma state_ask [state_intro]: "(\<And>e. I e \<Longrightarrow> I (snd (f e))) \<Longrightarrow> keeps_state I (ask f)"
  by (rule holds_ask)

lemma state_record_event [state_intro]: "keeps_state I (record_event b ty r m)"
  unfolding record_event_def by (intro state_intro)

lemma state_RetryOnConflict [state_intro]: "keeps_state I fn \<Longrightarrow> keeps_state I (RetryOnConflict n fn)"
  by (induction n) (auto intro!: state_intro)

end
