(* ===== verification/BacktestHistory.thy ===== *)
theory BacktestHistory
  imports BacktestReconcile StateLogic
begin

text \<open>The life of one Backtest over many reconciles. The cluster moves between and during them: the Job progresses, other
  objects change, the cache lags behind, and a finished Job is removed by its TTL some time after its outcome was
  recorded. A Job may retry a failed pod once (\<open>jobBackoffLimit\<close>), and a failed pod counts as a failure of the run before
  the retry has ended, so a failure may still turn into a success. The view \<open>btview\<close> observes what matters of a cluster of
  any type; \<open>bt_cluster\<close> states how the API server and the cache behave in its terms. Whatever happens in such a cluster,
  the run is started at most once, a recorded outcome stays recorded, and only a failure may become a success.\<close>

section \<open>The cluster\<close>

text \<open>An outcome is a pair of flags, succeeded and failed; the three cases and their order.\<close>

type_synonym outcome = "(bool \<times> bool) option"

definition outcomes :: "outcome set" where "outcomes = {None, Some (False, True), Some (True, False)}"

fun rank :: "outcome \<Rightarrow> nat" where
  "rank None = 0"
| "rank (Some (succeeded, failed)) = (if succeeded then 2 else 1)"

text \<open>\<open>v\<close> may be followed by \<open>w\<close>: a run that has no outcome yet succeeds or fails, a failed one may succeed.\<close>

definition leads_to :: "outcome \<Rightarrow> outcome \<Rightarrow> bool" where
  "leads_to v w \<longleftrightarrow> v \<in> outcomes \<and> w \<in> outcomes \<and> rank v \<le> rank w"

lemma leads_iff: "leads_to v w \<longleftrightarrow> v \<in> outcomes \<and> w \<in> outcomes \<and> (v = w \<or> v = None \<or> v = Some (False, True) \<and> w = Some (True, False))"
  by (auto simp: leads_to_def outcomes_def)

lemma leads_trans: "\<lbrakk>leads_to u v; leads_to v w\<rbrakk> \<Longrightarrow> leads_to u w"
  by (auto simp: leads_to_def)

lemma leads_antisym: "\<lbrakk>leads_to v w; leads_to w v\<rbrakk> \<Longrightarrow> v = w"
  by (auto simp: leads_to_def outcomes_def)

lemma leads_None [simp]: "leads_to v None \<longleftrightarrow> v = None" "leads_to None v \<longleftrightarrow> v \<in> outcomes"
  by (auto simp: leads_to_def outcomes_def)

lemma None_outcome [simp]: "None \<in> outcomes"
  by (simp add: outcomes_def)

lemma leads_refl [simp]: "leads_to v v \<longleftrightarrow> v \<in> outcomes"
  by (simp add: leads_to_def)

lemma leads_outcomes: "leads_to v w \<Longrightarrow> v \<in> outcomes" "leads_to v w \<Longrightarrow> w \<in> outcomes"
  by (simp_all add: leads_to_def)

text \<open>Of the Backtest: how many Jobs were ever created for it, whether one exists, how far it has come, the outcome in the
  stored status and in the cached copy, and the version of the stored object, with the order of resource versions.\<close>

record btstate =
  bs_runs :: nat
  bs_live :: bool
  bs_ended :: outcome
  bs_stored :: outcome
  bs_shown :: outcome
  bs_version :: nat

record 'e btview =
  vw_state :: "'e \<Rightarrow> btstate"
  vw_number :: "string \<Rightarrow> nat"

definition workload_verdict :: "btworkload \<Rightarrow> outcome" where
  "workload_verdict w = (if wl_succeeded w then Some (True, False) else if wl_failed w then Some (False, True) else None)"

lemma verdict_outcome [simp]: "workload_verdict w \<in> outcomes"
  by (simp add: workload_verdict_def outcomes_def)

abbreviation job_verdict :: "job \<Rightarrow> outcome" where
  "job_verdict j \<equiv> workload_verdict (job_outcome j)"

text \<open>What may happen during any call: the Job fails or succeeds, also after a failure, the cache catches up, others write the
  Backtest. A Job is not removed while a reconcile is under way.\<close>

definition drift :: "btstate \<Rightarrow> btstate \<Rightarrow> bool" where
  "drift x y \<longleftrightarrow> bs_runs y = bs_runs x \<and> bs_live y = bs_live x
     \<and> (bs_ended y = bs_ended x \<or> leads_to (bs_ended x) (bs_ended y) \<and> bs_live x)
     \<and> bs_stored y = bs_stored x \<and> (bs_shown y = bs_shown x \<or> bs_shown y = bs_stored x) \<and> bs_version x \<le> bs_version y"

definition quiet_call :: "'e btview \<Rightarrow> ('e \<Rightarrow> 'a \<times> 'e) \<Rightarrow> bool" where
  "quiet_call V f \<longleftrightarrow> (\<forall>e. drift (vw_state V e) (vw_state V (snd (f e))))"

text \<open>A status write takes effect only on the current version of the object; applying a Job creates one when there is
  none.\<close>

definition wrote_status :: "nat \<Rightarrow> outcome \<Rightarrow> btstate \<Rightarrow> btstate \<Rightarrow> bool" where
  "wrote_status n v x y \<longleftrightarrow> n = bs_version x \<and> bs_runs y = bs_runs x \<and> bs_live y = bs_live x \<and> bs_ended y = bs_ended x
     \<and> bs_stored y = v \<and> (bs_shown y = bs_shown x \<or> bs_shown y = v) \<and> bs_version x < bs_version y"

definition created_job :: "btstate \<Rightarrow> btstate \<Rightarrow> bool" where
  "created_job x y \<longleftrightarrow> \<not> bs_live x \<and> bs_runs y = Suc (bs_runs x) \<and> bs_live y \<and> bs_ended y = None
     \<and> bs_stored y = bs_stored x \<and> (bs_shown y = bs_shown x \<or> bs_shown y = bs_stored x) \<and> bs_version x \<le> bs_version y"

definition version_of :: "'e btview \<Rightarrow> backtest \<Rightarrow> nat" where
  "version_of V b = vw_number V (om_ResourceVersion (bk_meta b))"

text \<open>A read of the Backtest may return an old copy; a copy of the current version is current.\<close>

definition copy_of :: "klib \<Rightarrow> 'e btview \<Rightarrow> backtest \<Rightarrow> btstate \<Rightarrow> bool" where
  "copy_of K V b x \<longleftrightarrow> version_of V b \<le> bs_version x \<and> (version_of V b = bs_version x \<longrightarrow> verdict K b = bs_stored x)"

definition reads_backtest :: "klib \<Rightarrow> nname \<Rightarrow> 'e btview \<Rightarrow> goerr + backtest \<Rightarrow> btstate \<Rightarrow> bool" where
  "reads_backtest K key V r x \<longleftrightarrow> (\<forall>b. r = Inr b \<longrightarrow> key_of_meta (bk_meta b) = key \<and> verdict K b = bs_shown x \<and> copy_of K V b x)"

text \<open>The Job is read from the cache, which only fails when it does not hold the object. It may lag behind: a new Job may
  be missing and a finished one may look unfinished, but not behind the outcome that has been recorded from it.\<close>

definition reads_job :: "goerr + job \<Rightarrow> btstate \<Rightarrow> bool" where
  "reads_job r x \<longleftrightarrow> (case r of
       Inl err \<Rightarrow> IsNotFound err \<and> (bs_live x \<longrightarrow> bs_stored x = None)
     | Inr j \<Rightarrow> leads_to (bs_stored x) (job_verdict j) \<and> leads_to (job_verdict j) (bs_ended x))"

text \<open>The observations fit together.\<close>

definition bt_inv :: "btstate \<Rightarrow> bool" where
  "bt_inv x \<longleftrightarrow> bs_runs x \<le> 1 \<and> (bs_live x \<longrightarrow> bs_runs x = 1)
     \<and> (bs_runs x = 1 \<and> \<not> bs_live x \<longrightarrow> bs_shown x \<noteq> None \<and> bs_shown x = bs_stored x \<and> bs_stored x = bs_ended x)
     \<and> leads_to (bs_shown x) (bs_stored x) \<and> leads_to (bs_stored x) (bs_ended x) \<and> (bs_runs x = 0 \<longrightarrow> bs_ended x = None)"

definition bt_cluster :: "'e api \<Rightarrow> klib \<Rightarrow> nname \<Rightarrow> 'e btview \<Rightarrow> bool" where
  "bt_cluster A K key V \<longleftrightarrow>
     quiet_call V (api_GetBacktest A key) \<and> (\<forall>e. reads_backtest K key V (fst (api_GetBacktest A key e)) (vw_state V (snd (api_GetBacktest A key e))))
   \<and> quiet_call V (api_GetJob A key) \<and> (\<forall>e. bt_inv (vw_state V e) \<longrightarrow> reads_job (fst (api_GetJob A key e)) (vw_state V (snd (api_GetJob A key e))))
   \<and> (\<forall>b e. drift (vw_state V e) (vw_state V (snd (api_StatusUpdateBacktest A b e)))
         \<or> wrote_status (version_of V b) (verdict K b) (vw_state V e) (vw_state V (snd (api_StatusUpdateBacktest A b e))))
   \<and> (\<forall>j e. drift (vw_state V e) (vw_state V (snd (api_Patch A (MJob j) e))) \<or> created_job (vw_state V e) (vw_state V (snd (api_Patch A (MJob j) e))))
   \<and> (\<forall>m. (\<forall>j. m \<noteq> MJob j) \<longrightarrow> quiet_call V (api_Patch A m))
   \<and> (\<forall>k. quiet_call V (api_GetStrategy A k)) \<and> (\<forall>k. quiet_call V (api_GetTradeBotConfig A k))
   \<and> (\<forall>k. quiet_call V (api_GetSecret A k)) \<and> (\<forall>k. quiet_call V (api_GetConfigMap A k))
   \<and> (\<forall>c. quiet_call V (api_UpdateConfigMap A c)) \<and> (\<forall>b. quiet_call V (api_UpdateBacktest A b))
   \<and> (\<forall>k. quiet_call V (api_GetPVC A k)) \<and> (\<forall>p. quiet_call V (api_UpdatePVC A p))
   \<and> quiet_call V (api_Now A) \<and> (\<forall>n. quiet_call V (api_RandRead A n))"

text \<open>Between reconciles a finished Job may also go, once the cache shows its final outcome as recorded.\<close>

definition between :: "btstate \<Rightarrow> btstate \<Rightarrow> bool" where
  "between x y \<longleftrightarrow> drift x y
     \<or> bs_shown x \<noteq> None \<and> bs_shown x = bs_stored x \<and> bs_stored x = bs_ended x \<and> drift (x\<lparr>bs_live := False\<rparr>) y"

inductive bt_step :: "'e api \<Rightarrow> klib \<Rightarrow> golib \<Rightarrow> btreconciler \<Rightarrow> nname \<Rightarrow> 'e btview \<Rightarrow> 'e \<Rightarrow> 'e \<Rightarrow> bool"
  for A K G R key V where
  Reconciled: "bt_step A K G R key V e (env (final (Backtest_Reconcile A K G R key) \<lparr>env = e, trace = t\<rparr>))"
| Moved: "between (vw_state V e) (vw_state V e') \<Longrightarrow> bt_step A K G R key V e e'"

section \<open>Invariant\<close>

text \<open>With the outcome that was stored before, if there was one, and whether the Job was gone by then.\<close>

definition bt_safe :: "outcome \<times> bool \<Rightarrow> btstate \<Rightarrow> bool" where
  "bt_safe s x \<longleftrightarrow> bt_inv x \<and> leads_to (fst s) (bs_stored x) \<and> (snd s \<longrightarrow> \<not> bs_live x \<and> bs_runs x = 1 \<and> bs_ended x = fst s)"

text \<open>What a reconcile knows from the copy it read: without an outcome the Job exists or was never created; with one, the
  stored one is the same or later, and the same once the Job is gone.\<close>

definition snapshot :: "outcome \<Rightarrow> btstate \<Rightarrow> bool" where
  "snapshot v x \<longleftrightarrow> (case v of None \<Rightarrow> bs_live x \<or> bs_runs x = 0 | Some _ \<Rightarrow> leads_to v (bs_stored x) \<and> (\<not> bs_live x \<longrightarrow> bs_stored x = v))"

definition run_ok :: "outcome \<Rightarrow> btstate \<Rightarrow> bool" where
  "run_ok v x \<longleftrightarrow> leads_to (bs_stored x) v \<and> leads_to v (bs_ended x)"

lemma drift_leads: "\<lbrakk>drift x y; leads_to v (bs_ended x)\<rbrakk> \<Longrightarrow> leads_to v (bs_ended y)"
  by (auto simp: drift_def intro: leads_trans)

lemma inv_gone: "\<lbrakk>bt_inv x; \<not> bs_live x\<rbrakk> \<Longrightarrow> bs_shown x = bs_stored x \<and> bs_stored x = bs_ended x"
  by (cases "bs_runs x = 0") (auto simp: bt_inv_def)

lemma drift_inv:
  assumes d: "drift x y" and x: "bt_inv x"
  shows "bt_inv y"
proof -
  have "leads_to (bs_stored x) (bs_ended y)" using drift_leads [OF d] x by (simp add: bt_inv_def)
  moreover have "leads_to (bs_shown y) (bs_stored x)" using d x leads_outcomes(2) by (auto simp: drift_def bt_inv_def)
  moreover have "bs_ended y = bs_ended x" if "\<not> bs_live x" using d that by (simp add: drift_def)
  moreover have "bs_ended y = bs_ended x" if "bs_runs x = 0" using d x that by (auto simp: drift_def bt_inv_def)
  moreover have "bs_shown y = bs_stored x" if "\<not> bs_live x" using d inv_gone [OF x that] by (auto simp: drift_def)
  ultimately show ?thesis using d x inv_gone [OF x] unfolding bt_inv_def drift_def by metis
qed

lemma drift_safe: "\<lbrakk>drift x y; bt_safe s x\<rbrakk> \<Longrightarrow> bt_safe s y"
  using drift_inv by (auto simp: bt_safe_def drift_def)

lemma drift_snapshot: "\<lbrakk>drift x y; snapshot v x\<rbrakk> \<Longrightarrow> snapshot v y"
  by (auto simp: drift_def snapshot_def split: option.splits)

lemma drift_run: "\<lbrakk>drift x y; run_ok v x; bt_inv x\<rbrakk> \<Longrightarrow> run_ok v y"
  using drift_leads [of x y v] by (auto simp: run_ok_def drift_def)

lemma read_snapshot: "\<lbrakk>reads_backtest K key V (Inr b) x; bt_inv x\<rbrakk> \<Longrightarrow> snapshot (verdict K b) x"
proof -
  assume "reads_backtest K key V (Inr b) x" and x: "bt_inv x"
  then have v: "verdict K b = bs_shown x" by (simp add: reads_backtest_def)
  from x have "leads_to (bs_shown x) (bs_stored x)" "bs_shown x = None \<Longrightarrow> bs_live x \<or> bs_runs x = 0" by (auto simp: bt_inv_def)
  with inv_gone [OF x] show ?thesis unfolding v snapshot_def by (auto split: option.splits)
qed

lemma unrun_stored: "\<lbrakk>bt_inv x; snapshot None x; bs_live x \<longrightarrow> bs_stored x = None\<rbrakk> \<Longrightarrow> bs_stored x = None"
  by (auto simp: bt_inv_def snapshot_def)

lemma created_safe: "\<lbrakk>created_job x y; bt_safe s x; snapshot None x\<rbrakk> \<Longrightarrow> bt_safe s y \<and> snapshot None y"
  by (auto simp: created_job_def bt_safe_def bt_inv_def snapshot_def)

lemma run_gone: "\<lbrakk>run_ok v x; bt_inv x; \<not> bs_live x\<rbrakk> \<Longrightarrow> v = bs_stored x"
  using inv_gone [of x] by (auto simp: run_ok_def dest: leads_antisym)

lemma wrote_safe:
  assumes w: "wrote_status n v x y" and v: "run_ok v x" and x: "bt_safe s x"
  shows "bt_safe s y"
proof -
  have inv: "bt_inv x" using x by (simp add: bt_safe_def)
  have sv: "leads_to (bs_stored x) v" and ve: "leads_to v (bs_ended x)" using v by (simp_all add: run_ok_def)
  have y: "bs_runs y = bs_runs x" "bs_live y = bs_live x" "bs_ended y = bs_ended x" "bs_stored y = v"
    "bs_shown y = bs_shown x \<or> bs_shown y = v" using w by (simp_all add: wrote_status_def)
  have "leads_to (bs_shown x) (bs_stored x)" using inv by (simp add: bt_inv_def)
  with y(5) have shown: "leads_to (bs_shown y) v" using leads_trans [OF _ sv] leads_outcomes(2) [OF sv] by auto
  have gone: "bs_shown y = v" "v = bs_ended x" if "\<not> bs_live x"
    using run_gone [OF v inv that] inv_gone [OF inv that] y(5) by auto
  have "v \<noteq> None" if "bs_runs x = 1" "\<not> bs_live x" using inv run_gone [OF v inv that(2)] that by (auto simp: bt_inv_def)
  with inv y shown gone ve have "bt_inv y" by (simp add: bt_inv_def)
  moreover have "leads_to (fst s) v" using x leads_trans [OF _ sv] by (simp add: bt_safe_def)
  ultimately show ?thesis using x y by (simp add: bt_safe_def)
qed

lemma wrote_snapshot:
  assumes w: "wrote_status n v x y" and v: "run_ok v x" and x: "bt_safe s x" and u: "snapshot u x"
  shows "snapshot u y"
proof (cases u)
  case (Some a)
  then have "leads_to u v" using v u leads_trans by (auto simp: run_ok_def snapshot_def)
  moreover have "v = bs_stored x" if "\<not> bs_live x" using run_gone [OF v _ that] x by (simp add: bt_safe_def)
  ultimately show ?thesis using Some w u by (auto simp: wrote_status_def snapshot_def)
qed (use w u in \<open>auto simp: wrote_status_def snapshot_def\<close>)

lemma wrote_run: "\<lbrakk>wrote_status n v x y; run_ok v x\<rbrakk> \<Longrightarrow> run_ok v y"
  using leads_outcomes(1) [of v] by (auto simp: wrote_status_def run_ok_def)

lemmas wrote_kept = wrote_safe wrote_snapshot wrote_run

lemma between_safe: "\<lbrakk>between x y; bt_safe s x\<rbrakk> \<Longrightarrow> bt_safe s y"
  unfolding between_def
proof (elim disjE conjE)
  assume d: "drift (x\<lparr>bs_live := False\<rparr>) y" and x: "bs_shown x \<noteq> None" "bs_shown x = bs_stored x" "bs_stored x = bs_ended x" "bt_safe s x"
  then have "bt_safe s (x\<lparr>bs_live := False\<rparr>)" by (auto simp: bt_safe_def bt_inv_def)
  with d show ?thesis by (rule drift_safe)
qed (rule drift_safe)

section \<open>One reconcile\<close>

text \<open>A property of the observed state that no drift destroys.\<close>

definition stable :: "(btstate \<Rightarrow> bool) \<Rightarrow> bool" where
  "stable P \<longleftrightarrow> (\<forall>x y. drift x y \<and> P x \<longrightarrow> P y)"

abbreviation on_state :: "'e btview \<Rightarrow> (btstate \<Rightarrow> bool) \<Rightarrow> 'e \<Rightarrow> bool" where
  "on_state V P \<equiv> \<lambda>e. P (vw_state V e)"

lemma bt_safe_inv: "bt_safe s x \<Longrightarrow> bt_inv x"
  by (simp add: bt_safe_def)

lemma drift_stored: "drift x y \<Longrightarrow> bs_stored y = bs_stored x"
  by (simp add: drift_def)

lemma stable_parts:
  "stable (\<lambda>x. bt_safe s x \<and> snapshot v x)"
  "stable (\<lambda>x. bt_safe s x \<and> snapshot v x \<and> run_ok u x)"
  "stable (\<lambda>x. bt_safe s x \<and> snapshot v x \<and> bs_stored x = None)"
  unfolding stable_def
  by (metis drift_safe drift_snapshot, metis drift_safe drift_snapshot drift_run bt_safe_inv,
      metis drift_safe drift_snapshot drift_stored)

lemma drift_copy: "\<lbrakk>drift x y; copy_of K V b x\<rbrakk> \<Longrightarrow> copy_of K V b y"
  by (auto simp: drift_def copy_of_def)

lemma bt_clusterD:
  assumes "bt_cluster A K key V"
  shows "quiet_call V (api_GetBacktest A key)" "reads_backtest K key V (fst (api_GetBacktest A key e)) (vw_state V (snd (api_GetBacktest A key e)))"
    "quiet_call V (api_GetJob A key)" "bt_inv (vw_state V e) \<Longrightarrow> reads_job (fst (api_GetJob A key e)) (vw_state V (snd (api_GetJob A key e)))"
    "drift (vw_state V e) (vw_state V (snd (api_StatusUpdateBacktest A b e)))
       \<or> wrote_status (version_of V b) (verdict K b) (vw_state V e) (vw_state V (snd (api_StatusUpdateBacktest A b e)))"
    "drift (vw_state V e) (vw_state V (snd (api_Patch A m e))) \<or> created_job (vw_state V e) (vw_state V (snd (api_Patch A m e)))"
    "quiet_call V (api_GetStrategy A k)" "quiet_call V (api_GetTradeBotConfig A k)" "quiet_call V (api_GetSecret A k)"
    "quiet_call V (api_GetConfigMap A k)" "quiet_call V (api_UpdateConfigMap A c)" "quiet_call V (api_UpdateBacktest A b)"
    "quiet_call V (api_GetPVC A k)" "quiet_call V (api_UpdatePVC A p)" "quiet_call V (api_Now A)" "quiet_call V (api_RandRead A n)"
proof -
  show "drift (vw_state V e) (vw_state V (snd (api_Patch A m e))) \<or> created_job (vw_state V e) (vw_state V (snd (api_Patch A m e)))"
    using assms by (cases "\<exists>j. m = MJob j") (auto simp: bt_cluster_def quiet_call_def)
qed (use assms in \<open>simp_all add: bt_cluster_def\<close>)

lemma quiet_snd: "\<lbrakk>quiet_call V f; stable P; P (vw_state V e)\<rbrakk> \<Longrightarrow> P (vw_state V (snd (f e)))"
  by (auto simp: quiet_call_def stable_def)

lemma quiet_state:
  assumes "quiet_call V f" "stable P"
  shows "keeps_state (on_state V P) (call f ev)" and "keeps_state (on_state V P) (ask f)"
  by (auto intro!: state_call state_ask quiet_snd [OF assms])

text \<open>A status patch keeps whatever survives its own write on a current copy.\<close>

lemma bt_PatchStatus_state:
  assumes C: "bt_cluster A K key V" and P: "stable P"
    and meta: "\<And>now b. bk_meta (fst (mutate now b)) = bk_meta b"
    and ok: "\<And>now b x y. \<lbrakk>P x; verdict K b = bs_stored x; wrote_status (bs_version x) (verdict K (fst (mutate now b))) x y\<rbrakk> \<Longrightarrow> P y"
  shows "keeps_state (on_state V P) (PatchStatus A (backtest_cobj A K) key mutate)"
proof -
  have get: "holds (on_state V P) (do_GetBacktest A key) (\<lambda>r e. P (vw_state V e) \<and> (\<forall>b. r = Inr b \<longrightarrow> copy_of K V b (vw_state V e)))"
    unfolding do_GetBacktest_def
    by (rule holds_call) (use quiet_snd [OF bt_clusterD(1) [OF C] P] bt_clusterD(2) [OF C] in \<open>auto simp: reads_backtest_def\<close>)
  have copied: "stable (\<lambda>x. P x \<and> copy_of K V b x)" for b
    using P drift_copy unfolding stable_def by blast
  have upd: "holds (\<lambda>e. P (vw_state V e) \<and> copy_of K V b (vw_state V e))
      (do_StatusUpdateBacktest A (backtest_SetObservedGeneration g (fst (mutate now b)))) (\<lambda>_. on_state V P)" for b g now
    unfolding do_StatusUpdateBacktest_def
  proof (rule holds_call, elim conjE)
    fix e assume p: "P (vw_state V e)" and c: "copy_of K V b (vw_state V e)"
    let ?b = "backtest_SetObservedGeneration g (fst (mutate now b))"
    let ?y = "vw_state V (snd (api_StatusUpdateBacktest A ?b e))"
    have n: "version_of V ?b = version_of V b" by (simp add: version_of_def meta)
    from bt_clusterD(5) [OF C, of e ?b] show "P ?y"
    proof
      assume "drift (vw_state V e) ?y"
      with P p show ?thesis by (auto simp: stable_def)
    next
      assume w: "wrote_status (version_of V ?b) (verdict K ?b) (vw_state V e) ?y"
      then have v: "version_of V b = bs_version (vw_state V e)" by (simp add: wrote_status_def n)
      with c have "verdict K b = bs_stored (vw_state V e)" by (simp add: copy_of_def)
      from ok [OF p this, of now] w v n show ?thesis by simp
    qed
  qed
  show ?thesis
    unfolding PatchStatus_def backtest_cobj_def cobj.simps Let_def split_beta do_Now_def
    apply (rule state_RetryOnConflict, rule holds_bind [OF get], rule holds_case_sum)
     apply (rule holds_return, simp)
    subgoal for r b
      by (rule holds_pre [where P = "\<lambda>e. P (vw_state V e) \<and> copy_of K V b (vw_state V e)"],
          rule holds_bind [OF quiet_state(2) [OF bt_clusterD(15) [OF C] copied]], rule holds_if, rule holds_return, simp,
          rule holds_bind [OF upd], rule holds_case_option; (rule holds_return)?) auto
    done
qed

lemma fail_keeps_meta [simp]: "bk_meta (fst (bt_fail_mutate K ty rs m now b)) = bk_meta b"
  by (simp add: bt_fail_mutate_def Let_def)

lemma verdict_fail_mutate:
  assumes K: "klib_laws K" and "rs \<in> {ReasonReconcileError, ReasonReferenceNotFound}"
  shows "verdict K (fst (bt_fail_mutate K ty rs m now b)) = (if ty = ConditionWorkloadReady then None else verdict K b)"
  using assms(2) by (auto simp: verdict_seen bt_fail_seen [OF K])

lemma stored_ok: "bt_safe s x \<Longrightarrow> run_ok (bs_stored x) x"
  by (auto simp: bt_safe_def bt_inv_def run_ok_def dest: leads_outcomes)

text \<open>The three status patches: a failure keeps the stored outcome, a failure of the workload is written only without one,
  and a report writes what it was given.\<close>

lemma bt_failReconcile_state:
  assumes C: "bt_cluster A K key V" and K: "klib_laws K" and b: "key_of_meta (bk_meta b) = key"
    and rs: "rs \<in> {ReasonReconcileError, ReasonReferenceNotFound}"
  shows "ty \<noteq> ConditionWorkloadReady \<Longrightarrow> keeps_state (on_state V (\<lambda>x. bt_safe s x \<and> snapshot v x)) (bt_failReconcile A K R b ty rs m e)"
    and "keeps_state (on_state V (\<lambda>x. bt_safe s x \<and> snapshot v x \<and> bs_stored x = None)) (bt_failReconcile A K R b ConditionWorkloadReady rs m e)"
proof -
  note patch = bt_PatchStatus_state [OF C]
  show "keeps_state (on_state V (\<lambda>x. bt_safe s x \<and> snapshot v x)) (bt_failReconcile A K R b ty rs m e)" if "ty \<noteq> ConditionWorkloadReady"
    unfolding bt_failReconcile_def b
    by (intro state_intro patch stable_parts)
       (use that in \<open>auto simp: verdict_fail_mutate [OF K rs] intro: wrote_kept stored_ok\<close>)
  have none: "run_ok None x" if "bt_safe s x" "bs_stored x = None" for x
    using stored_ok [OF that(1)] that(2) by simp
  show "keeps_state (on_state V (\<lambda>x. bt_safe s x \<and> snapshot v x \<and> bs_stored x = None)) (bt_failReconcile A K R b ConditionWorkloadReady rs m e)"
    unfolding bt_failReconcile_def b
    by (intro state_intro patch stable_parts)
       (auto simp: verdict_fail_mutate [OF K rs] intro: wrote_kept none simp: wrote_status_def)
qed

lemma bt_adopt_state:
  assumes C: "bt_cluster A K key V" and P: "stable P"
  shows "keeps_state (on_state V P) (adoptAndParseResults A K G b)"
  unfolding adoptAndParseResults_def ensureOwned_def do_GetConfigMap_def do_UpdateConfigMap_def
  by (intro state_intro quiet_snd [OF bt_clusterD(10) [OF C] P] quiet_snd [OF bt_clusterD(11) [OF C] P])

lemma bt_report_state:
  assumes C: "bt_cluster A K key V" and K: "klib_laws K" and b: "key_of_meta (bk_meta b) = key" and w: "coherent w"
  shows "holds (on_state V (\<lambda>x. bt_safe s x \<and> snapshot v x \<and> run_ok (workload_verdict w) x)) (bt_report A K G R b j w)
    (\<lambda>_. on_state V (bt_safe s))"
proof -
  let ?P = "\<lambda>x. bt_safe s x \<and> snapshot v x \<and> run_ok (workload_verdict w) x"
  have adopt: "holds (on_state V ?P) (if wl_succeeded w \<and> bkst_Results (bk_Status b) = None then adoptAndParseResults A K G b
        else State_Monad.return (Inr (None, None, False)))
      (\<lambda>r e. ?P (vw_state V e) \<and> (\<forall>x c y. r = Inr (x, Some c, y) \<longrightarrow> cd_Type c = ConditionResultsAvailable))"
    by (rule holds_yields, intro state_intro bt_adopt_state [OF C] stable_parts, intro yields_if adopt_result yields_return) simp
  have patch: "holds (\<lambda>e. (\<forall>c'. c = Some c' \<longrightarrow> cd_Type c' = ConditionResultsAvailable) \<and> ?P (vw_state V e))
      (PatchStatus A (backtest_cobj A K) key (bt_mutate K j w res c)) (\<lambda>_. on_state V (bt_safe s))" for res c
  proof (rule holds_assume)
    assume c: "\<forall>c'. c = Some c' \<longrightarrow> cd_Type c' = ConditionResultsAvailable"
    have v: "verdict K (fst (bt_mutate K j w res c now b')) = workload_verdict w" for now b'
      unfolding workload_verdict_def by (rule verdict_mutate [OF K _ w]) (use c in blast)
    show "holds (on_state V ?P) (PatchStatus A (backtest_cobj A K) key (bt_mutate K j w res c)) (\<lambda>_. on_state V (bt_safe s))"
      by (rule holds_post [OF bt_PatchStatus_state [OF C stable_parts(2)]])
         (auto simp: v intro: wrote_kept)
  qed
  have fail: "holds (on_state V ?P) (bt_failReconcile A K R b ConditionResultsAvailable ReasonReconcileError m e) (\<lambda>_. on_state V (bt_safe s))" for m e
    by (rule holds_conseq [OF bt_failReconcile_state(1) [OF C K b]]) auto
  show ?thesis
    unfolding bt_report_def b
    by (rule holds_bind [OF adopt], rule holds_case_sum, rule holds_pre [OF fail], simp, rule holds_case_prod, rule holds_case_prod,
        rule holds_bind [OF holds_pre [OF patch]], simp, rule holds_return)
qed

section \<open>The whole reconcile\<close>

text \<open>Applying anything is safe when the copy that was read has no outcome: an existing Job is left alone, and without one
  none was ever created.\<close>

lemma Patch_state:
  assumes C: "bt_cluster A K key V"
  shows "keeps_state (on_state V (\<lambda>x. bt_safe s x \<and> snapshot None x)) (do_Patch A m)"
  unfolding do_Patch_def
proof (rule state_call)
  fix e assume x: "bt_safe s (vw_state V e) \<and> snapshot None (vw_state V e)"
  from bt_clusterD(6) [OF C, of e m]
  show "bt_safe s (vw_state V (snd (api_Patch A m e))) \<and> snapshot None (vw_state V (snd (api_Patch A m e)))"
    using x created_safe drift_safe drift_snapshot by blast
qed

lemma create_run_state:
  assumes C: "bt_cluster A K key V"
  shows "keeps_state (on_state V (\<lambda>x. bt_safe s x \<and> snapshot None x)) (create_run A K G R b strat cfg)"
  unfolding create_run_def ensureSidecarRBAC_def then_or_def Let_def Apply_def ApplyUnowned_def applyServerSide_def
  by (intro state_intro Patch_state [OF C])

lemma BuildConfig_state:
  assumes C: "bt_cluster A K key V" and P: "stable P"
  shows "keeps_state (on_state V P) (BuildConfig A G n ns sp c)"
  unfolding BuildConfig_def GetSecretData_def notificationSecretData_def resolveAPIServerJWTSecretKey_def Let_def
    existingAPIServerJWTSecretKey_def generateAPIServerJWTSecretKey_def do_GetSecret_def do_RandRead_def
  by (intro state_intro quiet_snd [OF bt_clusterD(9) [OF C] P] quiet_snd [OF bt_clusterD(16) [OF C] P])

lemma resources_state:
  assumes C: "bt_cluster A K key V" and b: "key_of_meta (bk_meta b) = key"
  shows "keeps_state (on_state V (\<lambda>x. bt_safe s x \<and> snapshot (verdict K b) x)) (bt_reconcileResources A K G R b)"
proof -
  have key: "\<lparr>nn_Namespace = bk_Namespace b, nn_Name = bk_Name b\<rparr> = key" using b by (simp add: key_of_meta_def)
  have create: "keeps_state (on_state V (\<lambda>x. bt_safe s x \<and> snapshot (verdict K b) x)) (create_run A K G R b strat cfg)"
    if "\<not> recordedOutcome K b \<noteq> None" for strat cfg
  proof -
    have "verdict K b = None" using that by (simp only: verdict_None simp_thms)
    then show ?thesis using create_run_state [OF C, of s G R b strat cfg] by simp
  qed
  show ?thesis
    unfolding bt_reconcileResources_def fetchReferencedObjects_def key call_defs
    by (intro state_intro create BuildConfig_state [OF C] stable_parts quiet_snd [OF bt_clusterD(3) [OF C] stable_parts(1)]
        quiet_snd [OF bt_clusterD(7) [OF C] stable_parts(1)] quiet_snd [OF bt_clusterD(8) [OF C] stable_parts(1)])
qed

lemma workload_state:
  assumes C: "bt_cluster A K key V" and b: "key_of_meta (bk_meta b) = key"
  shows "holds (on_state V (\<lambda>x. bt_safe s x \<and> snapshot (verdict K b) x)) (bt_computeWorkloadStatus A K b)
    (\<lambda>r e. (bt_safe s (vw_state V e) \<and> snapshot (verdict K b) (vw_state V e))
       \<and> (case r of Inl err \<Rightarrow> bs_stored (vw_state V e) = None | Inr w \<Rightarrow> coherent w \<and> run_ok (workload_verdict w) (vw_state V e)))"
proof -
  have get: "holds (on_state V (\<lambda>x. bt_safe s x \<and> snapshot (verdict K b) x)) (do_GetJob A key)
      (\<lambda>r e. (bt_safe s (vw_state V e) \<and> snapshot (verdict K b) (vw_state V e)) \<and> reads_job r (vw_state V e))"
    unfolding do_GetJob_def
    by (rule holds_call) (use quiet_snd [OF bt_clusterD(3) [OF C] stable_parts(1)] bt_clusterD(4) [OF C] bt_safe_inv in blast)
  have rec: "run_ok (workload_verdict w) x"
    if "recordedOutcome K b = Some w" "bt_safe s x" "snapshot (verdict K b) x" "reads_job (Inl err) x" for w x err
  proof -
    from recorded_flags [OF that(1)] obtain u where v: "verdict K b = Some u" "workload_verdict w = Some u"
      by (auto simp: workload_verdict_def)
    with that(3,4) have "bs_stored x = workload_verdict w" by (cases "bs_live x") (auto simp: snapshot_def reads_job_def)
    with stored_ok [OF that(2)] show ?thesis by simp
  qed
  show ?thesis
    unfolding bt_computeWorkloadStatus_def b
    by (rule holds_bind [OF get], rule holds_case_sum; rule holds_return)
       (auto simp: job_outcome_coherent recorded_coherent verdict_None [symmetric] reads_job_def run_ok_def
         intro: unrun_stored [OF bt_safe_inv] dest: rec split: option.splits)
qed

lemma live_state:
  assumes C: "bt_cluster A K key V" and K: "klib_laws K" and b: "key_of_meta (bk_meta b) = key"
  shows "holds (on_state V (\<lambda>x. bt_safe s x \<and> snapshot (verdict K b) x)) (bt_reconcile_live A K G R b) (\<lambda>_. on_state V (bt_safe s))"
proof -
  let ?P = "on_state V (\<lambda>x. bt_safe s x \<and> snapshot (verdict K b) x)"
  have fail: "holds ?P (bt_failReconcile A K R b ConditionConfigResolved rs m e) (\<lambda>_. on_state V (bt_safe s))"
    if "rs \<in> {ReasonReconcileError, ReasonReferenceNotFound}" for rs m e
    by (rule holds_post [OF bt_failReconcile_state(1) [OF C K b that]]) simp_all
  have failed: "holds (\<lambda>e. ?P e \<and> bs_stored (vw_state V e) = None)
      (bt_failReconcile A K R b ConditionWorkloadReady ReasonReconcileError m e) (\<lambda>_. on_state V (bt_safe s))" for m e
    by (rule holds_conseq [OF bt_failReconcile_state(2) [OF C K b]]) auto
  have report: "holds (\<lambda>e. coherent w \<and> ?P e \<and> run_ok (workload_verdict w) (vw_state V e)) (bt_report A K G R b j w) (\<lambda>_. on_state V (bt_safe s))" for j w
    by (rule holds_assume, rule holds_pre [OF bt_report_state [OF C K b]]) auto
  show ?thesis
    unfolding bt_reconcile_live_def
    by (rule holds_bind [OF resources_state [OF C b]], rule holds_case_sum, rule fail, simp, rule holds_bind [OF workload_state [OF C b]],
        rule holds_case_sum, rule holds_pre [OF failed], simp, rule holds_pre [OF report], simp)
qed

lemma Backtest_Reconcile_state:
  assumes C: "bt_cluster A K key V" and K: "klib_laws K"
  shows "keeps_state (on_state V (bt_safe s)) (Backtest_Reconcile A K G R key)"
proof -
  have safe: "stable (bt_safe s)" unfolding stable_def using drift_safe by blast
  have get: "holds (on_state V (bt_safe s)) (do_GetBacktest A key)
      (\<lambda>r e. bt_safe s (vw_state V e) \<and> (\<forall>b. r = Inr b \<longrightarrow> key_of_meta (bk_meta b) = key \<and> snapshot (verdict K b) (vw_state V e)))"
    unfolding do_GetBacktest_def
  proof (rule holds_call, intro conjI allI impI)
    fix e b assume e: "bt_safe s (vw_state V e)"
    note x = quiet_snd [where P = "bt_safe s", OF bt_clusterD(1) [OF C] safe, OF e]
    then show "bt_safe s (vw_state V (snd (api_GetBacktest A key e)))" .
    assume "fst (api_GetBacktest A key e) = Inr b"
    with bt_clusterD(2) [OF C, of e] have r: "reads_backtest K key V (Inr b) (vw_state V (snd (api_GetBacktest A key e)))" by simp
    then show "key_of_meta (bk_meta b) = key" by (simp add: reads_backtest_def)
    show "snapshot (verdict K b) (vw_state V (snd (api_GetBacktest A key e)))" by (rule read_snapshot [OF r bt_safe_inv [OF x]])
  qed
  have upd: "keeps_state (on_state V (bt_safe s)) (do_UpdateBacktest A b)" for b
    unfolding do_UpdateBacktest_def by (rule quiet_state(1) [OF bt_clusterD(12) [OF C] safe])
  have del: "keeps_state (on_state V (bt_safe s)) (bt_reconcile_deletion A K G b)" for b
    unfolding bt_reconcile_deletion_def finalizeBacktest_def do_GetPVC_def do_UpdatePVC_def do_Now_def
    by (intro state_intro upd quiet_snd [OF bt_clusterD(13) [OF C] safe] quiet_snd [OF bt_clusterD(14) [OF C] safe]
        quiet_snd [OF bt_clusterD(15) [OF C] safe])
  have live: "holds (\<lambda>e. key_of_meta (bk_meta b) = key \<and> bt_safe s (vw_state V e) \<and> snapshot (verdict K b) (vw_state V e))
      (bt_reconcile_live A K G R b) (\<lambda>_. on_state V (bt_safe s))" for b
    by (rule holds_assume) (rule live_state [OF C K])
  show ?thesis
    unfolding Backtest_Reconcile_def
    by (rule holds_bind [OF get], rule holds_case_sum, rule holds_return, simp, rule holds_if, rule holds_pre [OF del], simp,
        rule holds_if, rule holds_bind [OF holds_pre [OF upd]], simp, rule holds_return, simp, rule holds_pre [OF live], simp)
qed

section \<open>Histories\<close>

lemma bt_step_safe:
  assumes "bt_cluster A K key V" "klib_laws K" and "bt_step A K G R key V e e'" "bt_safe s (vw_state V e)"
  shows "bt_safe s (vw_state V e')"
  using assms(3)
proof cases
  case (Reconciled t)
  with holdsD [OF Backtest_Reconcile_state [OF assms(1,2), of s G R], of "\<lparr>env = e, trace = t\<rparr>"] assms(4) show ?thesis by simp
next
  case Moved
  with assms(4) show ?thesis using between_safe by blast
qed

lemma bt_history_safe:
  assumes "bt_cluster A K key V" "klib_laws K" and "(bt_step A K G R key V)\<^sup>*\<^sup>* e e'" "bt_safe s (vw_state V e)"
  shows "bt_safe s (vw_state V e')"
  using assms(3,4) by (induction rule: rtranclp_induct) (auto intro: bt_step_safe [OF assms(1,2)])

definition not_started :: "btstate \<Rightarrow> bool" where
  "not_started x \<longleftrightarrow> bs_runs x = 0 \<and> \<not> bs_live x \<and> bs_ended x = None \<and> bs_stored x = None \<and> bs_shown x = None"

lemma history_runs_once:
  assumes C: "bt_cluster A K key V" and K: "klib_laws K" and start: "not_started (vw_state V e)"
    and e': "(bt_step A K G R key V)\<^sup>*\<^sup>* e e'"
  shows "bs_runs (vw_state V e') \<le> 1"
    and "(bt_step A K G R key V)\<^sup>*\<^sup>* e' e'' \<Longrightarrow> leads_to (bs_stored (vw_state V e')) (bs_stored (vw_state V e''))"
    and "\<lbrakk>(bt_step A K G R key V)\<^sup>*\<^sup>* e' e''; \<not> bs_live (vw_state V e'); bs_runs (vw_state V e') = 1\<rbrakk>
      \<Longrightarrow> bs_runs (vw_state V e'') = 1 \<and> bs_stored (vw_state V e'') = bs_stored (vw_state V e')"
proof -
  let ?s = "bs_stored (vw_state V e')"
  have "bt_safe (None, False) (vw_state V e)" using start by (simp add: bt_safe_def bt_inv_def not_started_def)
  from bt_history_safe [OF C K e' this] have inv: "bt_inv (vw_state V e')" by (rule bt_safe_inv)
  then show "bs_runs (vw_state V e') \<le> 1" by (simp add: bt_inv_def)
  from inv have s: "?s \<in> outcomes" using leads_outcomes(1) by (auto simp: bt_inv_def)
  show "leads_to ?s (bs_stored (vw_state V e''))" if "(bt_step A K G R key V)\<^sup>*\<^sup>* e' e''"
    using bt_history_safe [OF C K that, of "(?s, False)"] inv s by (simp add: bt_safe_def)
  assume gone: "(bt_step A K G R key V)\<^sup>*\<^sup>* e' e''" "\<not> bs_live (vw_state V e')" "bs_runs (vw_state V e') = 1"
  have "bt_safe (?s, True) (vw_state V e')" using inv inv_gone [OF inv gone(2)] gone s by (simp add: bt_safe_def)
  from bt_history_safe [OF C K gone(1) this] inv_gone [of "vw_state V e''"]
  show "bs_runs (vw_state V e'') = 1 \<and> bs_stored (vw_state V e'') = ?s" by (auto simp: bt_safe_def)
qed

end
