(* ===== verification/ScenarioLoop.thy ===== *)
theory ScenarioLoop
  imports ScenarioRuns ControlLoop PollerLife MetricsCollector ManagerStart BacktestHistory
begin

text \<open>Concrete inputs for the properties of the control loop, the poller's life, the scrape and the manager: an instance of
  controller-runtime's predicates and handlers that satisfies its laws, the index of a cache with one bot, a manager
  whose every step succeeds, and a cluster that stores one Backtest and its Job.\<close>

section \<open>Watches\<close>

definition ref_changed :: "(objmeta \<Rightarrow> 'a) \<Rightarrow> wevent \<Rightarrow> bool" where
  "ref_changed f e = (case e of Updated x y \<Rightarrow> f (watched_meta x) \<noteq> f (watched_meta y) | _ \<Rightarrow> True)"

definition ref_owner_handler :: "kind \<Rightarrow> eventhandler" where
  "ref_owner_handler k e = concat (map (\<lambda>x. map (\<lambda>r. \<lparr>nn_Namespace = om_Namespace (watched_meta x), nn_Name = or_Name r\<rparr>)
     (filter (\<lambda>r. or_Controller r \<and> or_Kind r = kind_name k) (om_OwnerReferences (watched_meta x)))) (involved e))"

definition ref_crlib :: crlib where
  "ref_crlib = \<lparr>GenerationChangedPredicate = ref_changed om_Generation, AnnotationChangedPredicate = ref_changed om_Annotations,
     ResourceVersionChangedPredicate = ref_changed om_ResourceVersion, predicate_Or = (\<lambda>ps e. list_ex (\<lambda>p. p e) ps),
     EnqueueRequestForObject = (\<lambda>e. map (\<lambda>x. key_of_meta (watched_meta x)) (involved e)),
     EnqueueRequestForOwner = ref_owner_handler,
     EnqueueRequestsFromMapFunc = (\<lambda>f e. concat (map f (involved e)))\<rparr>"

lemma ref_crlib_laws: "cr_laws ref_crlib"
  by (force simp: cr_laws_def ref_crlib_def changed_only_def ref_changed_def list_ex_iff ref_owner_handler_def owner_requests_def
      image_image split: wevent.splits)

definition demo_index :: indexed_list where
  "demo_index ns field v = Inr (filter (\<lambda>b. om_Namespace (tb_meta b) = ns \<and> v \<in> set (field_index field b)) [demo_tb])"

lemma demo_index_serves: "serves_index demo_index [demo_tb]"
  by (simp add: serves_index_def demo_index_def)

lemma demo_sets_owner: "sets_owner ref_klib KTradeBot (tb_meta demo_tb)"
proof -
  have "om_OwnerReferences (manifest_meta (with_owners rs m)) = rs" for rs m by (cases m) simp_all
  then show ?thesis
    by (auto simp: sets_owner_def ref_klib_def ref_SetControllerReference_def ref_kind_def kind_name_def demo_meta_def mk_meta_def
        split: if_splits)
qed

lemma demo_refs_set: "tb_Config (tb_Spec demo_tb) \<noteq> []" "tb_Strategy (tb_Spec demo_tb) \<noteq> []"
  by (simp_all add: demo_tb_spec demo_spec_def)

lemma demo_Reconcile_read:
  "GetTradeBot demo_key (Inr demo_tb) \<in> set (events (Reconcile demo_api ref_klib demo_golib demo_reconciler demo_key) demo_world)"
proof -
  have get: "emits (do_GetTradeBot demo_api demo_key) (\<lambda>r t. t = [GetTradeBot demo_key (Inr demo_tb)])"
    by (simp add: demo_run)
  have rest: "only (\<lambda>_. True) (reconcile_deletion demo_api ref_klib demo_golib demo_reconciler tb)"
      "only (\<lambda>_. True) (reconcile_add_finalizer demo_api ref_klib demo_key)" for tb
    unfolding reconcile_deletion_def reconcile_add_finalizer_def call_defs by (intro only_intro TrueI)+
  have "emits (Reconcile demo_api ref_klib demo_golib demo_reconciler demo_key) (\<lambda>_ t. GetTradeBot demo_key (Inr demo_tb) \<in> set t)"
    unfolding Reconcile_def
    by (rule emits_bind [OF get], rule emits_of_only [where P = "\<lambda>_. True"]) (intro only_intro TrueI rest, simp)
  from emitsD [OF this] show ?thesis .
qed

section \<open>A manager that starts\<close>

definition demo_mgr :: "unit mgrapi" where
  "demo_mgr = \<lparr>ma_NewCertWatcher = (\<lambda>a b e. (None, e)), ma_GetConfig = (\<lambda>e. (None, e)), ma_NewManager = (\<lambda>opts e. (None, e)),
     ma_NewDiscoveryClient = (\<lambda>e. (None, e)), ma_ServerResources = (\<lambda>gv e. (Inr [''gateways'', ''httproutes''], e)),
     ma_GetPodImages = (\<lambda>k e. (Inr [(''manager'', ''op:1'')], e)), ma_IndexField = (\<lambda>f g e. (None, e)),
     ma_Complete = (\<lambda>c e. (None, e)), ma_SetupWebhook = (\<lambda>n e. (None, e)), ma_Add = (\<lambda>n e. (None, e)),
     ma_AddCheck = (\<lambda>n e. (None, e)), ma_Start = (\<lambda>e. (None, e)), ma_Getenv = (\<lambda>n. ''x''),
     ma_IsGroupDiscoveryFailed = (\<lambda>e. False)\<rparr>"

definition demo_mgrworld :: "(unit, mgrevent) world" where
  "demo_mgrworld = \<lparr>env = (), trace = []\<rparr>"

definition demo_flags :: flags where
  "demo_flags = flag_defaults\<lparr>fl_webhookCertPath := ''/wh'', fl_metricsCertPath := ''/me''\<rparr>"

section \<open>A cluster with one Backtest\<close>

text \<open>Resource versions are strings whose length is the version; a status write of another version is refused.\<close>

record btworld =
  bw_backtest :: backtest
  bw_job :: "job option"
  bw_runs :: nat
  bw_ended :: "(bool \<times> bool) option"
  bw_version :: nat

definition at_version :: "nat \<Rightarrow> backtest \<Rightarrow> backtest" where
  "at_version n b = b\<lparr>bk_meta := (bk_meta b)\<lparr>om_ResourceVersion := replicate n CHR ''v''\<rparr>\<rparr>"

definition started_job :: "job \<Rightarrow> job" where
  "started_job j = j\<lparr>job_Succeeded := 0, job_Failed := 0, job_Active := 1\<rparr>"

definition bw_Patch :: "manifest \<Rightarrow> btworld \<Rightarrow> goerr option \<times> btworld" where
  "bw_Patch m w = (case m of
       MJob j \<Rightarrow> (None, case bw_job w of Some _ \<Rightarrow> w
         | None \<Rightarrow> w\<lparr>bw_job := Some (started_job j), bw_runs := Suc (bw_runs w)\<rparr>)
     | _ \<Rightarrow> (None, w))"

definition bw_StatusUpdate :: "backtest \<Rightarrow> btworld \<Rightarrow> goerr option \<times> btworld" where
  "bw_StatusUpdate b w = (if length (om_ResourceVersion (bk_meta b)) = bw_version w
     then (None, w\<lparr>bw_backtest := (bw_backtest w)\<lparr>bk_Status := bk_Status b\<rparr>, bw_version := Suc (bw_version w)\<rparr>)
     else (Some (ApiStatus Conflict ''changed''), w))"

definition bw_GetBacktest :: "nname \<Rightarrow> btworld \<Rightarrow> (goerr + backtest) \<times> btworld" where
  "bw_GetBacktest k w = (if key_of_meta (bk_meta (bw_backtest w)) = k then Inr (at_version (bw_version w) (bw_backtest w)) else Inl demo_notfound, w)"

definition bw_GetJob :: "nname \<Rightarrow> btworld \<Rightarrow> (goerr + job) \<times> btworld" where
  "bw_GetJob k w = (case bw_job w of None \<Rightarrow> Inl demo_notfound | Some j \<Rightarrow> Inr j, w)"

definition bw_api :: "btworld api" where
  "bw_api = \<lparr>api_GetTradeBot = (\<lambda>k e. (Inl demo_notfound, e)), api_GetBetaTradeBot = (\<lambda>k e. (Inl demo_notfound, e)),
     api_ListTradeBots = (\<lambda>e. (Inr [], e)), api_UpdateBetaTradeBot = (\<lambda>b e. (None, e)),
     api_StatusUpdateBetaTradeBot = (\<lambda>b e. (None, e)), api_GetStrategy = (\<lambda>k e. (Inr demo_strategy, e)),
     api_StatusUpdateStrategy = (\<lambda>s e. (None, e)), api_GetTradeBotConfig = (\<lambda>k e. (Inr demo_config, e)),
     api_StatusUpdateTradeBotConfig = (\<lambda>c e. (None, e)), api_ListFreqUI = (\<lambda>ns e. (Inr [], e)),
     api_GetSecret = (\<lambda>k e. (Inl demo_notfound, e)), api_GetStatefulSet = (\<lambda>k e. (Inl demo_notfound, e)),
     api_UpdateStatefulSet = (\<lambda>s e. (None, e)), api_GetPVC = (\<lambda>k e. (Inl demo_notfound, e)),
     api_UpdatePVC = (\<lambda>p e. (None, e)), api_Patch = bw_Patch,
     api_GetFreqUI = (\<lambda>k e. (Inl demo_notfound, e)), api_StatusUpdateFreqUI = (\<lambda>f e. (None, e)),
     api_GetDeployment = (\<lambda>k e. (Inl demo_notfound, e)), api_GetIngress = (\<lambda>k e. (Inl demo_notfound, e)),
     api_DeleteIngress = (\<lambda>i e. (None, e)), api_ListHTTPRoutes = (\<lambda>ns l e. (Inr [], e)),
     api_PatchHTTPRoute = (\<lambda>r e. (Inr r, e)), api_DeleteHTTPRoute = (\<lambda>r e. (None, e)),
     api_GetBacktest = bw_GetBacktest, api_UpdateBacktest = (\<lambda>b e. (None, e)),
     api_StatusUpdateBacktest = bw_StatusUpdate, api_GetJob = bw_GetJob,
     api_GetConfigMap = (\<lambda>k e. (Inl demo_notfound, e)), api_UpdateConfigMap = (\<lambda>c e. (None, e)),
     api_CreateConfigMap = (\<lambda>c e. (None, e)), api_GetPod = (\<lambda>k e. (Inl demo_notfound, e)),
     api_ReadFile = (\<lambda>p e. (Inl demo_notfound, e)), api_WriteFile = (\<lambda>p c e. (None, e)),
     api_OpenZip = (\<lambda>p e. (Inl demo_notfound, e)), api_WaitSignal = (\<lambda>b d e. (False, e)),
     api_HTTPDo = (\<lambda>rq e. (Inl demo_notfound, e)), api_Now = (\<lambda>e. (7, e)),
     api_RandRead = (\<lambda>n e. (Inr (\<lambda>_. CHR ''x''), e)), api_RetrySteps = 4\<rparr>"

definition bw_view :: "btworld btview" where
  "bw_view = \<lparr>vw_state = (\<lambda>w. \<lparr>bs_runs = bw_runs w, bs_live = (bw_job w \<noteq> None),
       bs_ended = (case bw_job w of None \<Rightarrow> bw_ended w | Some j \<Rightarrow> job_verdict j),
       bs_stored = verdict ref_klib (bw_backtest w), bs_shown = verdict ref_klib (bw_backtest w), bs_version = bw_version w\<rparr>),
     vw_number = length\<rparr>"

definition bw_start :: btworld where
  "bw_start = \<lparr>bw_backtest = demo_backtest, bw_job = None, bw_runs = 0, bw_ended = None, bw_version = 0\<rparr>"

lemma bw_status: "verdict ref_klib (b\<lparr>bk_Status := bk_Status b'\<rparr>) = verdict ref_klib b'"
  by (simp add: verdict_seen)

lemma bw_drift_refl [simp]: "drift x x"
  by (simp add: drift_def)

lemma bw_api_calls [simp]:
  "api_GetBacktest bw_api = bw_GetBacktest" "api_GetJob bw_api = bw_GetJob" "api_StatusUpdateBacktest bw_api = bw_StatusUpdate"
  "api_Patch bw_api = bw_Patch" "snd (bw_GetBacktest k w) = w" "snd (bw_GetJob k w) = w"
  by (simp_all add: bw_api_def bw_GetBacktest_def bw_GetJob_def)

lemma bw_reads:
  "reads_backtest ref_klib key bw_view (fst (bw_GetBacktest key w)) (vw_state bw_view w)"
  "bt_inv (vw_state bw_view w) \<Longrightarrow> reads_job (fst (bw_GetJob key w)) (vw_state bw_view w)"
  by (auto simp: reads_backtest_def bw_GetBacktest_def bw_view_def copy_of_def version_of_def at_version_def verdict_seen
      key_of_meta_def reads_job_def bw_GetJob_def bt_inv_def demo_notfound_def IsNotFound_def split: if_splits option.splits)

lemma bw_writes:
  "drift (vw_state bw_view w) (vw_state bw_view (snd (bw_StatusUpdate b w)))
   \<or> wrote_status (version_of bw_view b) (verdict ref_klib b) (vw_state bw_view w) (vw_state bw_view (snd (bw_StatusUpdate b w)))"
  by (cases "bw_job w"; cases "length (om_ResourceVersion (bk_meta b)) = bw_version w")
     (simp_all add: bw_StatusUpdate_def wrote_status_def version_of_def bw_view_def bw_status)

lemma bw_applies:
  "drift (vw_state bw_view w) (vw_state bw_view (snd (bw_Patch (MJob j) w)))
   \<or> created_job (vw_state bw_view w) (vw_state bw_view (snd (bw_Patch (MJob j) w)))"
  "(\<And>j. m \<noteq> MJob j) \<Longrightarrow> quiet_call bw_view (bw_Patch m)"
  by (auto simp: bw_Patch_def created_job_def bw_view_def workload_verdict_def job_outcome_def btworkload_zero_def started_job_def
      quiet_call_def split: option.split manifest.split)

lemma bw_cluster: "bt_cluster bw_api ref_klib demo_bkey bw_view"
  unfolding bt_cluster_def using bw_reads bw_writes bw_applies by (auto simp: quiet_call_def) (simp_all add: bw_api_def)

lemma bw_not_started: "not_started (vw_state bw_view bw_start)"
  by (simp add: not_started_def bw_view_def bw_start_def verdict_def)

end
