(* ===== verification/TradeBotHistory.thy ===== *)
theory TradeBotHistory
  imports TradeBotReconcile StateLogic
begin

text \<open>The life of one TradeBot's workload over many reconciles and polls. What is observed of the cluster, of any type, is the
  pod template of the bot's StatefulSet, as stored and as the cache shows it. \<open>sts_cluster\<close> states how the API server and the
  cache behave in these terms. As long as the bot reads with another update strategy than Auto and with the same pod
  settings, and its strategy with the same class name, a template the cache has shown once stays as it is: no change of
  the rendered configuration, of the script or of a reference restarts the pods. The class name, the pod settings of the
  bot and the operator's default image are in the template themselves, so a change of one of these does restart them
  under any update strategy.\<close>

section \<open>The cluster\<close>

text \<open>\<open>hv_default\<close> is what the API server makes of a template it is given: it fills in the fields that are left out.\<close>

record 'e stsview =
  hv_stored :: "'e \<Rightarrow> podtemplate option"
  hv_shown :: "'e \<Rightarrow> podtemplate option"
  hv_default :: "podtemplate \<Rightarrow> podtemplate"

definition defaulting :: "(podtemplate \<Rightarrow> podtemplate) \<Rightarrow> bool" where
  "defaulting d \<longleftrightarrow> (\<forall>t. d (d t) = d t \<and> pt_Annotations (d t) = pt_Annotations t)"

text \<open>What may happen during any call: the cache catches up.\<close>

definition template_drift :: "'e stsview \<Rightarrow> 'e \<Rightarrow> 'e \<Rightarrow> bool" where
  "template_drift V e e' \<longleftrightarrow> hv_stored V e' = hv_stored V e \<and> (hv_shown V e' = hv_shown V e \<or> hv_shown V e' = hv_stored V e)"

text \<open>A write of a StatefulSet is refused or takes effect; the cache follows at once or later.\<close>

definition template_written :: "'e stsview \<Rightarrow> statefulset \<Rightarrow> 'e \<Rightarrow> 'e \<Rightarrow> bool" where
  "template_written V s e e' \<longleftrightarrow> template_drift V e e'
     \<or> hv_stored V e' = Some (hv_default V (sts_Template s)) \<and> hv_shown V e' \<in> {hv_shown V e, hv_stored V e, hv_stored V e'}"

definition template_quiet :: "'e stsview \<Rightarrow> ('e \<Rightarrow> 'a \<times> 'e) \<Rightarrow> bool" where
  "template_quiet V f \<longleftrightarrow> (\<forall>e. template_drift V e (snd (f e)))"

definition shows_sts :: "'e stsview \<Rightarrow> goerr + statefulset \<Rightarrow> 'e \<Rightarrow> bool" where
  "shows_sts V r e \<longleftrightarrow> (case r of
       Inl err \<Rightarrow> IsNotFound err \<longrightarrow> hv_shown V e = None
     | Inr s \<Rightarrow> hv_shown V e = Some (sts_Template s))"

definition sts_cluster :: "'e api \<Rightarrow> nname \<Rightarrow> 'e stsview \<Rightarrow> bool" where
  "sts_cluster A key V \<longleftrightarrow> defaulting (hv_default V)
   \<and> (\<forall>e. shows_sts V (fst (api_GetStatefulSet A key e)) (snd (api_GetStatefulSet A key e)))
   \<and> (\<forall>s e. template_written V s e (snd (api_UpdateStatefulSet A s e)))
   \<and> (\<forall>s e. template_written V s e (snd (api_Patch A (MStatefulSet s) e)))
   \<and> (\<forall>m. (\<forall>s. m \<noteq> MStatefulSet s) \<longrightarrow> template_quiet V (api_Patch A m))
   \<and> (\<forall>k. template_quiet V (api_GetStatefulSet A k)) \<and> (\<forall>k. template_quiet V (api_GetTradeBot A k))
   \<and> (\<forall>k. template_quiet V (api_GetBetaTradeBot A k)) \<and> (\<forall>b. template_quiet V (api_UpdateBetaTradeBot A b))
   \<and> (\<forall>b. template_quiet V (api_StatusUpdateBetaTradeBot A b)) \<and> (\<forall>k. template_quiet V (api_GetStrategy A k))
   \<and> (\<forall>k. template_quiet V (api_GetTradeBotConfig A k)) \<and> (\<forall>n. template_quiet V (api_ListFreqUI A n))
   \<and> (\<forall>k. template_quiet V (api_GetSecret A k)) \<and> (\<forall>k. template_quiet V (api_GetPVC A k)) \<and> (\<forall>p. template_quiet V (api_UpdatePVC A p))
   \<and> (\<forall>rq. template_quiet V (api_HTTPDo A rq)) \<and> template_quiet V (api_Now A) \<and> (\<forall>n. template_quiet V (api_RandRead A n))"

text \<open>What of a TradeBot is in the template, beside its name.\<close>

definition same_pods :: "tradebot \<Rightarrow> tradebot \<Rightarrow> bool" where
  "same_pods tb tb' \<longleftrightarrow> tb_Name tb = tb_Name tb'
     \<and> tb_FreqtradeArguments (tb_Spec tb) = tb_FreqtradeArguments (tb_Spec tb')
     \<and> app_of tb app_PodSpec = app_of tb' app_PodSpec
     \<and> Option.bind (app_of tb app_PVCSpec) tv_FixVolumePermissions = Option.bind (app_of tb' app_PVCSpec) tv_FixVolumePermissions"

definition bot_template :: "reconciler \<Rightarrow> tradebot \<Rightarrow> string \<Rightarrow> string \<Rightarrow> podtemplate" where
  "bot_template R tb className h = sts_Template (BuildStatefulSet tb (defaultImage R) className
     (tb_Name tb @ ''-config'') (tb_Name tb @ ''-strategy'') (tb_Name tb @ ''-user-data'') h)"

text \<open>The bot under its key, with its owner's consent to roll out new configurations withheld, and with the pod settings
  of \<open>tb0\<close>; its strategies all have the same class name.\<close>

definition manual_bot :: "nname \<Rightarrow> tradebot \<Rightarrow> tradebot \<Rightarrow> bool" where
  "manual_bot key tb0 tb \<longleftrightarrow> key_of_meta (tb_meta tb) = key \<and> tb_UpdateStrategy (tb_Spec tb) \<noteq> ''Auto'' \<and> same_pods tb tb0"

definition reads_manual :: "'e api \<Rightarrow> nname \<Rightarrow> tradebot \<Rightarrow> string \<Rightarrow> bool" where
  "reads_manual A key tb0 className \<longleftrightarrow> (\<forall>e tb. fst (api_GetTradeBot A key e) = Inr tb \<longrightarrow> manual_bot key tb0 tb)
     \<and> (\<forall>k e st. fst (api_GetStrategy A k e) = Inr st \<longrightarrow> ss_Name (sy_Spec st) = className)"

inductive tb_step :: "'e api \<Rightarrow> klib \<Rightarrow> golib \<Rightarrow> reconciler \<Rightarrow> nname \<Rightarrow> 'e stsview \<Rightarrow> 'e \<Rightarrow> 'e \<Rightarrow> bool"
  for A K G R key V where
  Reconciled: "tb_step A K G R key V e (env (final (Reconcile A K G R key) \<lparr>env = e, trace = t\<rparr>))"
| Polled: "tb_step A K G R key V e (env (final (pollOne A K G key p) \<lparr>env = e, trace = t\<rparr>))"
| Moved: "template_drift V e e' \<Longrightarrow> tb_step A K G R key V e e'"

section \<open>A settled template\<close>

definition settled :: "'e stsview \<Rightarrow> podtemplate \<Rightarrow> 'e \<Rightarrow> bool" where
  "settled V t e \<longleftrightarrow> hv_stored V e = Some (hv_default V t) \<and> hv_shown V e = Some (hv_default V t)"

lemma drift_settled: "\<lbrakk>template_drift V e e'; settled V t e\<rbrakk> \<Longrightarrow> settled V t e'"
  by (auto simp: template_drift_def settled_def)

lemma quiet_settled: "\<lbrakk>template_quiet V f; settled V t e\<rbrakk> \<Longrightarrow> settled V t (snd (f e))"
  by (auto simp: template_quiet_def intro: drift_settled)

lemma written_settled: "\<lbrakk>template_written V s e e'; hv_default V (sts_Template s) = hv_default V t; settled V t e\<rbrakk> \<Longrightarrow> settled V t e'"
  by (auto simp: template_written_def template_drift_def settled_def)

text \<open>The same bot, strategy class and hash give the same template, with that hash on it.\<close>

lemma same_template: "same_pods tb tb' \<Longrightarrow> bot_template R tb c h = bot_template R tb' c h"
  by (simp add: same_pods_def bot_template_def BuildStatefulSet_def selector_labels_def BuildPod_def Let_def)

lemma bot_template_hash: "\<lbrakk>defaulting d; sts_Template s = d (bot_template R tb c h)\<rbrakk> \<Longrightarrow> template_hash s = h"
  by (simp add: template_hash_def defaulting_def bot_template_def BuildStatefulSet_def map_str_def)

lemma sts_clusterD:
  assumes "sts_cluster A key V"
  shows "shows_sts V (fst (api_GetStatefulSet A key e)) (snd (api_GetStatefulSet A key e))"
    and "template_written V s e (snd (api_UpdateStatefulSet A s e))" and "template_written V s e (snd (api_Patch A (MStatefulSet s) e))"
    and "(\<And>s. m \<noteq> MStatefulSet s) \<Longrightarrow> template_quiet V (api_Patch A m)"
    and "defaulting (hv_default V)"
  using assms unfolding sts_cluster_def by blast+

lemma sts_quiet:
  assumes "sts_cluster A key V"
  shows "template_quiet V (api_GetStatefulSet A k)" "template_quiet V (api_GetTradeBot A k)" "template_quiet V (api_GetBetaTradeBot A k)"
    "template_quiet V (api_UpdateBetaTradeBot A b)" "template_quiet V (api_StatusUpdateBetaTradeBot A b)" "template_quiet V (api_GetStrategy A k)"
    "template_quiet V (api_GetTradeBotConfig A k)" "template_quiet V (api_ListFreqUI A n)" "template_quiet V (api_GetSecret A k)"
    "template_quiet V (api_GetPVC A k)" "template_quiet V (api_UpdatePVC A p)" "template_quiet V (api_HTTPDo A rq)" "template_quiet V (api_Now A)"
    "template_quiet V (api_RandRead A i)"
  using assms unfolding sts_cluster_def by blast+

lemmas keeps_settled = sts_quiet [THEN quiet_settled]

section \<open>One reconcile\<close>

lemma read_settled:
  assumes C: "sts_cluster A key V"
  shows "holds (settled V t) (do_GetStatefulSet A key) (\<lambda>r e.
    (case r of Inl err \<Rightarrow> \<not> IsNotFound err | Inr s \<Rightarrow> sts_Template s = hv_default V t) \<and> settled V t e)"
  unfolding do_GetStatefulSet_def
  by (rule holds_call) (use sts_clusterD(1) [OF C] keeps_settled(1) [OF C] in \<open>fastforce simp: shows_sts_def settled_def split: sum.splits\<close>)

lemma template_settled:
  assumes C: "sts_cluster A key V" and tb: "key_of_meta (tb_meta tb) = key" "tb_UpdateStrategy (tb_Spec tb) \<noteq> ''Auto''" and h: "h \<noteq> []"
  shows "holds (settled V (bot_template R tb0 c h)) (statefulSetTemplateHash A tb fresh)
    (\<lambda>r e. (\<forall>h'. r = Inr h' \<longrightarrow> h' = h) \<and> settled V (bot_template R tb0 c h) e)"
  unfolding statefulSetTemplateHash_def tb
  by (simp only: tb if_False, rule holds_bind [OF read_settled [OF C]], rule holds_return)
     (use h bot_template_hash [OF sts_clusterD(5) [OF C]] in \<open>auto simp: Let_def split: sum.splits\<close>)

lemma Patch_settled:
  assumes C: "sts_cluster A key V" and m: "\<And>s. m = MStatefulSet s \<Longrightarrow> sts_Template s = t"
  shows "keeps_state (settled V t) (do_Patch A m)"
  unfolding do_Patch_def
proof (rule state_call)
  fix e assume "settled V t e"
  then show "settled V t (snd (api_Patch A m e))"
    using m written_settled [OF sts_clusterD(3) [OF C]] quiet_settled [OF sts_clusterD(4) [OF C]] by (cases "\<exists>s. m = MStatefulSet s") auto
qed

lemma Apply_settled:
  assumes C: "sts_cluster A key V" and K: "klib_laws K" and m: "\<And>s. m = MStatefulSet s \<Longrightarrow> sts_Template s = t"
  shows "keeps_state (settled V t) (Apply A K owner m)"
proof -
  have "sts_Template s' = t" if "SetControllerReference K owner m = Inr (MStatefulSet s')" for s'
  proof -
    have own: "owner_refs (SetControllerReference K)" using K by (simp add: klib_laws_def)
    from owner_refs.same_kind [OF own that] obtain s where s: "m = MStatefulSet s" by auto
    from owner_refs.statefulset_content [OF own that [unfolded s]] have "sts_Template s' = sts_Template s" by auto
    with m [OF s] show ?thesis by simp
  qed
  then show ?thesis
    unfolding Apply_def applyServerSide_def by (intro state_intro Patch_settled [OF C]) auto
qed

lemma resources_settled:
  assumes C: "sts_cluster A key V" and K: "klib_laws K" and tb: "manual_bot key tb0 tb" and h: "h \<noteq> []"
    and c: "ss_Name (sy_Spec strat) = c"
  shows "keeps_state (settled V (bot_template R tb0 c h)) (reconcileResources A K R tb strat cd fs)"
proof -
  let ?k = "settled V (bot_template R tb0 c h)"
  have t: "sts_Template (BuildStatefulSet tb (defaultImage R) (ss_Name (sy_Spec strat)) (tb_Name tb @ ''-config'')
      (tb_Name tb @ ''-strategy'') (tb_Name tb @ ''-user-data'') h) = bot_template R tb0 c h"
    using same_template [of tb tb0 R c h] tb c by (simp add: manual_bot_def bot_template_def)
  have app: "keeps_state ?k (apply_workload A K R tb strat fresh fs h)" for fresh
    unfolding apply_workload_def apply_or_def recordConfigRestartEvent_def Let_def
    by (intro state_intro Apply_settled [OF C K]) (use t in auto)
  have tail: "keeps_state ?k (do {
      r \<leftarrow> statefulSetTemplateHash A tb fresh;
      case r of
        Inl e \<Rightarrow> State_Monad.return (Inl (f e))
      | Inr templateHash \<Rightarrow> apply_workload A K R tb strat fresh fs templateHash })" for fresh f
    by (rule holds_bind [OF template_settled [OF C _ _ h]], use tb in \<open>simp add: manual_bot_def\<close>, use tb in \<open>simp add: manual_bot_def\<close>,
        rule holds_assume, rule holds_case_sum) (auto intro: holds_return app)
  show ?thesis
    unfolding reconcileResources_def apply_or_def Let_def
    by (intro state_intro Apply_settled [OF C K] tail) auto
qed

text \<open>The other parts of a reconcile, and a poll, make quiet calls only.\<close>

lemma PatchStatus_settled:
  assumes C: "sts_cluster A key V"
  shows "keeps_state (settled V t) (patchTradeBotStatus A K tb m)"
  unfolding patchTradeBotStatus_def PatchStatus_def tradebot_cobj_def Let_def call_defs split_beta cobj.simps
  by (intro state_intro keeps_settled [OF C])

lemma BuildConfig_settled:
  assumes C: "sts_cluster A key V"
  shows "keeps_state (settled V t) (BuildConfig A G n ns sp c)"
  unfolding BuildConfig_def GetSecretData_def notificationSecretData_def resolveAPIServerJWTSecretKey_def Let_def
    existingAPIServerJWTSecretKey_def generateAPIServerJWTSecretKey_def do_GetSecret_def do_RandRead_def
  by (intro state_intro keeps_settled [OF C])

lemma bot_do_settled:
  assumes C: "sts_cluster A key V"
  shows "keeps_state (settled V t) (bot_do A G c mth path body out)"
  unfolding bot_do_def do_HTTP_def by (intro state_intro keeps_settled [OF C])

lemma credentials_settled:
  assumes C: "sts_cluster A key V"
  shows "keeps_state (settled V t) (resolveCredentials A tb)"
  unfolding resolveCredentials_def GetSecretData_def Let_def do_GetTradeBotConfig_def do_GetSecret_def
  by (intro state_intro keeps_settled [OF C])

lemmas parts_settled = PatchStatus_settled BuildConfig_settled bot_do_settled credentials_settled

lemma status_settled:
  assumes C: "sts_cluster A key V"
  shows "keeps_state (settled V t) (reconcile_status A K G R key' tb w out)"
    and "keeps_state (settled V t) (failReconcile A K R tb ty rs m err)"
proof -
  show fail: "keeps_state (settled V t) (failReconcile A K R tb ty rs m err)" for ty rs m err
    unfolding failReconcile_def by (intro state_intro parts_settled [OF C])
  show "keeps_state (settled V t) (reconcile_status A K G R key' tb w out)"
    unfolding reconcile_status_def computeWorkloadStatus_def recordLifecycleEvents_def reconcileStateAndComputeRequeue_def
      reconcileState_def set_state_cond_def reconcileStateChange_def bot_Start_def bot_Stop_def do_GetBetaTradeBot_def
      do_GetStatefulSet_def Let_def
    by (intro state_intro parts_settled [OF C] fail keeps_settled [OF C])
qed

lemma deletion_settled:
  assumes C: "sts_cluster A key V" and tb: "key_of_meta (tb_meta tb) = key"
  shows "keeps_state (settled V t) (reconcile_deletion A K G R tb)"
proof -
  have pvc: "keeps_state (settled V t) (handlePVCPreservation A G tb)"
    unfolding handlePVCPreservation_def call_defs by (intro state_intro keeps_settled [OF C])
  have scale: "keeps_state (settled V t) (ensureStatefulSetScaledDown A s)" if "sts_Template s = hv_default V t" for s
    unfolding ensureStatefulSetScaledDown_def do_UpdateStatefulSet_def
    by (intro state_intro written_settled [OF sts_clusterD(2) [OF C]])
       (use that sts_clusterD(5) [OF C] in \<open>simp_all add: defaulting_def\<close>)
  have late: "keeps_state (settled V t) (finalizerDeadlinePassed A R tb)"
    unfolding finalizerDeadlinePassed_def do_Now_def by (intro state_intro keeps_settled [OF C])
  have "keeps_state (settled V t) (finalizeTradeBot A G R tb)"
    unfolding finalizeTradeBot_def tb Let_def
    by (rule holds_bind [OF read_settled [OF C]], rule holds_assume, intro state_intro pvc late scale) simp_all
  then show ?thesis
    unfolding reconcile_deletion_def call_defs by (intro state_intro keeps_settled [OF C])
qed

lemma Reconcile_settled:
  assumes C: "sts_cluster A key V" and K: "klib_laws K" and M: "reads_manual A key tb0 c" and h: "h \<noteq> []"
  shows "keeps_state (settled V (bot_template R tb0 c h)) (Reconcile A K G R key)"
proof -
  let ?k = "settled V (bot_template R tb0 c h)"
  have get: "holds ?k (do_GetTradeBot A key) (\<lambda>r e. (\<forall>tb. r = Inr tb \<longrightarrow> manual_bot key tb0 tb) \<and> ?k e)"
    unfolding do_GetTradeBot_def by (rule holds_call) (use M keeps_settled(2) [OF C] in \<open>auto simp: reads_manual_def\<close>)
  have strat: "holds ?k (do_GetStrategy A k) (\<lambda>r e. (\<forall>st. r = Inr st \<longrightarrow> ss_Name (sy_Spec st) = c) \<and> ?k e)" for k
    unfolding do_GetStrategy_def by (rule holds_call) (use M keeps_settled(6) [OF C] in \<open>auto simp: reads_manual_def\<close>)
  have refs: "holds ?k (fetchReferencedResources A tb ns) (\<lambda>r e. (\<forall>res. r = Inr res \<longrightarrow> ss_Name (sy_Spec (rf_strategy res)) = c) \<and> ?k e)"
    for tb ns
    unfolding fetchReferencedResources_def do_GetTradeBotConfig_def
    by (rule holds_bind [OF state_call], erule keeps_settled [OF C], rule holds_case_sum, rule holds_return, simp,
        rule holds_bind [OF strat], rule holds_assume, rule holds_case_sum; rule holds_return) auto
  have live: "keeps_state ?k (reconcile_live A K G R key tb)" if "manual_bot key tb0 tb" for tb
    unfolding reconcile_live_def do_ListFreqUI_def Let_def
    by (intro holds_if status_settled [OF C], rule holds_bind [OF refs], rule holds_assume, rule holds_case_sum, rule status_settled [OF C],
        intro state_intro status_settled [OF C] parts_settled [OF C] resources_settled [OF C K that h] keeps_settled [OF C]; blast)
  have add: "keeps_state ?k (reconcile_add_finalizer A K key)"
    unfolding reconcile_add_finalizer_def call_defs by (intro state_intro keeps_settled [OF C])
  show ?thesis
    unfolding Reconcile_def
    by (rule holds_bind [OF get], rule holds_assume, rule holds_case_sum, rule holds_return, simp,
        intro holds_if deletion_settled [OF C] add live) (auto simp: manual_bot_def)
qed

lemma pollOne_settled:
  assumes C: "sts_cluster A key V"
  shows "keeps_state (settled V t) (pollOne A K G key' p)"
  unfolding pollOne_def poll_def pollWithClient_def endpoint_defs recordMetrics_def set_opt_def do_GetTradeBot_def do_Now_def Let_def
  by (intro state_intro parts_settled [OF C] keeps_settled [OF C])

section \<open>Histories\<close>

lemma history_settled:
  assumes C: "sts_cluster A key V" and K: "klib_laws K" and M: "reads_manual A key tb0 c" and h: "h \<noteq> []"
    and "(tb_step A K G R key V)\<^sup>*\<^sup>* e e'" and "settled V (bot_template R tb0 c h) e"
  shows "settled V (bot_template R tb0 c h) e'"
  using assms(5,6)
proof (induction rule: rtranclp_induct)
  case (step y z)
  then have y: "settled V (bot_template R tb0 c h) y" by simp
  from step.hyps(2) show ?case
  proof cases
    case (Reconciled t)
    from holdsD [OF Reconcile_settled [OF C K M h, of R G], of "\<lparr>env = y, trace = t\<rparr>"] y show ?thesis
      unfolding Reconciled by simp
  next
    case (Polled p t)
    from holdsD [OF pollOne_settled [OF C, of "bot_template R tb0 c h" K G key p], of "\<lparr>env = y, trace = t\<rparr>"] y show ?thesis
      unfolding Polled by simp
  next
    case Moved
    then show ?thesis by (rule drift_settled) (rule y)
  qed
qed

end
