(* ===== verification/StateAlignment.thy ===== *)
theory StateAlignment
  imports TradeBotConditions StateLogic
begin

text \<open>How \<open>spec.state\<close> reaches the bot and comes back: the reconciler sends the command, the bot obeys, the poller reads the
  bot's state into the status, the next reconcile confirms it. Of the cluster, of any type, the stored TradeBot and the
  state of the running bot are observed; \<open>obedient\<close> describes a cluster that answers and a bot that does as it is told.
  In such a cluster a poll, a reconcile, a poll and a reconcile align the bot, whatever the status said before.\<close>

section \<open>The cluster and the bot\<close>

record 'e botview =
  bv_stored :: "'e \<Rightarrow> betatradebot"
  bv_actual :: "'e \<Rightarrow> string"

abbreviation at_state :: "'e botview \<Rightarrow> betatradebot \<Rightarrow> string \<Rightarrow> 'e \<Rightarrow> bool" where
  "at_state V b a \<equiv> \<lambda>e. bv_stored V e = b \<and> bv_actual V e = a"

definition bot_kept :: "'e botview \<Rightarrow> ('e \<Rightarrow> 'a \<times> 'e) \<Rightarrow> bool" where
  "bot_kept V f \<longleftrightarrow> (\<forall>e. bv_stored V (snd (f e)) = bv_stored V e \<and> bv_actual V (snd (f e)) = bv_actual V e)"

text \<open>The state a bot is in after a request, and the one a desired state asks for.\<close>

definition obeyed :: "tradebot \<Rightarrow> httpreq \<Rightarrow> string \<Rightarrow> string" where
  "obeyed tb rq a =
    (if rq_Method rq = ''POST'' \<and> rq_URL rq = botBaseURL tb @ ''/api/v1/stop'' then ''stopped''
     else if rq_Method rq = ''POST'' \<and> rq_URL rq = botBaseURL tb @ ''/api/v1/start'' then ''running''
     else a)"

definition told :: "string \<Rightarrow> string" where
  "told d = (if d = TradeBotStateStopped then ''stopped'' else ''running'')"

definition answered :: "goerr + httpresp \<Rightarrow> string \<Rightarrow> bool" where
  "answered r full \<longleftrightarrow> (\<exists>resp. r = Inr resp \<and> rs_Body resp = Inr full \<and> length full \<le> maxResponseBody
     \<and> 200 \<le> rs_StatusCode resp \<and> rs_StatusCode resp < 300)"

definition bot_answers :: "'e api \<Rightarrow> golib \<Rightarrow> tradebot \<Rightarrow> 'e botview \<Rightarrow> bool" where
  "bot_answers A G tb V \<longleftrightarrow>
     (\<forall>m p. http_NewRequest G m (botBaseURL tb @ p) = None)
   \<and> (\<forall>rq e. bv_stored V (snd (api_HTTPDo A rq e)) = bv_stored V e
        \<and> bv_actual V (snd (api_HTTPDo A rq e)) = obeyed tb rq (bv_actual V e))
   \<and> (\<forall>rq e. rq_URL rq \<in> (@) (botBaseURL tb) ` {''/api/v1/ping'', ''/api/v1/start'', ''/api/v1/stop''}
        \<longrightarrow> (\<exists>full. answered (fst (api_HTTPDo A rq e)) full))
   \<and> (\<forall>rq e. rq_URL rq = botBaseURL tb @ ''/api/v1/show_config'' \<longrightarrow>
        (\<exists>full j d. answered (fst (api_HTTPDo A rq e)) full \<and> json_Unmarshal G full = Inr j
           \<and> dec_pair (dec_string ''state'') (dec_bool ''dry_run'') j = Inr (bv_actual V e, d)))
   \<and> (\<forall>rq e. rq_URL rq = botBaseURL tb @ ''/api/v1/version'' \<longrightarrow>
        (\<exists>full j v. answered (fst (api_HTTPDo A rq e)) full \<and> json_Unmarshal G full = Inr j
           \<and> dec_single (dec_string ''version'') j = Inr v))"

text \<open>The stored object is read and written without interference; the metadata and spec of the bot do not change; the
  credentials of its API can be read. Everything else may answer as it likes.\<close>

definition obedient :: "'e api \<Rightarrow> golib \<Rightarrow> nname \<Rightarrow> tradebot \<Rightarrow> 'e botview \<Rightarrow> bool" where
  "obedient A G key tb V \<longleftrightarrow> bot_answers A G tb V
   \<and> (\<forall>e. \<exists>t. fst (api_GetTradeBot A key e) = Inr t \<and> tb_meta t = tb_meta tb \<and> tb_Spec t = tb_Spec tb)
   \<and> (\<forall>e. fst (api_GetBetaTradeBot A key e) = Inr (bv_stored V e))
   \<and> (\<forall>b e. fst (api_StatusUpdateBetaTradeBot A b e) = None \<and> at_state V b (bv_actual V e) (snd (api_StatusUpdateBetaTradeBot A b e)))
   \<and> (\<forall>k e. \<exists>c a. fst (api_GetTradeBotConfig A k e) = Inr c \<and> tcs_APIServer (tc_Spec c) = Some a)
   \<and> (\<forall>k e. \<exists>s. fst (api_GetSecret A k e) = Inr s)
   \<and> bot_kept V (api_GetTradeBot A key) \<and> bot_kept V (api_GetBetaTradeBot A key) \<and> (\<forall>k. bot_kept V (api_GetTradeBotConfig A k))
   \<and> (\<forall>k. bot_kept V (api_GetSecret A k)) \<and> (\<forall>k. bot_kept V (api_GetStrategy A k)) \<and> (\<forall>n. bot_kept V (api_ListFreqUI A n))
   \<and> (\<forall>k. bot_kept V (api_GetStatefulSet A k)) \<and> (\<forall>m. bot_kept V (api_Patch A m)) \<and> bot_kept V (api_Now A)
   \<and> (\<forall>n. bot_kept V (api_RandRead A n))"

text \<open>The bot is live and under management, in trade mode, and stored under its key.\<close>

definition managed :: "klib \<Rightarrow> nname \<Rightarrow> tradebot \<Rightarrow> bool" where
  "managed K key tb \<longleftrightarrow> key_of_meta (tb_meta tb) = key \<and> om_DeletionTimestamp (tb_meta tb) = None
     \<and> ContainsFinalizer K (om_Finalizers (tb_meta tb)) BotFinalizer \<and> isTradeMode tb"

text \<open>What a status says about the bot.\<close>

definition reachable_in :: "klib \<Rightarrow> betatradebot \<Rightarrow> bool" where
  "reachable_in K b = IsStatusConditionTrue K (bst_Conditions (btb_Status b)) ConditionBotReachable"

definition observed_in :: "betatradebot \<Rightarrow> string" where
  "observed_in b = (case bst_Bot (btb_Status b) of None \<Rightarrow> ''unknown'' | Some s \<Rightarrow> bbs_State s)"

abbreviation state_seen :: "klib \<Rightarrow> betatradebot \<Rightarrow> (condstatus \<times> string \<times> string) option" where
  "state_seen K b \<equiv> seen K (bst_Conditions (btb_Status b)) ConditionStateReconciled"

lemma obedientD:
  assumes "obedient A G key tb V"
  shows "bot_answers A G tb V" "\<exists>t. fst (api_GetTradeBot A key e) = Inr t \<and> tb_meta t = tb_meta tb \<and> tb_Spec t = tb_Spec tb"
    "fst (api_GetBetaTradeBot A key e) = Inr (bv_stored V e)" "fst (api_StatusUpdateBetaTradeBot A b e) = None"
    "at_state V b (bv_actual V e) (snd (api_StatusUpdateBetaTradeBot A b e))"
    "\<exists>c a. fst (api_GetTradeBotConfig A k e) = Inr c \<and> tcs_APIServer (tc_Spec c) = Some a" "\<exists>s. fst (api_GetSecret A k e) = Inr s"
  using assms unfolding obedient_def by blast+

lemma obedient_kept:
  assumes "obedient A G key tb V"
  shows "bot_kept V (api_GetTradeBot A key)" "bot_kept V (api_GetBetaTradeBot A key)" "bot_kept V (api_GetTradeBotConfig A k)"
    "bot_kept V (api_GetSecret A k)" "bot_kept V (api_GetStrategy A k)" "bot_kept V (api_ListFreqUI A n)"
    "bot_kept V (api_GetStatefulSet A k)" "bot_kept V (api_Patch A m)" "bot_kept V (api_Now A)" "bot_kept V (api_RandRead A i)"
  using assms unfolding obedient_def by blast+

lemma kept_at: "\<lbrakk>bot_kept V f; at_state V b a e\<rbrakk> \<Longrightarrow> at_state V b a (snd (f e))"
  by (simp add: bot_kept_def)

lemmas keeps_at = obedient_kept [THEN kept_at]

section \<open>Status patches\<close>

definition exact_equal :: "klib \<Rightarrow> bool" where
  "exact_equal K \<longleftrightarrow> (\<forall>a b. DeepEqualTradeBot K a b \<longrightarrow> a = b)"

lemma holds_Retry:
  assumes "holds P fn (\<lambda>r e. (\<exists>x. r = Inr x) \<and> Q r e)"
  shows "holds P (RetryOnConflict n fn) Q"
proof (cases n)
  case (Suc m)
  show ?thesis
    unfolding Suc RetryOnConflict.simps
    by (rule holds_bind [OF assms], rule holds_assume, rule holds_case_sum) (auto intro: holds_return)
qed (use assms in \<open>auto intro: holds_post\<close>)

lemma holds_ex: "(\<And>x. holds (P x) m Q) \<Longrightarrow> holds (\<lambda>e. \<exists>x. P x e) m Q"
  by (auto simp: holds_def)

text \<open>The object a patch leaves behind.\<close>

definition patched_to :: "tradebot \<Rightarrow> (gotime \<Rightarrow> tradebot \<Rightarrow> tradebot) \<Rightarrow> gotime \<Rightarrow> betatradebot \<Rightarrow> betatradebot" where
  "patched_to t m now b = tradebot_SetObservedGeneration (om_Generation (btb_meta b))
     (copyTradeBotStatusToBeta b (m now (copyTradeBotStatusFromBeta t b)))"

lemma patch_at:
  assumes O: "obedient A G key tb V" and K: "exact_equal K" and t: "key_of_meta (tb_meta t) = key"
  shows "holds (at_state V b a) (patchTradeBotStatus A K t m) (\<lambda>r e. \<exists>now. r = Inr (m now (copyTradeBotStatusFromBeta t b))
    \<and> at_state V (patched_to t m now b) a e)"
proof -
  have get: "holds (at_state V b a) (do_GetBetaTradeBot A key) (\<lambda>r e. r = Inr b \<and> at_state V b a e)"
    unfolding do_GetBetaTradeBot_def by (rule holds_call) (use obedientD(3) [OF O] keeps_at(2) [OF O] in auto)
  have now: "keeps_state (at_state V b a) (do_Now A)"
    unfolding do_Now_def by (intro state_intro keeps_at [OF O])
  have upd: "holds (at_state V b a) (do_StatusUpdateBetaTradeBot A b') (\<lambda>r e. r = None \<and> at_state V b' a e)" for b'
    unfolding do_StatusUpdateBetaTradeBot_def by (rule holds_call) (use obedientD(4,5) [OF O] in auto)
  have upd_write: "holds (at_state V b a)
      (if DeepEqualTradeBot K b (patched_to t m n b) then State_Monad.return (Inr (m n (copyTradeBotStatusFromBeta t b)))
       else do { w \<leftarrow> do_StatusUpdateBetaTradeBot A (patched_to t m n b);
         case w of None \<Rightarrow> State_Monad.return (Inr (m n (copyTradeBotStatusFromBeta t b))) | Some e \<Rightarrow> State_Monad.return (Inl e) })
      (\<lambda>r e. (\<exists>x. r = Inr x) \<and> (\<exists>now. r = Inr (m now (copyTradeBotStatusFromBeta t b)) \<and> at_state V (patched_to t m now b) a e))" for n
    by (rule holds_if, rule holds_return, use K in \<open>fastforce simp: exact_equal_def\<close>,
        rule holds_bind [OF upd], rule holds_assume) (auto intro!: holds_return)
  show ?thesis
    unfolding patchTradeBotStatus_def PatchStatus_def tradebot_cobj_def cobj.simps patch_mutate_def t Let_def
      copy_keeps patched_to_def [symmetric] prod.case
    by (rule holds_Retry, rule holds_bind [OF get], rule holds_assume, simp only: sum.case, rule holds_bind [OF now],
        rule upd_write)
qed

lemma patched_to_simps [simp]:
  "btb_Spec (patched_to t m n b) = btb_Spec b"
  "bst_Conditions (btb_Status (patched_to t m n b)) = conds (m n (copyTradeBotStatusFromBeta t b))"
  "bst_Bot (btb_Status (patched_to t m n b)) = map_option bot_to_beta (st_Bot (tb_Status (m n (copyTradeBotStatusFromBeta t b))))"
  by (simp_all add: patched_to_def tradebot_SetObservedGeneration_def copyTradeBotStatusToBeta_def)

lemma reachable_seen:
  "klib_laws K \<Longrightarrow> reachable_in K b \<longleftrightarrow> (\<exists>r m. seen K (bst_Conditions (btb_Status b)) ConditionBotReachable = Some (ConditionTrue, r, m))"
  by (simp add: reachable_in_def seen_true)

lemma desired_spec: "btb_Spec b' = btb_Spec b \<Longrightarrow> desired_state b' = desired_state b"
  by (simp add: desired_state_def)

section \<open>Calls to the bot\<close>

text \<open>A request runs once; its effect on the bot is \<open>obeyed\<close>.\<close>

lemma bot_do_run:
  assumes B: "bot_answers A G tb V" and rq: "rq = bot_request (botclient_New (botBaseURL tb) u p) mth path []"
  shows "holds (at_state V b a) (do_HTTP A rq)
    (\<lambda>r e. (\<exists>e0. at_state V b a e0 \<and> r = fst (api_HTTPDo A rq e0)) \<and> at_state V b (obeyed tb rq a) e)"
  unfolding do_HTTP_def by (rule holds_call) (use B in \<open>auto simp: bot_answers_def\<close>)

lemma bot_do_at:
  assumes B: "bot_answers A G tb V"
  shows "holds (at_state V b a) (bot_do A G (botclient_New (botBaseURL tb) u p) mth path [] out)
    (\<lambda>_. at_state V b (obeyed tb (bot_request (botclient_New (botBaseURL tb) u p) mth path []) a))"
proof -
  have "http_NewRequest G mth (bcl_baseURL (botclient_New (botBaseURL tb) u p) @ path) = None"
    using B by (simp add: bot_answers_def botclient_New_def)
  then show ?thesis
    unfolding bot_do_def by (simp, intro holds_bind [OF bot_do_run [OF B refl]] holds_return) simp
qed

lemma bot_do_ok:
  assumes B: "bot_answers A G tb V" and rq: "rq = bot_request (botclient_New (botBaseURL tb) u p) mth path []"
    and ans: "\<And>e. at_state V b a e \<Longrightarrow> \<exists>full. answered (fst (api_HTTPDo A rq e)) full \<and>
      (case out of None \<Rightarrow> P None | Some dec \<Rightarrow> \<exists>j x. json_Unmarshal G full = Inr j \<and> dec j = Inr x \<and> P (Some x))"
  shows "holds (at_state V b a) (bot_do A G (botclient_New (botBaseURL tb) u p) mth path [] out)
    (\<lambda>r e. (\<exists>x. r = Inr x \<and> P x) \<and> at_state V b (obeyed tb rq a) e)"
proof -
  have "http_NewRequest G mth (bcl_baseURL (botclient_New (botBaseURL tb) u p) @ path) = None"
    using B by (simp add: bot_answers_def botclient_New_def)
  then show ?thesis
    unfolding bot_do_def rq [symmetric]
    by (simp, intro holds_bind [OF bot_do_run [OF B rq]] holds_return)
       (use ans in \<open>fastforce simp: answered_def Let_def split: option.splits\<close>)
qed

lemma obeyed_request [simp]:
  "obeyed tb (bot_request (botclient_New (botBaseURL tb) u p) ''GET'' path body) a = a"
  "obeyed tb (bot_request (botclient_New (botBaseURL tb) u p) ''POST'' ''/api/v1/stop'' body) a = ''stopped''"
  "obeyed tb (bot_request (botclient_New (botBaseURL tb) u p) ''POST'' ''/api/v1/start'' body) a = ''running''"
  by (simp_all add: obeyed_def bot_request_def botclient_New_def)

lemma request_URL [simp]: "rq_URL (bot_request (botclient_New url u p) mth path body) = url @ path"
  by (simp add: bot_request_def botclient_New_def)

text \<open>A reachable bot is stopped, started and asked; the calls for the optional fields change nothing.\<close>

lemma command_at:
  assumes B: "bot_answers A G tb V" and path: "path \<in> {''/api/v1/ping'', ''/api/v1/start'', ''/api/v1/stop''}"
  shows "holds (at_state V b a) (do {
      r \<leftarrow> bot_do A G (botclient_New (botBaseURL tb) u p) mth path [] (None :: (json \<Rightarrow> goerr + unit) option);
      State_Monad.return (discard r) })
    (\<lambda>r e. r = None \<and> at_state V b (obeyed tb (bot_request (botclient_New (botBaseURL tb) u p) mth path []) a) e)"
proof -
  have "\<exists>full. answered (fst (api_HTTPDo A (bot_request (botclient_New (botBaseURL tb) u p) mth path []) e)) full" for e
    using B path by (auto simp: bot_answers_def)
  then show ?thesis
    by (intro holds_bind [OF bot_do_ok [OF B refl, where P = "\<lambda>_. True"]] holds_return) (auto simp: discard_def)
qed

lemma commands_at:
  assumes B: "bot_answers A G tb V"
  shows "holds (at_state V b a) (bot_Stop A G (botclient_New (botBaseURL tb) u p)) (\<lambda>r e. r = None \<and> at_state V b ''stopped'' e)"
    and "holds (at_state V b a) (bot_Start A G (botclient_New (botBaseURL tb) u p)) (\<lambda>r e. r = None \<and> at_state V b ''running'' e)"
    and "holds (at_state V b a) (bot_Ping A G (botclient_New (botBaseURL tb) u p)) (\<lambda>r e. r = None \<and> at_state V b a e)"
  unfolding bot_Stop_def bot_Start_def bot_Ping_def by (rule holds_post [OF command_at [OF B]]; simp)+

lemma ShowConfig_at:
  assumes B: "bot_answers A G tb V"
  shows "holds (at_state V b a) (bot_ShowConfig A G (botclient_New (botBaseURL tb) u p)) (\<lambda>r e. (\<exists>d. r = Inr (a, d)) \<and> at_state V b a e)"
proof -
  have "\<exists>full j d. answered (fst (api_HTTPDo A (bot_request (botclient_New (botBaseURL tb) u p) ''GET'' ''/api/v1/show_config'' []) e)) full
      \<and> json_Unmarshal G full = Inr j \<and> dec_pair (dec_string ''state'') (dec_bool ''dry_run'') j = Inr (bv_actual V e, d)" for e
    using B by (simp add: bot_answers_def)
  then show ?thesis
    unfolding bot_ShowConfig_def
    by (intro holds_bind [OF bot_do_ok [OF B refl, where P = "\<lambda>x. \<exists>d. x = Some (a, d)"]] holds_return)
       (fastforce simp: typed_def)+
qed

lemma Version_at:
  assumes B: "bot_answers A G tb V"
  shows "holds (at_state V b a) (bot_Version A G (botclient_New (botBaseURL tb) u p)) (\<lambda>r e. (\<exists>v. r = Inr v) \<and> at_state V b a e)"
proof -
  have "\<exists>full j v. answered (fst (api_HTTPDo A (bot_request (botclient_New (botBaseURL tb) u p) ''GET'' ''/api/v1/version'' []) e)) full
      \<and> json_Unmarshal G full = Inr j \<and> dec_single (dec_string ''version'') j = Inr v" for e
    using B by (simp add: bot_answers_def)
  then show ?thesis
    unfolding bot_Version_def
    by (intro holds_bind [OF bot_do_ok [OF B refl, where P = "\<lambda>x. x \<noteq> None"]] holds_return)
       (fastforce simp: typed_def)+
qed

lemma Optional_at:
  assumes B: "bot_answers A G tb V"
  shows "keeps_state (at_state V b a) (bot_Count A G (botclient_New (botBaseURL tb) u p))"
    "keeps_state (at_state V b a) (bot_Profit A G (botclient_New (botBaseURL tb) u p))"
    "keeps_state (at_state V b a) (bot_Balance A G (botclient_New (botBaseURL tb) u p))"
  unfolding bot_Count_def bot_Profit_def bot_Balance_def
  by (intro holds_bind [OF bot_do_at [OF B]] holds_return, simp)+

lemma credentials_at:
  assumes O: "obedient A G key tb V"
  shows "holds (at_state V b a) (resolveCredentials A t) (\<lambda>r e. (\<exists>ex u p. r = (ex, Inr (u, p))) \<and> at_state V b a e)"
proof -
  have conf: "holds (at_state V b a) (do_GetTradeBotConfig A k)
      (\<lambda>r e. (\<exists>c s. r = Inr c \<and> tcs_APIServer (tc_Spec c) = Some s) \<and> at_state V b a e)" for k
    unfolding do_GetTradeBotConfig_def by (rule holds_call) (use obedientD(6) [OF O] keeps_at(3) [OF O] in fast)
  have sec: "holds (at_state V b a) (do_GetSecret A k) (\<lambda>r e. (\<exists>s. r = Inr s) \<and> at_state V b a e)" for k
    unfolding do_GetSecret_def by (rule holds_call) (use obedientD(7) [OF O] keeps_at(4) [OF O] in fast)
  have data: "holds (at_state V b a) (GetSecretData A ns n) (\<lambda>r e. (\<exists>s. r = Inr s) \<and> at_state V b a e)" for ns n
    unfolding GetSecretData_def
    by (rule holds_if, rule holds_return, simp, intro holds_bind [OF sec] holds_return) auto
  show ?thesis
    unfolding resolveCredentials_def
    by (rule holds_bind [OF conf], rule holds_assume, elim exE conjE, simp add: Let_def,
        intro conjI impI holds_return holds_bind [OF data]) auto
qed

section \<open>A poll\<close>

definition confirmed :: "klib \<Rightarrow> betatradebot \<Rightarrow> string \<Rightarrow> betatradebot \<Rightarrow> bool" where
  "confirmed K b a b' \<longleftrightarrow> btb_Spec b' = btb_Spec b \<and> reachable_in K b' \<and> observed_in b' = a"

lemma pollWithClient_at:
  assumes B: "bot_answers A G tb V"
  shows "holds (at_state V b a) (pollWithClient A G (botclient_New (botBaseURL tb) u p) t)
    (\<lambda>r e. (\<exists>s c x. r = (Some s, c, x) \<and> bs_State s = a \<and> cd_Type c = ConditionBotReachable \<and> cd_Status c = ConditionTrue)
      \<and> at_state V b a e)"
  unfolding pollWithClient_def Let_def
  by (rule holds_bind [OF commands_at(3) [OF B]], rule holds_assume, simp,
      rule holds_bind [OF ShowConfig_at [OF B]], rule holds_assume, elim exE, simp,
      rule holds_bind [OF Version_at [OF B]], rule holds_assume, elim exE, simp,
      intro holds_bind [OF Optional_at(1) [OF B]] holds_bind [OF Optional_at(2) [OF B]] holds_bind [OF Optional_at(3) [OF B]] holds_return)
     (simp add: mk_cond_gen_def)

lemma poll_at:
  assumes O: "obedient A G key tb V" and t: "tb_meta t = tb_meta tb"
  shows "holds (at_state V b a) (poll A G t)
    (\<lambda>r e. (\<exists>s c x y. r = (Some s, c, x, y) \<and> bs_State s = a \<and> cd_Type c = ConditionBotReachable \<and> cd_Status c = ConditionTrue)
      \<and> at_state V b a e)"
proof -
  from t have url: "botBaseURL t = botBaseURL tb" by (simp add: botBaseURL_def)
  show ?thesis
    unfolding poll_def url
    by (rule holds_bind [OF credentials_at [OF O]], rule holds_assume, elim exE, simp,
        intro holds_bind [OF pollWithClient_at [OF obedientD(1) [OF O]]] holds_return) auto
qed

lemma poll_status_confirms:
  assumes K: "klib_laws K" and "bs_State s = a" "cd_Type c = ConditionBotReachable" "cd_Status c = ConditionTrue"
  shows "confirmed K b a (patched_to t (poll_status K (Some s) c) n b)"
  using assms by (simp add: confirmed_def reachable_seen poll_status_def seen_set observed_in_def mergeBotStatus_def bot_to_beta_def)

lemma pollOne_at:
  assumes O: "obedient A G key tb V" and K: "klib_laws K" "exact_equal K" and key: "key_of_meta (tb_meta tb) = key"
  shows "holds (at_state V b a) (pollOne A K G key p) (\<lambda>_ e. \<exists>b'. confirmed K b a b' \<and> at_state V b' a e)"
proof -
  have get: "holds (at_state V b a) (do_GetTradeBot A key)
      (\<lambda>r e. (\<exists>t. r = Inr t \<and> tb_meta t = tb_meta tb) \<and> at_state V b a e)"
    unfolding do_GetTradeBot_def by (rule holds_call) (use obedientD(2) [OF O] keeps_at(1) [OF O] in fast)
  have time: "keeps_state (at_state V b a) (do_Now A)"
    unfolding do_Now_def by (intro state_intro keeps_at [OF O])
  have gauges: "keeps_state (at_state V b a) (recordMetrics A G key t st c ex y p)" for t st c ex y p
    unfolding recordMetrics_def set_opt_def Let_def by (intro state_intro time)
  have patch: "holds (at_state V b a) (patchTradeBotStatus A K t (poll_status K (Some s) c)) (\<lambda>_ e. \<exists>b'. confirmed K b a b' \<and> at_state V b' a e)"
    if "tb_meta t = tb_meta tb" "bs_State s = a" "cd_Type c = ConditionBotReachable" "cd_Status c = ConditionTrue" for t s c
  proof (rule holds_post [OF patch_at [OF O K(2)]])
    show "key_of_meta (tb_meta t) = key" using that key by simp
  qed (use poll_status_confirms [OF K(1) that(2-4)] in blast)
  have rest: "holds (at_state V b a) (do {
        out \<leftarrow> poll A G t;
        case out of (fresh, reachable, exchange, balance) \<Rightarrow> do {
          p \<leftarrow> recordMetrics A G key t fresh reachable exchange balance p;
          now \<leftarrow> do_Now A;
          _ \<leftarrow> patchTradeBotStatus A K t (poll_status K fresh reachable);
          State_Monad.return (f reachable now p) } })
      (\<lambda>_ e. \<exists>b'. confirmed K b a b' \<and> at_state V b' a e)" if "tb_meta t = tb_meta tb" for t and f :: "condition \<Rightarrow> gotime \<Rightarrow> pollmap \<Rightarrow> pollmap"
    by (rule holds_bind [OF poll_at [OF O that]], rule holds_assume, elim exE conjE, simp only: prod.case,
        rule holds_bind [OF gauges], rule holds_bind [OF time], rule holds_bind [OF patch [OF that]])
       (auto intro: holds_return)
  show ?thesis
    unfolding pollOne_def Let_def
    by (rule holds_bind [OF get], rule holds_assume, elim exE conjE, simp only: sum.case, rule rest)
qed

section \<open>A reconcile\<close>

text \<open>What a reconcile that finds the bot reachable leaves behind: a bot in the wrong state has been told, one in the
  right state is left alone and reported as expected.\<close>

definition aligned :: "klib \<Rightarrow> betatradebot \<Rightarrow> string \<Rightarrow> betatradebot \<Rightarrow> string \<Rightarrow> bool" where
  "aligned K b a b' a' \<longleftrightarrow> btb_Spec b' = btb_Spec b \<and>
     (if state_matches (desired_state b) (observed_in b)
      then a' = a \<and> state_seen K b' = Some (ConditionTrue, ReasonAsExpected, [])
      else a' = told (desired_state b))"

definition reads_of :: "tradebot \<Rightarrow> betatradebot \<Rightarrow> tradebot \<Rightarrow> bool" where
  "reads_of tb b t \<longleftrightarrow> tb_meta t = tb_meta tb \<and> conds t = bst_Conditions (btb_Status b)
     \<and> st_Bot (tb_Status t) = map_option bot_from_beta (bst_Bot (btb_Status b))"

lemma reads_observed: "reads_of tb b t \<Longrightarrow> observed_state t = observed_in b"
  by (simp add: reads_of_def observed_state_def observed_in_def bot_from_beta_def split: option.split)

lemma set_state_cond_at:
  assumes O: "obedient A G key tb V" and K: "klib_laws K" "exact_equal K" and t: "key_of_meta (tb_meta t) = key"
  shows "holds (at_state V b a) (set_state_cond A K t st rs m)
    (\<lambda>r e. \<exists>b'. btb_Spec b' = btb_Spec b \<and> state_seen K b' = Some (st, rs, m) \<and> at_state V b' a e)"
proof -
  have "state_seen K (patched_to t (\<lambda>now. set_cond K now (mk_cond ConditionStateReconciled st rs m)) n b) = Some (st, rs, m)" for n
    by (simp add: seen_set [OF K(1)] mk_cond_def)
  then show ?thesis
    unfolding set_state_cond_def by (intro holds_bind [OF patch_at [OF O K(2) t]] holds_return) force
qed

lemma reconcileStateChange_at:
  assumes O: "obedient A G key tb V" and K: "klib_laws K" "exact_equal K" and t: "tb_meta t = tb_meta tb" "key_of_meta (tb_meta tb) = key"
  shows "holds (at_state V b a) (reconcileStateChange A K G R t (botclient_New (botBaseURL t) u p) d)
    (\<lambda>r e. \<exists>b'. btb_Spec b' = btb_Spec b \<and> at_state V b' (told d) e)"
proof -
  from t have url: "botBaseURL t = botBaseURL tb" by (simp add: botBaseURL_def)
  have send: "holds (at_state V b a)
      (if d = TradeBotStateStopped then bot_Stop A G (botclient_New (botBaseURL tb) u p) else bot_Start A G (botclient_New (botBaseURL tb) u p))
      (\<lambda>r e. r = None \<and> at_state V b (told d) e)"
    using commands_at [OF obedientD(1) [OF O]] by (simp add: told_def)
  have ev: "keeps_state (at_state V b (told d)) (record_event x y z m)" for x y z m by (intro state_intro)
  have report: "holds (at_state V b (told d)) (do {
        _ \<leftarrow> record_event x y z m;
        patchErr \<leftarrow> set_state_cond A K t st rs m';
        State_Monad.return (q, patchErr) }) (\<lambda>r e. \<exists>b'. btb_Spec b' = btb_Spec b \<and> at_state V b' (told d) e)"
    for x y z m st rs m' and q :: duration
    by (rule holds_bind [OF ev], rule holds_bind [OF set_state_cond_at [OF O K]], use t in simp, rule holds_return) auto
  show ?thesis
    unfolding reconcileStateChange_def url Let_def
    by (rule holds_bind [OF send], rule holds_assume, simp only: option.case, rule report)
qed

lemma reconcileState_at:
  assumes O: "obedient A G key tb V" and K: "klib_laws K" "exact_equal K" and key: "key_of_meta (tb_meta tb) = key"
    and t: "reads_of tb b0 t" "reachable_in K b0" "btb_Spec b = btb_Spec b0"
  shows "holds (at_state V b a) (reconcileState A K G R t b) (\<lambda>r e. aligned K b0 a (bv_stored V e) (bv_actual V e))"
proof -
  have meta: "tb_meta t = tb_meta tb" using t(1) by (simp add: reads_of_def)
  have reach: "IsStatusConditionTrue K (conds t) ConditionBotReachable" using t(1,2) by (simp add: reads_of_def reachable_in_def)
  have d: "desired_state b = desired_state b0" by (rule desired_spec) (rule t(3))
  show ?thesis
  proof (cases "state_matches (desired_state b0) (observed_in b0)")
    case True
    then show ?thesis
      unfolding reconcileState_def Let_def d reads_observed [OF t(1)] using reach
      by (simp, intro holds_bind [OF set_state_cond_at [OF O K]] holds_return)
         (use meta key t(3) in \<open>auto simp: aligned_def\<close>)
  next
    case False
    show ?thesis
      unfolding reconcileState_def Let_def d reads_observed [OF t(1)]
      by (simp add: reach False, rule holds_bind [OF credentials_at [OF O]], rule holds_assume, elim exE, simp,
          rule holds_post [OF reconcileStateChange_at [OF O K meta key]])
         (use False t(3) in \<open>auto simp: aligned_def\<close>)
  qed
qed

lemma requeue_at:
  assumes O: "obedient A G key tb V" and K: "klib_laws K" "exact_equal K" and key: "key_of_meta (tb_meta tb) = key"
    and t: "reads_of tb b0 t" "reachable_in K b0" "btb_Spec b = btb_Spec b0"
  shows "holds (at_state V b a) (reconcileStateAndComputeRequeue A K G R key t dflt) (\<lambda>r e. aligned K b0 a (bv_stored V e) (bv_actual V e))"
proof -
  have get: "holds (at_state V b a) (do_GetBetaTradeBot A key) (\<lambda>r e. r = Inr b \<and> at_state V b a e)"
    unfolding do_GetBetaTradeBot_def by (rule holds_call) (use obedientD(3) [OF O] keeps_at(2) [OF O] in auto)
  show ?thesis
    unfolding reconcileStateAndComputeRequeue_def
    by (rule holds_bind [OF get], rule holds_assume, simp only: sum.case,
        rule holds_bind [OF reconcileState_at [OF O K key t]], rule holds_return)
qed

text \<open>A failed reconcile says so.\<close>

lemma fail_says: "holds P (failReconcile A K R t ty rs m (Some e)) (\<lambda>r _. rr_Err r \<noteq> None)"
proof -
  have patch: "holds P (patchTradeBotStatus A K t mu) (\<lambda>_ _. True)" for mu by (simp add: holds_def)
  have tail: "holds (\<lambda>_. True) (do { _ \<leftarrow> record_event x y z w; _ \<leftarrow> emit ev; State_Monad.return (mk_result d (Some e)) })
      (\<lambda>r _. rr_Err r \<noteq> None)" for x y z w ev d
    by (intro holds_bind [where R = "\<lambda>_ _. True"] holds_return) (simp_all add: holds_def mk_result_def)
  show ?thesis
    unfolding failReconcile_def
    by (rule holds_bind [OF patch], rule holds_case_sum, rule holds_return, simp add: mk_result_def, rule tail)
qed

text \<open>The success status keeps what is known of the bot.\<close>

lemma success_reads:
  assumes K: "klib_laws K" and t: "tb_meta t = tb_meta tb"
  shows "reads_of tb (patched_to t (success_mutate K w m out) n b) (success_mutate K w m out n (copyTradeBotStatusFromBeta t b))"
    "reachable_in K (patched_to t (success_mutate K w m out) n b) = reachable_in K b"
    "observed_in (patched_to t (success_mutate K w m out) n b) = observed_in b"
proof -
  have bot: "st_Bot (tb_Status (success_mutate K w m out n t')) = st_Bot (tb_Status t')" for t' by (subst success_status) simp
  have meta: "tb_meta (success_mutate K w m out n t') = tb_meta t'" for t'
    by (simp add: success_mutate_def Let_def with_phase_def set_cond_def)
  show "reads_of tb (patched_to t (success_mutate K w m out) n b) (success_mutate K w m out n (copyTradeBotStatusFromBeta t b))"
    by (simp add: reads_of_def meta t)
  show "reachable_in K (patched_to t (success_mutate K w m out) n b) = reachable_in K b"
    by (simp add: reachable_seen [OF K] success_seen [OF K])
  show "observed_in (patched_to t (success_mutate K w m out) n b) = observed_in b"
    by (simp add: observed_in_def bot)
qed

lemma aligned_cong:
  "\<lbrakk>aligned K b0 a b' a'; btb_Spec b0 = btb_Spec b; observed_in b0 = observed_in b\<rbrakk> \<Longrightarrow> aligned K b a b' a'"
  using desired_spec [of b0 b] by (simp add: aligned_def)

abbreviation "aligns V K b a \<equiv> \<lambda>r e. rr_Err r = None \<longrightarrow> aligned K b a (bv_stored V e) (bv_actual V e)"

lemma reconcile_status_at:
  assumes O: "obedient A G key tb V" and K: "klib_laws K" "exact_equal K" and key: "key_of_meta (tb_meta tb) = key"
    and t: "tb_meta t = tb_meta tb" and b: "reachable_in K b"
  shows "holds (at_state V b a) (reconcile_status A K G R key t cw out) (aligns V K b a)"
proof -
  have work: "keeps_state (at_state V b a) (computeWorkloadStatus A t)"
    unfolding computeWorkloadStatus_def do_GetStatefulSet_def by (intro state_intro keeps_at [OF O])
  have fail: "holds P (failReconcile A K R t ty rs m (Some e)) (aligns V K b a)" for P ty rs m e
    by (rule holds_post [OF fail_says]) auto
  let ?m = "\<lambda>w. success_mutate K w (if cw \<noteq> [] then cw else ws_message w) out"
  have state: "holds (at_state V (patched_to t (?m w) n b) a)
      (reconcileStateAndComputeRequeue A K G R key (?m w n (copyTradeBotStatusFromBeta t b)) d)
      (\<lambda>r e. aligned K b a (bv_stored V e) (bv_actual V e))" for w n d
    by (rule holds_post [OF requeue_at [OF O K key success_reads(1) [OF K(1) t] _ refl]])
       (use b success_reads(2,3) [OF K(1) t] in \<open>auto intro: aligned_cong\<close>)
  have events: "keeps_state P (recordLifecycleEvents K R t' x)" for P t' x
    unfolding recordLifecycleEvents_def by (intro state_intro)
  have tail: "holds (\<lambda>e. \<exists>n. r = Inr (?m w n (copyTradeBotStatusFromBeta t b)) \<and> at_state V (patched_to t (?m w) n b) a e)
      (case r of Inl e \<Rightarrow> State_Monad.return (mk_result (5 * Second) (Some e))
         | Inr tb' \<Rightarrow> do {
             _ \<leftarrow> recordLifecycleEvents K R tb' x;
             s \<leftarrow> reconcileStateAndComputeRequeue A K G R key tb' d;
             State_Monad.return (case s of (d, Some e) \<Rightarrow> mk_result (5 * Second) (Some e) | (d, None) \<Rightarrow> mk_result d None) })
      (aligns V K b a)" for r w x d
    by (rule holds_ex, rule holds_assume, simp only: sum.case, rule holds_bind [OF events], rule holds_bind [OF state], rule holds_return) simp
  show ?thesis
    unfolding reconcile_status_def Let_def
    by (rule holds_bind [OF work], rule holds_case_sum, rule fail,
        rule holds_bind [OF patch_at [OF O K(2)]], use t key in simp, rule tail)
qed

lemma parts_at:
  assumes O: "obedient A G key tb V"
  shows "keeps_state (at_state V b a) (fetchReferencedResources A t ns)" "keeps_state (at_state V b a) (do_ListFreqUI A ns)"
    "keeps_state (at_state V b a) (BuildConfig A G n ns sp c)" "keeps_state (at_state V b a) (reconcileResources A K R t strat cd fs)"
proof -
  show "keeps_state (at_state V b a) (fetchReferencedResources A t ns)"
    unfolding fetchReferencedResources_def do_GetTradeBotConfig_def do_GetStrategy_def by (intro state_intro keeps_at [OF O])
  show "keeps_state (at_state V b a) (do_ListFreqUI A ns)"
    unfolding do_ListFreqUI_def by (intro state_intro keeps_at [OF O])
  show "keeps_state (at_state V b a) (BuildConfig A G n ns sp c)"
    unfolding BuildConfig_def GetSecretData_def notificationSecretData_def resolveAPIServerJWTSecretKey_def Let_def
      existingAPIServerJWTSecretKey_def generateAPIServerJWTSecretKey_def do_GetSecret_def do_RandRead_def
    by (intro state_intro keeps_at [OF O])
  show "keeps_state (at_state V b a) (reconcileResources A K R t strat cd fs)"
    unfolding reconcileResources_def apply_or_def apply_workload_def recordConfigRestartEvent_def statefulSetTemplateHash_def
      do_GetStatefulSet_def Apply_def applyServerSide_def do_Patch_def Let_def
    by (intro state_intro keeps_at [OF O])
qed

lemma Reconcile_at:
  assumes O: "obedient A G key tb V" and K: "klib_laws K" "exact_equal K" and M: "managed K key tb" and b: "reachable_in K b"
  shows "holds (at_state V b a) (Reconcile A K G R key) (aligns V K b a)"
proof -
  have key: "key_of_meta (tb_meta tb) = key" using M by (simp add: managed_def)
  have get: "holds (at_state V b a) (do_GetTradeBot A key)
      (\<lambda>r e. (\<exists>t. r = Inr t \<and> tb_meta t = tb_meta tb \<and> tb_Spec t = tb_Spec tb) \<and> at_state V b a e)"
    unfolding do_GetTradeBot_def by (rule holds_call) (use obedientD(2) [OF O] keeps_at(1) [OF O] in fast)
  have fail: "holds P (failReconcile A K R t ty rs m (Some e)) (aligns V K b a)" for P t ty rs m e
    by (rule holds_post [OF fail_says]) auto
  note parts = parts_at [OF O]
  have live: "holds (at_state V b a) (reconcile_live A K G R key t) (aligns V K b a)"
    if "tb_meta t = tb_meta tb" "tb_Spec t = tb_Spec tb" for t
  proof -
    have cmd: "\<not> (TrimSpace (tb_FreqtradeCommand (tb_Spec t)) \<noteq> [] \<and> TrimSpace (tb_FreqtradeCommand (tb_Spec t)) \<noteq> ''trade'')"
      using M that by (simp add: managed_def isTradeMode_def Let_def)
    show ?thesis
      unfolding reconcile_live_def Let_def if_not_P [OF cmd]
      by (rule holds_bind [OF parts(1)], rule holds_case_sum, rule fail,
          rule holds_bind [OF parts(2)], rule holds_case_sum, rule holds_return, simp add: mk_result_def,
          rule holds_bind [OF parts(3)], rule holds_bind [OF state_rules(3)], rule holds_case_sum, rule fail,
          rule holds_bind [OF parts(4)], rule holds_case_sum, rule fail, rule reconcile_status_at [OF O K key that(1) b])
  qed
  show ?thesis
    unfolding Reconcile_def
    by (rule holds_bind [OF get], rule holds_assume, elim exE conjE) (use M live in \<open>simp add: managed_def\<close>)
qed

section \<open>Poll, reconcile, poll, reconcile\<close>

definition alignment_round ::
  "'e api \<Rightarrow> klib \<Rightarrow> golib \<Rightarrow> reconciler \<Rightarrow> nname \<Rightarrow> pollmap \<Rightarrow> ('e, reconcile_result \<times> reconcile_result) op" where
  "alignment_round A K G R key p = do {
     p \<leftarrow> pollOne A K G key p;
     r \<leftarrow> Reconcile A K G R key;
     _ \<leftarrow> pollOne A K G key p;
     r' \<leftarrow> Reconcile A K G R key;
     State_Monad.return (r, r') }"

definition in_state :: "'e botview \<Rightarrow> klib \<Rightarrow> string \<Rightarrow> 'e \<Rightarrow> bool" where
  "in_state V K d e \<longleftrightarrow> bv_actual V e = told d \<and> desired_state (bv_stored V e) = d
     \<and> state_seen K (bv_stored V e) = Some (ConditionTrue, ReasonAsExpected, [])"

lemma matches_told: "d \<in> {TradeBotStateRunning, TradeBotStateStopped} \<Longrightarrow> state_matches d a \<longleftrightarrow> a = told d"
  by (elim insertE) (simp_all add: state_matches_def told_def TradeBotStateRunning_def TradeBotStateStopped_def)

lemma round_aligns:
  assumes O: "obedient A G key tb V" and K: "klib_laws K" "exact_equal K" and M: "managed K key tb"
    and d: "desired_state b \<in> {TradeBotStateRunning, TradeBotStateStopped}"
  shows "holds (at_state V b a) (alignment_round A K G R key p)
    (\<lambda>(r, r') e. rr_Err r = None \<longrightarrow> rr_Err r' = None \<longrightarrow> in_state V K (desired_state b) e)"
proof -
  let ?d = "desired_state b"
  have key: "key_of_meta (tb_meta tb) = key" using M by (simp add: managed_def)
  note poll = pollOne_at [OF O K key] and rec = Reconcile_at [OF O K M]
  have told1: "holds (at_state V b1 a) (Reconcile A K G R key)
      (\<lambda>r e. rr_Err r = None \<longrightarrow> (\<exists>b2. btb_Spec b2 = btb_Spec b \<and> at_state V b2 (told ?d) e))" if b1: "confirmed K b a b1" for b1
  proof (rule holds_post [OF rec])
    show "reachable_in K b1" using b1 by (simp add: confirmed_def)
  qed (use b1 matches_told [OF d, of a] desired_spec [of b1 b] in \<open>auto simp: confirmed_def aligned_def split: if_splits\<close>)
  have last: "holds (at_state V b1 (told ?d)) (Reconcile A K G R key) (\<lambda>r e. rr_Err r = None \<longrightarrow> in_state V K ?d e)"
    if b1: "confirmed K b2 (told ?d) b1" "btb_Spec b2 = btb_Spec b" for b1 b2
  proof (rule holds_post [OF rec])
    show "reachable_in K b1" using b1 by (simp add: confirmed_def)
  next
    fix r e assume "rr_Err r = None \<longrightarrow> aligned K b1 (told ?d) (bv_stored V e) (bv_actual V e)"
    moreover from b1 have "desired_state b1 = ?d" "btb_Spec b1 = btb_Spec b" "observed_in b1 = told ?d"
      using desired_spec [of b1 b] by (simp_all add: confirmed_def)
    ultimately show "rr_Err r = None \<longrightarrow> in_state V K ?d e"
      using matches_told [OF d, of "told ?d"] desired_spec [of "bv_stored V e" b] by (simp add: aligned_def in_state_def)
  qed
  let ?rest = "\<lambda>r p. do { _ \<leftarrow> pollOne A K G key p; r' \<leftarrow> Reconcile A K G R key; State_Monad.return (r, r') }"
  let ?post = "\<lambda>(r, r') e. rr_Err r = None \<longrightarrow> rr_Err r' = None \<longrightarrow> in_state V K ?d e"
  have half: "holds (\<lambda>e. \<exists>b2. btb_Spec b2 = btb_Spec b \<and> at_state V b2 (told ?d) e) (?rest r p) ?post" for r p
    by (rule holds_ex, rule holds_assume, rule holds_bind [OF poll], rule holds_ex, rule holds_assume,
        rule holds_bind [OF last], assumption, assumption, rule holds_return) simp
  have skip: "holds P (?rest r p) ?post" if "rr_Err r \<noteq> None" for P r p
    by (intro holds_bind [where R = "\<lambda>_ _. True"] holds_return) (use that in \<open>auto simp: holds_def\<close>)
  have both: "holds (\<lambda>e. rr_Err r = None \<longrightarrow> (\<exists>b2. btb_Spec b2 = btb_Spec b \<and> at_state V b2 (told ?d) e)) (?rest r p) ?post" for r p
    by (cases "rr_Err r = None") (simp_all only: simp_thms half skip not_False_eq_True)
  show ?thesis
    unfolding alignment_round_def
    by (rule holds_bind [OF poll], rule holds_ex, rule holds_assume, rule holds_bind [OF told1], assumption, rule both)
qed

end
