(* ===== verification/SteadyStatus.thy ===== *)
theory SteadyStatus
  imports StateAlignment
begin

text \<open>A status that is already right is not written again. \<open>meta.SetStatusCondition\<close> leaves a list alone that has the condition
  with the same status, reason, message and generation; so the mutations of the reconciler are idempotent on the stored
  object, and the comparison in \<open>PatchStatus\<close> keeps a steady bot from being rewritten on every reconcile.\<close>

section \<open>Conditions\<close>

locale steady_conditions = meta_conditions +
  assumes set_unchanged:
    "\<lbrakk>find_cond cs (cd_Type c) = Some d; cd_Status d = cd_Status c; cd_Reason d = cd_Reason c; cd_Message d = cd_Message c;
      cd_ObservedGeneration d = cd_ObservedGeneration c\<rbrakk> \<Longrightarrow> set_cond now c cs = cs"
begin

definition noted :: "condition list \<Rightarrow> condition \<Rightarrow> bool" where
  "noted cs c \<longleftrightarrow> (\<exists>d. find_cond cs (cd_Type c) = Some d \<and> cd_Status d = cd_Status c \<and> cd_Reason d = cd_Reason c
     \<and> cd_Message d = cd_Message c \<and> cd_ObservedGeneration d = cd_ObservedGeneration c)"

lemma set_noted: "noted cs c \<Longrightarrow> set_cond now c cs = cs"
  using set_unchanged by (auto simp: noted_def)

lemma noted_set: "noted (set_cond now c cs) c" "\<lbrakk>noted cs c; cd_Type c \<noteq> cd_Type c'\<rbrakk> \<Longrightarrow> noted (set_cond now c' cs) c"
  using find_set_same [of now c cs] find_set_other [of "cd_Type c" c' now cs] by (auto simp: noted_def)

text \<open>A batch of conditions of distinct types, set one after the other.\<close>

definition set_all :: "gotime \<Rightarrow> condition list \<Rightarrow> condition list \<Rightarrow> condition list" where
  "set_all now cs0 cs = fold (set_cond now) cs0 cs"

lemma noted_set_all: "\<lbrakk>noted cs c; cd_Type c \<notin> cd_Type ` set cs0\<rbrakk> \<Longrightarrow> noted (set_all now cs0 cs) c"
  unfolding set_all_def by (induction cs0 arbitrary: cs) (auto intro: noted_set(2))

lemma set_all_noted: "\<lbrakk>distinct (map cd_Type cs0); c \<in> set cs0\<rbrakk> \<Longrightarrow> noted (set_all now cs0 cs) c"
proof (induction cs0 arbitrary: cs)
  case (Cons x xs)
  then show ?case
    using noted_set_all [OF noted_set(1), of x xs now now cs] by (auto simp: set_all_def)
qed simp

lemma set_all_fixed: "(\<And>c. c \<in> set cs0 \<Longrightarrow> noted cs c) \<Longrightarrow> set_all now cs0 cs = cs"
  unfolding set_all_def by (induction cs0) (simp_all add: set_noted)

lemma set_all_again: "distinct (map cd_Type cs0) \<Longrightarrow> set_all now' cs0 (set_all now cs0 cs) = set_all now cs0 cs"
  by (intro set_all_fixed set_all_noted)

end

abbreviation steady_klib :: "klib \<Rightarrow> bool" where
  "steady_klib K \<equiv> steady_conditions (SetStatusCondition K) (FindStatusCondition K) (IsStatusConditionTrue K)
     \<and> (\<forall>b. DeepEqualTradeBot K b b)"

lemma ref_set_unchanged:
  "\<lbrakk>ref_FindStatusCondition cs (cd_Type c) = Some d; cd_Status d = cd_Status c; cd_Reason d = cd_Reason c; cd_Message d = cd_Message c;
    cd_ObservedGeneration d = cd_ObservedGeneration c\<rbrakk> \<Longrightarrow> ref_SetStatusCondition now c cs = cs"
  by (induction cs) (auto simp: ref_FindStatusCondition_def split: if_splits)

interpretation ref_steady: steady_conditions ref_SetStatusCondition ref_FindStatusCondition ref_IsStatusConditionTrue
  by unfold_locales (rule ref_set_unchanged)

lemma ref_steady_klib: "steady_klib ref_klib"
  using ref_steady.steady_conditions_axioms by (simp add: ref_klib_def)

section \<open>The reconciler's mutations\<close>

definition set_batch :: "klib \<Rightarrow> gotime \<Rightarrow> condition list \<Rightarrow> condition list \<Rightarrow> condition list" where
  "set_batch K now cs0 cs = fold (SetStatusCondition K now) cs0 cs"

lemma set_batch_again:
  assumes "steady_klib K" "distinct (map cd_Type cs0)"
  shows "set_batch K now' cs0 (set_batch K now cs0 cs) = set_batch K now cs0 cs"
  using steady_conditions.set_all_again [OF conjunct1 [OF assms(1)] assms(2)]
  unfolding steady_conditions.set_all_def [OF conjunct1 [OF assms(1)]] set_batch_def .

definition idempotent_patch :: "tradebot \<Rightarrow> (gotime \<Rightarrow> tradebot \<Rightarrow> tradebot) \<Rightarrow> bool" where
  "idempotent_patch t m \<longleftrightarrow> (\<forall>n n' b. patched_to t m n' (patched_to t m n b) = patched_to t m n b)"

text \<open>It is enough that the mutation leaves a status alone that it has produced.\<close>

lemma idempotent_patchI:
  assumes "\<And>n n' b. let t' = copyTradeBotStatusFromBeta t (patched_to t m n b) in tb_Status (m n' t') = tb_Status t'"
  shows "idempotent_patch t m"
proof -
  have "patched_to t m n' b' = b'" if b': "b' = patched_to t m n b" for n n' b b'
  proof -
    have "copyTradeBotStatusToBeta b' (m n' (copyTradeBotStatusFromBeta t b')) = b'"
      using assms [of n b n'] unfolding b' [symmetric] by (simp add: Let_def copyTradeBotStatusToBeta_def) (simp add: copyTradeBotStatusFromBeta_def)
    moreover have "tradebot_SetObservedGeneration (om_Generation (btb_meta b')) b' = b'"
      by (simp add: b' patched_to_def tradebot_SetObservedGeneration_def copyTradeBotStatusToBeta_def)
    ultimately show ?thesis by (simp add: patched_to_def)
  qed
  then show ?thesis by (simp add: idempotent_patch_def)
qed

definition success_conds :: "workloadStatus \<Rightarrow> string \<Rightarrow> reconcileOutcome \<Rightarrow> objmeta \<Rightarrow> condition list" where
  "success_conds w m out meta =
    (let status = (if ws_ready w then ConditionTrue else ConditionFalse);
         reason = (if ws_ready w then ReasonWorkloadHealthy else ReasonWorkloadProgressing)
     in [mk_cond ConditionConfigResolved ConditionTrue ReasonAsExpected [], mk_cond ConditionWorkloadReady status reason (ws_message w),
         mk_cond ConditionReady status reason m,
         configDriftCondition (om_Name meta) (om_Namespace meta) (om_Generation meta) (ro_configDrift out)])"

lemma success_conds_eq: "conds (success_mutate K w m out now t) = set_batch K now (success_conds w m out (tb_meta t)) (conds t)"
  by (simp add: success_mutate_def success_conds_def set_batch_def Let_def)

lemma success_idempotent:
  assumes "steady_klib K"
  shows "idempotent_patch t (success_mutate K w m out)"
proof (rule idempotent_patchI, unfold Let_def)
  fix n n' b
  let ?m = "success_mutate K w m out"
  let ?t = "copyTradeBotStatusFromBeta t (patched_to t ?m n b)"
  have "distinct (map cd_Type (success_conds w m out (tb_meta t)))"
    by (simp add: success_conds_def Let_def configDriftCondition_def)
  then have "conds (?m n' ?t) = conds ?t"
    using set_batch_again [OF assms] by (simp add: success_conds_eq)
  then show "tb_Status (?m n' ?t) = tb_Status ?t"
    by (subst success_status)
       (simp add: copyTradeBotStatusFromBeta_def patched_to_def copyTradeBotStatusToBeta_def tradebot_SetObservedGeneration_def, simp add: success_mutate_def Let_def)
qed

lemma fail_idempotent:
  assumes K: "steady_klib K" and ty: "ty \<noteq> ConditionReady"
  shows "idempotent_patch t (fail_mutate K ty rs m)"
proof (rule idempotent_patchI, unfold Let_def)
  fix n n' b
  let ?m = "fail_mutate K ty rs m"
  let ?t = "copyTradeBotStatusFromBeta t (patched_to t ?m n b)"
  let ?cs = "[mk_cond ty ConditionFalse rs m, mk_cond ConditionReady ConditionFalse rs m]"
  have batch: "conds (?m now t') = set_batch K now ?cs (conds t')" for now t'
    by (simp add: fail_mutate_def set_batch_def)
  have "conds (?m n' ?t) = conds ?t"
    using set_batch_again [OF K, of ?cs] ty by (simp add: batch)
  moreover have "tb_Status (?m n' t') = (tb_Status t')\<lparr>st_Conditions := conds (?m n' t'),
      st_Phase := deriveTradeBotPhase K (conds (?m n' t')), st_Message := m\<rparr>" for t'
    by (simp add: fail_mutate_def with_phase_def set_cond_def)
  ultimately show "tb_Status (?m n' ?t) = tb_Status ?t"
    by (simp add: copyTradeBotStatusFromBeta_def patched_to_def copyTradeBotStatusToBeta_def tradebot_SetObservedGeneration_def)
       (simp add: fail_mutate_def)
qed

lemma cond_idempotent:
  assumes K: "steady_klib K"
  shows "idempotent_patch t (\<lambda>now. set_cond K now c)"
proof (rule idempotent_patchI, unfold Let_def)
  fix n n' b
  let ?t = "copyTradeBotStatusFromBeta t (patched_to t (\<lambda>now. set_cond K now c) n b)"
  have "conds (set_cond K n' c ?t) = conds ?t"
    using set_batch_again [OF K, of "[c]"] by (simp add: set_batch_def)
  then show "tb_Status (set_cond K n' c ?t) = tb_Status ?t" by (simp add: set_cond_def)
qed

section \<open>No write\<close>

text \<open>A patch that finds only objects it has itself produced writes nothing.\<close>

lemma steady_patch:
  assumes K: "steady_klib K" and m: "idempotent_patch t m"
    and read: "\<And>e b. fst (api_GetBetaTradeBot A (key_of_meta (tb_meta t)) e) = Inr b \<Longrightarrow> \<exists>n b0. b = patched_to t m n b0"
  shows "only (\<lambda>e. tradebot_write e = None) (patchTradeBotStatus A K t m)"
proof -
  let ?ok = "\<lambda>e. tradebot_write e = None"
  have fixed: "patched_to t m n b = b" if "fst (api_GetBetaTradeBot A (key_of_meta (tb_meta t)) e) = Inr b" for n b e
    using read [OF that] m by (auto simp: idempotent_patch_def)
  have get: "emits (do_GetBetaTradeBot A (key_of_meta (tb_meta t)))
      (\<lambda>r u. list_all ?ok u \<and> (\<forall>b. r = Inr b \<longrightarrow> (\<forall>n. patched_to t m n b = b)))"
    unfolding do_GetBetaTradeBot_def by (intro emits_call_range) (use fixed in auto)
  have now: "only ?ok (do_Now A)" unfolding do_Now_def by (intro only_intro)
  have body: "only ?ok (do {
      now \<leftarrow> do_Now A;
      if DeepEqualTradeBot K b (patched_to t m now b) then State_Monad.return (Inr (m now (copyTradeBotStatusFromBeta t b)))
      else do { w \<leftarrow> do_StatusUpdateBetaTradeBot A (patched_to t m now b);
        case w of None \<Rightarrow> State_Monad.return (Inr (m now (copyTradeBotStatusFromBeta t b))) | Some e \<Rightarrow> State_Monad.return (Inl e) } })"
    if "\<forall>n. patched_to t m n b = b" for b
    using K that by (intro only_bind now) (simp add: only_intro)
  show ?thesis
    unfolding patchTradeBotStatus_def PatchStatus_def tradebot_cobj_def cobj.simps patch_mutate_def Let_def copy_keeps
      patched_to_def [symmetric] prod.case
    by (rule only_RetryOnConflict, unfold only_def, rule emits_bind [OF get], rule emits_case_sum, rule emits_return, simp,
        rule emits_of_only [OF body]) auto
qed

end
