(* ===== verification/SteadyReconcile.thy ===== *)
theory SteadyReconcile
  imports SteadyStatus
begin

text \<open>A steady bot is left alone. When a bot is reachable and in the desired state and the resources come out the same, a
  second reconcile writes nothing to the TradeBot: each of its two status patches finds the object as the first reconcile
  has left it. Without this every reconcile would wake the watchers of the object.\<close>

section \<open>Running within given events\<close>

text \<open>A triple that also says which events may happen on the way.\<close>

definition tracks :: "(event \<Rightarrow> bool) \<Rightarrow> ('e \<Rightarrow> bool) \<Rightarrow> ('e, 'a) op \<Rightarrow> ('a \<Rightarrow> 'e \<Rightarrow> bool) \<Rightarrow> bool" where
  "tracks W P m Q \<longleftrightarrow> (\<forall>w. P (env w) \<longrightarrow> Q (result m w) (env (final m w)) \<and> (\<exists>u. trace (final m w) = trace w @ u \<and> list_all W u))"

lemma tracks_only: "\<lbrakk>holds P m Q; only W m\<rbrakk> \<Longrightarrow> tracks W P m Q"
  unfolding tracks_def holds_def only_def by (metis emitsD emits_trace)

lemma tracks_return: "(\<And>e. P e \<Longrightarrow> Q x e) \<Longrightarrow> tracks W P (State_Monad.return x) Q"
  by (rule tracks_only) (auto intro: holds_return only_return)

lemma tracks_bind: "\<lbrakk>tracks W P m R; \<And>x. tracks W (R x) (f x) Q\<rbrakk> \<Longrightarrow> tracks W P (State_Monad.bind m f) Q"
  unfolding tracks_def result_def final_def State_Monad.bind_def by (fastforce simp: split_beta)

lemma tracks_post: "\<lbrakk>tracks W P m Q; \<And>x e. Q x e \<Longrightarrow> Q' x e\<rbrakk> \<Longrightarrow> tracks W P m Q'"
  by (fastforce simp: tracks_def)

lemma tracks_assume: "(C \<Longrightarrow> tracks W P m Q) \<Longrightarrow> tracks W (\<lambda>e. C \<and> P e) m Q"
  by (simp add: tracks_def)

lemma tracks_ex: "(\<And>x. tracks W (P x) m Q) \<Longrightarrow> tracks W (\<lambda>e. \<exists>x. P x e) m Q"
  by (auto simp: tracks_def)

lemma tracksD:
  assumes "tracks W P m Q" "P (env w)"
  shows "Q (result m w) (env (final m w))" "list_all W (events m w)"
  using assms by (auto simp: tracks_def events_def dest!: spec [where x = w])

lemma tracks_Retry:
  assumes "tracks W P fn (\<lambda>r e. (\<exists>x. r = Inr x) \<and> Q r e)"
  shows "tracks W P (RetryOnConflict n fn) Q"
proof (cases n)
  case (Suc m)
  show ?thesis
    unfolding Suc RetryOnConflict.simps
    by (rule tracks_bind [OF assms], rule tracks_assume, elim exE) (auto intro: tracks_return)
qed (use assms in \<open>auto intro: tracks_post\<close>)

abbreviation unwritten :: "event \<Rightarrow> bool" where "unwritten e \<equiv> tradebot_write e = None"

text \<open>A patch that finds the object as it would leave it.\<close>

lemma quiet_patch:
  assumes O: "obedient A G key tb V" and K: "steady_klib K" and t: "key_of_meta (tb_meta t) = key"
    and fixed: "\<And>n. patched_to t m n b = b"
  shows "tracks unwritten (at_state V b a) (patchTradeBotStatus A K t m)
    (\<lambda>r e. (\<exists>n. r = Inr (m n (copyTradeBotStatusFromBeta t b))) \<and> at_state V b a e)"
proof -
  have get: "tracks unwritten (at_state V b a) (do_GetBetaTradeBot A key) (\<lambda>r e. r = Inr b \<and> at_state V b a e)"
    unfolding do_GetBetaTradeBot_def
    by (rule tracks_only, rule holds_call, use obedientD(3) [OF O] keeps_at(2) [OF O] in auto, intro only_intro) simp
  have now: "tracks unwritten (at_state V b a) (do_Now A) (\<lambda>_. at_state V b a)"
    unfolding do_Now_def by (rule tracks_only, rule state_ask, erule keeps_at(9) [OF O], rule only_ask)
  have same: "DeepEqualTradeBot K b (patched_to t m n b)" for n using K fixed by simp
  show ?thesis
    unfolding patchTradeBotStatus_def PatchStatus_def tradebot_cobj_def cobj.simps patch_mutate_def t Let_def
      copy_keeps patched_to_def [symmetric] prod.case
    by (rule tracks_Retry, rule tracks_bind [OF get], rule tracks_assume, simp only: sum.case, rule tracks_bind [OF now],
        simp only: same if_True, rule tracks_return) blast
qed

section \<open>What the first reconcile leaves\<close>

abbreviation "as_expected \<equiv> mk_cond ConditionStateReconciled ConditionTrue ReasonAsExpected []"

lemma patched_to_cong:
  assumes "\<And>x y. \<lbrakk>tb_Status x = tb_Status y; tb_meta x = tb_meta y\<rbrakk> \<Longrightarrow> tb_Status (m n x) = tb_Status (m n y)" and "tb_meta t = tb_meta t'"
  shows "patched_to t m n b = patched_to t' m n b"
proof -
  have "tb_Status (m n (copyTradeBotStatusFromBeta t b)) = tb_Status (m n (copyTradeBotStatusFromBeta t' b))"
    by (rule assms(1)) (simp_all add: copyTradeBotStatusFromBeta_def assms(2))
  then show ?thesis by (simp add: patched_to_def copyTradeBotStatusToBeta_def)
qed

lemma success_cong:
  assumes "tb_Status x = tb_Status y" "tb_meta x = tb_meta y"
  shows "tb_Status (success_mutate K w m out n x) = tb_Status (success_mutate K w m out n y)"
proof -
  from assms have "conds (success_mutate K w m out n x) = conds (success_mutate K w m out n y)" by (simp add: success_conds_eq)
  with assms(1) show ?thesis by (subst (1 2) success_status) simp
qed

lemma success_patched: "tb_meta t = tb_meta t' \<Longrightarrow> patched_to t (success_mutate K w m out) n b = patched_to t' (success_mutate K w m out) n b"
  by (rule patched_to_cong) (rule success_cong)

lemma cond_patched: "patched_to t (\<lambda>now. set_cond K now c) n b = patched_to t' (\<lambda>now. set_cond K now c) n b"
proof -
  have "tb_Status (set_cond K n c (copyTradeBotStatusFromBeta t b)) = tb_Status (set_cond K n c (copyTradeBotStatusFromBeta t' b))"
    by (simp add: set_cond_def copyTradeBotStatusFromBeta_def)
  then show ?thesis by (simp add: patched_to_def copyTradeBotStatusToBeta_def)
qed

definition left_by :: "klib \<Rightarrow> tradebot \<Rightarrow> workloadStatus \<Rightarrow> string \<Rightarrow> reconcileOutcome \<Rightarrow> betatradebot \<Rightarrow> gotime \<Rightarrow> gotime \<Rightarrow> betatradebot" where
  "left_by K tb w m out b n n' = patched_to tb (\<lambda>now. set_cond K now as_expected) n' (patched_to tb (success_mutate K w m out) n b)"

text \<open>It is a fixed point of both patches.\<close>

lemma seen_left:
  assumes K: "klib_laws K"
  shows "seen K (bst_Conditions (btb_Status (left_by K tb w m out b n n'))) ty = (if ty = ConditionStateReconciled
      then Some (ConditionTrue, ReasonAsExpected, [])
      else seen K (conds (success_mutate K w m out n (copyTradeBotStatusFromBeta tb b))) ty)"
  by (simp add: left_by_def seen_set [OF K])

lemma left_state_fixed:
  assumes "steady_klib K"
  shows "patched_to t (\<lambda>now. set_cond K now as_expected) n1 (left_by K tb w m out b n n') = left_by K tb w m out b n n'"
  using cond_idempotent [OF assms] cond_patched [of t K as_expected n1 _ tb] by (simp add: left_by_def idempotent_patch_def)

lemma drift_type [simp]: "cd_Type (configDriftCondition n ns g d) = ConditionConfigDrift"
  by (simp add: configDriftCondition_def)

lemma success_after_cond:
  assumes S: "steady_klib K"
  shows "set_batch K n1 (success_conds w m out meta) (SetStatusCondition K n' as_expected (set_batch K n (success_conds w m out meta) cs))
    = SetStatusCondition K n' as_expected (set_batch K n (success_conds w m out meta) cs)"
proof -
  have types: "distinct (map cd_Type (success_conds w m out meta))" "\<And>c. c \<in> set (success_conds w m out meta) \<Longrightarrow> cd_Type c \<noteq> ConditionStateReconciled"
    by (auto simp: success_conds_def Let_def)
  note L = steady_conditions.set_all_fixed [OF conjunct1 [OF S]] steady_conditions.set_all_noted [OF conjunct1 [OF S]]
    steady_conditions.noted_set(2) [OF conjunct1 [OF S]]
  show ?thesis
    unfolding set_batch_def steady_conditions.set_all_def [OF conjunct1 [OF S], symmetric]
    by (intro L) (use types in auto)
qed

lemma left_success_fixed:
  assumes S: "steady_klib K" and K: "klib_laws K" and t: "tb_meta t = tb_meta tb"
  shows "patched_to t (success_mutate K w m out) n1 (left_by K tb w m out b n n') = left_by K tb w m out b n n'" (is "_ = ?b")
proof -
  let ?m = "success_mutate K w m out" and ?s = "success_mutate K w m out n (copyTradeBotStatusFromBeta tb b)"
  let ?t = "copyTradeBotStatusFromBeta tb ?b"
  have cs: "conds (?m n1 ?t) = conds ?t"
    using success_after_cond [OF S] by (simp add: left_by_def success_conds_eq)
  moreover have "deriveTradeBotPhase K (conds ?t) = deriveTradeBotPhase K (conds ?s)"
    unfolding derive_seen by (simp only: copy_keeps seen_left [OF K]) simp
  moreover have "st_Phase (tb_Status ?s) = deriveTradeBotPhase K (conds ?s)" "st_Message (tb_Status ?s) = m"
    "st_AppliedConfigHash (tb_Status ?s) = ro_appliedConfigHash out" "st_ResolvedImage (tb_Status ?s) = ro_resolvedImage out"
    by (subst success_status, simp)+
  moreover have "tb_Status ?t = (tb_Status ?s)\<lparr>st_Conditions := conds ?t, st_ObservedGeneration := om_Generation (btb_meta b)\<rparr>"
    by (simp add: left_by_def patched_to_def set_cond_def copyTradeBotStatusFromBeta_def copyTradeBotStatusToBeta_def tradebot_SetObservedGeneration_def)
  ultimately have "tb_Status (?m n1 ?t) = tb_Status ?t" by (subst success_status) simp
  then have "copyTradeBotStatusToBeta ?b (?m n1 ?t) = ?b"
    by (simp add: copyTradeBotStatusToBeta_def) (simp add: copyTradeBotStatusFromBeta_def)
  moreover have "tradebot_SetObservedGeneration (om_Generation (btb_meta ?b)) ?b = ?b"
    by (simp add: left_by_def patched_to_def tradebot_SetObservedGeneration_def copyTradeBotStatusToBeta_def)
  ultimately have "patched_to tb ?m n1 ?b = ?b" by (simp add: patched_to_def)
  with success_patched [OF t] show ?thesis by simp
qed

section \<open>The run\<close>

text \<open>The parts of a reconcile that come before its status come out the same each time.\<close>

definition part_values ::
  "'e api \<Rightarrow> klib \<Rightarrow> golib \<Rightarrow> reconciler \<Rightarrow> nname \<Rightarrow> frequi list \<Rightarrow> reconcileOutcome \<Rightarrow> workloadStatus \<Rightarrow> referencedResources
     \<Rightarrow> smap \<Rightarrow> tradebot \<Rightarrow> bool" where
  "part_values A K G R key fl out ws res cd t \<longleftrightarrow>
     yields (fetchReferencedResources A t (nn_Namespace key)) (\<lambda>r. r = Inr res)
   \<and> yields (do_ListFreqUI A (tb_Namespace t)) (\<lambda>r. r = Inr fl)
   \<and> yields (BuildConfig A G (tb_Name t) (tb_Namespace t) (tc_Spec (rf_tradebotconfig res)) (collectCORSHostsForTradeBot G t fl)) (\<lambda>r. r = Inr cd)
   \<and> yields (reconcileResources A K R t (rf_strategy res) cd (referencingFreqUINames t fl)) (\<lambda>r. r = Inr out)
   \<and> yields (computeWorkloadStatus A t) (\<lambda>r. r = Inr ws)"

lemma part_valuesD:
  assumes "part_values A K G R key fl out ws res cd t"
  shows "yields (fetchReferencedResources A t (nn_Namespace key)) (\<lambda>r. r = Inr res)" "yields (do_ListFreqUI A (tb_Namespace t)) (\<lambda>r. r = Inr fl)"
    "yields (BuildConfig A G (tb_Name t) (tb_Namespace t) (tc_Spec (rf_tradebotconfig res)) (collectCORSHostsForTradeBot G t fl)) (\<lambda>r. r = Inr cd)"
    "yields (reconcileResources A K R t (rf_strategy res) cd (referencingFreqUINames t fl)) (\<lambda>r. r = Inr out)"
    "yields (computeWorkloadStatus A t) (\<lambda>r. r = Inr ws)"
  using assms by (simp_all add: part_values_def)

definition steady_parts :: "'e api \<Rightarrow> klib \<Rightarrow> golib \<Rightarrow> reconciler \<Rightarrow> nname \<Rightarrow> tradebot \<Rightarrow> frequi list \<Rightarrow> reconcileOutcome \<Rightarrow> workloadStatus \<Rightarrow> bool" where
  "steady_parts A K G R key tb fl out ws \<longleftrightarrow>
     (\<exists>res cd. \<forall>t. tb_meta t = tb_meta tb \<and> tb_Spec t = tb_Spec tb \<longrightarrow> part_values A K G R key fl out ws res cd t)"

definition steady_message :: "golib \<Rightarrow> tradebot \<Rightarrow> frequi list \<Rightarrow> workloadStatus \<Rightarrow> string" where
  "steady_message G tb fl ws = (let cw = cors_warning (collectCORSHostsForTradeBot G tb fl) in if cw \<noteq> [] then cw else ws_message ws)"

lemma cors_meta: "tb_meta t = tb_meta tb \<Longrightarrow> collectCORSHostsForTradeBot G t fl = collectCORSHostsForTradeBot G tb fl"
  by (simp add: collectCORSHostsForTradeBot_def references_def)

lemma state_tracks:
  assumes O: "obedient A G key tb V" and b: "reachable_in K b0" "state_matches (desired_state b0) (observed_in b0)"
    and t: "reads_of tb b0 t" and s: "btb_Spec b = btb_Spec b0" and W: "\<forall>e. unwritten e \<longrightarrow> W e"
    and stat: "tracks W (at_state V b a) (patchTradeBotStatus A K t (\<lambda>now. set_cond K now as_expected)) (\<lambda>r. Q)"
  shows "tracks W (at_state V b a) (reconcileStateAndComputeRequeue A K G R key t d) (\<lambda>r. Q)"
proof -
  have get: "tracks W (at_state V b a) (do_GetBetaTradeBot A key) (\<lambda>r e. r = Inr b \<and> at_state V b a e)"
    unfolding do_GetBetaTradeBot_def
    by (rule tracks_only, rule holds_call, use obedientD(3) [OF O] keeps_at(2) [OF O] in auto, intro only_intro W [rule_format]) simp
  have cond: "tracks W (at_state V b a) (set_state_cond A K t ConditionTrue ReasonAsExpected []) (\<lambda>r. Q)"
    unfolding set_state_cond_def by (intro tracks_bind [OF stat] tracks_return)
  have reach: "IsStatusConditionTrue K (conds t) ConditionBotReachable" using t b(1) by (simp add: reads_of_def reachable_in_def)
  have "tracks W (at_state V b a) (reconcileState A K G R t b) (\<lambda>r. Q)"
    unfolding reconcileState_def Let_def desired_spec [OF s] reads_observed [OF t]
    by (simp add: reach b(2), intro tracks_bind [OF cond] tracks_return)
  then show ?thesis
    unfolding reconcileStateAndComputeRequeue_def
    by (intro tracks_bind [OF get] tracks_assume) (simp, intro tracks_bind tracks_return)
qed

lemma part_tracks:
  assumes "\<forall>e. unwritten e \<longrightarrow> W e" "yields m (\<lambda>r. r = Inr x)" "keeps_state (at_state V b a) m" "only unwritten m"
  shows "tracks W (at_state V b a) m (\<lambda>r e. r = Inr x \<and> at_state V b a e)"
  by (rule tracks_only [OF holds_post [OF holds_yields [OF assms(3,2)]]], simp) (rule only_conseq [OF assms(4)], use assms(1) in blast)

text \<open>One reconcile, given what its two patches do: \<open>s\<close> is the object after the first, \<open>Q\<close> what holds after the second.\<close>

definition patches_track ::
  "(event \<Rightarrow> bool) \<Rightarrow> 'e api \<Rightarrow> klib \<Rightarrow> tradebot \<Rightarrow> 'e botview \<Rightarrow> betatradebot \<Rightarrow> string \<Rightarrow> (gotime \<Rightarrow> tradebot \<Rightarrow> tradebot)
     \<Rightarrow> (gotime \<Rightarrow> betatradebot) \<Rightarrow> ('e \<Rightarrow> bool) \<Rightarrow> bool" where
  "patches_track W A K tb V b a m s Q \<longleftrightarrow>
     (\<forall>t. tb_meta t = tb_meta tb \<longrightarrow> tracks W (at_state V b a) (patchTradeBotStatus A K t m)
        (\<lambda>r e. \<exists>n. r = Inr (m n (copyTradeBotStatusFromBeta t b)) \<and> at_state V (s n) a e))
   \<and> (\<forall>n. btb_Spec (s n) = btb_Spec b)
   \<and> (\<forall>n t. tb_meta t = tb_meta tb \<longrightarrow> tracks W (at_state V (s n) a) (patchTradeBotStatus A K t (\<lambda>now. set_cond K now as_expected)) (\<lambda>r. Q))"

lemma status_tracks:
  assumes O: "obedient A G key tb V" and K: "klib_laws K" and W: "\<forall>e. unwritten e \<longrightarrow> W e"
    and b: "reachable_in K b" "state_matches (desired_state b) (observed_in b)"
    and T: "patches_track W A K tb V b a (success_mutate K ws (if cw \<noteq> [] then cw else ws_message ws) out) s Q"
    and t: "tb_meta t = tb_meta tb" "yields (computeWorkloadStatus A t) (\<lambda>r. r = Inr ws)"
  shows "tracks W (at_state V b a) (reconcile_status A K G R key t cw out) (\<lambda>r. Q)"
proof -
  let ?m = "success_mutate K ws (if cw \<noteq> [] then cw else ws_message ws) out"
  have work: "tracks W (at_state V b a) (computeWorkloadStatus A t) (\<lambda>r e. r = Inr ws \<and> at_state V b a e)"
  proof (rule part_tracks [OF W t(2)])
    show "keeps_state (at_state V b a) (computeWorkloadStatus A t)"
      unfolding computeWorkloadStatus_def do_GetStatefulSet_def by (intro state_intro keeps_at [OF O])
  qed (intro only_intro, simp)
  have events: "tracks W P (recordLifecycleEvents K R t' x) (\<lambda>_. P)" for P t' x
  proof (rule tracks_only)
    show "keeps_state P (recordLifecycleEvents K R t' x)" unfolding recordLifecycleEvents_def by (intro state_intro)
  qed (intro only_intro W [rule_format], simp)
  have state: "tracks W (at_state V (s n) a) (reconcileStateAndComputeRequeue A K G R key (?m n (copyTradeBotStatusFromBeta t b)) d) (\<lambda>r. Q)" for n d
  proof (rule state_tracks [OF O, where ?b0.0 = "patched_to t ?m n b"])
    have sp: "btb_Spec (patched_to t ?m n b) = btb_Spec b" by simp
    show "reachable_in K (patched_to t ?m n b)" "state_matches (desired_state (patched_to t ?m n b)) (observed_in (patched_to t ?m n b))"
      using b success_reads(2,3) [OF K t(1)] desired_spec [OF sp] by simp_all
    show "btb_Spec (s n) = btb_Spec (patched_to t ?m n b)" using T sp by (simp add: patches_track_def)
    show "tracks W (at_state V (s n) a) (patchTradeBotStatus A K (?m n (copyTradeBotStatusFromBeta t b)) (\<lambda>now. set_cond K now as_expected)) (\<lambda>r. Q)"
      using T success_reads(1) [OF K t(1)] by (simp add: patches_track_def reads_of_def)
  qed (use success_reads(1) [OF K t(1)] W in auto)
  have patch: "tracks W (at_state V b a) (patchTradeBotStatus A K t ?m)
      (\<lambda>r e. \<exists>n. r = Inr (?m n (copyTradeBotStatusFromBeta t b)) \<and> at_state V (s n) a e)"
    using T t(1) by (simp add: patches_track_def)
  show ?thesis
    unfolding reconcile_status_def Let_def
    by (rule tracks_bind [OF work], rule tracks_assume, simp only: sum.case, rule tracks_bind [OF patch], rule tracks_ex, rule tracks_assume,
        simp only: sum.case, rule tracks_bind [OF events], rule tracks_bind [OF state], rule tracks_return)
qed

lemma live_tracks:
  assumes O: "obedient A G key tb V" and K: "klib_laws K" and M: "managed K key tb" and Y: "part_values A K G R key fl out ws res cd t"
    and b: "reachable_in K b" "state_matches (desired_state b) (observed_in b)" and W: "\<forall>e. unwritten e \<longrightarrow> W e"
    and T: "patches_track W A K tb V b a (success_mutate K ws (steady_message G tb fl ws) out) s Q"
    and t: "tb_meta t = tb_meta tb" "tb_Spec t = tb_Spec tb"
  shows "tracks W (at_state V b a) (reconcile_live A K G R key t) (\<lambda>r. Q)"
proof -
  note keep = parts_at [OF O] and y = part_valuesD [OF Y]
  have quiet: "only unwritten (fetchReferencedResources A t ns)" "only unwritten (do_ListFreqUI A ns)"
      "only unwritten (BuildConfig A G n ns sp c)" "only unwritten (reconcileResources A K R t st cd fs)" for t ns n sp c st cd fs
    unfolding do_ListFreqUI_def by (intro only_intro; simp)+
  have obs: "tracks W (at_state V b a) (emit (MetricObserve x)) (\<lambda>_. at_state V b a)" for x
    by (rule tracks_only, rule state_rules(3), rule only_emit, rule W [rule_format]) simp
  note run = part_tracks [OF W y(1) keep(1) quiet(1)] part_tracks [OF W y(2) keep(2) quiet(2)]
    part_tracks [OF W y(3) keep(3) quiet(3)] part_tracks [OF W y(4) keep(4) quiet(4)]
  let ?cw = "cors_warning (collectCORSHostsForTradeBot G t fl)"
  have msg: "(if ?cw \<noteq> [] then ?cw else ws_message ws) = steady_message G tb fl ws"
    by (simp add: steady_message_def Let_def cors_meta [OF t(1)])
  have status: "tracks W (at_state V b a) (reconcile_status A K G R key t ?cw out) (\<lambda>r. Q)"
    by (rule status_tracks [OF O K W b _ t(1) y(5)]) (unfold msg, rule T)
  have cmd: "\<not> (TrimSpace (tb_FreqtradeCommand (tb_Spec t)) \<noteq> [] \<and> TrimSpace (tb_FreqtradeCommand (tb_Spec t)) \<noteq> ''trade'')"
    using M t by (simp add: managed_def isTradeMode_def Let_def)
  show ?thesis
    unfolding reconcile_live_def Let_def if_not_P [OF cmd]
    by (rule tracks_bind [OF run(1)], rule tracks_assume, simp only: sum.case, rule tracks_bind [OF run(2)], rule tracks_assume, simp only: sum.case,
        rule tracks_bind [OF run(3)], rule tracks_assume, rule tracks_bind [OF obs], simp only: sum.case,
        rule tracks_bind [OF run(4)], rule tracks_assume, simp only: sum.case, rule status)
qed

lemma Reconcile_tracks:
  assumes O: "obedient A G key tb V" and K: "klib_laws K" and M: "managed K key tb" and P: "steady_parts A K G R key tb fl out ws"
    and b: "reachable_in K b" "state_matches (desired_state b) (observed_in b)" and W: "\<forall>e. unwritten e \<longrightarrow> W e"
    and T: "patches_track W A K tb V b a (success_mutate K ws (steady_message G tb fl ws) out) s Q"
  shows "tracks W (at_state V b a) (Reconcile A K G R key) (\<lambda>r. Q)"
proof -
  have get: "tracks W (at_state V b a) (do_GetTradeBot A key)
      (\<lambda>r e. (\<exists>t. r = Inr t \<and> tb_meta t = tb_meta tb \<and> tb_Spec t = tb_Spec tb) \<and> at_state V b a e)"
    unfolding do_GetTradeBot_def
    by (rule tracks_only, rule holds_call, use obedientD(2) [OF O] keeps_at(1) [OF O] in fast, intro only_intro W [rule_format]) simp
  have live: "tracks W (at_state V b a) (reconcile_live A K G R key t) (\<lambda>r. Q)" if "tb_meta t = tb_meta tb" "tb_Spec t = tb_Spec tb" for t
    using P that live_tracks [OF O K M _ b W T] unfolding steady_parts_def by blast
  show ?thesis
    unfolding Reconcile_def
    by (rule tracks_bind [OF get], rule tracks_assume, elim exE conjE) (use M live in \<open>simp add: managed_def\<close>)
qed

section \<open>Two reconciles in a row\<close>

lemma first_patches:
  assumes O: "obedient A G key tb V" and E: "exact_equal K" and key: "key_of_meta (tb_meta tb) = key"
  shows "patches_track (\<lambda>_. True) A K tb V b a (success_mutate K ws m out) (\<lambda>n. patched_to tb (success_mutate K ws m out) n b)
    (\<lambda>e. \<exists>n n'. at_state V (left_by K tb ws m out b n n') a e)"
proof -
  have patch: "tracks (\<lambda>_. True) (at_state V b a) (patchTradeBotStatus A K t f)
      (\<lambda>r e. \<exists>n. r = Inr (f n (copyTradeBotStatusFromBeta t b)) \<and> at_state V (patched_to t f n b) a e)"
    if "tb_meta t = tb_meta tb" for t f b
    by (rule tracks_only, rule patch_at [OF O E], use key that in simp, rule only_patchTradeBotStatus) simp_all
  show ?thesis
    unfolding patches_track_def
  proof (intro conjI allI impI)
    fix t :: tradebot assume t: "tb_meta t = tb_meta tb"
    show "tracks (\<lambda>_. True) (at_state V b a) (patchTradeBotStatus A K t (success_mutate K ws m out))
        (\<lambda>r e. \<exists>n. r = Inr (success_mutate K ws m out n (copyTradeBotStatusFromBeta t b)) \<and> at_state V (patched_to tb (success_mutate K ws m out) n b) a e)"
      using patch [OF t, of b "success_mutate K ws m out"] unfolding success_patched [OF t] .
  next
    fix n and t :: tradebot assume t: "tb_meta t = tb_meta tb"
    show "tracks (\<lambda>_. True) (at_state V (patched_to tb (success_mutate K ws m out) n b) a) (patchTradeBotStatus A K t (\<lambda>now. set_cond K now as_expected))
        (\<lambda>r e. \<exists>n n'. at_state V (left_by K tb ws m out b n n') a e)"
      by (rule tracks_post [OF patch [OF t]]) (auto simp: left_by_def cond_patched [of t K as_expected _ _ tb])
  qed simp
qed

lemma second_patches:
  assumes O: "obedient A G key tb V" and K: "klib_laws K" "steady_klib K" and key: "key_of_meta (tb_meta tb) = key"
    and b: "b = left_by K tb ws m out b0 n0 n0'"
  shows "patches_track unwritten A K tb V b a (success_mutate K ws m out) (\<lambda>n. b) (\<lambda>e. True)"
  unfolding patches_track_def
proof (intro conjI allI impI)
  fix t :: tradebot assume t: "tb_meta t = tb_meta tb"
  then have k: "key_of_meta (tb_meta t) = key" using key by simp
  show "tracks unwritten (at_state V b a) (patchTradeBotStatus A K t (success_mutate K ws m out))
      (\<lambda>r e. \<exists>n. r = Inr (success_mutate K ws m out n (copyTradeBotStatusFromBeta t b)) \<and> at_state V b a e)"
    by (rule tracks_post [OF quiet_patch [OF O K(2) k]]) (use left_success_fixed [OF K(2,1) t] b in auto)
  show "tracks unwritten (at_state V b a) (patchTradeBotStatus A K t (\<lambda>now. set_cond K now as_expected)) (\<lambda>r e. True)"
    by (rule tracks_post [OF quiet_patch [OF O K(2) k]]) (use left_state_fixed [OF K(2)] b in auto)
qed simp

lemma left_reads:
  assumes K: "klib_laws K"
  shows "reachable_in K (left_by K tb ws m out b n n') = reachable_in K b" "observed_in (left_by K tb ws m out b n n') = observed_in b"
    "desired_state (left_by K tb ws m out b n n') = desired_state b"
proof -
  let ?b = "patched_to tb (success_mutate K ws m out) n b"
  have "reachable_in K (left_by K tb ws m out b n n') = reachable_in K ?b"
    by (simp add: reachable_seen [OF K] left_by_def seen_set [OF K])
  then show "reachable_in K (left_by K tb ws m out b n n') = reachable_in K b" by (simp add: success_reads(2) [OF K refl])
  have "observed_in (left_by K tb ws m out b n n') = observed_in ?b"
    by (simp add: left_by_def observed_in_def patched_to_def set_cond_def copyTradeBotStatusFromBeta_def copyTradeBotStatusToBeta_def
        tradebot_SetObservedGeneration_def)
  then show "observed_in (left_by K tb ws m out b n n') = observed_in b" by (simp add: success_reads(3) [OF K refl])
  show "desired_state (left_by K tb ws m out b n n') = desired_state b" by (rule desired_spec) (simp add: left_by_def)
qed

lemma second_reconcile_quiet:
  assumes O: "obedient A G key tb V" and K: "klib_laws K" "exact_equal K" "steady_klib K" and M: "managed K key tb"
    and P: "steady_parts A K G R key tb fl out ws"
    and b: "reachable_in K (bv_stored V (env w))" "state_matches (desired_state (bv_stored V (env w))) (observed_in (bv_stored V (env w)))"
  shows "list_all unwritten (events (Reconcile A K G R key) (final (Reconcile A K G R key) w))"
proof -
  let ?b = "bv_stored V (env w)" and ?a = "bv_actual V (env w)" and ?m = "steady_message G tb fl ws"
  have key: "key_of_meta (tb_meta tb) = key" using M by (simp add: managed_def)
  have "tracks (\<lambda>_. True) (at_state V ?b ?a) (Reconcile A K G R key) (\<lambda>r e. \<exists>n n'. at_state V (left_by K tb ws ?m out ?b n n') ?a e)"
    by (rule Reconcile_tracks [OF O K(1) M P b _ first_patches [OF O K(2) key]]) simp
  from tracksD(1) [OF this, of w] obtain n n'
    where at: "at_state V (left_by K tb ws ?m out ?b n n') ?a (env (final (Reconcile A K G R key) w))" by auto
  have "tracks unwritten (at_state V (left_by K tb ws ?m out ?b n n') ?a) (Reconcile A K G R key) (\<lambda>r e. True)"
    by (rule Reconcile_tracks [OF O K(1) M P _ _ _ second_patches [OF O K(1,3) key refl]]) (use b left_reads [OF K(1)] in simp_all)
  from tracksD(2) [OF this at] show ?thesis .
qed

end
