(* ===== verification/ConfigStability.thy ===== *)
theory ConfigStability
  imports ConfigBuilder CollectResults
begin

text \<open>Rendering a configuration again. The generated JWT key is random, so a second render gives the same configuration only
  because the key is read back from the bot's own config Secret. With the Secrets of the cluster unchanged but for that
  one, which holds the previous result, \<open>BuildConfig\<close> returns the previous result.\<close>

section \<open>A cluster whose Secrets do not change during a render\<close>

definition serves_secrets :: "'e api \<Rightarrow> (nname \<Rightarrow> goerr + secret) \<Rightarrow> bool" where
  "serves_secrets A sec \<longleftrightarrow> (\<forall>k e. fst (api_GetSecret A k e) = sec k)"

definition secret_data :: "(nname \<Rightarrow> goerr + secret) \<Rightarrow> string \<Rightarrow> string \<Rightarrow> goerr + smap" where
  "secret_data sec ns name = (if name = [] then Inr []
     else case sec \<lparr>nn_Namespace = ns, nn_Name = name\<rparr> of
         Inl e \<Rightarrow> Inl (Wrap (''failed to get secret '' @ ns @ ''/'' @ name @ '': '') e)
       | Inr s \<Rightarrow> Inr (sec_Data s))"

text \<open>The key found in a stored configuration, and the strings JSON gives back as they were: ASCII ones, and those that came
  out of JSON.\<close>

definition key_in :: "golib \<Rightarrow> string \<Rightarrow> string" where
  "key_in G txt = (case json_Unmarshal G txt of Inl _ \<Rightarrow> [] | Inr j \<Rightarrow> (case jwt_key_of j of None \<Rightarrow> [] | Some k \<Rightarrow> k))"

definition json_carries :: "golib \<Rightarrow> string \<Rightarrow> bool" where
  "json_carries G k \<longleftrightarrow> ascii k \<or> (\<exists>txt. k = key_in G txt)"

definition keeps_jwt :: "golib \<Rightarrow> bool" where
  "keeps_jwt G \<longleftrightarrow> (\<forall>ms a k txt. map_of ms ''api_server'' = Some (JObj a) \<and> map_of a ''jwt_secret_key'' = Some (JStr k)
     \<and> json_carries G k \<and> json_MarshalIndent G (JObj ms) = Inr txt \<longrightarrow> key_in G txt = k)"

section \<open>The parts of a render\<close>

lemma get_secret: "serves_secrets A sec \<Longrightarrow> yields (do_GetSecret A k) (\<lambda>r. r = sec k)"
  unfolding do_GetSecret_def by (rule yields_call) (simp add: serves_secrets_def)

lemma get_secret_data:
  assumes "serves_secrets A sec"
  shows "yields (GetSecretData A ns n) (\<lambda>r. r = secret_data sec ns n)"
  unfolding GetSecretData_def secret_data_def
  by (intro yields_if yields_return yields_bind_result [OF get_secret [OF assms]]) simp_all

definition telegram_ref :: "tradebotconfigspec \<Rightarrow> string" where
  "telegram_ref s = (case Option.bind (tcs_Notification s) nt_Telegram of None \<Rightarrow> [] | Some tg \<Rightarrow> tg_SecretRef tg)"

lemma notification_data:
  assumes "serves_secrets A sec"
  shows "yields (notificationSecretData A ns s) (\<lambda>r. r = secret_data sec ns (telegram_ref s))"
  unfolding notificationSecretData_def telegram_ref_def
  by (intro yields_case_option yields_post [OF get_secret_data [OF assms]] yields_return) (simp_all add: secret_data_def)

text \<open>The key a render settles on: none, the configured one, the stored one, or a fresh one.\<close>

definition given_key :: "apiserverconfig \<Rightarrow> smap \<Rightarrow> string" where
  "given_key a creds = (if map_str creds ''jwt_secret_key'' \<noteq> [] then map_str creds ''jwt_secret_key'' else as_JWTSecretKey a)"

definition stored_key :: "golib \<Rightarrow> (nname \<Rightarrow> goerr + secret) \<Rightarrow> nname \<Rightarrow> string" where
  "stored_key G sec k = (case sec k of Inl _ \<Rightarrow> [] | Inr s \<Rightarrow> key_in G (map_str (sec_Data s) ''config.json''))"

definition key_chosen ::
  "golib \<Rightarrow> (nname \<Rightarrow> goerr + secret) \<Rightarrow> nname \<Rightarrow> tradebotconfigspec \<Rightarrow> smap \<Rightarrow> string \<Rightarrow> bool" where
  "key_chosen G sec own s creds k = (case tcs_APIServer s of
       None \<Rightarrow> k = []
     | Some a \<Rightarrow>
         if as_Enabled a \<noteq> Some True then k = []
         else if given_key a creds \<noteq> [] then k = given_key a creds \<and> minAPIServerJWTSecretKeyLength \<le> length k
         else k \<noteq> [] \<and> json_carries G k \<and> (stored_key G sec own \<noteq> [] \<longrightarrow> k = stored_key G sec own))"

lemma hex_ascii: "ascii (hex_encode bs)"
proof -
  have digit: "of_char (hex_digit d) < (128 :: nat)" if "d < 16" for d
    using that by (simp add: hex_digit_def)
  have "(of_char c :: nat) div 16 < 16" for c by (rule less_mult_imp_div_less) simp
  with digit show ?thesis by (auto simp: ascii_def hex_encode_def list_all_iff)
qed

lemma generated_key: "yields (generateAPIServerJWTSecretKey A) (\<lambda>r. \<forall>k. r = Inr k \<longrightarrow> k \<noteq> [] \<and> ascii k)"
  unfolding generateAPIServerJWTSecretKey_def do_RandRead_def
  by (intro yields_bind yields_return) (auto simp: hex_ascii simp flip: length_greater_0_conv split: sum.splits)

lemma existing_key:
  assumes "serves_secrets A sec"
  shows "yields (existingAPIServerJWTSecretKey A G n ns) (\<lambda>r. case r of
      Inl _ \<Rightarrow> (\<exists>e. sec (config_secret_key n ns) = Inl e \<and> \<not> IsNotFound e)
    | Inr k \<Rightarrow> k = stored_key G sec (config_secret_key n ns)
        \<and> (\<forall>e. sec (config_secret_key n ns) = Inl e \<longrightarrow> IsNotFound e))"
  unfolding existingAPIServerJWTSecretKey_def config_secret_key_def
  by (rule yields_bind_result [OF get_secret [OF assms]], rule yields_return)
     (auto simp: stored_key_def key_in_def split: sum.splits option.splits)

lemma chosen_stored: "stored_key G sec own \<noteq> [] \<Longrightarrow> json_carries G (stored_key G sec own)"
  by (auto simp: stored_key_def json_carries_def split: sum.splits)

lemma resolved_key:
  assumes S: "serves_secrets A sec"
  shows "yields (resolveAPIServerJWTSecretKey A G n ns s creds)
    (\<lambda>r. \<forall>k. r = Inr k \<longrightarrow> key_chosen G sec (config_secret_key n ns) s creds k)"
proof (cases "tcs_APIServer s")
  case (Some a)
  have fresh: "yields (do {
      r \<leftarrow> existingAPIServerJWTSecretKey A G n ns;
      case r of
        Inl e \<Rightarrow> State_Monad.return (Inl e)
      | Inr existing \<Rightarrow> if existing \<noteq> [] then State_Monad.return (Inr existing) else generateAPIServerJWTSecretKey A })
      (\<lambda>r. \<forall>k. r = Inr k \<longrightarrow> k \<noteq> [] \<and> json_carries G k
        \<and> (stored_key G sec (config_secret_key n ns) \<noteq> [] \<longrightarrow> k = stored_key G sec (config_secret_key n ns)))"
    by (rule yields_bind_result [OF existing_key [OF S]],
        intro yields_case_sum yields_if yields_return yields_post [OF generated_key])
       (use chosen_stored in \<open>auto simp: json_carries_def\<close>)
  show ?thesis
    unfolding resolveAPIServerJWTSecretKey_def Some option.case Let_def
    by (intro yields_if yields_return yields_post [OF fresh]) (simp_all add: key_chosen_def Some given_key_def)
qed (auto simp: resolveAPIServerJWTSecretKey_def key_chosen_def intro: yields_return)

section \<open>A whole render\<close>

definition rendered ::
  "golib \<Rightarrow> (nname \<Rightarrow> goerr + secret) \<Rightarrow> string \<Rightarrow> string \<Rightarrow> tradebotconfigspec \<Rightarrow> string list \<Rightarrow> exchangespec \<Rightarrow> smap \<Rightarrow> string \<Rightarrow> goerr + smap" where
  "rendered G sec n ns s cors x creds k = (case (secret_data sec ns (ex_SecretRef x), secret_data sec ns (telegram_ref s)) of
       (Inr es, Inr nd) \<Rightarrow> (case json_MarshalIndent G (JObj (assembleConfig G n s x creds k es nd cors)) of
           Inl e \<Rightarrow> Inl (Wrap ''failed to marshal config to JSON: '' e)
         | Inr txt \<Rightarrow> Inr [(''config.json'', txt)])
     | _ \<Rightarrow> Inl ErrMissingExchange)"

abbreviation "same_success r r' \<equiv> \<forall>cd. r = Inr cd \<longleftrightarrow> r' = Inr cd"

lemma render_tail:
  assumes S: "serves_secrets A sec"
  shows "yields (do {
      er \<leftarrow> GetSecretData A ns (ex_SecretRef x);
      case er of
        Inl e \<Rightarrow> State_Monad.return (Inl (f e))
      | Inr es \<Rightarrow> do {
          nr \<leftarrow> notificationSecretData A ns s;
          case nr of
            Inl e \<Rightarrow> State_Monad.return (Inl (g e))
          | Inr nd \<Rightarrow> State_Monad.return (case json_MarshalIndent G (JObj (assembleConfig G n s x creds k es nd cors)) of
              Inl e \<Rightarrow> Inl (Wrap ''failed to marshal config to JSON: '' e)
            | Inr t \<Rightarrow> Inr [(''config.json'', t)]) } })
    (\<lambda>r. same_success r (rendered G sec n ns s cors x creds k))"
proof (rule yields_bind_result [OF get_secret_data [OF S]], rule yields_case_sum)
  show "yields (State_Monad.return (Inl (f e))) (\<lambda>r. same_success r (rendered G sec n ns s cors x creds k))"
    if "er = secret_data sec ns (ex_SecretRef x)" "er = Inl e" for er e
    by (rule yields_return) (use that in \<open>auto simp: rendered_def split: sum.splits\<close>)
  show "yields (do {
          nr \<leftarrow> notificationSecretData A ns s;
          case nr of
            Inl e \<Rightarrow> State_Monad.return (Inl (g e))
          | Inr nd \<Rightarrow> State_Monad.return (case json_MarshalIndent G (JObj (assembleConfig G n s x creds k es nd cors)) of
              Inl e \<Rightarrow> Inl (Wrap ''failed to marshal config to JSON: '' e)
            | Inr t \<Rightarrow> Inr [(''config.json'', t)]) })
      (\<lambda>r. same_success r (rendered G sec n ns s cors x creds k))"
    if "er = secret_data sec ns (ex_SecretRef x)" "er = Inr es" for er es
    by (rule yields_bind_result [OF notification_data [OF S]], rule yields_case_sum; rule yields_return)
       (use that in \<open>auto simp: rendered_def split: sum.splits\<close>)
qed

lemma BuildConfig_yields:
  assumes S: "serves_secrets A sec" and x: "tcs_Exchange s = Some x"
    and key: "\<And>creds. secret_data sec ns (apiServerSecretRef s) = Inr creds \<Longrightarrow> yields (resolveAPIServerJWTSecretKey A G n ns s creds) (P creds)"
  shows "yields (BuildConfig A G n ns s cors) (\<lambda>r. case secret_data sec ns (apiServerSecretRef s) of
      Inl _ \<Rightarrow> \<exists>e. r = Inl e
    | Inr creds \<Rightarrow> \<exists>kr. P creds kr \<and> (case kr of Inl _ \<Rightarrow> \<exists>e. r = Inl e | Inr k \<Rightarrow> same_success r (rendered G sec n ns s cors x creds k)))"
proof (cases "secret_data sec ns (apiServerSecretRef s)")
  case (Inl e)
  show ?thesis
    unfolding BuildConfig_def x option.case
    by (rule yields_bind_result [OF get_secret_data [OF S]]) (simp add: Inl yields_return)
next
  case (Inr creds)
  show ?thesis
    unfolding BuildConfig_def x option.case
  proof (rule yields_bind_result [OF get_secret_data [OF S]], simp only: Inr sum.case,
      rule yields_bind_result [OF key [OF Inr]], rule yields_case_sum)
    fix kr e assume "P creds kr" "kr = Inl e"
    then show "yields (State_Monad.return (Inl (Wrap ''failed to resolve API server JWT secret key: '' e))) (\<lambda>r. \<exists>kr. P creds kr \<and>
        (case kr of Inl _ \<Rightarrow> \<exists>e. r = Inl e | Inr k \<Rightarrow> same_success r (rendered G sec n ns s cors x creds k)))"
      by (intro yields_return) (auto intro!: exI [of _ "Inl e"])
  next
    fix kr k assume "P creds kr" "kr = Inr k"
    then show "yields (do {
        er \<leftarrow> GetSecretData A ns (ex_SecretRef x);
        case er of
          Inl e \<Rightarrow> State_Monad.return (Inl (Wrap ''failed to get exchange secret data: '' e))
        | Inr es \<Rightarrow> do {
            nr \<leftarrow> notificationSecretData A ns s;
            case nr of
              Inl e \<Rightarrow> State_Monad.return (Inl (Wrap ''failed to get notification secret data: '' e))
            | Inr nd \<Rightarrow> State_Monad.return (case json_MarshalIndent G (JObj (assembleConfig G n s x creds k es nd cors)) of
                Inl e \<Rightarrow> Inl (Wrap ''failed to marshal config to JSON: '' e)
              | Inr t \<Rightarrow> Inr [(''config.json'', t)]) } }) (\<lambda>r. \<exists>kr. P creds kr \<and>
        (case kr of Inl _ \<Rightarrow> \<exists>e. r = Inl e | Inr k \<Rightarrow> same_success r (rendered G sec n ns s cors x creds k)))"
      by (intro yields_post [OF render_tail [OF S]]) (auto intro!: exI [of _ "Inr k"])
  qed
qed

text \<open>What a successful render was made from.\<close>

lemma render_made:
  assumes S: "serves_secrets A sec" and r: "result (BuildConfig A G n ns s cors) w = Inr cd"
  obtains x creds k where "tcs_Exchange s = Some x" "secret_data sec ns (apiServerSecretRef s) = Inr creds"
    "key_chosen G sec (config_secret_key n ns) s creds k" "rendered G sec n ns s cors x creds k = Inr cd"
proof -
  from r obtain x where x: "tcs_Exchange s = Some x"
    by (cases "tcs_Exchange s") (auto simp: BuildConfig_def result_def State_Monad.return_def)
  note made = yieldsD [OF BuildConfig_yields [OF S x resolved_key [OF S]], of G n ns cors w, unfolded r]
  then obtain creds where c: "secret_data sec ns (apiServerSecretRef s) = Inr creds"
    by (cases "secret_data sec ns (apiServerSecretRef s)") auto
  from made [unfolded c sum.case] show thesis
  proof (elim exE conjE)
    fix kr assume "\<forall>k. kr = Inr k \<longrightarrow> key_chosen G sec (config_secret_key n ns) s creds k"
      "case kr of Inl _ \<Rightarrow> \<exists>e. (Inr cd :: goerr + smap) = Inl e | Inr k \<Rightarrow> same_success (Inr cd) (rendered G sec n ns s cors x creds k)"
    then show thesis using that [OF x c] by (cases kr) auto
  qed
qed

lemma api_server_key:
  assumes "tcs_APIServer s = Some a" "k \<noteq> []"
  shows "\<exists>c. map_of (assembleConfig G n s x creds k es nd cors) ''api_server'' = Some (JObj c) \<and> map_of c ''jwt_secret_key'' = Some (JStr k)"
  using assms by (simp add: assembleConfig_api_server buildAPIServerConfig_def Let_def config_lookup)

text \<open>The key found in the result is the one that was chosen.\<close>

lemma key_read_back:
  assumes G: "keeps_jwt G" and r: "rendered G sec n ns s cors x creds k = Inr cd"
    and s: "tcs_APIServer s = Some a" and k: "k \<noteq> []" "json_carries G k"
  shows "key_in G (map_str cd ''config.json'') = k"
proof -
  from r obtain es nd t where t: "json_MarshalIndent G (JObj (assembleConfig G n s x creds k es nd cors)) = Inr t" "cd = [(''config.json'', t)]"
    by (auto simp: rendered_def split: sum.splits)
  from api_server_key [OF s k(1)] G t(1) k(2) have "key_in G t = k" unfolding keeps_jwt_def by metis
  with t(2) show ?thesis by (simp add: map_str_def)
qed

section \<open>Rendering again\<close>

text \<open>The cluster after the first result was stored: its own config Secret holds it, the others are as they were.\<close>

definition stored_over :: "(nname \<Rightarrow> goerr + secret) \<Rightarrow> nname \<Rightarrow> smap \<Rightarrow> (nname \<Rightarrow> goerr + secret) \<Rightarrow> bool" where
  "stored_over sec own cd sec' \<longleftrightarrow> (\<forall>k. k \<noteq> own \<longrightarrow> sec' k = sec k)
     \<and> (\<exists>st. sec' own = Inr st \<and> map_str (sec_Data st) ''config.json'' = map_str cd ''config.json'')"

definition no_self_reference :: "string \<Rightarrow> tradebotconfigspec \<Rightarrow> bool" where
  "no_self_reference n s \<longleftrightarrow> apiServerSecretRef s \<noteq> n @ ''-config'' \<and> telegram_ref s \<noteq> n @ ''-config''
     \<and> (\<forall>x. tcs_Exchange s = Some x \<longrightarrow> ex_SecretRef x \<noteq> n @ ''-config'')"

lemma secret_data_kept:
  "\<lbrakk>stored_over sec (config_secret_key n ns) cd sec'; m \<noteq> n @ ''-config''\<rbrakk> \<Longrightarrow> secret_data sec' ns m = secret_data sec ns m"
  by (simp add: secret_data_def stored_over_def config_secret_key_def)

lemma resolved_again:
  assumes S: "serves_secrets A sec'" and st: "sec' (config_secret_key n ns) = Inr st"
    and k: "key_chosen G sec (config_secret_key n ns) s creds k"
    and read: "\<And>a. \<lbrakk>tcs_APIServer s = Some a; k \<noteq> []; json_carries G k\<rbrakk> \<Longrightarrow> key_in G (map_str (sec_Data st) ''config.json'') = k"
  shows "yields (resolveAPIServerJWTSecretKey A G n ns s creds) (\<lambda>r. r = Inr k)"
proof (cases "tcs_APIServer s")
  case None
  with k show ?thesis by (simp add: resolveAPIServerJWTSecretKey_def key_chosen_def yields_return)
next
  case (Some a)
  show ?thesis
  proof (cases "as_Enabled a = Some True \<and> given_key a creds = []")
    case False
    with k Some show ?thesis
      by (auto simp: resolveAPIServerJWTSecretKey_def key_chosen_def given_key_def Let_def intro!: yields_return split: if_splits)
  next
    case True
    with k Some have c: "k \<noteq> []" "json_carries G k" by (simp_all add: key_chosen_def)
    from read [OF Some c] st have "stored_key G sec' (config_secret_key n ns) = k" by (simp add: stored_key_def)
    with st c(1) have "yields (do {
        r \<leftarrow> existingAPIServerJWTSecretKey A G n ns;
        case r of
          Inl e \<Rightarrow> State_Monad.return (Inl e)
        | Inr existing \<Rightarrow> if existing \<noteq> [] then State_Monad.return (Inr existing) else generateAPIServerJWTSecretKey A })
        (\<lambda>r. r = Inr k)"
      by (intro yields_bind_result [OF existing_key [OF S]]) (auto intro: yields_return split: sum.splits)
    with True Some show ?thesis
      by (simp add: resolveAPIServerJWTSecretKey_def given_key_def Let_def split: if_splits)
  qed
qed

lemma rendered_again:
  assumes "stored_over sec (config_secret_key n ns) cd sec'" "no_self_reference n s" "tcs_Exchange s = Some x"
  shows "rendered G sec' n ns s cors x creds k = rendered G sec n ns s cors x creds k"
  using assms secret_data_kept [OF assms(1)] by (simp add: rendered_def no_self_reference_def)

lemma BuildConfig_stable:
  assumes S: "serves_secrets A sec" "serves_secrets A' sec'" and G: "keeps_jwt G"
    and o: "stored_over sec (config_secret_key n ns) cd sec'" and s: "no_self_reference n s"
    and r: "result (BuildConfig A G n ns s cors) w = Inr cd"
  shows "result (BuildConfig A' G n ns s cors) w' = Inr cd"
proof -
  from render_made [OF S(1) r] obtain x creds k where made: "tcs_Exchange s = Some x" "secret_data sec ns (apiServerSecretRef s) = Inr creds"
    "key_chosen G sec (config_secret_key n ns) s creds k" "rendered G sec n ns s cors x creds k = Inr cd" .
  from o obtain st where st: "sec' (config_secret_key n ns) = Inr st" "map_str (sec_Data st) ''config.json'' = map_str cd ''config.json''"
    by (auto simp: stored_over_def)
  have creds: "secret_data sec' ns (apiServerSecretRef s) = Inr creds"
    using secret_data_kept [OF o] s made(2) by (simp add: no_self_reference_def)
  have "yields (resolveAPIServerJWTSecretKey A' G n ns s c) (\<lambda>r. c = creds \<and> r = Inr k)"
    if "secret_data sec' ns (apiServerSecretRef s) = Inr c" for c
    using resolved_again [OF S(2) st(1) made(3)] key_read_back [OF G made(4)] st(2) creds that by simp
  from yieldsD [OF BuildConfig_yields [OF S(2) made(1) this], of cors w'] creds rendered_again [OF o s made(1)] made(4)
  show ?thesis by (auto split: sum.splits)
qed

end
