(* ===== verification/ConfigFailure.thy ===== *)
theory ConfigFailure
  imports ConfigStability
begin

text \<open>Why a render fails. The reconciler reports SecretMissing when the error of \<open>BuildConfig\<close> is a NotFound of the API server
  and ConfigInvalid otherwise. It is a NotFound exactly when a Secret that the configuration references was not
  found; a read that failed for another reason comes out as ConfigInvalid, like an error in the configuration.\<close>

text \<open>The errors of the JSON encoder and of the random source are not answers of the API server.\<close>

definition own_errors :: "'e api \<Rightarrow> golib \<Rightarrow> bool" where
  "own_errors A G \<longleftrightarrow> (\<forall>j e. json_MarshalIndent G j = Inl e \<longrightarrow> ReasonForError e = None)
     \<and> (\<forall>n x e. fst (api_RandRead A n x) = Inl e \<longrightarrow> ReasonForError e = None)"

text \<open>A referenced Secret was missing; a read failed otherwise.\<close>

definition secret_lost :: "nname \<Rightarrow> event \<Rightarrow> bool" where
  "secret_lost own e \<longleftrightarrow> (\<exists>k err. e = GetSecret k (Inl err) \<and> k \<noteq> own \<and> IsNotFound err)"

definition read_failed :: "event \<Rightarrow> bool" where
  "read_failed e \<longleftrightarrow> (\<exists>k err. e = GetSecret k (Inl err) \<and> \<not> IsNotFound err)"

definition fails_as :: "(goerr \<Rightarrow> bool) \<Rightarrow> goerr + 'a \<Rightarrow> bool" where
  "fails_as P r \<longleftrightarrow> (\<exists>e. r = Inl e \<and> P e)"

definition classified :: "nname \<Rightarrow> goerr + 'a \<Rightarrow> event list \<Rightarrow> bool" where
  "classified own r t \<longleftrightarrow> (list_ex (secret_lost own) t \<longleftrightarrow> fails_as IsNotFound r)
     \<and> (list_ex read_failed t \<longrightarrow> fails_as (\<lambda>e. \<not> IsNotFound e) r)"

lemma classified_bind:
  assumes m: "emits m (classified own)"
    and f: "\<And>x. emits (f x) (classified own)" and g: "\<And>e. IsNotFound (g e) = IsNotFound e"
  shows "emits (do { r \<leftarrow> m; case r of Inl e \<Rightarrow> State_Monad.return (Inl (g e)) | Inr x \<Rightarrow> f x }) (classified own)"
  by (rule emits_bind [OF m], rule emits_case_sum, rule emits_return, use g in \<open>auto simp: classified_def fails_as_def\<close>,
      rule emits_conseq [OF f]) (auto simp: classified_def fails_as_def)

lemma classified_data: "n \<noteq> nn_Name own \<Longrightarrow> emits (GetSecretData A ns n) (classified own)"
  unfolding GetSecretData_def do_GetSecret_def
  by (rule emits_if, rule emits_return, simp add: classified_def fails_as_def,
      rule emits_bind [OF emits_call [where Q = "\<lambda>r t. t = [GetSecret \<lparr>nn_Namespace = ns, nn_Name = n\<rparr> r]"]], simp, rule emits_return)
     (auto simp: classified_def fails_as_def secret_lost_def read_failed_def split: sum.splits)

lemma classified_existing:
  "emits (existingAPIServerJWTSecretKey A G n ns) (classified (config_secret_key n ns))"
  unfolding existingAPIServerJWTSecretKey_def do_GetSecret_def
  by (rule emits_bind [OF emits_call [where Q = "\<lambda>r t. t = [GetSecret (config_secret_key n ns) r]"]], simp add: config_secret_key_def,
      rule emits_return)
     (auto simp: classified_def fails_as_def secret_lost_def read_failed_def split: sum.splits option.splits)

lemma classified_generate: "own_errors A G \<Longrightarrow> emits (generateAPIServerJWTSecretKey A) (classified own)"
  unfolding generateAPIServerJWTSecretKey_def do_RandRead_def
  by (rule emits_bind [OF emits_ask_range [where Q = "\<lambda>r t. t = [] \<and> (\<forall>e. r = Inl e \<longrightarrow> ReasonForError e = None)"]],
      simp add: own_errors_def, rule emits_return)
     (auto simp: classified_def fails_as_def IsNotFound_def split: sum.splits)

lemma classified_resolve:
  assumes O: "own_errors A G"
  shows "emits (resolveAPIServerJWTSecretKey A G n ns s creds) (classified (config_secret_key n ns))"
proof -
  have pure: "classified own (Inr x) []" "classified own (Inl (ErrString m)) []" for own m and x :: 'x
    by (simp_all add: classified_def fails_as_def IsNotFound_def)
  have fresh: "emits (do {
      r \<leftarrow> existingAPIServerJWTSecretKey A G n ns;
      case r of
        Inl e \<Rightarrow> State_Monad.return (Inl e)
      | Inr existing \<Rightarrow> if existing \<noteq> [] then State_Monad.return (Inr existing) else generateAPIServerJWTSecretKey A })
      (classified (config_secret_key n ns))"
    by (rule classified_bind [OF classified_existing _ refl], intro emits_if emits_return classified_generate [OF O] pure)
  show ?thesis
    unfolding resolveAPIServerJWTSecretKey_def Let_def
    by (intro emits_case_option emits_if emits_return pure fresh)
qed

lemma BuildConfig_classified:
  assumes O: "own_errors A G" and s: "no_self_reference n s"
  shows "emits (BuildConfig A G n ns s cors) (classified (config_secret_key n ns))"
proof -
  have ref: "emits (GetSecretData A ns m) (classified (config_secret_key n ns))" if "m \<noteq> n @ ''-config''" for m
    using that by (intro classified_data) (simp add: config_secret_key_def)
  have notif: "emits (notificationSecretData A ns s) (classified (config_secret_key n ns))"
    using s unfolding notificationSecretData_def no_self_reference_def telegram_ref_def
    by (intro emits_case_option emits_return ref) (auto simp: classified_def fails_as_def)
  have last: "emits (State_Monad.return (case json_MarshalIndent G j of
      Inl e \<Rightarrow> Inl (Wrap ''failed to marshal config to JSON: '' e) | Inr t \<Rightarrow> Inr [(''config.json'', t)])) (classified (config_secret_key n ns))" for j
    using O by (intro emits_return) (auto simp: classified_def fails_as_def own_errors_def IsNotFound_def split: sum.splits)
  show ?thesis
  proof (cases "tcs_Exchange s")
    case None
    then show ?thesis
      by (simp add: BuildConfig_def emits_return classified_def fails_as_def IsNotFound_def)
  next
    case (Some x)
    show ?thesis
      unfolding BuildConfig_def Some option.case
      by (intro classified_bind ref classified_resolve [OF O] notif last) (use s Some in \<open>simp_all add: no_self_reference_def\<close>)
  qed
qed

end
