(* ===== verification/StatusReport.thy ===== *)
theory StatusReport
  imports TradeBotConditions
begin

text \<open>What the status of a TradeBot means, for a whole reconcile: every status it writes is the object it read before with
  one of three changes. A success says that the configuration is resolved, whether the StatefulSet read after the resources
  pass has a ready replica, and whether the template that was applied carries another hash than the configuration that was
  applied; a failure says so in Ready and in one further condition; the alignment of the state moves StateReconciled alone.\<close>

section \<open>The three reports\<close>

abbreviation bseen :: "klib \<Rightarrow> betatradebot \<Rightarrow> string \<Rightarrow> (condstatus \<times> string \<times> string) option" where
  "bseen K b \<equiv> seen K (bst_Conditions (btb_Status b))"

definition stands :: "klib \<Rightarrow> betatradebot \<Rightarrow> string \<Rightarrow> condstatus \<Rightarrow> bool" where
  "stands K b ty st \<longleftrightarrow> (\<exists>rs m. bseen K b ty = Some (st, rs, m))"

text \<open>A resources pass in the events before a write: the StatefulSet it applied, and the hash of the configuration it applied
  with the script of the Strategy it read.\<close>

definition passed :: "event list \<Rightarrow> statefulset \<Rightarrow> string \<Rightarrow> bool" where
  "passed p s fresh \<longleftrightarrow> (\<exists>k strat sec. GetStrategy k (Inr strat) \<in> set p \<and> ApplyPatch (MSecret sec) None \<in> set p
     \<and> ApplyPatch (MStatefulSet s) None \<in> set p \<and> fresh = computeConfigHash (sec_StringData sec) (ss_Script (sy_Spec strat)))"

fun applies_object :: "event \<Rightarrow> bool" where
  "applies_object (ApplyPatch m r) = True"
| "applies_object _ = False"

definition reports_success :: "klib \<Rightarrow> event list \<Rightarrow> betatradebot \<Rightarrow> betatradebot \<Rightarrow> bool" where
  "reports_success K p b0 b \<longleftrightarrow> (\<exists>s fresh p1 k live p2. passed p1 s fresh \<and> p = p1 @ GetStatefulSet k (Inr live) # p2
     \<and> list_all (\<lambda>e. \<not> applies_object e) p2
     \<and> stands K b ''ConfigResolved'' ConditionTrue
     \<and> stands K b ''WorkloadReady'' (if 1 \<le> sts_StatusReadyReplicas live then ConditionTrue else ConditionFalse)
     \<and> stands K b ''Ready'' (if 1 \<le> sts_StatusReadyReplicas live then ConditionTrue else ConditionFalse)
     \<and> stands K b ''ConfigDrift'' (if template_hash s \<noteq> fresh then ConditionTrue else ConditionFalse)
     \<and> bst_Phase (btb_Status b) = (if 1 \<le> sts_StatusReadyReplicas live then ''Running'' else ''Pending'')
     \<and> bst_AppliedConfigHash (btb_Status b) = fresh \<and> bst_ResolvedImage (btb_Status b) = main_image s
     \<and> (\<forall>ty. ty \<notin> {''ConfigResolved'', ''WorkloadReady'', ''Ready'', ''ConfigDrift''} \<longrightarrow> bseen K b ty = bseen K b0 ty))"

definition tells_failure :: "klib \<Rightarrow> betatradebot \<Rightarrow> betatradebot \<Rightarrow> bool" where
  "tells_failure K b0 b \<longleftrightarrow> (\<exists>ty \<in> {''ConfigResolved'', ''WorkloadReady''}. stands K b ty ConditionFalse \<and> stands K b ''Ready'' ConditionFalse
     \<and> (\<forall>ty'. ty' \<notin> {ty, ''Ready''} \<longrightarrow> bseen K b ty' = bseen K b0 ty'))"

definition moves_state :: "klib \<Rightarrow> betatradebot \<Rightarrow> betatradebot \<Rightarrow> bool" where
  "moves_state K b0 b \<longleftrightarrow> (\<forall>ty. ty \<noteq> ''StateReconciled'' \<longrightarrow> bseen K b ty = bseen K b0 ty)
     \<and> bseen K b ''StateReconciled'' \<noteq> None
     \<and> bst_Phase (btb_Status b) = bst_Phase (btb_Status b0) \<and> bst_ResolvedImage (btb_Status b) = bst_ResolvedImage (btb_Status b0)
     \<and> bst_AppliedConfigHash (btb_Status b) = bst_AppliedConfigHash (btb_Status b0)"

definition status_told :: "klib \<Rightarrow> event list \<Rightarrow> event \<Rightarrow> bool" where
  "status_told K p e \<longleftrightarrow> (\<forall>b r. e = StatusUpdateBetaTradeBot b r \<longrightarrow> (\<exists>k b0. GetBetaTradeBot k (Inr b0) \<in> set p
     \<and> bst_ObservedGeneration (btb_Status b) = om_Generation (btb_meta b0)
     \<and> (reports_success K p b0 b \<or> tells_failure K b0 b \<or> moves_state K b0 b)))"

lemma passed_mono: "\<lbrakk>passed p s fresh; set p \<subseteq> set q\<rbrakk> \<Longrightarrow> passed q s fresh"
  unfolding passed_def by blast

lemma reports_success_pre:
  assumes "reports_success K p b0 b"
  shows "reports_success K (t @ p) b0 b"
proof -
  obtain s fresh p1 k live p2 where p: "passed p1 s fresh" "p = p1 @ GetStatefulSet k (Inr live) # p2"
    and rest: "list_all (\<lambda>e. \<not> applies_object e) p2
     \<and> stands K b ''ConfigResolved'' ConditionTrue
     \<and> stands K b ''WorkloadReady'' (if 1 \<le> sts_StatusReadyReplicas live then ConditionTrue else ConditionFalse)
     \<and> stands K b ''Ready'' (if 1 \<le> sts_StatusReadyReplicas live then ConditionTrue else ConditionFalse)
     \<and> stands K b ''ConfigDrift'' (if template_hash s \<noteq> fresh then ConditionTrue else ConditionFalse)
     \<and> bst_Phase (btb_Status b) = (if 1 \<le> sts_StatusReadyReplicas live then ''Running'' else ''Pending'')
     \<and> bst_AppliedConfigHash (btb_Status b) = fresh \<and> bst_ResolvedImage (btb_Status b) = main_image s
     \<and> (\<forall>ty. ty \<notin> {''ConfigResolved'', ''WorkloadReady'', ''Ready'', ''ConfigDrift''} \<longrightarrow> bseen K b ty = bseen K b0 ty)"
    using assms unfolding reports_success_def by (elim exE conjE) (rule that, assumption, assumption, intro conjI)
  have "passed (t @ p1) s fresh" by (rule passed_mono [OF p(1)]) simp
  moreover have "t @ p = (t @ p1) @ GetStatefulSet k (Inr live) # p2" by (simp add: p(2))
  ultimately show ?thesis unfolding reports_success_def using rest by (intro exI conjI) (assumption | (elim conjE, assumption))+
qed

lemma status_told_pre:
  assumes "status_told K p e"
  shows "status_told K (t @ p) e"
  unfolding status_told_def
proof (intro allI impI)
  fix b r assume "e = StatusUpdateBetaTradeBot b r"
  with assms obtain k b0 where "GetBetaTradeBot k (Inr b0) \<in> set p"
      and b: "bst_ObservedGeneration (btb_Status b) = om_Generation (btb_meta b0)"
      "reports_success K p b0 b \<or> tells_failure K b0 b \<or> moves_state K b0 b"
    unfolding status_told_def by blast
  then have "GetBetaTradeBot k (Inr b0) \<in> set (t @ p)" by simp
  moreover have "reports_success K (t @ p) b0 b \<or> tells_failure K b0 b \<or> moves_state K b0 b"
    using b(2) reports_success_pre by blast
  ultimately show "\<exists>k b0. GetBetaTradeBot k (Inr b0) \<in> set (t @ p) \<and> bst_ObservedGeneration (btb_Status b) = om_Generation (btb_meta b0)
     \<and> (reports_success K (t @ p) b0 b \<or> tells_failure K b0 b \<or> moves_state K b0 b)" using b(1) by blast
qed

lemma told_pre: "sofar (status_told K) u \<Longrightarrow> sofar (\<lambda>p. status_told K (t @ p)) u"
  by (erule sofar_mono) (rule status_told_pre)

section \<open>One status patch\<close>

text \<open>The writes of a patch, each after the read it rests on; \<open>pre\<close> has happened before.\<close>

lemma backed_sofar: "backed W J t \<Longrightarrow> sofar (\<lambda>p e. W e \<longrightarrow> (\<exists>d \<in> set p. J d e)) t"
  unfolding backed_def sofar_def by (force simp: in_set_conv_nth)

lemma sofar_prefix: "\<lbrakk>sofar P t; list_all Q t; \<And>p e. \<lbrakk>P p e; list_all Q p\<rbrakk> \<Longrightarrow> R p e\<rbrakk> \<Longrightarrow> sofar R t"
  unfolding sofar_def by (metis append_take_drop_id list_all_append)

lemma quiet_told: "list_all (\<lambda>e. written_tradebot e = None) t \<Longrightarrow> sofar (status_told K) t"
  by (rule sofar_list_all) (auto simp: list_all_iff status_told_def)

lemma patch_told:
  assumes "\<And>now b p. list_all (\<lambda>e. \<not> applies_object e) p \<Longrightarrow>
      reports_success K (pre @ p) b (persisted b (m now (copyTradeBotStatusFromBeta tb b)))
    \<or> tells_failure K b (persisted b (m now (copyTradeBotStatusFromBeta tb b)))
    \<or> moves_state K b (persisted b (m now (copyTradeBotStatusFromBeta tb b)))"
  shows "emits (patchTradeBotStatus A K tb m) (\<lambda>_ t. list_all (\<lambda>e. \<not> applies_object e) t \<and> sofar (\<lambda>p. status_told K (pre @ p)) t)"
proof (rule emits_conseq [OF emits_conj [OF patch_backed [unfolded keeps_def] only_patchTradeBotStatus [unfolded only_def]]])
  fix t
  assume t: "backed (\<lambda>e. written_tradebot e \<noteq> None) (\<lambda>d e. \<exists>k b now r. d = GetBetaTradeBot k (Inr b)
      \<and> e = StatusUpdateBetaTradeBot (persisted b (m now (copyTradeBotStatusFromBeta tb b))) r) t \<and> list_all (\<lambda>e. \<not> applies_object e) t"
  have "sofar (\<lambda>p. status_told K (pre @ p)) t"
  proof (rule sofar_prefix [OF backed_sofar [OF conjunct1 [OF t]] conjunct2 [OF t]])
    fix p e
    assume w: "written_tradebot e \<noteq> None \<longrightarrow> (\<exists>d \<in> set p. \<exists>k b now r. d = GetBetaTradeBot k (Inr b)
        \<and> e = StatusUpdateBetaTradeBot (persisted b (m now (copyTradeBotStatusFromBeta tb b))) r)" and p: "list_all (\<lambda>e. \<not> applies_object e) p"
    show "status_told K (pre @ p) e"
      unfolding status_told_def
    proof (intro allI impI)
      fix b r assume e: "e = StatusUpdateBetaTradeBot b r"
      with w obtain k b0 now where d: "GetBetaTradeBot k (Inr b0) \<in> set p" "b = persisted b0 (m now (copyTradeBotStatusFromBeta tb b0))"
        by auto
      with assms [OF p, of b0 now] show "\<exists>k b0. GetBetaTradeBot k (Inr b0) \<in> set (pre @ p)
          \<and> bst_ObservedGeneration (btb_Status b) = om_Generation (btb_meta b0)
          \<and> (reports_success K (pre @ p) b0 b \<or> tells_failure K b0 b \<or> moves_state K b0 b)"
        by (intro exI [of _ k] exI [of _ b0]) simp
    qed
  qed
  with t show "list_all (\<lambda>e. \<not> applies_object e) t \<and> sofar (\<lambda>p. status_told K (pre @ p)) t" by simp
qed simp_all

lemma persisted_state:
  assumes K: "klib_laws K"
  shows "moves_state K b (persisted b (set_cond K now (mk_cond ConditionStateReconciled st rs msg) (copyTradeBotStatusFromBeta tb b)))"
  by (simp add: moves_state_def seen_set [OF K] copy_keeps) (simp add: set_cond_def copyTradeBotStatusFromBeta_def)

lemma persisted_failure:
  assumes K: "klib_laws K" and ty: "ty \<in> {ConditionConfigResolved, ConditionWorkloadReady}"
  shows "tells_failure K b (persisted b (fail_mutate K ty rs msg now (copyTradeBotStatusFromBeta tb b)))"
  unfolding tells_failure_def
  by (rule bexI [OF _ ty]) (simp add: stands_def fail_seen [OF K] copy_keeps)

lemma persisted_success:
  assumes K: "klib_laws K" and p: "passed pre s fresh" "list_all (\<lambda>e. \<not> applies_object e) p"
    and out: "ro_appliedConfigHash out = fresh" "ro_configDrift out = (template_hash s \<noteq> fresh)" "ro_resolvedImage out = main_image s"
    and ws: "ws_ready ws = (1 \<le> sts_StatusReadyReplicas live)"
  shows "reports_success K ((pre @ [GetStatefulSet k (Inr live)]) @ p) b
    (persisted b (success_mutate K ws msg out now (copyTradeBotStatusFromBeta tb b)))"
  unfolding reports_success_def
proof (intro exI conjI)
  show "(pre @ [GetStatefulSet k (Inr live)]) @ p = pre @ GetStatefulSet k (Inr live) # p" by simp
  have image: "st_ResolvedImage (tb_Status (success_mutate K ws msg out now t)) = ro_resolvedImage out"
    "st_AppliedConfigHash (tb_Status (success_mutate K ws msg out now t)) = ro_appliedConfigHash out" for t
    by (subst success_status, simp)+
  show "bst_ResolvedImage (btb_Status (persisted b (success_mutate K ws msg out now (copyTradeBotStatusFromBeta tb b)))) = main_image s"
    "bst_AppliedConfigHash (btb_Status (persisted b (success_mutate K ws msg out now (copyTradeBotStatusFromBeta tb b)))) = fresh"
    by (simp_all add: image out)
qed (use p in \<open>simp_all add: stands_def success_seen [OF K] success_phase [OF K] out ws Let_def configDriftCondition_def copy_keeps\<close>)

section \<open>The parts of a reconcile\<close>

definition told_op :: "klib \<Rightarrow> event list \<Rightarrow> ('e, 'a) op \<Rightarrow> bool" where
  "told_op K pre m = emits m (\<lambda>_ t. sofar (\<lambda>p. status_told K (pre @ p)) t)"

named_theorems told_intro "introduction rules of told_op"

lemma told_quiet: "only (\<lambda>e. written_tradebot e = None) m \<Longrightarrow> told_op K pre m"
  unfolding told_op_def only_def by (erule emits_conseq) (rule told_pre, rule quiet_told)

lemma told_bind [told_intro]: "\<lbrakk>told_op K pre m; \<And>x t. told_op K (pre @ t) (f x)\<rbrakk> \<Longrightarrow> told_op K pre (State_Monad.bind m f)"
  unfolding told_op_def by (erule emits_bind) (auto intro!: emits_conseq simp: sofar_append)

lemma told_bind_result:
  assumes m: "emits m (\<lambda>x t. list_all (\<lambda>e. written_tradebot e = None) t \<and> Q x t)" and f: "\<And>x t. Q x t \<Longrightarrow> told_op K (pre @ t) (f x)"
  shows "told_op K pre (State_Monad.bind m f)"
  unfolding told_op_def
proof (rule emits_bind [OF m], elim conjE)
  fix x t assume t: "list_all (\<lambda>e. written_tradebot e = None) t" and "Q x t"
  from f [OF this(2)] told_pre [OF quiet_told [OF t], of K pre]
  show "emits (f x) (\<lambda>_ u. sofar (\<lambda>p. status_told K (pre @ p)) (t @ u))"
    unfolding told_op_def by (elim emits_conseq) (simp add: sofar_append)
qed

lemma told_case_sum [told_intro]:
  "\<lbrakk>\<And>e. x = Inl e \<Longrightarrow> told_op K pre (f e); \<And>y. x = Inr y \<Longrightarrow> told_op K pre (g y)\<rbrakk>
    \<Longrightarrow> told_op K pre (case x of Inl e \<Rightarrow> f e | Inr y \<Rightarrow> g y)"
  by (cases x) simp_all

lemma told_case_option [told_intro]:
  "\<lbrakk>z = None \<Longrightarrow> told_op K pre h; \<And>y. z = Some y \<Longrightarrow> told_op K pre (j y)\<rbrakk> \<Longrightarrow> told_op K pre (case z of None \<Rightarrow> h | Some y \<Rightarrow> j y)"
  by (cases z) simp_all

lemma told_case_prod [told_intro]:
  "(\<And>u v. q = (u, v) \<Longrightarrow> told_op K pre (l u v)) \<Longrightarrow> told_op K pre (case q of (u, v) \<Rightarrow> l u v)"
  by (cases q) simp

lemma told_if [told_intro]: "\<lbrakk>c \<Longrightarrow> told_op K pre h; \<not> c \<Longrightarrow> told_op K pre h'\<rbrakk> \<Longrightarrow> told_op K pre (if c then h else h')"
  by simp

lemma told_return [told_intro]: "told_op K pre (State_Monad.return x)"
  by (rule told_quiet) (intro only_intro)

lemma fail_told:
  assumes K: "klib_laws K" and ty: "ty \<in> {ConditionConfigResolved, ConditionWorkloadReady}"
  shows "told_op K pre (failReconcile A K R tb ty rs msg err)"
proof -
  have "told_op K pre (patchTradeBotStatus A K tb (fail_mutate K ty rs msg))"
    unfolding told_op_def by (rule emits_conseq [OF patch_told]) (use persisted_failure [OF K ty] in auto)
  moreover have "told_op K pre' (record_event x EventWarning rs msg)" "told_op K pre' (emit (MetricInc n l))" for pre' x n l
    by (rule told_quiet, intro only_intro, simp)+
  ultimately show ?thesis unfolding failReconcile_def by (intro told_intro)
qed

lemma state_cond_told:
  assumes K: "klib_laws K"
  shows "told_op K pre (set_state_cond A K tb st rs msg)"
proof -
  have "told_op K pre (patchTradeBotStatus A K tb (\<lambda>now. set_cond K now (mk_cond ConditionStateReconciled st rs msg)))"
    unfolding told_op_def by (rule emits_conseq [OF patch_told]) (use persisted_state [OF K] in auto)
  then show ?thesis unfolding set_state_cond_def by (intro told_intro)
qed

lemma requeue_told:
  assumes K: "klib_laws K"
  shows "told_op K pre (reconcileStateAndComputeRequeue A K G R key tb d)"
proof -
  have quiet: "told_op K pre (resolveCredentials A tb)" "told_op K pre (bot_Start A G c)" "told_op K pre (bot_Stop A G c)"
      "told_op K pre (record_event x ev a m)" "told_op K pre (do_GetBetaTradeBot A key)" for pre c x ev a m
    unfolding call_defs by (intro told_quiet only_intro; simp)+
  show ?thesis
    unfolding reconcileStateAndComputeRequeue_def reconcileState_def reconcileStateChange_def Let_def
    by (intro told_intro quiet state_cond_told [OF K])
qed

lemma status_part_told:
  assumes K: "klib_laws K" and p: "passed pre s fresh"
    and out: "ro_appliedConfigHash out = fresh" "ro_configDrift out = (template_hash s \<noteq> fresh)" "ro_resolvedImage out = main_image s"
  shows "told_op K pre (reconcile_status A K G R key tb cw out)"
proof -
  let ?k = "key_of_meta (tb_meta tb)"
  have work: "emits (computeWorkloadStatus A tb) (\<lambda>r t. list_all (\<lambda>e. written_tradebot e = None) t \<and>
      (\<forall>ws. r = Inr ws \<longrightarrow> (\<exists>live. t = [GetStatefulSet ?k (Inr live)] \<and> ws_ready ws = (1 \<le> sts_StatusReadyReplicas live))))"
    unfolding computeWorkloadStatus_def do_GetStatefulSet_def
    by (rule emits_bind [OF emits_call [where Q = "\<lambda>g t. t = [GetStatefulSet ?k g]"]], rule refl, rule emits_return)
       (auto split: sum.splits if_splits)
  have life: "told_op K pre' (recordLifecycleEvents K R tb' x)" for pre' tb' x
    by (rule told_quiet) (intro only_intro, simp_all)
  have patch: "told_op K (pre @ [GetStatefulSet ?k (Inr live)]) (patchTradeBotStatus A K tb (success_mutate K ws msg out))"
    if "ws_ready ws = (1 \<le> sts_StatusReadyReplicas live)" for ws live msg
    unfolding told_op_def
    by (rule emits_conseq [OF patch_told [where pre = "pre @ [GetStatefulSet ?k (Inr live)]"]])
       (use persisted_success [OF K p _ out that] in blast)+
  show ?thesis
    unfolding reconcile_status_def
  proof (rule told_bind_result [OF work], rule told_case_sum, goal_cases)
    case (2 r t ws)
    then obtain live where t: "t = [GetStatefulSet ?k (Inr live)]" and ready: "ws_ready ws = (1 \<le> sts_StatusReadyReplicas live)" by blast
    show ?case unfolding t Let_def by (intro told_bind [OF patch [OF ready]] told_intro life requeue_told [OF K])
  qed (rule fail_told [OF K], simp)
qed

section \<open>The resources pass\<close>

lemma Apply_leaves:
  assumes "klib_laws K"
  shows "emits (Apply A K owner m) (\<lambda>r t. r = None \<longrightarrow> (\<exists>rs. ApplyPatch (with_owners rs m) None \<in> set t))"
proof -
  have "\<exists>rs. m' = with_owners rs m" if "SetControllerReference K owner m = Inr m'" for m'
    using assms that unfolding klib_laws_def owner_refs_def by blast
  then show ?thesis
    unfolding Apply_def applyServerSide_def do_Patch_def by (fastforce intro!: emits_case_sum emits_return emits_call)
qed

lemma resources_secret:
  assumes K: "klib_laws K"
  shows "emits (reconcileResources A K R tb strat cd fs) (\<lambda>r t. \<forall>out. r = Inr out \<longrightarrow>
    (\<exists>sec. ApplyPatch (MSecret sec) None \<in> set t \<and> sec_StringData sec = cd))"
proof -
  have sec: "\<exists>sec. with_owners rs (MSecret (BuildSecret tb cd)) = MSecret sec \<and> sec_StringData sec = cd" for rs
    by (simp add: BuildSecret_def)
  show ?thesis
    unfolding reconcileResources_def Let_def apply_or_def [of "Apply A K (tb_meta tb) (MSecret (BuildSecret tb cd))"]
  proof (rule emits_bind [OF Apply_leaves [OF K]], rule emits_case_option)
    fix x t and e :: goerr
    show "emits (State_Monad.return (Inl (Wrap ''failed to apply Secret: '' e))) (\<lambda>r u. \<forall>out. r = Inr out \<longrightarrow>
        (\<exists>sec. ApplyPatch (MSecret sec) None \<in> set (t @ u) \<and> sec_StringData sec = cd))" by (rule emits_return) simp
  next
    fix x t assume "x = None \<longrightarrow> (\<exists>rs. ApplyPatch (with_owners rs (MSecret (BuildSecret tb cd))) None \<in> set t)" "x = None"
    then have "\<exists>sec. ApplyPatch (MSecret sec) None \<in> set (t @ u) \<and> sec_StringData sec = cd" for u using sec by fastforce
    then show "emits (apply_or (Apply A K (tb_meta tb) (MConfigMap (BuildStrategyConfigMap tb strat))) ''failed to apply Strategy ConfigMap: ''
        (apply_or (Apply A K (tb_meta tb) (MPVC (BuildUserDataPVC tb))) ''failed to apply PVC: ''
          (do {
             h \<leftarrow> statefulSetTemplateHash A tb (computeConfigHash cd (ss_Script (sy_Spec strat)));
             case h of
               Inl e \<Rightarrow> State_Monad.return (Inl (Wrap ''failed to determine StatefulSet config-hash annotation: '' e))
             | Inr templateHash \<Rightarrow> apply_workload A K R tb strat (computeConfigHash cd (ss_Script (sy_Spec strat))) fs templateHash })))
        (\<lambda>r u. \<forall>out. r = Inr out \<longrightarrow> (\<exists>sec. ApplyPatch (MSecret sec) None \<in> set (t @ u) \<and> sec_StringData sec = cd))"
      by (intro emits_of_only [where P = "\<lambda>_. True"]) (auto simp: apply_workload_def Let_def intro!: only_intro)
  qed
qed

lemma resources_passed:
  assumes K: "klib_laws K" and pre: "GetStrategy k (Inr strat) \<in> set pre"
  shows "emits (reconcileResources A K R tb strat cd fs) (\<lambda>r u. list_all (\<lambda>e. written_tradebot e = None) u \<and>
    (\<forall>out. r = Inr out \<longrightarrow> (\<exists>s. passed (pre @ u) s (ro_appliedConfigHash out)
      \<and> ro_configDrift out = (template_hash s \<noteq> ro_appliedConfigHash out) \<and> ro_resolvedImage out = main_image s)))"
proof (rule emits_conseq [OF emits_conj [OF _ emits_conj [OF reconcileResources_pass [OF K] resources_secret [OF K]]]])
  show "emits (reconcileResources A K R tb strat cd fs) (\<lambda>_ u. list_all (\<lambda>e. written_tradebot e = None) u)"
    unfolding only_def [symmetric] by (intro only_intro) simp_all
next
  fix r :: "goerr + reconcileOutcome" and u
  assume "list_all (\<lambda>e. written_tradebot e = None) u \<and> pass_ok tb (computeConfigHash cd (ss_Script (sy_Spec strat))) r u
    \<and> (\<forall>out. r = Inr out \<longrightarrow> (\<exists>sec. ApplyPatch (MSecret sec) None \<in> set u \<and> sec_StringData sec = cd))"
  with pre show "list_all (\<lambda>e. written_tradebot e = None) u \<and> (\<forall>out. r = Inr out \<longrightarrow> (\<exists>s. passed (pre @ u) s (ro_appliedConfigHash out)
      \<and> ro_configDrift out = (template_hash s \<noteq> ro_appliedConfigHash out) \<and> ro_resolvedImage out = main_image s))"
    unfolding pass_ok_def passed_def by fastforce
qed

lemma live_told:
  assumes K: "klib_laws K"
  shows "told_op K pre (reconcile_live A K G R key tb)"
proof -
  have refs: "emits (fetchReferencedResources A tb ns) (\<lambda>r t. list_all (\<lambda>e. written_tradebot e = None) t
      \<and> (\<forall>res. r = Inr res \<longrightarrow> (\<exists>k. GetStrategy k (Inr (rf_strategy res)) \<in> set t)))" for ns
    unfolding fetchReferencedResources_def call_defs
    by (rule emits_bind [OF emits_call [where Q = "\<lambda>g t. \<exists>k. t = [GetTradeBotConfig k g]"]], blast, rule emits_case_sum, rule emits_return, force,
        rule emits_bind [OF emits_call [where Q = "\<lambda>g t. \<exists>k. t = [GetStrategy k g]"]], blast)
       (auto intro!: emits_return split: sum.splits)
  have quiet: "told_op K pre' (do_ListFreqUI A ns)" "told_op K pre' (BuildConfig A G n ns sp c)" "told_op K pre' (emit (MetricObserve x))"
    for pre' ns n sp c x
    unfolding call_defs by (intro told_quiet only_intro; simp)+
  have pass: "told_op K pre' (do {
       out \<leftarrow> reconcileResources A K R tb strat cd fs;
       case out of
         Inl e \<Rightarrow> failReconcile A K R tb ConditionWorkloadReady ReasonReconcileError (f e) (Some e)
       | Inr outcome \<Rightarrow> reconcile_status A K G R key tb cw outcome })"
    if "GetStrategy k (Inr strat) \<in> set pre'" for pre' k strat cd fs f cw
    by (rule told_bind_result [OF resources_passed [OF K that]], rule told_case_sum, rule fail_told [OF K], simp)
       (blast intro: status_part_told [OF K])
  show ?thesis
    unfolding reconcile_live_def Let_def
    by (rule told_if, rule fail_told [OF K], simp, rule told_bind_result [OF refs], rule told_case_sum, rule fail_told [OF K], simp,
        rule told_bind [OF quiet(1)], rule told_case_sum, rule told_return, rule told_bind [OF quiet(2)], rule told_bind [OF quiet(3)],
        rule told_case_sum, rule fail_told [OF K], simp) (auto intro: pass)
qed

lemma Reconcile_told:
  assumes K: "klib_laws K"
  shows "emits (Reconcile A K G R key) (\<lambda>_ t. sofar (status_told K) t)"
proof -
  have get: "told_op K pre (do_GetTradeBot A key)" for pre
    by (rule told_quiet) (unfold call_defs, intro only_intro, simp)
  have del: "told_op K pre (reconcile_deletion A K G R tb)" for pre tb
    by (rule told_quiet) (unfold reconcile_deletion_def call_defs, intro only_intro, simp_all)
  have add: "told_op K pre (reconcile_add_finalizer A K key)" for pre
    by (rule told_quiet) (unfold reconcile_add_finalizer_def call_defs, intro only_intro, simp_all)
  have "told_op K [] (Reconcile A K G R key)"
    unfolding Reconcile_def by (intro told_intro get del add live_told [OF K])
  then show ?thesis by (simp add: told_op_def)
qed

end
