(* ===== verification/ScenarioBot.thy ===== *)
theory ScenarioBot
  imports ScenarioLoop TradeBotHistory SteadyReconcile ConfigFailure SecretContainment StatusReport
begin

text \<open>A cluster that stores one TradeBot and its StatefulSet and runs the bot: status writes are kept, a StatefulSet that is
  applied is served from then on, and the bot starts and stops as it is told and reports its state. The histories of a
  bot's workload and the alignment of its state are exercised here.\<close>

record tbworld =
  tw_stored :: betatradebot
  tw_sts :: statefulset
  tw_running :: bool

definition tw_actual :: "tbworld \<Rightarrow> string" where
  "tw_actual w = (if tw_running w then ''running'' else ''stopped'')"

definition tw_HTTPDo :: "httpreq \<Rightarrow> tbworld \<Rightarrow> (goerr + httpresp) \<times> tbworld" where
  "tw_HTTPDo rq w = (Inr \<lparr>rs_StatusCode = 200, rs_Body = Inr (tw_actual w)\<rparr>,
     w\<lparr>tw_running := (obeyed demo_tb rq (tw_actual w) = ''running'')\<rparr>)"

definition tw_Patch :: "manifest \<Rightarrow> tbworld \<Rightarrow> goerr option \<times> tbworld" where
  "tw_Patch m w = (None, case m of MStatefulSet s \<Rightarrow> w\<lparr>tw_sts := s\<rparr> | _ \<Rightarrow> w)"

definition tw_secret :: secret where
  "tw_secret = \<lparr>sec_meta = mk_meta ''s'' ''ns'', sec_Type = [], sec_Data = [], sec_StringData = []\<rparr>"

definition tw_api :: "tbworld api" where
  "tw_api = \<lparr>api_GetTradeBot = (\<lambda>k e. (Inr (copyTradeBotStatusFromBeta demo_tb (tw_stored e)), e)),
     api_GetBetaTradeBot = (\<lambda>k e. (Inr (tw_stored e), e)),
     api_ListTradeBots = (\<lambda>e. (Inr [], e)), api_UpdateBetaTradeBot = (\<lambda>b e. (None, e)),
     api_StatusUpdateBetaTradeBot = (\<lambda>b e. (None, e\<lparr>tw_stored := b\<rparr>)), api_GetStrategy = (\<lambda>k e. (Inr demo_strategy, e)),
     api_StatusUpdateStrategy = (\<lambda>s e. (None, e)), api_GetTradeBotConfig = (\<lambda>k e. (Inr demo_config, e)),
     api_StatusUpdateTradeBotConfig = (\<lambda>c e. (None, e)), api_ListFreqUI = (\<lambda>ns e. (Inr [], e)),
     api_GetSecret = (\<lambda>k e. (Inr tw_secret, e)), api_GetStatefulSet = (\<lambda>k e. (Inr (tw_sts e), e)),
     api_UpdateStatefulSet = (\<lambda>s e. (None, e\<lparr>tw_sts := s\<rparr>)), api_GetPVC = (\<lambda>k e. (Inl demo_notfound, e)),
     api_UpdatePVC = (\<lambda>p e. (None, e)), api_Patch = tw_Patch,
     api_GetFreqUI = (\<lambda>k e. (Inl demo_notfound, e)), api_StatusUpdateFreqUI = (\<lambda>f e. (None, e)),
     api_GetDeployment = (\<lambda>k e. (Inl demo_notfound, e)), api_GetIngress = (\<lambda>k e. (Inl demo_notfound, e)),
     api_DeleteIngress = (\<lambda>i e. (None, e)), api_ListHTTPRoutes = (\<lambda>ns l e. (Inr [], e)),
     api_PatchHTTPRoute = (\<lambda>r e. (Inr r, e)), api_DeleteHTTPRoute = (\<lambda>r e. (None, e)),
     api_GetBacktest = (\<lambda>k e. (Inl demo_notfound, e)), api_UpdateBacktest = (\<lambda>b e. (None, e)),
     api_StatusUpdateBacktest = (\<lambda>b e. (None, e)), api_GetJob = (\<lambda>k e. (Inl demo_notfound, e)),
     api_GetConfigMap = (\<lambda>k e. (Inl demo_notfound, e)), api_UpdateConfigMap = (\<lambda>c e. (None, e)),
     api_CreateConfigMap = (\<lambda>c e. (None, e)), api_GetPod = (\<lambda>k e. (Inl demo_notfound, e)),
     api_ReadFile = (\<lambda>p e. (Inl demo_notfound, e)), api_WriteFile = (\<lambda>p c e. (None, e)),
     api_OpenZip = (\<lambda>p e. (Inl demo_notfound, e)), api_WaitSignal = (\<lambda>b d e. (False, e)),
     api_HTTPDo = tw_HTTPDo, api_Now = (\<lambda>e. (7, e)),
     api_RandRead = (\<lambda>n e. (Inr (\<lambda>_. CHR ''x''), e)), api_RetrySteps = 4\<rparr>"

definition tw_golib :: golib where
  "tw_golib = demo_golib\<lparr>json_Unmarshal := (\<lambda>s. Inr (JObj [(''state'', JStr s)]))\<rparr>"

definition tw_start :: tbworld where
  "tw_start = \<lparr>tw_stored = demo_beta, tw_sts = demo_sts, tw_running = True\<rparr>"

section \<open>The StatefulSet\<close>

definition tw_stsview :: "tbworld stsview" where
  "tw_stsview = \<lparr>hv_stored = (\<lambda>w. Some (sts_Template (tw_sts w))), hv_shown = (\<lambda>w. Some (sts_Template (tw_sts w))),
     hv_default = (\<lambda>t. t)\<rparr>"

lemma tw_sts_cluster: "sts_cluster tw_api demo_key tw_stsview"
  by (auto simp: sts_cluster_def tw_api_def tw_stsview_def shows_sts_def template_written_def template_quiet_def template_drift_def
      defaulting_def tw_Patch_def tw_HTTPDo_def split: manifest.split)

lemma tw_reads_manual: "reads_manual tw_api demo_key demo_tb ''S''"
  by (simp add: reads_manual_def manual_bot_def same_pods_def app_of_def tw_api_def demo_tb_def demo_spec_def demo_strategy_def)

text \<open>The StatefulSet of an earlier configuration is in place.\<close>

definition tw_earlier :: tbworld where
  "tw_earlier = tw_start\<lparr>tw_sts := demo_applied\<rparr>"

abbreviation demo_template_of :: "string \<Rightarrow> podtemplate" where
  "demo_template_of \<equiv> bot_template demo_reconciler demo_tb ''S''"

lemma tw_settled: "settled tw_stsview (demo_template_of ''0123456789abcdef'') tw_earlier"
  by (simp add: settled_def tw_stsview_def tw_earlier_def demo_applied_def bot_template_def demo_names)

section \<open>The bot\<close>

definition tw_botview :: "tbworld botview" where
  "tw_botview = \<lparr>bv_stored = tw_stored, bv_actual = tw_actual\<rparr>"

lemma tw_obeyed: "tw_actual (snd (tw_HTTPDo rq w)) = obeyed demo_tb rq (tw_actual w)"
  by (simp add: tw_HTTPDo_def tw_actual_def obeyed_def)

lemma tw_answers: "answered (fst (tw_HTTPDo rq w)) (tw_actual w)"
  by (simp add: answered_def tw_HTTPDo_def tw_actual_def maxResponseBody_def)

lemma tw_decodes:
  "dec_pair (dec_string ''state'') (dec_bool ''dry_run'') (JObj [(''state'', JStr s)]) = Inr (s, False)"
  "dec_single (dec_string ''version'') (JObj [(''state'', JStr s)]) = Inr []"
  by (simp_all add: dec_pair_def dec_single_def dec_string_def dec_bool_def is_struct_def field_of_def lower_char_def)

lemma tw_bot_answers: "bot_answers tw_api tw_golib demo_tb tw_botview"
  unfolding bot_answers_def
  using tw_answers tw_obeyed tw_decodes
  by (auto simp: tw_api_def tw_botview_def tw_golib_def demo_golib_def tw_HTTPDo_def)

lemma tw_obedient: "obedient tw_api tw_golib demo_key demo_tb tw_botview"
  unfolding obedient_def
  by (intro conjI tw_bot_answers)
     (auto simp: tw_api_def tw_botview_def bot_kept_def tw_actual_def tw_Patch_def demo_config_def demo_configspec_def split: manifest.split)

lemma tw_managed: "managed ref_klib demo_key demo_tb"
  by (simp add: managed_def ref_klib_def isTradeMode_def demo_tb_def demo_spec_def TrimSpace_def)

lemma ref_exact_equal: "exact_equal ref_klib"
  by (simp add: exact_equal_def ref_klib_def)

section \<open>No reconcile fails here\<close>

lemma tw_calls:
  "yields (do_GetTradeBot tw_api k) (\<lambda>r. \<exists>b. r = Inr (copyTradeBotStatusFromBeta demo_tb b))"
  "yields (do_GetBetaTradeBot tw_api k) (\<lambda>r. \<exists>b. r = Inr b)" "yields (do_StatusUpdateBetaTradeBot tw_api b) (\<lambda>r. r = None)"
  "yields (do_GetStrategy tw_api k) (\<lambda>r. r = Inr demo_strategy)" "yields (do_GetTradeBotConfig tw_api k) (\<lambda>r. r = Inr demo_config)"
  "yields (do_ListFreqUI tw_api ns) (\<lambda>r. r = Inr [])" "yields (do_GetSecret tw_api k) (\<lambda>r. r = Inr tw_secret)"
  "yields (do_GetStatefulSet tw_api k) (\<lambda>r. \<exists>s. r = Inr s)" "yields (do_Patch tw_api m) (\<lambda>r. r = None)"
  "yields (do_HTTP tw_api rq) (\<lambda>r. \<exists>w. r = fst (tw_HTTPDo rq w))"
  unfolding call_defs by (rule yields_call; force simp: tw_api_def tw_Patch_def)+

lemma tw_apply: "om_OwnerReferences (manifest_meta m) = [] \<Longrightarrow> yields (Apply tw_api ref_klib demo_meta m) (\<lambda>r. r = None)"
  unfolding Apply_def applyServerSide_def
  by (simp add: ref_klib_def ref_SetControllerReference_def) (rule tw_calls)

lemma tw_apply_or:
  assumes "yields k S" and "om_OwnerReferences (manifest_meta m) = []"
  shows "yields (apply_or (Apply tw_api ref_klib demo_meta m) msg k) S"
  unfolding apply_or_def by (rule yields_bind_result [OF tw_apply [OF assms(2)]]) (simp add: assms(1))

lemma tw_resources:
  assumes "tb_meta t = demo_meta"
  shows "yields (reconcileResources tw_api ref_klib demo_reconciler t st cd fs) (\<lambda>r. \<exists>out. r = Inr out)"
proof -
  have hash: "yields (statefulSetTemplateHash tw_api t h) (\<lambda>r. \<exists>h. r = Inr h)" for h
    unfolding statefulSetTemplateHash_def
    by (simp, intro conjI impI yields_return yields_bind_result [OF tw_calls(8)]) (auto simp: Let_def)
  have work: "yields (apply_workload tw_api ref_klib demo_reconciler t st h fs h') (\<lambda>r. \<exists>out. r = Inr out)" for h h'
    unfolding apply_workload_def Let_def assms by (intro tw_apply_or yields_bind yields_return) auto
  have tail: "yields (do {
        r \<leftarrow> statefulSetTemplateHash tw_api t h;
        case r of Inl e \<Rightarrow> State_Monad.return (Inl (f e)) | Inr h' \<Rightarrow> apply_workload tw_api ref_klib demo_reconciler t st h fs h' })
      (\<lambda>r. \<exists>out. r = Inr out)" for h f
    by (rule yields_bind_result [OF hash], elim exE) (simp add: work)
  show ?thesis
    unfolding reconcileResources_def Let_def assms by (intro tw_apply_or tail) auto
qed

lemma yields_Retry: "yields fn (\<lambda>r. \<exists>x. r = Inr x \<and> S x) \<Longrightarrow> yields (RetryOnConflict n fn) (\<lambda>r. \<exists>x. r = Inr x \<and> S x)"
proof (cases n)
  case (Suc k)
  show ?thesis if "yields fn (\<lambda>r. \<exists>x. r = Inr x \<and> S x)"
    unfolding Suc RetryOnConflict.simps by (rule yields_bind_result [OF that], elim exE conjE) (simp add: yields_return)
qed simp

lemma tw_patch:
  "yields (patchTradeBotStatus tw_api ref_klib t m) (\<lambda>r. \<exists>t'. r = Inr t' \<and> (\<exists>n b. t' = m n (copyTradeBotStatusFromBeta t b)))"
proof -
  have upd: "yields (do { w \<leftarrow> do_StatusUpdateBetaTradeBot tw_api b';
      case w of None \<Rightarrow> State_Monad.return (Inr x) | Some e \<Rightarrow> State_Monad.return (Inl e) }) (\<lambda>r. r = Inr x)" for b' and x :: tradebot
    by (rule yields_bind_result [OF tw_calls(3)]) (simp add: yields_return)
  show ?thesis
    unfolding patchTradeBotStatus_def PatchStatus_def tradebot_cobj_def cobj.simps patch_mutate_def Let_def prod.case
    by (rule yields_Retry, rule yields_bind_result [OF tw_calls(2)], elim exE, simp only: sum.case,
        intro yields_bind yields_if yields_return yields_post [OF upd]) auto
qed

lemma tw_build: "yields (BuildConfig tw_api tw_golib n ns demo_configspec cs) (\<lambda>r. \<exists>d. r = Inr d)"
  by (simp add: yields_def result_def runs demo_configspec_def BuildConfig_def GetSecretData_def apiServerSecretRef_def demo_apiserver_def
      resolveAPIServerJWTSecretKey_def demo_exchange_def notificationSecretData_def map_str_def tw_golib_def demo_golib_def)

lemma tw_state_cond: "yields (set_state_cond tw_api ref_klib t st rs m) (\<lambda>r. r = None)"
  unfolding set_state_cond_def by (rule yields_bind_result [OF tw_patch], elim exE conjE) (simp add: yields_return)

lemma tw_state: "yields (reconcileState tw_api ref_klib tw_golib demo_reconciler t b) (\<lambda>(d, e). e = None)"
proof -
  have report: "yields (do { e \<leftarrow> set_state_cond tw_api ref_klib t st rs m; State_Monad.return (d, e) }) (\<lambda>(d, e). e = None)"
    for st rs m and d :: duration
    by (rule yields_bind_result [OF tw_state_cond]) (simp add: yields_return)
  show ?thesis
    unfolding reconcileState_def reconcileStateChange_def Let_def
    by (intro yields_if report yields_bind yields_case_prod yields_case_sum yields_case_option)
qed

lemma tw_requeue: "yields (reconcileStateAndComputeRequeue tw_api ref_klib tw_golib demo_reconciler k t d) (\<lambda>(d, e). e = None)"
  unfolding reconcileStateAndComputeRequeue_def
  by (rule yields_bind_result [OF tw_calls(2)], elim exE, simp, rule yields_bind_result [OF tw_state], rule yields_return)
     (auto split: option.splits if_splits)

lemma tw_Reconcile: "yields (Reconcile tw_api ref_klib tw_golib demo_reconciler demo_key) (\<lambda>r. rr_Err r = None)"
proof -
  have work: "yields (computeWorkloadStatus tw_api t) (\<lambda>r. \<exists>w. r = Inr w)" for t
    unfolding computeWorkloadStatus_def
    by (rule yields_bind_result [OF tw_calls(8)], elim exE) (auto intro!: yields_return)
  have status: "yields (reconcile_status tw_api ref_klib tw_golib demo_reconciler demo_key t cw out) (\<lambda>r. rr_Err r = None)" for t cw out
    unfolding reconcile_status_def Let_def
    by (rule yields_bind_result [OF work], elim exE, simp only: sum.case, rule yields_bind_result [OF tw_patch], elim exE conjE,
        simp only: sum.case, rule yields_bind, rule yields_bind_result [OF tw_requeue], rule yields_return)
       (auto simp: mk_result_def)
  have refs: "yields (fetchReferencedResources tw_api t ns) (\<lambda>r. r = Inr \<lparr>rf_strategy = demo_strategy, rf_tradebotconfig = demo_config\<rparr>)" for t ns
    unfolding fetchReferencedResources_def
    by (rule yields_bind_result [OF tw_calls(5)], simp, rule yields_bind_result [OF tw_calls(4)]) (simp add: yields_return)
  have live: "yields (reconcile_live tw_api ref_klib tw_golib demo_reconciler demo_key t) (\<lambda>r. rr_Err r = None)"
    if t: "tb_meta t = demo_meta" "tb_Spec t = demo_spec" for t
  proof -
    have cmd: "\<not> (TrimSpace (tb_FreqtradeCommand (tb_Spec t)) \<noteq> [] \<and> TrimSpace (tb_FreqtradeCommand (tb_Spec t)) \<noteq> ''trade'')"
      by (simp add: t demo_spec_def TrimSpace_def)
    have conf: "tc_Spec demo_config = demo_configspec" by (simp add: demo_config_def)
    show ?thesis
      unfolding reconcile_live_def Let_def if_not_P [OF cmd]
      by (rule yields_bind_result [OF refs], simp add: conf, rule yields_bind_result [OF tw_calls(6)], simp,
          rule yields_bind_result [OF tw_build], elim exE, simp, rule yields_bind,
          rule yields_bind_result [OF tw_resources [OF t(1)]], elim exE, simp add: status)
  qed
  have fin: "ContainsFinalizer ref_klib [BotFinalizer] BotFinalizer" by (simp add: ref_klib_def)
  show ?thesis
    unfolding Reconcile_def
    by (rule yields_bind_result [OF tw_calls(1)], elim exE) (simp add: live demo_tb_spec fin)
qed

lemma tw_round: "yields (alignment_round tw_api ref_klib tw_golib demo_reconciler demo_key p) (\<lambda>(r, r'). rr_Err r = None \<and> rr_Err r' = None)"
  unfolding alignment_round_def
  by (rule yields_bind, rule yields_bind_result [OF tw_Reconcile], rule yields_bind, rule yields_bind_result [OF tw_Reconcile],
      rule yields_return) simp

section \<open>A steady cluster\<close>

text \<open>The same cluster with the workload settled: its StatefulSet is ready, and applying the resources once more changes nothing.\<close>

definition calm_api :: "tbworld api" where
  "calm_api = tw_api\<lparr>api_GetStatefulSet := (\<lambda>k e. (Inr demo_sts, e)), api_Patch := (\<lambda>m e. (None, e))\<rparr>"

definition calm_start :: tbworld where
  "calm_start = tw_start\<lparr>tw_stored := demo_beta\<lparr>btb_Spec := (btb_Spec demo_beta)\<lparr>btb_State := TradeBotStateRunning\<rparr>\<rparr>\<rparr>"

lemma calm_obedient: "obedient calm_api tw_golib demo_key demo_tb tw_botview"
  using tw_obedient by (simp add: calm_api_def obedient_def bot_answers_def bot_kept_def)

lemma calm_calls:
  "yields (do_GetStrategy calm_api k) (\<lambda>r. r = Inr demo_strategy)" "yields (do_GetTradeBotConfig calm_api k) (\<lambda>r. r = Inr demo_config)"
  "yields (do_ListFreqUI calm_api ns) (\<lambda>r. r = Inr [])" "yields (do_GetSecret calm_api k) (\<lambda>r. r = Inr tw_secret)"
  "yields (do_GetStatefulSet calm_api k) (\<lambda>r. r = Inr demo_sts)" "yields (do_Patch calm_api m) (\<lambda>r. r = None)"
  unfolding call_defs by (rule yields_call; simp add: calm_api_def tw_api_def)+

lemma calm_apply_or:
  assumes "yields k S" and "om_OwnerReferences (manifest_meta m) = []"
  shows "yields (apply_or (Apply calm_api ref_klib demo_meta m) msg k) S"
proof -
  have "yields (Apply calm_api ref_klib demo_meta m) (\<lambda>r. r = None)"
    unfolding Apply_def applyServerSide_def using assms(2)
    by (simp add: ref_klib_def ref_SetControllerReference_def) (rule calm_calls)
  then show ?thesis unfolding apply_or_def by (rule yields_bind_result) (simp add: assms(1))
qed

definition calm_outcome :: reconcileOutcome where
  "calm_outcome = (let h = computeConfigHash [(''config.json'', ''{}'')] (ss_Script (sy_Spec demo_strategy)) in
     \<lparr>ro_appliedConfigHash = h, ro_resolvedImage = main_image (BuildStatefulSet demo_tb (defaultImage demo_reconciler) ''S''
        ''bot-config'' ''bot-strategy'' ''bot-user-data'' ''0123456789abcdef''), ro_configDrift = (''0123456789abcdef'' \<noteq> h)\<rparr>)"

lemma calm_resources:
  assumes t: "tb_meta t = demo_meta" "tb_Spec t = demo_spec"
  shows "yields (reconcileResources calm_api ref_klib demo_reconciler t demo_strategy [(''config.json'', ''{}'')] fs) (\<lambda>r. r = Inr calm_outcome)"
proof -
  have hash: "yields (statefulSetTemplateHash calm_api t h) (\<lambda>r. r = Inr ''0123456789abcdef'')" for h
    unfolding statefulSetTemplateHash_def
    by (simp add: t demo_spec_def, rule yields_bind_result [OF calm_calls(5)], rule yields_return) (simp add: demo_template)
  have image: "main_image (BuildStatefulSet t i s c sc pv h) = main_image (BuildStatefulSet demo_tb i s c sc pv h)" for i s c sc pv h
    using t by (simp add: BuildStatefulSet_def main_image_def BuildPod_def app_of_def demo_tb_spec Let_def)
  show ?thesis
    unfolding reconcileResources_def apply_workload_def Let_def t(1)
    by (intro calm_apply_or, rule yields_bind_result [OF hash], simp only: sum.case, intro calm_apply_or yields_bind yields_return)
       (auto simp: calm_outcome_def Let_def image t demo_names)
qed

lemma calm_parts:
  "steady_parts calm_api ref_klib tw_golib demo_reconciler demo_key demo_tb [] calm_outcome \<lparr>ws_ready = True, ws_message = [], ws_requeueAfter = 0\<rparr>"
proof -
  have refs: "yields (fetchReferencedResources calm_api t ns) (\<lambda>r. r = Inr \<lparr>rf_strategy = demo_strategy, rf_tradebotconfig = demo_config\<rparr>)" for t ns
    unfolding fetchReferencedResources_def
    by (rule yields_bind_result [OF calm_calls(2)], simp, rule yields_bind_result [OF calm_calls(1)]) (simp add: yields_return)
  have build: "yields (BuildConfig calm_api tw_golib n ns (tc_Spec demo_config) cs) (\<lambda>r. r = Inr [(''config.json'', ''{}'')])" for n ns cs
    by (simp add: yields_def result_def runs demo_config_def demo_configspec_def BuildConfig_def GetSecretData_def apiServerSecretRef_def
        demo_apiserver_def resolveAPIServerJWTSecretKey_def demo_exchange_def notificationSecretData_def map_str_def tw_golib_def demo_golib_def)
  have work: "yields (computeWorkloadStatus calm_api t) (\<lambda>r. r = Inr \<lparr>ws_ready = True, ws_message = [], ws_requeueAfter = 0\<rparr>)" for t
    unfolding computeWorkloadStatus_def by (rule yields_bind_result [OF calm_calls(5)], rule yields_return) (simp add: demo_sts_def)
  show ?thesis
    unfolding steady_parts_def part_values_def
    by (intro exI [where x = "\<lparr>rf_strategy = demo_strategy, rf_tradebotconfig = demo_config\<rparr>"] exI [where x = "[(''config.json'', ''{}'')]"])
       (simp add: refs build work calm_calls calm_resources demo_tb_spec)
qed

lemma calm_reachable:
  "reachable_in ref_klib (bv_stored tw_botview calm_start)"
  "state_matches (desired_state (bv_stored tw_botview calm_start)) (observed_in (bv_stored tw_botview calm_start))"
  by (simp_all add: tw_botview_def calm_start_def reachable_in_def ref_klib_def demo_beta_def demo_conds_def desired_state_def
      TradeBotStateRunning_def state_matches_def observed_in_def demo_bot_def ref_IsStatusConditionTrue_def
      ref_FindStatusCondition_def)

section \<open>Rendering twice\<close>

text \<open>JSON reduced to the one path that is read back, and a cluster given by its Secrets and its random bytes.\<close>

definition jwt_path :: "json \<Rightarrow> string" where
  "jwt_path j = (case j of
       JObj ms \<Rightarrow> (case map_of ms ''api_server'' of
           Some (JObj a) \<Rightarrow> (case map_of a ''jwt_secret_key'' of Some (JStr k) \<Rightarrow> k | _ \<Rightarrow> [])
         | _ \<Rightarrow> [])
     | _ \<Rightarrow> [])"

definition jwt_golib :: golib where
  "jwt_golib = demo_golib\<lparr>json_MarshalIndent := (\<lambda>j. Inr (jwt_path j)),
     json_Unmarshal := (\<lambda>t. Inr (JObj [(''api_server'', JObj [(''jwt_secret_key'', JStr t)])]))\<rparr>"

definition jwt_api :: "char \<Rightarrow> (nname \<Rightarrow> goerr + secret) \<Rightarrow> int api" where
  "jwt_api c sec = demo_api\<lparr>api_GetSecret := (\<lambda>k e. (sec k, e)), api_RandRead := (\<lambda>n e. (Inr (\<lambda>_. c), e))\<rparr>"

definition jwt_stored :: "smap \<Rightarrow> nname \<Rightarrow> goerr + secret" where
  "jwt_stored cd k = (if k = config_secret_key ''bot'' ''ns'' then Inr (tw_secret\<lparr>sec_Data := cd\<rparr>) else Inl demo_notfound)"

lemma jwt_keeps: "keeps_jwt jwt_golib"
  by (simp add: keeps_jwt_def key_in_def jwt_golib_def jwt_path_def jwt_key_of_def is_struct_def field_of_def dec_string_def)

lemma jwt_serves: "serves_secrets (jwt_api c sec) sec"
  by (simp add: serves_secrets_def jwt_api_def)

lemma jwt_first: "\<exists>cd. result (BuildConfig (jwt_api c (\<lambda>_. Inl demo_notfound)) jwt_golib ''bot'' ''ns'' demo_jwtspec []) demo_world = Inr cd"
  by (simp add: result_def runs call_defs demo_jwtspec_def demo_configspec_def BuildConfig_def GetSecretData_def apiServerSecretRef_def
      demo_apiserver_def resolveAPIServerJWTSecretKey_def existingAPIServerJWTSecretKey_def generateAPIServerJWTSecretKey_def
      demo_exchange_def notificationSecretData_def map_str_def jwt_golib_def jwt_api_def demo_api_def demo_notfound_def IsNotFound_def)

lemma jwt_over: "stored_over (\<lambda>_. Inl demo_notfound) (config_secret_key ''bot'' ''ns'') cd (jwt_stored cd)"
  by (simp add: stored_over_def jwt_stored_def)

lemma jwt_refs: "no_self_reference ''bot'' demo_jwtspec"
  by (simp add: no_self_reference_def demo_jwtspec_def demo_configspec_def apiServerSecretRef_def telegram_ref_def demo_apiserver_def demo_exchange_def)

section \<open>A configuration that refers to a Secret\<close>

definition demo_refspec :: tradebotconfigspec where
  "demo_refspec = demo_configspec\<lparr>tcs_APIServer := Some (demo_apiserver\<lparr>as_SecretRef := ''creds''\<rparr>)\<rparr>"

definition demo_forbidden :: goerr where "demo_forbidden = ApiStatus Forbidden ''secrets is forbidden''"

lemma jwt_own_errors: "own_errors (jwt_api c sec) jwt_golib"
  by (simp add: own_errors_def jwt_golib_def jwt_api_def)

lemma demo_refspec_refs: "no_self_reference ''bot'' demo_refspec"
  by (simp add: no_self_reference_def demo_refspec_def demo_configspec_def apiServerSecretRef_def telegram_ref_def demo_apiserver_def demo_exchange_def)

lemma demo_refspec_fails:
  "events (BuildConfig (jwt_api c (\<lambda>_. Inl e)) G n ns demo_refspec cs) w = [GetSecret \<lparr>nn_Namespace = ns, nn_Name = ''creds''\<rparr> (Inl e)]"
  by (simp add: events_def final_def runs call_defs demo_refspec_def demo_configspec_def BuildConfig_def GetSecretData_def
      apiServerSecretRef_def demo_apiserver_def demo_exchange_def jwt_api_def)

lemma demo_lost: "list_ex (secret_lost (config_secret_key ''bot'' ''ns''))
    (events (BuildConfig (jwt_api CHR ''x'' (\<lambda>_. Inl demo_notfound)) jwt_golib ''bot'' ''ns'' demo_refspec []) demo_world)"
  by (simp add: demo_refspec_fails secret_lost_def config_secret_key_def demo_notfound_def IsNotFound_def)

lemma demo_refused: "list_ex read_failed
    (events (BuildConfig (jwt_api CHR ''x'' (\<lambda>_. Inl demo_forbidden)) jwt_golib ''bot'' ''ns'' demo_refspec []) demo_world)"
  by (simp add: demo_refspec_fails read_failed_def demo_forbidden_def IsNotFound_def)

section \<open>A workload that is up\<close>

definition demo_ready :: workloadStatus where
  "demo_ready = \<lparr>ws_ready = True, ws_message = [], ws_requeueAfter = 0\<rparr>"

definition demo_outcome :: reconcileOutcome where
  "demo_outcome = \<lparr>ro_appliedConfigHash = ''0123456789abcdef'', ro_resolvedImage = ''img'', ro_configDrift = False\<rparr>"

end
