(* ===== verification/FreqUIConversion.thy ===== *)
theory FreqUIConversion
  imports ConfigConversion
begin

text \<open>The v1alpha1 FreqUI (\<open>api/v1alpha1/frequi_types.go\<close>) and its conversion (\<open>frequi_conversion.go\<close>). The controller works
  on the v1beta1 form, \<open>frequi\<close>; only a v1alpha1 client sees this one. The two versions differ in the type of the bot
  references, bare names here and object references there, of which the model keeps the names. The uses of \<open>convertJSON\<close> are
  the fields of \<open>fuconv\<close>; \<open>fu_passthrough\<close> states that matching JSON tags carry every field over.\<close>

section \<open>Types\<close>

record alphafupodspec =
  afp_Image :: string
  afp_Resources :: resreq
  afp_Env :: "envvar list"
  afp_VolumeMounts :: "volmount list"
  afp_Volumes :: "volume list"
  afp_SecurityContext :: "podsecctx option"
  afp_InitContainers :: "container list"
  afp_ImagePullSecrets :: "string list"
  afp_LivenessProbe :: "probe option"
  afp_ReadinessProbe :: "probe option"
  afp_Affinity :: "affinity option"
  afp_AntiAffinity :: "raw option"
  afp_NodeSelector :: smap
  afp_Tolerations :: "raw list"
  afp_TopologySpreadConstraints :: "raw list"
  afp_Replicas :: "int option"

record alphafuservicespec =
  afs_Type :: string
  afs_Ports :: "svcport list"
  afs_Selector :: smap
  afs_Annotations :: smap
  afs_LoadBalancerSourceRanges :: "string list"
  afs_ExternalTrafficPolicy :: string
  afs_SessionAffinity :: string

record alphafuingressspec =
  afi_IngressClassName :: "string option"
  afi_Rules :: "ingressrule list"
  afi_TLS :: "ingresstls list"
  afi_DefaultBackend :: "ingressbackend option"
  afi_Annotations :: smap

record alphafugatewayspec =
  afg_ParentRefs :: "raw list"
  afg_Hostnames :: "string list"
  afg_Annotations :: smap
  afg_Labels :: smap

record alphafuappconfig =
  afa_PodSpec :: "alphafupodspec option"
  afa_ServiceSpec :: "alphafuservicespec option"
  afa_IngressSpec :: "alphafuingressspec option"

record alphafrequispec =
  afu_Host :: string
  afu_TLS :: "ingresstls list"
  afu_IngressAnnotations :: smap
  afu_App :: "alphafuappconfig option"
  afu_TradeBotRefs :: "string list"
  afu_Exposure :: string
  afu_Gateway :: "alphafugatewayspec option"

record alphafrequistatus =
  afst_Phase :: string
  afst_Message :: string
  afst_URL :: string
  afst_Conditions :: "condition list"
  afst_ObservedGeneration :: int

record alphafrequi =
  afu_meta :: objmeta
  afu_Spec :: alphafrequispec
  afu_Status :: alphafrequistatus

definition alphafrequi_SetObservedGeneration :: "int \<Rightarrow> alphafrequi \<Rightarrow> alphafrequi" where
  "alphafrequi_SetObservedGeneration g f = f\<lparr>afu_Status := (afu_Status f)\<lparr>afst_ObservedGeneration := g\<rparr>\<rparr>"

section \<open>Sections of equal JSON tags\<close>

definition fupod_to_beta :: "alphafupodspec \<Rightarrow> fupodspec" where
  "fupod_to_beta x = \<lparr>fp_Image = afp_Image x, fp_Resources = afp_Resources x, fp_Env = afp_Env x, fp_VolumeMounts = afp_VolumeMounts x,
     fp_Volumes = afp_Volumes x, fp_SecurityContext = afp_SecurityContext x, fp_InitContainers = afp_InitContainers x,
     fp_ImagePullSecrets = afp_ImagePullSecrets x, fp_LivenessProbe = afp_LivenessProbe x, fp_ReadinessProbe =
     afp_ReadinessProbe x, fp_Affinity = afp_Affinity x, fp_AntiAffinity = afp_AntiAffinity x, fp_NodeSelector =
     afp_NodeSelector x, fp_Tolerations = afp_Tolerations x, fp_TopologySpreadConstraints =
     afp_TopologySpreadConstraints x, fp_Replicas = afp_Replicas x\<rparr>"

definition fupod_from_beta :: "fupodspec \<Rightarrow> alphafupodspec" where
  "fupod_from_beta x = \<lparr>afp_Image = fp_Image x, afp_Resources = fp_Resources x, afp_Env = fp_Env x, afp_VolumeMounts = fp_VolumeMounts x,
     afp_Volumes = fp_Volumes x, afp_SecurityContext = fp_SecurityContext x, afp_InitContainers = fp_InitContainers x,
     afp_ImagePullSecrets = fp_ImagePullSecrets x, afp_LivenessProbe = fp_LivenessProbe x, afp_ReadinessProbe =
     fp_ReadinessProbe x, afp_Affinity = fp_Affinity x, afp_AntiAffinity = fp_AntiAffinity x, afp_NodeSelector =
     fp_NodeSelector x, afp_Tolerations = fp_Tolerations x, afp_TopologySpreadConstraints = fp_TopologySpreadConstraints
     x, afp_Replicas = fp_Replicas x\<rparr>"

definition fuservice_to_beta :: "alphafuservicespec \<Rightarrow> fuservicespec" where
  "fuservice_to_beta x = \<lparr>fs_Type = afs_Type x, fs_Ports = afs_Ports x, fs_Selector = afs_Selector x, fs_Annotations = afs_Annotations x,
     fs_LoadBalancerSourceRanges = afs_LoadBalancerSourceRanges x, fs_ExternalTrafficPolicy = afs_ExternalTrafficPolicy
     x, fs_SessionAffinity = afs_SessionAffinity x\<rparr>"

definition fuservice_from_beta :: "fuservicespec \<Rightarrow> alphafuservicespec" where
  "fuservice_from_beta x = \<lparr>afs_Type = fs_Type x, afs_Ports = fs_Ports x, afs_Selector = fs_Selector x, afs_Annotations = fs_Annotations x,
     afs_LoadBalancerSourceRanges = fs_LoadBalancerSourceRanges x, afs_ExternalTrafficPolicy = fs_ExternalTrafficPolicy
     x, afs_SessionAffinity = fs_SessionAffinity x\<rparr>"

definition fuingress_to_beta :: "alphafuingressspec \<Rightarrow> fuingressspec" where
  "fuingress_to_beta x = \<lparr>fi_IngressClassName = afi_IngressClassName x, fi_Rules = afi_Rules x, fi_TLS = afi_TLS x, fi_DefaultBackend =
     afi_DefaultBackend x, fi_Annotations = afi_Annotations x\<rparr>"

definition fuingress_from_beta :: "fuingressspec \<Rightarrow> alphafuingressspec" where
  "fuingress_from_beta x = \<lparr>afi_IngressClassName = fi_IngressClassName x, afi_Rules = fi_Rules x, afi_TLS = fi_TLS x, afi_DefaultBackend =
     fi_DefaultBackend x, afi_Annotations = fi_Annotations x\<rparr>"

definition fugateway_to_beta :: "alphafugatewayspec \<Rightarrow> fugatewayspec" where
  "fugateway_to_beta x = \<lparr>fg_ParentRefs = afg_ParentRefs x, fg_Hostnames = afg_Hostnames x, fg_Annotations = afg_Annotations x, fg_Labels =
     afg_Labels x\<rparr>"

definition fugateway_from_beta :: "fugatewayspec \<Rightarrow> alphafugatewayspec" where
  "fugateway_from_beta x = \<lparr>afg_ParentRefs = fg_ParentRefs x, afg_Hostnames = fg_Hostnames x, afg_Annotations = fg_Annotations x, afg_Labels =
     fg_Labels x\<rparr>"

definition fuapp_to_beta :: "alphafuappconfig \<Rightarrow> fuappconfig" where
  "fuapp_to_beta x = \<lparr>fa_PodSpec = map_option fupod_to_beta (afa_PodSpec x), fa_ServiceSpec = map_option fuservice_to_beta (afa_ServiceSpec x),
     fa_IngressSpec = map_option fuingress_to_beta (afa_IngressSpec x)\<rparr>"

definition fuapp_from_beta :: "fuappconfig \<Rightarrow> alphafuappconfig" where
  "fuapp_from_beta x = \<lparr>afa_PodSpec = map_option fupod_from_beta (fa_PodSpec x), afa_ServiceSpec = map_option fuservice_from_beta (fa_ServiceSpec x),
     afa_IngressSpec = map_option fuingress_from_beta (fa_IngressSpec x)\<rparr>"

record fuconv =
  fj_AppToBeta :: "alphafuappconfig \<Rightarrow> goerr + fuappconfig"
  fj_AppFromBeta :: "fuappconfig \<Rightarrow> goerr + alphafuappconfig"
  fj_GatewayToBeta :: "alphafugatewayspec \<Rightarrow> goerr + fugatewayspec"
  fj_GatewayFromBeta :: "fugatewayspec \<Rightarrow> goerr + alphafugatewayspec"

definition fu_passthrough :: "fuconv \<Rightarrow> bool" where
  "fu_passthrough C \<longleftrightarrow> (\<forall>x. fj_AppToBeta C x = Inr (fuapp_to_beta x)) \<and> (\<forall>x. fj_AppFromBeta C x = Inr (fuapp_from_beta x))
     \<and> (\<forall>x. fj_GatewayToBeta C x = Inr (fugateway_to_beta x)) \<and> (\<forall>x. fj_GatewayFromBeta C x = Inr (fugateway_from_beta x))"

definition fu_identity :: fuconv where
  "fu_identity = \<lparr>fj_AppToBeta = (\<lambda>x. Inr (fuapp_to_beta x)), fj_AppFromBeta = (\<lambda>x. Inr (fuapp_from_beta x)),
     fj_GatewayToBeta = (\<lambda>x. Inr (fugateway_to_beta x)), fj_GatewayFromBeta = (\<lambda>x. Inr (fugateway_from_beta x))\<rparr>"

lemma identity_fu_passthrough: "fu_passthrough fu_identity"
  by (simp add: fu_passthrough_def fu_identity_def)

section \<open>The conversion\<close>

definition FreqUI_ConvertTo :: "fuconv \<Rightarrow> alphafrequi \<Rightarrow> goerr + frequi" where
  "FreqUI_ConvertTo C f =
    (let s = afu_Spec f; st = afu_Status f in
     and_then (conv_opt (fj_AppToBeta C) ''converting spec.app: '' (afu_App s)) (\<lambda>app.
     and_then (conv_opt (fj_GatewayToBeta C) ''converting spec.gateway: '' (afu_Gateway s)) (\<lambda>gw.
     Inr \<lparr>fu_meta = afu_meta f,
       fu_Spec = \<lparr>fu_Host = afu_Host s, fu_TLS = afu_TLS s, fu_IngressAnnotations = afu_IngressAnnotations s, fu_App = app,
         fu_TradeBotRefs = afu_TradeBotRefs s, fu_Exposure = afu_Exposure s, fu_Gateway = gw\<rparr>,
       fu_Status = \<lparr>fst_Phase = afst_Phase st, fst_Message = afst_Message st, fst_URL = afst_URL st,
         fst_Conditions = afst_Conditions st, fst_ObservedGeneration = afst_ObservedGeneration st\<rparr>\<rparr>)))"

definition FreqUI_ConvertFrom :: "fuconv \<Rightarrow> frequi \<Rightarrow> goerr + alphafrequi" where
  "FreqUI_ConvertFrom C src =
    (let s = fu_Spec src; st = fu_Status src in
     and_then (conv_opt (fj_AppFromBeta C) ''converting spec.app: '' (fu_App s)) (\<lambda>app.
     and_then (conv_opt (fj_GatewayFromBeta C) ''converting spec.gateway: '' (fu_Gateway s)) (\<lambda>gw.
     Inr \<lparr>afu_meta = fu_meta src,
       afu_Spec = \<lparr>afu_Host = fu_Host s, afu_TLS = fu_TLS s, afu_IngressAnnotations = fu_IngressAnnotations s, afu_App = app,
         afu_TradeBotRefs = fu_TradeBotRefs s, afu_Exposure = fu_Exposure s, afu_Gateway = gw\<rparr>,
       afu_Status = \<lparr>afst_Phase = fst_Phase st, afst_Message = fst_Message st, afst_URL = fst_URL st,
         afst_Conditions = fst_Conditions st, afst_ObservedGeneration = fst_ObservedGeneration st\<rparr>\<rparr>)))"

section \<open>Round trips\<close>

lemmas fu_section_defs = fupod_to_beta_def fupod_from_beta_def fuservice_to_beta_def fuservice_from_beta_def fuingress_to_beta_def
  fuingress_from_beta_def fugateway_to_beta_def fugateway_from_beta_def

lemma fu_sections_back [simp]:
  "fupod_from_beta (fupod_to_beta a) = a" "fuservice_from_beta (fuservice_to_beta b) = b"
  "fuingress_from_beta (fuingress_to_beta c) = c" "fugateway_from_beta (fugateway_to_beta d) = d"
  "fupod_to_beta (fupod_from_beta a') = a'" "fuservice_to_beta (fuservice_from_beta b') = b'"
  "fuingress_to_beta (fuingress_from_beta c') = c'" "fugateway_to_beta (fugateway_from_beta d') = d'"
  by (simp_all add: fu_section_defs)

lemma fuapp_back [simp]: "fuapp_from_beta (fuapp_to_beta a) = a" "fuapp_to_beta (fuapp_from_beta b) = b"
  by (simp_all add: fuapp_to_beta_def fuapp_from_beta_def option.map_comp o_def option.map_ident)

lemma fu_passthrough_conv:
  assumes "fu_passthrough C"
  shows "conv_opt (fj_AppToBeta C) m a = Inr (map_option fuapp_to_beta a)" "conv_opt (fj_AppFromBeta C) m b = Inr (map_option fuapp_from_beta b)"
    "conv_opt (fj_GatewayToBeta C) m g = Inr (map_option fugateway_to_beta g)"
    "conv_opt (fj_GatewayFromBeta C) m h = Inr (map_option fugateway_from_beta h)"
  using assms by (simp_all add: fu_passthrough_def conv_opt_def split: option.split)

lemma FreqUI_converter:
  assumes C: "fu_passthrough C"
  shows "converter (FreqUI_ConvertTo C) (FreqUI_ConvertFrom C) (\<lambda>_. True) (\<lambda>f. f) (\<lambda>f. f)"
  by unfold_locales
     (auto simp: FreqUI_ConvertTo_def FreqUI_ConvertFrom_def fu_passthrough_conv [OF C] and_then_def Let_def option.map_comp o_def option.map_ident)

interpretation fuconv: converter "FreqUI_ConvertTo fu_identity" "FreqUI_ConvertFrom fu_identity"
  "\<lambda>_. True" "\<lambda>f. f" "\<lambda>f. f"
  by (rule FreqUI_converter [OF identity_fu_passthrough])

lemma FreqUI_roundtrip:
  assumes "fu_passthrough C"
  shows "(\<exists>b. FreqUI_ConvertTo C a = Inr b \<and> FreqUI_ConvertFrom C b = Inr a)
    \<and> (\<exists>a. FreqUI_ConvertFrom C b = Inr a \<and> FreqUI_ConvertTo C a = Inr b)"
  using converter.lossless [OF FreqUI_converter [OF assms]] by simp

end
