(* ===== verification/Spec2Isabelle.thy ===== *)
theory Spec2Isabelle
  imports ScenarioBot FreqUIConversion
begin

text \<open>
  A verification development of the freqtrade operator, a Kubernetes operator written in Go that
  runs freqtrade trading bots. This theory states the properties of the program; the theories it
  imports hold the model and the lemmas.

  \<^bold>\<open>The program.\<close> A user describes a bot as a TradeBot, which names a TradeBotConfig and a
  Strategy. The TradeBot controller (\<open>src/controllers/tradebot/main.go\<close>) renders the
  configuration, applies a Secret, a ConfigMap, a volume claim, a StatefulSet, a Service and a
  NetworkPolicy, reports the outcome in status conditions, aligns a reachable bot with
  \<open>spec.state\<close> through its REST API, and cleans up behind a finalizer. Beside it a poller
  (\<open>poller.go\<close>) reads every bot's REST API on its own schedule and writes \<open>status.bot\<close>, the
  BotReachable condition and gauges. The two meet only in the stored status. Webhooks and conversions
  (\<open>src/api/v1alpha1\<close>) guard what can be stored; v1beta1 is the storage version and the only one
  with \<open>spec.state\<close>. Two small controllers validate Strategies and TradeBotConfigs. The FreqUI
  controller (\<open>src/controllers/frequi\<close>) deploys the web UI and exposes it and the bots it references
  through an Ingress or Gateway API HTTPRoutes. The Backtest controller (\<open>src/controllers/backtest\<close>)
  runs a one-shot Job whose sidecar, the operator binary again (\<open>collectresults\<close>), copies the result
  file to a volume and its summary into a ConfigMap the controller adopts. \<open>src/cmd/main.go\<close> starts
  the process: it dispatches to the sidecar or builds the manager, registers the five controllers with
  their watches (\<open>setup.go\<close>), the webhooks, the poller and a collector that counts bots at scrape time.

  \<^bold>\<open>Effects and errors.\<close> Everything outside the operator is an environment of an arbitrary type
  behind the record \<open>api\<close> of external calls, so other writers, failures and the passage of time
  are covered by quantifying over it. Programs are computations of the state monad that append each
  call with its answer to a trace (\<open>Effects\<close>); the properties are about traces and results. Go
  errors are values of \<open>goerr\<close> with the wrapping the code does, and every early return is a branch.
  Library functions are parameters as well: \<open>klib\<close> (status conditions, finalizers, owner references;
  their documented laws are \<open>klib_laws\<close>, met by \<open>ref_klib\<close>), \<open>golib\<close> (JSON, URL and number
  parsing, floating point), \<open>jsonconv\<close>, \<open>cfgconv\<close> and \<open>fuconv\<close> (JSON round trips between the two API
  versions), \<open>crlib\<close> (predicates and handlers of controller-runtime, with the laws \<open>cr_laws\<close>) and
  \<open>mgrapi\<close> (what the starting manager calls).

  \<^bold>\<open>Theories and the code they model.\<close>
  \<^item> \<open>Prelude\<close>: strings, ordered maps, durations with 64-bit wrap-around and errors of Go.
  \<^item> \<open>K8sTypes\<close>, \<open>ConfigTypes\<close>, \<open>ApiTypes\<close>: the structs, one record each
    (\<open>api/v1alpha1/*_types.go\<close>, \<open>api/v1beta1/tradebot_types.go\<close>, \<open>frequi_types.go\<close>,
    \<open>backtest_types.go\<close>).
  \<^item> \<open>Client\<close>, \<open>Shared\<close>: the outside world and \<open>controllers/shared\<close>: PatchStatus with its retry on
    conflict, server-side apply, security defaults.
  \<^item> \<open>ConfigSections\<close>, \<open>ConfigBuilder\<close>: \<open>controllers/tradebotconfig/configbuilder\<close>, every section
    builder, the credentials and the JWT key.
  \<^item> \<open>BotClient\<close>: \<open>controllers/tradebot/botclient\<close>, the HTTP client with its body cap.
  \<^item> \<open>TradeBotResources\<close>: \<open>controllers/tradebot/resources\<close>, the builders of the applied objects.
  \<^item> \<open>TradeBotStatus\<close>: \<open>status.go\<close>, the status copies between the API versions.
  \<^item> \<open>TradeBotFinalizer\<close>: \<open>finalizers.go\<close>.
  \<^item> \<open>SHA256\<close>, \<open>TradeBotWorkload\<close>: \<open>resources.go\<close>, the config hash and the pass over the resources.
  \<^item> \<open>TradeBotState\<close>, \<open>TradeBotReconcile\<close>, \<open>TradeBotConditions\<close>: \<open>main.go\<close>, the state alignment, the
    reconcile itself and what it writes into the conditions; \<open>StatusReport\<close>: what every status of a whole
    reconcile says of the resources it applied and the StatefulSet it read; \<open>TradeBotDeletion\<close>: that a deletion
    ends; \<open>SteadyStatus\<close> and \<open>SteadyReconcile\<close>: that a status which is right is not written again, and that a second
    reconcile of a steady bot writes nothing to it; \<open>SecretContainment\<close>: where
    the rendered configuration goes.
  \<^item> \<open>ConfigStability\<close>, \<open>ConfigFailure\<close>: rendering a configuration again, and why rendering fails.
  \<^item> \<open>StateLogic\<close>: pre- and postconditions on the environment. \<open>TradeBotHistory\<close>: many reconciles and
    polls of one bot and its StatefulSet; \<open>StateAlignment\<close>: the loop through the reconciler, the bot and the
    poller that brings a bot into the desired state.
  \<^item> \<open>Poller\<close>, \<open>PollerMachine\<close>: \<open>poller.go\<close>, one poll, one scheduling pass, and the interleaving of
    the scheduler with the workers as the step relation \<open>poll_step\<close> over the shared map, the channel
    and the running polls. The steps are the critical sections of the code. \<open>PollerLife\<close>: \<open>Start\<close>
    around that machine, with cancellation, the closing of the channel, panics and the return.
  \<^item> \<open>Watches\<close>: the five \<open>setup.go\<close> files and the mapping functions of \<open>shared/utils.go\<close>;
    \<open>ControlLoop\<close>: what a reconcile depends on against what wakes it, and what the two writers of a
    status leave of each other's part.
  \<^item> \<open>MetricsCollector\<close>: the collector of \<open>shared/metrics.go\<close>.
  \<^item> \<open>Manager\<close>, \<open>ManagerStart\<close>: \<open>cmd/main.go\<close> and \<open>shared/apiavailability.go\<close>, and what a start
    that succeeds has set up.
  \<^item> \<open>Admission\<close>: the three v1alpha1 webhooks; \<open>Conversion\<close>: \<open>tradebot_conversion.go\<close> and
    \<open>strategy_conversion.go\<close>; \<open>SmallControllers\<close>: \<open>controllers/strategy\<close> and
    \<open>controllers/tradebotconfig\<close>.
  \<^item> \<open>FreqUIResources\<close>, \<open>FreqUIReconcile\<close>: \<open>controllers/frequi\<close>, the builders, the exposure modes with
    their pruning, and the reconcile.
  \<^item> \<open>BacktestResources\<close>, \<open>BacktestReconcile\<close>: \<open>controllers/backtest\<close>, the builders, the run and its
    recorded outcome, the adoption of results, the finalizer. \<open>BacktestHistory\<close>: histories of many
    reconciles of one Backtest.
  \<^item> \<open>CollectResults\<close>: \<open>controllers/backtest/collectresults\<close> and \<open>runCollectResults\<close> of \<open>cmd/main.go\<close>.
  \<^item> \<open>BacktestAdmission\<close>: \<open>api/v1beta1/backtest_webhook.go\<close>; \<open>BetaConfigTypes\<close>, \<open>ConfigConversion\<close>: the
    v1beta1 TradeBotConfig with its webhook and conversion; \<open>FreqUIConversion\<close>: the v1alpha1 FreqUI and its
    conversion.
  \<^item> \<open>Scenario\<close>, \<open>ScenarioRuns\<close>, \<open>ScenarioLoop\<close>, \<open>ScenarioBot\<close>: concrete clusters on which the witnesses
    are evaluated; the last one stores what it is given and runs a bot.

  \<^bold>\<open>Interfaces.\<close> \<open>conditioned_object\<close> is what a resource offers to PatchStatus, interpreted for
  each of the five resources; \<open>meta_conditions\<close>, \<open>finalizer_ops\<close> and \<open>owner_refs\<close> are the
  library laws; \<open>steady_conditions\<close> adds that setting a condition as it is changes nothing; \<open>secret_precedence\<close> is the rule that a Secret wins over a plaintext field,
  interpreted for each credential; \<open>converter\<close> is a lossy pair of conversions with the part each
  direction forgets, interpreted for TradeBot, Strategy, TradeBotConfig and FreqUI; \<open>same_section\<close> is a
  section both API versions declare alike, interpreted for the sixteen of TradeBotConfig.

  \<^bold>\<open>What is shown.\<close> For the reconcile: no rollout of a new configuration without the owner's consent,
  no release of the finalizer before the workload is gone or the grace period over, at most one
  start or stop call and only with a reason, no loss of the spec through any write, actions only on
  managed bots, and the reported conditions and phases on success and failure. Over a history of
  reconciles and polls the pod template that is rolled out stays without that consent, as long as the pod settings,
  the class name of the strategy and the default image stay, and a bot that obeys ends in
  the desired state with the status saying so. A steady status is not rewritten, a render is repeated
  exactly, its failures are classified, and what it renders reaches no object but the Secret. For the poller: it
  only reads, keeps the last good observation, reports reachability, backs off within bounds; its
  scheduling pass meets a specification without an order of execution and is a run of the state machine, whose
  invariant bounds queue and workers and keeps every bot schedulable; after a cancellation it drains and returns; where a bot can be polled twice and
  where stale gauges survive. For the two side by side: neither disturbs the other's part of the status,
  what a reconcile depends on wakes it again, except the NetworkPolicy and Secrets that nobody owns, and what a poll discovers
  wakes nobody. For the process: a manager that starts has everything in place, its servers get their own
  certificates (and on which property of \<open>append\<close> that rests), the sidecar's command line is parsed as the
  pod builder writes it, and a scrape reports exactly what is stored. For the
  builders: what the NetworkPolicy admits, what the pod runs, which settings and credentials reach the
  configuration. For admission and conversion: what is accepted and what a round trip loses. For a
  deletion: that it ends once the grace period is over. For FreqUI: it deletes only what it controls, its
  status means what it says, both exposures route alike, and a name collision is never reported. For
  Backtest: a run starts once, in one reconcile and over any history, its outcome stays, but for a failure that the
  Job's retry turns into a success (and where it is lost), retained results survive the
  deletion, the command line is the operator's, the collector ends, stays inside its volume, and what it
  extracts is what is reported.

  \<^bold>\<open>Bounds.\<close> The number of attempts of the conflict retry is the field \<open>api_RetrySteps\<close>; the
  theorems hold for every value. The collector's wait loop takes fuel and answers None without it; 43203
  rounds are enough, one for each two-second interval of its 24 hours, one for the signal and two at the
  ends, and a theorem shows that the run then returns. All other loops run over finite lists. Durations are 64-bit and wrap;
  properties about them ask for an interval whose sixteenfold fits (\<open>interval_ok\<close>). Instants are
  unbounded integers.

  \<^bold>\<open>Hypotheses of the histories.\<close> \<open>bt_cluster\<close> describes the cluster around a Backtest: reads may be
  answered by a cache that lags behind, a status write on an old version is refused, the Job may end at
  any time, may succeed after a failure since it retries a failed pod, and may be removed once the cache shows its
  final outcome. It excludes a cached read that fails
  otherwise than by not finding the object, and the removal of the Job between two calls of one reconcile;
  without the first the outcome can be lost, as \<open>backtest_outcome_stays\<close> shows. \<open>sts_cluster\<close> is the same
  for a StatefulSet, with a cache that may lag, a write that may be refused and an API server that fills in defaults.
  \<open>sets_owner\<close> says that an object without owners gets the reference to its owner, with the owner's kind. \<open>obedient\<close> is stronger: status
  writes succeed and are read at once, and the bot answers and does as it is told; what it leaves open is
  everything else a reconcile reads. \<open>keeps_jwt\<close> says that JSON gives back an ASCII string, or one it gave
  before, at the path it was encoded at; \<open>serves_secrets\<close> that the Secrets do not change during a render.

  \<^bold>\<open>Not modelled.\<close> Generated deep copies (values are immutable here), scheme registration, logging,
  the parsing of the manager's own flags (the record \<open>flags\<close> is what they were parsed to), and the
  helpers of the end-to-end tests.
  The deep copies make up most of what the map leaves out: they are generated from the types, copy every
  field, and are the identity on the values of this model. The rest is comments, imports, log lines and
  struct tags.
\<close>

section \<open>Properties\<close>

text \<open>
  C1. Under any update strategy but Auto a reconcile never rolls out a new configuration by
  itself: every StatefulSet it applies carries the config hash that the existing StatefulSet,
  read earlier in the same reconcile, had on its pod template (unless there was none), and the
  bot's own spec was read before it.
\<close>

theorem manual_keeps_running_config:
  assumes "klib_laws K"
  shows "sofar (keeps_running_hash key) (events (Reconcile A K G R key) w)"
  using assms by (rule Reconcile_keeps_hash)

theorem manual_keeps_running_config_witness:
  "sofar (keeps_running_hash demo_key) (events (Reconcile demo_api ref_klib demo_golib demo_reconciler demo_key) demo_world)
   \<and> ApplyPatch (MStatefulSet demo_applied) None
       \<in> set (events (Reconcile demo_api ref_klib demo_golib demo_reconciler demo_key) demo_world)"
  using manual_keeps_running_config [OF ref_klib_laws] emitsD [OF demo_Reconcile] by blast

text \<open>
  C2. The finalizer of a TradeBot is taken off only when the bot was read with a deletion
  timestamp and, in the same reconcile, its StatefulSet was found to be gone or scaled down to
  nothing, unless the clock has shown a time past the grace period.
\<close>

theorem finalizer_waits_for_workload:
  assumes "klib_laws K"
    and "list_ex (releases K) (events (Reconcile A K G R key) w)"
  shows "may_release A R key (events (Reconcile A K G R key) w)"
  using emitsD [OF Reconcile_releases [OF assms(1), of A G R key], of w] assms(2) by (simp add: list_ex_iff)

theorem finalizer_waits_for_workload_witness:
  "may_release demo_gone_api demo_reconciler demo_key
     (events (Reconcile demo_gone_api ref_klib demo_golib demo_reconciler demo_key) demo_world)"
  by (rule finalizer_waits_for_workload [OF ref_klib_laws demo_gone_releases])

text \<open>
  C3. A reconcile sends at most one call that changes a bot. It sends one only after reading a
  stored status that says the bot is reachable and in another state than the stored spec.state
  asks for, and the call is the empty POST to the stop path when Stopped is asked for and to the
  start path otherwise, on the bot's own in-cluster address.
\<close>

theorem state_call_justified:
  assumes "klib_laws K"
  shows "reconcile_calls K key (events (Reconcile A K G R key) w)"
  by (rule emitsD [OF Reconcile_calls [OF assms]])

theorem state_call_justified_witness:
  "reconcile_calls ref_klib demo_key (events (Reconcile demo_api ref_klib demo_golib demo_reconciler demo_key) demo_world)
   \<and> list_ex changes_bot (events (Reconcile demo_api ref_klib demo_golib demo_reconciler demo_key) demo_world)"
  using state_call_justified [OF ref_klib_laws] emitsD [OF demo_Reconcile] by (fastforce simp: list_ex_iff)

text \<open>
  C4. The desired state is reached: with an API server that stores what it is given and a bot
  that answers and obeys, a poll, a reconcile, a poll and a reconcile, the reconciles without an
  error, leave the bot in the state that spec.state asks for and StateReconciled at True with
  reason AsExpected, whatever state the bot was in and whatever its status said before.
\<close>

theorem desired_state_reached:
  assumes "obedient A G key tb V" and "klib_laws K" and "exact_equal K" and "managed K key tb"
    and "desired_state (bv_stored V (env w)) \<in> {TradeBotStateRunning, TradeBotStateStopped}"
    and "result (alignment_round A K G R key p) w = (r, r')" and "rr_Err r = None" and "rr_Err r' = None"
  shows "in_state V K (desired_state (bv_stored V (env w))) (env (final (alignment_round A K G R key p) w))"
  using holdsD [OF round_aligns [OF assms(1-5), of "bv_actual V (env w)" R p], of w] assms(6-8) by simp

theorem desired_state_reached_witness:
  "in_state tw_botview ref_klib TradeBotStateStopped
     (env (final (alignment_round tw_api ref_klib tw_golib demo_reconciler demo_key []) \<lparr>env = tw_start, trace = []\<rparr>))
   \<and> bv_actual tw_botview tw_start = ''running''"
proof -
  let ?w = "\<lparr>env = tw_start, trace = []\<rparr>"
  have d: "desired_state (bv_stored tw_botview (env ?w)) = TradeBotStateStopped"
    by (simp add: tw_botview_def tw_start_def desired_state_def demo_beta_def TradeBotStateStopped_def)
  obtain r r' where r: "result (alignment_round tw_api ref_klib tw_golib demo_reconciler demo_key []) ?w = (r, r')" by force
  with yieldsD [OF tw_round, of "[]" ?w] have ok: "rr_Err r = None" "rr_Err r' = None" by simp_all
  from desired_state_reached [OF tw_obedient ref_klib_laws ref_exact_equal tw_managed _ r ok] d show ?thesis
    by (simp add: tw_botview_def tw_actual_def tw_start_def)
qed

text \<open>
  C5. Over any history of one bot, in any order and number of reconciles, polls and catch-ups of
  the cache, a pod template that the cache has shown on its StatefulSet stays as it is,
  annotations and pod alike, for as long as the bot is read with another update strategy than
  Auto: no change of the rendered configuration, of a Secret, of the strategy's script or of
  which objects the bot refers to rolls the pods. What is in the template itself has to stay the
  same: the bot's pod settings and arguments, the class name of its strategy and the operator's
  default image.
\<close>

theorem manual_history_keeps_template:
  assumes "sts_cluster A key V" and "klib_laws K" and "reads_manual A key tb0 className" and "h \<noteq> []"
    and "(tb_step A K G R key V)\<^sup>*\<^sup>* e e'" and "settled V (bot_template R tb0 className h) e"
  shows "settled V (bot_template R tb0 className h) e'"
  using assms by (rule history_settled)

theorem manual_history_keeps_template_witness:
  "settled tw_stsview (demo_template_of ''0123456789abcdef'')
     (env (final (pollOne tw_api ref_klib tw_golib demo_key []) \<lparr>env =
        env (final (Reconcile tw_api ref_klib tw_golib demo_reconciler demo_key) \<lparr>env = tw_earlier, trace = []\<rparr>), trace = []\<rparr>))"
proof (rule manual_history_keeps_template [OF tw_sts_cluster ref_klib_laws tw_reads_manual])
  show "(tb_step tw_api ref_klib tw_golib demo_reconciler demo_key tw_stsview)\<^sup>*\<^sup>* tw_earlier
     (env (final (pollOne tw_api ref_klib tw_golib demo_key []) \<lparr>env =
        env (final (Reconcile tw_api ref_klib tw_golib demo_reconciler demo_key) \<lparr>env = tw_earlier, trace = []\<rparr>), trace = []\<rparr>))"
    by (rule rtranclp.rtrancl_into_rtrancl, rule r_into_rtranclp, rule TradeBotHistory.Reconciled, rule TradeBotHistory.Polled)
qed (simp_all add: tw_settled)

text \<open>
  C6. The rendered configuration, with the exchange keys, the API credentials and the JWT key in
  it, goes into the bot's own config Secret and nowhere else: every other object a reconcile
  applies is, up to its owner reference, what the builders make of the TradeBot that was read,
  its Strategy, the names of the FreqUIs that were listed and a config hash, which has sixteen
  characters or is the one the StatefulSet had before.
\<close>

theorem config_stays_in_secret:
  "list_all (config_contained K R key (events (Reconcile A K G R key) w)) (events (Reconcile A K G R key) w)"
  by (rule emitsD [OF Reconcile_contained])

text \<open>
  C7. Every write of a TradeBot object, by a reconcile (finalizer changes and status patches
  alike) or by a poll, carries the spec, name and namespace of a stored object read before it in
  the same run, so spec.state survives every write.
\<close>

theorem spec_survives_every_write:
  "backed (\<lambda>e. tradebot_write e \<noteq> None) spec_kept (events (Reconcile A K G R key) w)
   \<and> backed (\<lambda>e. tradebot_write e \<noteq> None) spec_kept (events (pollOne A' K' G' key' p) w')"
  using keepsD [OF spec_keeping_Reconcile] keepsD [OF spec_keeping_pollOne] by blast

text \<open>
  C8. The reconciler and the poller share one stored status without disturbing each other. Every
  status a reconcile writes is computed from a stored object read before and keeps its metadata,
  its spec, the poller's observation and its BotReachable condition; every status a poll writes
  keeps metadata, spec and all other conditions, the phase, the message, the config hash and the
  image, and moves the observed generation to the current one. Apart from these writes and
  gauges a poll only reads: of the bot it makes GET requests without a body.
\<close>

theorem writers_do_not_interfere:
  assumes "klib_laws K"
  shows "backed (\<lambda>e. written_tradebot e \<noteq> None) (rewrote (poller_part_kept K)) (events (Reconcile A K G R key) w)
   \<and> backed (\<lambda>e. written_tradebot e \<noteq> None) (rewrote (\<lambda>b b'. reconciler_part_kept K b b' \<and> generation_claimed b'))
       (events (pollOne A' K G' key' p) w')
   \<and> list_all poller_event (events (pollOne A' K G' key' p) w')"
  using keepsD [OF Reconcile_rewriting [OF assms]] keepsD [OF pollOne_rewriting [OF assms]] onlyD [OF only_pollOne] by blast

theorem writers_do_not_interfere_witness:
  "backed (\<lambda>e. written_tradebot e \<noteq> None) (rewrote (poller_part_kept ref_klib))
     (events (Reconcile demo_api ref_klib demo_golib demo_reconciler demo_key) demo_world)
   \<and> list_all poller_event (events (pollOne demo_api ref_klib demo_golib demo_key []) demo_world)"
  using writers_do_not_interfere [OF ref_klib_laws] by blast

text \<open>
  C9. Rendering is stable: once a rendered configuration is stored in the bot's own config
  Secret and nothing else changes, rendering again gives the same configuration, however the
  random source answers, so that the config hash stays the same and no bot is restarted or
  reported as drifted for a new JWT key.
\<close>

theorem config_render_stable:
  assumes "serves_secrets A sec" and "serves_secrets A' sec'" and "keeps_jwt G"
    and "stored_over sec (config_secret_key n ns) cd sec'" and "no_self_reference n s"
    and "result (BuildConfig A G n ns s cors) w = Inr cd"
  shows "result (BuildConfig A' G n ns s cors) w' = Inr cd"
  using assms by (rule BuildConfig_stable)

theorem config_render_stable_witness:
  "\<exists>cd. result (BuildConfig (jwt_api CHR ''x'' (\<lambda>_. Inl demo_notfound)) jwt_golib ''bot'' ''ns'' demo_jwtspec []) demo_world = Inr cd
     \<and> result (BuildConfig (jwt_api CHR ''y'' (jwt_stored cd)) jwt_golib ''bot'' ''ns'' demo_jwtspec []) demo_world = Inr cd"
proof -
  obtain cd where cd: "result (BuildConfig (jwt_api CHR ''x'' (\<lambda>_. Inl demo_notfound)) jwt_golib ''bot'' ''ns'' demo_jwtspec []) demo_world = Inr cd"
    using jwt_first by blast
  from config_render_stable [OF jwt_serves jwt_serves jwt_keeps jwt_over jwt_refs cd] cd show ?thesis by blast
qed

text \<open>
  C10. Over any history of a Backtest that starts without a Job, at most one Job is ever created
  for it. A stored outcome is never lost, and it changes in one way only: a stored failure may
  become a success while the Job still exists, since the Job retries a failed pod once and a
  failed pod is recorded as a failure at once. Once the Job is gone the stored outcome is final.
  Reconciles alternate with arbitrary moves of the cluster, reads may be answered from a cache
  that lags behind, and status writes on an old version are refused. The hypotheses on the
  cluster exclude a read of the Job that fails otherwise than by not finding it, and the removal
  of the Job in the middle of a reconcile or before the cache shows its final outcome.
\<close>

theorem backtest_runs_once:
  assumes "bt_cluster A K key V" and "klib_laws K" and "not_started (vw_state V e)"
    and "(bt_step A K G R key V)\<^sup>*\<^sup>* e e'" and "(bt_step A K G R key V)\<^sup>*\<^sup>* e' e''"
  shows "bs_runs (vw_state V e') \<le> 1
     \<and> (bs_stored (vw_state V e') \<noteq> None \<longrightarrow> bs_stored (vw_state V e'') = bs_stored (vw_state V e')
          \<or> bs_stored (vw_state V e') = Some (False, True) \<and> bs_stored (vw_state V e'') = Some (True, False))
     \<and> (bs_runs (vw_state V e') = 1 \<and> \<not> bs_live (vw_state V e')
          \<longrightarrow> bs_runs (vw_state V e'') = 1 \<and> bs_stored (vw_state V e'') = bs_stored (vw_state V e'))"
  using history_runs_once(1) [OF assms(1-4)] history_runs_once(2) [OF assms(1-5)] history_runs_once(3) [OF assms(1-5)]
  by (auto simp: leads_iff)

theorem backtest_runs_once_witness:
  "bs_runs (vw_state bw_view (env (final (Backtest_Reconcile bw_api ref_klib demo_golib demo_breconciler demo_bkey)
     \<lparr>env = bw_start, trace = []\<rparr>))) \<le> 1"
proof -
  let ?e = "env (final (Backtest_Reconcile bw_api ref_klib demo_golib demo_breconciler demo_bkey) \<lparr>env = bw_start, trace = []\<rparr>)"
  have "(bt_step bw_api ref_klib demo_golib demo_breconciler demo_bkey bw_view)\<^sup>*\<^sup>* bw_start ?e"
    by (rule r_into_rtranclp, rule bt_step.Reconciled)
  from backtest_runs_once [OF bw_cluster ref_klib_laws bw_not_started this rtranclp.rtrancl_refl] show ?thesis by blast
qed

text \<open>
  C11. The finalizer of a Backtest is taken off only when the Backtest was read with a deletion
  timestamp, and under retention policy Retain only after the results volume was found missing
  or was written back without the Backtest among its owners.
\<close>

theorem backtest_results_retained:
  assumes "klib_laws K"
  shows "sofar (release_ok K key) (events (Backtest_Reconcile A K G R key) w)"
  by (rule emitsD [OF Backtest_Reconcile_release [OF assms]])

theorem backtest_results_retained_witness:
  "sofar (release_ok ref_klib demo_bkey)
     (events (Backtest_Reconcile demo_bgone_api ref_klib demo_golib demo_breconciler demo_bkey) demo_world)
   \<and> list_ex (bt_releases ref_klib)
     (events (Backtest_Reconcile demo_bgone_api ref_klib demo_golib demo_breconciler demo_bkey) demo_world)"
  using backtest_results_retained [OF ref_klib_laws] emitsD [OF demo_bgone] by blast

text \<open>
  C12. A reconcile of a FreqUI reads the FreqUI first, and every Ingress and HTTPRoute it
  deletes afterwards has that FreqUI as its controller; an Ingress goes only when the exposure
  asked for is Gateway or None.
\<close>

theorem frequi_deletes_only_own:
  "\<exists>r u. events (FreqUI_Reconcile A K G R key) w = GetFreqUI key r # u
     \<and> list_all (\<lambda>e. \<forall>m. deleted_meta e = Some m \<longrightarrow> (\<exists>f. r = Inr f \<and> owned_by K f m
         \<and> (\<forall>i x. e = DeleteIngress i x \<longrightarrow> fu_Exposure (fu_Spec f) \<in> {FUExposureGateway, FUExposureNone}))) u"
  using emitsD [OF FreqUI_Reconcile_deletes [of A K G R key], of w]
  by (elim exE conjE, rename_tac r u, case_tac r) (auto simp: delete_ok_def list_all_iff)

theorem frequi_deletes_only_own_witness:
  "\<exists>r u. events (FreqUI_Reconcile demo_fapi ref_klib demo_golib demo_freconciler demo_fkey) demo_world = GetFreqUI demo_fkey r # u
     \<and> DeleteIngress demo_ingress None \<in> set u \<and> (\<exists>f. r = Inr f \<and> owned_by ref_klib f (ing_meta demo_ingress))"
  using frequi_deletes_only_own [of demo_fapi ref_klib demo_golib demo_freconciler demo_fkey demo_world]
    emitsD [OF demo_FreqUI_Reconcile, of demo_world]
  by (force simp: list_all_iff deleted_meta_def)

text \<open>
  C13. What a reconcile of a TradeBot depends on is watched, with two exceptions. A change of
  the bot's spec or annotations, of the spec of the TradeBotConfig or Strategy it read, of the
  spec of a FreqUI of the listed namespace that names the bot before or after the change, and
  any change of a StatefulSet, volume or Secret that the bot owns enqueues the bot again; so
  does the deletion of an object the reconcile applied. The exceptions are the NetworkPolicy,
  whose deletion enqueues nobody, and a Secret that the reconcile read and nobody owns, such as
  one with credentials that the configuration refers to: its change enqueues nobody.
\<close>

theorem watch_coverage:
  assumes "klib_laws K" and "cr_laws L" and "serves_index list bots" and "tb \<in> set bots" and "key_of_meta (tb_meta tb) = key"
    and "tb_Config (tb_Spec tb) \<noteq> []" and "tb_Strategy (tb_Spec tb) \<noteq> []" and "sets_owner K KTradeBot (tb_meta tb)"
    and "GetTradeBot key (Inr tb) \<in> set (events (Reconcile A K G R key) w)"
  shows "list_all (noticed L list R key) (events (Reconcile A K G R key) w)"
  by (rule Reconcile_noticed) fact+

theorem watch_coverage_witness:
  "set (enqueued (tradebot_controller ref_crlib demo_index demo_reconciler) (Deleted (WObject (MStatefulSet demo_applied)))) = {demo_key}"
proof -
  have "list_all (noticed ref_crlib demo_index demo_reconciler demo_key)
      (events (Reconcile demo_api ref_klib demo_golib demo_reconciler demo_key) demo_world)"
    by (rule watch_coverage [OF ref_klib_laws ref_crlib_laws demo_index_serves _ _ _ _ demo_sets_owner demo_Reconcile_read])
       (simp_all add: demo_refs_set)
  moreover have "ApplyPatch (MStatefulSet demo_applied) None
      \<in> set (events (Reconcile demo_api ref_klib demo_golib demo_reconciler demo_key) demo_world)"
    using emitsD [OF demo_Reconcile] by blast
  ultimately show ?thesis by (auto simp: list_all_iff noticed_def dest!: bspec)
qed

text \<open>
  C14. A state that a poll discovers waits for an unrelated event. No status a poll writes wakes
  any of the five controllers, since their predicates look at the generation and the annotations
  only, and a reconcile asks to be run again without an error only for a bot that is being
  deleted, has no finalizer yet, is not in trade mode, whose StatefulSet has no ready replica,
  or to which it has just sent a start or stop call. So a running bot that is found stopped, or
  found reachable again, is not aligned with spec.state until something else changes.
\<close>

theorem state_drift_waits:
  assumes "klib_laws K" and "cr_laws L"
  shows "backed (\<lambda>e. written_tradebot e \<noteq> None) (rewrote (wakes_nobody (all_controllers L list R F))) (events (pollOne A K G key p) w)
   \<and> (comes_back (result (Reconcile A' K G' R' key') w')
       \<longrightarrow> (\<exists>tb. GetTradeBot key' (Inr tb) \<in> set (events (Reconcile A' K G' R' key') w')
            \<and> back_reason K tb (events (Reconcile A' K G' R' key') w')))"
  using keepsD [OF pollOne_wakes_nobody [OF assms]] emitsD [OF Reconcile_back] by blast

theorem state_drift_waits_witness:
  "backed (\<lambda>e. written_tradebot e \<noteq> None) (rewrote (wakes_nobody (all_controllers ref_crlib demo_index demo_reconciler demo_freconciler)))
     (events (pollOne demo_api ref_klib demo_golib demo_key []) demo_world)"
  using state_drift_waits [OF ref_klib_laws ref_crlib_laws] by blast

text \<open>
  C15. A bot being deleted is never stuck behind its workload: once its grace period is over,
  one reconcile against an API server that answers asks for the removal of the finalizer,
  whatever the StatefulSet and the volume do.
\<close>

theorem deletion_completes:
  assumes "klib_laws K" and "responsive A" and "deletion_pending A K key tb" and "overdue A R tb"
  shows "list_ex (releases K) (events (Reconcile A K G R key) w)"
  by (rule emitsD [OF deletion_progress [OF assms]])

theorem deletion_completes_witness:
  "list_ex (releases ref_klib) (events (Reconcile demo_late_api ref_klib demo_golib demo_reconciler demo_key) demo_world)"
  by (rule deletion_completes [OF ref_klib_laws demo_late])

text \<open>
  C16. A steady bot is left alone: when a bot is reachable and in the state that spec.state asks
  for, and the reads, the rendered configuration, the resources pass and the workload status
  come out the same each time, the second of two reconciles sends no write of the TradeBot,
  neither its success status nor its StateReconciled condition, so that the operator does not
  wake its own watch for ever.
\<close>

theorem steady_bot_left_alone:
  assumes "obedient A G key tb V" and "klib_laws K" and "exact_equal K" and "steady_klib K" and "managed K key tb"
    and "steady_parts A K G R key tb fl out ws" and "reachable_in K (bv_stored V (env w))"
    and "state_matches (desired_state (bv_stored V (env w))) (observed_in (bv_stored V (env w)))"
  shows "list_all (\<lambda>e. tradebot_write e = None) (events (Reconcile A K G R key) (final (Reconcile A K G R key) w))"
  using assms by (rule second_reconcile_quiet)

theorem steady_bot_left_alone_witness:
  "list_all (\<lambda>e. tradebot_write e = None) (events (Reconcile calm_api ref_klib tw_golib demo_reconciler demo_key)
     (final (Reconcile calm_api ref_klib tw_golib demo_reconciler demo_key) \<lparr>env = calm_start, trace = []\<rparr>))"
  by (rule steady_bot_left_alone [OF calm_obedient ref_klib_laws ref_exact_equal ref_steady_klib tw_managed calm_parts])
     (simp_all add: calm_reachable)



text \<open>
  C18. While the stored Backtest records the outcome of its run, a reconcile starts nothing, and
  which outcome its status writes carry depends on its reads of the Job alone. If it reads the
  Job once, which is when its first read fails, the outcome is kept. If the second read, of the
  workload's status, finds no Job, the outcome is kept; if it finds one, the status says what
  the Job's counts say or keeps the outcome; and if it fails in another way, every status that
  is written has lost the outcome, after which the run counts as never started.
\<close>

theorem backtest_outcome_stays:
  assumes "klib_laws K" and "stored_outcome A K v"
  shows "outcome_told K v (events (Backtest_Reconcile A K G R key) w)"
  using emitsD [OF recorded_run [OF assms]] by blast

theorem backtest_outcome_stays_witness:
  "outcome_told ref_klib (True, False) (events (Backtest_Reconcile demo_done_api ref_klib demo_golib demo_breconciler demo_bkey) demo_world)
   \<and> (\<exists>e b. e \<in> set (events (Backtest_Reconcile demo_refused_api ref_klib demo_golib demo_breconciler demo_bkey) demo_world)
        \<and> written_backtest e = Some b \<and> verdict ref_klib b = None)"
proof -
  have "\<not> IsNotFound demo_refusal" by (simp add: demo_refusal_def IsNotFound_def)
  with backtest_outcome_stays [OF ref_klib_laws demo_refused_outcome, of demo_golib demo_breconciler demo_bkey demo_world]
    demo_refused_run have "\<exists>e b. e \<in> set (events (Backtest_Reconcile demo_refused_api ref_klib demo_golib demo_breconciler demo_bkey) demo_world)
        \<and> written_backtest e = Some b \<and> verdict ref_klib b = None" by (fastforce simp: outcome_told_def)
  with backtest_outcome_stays [OF ref_klib_laws demo_done] show ?thesis by blast
qed

text \<open>
  C19. The result collector ends: with a clock that is never turned back and waits that last
  their interval, it returns after at most 43203 rounds of its loop, the number of its
  two-second intervals in 24 hours and three more, with or without an error.
\<close>

theorem collector_wait_terminates:
  assumes "ticking A clock" and "43203 \<le> fuel"
  shows "\<exists>r. result (runCollectResults fuel A G in_cluster new_client opts) w = Some r"
  using runCollectResults_returns [OF assms] by blast

theorem collector_wait_terminates_witness:
  "\<exists>r. result (runCollectResults 50000 demo_api demo_golib None None demo_opts) demo_world = Some r"
  by (rule collector_wait_terminates [OF demo_ticking]) simp

text \<open>
  C20. What the collector extracts from the result file is what the reconciler reports: the
  results ConfigMap it writes is read back as the very results it parsed, with ResultsAvailable
  True, and if it had none, as its error message with ResultsAvailable False.
\<close>

theorem backtest_results_roundtrip:
  assumes "json_faithful G" and "\<And>r. collected A G opts w = Inr r \<Longrightarrow> ascii_results r"
  shows "read_results G n gen (result (extract_results A G opts) w) = (case collected A G opts w of
       Inl e \<Rightarrow> (None, unavailableCondition (err_Error e) gen)
     | Inr r \<Rightarrow> (Some r, mk_cond_gen ConditionResultsAvailable ConditionTrue ReasonAsExpected [] gen))"
  using assms by (rule read_extracted)

theorem backtest_results_roundtrip_witness:
  "collected demo_files_api demo_jsonlib demo_opts demo_world = Inr demo_results
   \<and> read_results demo_jsonlib ''run'' 2 (result (extract_results demo_files_api demo_jsonlib demo_opts) demo_world)
     = (Some demo_results, mk_cond_gen ConditionResultsAvailable ConditionTrue ReasonAsExpected [] 2)"
  using backtest_results_roundtrip [OF demo_json_faithful, of demo_files_api demo_opts demo_world] demo_collected by simp

text \<open>
  C21. A poll ends with a BotReachable condition of the generation it polled that is True with
  reason AsExpected exactly when it has a fresh status, and otherwise False with one of the
  reasons AuthFailed, Timeout and ConnectionRefused. A status that it writes with BotReachable
  False still holds the last good observation: state, version, dry run, trades and profit are
  those of the stored object it was computed from, and only the time and error of the poll are
  new.
\<close>

theorem poll_reports_honestly:
  assumes "klib_laws K"
  shows "poll_outcome tb (fst (result (poll A G tb) w)) (fst (snd (result (poll A G tb) w)))
     \<and> backed (\<lambda>e. written_tradebot e \<noteq> None) (keeps_last_good K) (events (pollOne A K G key p) w)"
  using yieldsD [OF poll_outcome_holds] keepsD [OF pollOne_keeps_last_good [OF assms]] by blast

theorem poll_reports_honestly_witness:
  "poll_outcome demo_tb (fst (result (poll demo_api demo_golib demo_tb) demo_world))
       (fst (snd (result (poll demo_api demo_golib demo_tb) demo_world)))
   \<and> backed (\<lambda>e. written_tradebot e \<noteq> None) (keeps_last_good ref_klib)
     (events (pollOne demo_api ref_klib demo_golib demo_key []) demo_world)"
  by (rule poll_reports_honestly [OF ref_klib_laws])

text \<open>
  C22. A pass of the scheduler does what it is specified to do, whatever state it starts from.
  Of the listed bots, which have different keys, those that run trade and do not switch
  introspection off are to be polled. Of these the ones that are due, being new or neither in
  flight nor backed off, are appended to the queue in the order of the list, as many as it has
  room for; exactly these are marked as in flight, so that a bot that finds the queue full is
  due again in the next pass. A new bot gets a fresh entry, every other entry is unchanged, and
  a bot that is not listed or not to be polled any more is forgotten. A failed list changes
  nothing.
\<close>

theorem schedule_pass_exact:
  assumes "case fst (api_ListTradeBots A (env w)) of Inl e \<Rightarrow> True | Inr bots \<Rightarrow> distinct (map tb_key bots)"
  shows "case fst (api_ListTradeBots A (env w)) of
       Inl e \<Rightarrow> result (scheduleDue A K cap p q) w = (p, q)
     | Inr bots \<Rightarrow> pass_spec cap (fst (api_Now A (snd (api_ListTradeBots A (env w))))) bots p q
         (fst (result (scheduleDue A K cap p q) w)) (snd (result (scheduleDue A K cap p q) w))"
  using assms scheduleDue_spec [of A w] scheduleDue_failed [of A w] by (auto split: sum.split)

theorem schedule_pass_exact_witness:
  "snd (result (scheduleDue demo_api ref_klib 1 [] []) demo_world) = [demo_key]
   \<and> (\<exists>st. map_of (fst (result (scheduleDue demo_api ref_klib 1 [] []) demo_world)) demo_key = Some st \<and> ps_inFlight st)
   \<and> (\<exists>st. map_of (fst (result (scheduleDue demo_api ref_klib 0 [] []) demo_world)) demo_key = Some st \<and> \<not> ps_inFlight st)"
proof -
  have list: "fst (api_ListTradeBots demo_api (env demo_world)) = Inr [demo_tb]" by (simp add: demo_api_def)
  have poll: "to_poll demo_tb" by (simp add: to_poll_def demo_tb_spec demo_spec_def TrimSpace_def)
  have spec: "pass_spec c (fst (api_Now demo_api (snd (api_ListTradeBots demo_api (env demo_world))))) [demo_tb] [] []
      (fst (result (scheduleDue demo_api ref_klib c [] []) demo_world)) (snd (result (scheduleDue demo_api ref_klib c [] []) demo_world))" for c
    using schedule_pass_exact [of demo_api demo_world] by (simp add: list)
  show ?thesis
    using spec [of 1] spec [of 0] poll
    by (auto simp: pass_spec_def taken_def due_now_def demo_tb_key entry_after_def marked_def fresh_entry_def)
qed

text \<open>
  C23. The poller keeps its invariant to the end and ends. In every reachable state of its life,
  panicking polls included, the bounds and the in-flight marks of the scheduler hold, the
  channel is closed only after cancellation and with the scheduler at rest, so nothing is sent
  on a closed channel, and a return leaves nothing queued or running. After a cancellation a
  return stays reachable, and once the channel is closed at most five times the number of
  workers steps take or finish a poll.
\<close>

theorem poller_shuts_down:
  assumes "life_reachable K configured s"
  shows "life_inv configured s
   \<and> (pl_cancelled s \<longrightarrow> (\<exists>s'. (life_step K configured)\<^sup>*\<^sup>* s s' \<and> pl_returned s'))
   \<and> (pl_closed s \<and> successively (life_step K configured) (s # ss) \<longrightarrow> finishing (s # ss) \<le> 5 * poll_workers configured)"
proof -
  note inv = life_inv_reachable [OF assms]
  have "finishing (s # ss) \<le> 5 * poll_workers configured" if "pl_closed s" "successively (life_step K configured) (s # ss)"
    using finishing_bounded [OF that(2)] drain_bound [of configured "pl_sys s"] inv that(1) by (simp add: life_inv_def)
  with inv cancelled_returns [OF inv] show ?thesis by blast
qed

theorem poller_shuts_down_witness:
  "\<exists>s'. (life_step ref_klib 4)\<^sup>*\<^sup>* (life_init\<lparr>pl_sys := poll_init\<lparr>py_phase := Scanning 7 [demo_tb] []\<rparr>, pl_cancelled := True\<rparr>) s'
     \<and> pl_returned s'"
proof -
  let ?s = "life_init\<lparr>pl_sys := poll_init\<lparr>py_phase := Scanning 7 [demo_tb] []\<rparr>\<rparr>"
  have "life_step ref_klib 4 life_init ?s"
    by (rule Run, simp add: life_init_def, rule poll_step.Tick) (simp_all add: life_init_def poll_init_def)
  moreover have "life_step ref_klib 4 ?s (?s\<lparr>pl_cancelled := True\<rparr>)" by (rule Cancel)
  ultimately have "life_reachable ref_klib 4 (?s\<lparr>pl_cancelled := True\<rparr>)"
    unfolding life_reachable_def by (meson rtranclp.rtrancl_into_rtrancl rtranclp.rtrancl_refl)
  from poller_shuts_down [OF this, of "[]"] show ?thesis by simp
qed

text \<open>
  C24. As long as the scheduler never forgets a bot that is queued or being polled, no bot is
  queued or polled twice at the same time. Without that proviso it fails: with at least two
  workers, a bot that one list misses while it is being polled and the next list shows again is
  polled by two workers at once.
\<close>

theorem one_poll_per_bot:
  "((steady_step K configured)\<^sup>*\<^sup>* poll_init s \<longrightarrow> distinct (busy s) \<and> list_all (inflight (py_state s)) (busy s))
   \<and> (shouldPoll b \<and> 1 < poll_workers configured
       \<longrightarrow> (\<exists>t. poll_reachable K configured t \<and> py_running t = [tb_key b, tb_key b]))"
  using exclusive_reachable double_poll by (auto simp: exclusive_def list_all_iff)

theorem one_poll_per_bot_witness:
  "distinct (busy (poll_init\<lparr>py_phase := Scanning 7 [demo_tb] []\<rparr>))
   \<and> (\<exists>t. poll_reachable ref_klib 4 t \<and> py_running t = [demo_key, demo_key])"
proof -
  have "(steady_step ref_klib 4)\<^sup>*\<^sup>* poll_init (poll_init\<lparr>py_phase := Scanning 7 [demo_tb] []\<rparr>)"
    unfolding steady_step_def
    by (rule r_into_rtranclp, rule conjI, rule poll_step.Tick) (simp_all add: poll_init_def keeps_busy_def busy_def)
  then show ?thesis
    using one_poll_per_bot [of ref_klib 4 "poll_init\<lparr>py_phase := Scanning 7 [demo_tb] []\<rparr>" demo_tb]
    by (simp add: shouldPoll_def isTradeMode_def introspectionEnabled_def demo_spec_def poll_workers_def demo_tb_spec demo_tb_key)
qed

text \<open>
  C25. Every status a failed reconcile writes has the failing condition and Ready at False with
  the given reason and message, the message itself, the phase that follows from the conditions,
  and the generation of the object. A failure to apply resources shows as phase ResourceError
  only when no earlier configuration failure is on record: a stale ConfigResolved False keeps
  the phase at Error or ConfigError although this reconcile resolved the configuration.
\<close>

theorem failure_is_reported:
  assumes "klib_laws K"
  shows "writes_of (reports_failure K ty reason message) (events (failReconcile A K R tb ty reason message err) w)
   \<and> st_Phase (tb_Status (fail_mutate K ConditionWorkloadReady ReasonReconcileError m now t))
     = (case seen K (conds t) ConditionConfigResolved of
         Some (ConditionFalse, r, _) \<Rightarrow> if r = ReasonReferenceNotFound then ''Error'' else ''ConfigError''
       | _ \<Rightarrow> ''ResourceError'')"
  using emitsD [OF fail_writes [OF assms]] fail_phase_workload [OF assms] by simp

theorem failure_is_reported_witness:
  "writes_of (reports_failure ref_klib ConditionConfigResolved ReasonConfigInvalid ''bad'')
     (events (failReconcile demo_api ref_klib demo_reconciler demo_tb ConditionConfigResolved ReasonConfigInvalid ''bad'' None) demo_world)
   \<and> st_Phase (tb_Status (fail_mutate ref_klib ConditionWorkloadReady ReasonReconcileError ''m'' 5
     (demo_tb\<lparr>tb_Status := (tb_Status demo_tb)\<lparr>st_Conditions :=
        [mk_cond ConditionConfigResolved ConditionFalse ReasonSecretMissing ''x'']\<rparr>\<rparr>))) = ''ConfigError''"
  using failure_is_reported [OF ref_klib_laws, where m = "''m''" and now = 5
      and t = "demo_tb\<lparr>tb_Status := (tb_Status demo_tb)\<lparr>st_Conditions :=
         [mk_cond ConditionConfigResolved ConditionFalse ReasonSecretMissing ''x'']\<rparr>\<rparr>"]
  by (simp add: seen_def ref_klib_def ref_FindStatusCondition_def)

text \<open>
  C26. Why a configuration cannot be rendered: the error of BuildConfig is a NotFound, the test
  by which the reconciler chooses between the reasons SecretMissing and ConfigInvalid, exactly
  when a Secret that the configuration references was read and not found; that the bot's own
  config Secret does not exist yet is no error. A read of a Secret that failed for any other
  reason, a timeout or a missing permission, is an error that is not a NotFound and falls under
  ConfigInvalid like a mistake in the configuration.
\<close>

theorem config_failure_classified:
  assumes "own_errors A G" and "no_self_reference n s"
  shows "classified (config_secret_key n ns) (result (BuildConfig A G n ns s cors) w) (events (BuildConfig A G n ns s cors) w)"
  by (rule emitsD [OF BuildConfig_classified [OF assms]])

theorem config_failure_classified_witness:
  "fails_as IsNotFound (result (BuildConfig (jwt_api CHR ''x'' (\<lambda>_. Inl demo_notfound)) jwt_golib ''bot'' ''ns'' demo_refspec []) demo_world)
   \<and> fails_as (\<lambda>e. \<not> IsNotFound e)
       (result (BuildConfig (jwt_api CHR ''x'' (\<lambda>_. Inl demo_forbidden)) jwt_golib ''bot'' ''ns'' demo_refspec []) demo_world)"
  using config_failure_classified [OF jwt_own_errors [of "CHR ''x''" "\<lambda>_. Inl demo_notfound"] demo_refspec_refs, of "''ns''" "[]" demo_world]
    config_failure_classified [OF jwt_own_errors [of "CHR ''x''" "\<lambda>_. Inl demo_forbidden"] demo_refspec_refs, of "''ns''" "[]" demo_world]
    demo_lost demo_refused
  by (simp add: classified_def)

text \<open>
  C27. Every status a reconcile writes is computed from a stored object read before it and is
  one of three reports. A success comes after a resources pass and a read of the StatefulSet
  behind it: ConfigResolved is True, WorkloadReady and Ready are True exactly when that
  StatefulSet has a ready replica and the phase is Running or Pending accordingly, ConfigDrift
  is True exactly when the hash on the applied template differs from the hash of the applied
  configuration and script, the hash and the image are those that were applied, and every other
  condition is as it was. A failure has Ready and one of ConfigResolved and WorkloadReady at
  False and leaves the rest. The alignment of the state sets StateReconciled and leaves the
  other conditions, the phase, the hash and the image. The observed generation is that of the
  object.
\<close>

theorem success_status_reported:
  assumes "klib_laws K"
  shows "sofar (status_told K) (events (Reconcile A K G R key) w)"
  by (rule emitsD [OF Reconcile_told [OF assms]])

theorem success_status_reported_witness:
  "sofar (status_told ref_klib) (events (Reconcile demo_api ref_klib demo_golib demo_reconciler demo_key) demo_world)"
  by (rule success_status_reported [OF ref_klib_laws])

text \<open>
  C28. The manager starts only when everything is in place: both field indexes, the five
  controllers with the images, limits, grace period and namespace that the flags, the
  environment and the operator's own pod give them, the six webhooks, the poller and the two
  health checks. The Gateway API is used only if the API server listed its routes, and the
  process ends with 0 exactly if the manager ran and stopped without an error, otherwise with 1.
  Each of the two TLS servers gets the certificate and protocols its own flags ask for, provided
  the runtime gives an array for one element no room to spare: with room to spare the webhook
  server would serve the certificate of the metrics server, since both option lists are appended
  to the same slice.
\<close>

theorem manager_starts_complete:
  "start_ok M fl (result (runManager M grow L list fl) w) (events (runManager M grow L list fl) w)
   \<and> (grow 1 = 1 \<longrightarrow> list_all (made_with (\<lambda>opts h. served_tls h (mg_WebhookTLSOpts opts) = webhook_tls fl
        \<and> served_tls h (mo_TLSOpts (mg_Metrics opts)) = metrics_tls fl
        \<and> mo_FilterProvider (mg_Metrics opts) = mo_SecureServing (mg_Metrics opts))) (events (runManager M grow L list fl) w))
   \<and> (1 < grow 1 \<and> \<not> fl_enableHTTP2 fl \<and> fl_webhookCertPath fl \<noteq> [] \<and> fl_metricsCertPath fl \<noteq> []
       \<longrightarrow> list_all (made_with (\<lambda>opts h. served_tls h (mg_WebhookTLSOpts opts) = metrics_tls fl)) (events (runManager M grow L list fl) w))"
  using emitsD [OF runManager_start_ok] onlyD [OF separate_tls] onlyD [OF shared_tls] by blast

theorem manager_starts_complete_witness:
  "list_all (made_with (\<lambda>opts h. served_tls h (mg_WebhookTLSOpts opts) = webhook_tls demo_flags))
     (events (runManager demo_mgr (\<lambda>n. n) ref_crlib demo_index demo_flags) demo_mgrworld)
   \<and> list_all (made_with (\<lambda>opts h. served_tls h (mg_WebhookTLSOpts opts) = metrics_tls demo_flags))
     (events (runManager demo_mgr (\<lambda>n. 8) ref_crlib demo_index demo_flags) demo_mgrworld)"
proof -
  have cases: "fl_enableHTTP2 demo_flags = False" "fl_webhookCertPath demo_flags \<noteq> []" "fl_metricsCertPath demo_flags \<noteq> []"
    by (simp_all add: demo_flags_def flag_defaults_def)
  note own = conjunct1 [OF conjunct2 [OF manager_starts_complete [of demo_mgr demo_flags "\<lambda>n. n" ref_crlib demo_index demo_mgrworld]],
      rule_format, OF refl]
  note spare = conjunct2 [OF conjunct2 [OF manager_starts_complete [of demo_mgr demo_flags "\<lambda>n. 8" ref_crlib demo_index demo_mgrworld]],
      rule_format]
  show ?thesis by (rule conjI [OF list_all_made_with [OF own] spare]) (use cases in simp_all)
qed

text \<open>
  C29. Every status a Backtest reconcile writes is well-formed: the phase is one of Succeeded,
  Failed, Running, Pending and Error, it is Succeeded exactly when Ready is True, Succeeded and
  Failed go with the recorded outcome of the same name, Running and Pending with none, and the
  observed generation is the object's.
\<close>

theorem backtest_status_meaning:
  assumes "klib_laws K"
  shows "\<forall>e b. e \<in> set (events (Backtest_Reconcile A K G R key) w) \<and> written_backtest e = Some b \<longrightarrow> bt_status_ok K b"
  using onlyD [OF Backtest_Reconcile_writes [OF assms, of A G R key], of w] by (auto simp: list_all_iff bt_writes_ok_def)

theorem backtest_status_meaning_witness:
  "\<exists>e \<in> set (events (Backtest_Reconcile demo_done_api ref_klib demo_golib demo_breconciler demo_bkey) demo_world).
     \<exists>b. written_backtest e = Some b \<and> bt_status_ok ref_klib b"
  using backtest_status_meaning [OF ref_klib_laws, of demo_done_api demo_golib demo_breconciler demo_bkey demo_world]
    emitsD [OF demo_done_writes, of demo_world] by blast

text \<open>
  C30. Every status a FreqUI reconcile writes says what is the case: Ready is True exactly when
  WorkloadReady and ExposureReady are, the phase is Running exactly then and Degraded exactly
  when the workload is ready and the exposure is not, and the observed generation is the
  object's.
\<close>

theorem frequi_status_meaning:
  assumes "klib_laws K"
  shows "list_all (\<lambda>e. \<forall>f. written_frequi e = Some f \<longrightarrow> frequi_status_ok K f) (events (FreqUI_Reconcile A K G R key) w)"
  using onlyD [OF FreqUI_Reconcile_writes [OF assms]] by (simp add: list_all_iff writes_ok_def)

theorem frequi_status_meaning_witness:
  "\<exists>e \<in> set (events (FreqUI_Reconcile demo_fapi ref_klib demo_golib demo_freconciler demo_fkey) demo_world).
     \<exists>f. written_frequi e = Some f \<and> frequi_status_ok ref_klib f"
  using frequi_status_meaning [OF ref_klib_laws, of demo_fapi demo_golib demo_freconciler demo_fkey demo_world]
    emitsD [OF demo_FreqUI_Reconcile, of demo_world] by (auto simp: list_all_iff)

text \<open>
  C31. A v1alpha1 TradeBotConfig converts to the storage version exactly when it sets no
  plaintext credential field, and then nothing is lost: converted back it is the same object,
  and so is a stored object that is read as v1alpha1 and written again. A FreqUI and a Strategy
  always convert, and nothing is lost in either direction.
\<close>

theorem tradebotconfig_conversion:
  assumes C: "cfg_passthrough C" and D: "fu_passthrough D" and P: "passthrough P"
  shows "(plaintextCredentialFields (tc_Spec c) = [] \<longleftrightarrow> (\<exists>b. TradeBotConfig_ConvertTo C c = Inr b))
     \<and> (\<forall>b. TradeBotConfig_ConvertTo C c = Inr b \<longrightarrow> TradeBotConfig_ConvertFrom C b = Inr c)
     \<and> (\<exists>c'. TradeBotConfig_ConvertFrom C b' = Inr c' \<and> TradeBotConfig_ConvertTo C c' = Inr b')
     \<and> (\<exists>g. FreqUI_ConvertTo D f = Inr g \<and> FreqUI_ConvertFrom D g = Inr f)
     \<and> (\<exists>f. FreqUI_ConvertFrom D g' = Inr f \<and> FreqUI_ConvertTo D f = Inr g')
     \<and> (\<exists>b. Strategy_ConvertTo P s = Inr b \<and> Strategy_ConvertFrom P b = Inr s)
     \<and> (\<exists>s. Strategy_ConvertFrom P t' = Inr s \<and> Strategy_ConvertTo P s = Inr t')"
  using converter.up_ok [OF TradeBotConfig_converter [OF C], of c] converter.up_down [OF TradeBotConfig_converter [OF C]]
    TradeBotConfig_stored_roundtrip [OF C] FreqUI_roundtrip [OF D, of f g'] Strategy_roundtrip [OF P, of s t'] by blast

theorem tradebotconfig_conversion_witness:
  "\<exists>b. TradeBotConfig_ConvertTo cfg_identity (demo_config\<lparr>tc_Spec := demo_configspec\<lparr>tcs_APIServer := None\<rparr>\<rparr>) = Inr b
     \<and> TradeBotConfig_ConvertFrom cfg_identity b = Inr (demo_config\<lparr>tc_Spec := demo_configspec\<lparr>tcs_APIServer := None\<rparr>\<rparr>)"
proof -
  have "plaintextCredentialFields (tc_Spec (demo_config\<lparr>tc_Spec := demo_configspec\<lparr>tcs_APIServer := None\<rparr>\<rparr>)) = []"
    by (simp add: plaintextCredentialFields_def demo_configspec_def demo_exchange_def if_set_def)
  then show ?thesis
    using tradebotconfig_conversion [OF identity_cfg_passthrough identity_fu_passthrough identity_passthrough] by blast
qed

text \<open>
  C32. A v1alpha1 TradeBot converts to the storage version exactly when its command is empty or
  trade; read back it has lost its command, its arguments and its data cache and nothing else,
  and the stored object asks for a running bot. Reading a stored TradeBot as v1alpha1 and
  writing it back changes nothing but spec.state, which is reset. The copies of the status
  between the versions lose nothing in either direction and touch neither spec nor metadata.
\<close>

theorem tradebot_conversion:
  assumes "passthrough C"
  shows "(trade_only t \<longleftrightarrow> (\<exists>b. TradeBot_ConvertTo C t = Inr b))
     \<and> (\<forall>b. TradeBot_ConvertTo C t = Inr b \<longrightarrow>
          TradeBot_ConvertFrom C b = Inr (forget_job_fields t) \<and> desired_state b = TradeBotStateRunning)
     \<and> (\<forall>b u. TradeBot_ConvertFrom C b = Inr u \<longrightarrow> TradeBot_ConvertTo C u = Inr (reset_state b))
     \<and> copyTradeBotStatusToBeta b (copyTradeBotStatusFromBeta t b) = b
     \<and> tb_Status (copyTradeBotStatusFromBeta t (copyTradeBotStatusToBeta b t)) = tb_Status t
     \<and> tb_Spec (copyTradeBotStatusFromBeta t b) = tb_Spec t \<and> btb_Spec (copyTradeBotStatusToBeta b t) = btb_Spec b
     \<and> tb_meta (copyTradeBotStatusFromBeta t b) = tb_meta t \<and> btb_meta (copyTradeBotStatusToBeta b t) = btb_meta b"
  using converter.up_ok [OF TradeBot_converter [OF assms]] converter.up_down [OF TradeBot_converter [OF assms]]
    converter.down_up [OF TradeBot_converter [OF assms]] ConvertTo_running
  by (simp add: copy_from_to)

theorem tradebot_conversion_witness:
  "(\<exists>b. TradeBot_ConvertTo identity_conv demo_tb = Inr b
     \<and> TradeBot_ConvertFrom identity_conv b = Inr (forget_job_fields demo_tb))
   \<and> (\<exists>t. TradeBot_ConvertFrom identity_conv demo_beta = Inr t
     \<and> TradeBot_ConvertTo identity_conv t = Inr (reset_state demo_beta))"
  using tradebot_conversion [OF identity_passthrough, of demo_tb demo_beta] tbconv.down_total [of demo_beta]
  by (auto simp: trade_only_def demo_tb_spec demo_spec_def)

text \<open>
  C33. Finalization touches a PersistentVolumeClaim only when the bot carries the preserve-data
  annotation, and then writes the claim it just read with the bot's owner reference removed,
  every other owner kept and the spec unchanged.
\<close>

theorem volume_preserved_on_request:
  "backed (\<lambda>e. \<exists>p r. e = UpdatePVC p r) (releases_volume G tb) (events (finalizeTradeBot A G R tb) w)
   \<and> set (om_OwnerReferences (pvc_meta (released_pvc G tb now p)))
       = {r. r \<in> set (om_OwnerReferences (pvc_meta p)) \<and> or_UID r \<noteq> om_UID (tb_meta tb)}
   \<and> pvc_Spec (released_pvc G tb now p) = pvc_Spec p"
  using keepsD [OF finalizeTradeBot_volume] released_pvc_owners by simp

text \<open>
  C34. What the NetworkPolicy of a bot lets through to the pods of TradeBots. A pod of the bot
  itself is reached over TCP on port 8080 only, and only from the operator's namespace if it is
  known, from the pods of its namespace that carry the name of a FreqUI that refers to the bot
  as their app label, and from the peers the bot's owner added; with none of these it is not
  reached at all. The pods of every other bot are not concerned by the policy.
\<close>

theorem network_policy_admits:
  assumes "pod_of tb' pod"
  shows "reaches other (BuildNetworkPolicy tb freqUINames operatorNamespace) src pod proto port \<longleftrightarrow>
     (if tb_Namespace tb' = tb_Namespace tb \<and> tb_Name tb' = tb_Name tb
      then proto = ''TCP'' \<and> port = 8080 \<and> may_call other tb freqUINames operatorNamespace src else True)"
  unfolding reaches_def BuildNetworkPolicy_isolates [OF assms] BuildNetworkPolicy_admits by auto

theorem network_policy_admits_witness:
  "\<not> reaches (\<lambda>_ _. False) (BuildNetworkPolicy demo_tb [] []) demo_caller demo_pod ''TCP'' 8080
   \<and> reaches (\<lambda>_ _. False) (BuildNetworkPolicy demo_tb [''ui''] []) demo_caller demo_pod ''TCP'' 8080
   \<and> \<not> reaches (\<lambda>_ _. False) (BuildNetworkPolicy demo_tb [''ui''] []) demo_caller demo_pod ''TCP'' 22"
proof -
  have "may_call (\<lambda>_ _. False) demo_tb [''ui''] [] demo_caller" "\<not> may_call (\<lambda>_ _. False) demo_tb [] [] demo_caller"
    by (simp_all add: may_call_def demo_caller_def app_of_def demo_tb_spec demo_spec_def)
  then show ?thesis by (simp add: network_policy_admits [OF demo_pod_of])
qed



text \<open>
  C36. The two ways to expose a FreqUI route the same hosts to the same Services and ports:
  without rule or hostname overrides, and with names that fit, the Ingress and the HTTPRoutes
  built for the same API routes have the same targets in the same order.
\<close>

theorem frequi_exposures_agree:
  assumes "\<And>u. fu_app f fa_IngressSpec = Some u \<Longrightarrow> fi_Rules u = []"
    and "\<And>g. fu_Gateway (fu_Spec f) = Some g \<Longrightarrow> fg_Hostnames g = []"
    and "\<And>a. a \<in> set apis \<Longrightarrow> IsDNS1123Subdomain K (fu_Name f @ ''-'' @ ar_Name a)"
  shows "ingress_targets (BuildFreqUIIngress f apis) = route_targets (fst (BuildFreqUIHTTPRoutes K f apis))
     \<and> length (ingress_targets (BuildFreqUIIngress f apis)) = Suc (length apis)"
  using ingress_targets_built [of f apis] route_targets_built [of f apis K] assms by simp

theorem frequi_exposures_agree_witness:
  "ingress_targets (BuildFreqUIIngress demo_frequi [\<lparr>ar_Name = ''bot'', ar_ServiceName = ''bot'', ar_PathPrefix = ''bot''\<rparr>])
   = route_targets (fst (BuildFreqUIHTTPRoutes ref_klib demo_frequi [\<lparr>ar_Name = ''bot'', ar_ServiceName = ''bot'', ar_PathPrefix = ''bot''\<rparr>]))"
  using frequi_exposures_agree [of demo_frequi "[\<lparr>ar_Name = ''bot'', ar_ServiceName = ''bot'', ar_PathPrefix = ''bot''\<rparr>]" ref_klib]
  by (simp add: fu_app_def ref_klib_def demo_fmeta_def mk_meta_def)

text \<open>
  C37. The webhook admits the creation of a TradeBot exactly when its Strategy and its
  TradeBotConfig were both found, no argument carries a shell metacharacter or equals a flag the
  operator sets, an introspection interval that is set is at least ten seconds, and no object of
  the same name is stored that asks for Stopped. It compares whole arguments: a flag joined to
  its value by an equals sign is not one of the refused ones.
\<close>

theorem tradebot_admission:
  "result (TradeBot_ValidateCreate A tb) w = None \<longleftrightarrow> admitted_ok tb (events (TradeBot_ValidateCreate A tb) w)"
  unfolding TradeBot_ValidateCreate_def by (rule emitsD [OF validate_TradeBot_emits])

theorem tradebot_admission_witness:
  "admitted_ok demo_tb (events (TradeBot_ValidateCreate demo_run_api demo_tb) demo_world)"
  using tradebot_admission [of demo_run_api demo_tb demo_world] demo_admitted by simp

text \<open>
  C38. After a poll the bot's next poll is one interval away and its failure count zero if the
  bot was reachable, and otherwise the count is one higher and the next poll two to ten
  intervals away. The backoff never shrinks while failures accumulate, and from the fourth
  failure on it is exactly ten intervals.
\<close>

theorem poll_backoff:
  assumes "interval_ok (pollInterval tb)" and "map_of p key = Some st"
  shows "(\<exists>st'. map_of (updateBackoff key tb c now p) key = Some st'
     \<and> (if cd_Status c = ConditionTrue
        then ps_consecutiveFailures st' = 0 \<and> ps_nextPollAt st' = now + pollInterval tb
        else ps_consecutiveFailures st' = ps_consecutiveFailures st + 1
          \<and> now + 2 * pollInterval tb \<le> ps_nextPollAt st' \<and> ps_nextPollAt st' \<le> now + 10 * pollInterval tb))
   \<and> (f \<le> g \<longrightarrow> backoff_delay (pollInterval tb) f \<le> backoff_delay (pollInterval tb) g)
   \<and> (4 \<le> g \<longrightarrow> backoff_delay (pollInterval tb) g = 10 * pollInterval tb)"
  using assms backoff_delay_bounds [OF assms(1), of "ps_consecutiveFailures st + 1"] backoff_delay_mono [OF assms(1)]
  by (auto simp: updateBackoff_def backoff_step_def Let_def backoff_delay_exact min_def)

theorem poll_backoff_witness:
  "(\<exists>st'. map_of (updateBackoff demo_key demo_tb (mk_cond ''BotReachable'' ConditionFalse ''Timeout'' []) 50
       [(demo_key, new_pollstate 0)]) demo_key = Some st'
     \<and> ps_consecutiveFailures st' = 1 \<and> 50 + 120 * Second \<le> ps_nextPollAt st')
   \<and> backoff_delay (60 * Second) 7 = 600 * Second"
  using poll_backoff [of demo_tb "[(demo_key, new_pollstate 0)]" demo_key "new_pollstate 0"
      "mk_cond ''BotReachable'' ConditionFalse ''Timeout'' []" 50 1 7]
  by (auto simp: pollInterval_def demo_tb_spec demo_spec_def Second_def new_pollstate_def)

text \<open>
  C39. A scrape reports what the cluster holds: for every phase in which there is a bot the
  number of bots in it, for no other phase anything, the counts adding up to the number of bots,
  and for every bot one drift gauge that is 1 exactly when its ConfigDrift condition is True. No
  series appears twice, provided no two listed bots share namespace and name, and a failed list
  yields no samples.
\<close>

theorem scrape_exact:
  "case fst (api_ListTradeBots A (env w)) of
       Inl e \<Rightarrow> result (collector_Collect A K) w = []
     | Inr items \<Rightarrow> samples_exact K items (result (collector_Collect A K) w)
         \<and> (distinct (map (\<lambda>tb. key_of_meta (tb_meta tb)) items) \<longrightarrow> distinct (map series (result (collector_Collect A K) w)))"
proof -
  have "result (collector_Collect A K) w = (case fst (api_ListTradeBots A (env w)) of
      Inl e \<Rightarrow> [] | Inr items \<Rightarrow> map (drift_sample K) items @ map phase_sample (fold count_phase items []))"
    by (simp add: result_def collector_Collect_def do_ListTradeBots_def runs split_beta)
  then show ?thesis using Collect_exact Collect_series_distinct by (auto split: sum.split)
qed

theorem scrape_exact_witness:
  "samples_exact ref_klib [demo_tb] (result (collector_Collect demo_api ref_klib) demo_world)
   \<and> distinct (map series (result (collector_Collect demo_api ref_klib) demo_world))"
proof -
  have "fst (api_ListTradeBots demo_api (env demo_world)) = Inr [demo_tb]" by (simp add: demo_api_def)
  with scrape_exact [of demo_api ref_klib demo_world] show ?thesis by simp
qed

text \<open>
  C40. Whatever the result pointer file says, the collector writes files only into its results
  volume, directly under it, and it never updates a ConfigMap: if the results ConfigMap exists
  already, the collector fails.
\<close>

theorem collector_writes_inside:
  assumes "cr_ResultsDir opts = CHR ''/'' # dir" and "cr_ResultsPVCDir opts = rooted_path ds" and "list_all good_part ds"
  shows "list_all (collector_event ds) (events (collect_Run fuel A G in_cluster new_client opts) w)
     \<and> ((\<forall>c x. \<exists>e. fst (api_CreateConfigMap A c x) = Some e \<and> IsAlreadyExists e)
        \<longrightarrow> result (collect_Run fuel A G in_cluster new_client opts) w \<noteq> Some None)"
  using onlyD [OF Run_events [OF assms]] yieldsD [OF Run_existing] by blast

theorem collector_writes_inside_witness:
  "list_all (collector_event [''results'']) (events (collect_Run 3 demo_files_api demo_jsonlib None None demo_opts) demo_world)"
  by (rule conjunct1 [OF collector_writes_inside [where dir = "''freqtrade/user_data/backtest_results''"]])
     (simp_all add: demo_opts_def rooted_path_def good_part_def)

section \<open>Further facts\<close>

text \<open>
  A resource pass that succeeds has applied a StatefulSet with the image it reports, reports the
  hash of the configuration it rendered, and reports drift exactly when the applied template
  carries another hash; under Auto there is no drift.
\<close>

lemma resources_outcome:
  assumes "klib_laws K"
    and "result (reconcileResources A K R tb strat cd fs) w = Inr out"
  shows "ro_appliedConfigHash out = computeConfigHash cd (ss_Script (sy_Spec strat))
     \<and> (\<exists>s. ApplyPatch (MStatefulSet s) None \<in> set (events (reconcileResources A K R tb strat cd fs) w)
          \<and> main_image s = ro_resolvedImage out
          \<and> (ro_configDrift out \<longleftrightarrow> template_hash s \<noteq> computeConfigHash cd (ss_Script (sy_Spec strat)))
          \<and> (tb_UpdateStrategy (tb_Spec tb) = ''Auto'' \<longrightarrow> \<not> ro_configDrift out))"
  using pass_ok_outcome [OF emitsD [OF reconcileResources_pass [OF assms(1), of A R tb strat cd fs], of w], OF assms(2)]
  by blast

text \<open>
  A status that is right already is not written again: a status patch of the reconciler, after a
  success, after a failure or for the desired state, that finds the object as the same patch has
  left it, at whatever time, sends no update, so that a steady bot is not rewritten on every
  reconcile.
\<close>

lemma steady_status_not_rewritten:
  assumes "steady_klib K" and "ty \<noteq> ConditionReady"
    and "m = success_mutate K ws msg out \<or> m = fail_mutate K ty rs msg \<or> m = (\<lambda>now. set_cond K now c)"
    and "\<And>e b. fst (api_GetBetaTradeBot A (key_of_meta (tb_meta t)) e) = Inr b \<Longrightarrow> \<exists>n b0. b = patched_to t m n b0"
  shows "list_all (\<lambda>e. tradebot_write e = None) (events (patchTradeBotStatus A K t m) w)"
  by (rule onlyD [OF steady_patch [OF assms(1) _ assms(4)]])
     (use assms(3) success_idempotent [OF assms(1)] fail_idempotent [OF assms(1,2)] cond_idempotent [OF assms(1)] in blast)

text \<open>
  A reconcile of a Backtest applies an object, its Job included, only when it read the Backtest
  as live, then found no Job, and the status read records no outcome: a run that has a Job or an
  outcome is never started again.
\<close>

lemma backtest_one_shot:
  "\<forall>e \<in> set (events (Backtest_Reconcile A K G R key) w). applies e \<longrightarrow>
     (\<exists>b x u. events (Backtest_Reconcile A K G R key) w
          = GetBacktest key (Inr b) # GetJob (key_of_meta (bk_meta b)) (Inl x) # u
        \<and> IsNotFound x \<and> recordedOutcome K b = None \<and> om_DeletionTimestamp (bk_meta b) = None)"
  by (rule emitsD [OF Backtest_Reconcile_one_shot])

text \<open>
  A reconcile applies an object or calls the bot only after it has read the bot as live (no
  deletion timestamp), holding the operator's finalizer, and in trade mode.
\<close>

lemma actions_need_managed_bot:
  "sofar (\<lambda>p e. acts e \<longrightarrow> (\<exists>tb. GetTradeBot key (Inr tb) \<in> set p \<and> manageable K tb))
     (events (Reconcile A K G R key) w)"
  by (rule emitsD [OF Reconcile_guarded])

text \<open>
  In every reachable state of the poller the channel holds at most twice the number of workers,
  at most that many polls run, and every bot marked in flight is queued or being polled, so no
  bot is skipped for ever.
\<close>

lemma scheduler_invariant:
  assumes "poll_reachable K configured s"
  shows "poll_inv configured s"
  using assms by (rule poll_inv_reachable)

text \<open>
  Whatever the user overrides, the bot's pod has one main container that runs freqtrade with the
  operator's arguments first and the user's after them, under the restricted security context,
  with the overriding image or the given one.
\<close>

lemma pod_runs_owned_command:
  "\<exists>c. ps_Containers (BuildPod tb img s cs cm pv fa) = [c]
     \<and> ct_Args c = owned_args s @ fa \<and> ct_Command c = [freqtradeAppName]
     \<and> ct_SecurityContext c = Some RestrictedSecurityContext
     \<and> ct_Image c = (case app_of tb app_PodSpec of None \<Rightarrow> img
         | Some ov \<Rightarrow> if tp_Image ov = [] then img else tp_Image ov)"
  by (rule BuildPod_main)

text \<open>
  The operator understands the command line it writes: the arguments the pod builder gives the
  results sidecar make the binary run the collector, whatever the names of the run and the
  strategy look like, with exactly these names, the pod's own name and namespace, the
  directories the pod mounts and the name of the main container, and the exit code is 0 exactly
  if the collector succeeds.
\<close>

lemma sidecar_invocation:
  "go_main getenv collect manager (argv0 # ct_Args (buildSidecarContainer operatorImage backtestName strategyName)) =
     map_option (\<lambda>e. if e = None then 0 else 1) (collect \<lparr>cr_BacktestName = backtestName, cr_StrategyName = strategyName,
       cr_PodName = getenv ''POD_NAME'', cr_Namespace = getenv ''POD_NAMESPACE'', cr_MainContainerName = ''freqtrade'',
       cr_ResultsDir = ''/freqtrade/user_data/backtest_results'', cr_ResultsPVCDir = ResultsPVCMountPath\<rparr>)"
  using sidecar_options [of getenv operatorImage backtestName strategyName]
  by (simp add: go_main_def buildSidecarContainer_def)

text \<open>
  Every status the Strategy reconciler writes says Valid with Ready True exactly when the
  admission webhook would accept the Strategy it read, and Invalid with Ready False otherwise.
\<close>

lemma strategy_verdict_agrees:
  assumes "klib_laws K"
  shows "sofar (\<lambda>p e. \<forall>obj. written_strategy e = Some obj \<longrightarrow>
     (\<exists>s. GetStrategy key (Inr s) \<in> set p \<and> strategy_verdict K (validateStrategySpec s = None) obj))
     (events (Strategy_Reconcile A K has_recorder key) w)"
  by (rule emitsD [OF Strategy_Reconcile_verdict [OF assms]])

text \<open>
  The JWT signing key settled on for an enabled API server is at least 32 bytes long or was read
  back from the bot's own config Secret, so it stays the same across reconciles; with the API
  server off there is none.
\<close>

lemma jwt_key_resolved:
  assumes "result (resolveAPIServerJWTSecretKey A G name ns s c) w = Inr k"
  shows "if map_option as_Enabled (tcs_APIServer s) \<noteq> Some (Some True) then k = []
      else minAPIServerJWTSecretKeyLength \<le> length k
        \<or> (k \<noteq> [] \<and> list_ex (\<lambda>e. stored_jwt G name e k) (events (resolveAPIServerJWTSecretKey A G name ns s c) w))"
  using emitsD [OF resolve_jwt_emits [of A G name ns s c], of w] assms by (simp add: list_ex_iff split: if_splits)

text \<open>
  The name-conflict report is never made for a collision: the objects handed to Apply are
  freshly built and carry no owner, so whatever exists in the cluster, an exposure without
  over-long names never ends with reason RouteNameConflict.
\<close>

lemma frequi_name_conflict:
  assumes "klib_laws K" and "server_errors A" and "\<And>m e. GVKForObject K m = Inl e \<Longrightarrow> \<not> is_already_owned e"
    and "snd (BuildFreqUIHTTPRoutes K f apis) = []"
    and "result (reconcileExposure A K R f apis) w = Inr c"
  shows "cd_Reason c \<noteq> ReasonRouteNameConflict"
proof -
  have "yields (reconcileExposure A K R f apis) (\<lambda>r. \<forall>c. r = Inr c \<longrightarrow> cd_Reason c \<noteq> ReasonRouteNameConflict)"
    by (rule exposure_conflict [OF assms(1,2)]) (use assms(3,4) in auto)
  from yieldsD [OF this] assms(5) show ?thesis by blast
qed

text \<open>
  The dry-run flag, trading mode, stake amount and open-trade limit of the rendered
  configuration are those of the bot section of the TradeBotConfig, and absent where the section
  leaves them out: no other section can change them.
\<close>

lemma rendered_trading_settings:
  "map_of (assembleConfig G n s x c j es ns cors) ''dry_run'' = Option.bind (tcs_Bot s) (\<lambda>b. map_option JBool (bc_DryRun b))
   \<and> map_of (assembleConfig G n s x c j es ns cors) ''trading_mode'' = Option.bind (tcs_Bot s)
        (\<lambda>b. if bc_TradingMode b = [] then None else Some (JStr (bc_TradingMode b)))
   \<and> map_of (assembleConfig G n s x c j es ns cors) ''stake_amount'' = Option.bind (tcs_Bot s)
        (\<lambda>b. if bc_StakeAmount b = [] then None else Some (renderStakeAmount G (bc_StakeAmount b)))
   \<and> map_of (assembleConfig G n s x c j es ns cors) ''max_open_trades'' = Option.bind (tcs_Bot s) (\<lambda>b. map_option JInt (bc_MaxOpenTrades b))"
  by (cases "tcs_Bot s")
     (auto simp: assembleConfig_bot_key buildBotConfigFields_def Let_def config_lookup)

text \<open>
  The CORS hosts collected for a bot are, sorted and without repetition, exactly the origins of
  the FreqUIs that reference it.
\<close>

lemma cors_hosts_exact:
  "set (collectCORSHostsForTradeBot G tb fs) = (\<Union>f \<in> {f. f \<in> set fs \<and> references tb f}. set (cors_candidates G f))
   \<and> distinct (collectCORSHostsForTradeBot G tb fs) \<and> sorted (collectCORSHostsForTradeBot G tb fs)"
  using collectCORS_set by simp

text \<open>
  A bot whose last good poll reported its dry-run mode and whose next poll failed keeps the
  gauges of the good poll exposed after it is forgotten: the failed poll overwrote the
  remembered dry_run label with unknown, and only the series with that label are deleted.
\<close>

lemma stale_series_survive_forgetting:
  assumes "bs_DryRun b = Some d"
    and "good = recordMetrics A G (tb_key tb) tb (Some b) c ex bal p"
    and "bad = recordMetrics A G (tb_key tb) tb None c' ex bal' (result good w)"
    and "map_of (result bad w') (tb_key tb) = Some e'"
  shows "(''freqtrade_bot_up'', bot_labels tb ex (dry_run_label (Some b)))
    \<in> set (exposed (events good w @ events bad w' @ forget_events [(tb_key tb, e')]))"
  by (rule stale_series_survive [OF refl assms])

text \<open>
  A response body over the client's cap is an error whatever its status code, so nothing of it
  reaches the status.
\<close>

lemma oversized_response_rejected:
  assumes "http_NewRequest G mth (bcl_baseURL c @ path) = None"
    and "fst (api_HTTPDo A (bot_request c mth path body) (env w)) = Inr resp"
    and "rs_Body resp = Inr full" and "length full > maxResponseBody"
  shows "\<exists>m. result (bot_do A G c mth path body out) w = Inl (ErrString m)"
  using assms by (rule bot_do_oversized)

end
